(* ===== verification/Prelude.thy ===== *)
theory Prelude
  imports Main "HOL-Library.Word" "HOL-Library.Finite_Map"
begin

text \<open>
  The vocabulary every component shares: Go's integer and byte types, errors and results, finite
  maps with an explicit iteration order, and the byte-level arithmetic of little- and big-endian
  integers.  The collection \<open>codec\<close> holds the rewrite rules that let the simplifier run a decoder over
  an encoder's output.
\<close>

named_theorems codec \<open>reading back what was written\<close>

section \<open>Basic types\<close>

type_synonym byte = "8 word"
type_synonym bytes = "8 word list"
type_synonym uint16 = "16 word"
type_synonym uint32 = "32 word"
type_synonym uint64 = "64 word"

text \<open>An \<open>int64\<close> is a 64-bit word read in two's complement (\<open>sint\<close>); \<open>+\<close> and \<open>-\<close> wrap.\<close>

type_synonym int64 = "64 word"

text \<open>
  A libp2p \<open>peer.ID\<close> is a Go string of raw bytes; the model keeps the bytes.  The zero value is
  the empty string.
\<close>

type_synonym peer_id = bytes

section \<open>Errors and results\<close>

text \<open>
  \<open>ErrorS s\<close> is \<open>errors.New(s)\<close> or \<open>fmt.Errorf(s, ...)\<close> (the error is identified by its format
  string), \<open>Wrapped s e\<close> is \<open>fmt.Errorf("s: %w", e)\<close> or \<open>errors.Wrap(e, s)\<close>, and \<open>Panic\<close> is a run-time
  panic: it is not an error value, so wrapping leaves it alone.
\<close>

datatype go_error = ErrorS string | Wrapped string go_error | Panic string

type_synonym 'a result = "go_error + 'a"

definition bindE :: "'a result \<Rightarrow> ('a \<Rightarrow> 'b result) \<Rightarrow> 'b result" where
  "bindE r f = (case r of Inl e \<Rightarrow> Inl e | Inr x \<Rightarrow> f x)"

fun wrap_error :: "string \<Rightarrow> go_error \<Rightarrow> go_error" where
  "wrap_error s (Panic p) = Panic p"
| "wrap_error s e = Wrapped s e"

definition wrapE :: "string \<Rightarrow> 'a result \<Rightarrow> 'a result" where
  "wrapE s r = (case r of Inl e \<Rightarrow> Inl (wrap_error s e) | Inr x \<Rightarrow> Inr x)"

fun is_panic :: "go_error \<Rightarrow> bool" where
  "is_panic (Panic _) = True"
| "is_panic _ = False"

definition panics :: "'a result \<Rightarrow> bool" where
  "panics r = (case r of Inl e \<Rightarrow> is_panic e | Inr _ \<Rightarrow> False)"

text \<open>\<open>errors.Is(err, target)\<close> for a sentinel \<open>target\<close>: the wrapping chain is searched.\<close>

fun errors_Is :: "go_error \<Rightarrow> go_error \<Rightarrow> bool" where
  "errors_Is (Wrapped s e) t = (Wrapped s e = t \<or> errors_Is e t)"
| "errors_Is e t = (e = t)"

lemma bindE_Inr [simp]: "bindE (Inr x) f = f x"
  by (simp add: bindE_def)

lemma bindE_Inl [simp]: "bindE (Inl e) f = Inl e"
  by (simp add: bindE_def)

lemma wrapE_Inr [simp]: "wrapE s (Inr x) = Inr x"
  by (simp add: wrapE_def)

lemma wrapE_Inl [simp]: "wrapE s (Inl e) = Inl (wrap_error s e)"
  by (simp add: wrapE_def)

lemma wrapE_eq_Inr [simp]: "wrapE s r = Inr x \<longleftrightarrow> r = Inr x"
  by (cases r) auto

lemma bindE_eq_Inr: "bindE r f = Inr y \<longleftrightarrow> (\<exists>x. r = Inr x \<and> f x = Inr y)"
  by (cases r) auto

lemma is_panic_wrap [simp]: "is_panic (wrap_error s e) \<longleftrightarrow> is_panic e"
  by (cases e) auto

lemma panics_Inr [simp]: "\<not> panics (Inr x)"
  by (simp add: panics_def)

lemma panics_Inl [simp]: "panics (Inl e) \<longleftrightarrow> is_panic e"
  by (simp add: panics_def)

lemma panics_wrapE [simp]: "panics (wrapE s r) \<longleftrightarrow> panics r"
  by (cases r) auto

lemma panics_bindE: "panics (bindE r f) \<longleftrightarrow> panics r \<or> (\<exists>x. r = Inr x \<and> panics (f x))"
  by (cases r) auto

lemma panics_if [simp]: "panics (if b then r else r') \<longleftrightarrow> (if b then panics r else panics r')"
  by simp

section \<open>Go maps\<close>

text \<open>
  A Go map is a finite map.  \<open>len(m)\<close> is the number of its keys.  Go leaves the order of
  \<open>for k := range m\<close> unspecified, so an operation that ranges over a map takes the order as an
  argument, and what is proved holds for every order that \<open>ranges\<close> over the map.
\<close>

definition fmlen :: "('k, 'v) fmap \<Rightarrow> nat" where
  "fmlen m = fcard (fmdom m)"

definition ranges :: "'k list \<Rightarrow> ('k, 'v) fmap \<Rightarrow> bool" where
  "ranges ks m \<longleftrightarrow> distinct ks \<and> fset_of_list ks = fmdom m"

text \<open>The values met when the map is ranged over in a given order.\<close>

definition range_values :: "'k list \<Rightarrow> ('k, 'v) fmap \<Rightarrow> 'v list" where
  "range_values ks m = List.map_filter (fmlookup m) ks"

lemma fmlen_empty [simp]: "fmlen fmempty = 0"
  by (simp add: fmlen_def)

lemma fmlen_upd: "fmlen (fmupd k v m) = (if k |\<in>| fmdom m then fmlen m else Suc (fmlen m))"
  by (simp add: fmlen_def fcard_finsert_if)

lemma fmlen_upd_le: "fmlen m \<le> fmlen (fmupd k v m)"
  by (simp add: fmlen_upd)

lemma fmlen_drop: "fmlen (fmdrop k m) = (if k |\<in>| fmdom m then fmlen m - 1 else fmlen m)"
  by (simp add: fmlen_def fcard_fminus_fsingleton_if)

lemma fmlen_drop_le: "fmlen (fmdrop k m) \<le> fmlen m"
  by (simp add: fmlen_drop)

lemma fmlen_eq_0 [simp]: "fmlen m = 0 \<longleftrightarrow> m = fmempty"
  by (metis fcard_0_eq fmdom_empty fmlen_def fmrestrict_fset_dom fmrestrict_fset_null)

lemma map_le_fmdom: "fmlookup m \<subseteq>\<^sub>m fmlookup m' \<Longrightarrow> fmdom m |\<subseteq>| fmdom m'"
  by (metis fmdomE fmdomI fsubsetI map_le_def domI)

lemma map_le_fset: "fmlookup m \<subseteq>\<^sub>m fmlookup m' \<Longrightarrow> fset (fmdom m) \<subseteq> fset (fmdom m')"
  using map_le_fmdom [of m m'] by (simp only: less_eq_fset.rep_eq)

lemma fmlen_mono: "fmlookup m \<subseteq>\<^sub>m fmlookup m' \<Longrightarrow> fmlen m \<le> fmlen m'"
  by (simp add: fmlen_def fcard_mono map_le_fmdom)

lemma fmdrop_lookup_if: "fmlookup (fmdrop k m) k' = (if k' = k then None else fmlookup m k')"
  by simp

lemma ranges_length: "ranges ks m \<Longrightarrow> length ks = fmlen m"
  by (metis distinct_card fcard.rep_eq fmlen_def fset_of_list.rep_eq ranges_def)

lemma ranges_set: "ranges ks m \<Longrightarrow> set ks = fset (fmdom m)"
  by (metis fset_of_list.rep_eq ranges_def)

lemma ranges_empty [simp]: "ranges [] fmempty"
  by (simp add: ranges_def)

lemma ranges_ex: "\<exists>ks. ranges ks m"
proof -
  have "finite (fset (fmdom m))" by simp
  then obtain ks where "set ks = fset (fmdom m)" "distinct ks"
    using finite_distinct_list by blast
  then have "ranges ks m"
    by (metis fset_inject fset_of_list.rep_eq ranges_def)
  then show ?thesis ..
qed

lemma range_values_map:
  assumes "set ks \<subseteq> fset (fmdom m)"
  shows "range_values ks m = map (\<lambda>k. the (fmlookup m k)) ks"
  using assms
  by (induction ks) (auto simp: range_values_def List.map_filter_def fmlookup_dom_iff)

lemma range_values_length: "ranges ks m \<Longrightarrow> length (range_values ks m) = fmlen m"
  by (simp add: range_values_map ranges_set ranges_length)

lemma set_range_values:
  "ranges ks m \<Longrightarrow> set (range_values ks m) = {v. \<exists>k. fmlookup m k = Some v}"
  by (auto simp: range_values_map ranges_set fmlookup_dom_iff intro!: rev_image_eqI)

lemma fmlookup_upd_map: "fmlookup (fmupd k v m) = (fmlookup m)(k \<mapsto> v)"
  by (auto simp: fun_eq_iff)

lemma ran_fmempty [simp]: "ran (fmlookup fmempty) = {}"
  by (simp add: ran_def)

lemma ran_fmupd: "fmlookup m k = None \<Longrightarrow> ran (fmlookup (fmupd k v m)) = insert v (ran (fmlookup m))"
  by (simp only: fmlookup_upd_map ran_map_upd)

lemma ran_range_values: "ranges ks m \<Longrightarrow> ran (fmlookup m) = set (range_values ks m)"
  using set_range_values [of ks m] by (auto simp: ran_def)

section \<open>Integers as byte runs\<close>

text \<open>
  \<open>le_run n x\<close> is the little-endian run of the \<open>n\<close> low bytes of \<open>x\<close>, \<open>run_le\<close> reads one back.
  The big-endian run is the reverse.  The arithmetic is on \<open>int\<close>, so that both evaluate quickly.
\<close>

fun le_run :: "nat \<Rightarrow> int \<Rightarrow> bytes" where
  "le_run 0 x = []"
| "le_run (Suc n) x = word_of_int (x mod 256) # le_run n (x div 256)"

fun run_le :: "bytes \<Rightarrow> int" where
  "run_le [] = 0"
| "run_le (b # bs) = uint b + 256 * run_le bs"

lemma length_le_run [simp]: "length (le_run n x) = n"
  by (induction n arbitrary: x) auto

lemma uint_byte_bounds: "0 \<le> uint (b :: byte)" "uint b < 256"
  using unsigned_less [of b, where ?'a = int] by simp_all

lemma run_le_le_run: "run_le (le_run n x) = x mod 256 ^ n"
proof (induction n arbitrary: x)
  case 0
  then show ?case by simp
next
  case (Suc n)
  then show ?case
    by (simp add: zmod_zmult2_eq [of "256 ^ n" x 256] uint_word_of_int)
qed

lemma le_run_run_le: "length bs = n \<Longrightarrow> le_run n (run_le bs) = bs"
proof (induction bs arbitrary: n)
  case Nil
  then show ?case by simp
next
  case (Cons b bs)
  with uint_byte_bounds [of b] show ?case by auto
qed

text \<open>The integer codecs of \<open>encoding/binary\<close>: \<open>PutUintN\<close> and \<open>UintN\<close>, little-endian.\<close>

definition LE_PutUint32 :: "uint32 \<Rightarrow> bytes" where
  "LE_PutUint32 w = le_run 4 (uint w)"

definition LE_PutUint64 :: "uint64 \<Rightarrow> bytes" where
  "LE_PutUint64 w = le_run 8 (uint w)"

definition LE_Uint32 :: "bytes \<Rightarrow> uint32" where
  "LE_Uint32 bs = word_of_int (run_le bs)"

definition LE_Uint64 :: "bytes \<Rightarrow> uint64" where
  "LE_Uint64 bs = word_of_int (run_le bs)"

definition BE_PutUint16 :: "uint16 \<Rightarrow> bytes" where
  "BE_PutUint16 w = rev (le_run 2 (uint w))"

definition BE_Uint16 :: "bytes \<Rightarrow> uint16" where
  "BE_Uint16 bs = word_of_int (run_le (rev bs))"

lemma length_LE_PutUint32 [simp]: "length (LE_PutUint32 w) = 4"
  by (simp add: LE_PutUint32_def)

lemma length_LE_PutUint64 [simp]: "length (LE_PutUint64 w) = 8"
  by (simp add: LE_PutUint64_def)

lemma length_BE_PutUint16 [simp]: "length (BE_PutUint16 w) = 2"
  by (simp add: BE_PutUint16_def)

lemma LE_Uint32_Put [simp, codec]: "LE_Uint32 (LE_PutUint32 w) = w"
proof -
  have "uint w < 256 ^ 4" using unsigned_less [of w, where ?'a = int] by simp
  then show ?thesis by (simp add: LE_Uint32_def LE_PutUint32_def run_le_le_run)
qed

lemma LE_Uint64_Put [simp, codec]: "LE_Uint64 (LE_PutUint64 w) = w"
proof -
  have "uint w < 256 ^ 8" using unsigned_less [of w, where ?'a = int] by simp
  then show ?thesis by (simp add: LE_Uint64_def LE_PutUint64_def run_le_le_run)
qed

lemma BE_Uint16_Put [simp, codec]: "BE_Uint16 (BE_PutUint16 w) = w"
proof -
  have "uint w < 256 ^ 2" using unsigned_less [of w, where ?'a = int] by simp
  then show ?thesis by (simp add: BE_Uint16_def BE_PutUint16_def run_le_le_run)
qed

lemma LE_PutUint32_inject [simp]: "LE_PutUint32 a = LE_PutUint32 b \<longleftrightarrow> a = b"
  by (metis LE_Uint32_Put)

lemma LE_PutUint64_inject [simp]: "LE_PutUint64 a = LE_PutUint64 b \<longleftrightarrow> a = b"
  by (metis LE_Uint64_Put)

text \<open>\<open>uint32(len(xs))\<close>: the conversion truncates, so it is exact only below \<open>2 ^ 32\<close>.\<close>

definition uint32_len :: "'a list \<Rightarrow> uint32" where
  "uint32_len xs = word_of_nat (length xs)"

lemma unat_uint32_len [simp]: "length xs < 2 ^ 32 \<Longrightarrow> unat (uint32_len xs) = length xs"
  by (simp add: uint32_len_def unat_of_nat)

lemma unat_uint32_len_le: "unat (uint32_len xs) \<le> length xs"
  by (simp add: uint32_len_def unat_of_nat)

section \<open>Transition systems\<close>

text \<open>
  The components that run as state machines are step relations.  A client states an invariant by
  interpreting this locale; what is reached from an initial state then satisfies it.
\<close>

locale invariant_system =
  fixes init :: "'s \<Rightarrow> bool" and step :: "'s \<Rightarrow> 's \<Rightarrow> bool" and inv :: "'s \<Rightarrow> bool"
  assumes inv_init: "init s \<Longrightarrow> inv s"
    and inv_step: "inv s \<Longrightarrow> step s s' \<Longrightarrow> inv s'"
begin

lemma inv_run: "step\<^sup>*\<^sup>* s s' \<Longrightarrow> inv s \<Longrightarrow> inv s'"
  by (induction rule: rtranclp_induct) (auto intro: inv_step)

lemma inv_reachable: "init s \<Longrightarrow> step\<^sup>*\<^sup>* s s' \<Longrightarrow> inv s'"
  using inv_init inv_run by blast

end

end
