(* ===== verification/Go_Stdlib.thy ===== *)
theory Go_Stdlib
  imports Prelude
begin

text \<open>
  The parts of Go's standard library the program relies on, as its documentation and sources give
  them: slice expressions, \<open>bytes.Buffer\<close> and \<open>bytes.Reader\<close> as the bytes still unread,
  \<open>io.ReadFull\<close>, \<open>binary.Read\<close>, \<open>encoding/hex\<close>, \<open>strings.TrimPrefix\<close> and \<open>strings.Trim\<close>,
  \<open>crypto/sha256\<close> and \<open>hash/fnv\<close>.  The lemmas in \<open>codec\<close> say that each read returns what the matching
  write produced and leaves the rest.
\<close>

unbundle bit_operations_syntax

section \<open>Slices\<close>

text \<open>\<open>data[lo:hi]\<close>: out of range is a run-time panic.\<close>

definition slice :: "'a list \<Rightarrow> nat \<Rightarrow> nat \<Rightarrow> 'a list result" where
  "slice xs lo hi =
     (if lo \<le> hi \<and> hi \<le> length xs then Inr (take (hi - lo) (drop lo xs))
      else Inl (Panic ''slice bounds out of range''))"

lemma slice_in_range [simp]:
  "lo \<le> hi \<Longrightarrow> hi \<le> length xs \<Longrightarrow> slice xs lo hi = Inr (take (hi - lo) (drop lo xs))"
  by (simp add: slice_def)

text \<open>\<open>copy(dst[:], src)\<close> into a zeroed array of \<open>n\<close> bytes.\<close>

definition copy_array :: "nat \<Rightarrow> bytes \<Rightarrow> bytes" where
  "copy_array n src = take n src @ replicate (n - length src) 0"

lemma length_copy_array [simp]: "length (copy_array n src) = n"
  by (simp add: copy_array_def)

lemma copy_array_id [simp]: "length src = n \<Longrightarrow> copy_array n src = src"
  by (simp add: copy_array_def)

section \<open>Readers\<close>

definition EOF :: go_error where "EOF = ErrorS ''EOF''"
definition ErrUnexpectedEOF :: go_error where "ErrUnexpectedEOF = ErrorS ''unexpected EOF''"

lemma not_panic_EOF [simp]: "\<not> is_panic EOF" "\<not> is_panic ErrUnexpectedEOF"
  by (simp_all add: EOF_def ErrUnexpectedEOF_def)

text \<open>
  \<open>Read(p)\<close> with \<open>p = make([]byte, n)\<close>: the number of bytes read, the buffer afterwards (a short
  read leaves zeros behind) and the unread rest.  A \<open>bytes.Buffer\<close> accepts an empty \<open>p\<close> at the
  end of the data, a \<open>bytes.Reader\<close> reports \<open>EOF\<close> whenever nothing is left.
\<close>

definition Buffer_Read :: "nat \<Rightarrow> bytes \<Rightarrow> (nat \<times> bytes \<times> bytes) result" where
  "Buffer_Read n r =
     (if r = [] then if n = 0 then Inr (0, [], []) else Inl EOF
      else Inr (min n (length r), copy_array n r, drop n r))"

definition Reader_Read :: "nat \<Rightarrow> bytes \<Rightarrow> (nat \<times> bytes \<times> bytes) result" where
  "Reader_Read n r =
     (if r = [] then Inl EOF else Inr (min n (length r), copy_array n r, drop n r))"

text \<open>\<open>io.ReadFull\<close> on either of them: all \<open>n\<close> bytes or an error.\<close>

definition io_ReadFull :: "nat \<Rightarrow> bytes \<Rightarrow> (bytes \<times> bytes) result" where
  "io_ReadFull n r =
     (if n = 0 then Inr ([], r)
      else if r = [] then Inl EOF
      else if length r < n then Inl ErrUnexpectedEOF
      else Inr (take n r, drop n r))"

lemma Buffer_Read_append [codec]:
  "length xs = n \<Longrightarrow> Buffer_Read n (xs @ rest) = Inr (n, xs, rest)"
  by (auto simp: Buffer_Read_def copy_array_def)

lemma Reader_Read_append [codec]:
  "length xs = n \<Longrightarrow> xs @ rest \<noteq> [] \<Longrightarrow> Reader_Read n (xs @ rest) = Inr (n, xs, rest)"
  by (simp add: Reader_Read_def copy_array_def)

lemma Reader_Read_exact [codec]:
  "length xs = n \<Longrightarrow> xs \<noteq> [] \<Longrightarrow> Reader_Read n xs = Inr (n, xs, [])"
  by (simp add: Reader_Read_def copy_array_def)

lemma io_ReadFull_append [codec]: "length xs = n \<Longrightarrow> io_ReadFull n (xs @ rest) = Inr (xs, rest)"
  by (auto simp: io_ReadFull_def)

lemma io_ReadFull_exact [codec]: "length xs = n \<Longrightarrow> io_ReadFull n xs = Inr (xs, [])"
  by (auto simp: io_ReadFull_def)

lemma io_ReadFull_Inr:
  "io_ReadFull n r = Inr (xs, rest) \<Longrightarrow> r = xs @ rest \<and> length xs = n"
  by (auto simp: io_ReadFull_def split: if_splits)

lemma not_panics_io_ReadFull [simp]: "\<not> panics (io_ReadFull n r)"
  by (simp add: io_ReadFull_def)

lemma not_panics_Buffer_Read [simp]: "\<not> panics (Buffer_Read n r)"
  by (simp add: Buffer_Read_def)

lemma not_panics_Reader_Read [simp]: "\<not> panics (Reader_Read n r)"
  by (simp add: Reader_Read_def)

text \<open>\<open>binary.Read\<close> into a fixed-size integer.\<close>

definition binary_Read_uint8 :: "bytes \<Rightarrow> (byte \<times> bytes) result" where
  "binary_Read_uint8 r = bindE (io_ReadFull 1 r) (\<lambda>(bs, r'). Inr (hd bs, r'))"

definition binary_Read_uint32 :: "bytes \<Rightarrow> (uint32 \<times> bytes) result" where
  "binary_Read_uint32 r = bindE (io_ReadFull 4 r) (\<lambda>(bs, r'). Inr (LE_Uint32 bs, r'))"

definition binary_Read_uint64 :: "bytes \<Rightarrow> (uint64 \<times> bytes) result" where
  "binary_Read_uint64 r = bindE (io_ReadFull 8 r) (\<lambda>(bs, r'). Inr (LE_Uint64 bs, r'))"

definition binary_Read_uint16_BE :: "bytes \<Rightarrow> (uint16 \<times> bytes) result" where
  "binary_Read_uint16_BE r = bindE (io_ReadFull 2 r) (\<lambda>(bs, r'). Inr (BE_Uint16 bs, r'))"

lemma binary_Read_uint8_Cons [codec]: "binary_Read_uint8 (b # rest) = Inr (b, rest)"
  by (simp add: binary_Read_uint8_def io_ReadFull_def)

lemma binary_Read_uint32_append [codec]:
  "binary_Read_uint32 (LE_PutUint32 w @ rest) = Inr (w, rest)"
  by (simp add: binary_Read_uint32_def io_ReadFull_append)

lemma binary_Read_uint64_append [codec]:
  "binary_Read_uint64 (LE_PutUint64 w @ rest) = Inr (w, rest)"
  by (simp add: binary_Read_uint64_def io_ReadFull_append)

lemma binary_Read_uint16_BE_append [codec]:
  "binary_Read_uint16_BE (BE_PutUint16 w @ rest) = Inr (w, rest)"
  by (simp add: binary_Read_uint16_BE_def io_ReadFull_append)

lemma binary_Read_exact [codec]:
  "binary_Read_uint32 (LE_PutUint32 w) = Inr (w, [])"
  "binary_Read_uint64 (LE_PutUint64 v) = Inr (v, [])"
  by (simp_all add: binary_Read_uint32_def binary_Read_uint64_def io_ReadFull_exact)

lemma not_panics_binary_Read [simp]:
  "\<not> panics (binary_Read_uint8 r)" "\<not> panics (binary_Read_uint32 r)"
  "\<not> panics (binary_Read_uint64 r)" "\<not> panics (binary_Read_uint16_BE r)"
  by (auto simp: binary_Read_uint8_def binary_Read_uint32_def binary_Read_uint64_def
      binary_Read_uint16_BE_def panics_bindE)

section \<open>Strings and hexadecimal\<close>

text \<open>A Go string is a sequence of bytes: \<open>[]byte(s)\<close> and \<open>string(bs)\<close>.\<close>

definition go_bytes :: "string \<Rightarrow> bytes" where
  "go_bytes s = map (\<lambda>c. word_of_nat (of_char c)) s"

definition go_string :: "bytes \<Rightarrow> string" where
  "go_string bs = map (\<lambda>b. char_of (unat b)) bs"

lemma length_go_bytes [simp]: "length (go_bytes s) = length s"
  by (simp add: go_bytes_def)

lemma unat_of_char_byte [simp]: "unat (word_of_nat (of_char c) :: byte) = of_char c"
proof -
  have "(of_char c :: nat) < 256" by (simp add: nat_of_char_less_256)
  then show ?thesis by (simp add: unat_of_nat)
qed

lemma go_string_bytes [simp, codec]: "go_string (go_bytes s) = s"
  by (simp add: go_string_def go_bytes_def comp_def map_idI)

lemma go_bytes_append: "go_bytes (a @ b) = go_bytes a @ go_bytes b"
  by (simp add: go_bytes_def)

lemma go_bytes_inject: "go_bytes a = go_bytes b \<longleftrightarrow> a = b"
  by (metis go_string_bytes)

definition hex_digit :: "nat \<Rightarrow> char" where
  "hex_digit n = ''0123456789abcdef'' ! n"

definition hex_EncodeToString :: "bytes \<Rightarrow> string" where
  "hex_EncodeToString bs =
     concat (map (\<lambda>b. [hex_digit (unat b div 16), hex_digit (unat b mod 16)]) bs)"

text \<open>The reverse table: both cases of the letters are digits.\<close>

definition hex_value :: "char \<Rightarrow> nat option" where
  "hex_value c = (let n = of_char c :: nat in
     if 48 \<le> n \<and> n \<le> 57 then Some (n - 48)
     else if 97 \<le> n \<and> n \<le> 102 then Some (n - 87)
     else if 65 \<le> n \<and> n \<le> 70 then Some (n - 55)
     else None)"

fun hex_DecodeString :: "string \<Rightarrow> bytes result" where
  "hex_DecodeString [] = Inr []"
| "hex_DecodeString [p] =
     (case hex_value p of
        None \<Rightarrow> Inl (ErrorS ''encoding/hex: invalid byte'')
      | Some _ \<Rightarrow> Inl (ErrorS ''encoding/hex: odd length hex string''))"
| "hex_DecodeString (p # q # s) =
     (case hex_value p of
        None \<Rightarrow> Inl (ErrorS ''encoding/hex: invalid byte'')
      | Some a \<Rightarrow>
          (case hex_value q of
             None \<Rightarrow> Inl (ErrorS ''encoding/hex: invalid byte'')
           | Some b \<Rightarrow>
               bindE (hex_DecodeString s) (\<lambda>bs. Inr (word_of_nat (16 * a + b) # bs))))"

lemma length_hex_Encode [simp]: "length (hex_EncodeToString bs) = 2 * length bs"
  by (induction bs) (auto simp: hex_EncodeToString_def)

lemma less_16_cases:
  "n < 16 \<Longrightarrow> n \<in> {0, 1, 2, 3, 4, 5, 6, 7, 8, 9, 10, 11, 12, 13, 14, (15::nat)}"
  by (simp; arith)

lemma hex_value_digit [simp]: "n < 16 \<Longrightarrow> hex_value (hex_digit n) = Some n"
  by (drule less_16_cases) (auto simp: hex_digit_def hex_value_def Let_def)

lemma hex_Decode_Encode [simp, codec]: "hex_DecodeString (hex_EncodeToString bs) = Inr bs"
proof (induction bs)
  case Nil
  then show ?case by (simp add: hex_EncodeToString_def)
next
  case (Cons b bs)
  have b: "unat b < 256" using unsigned_less [of b, where ?'a = nat] by simp
  then have "unat b div 16 < 16" "unat b mod 16 < 16" by auto
  moreover have "16 * (unat b div 16) + unat b mod 16 = unat b" by simp
  moreover have "hex_EncodeToString (b # bs) =
      hex_digit (unat b div 16) # hex_digit (unat b mod 16) # hex_EncodeToString bs"
    by (simp add: hex_EncodeToString_def)
  ultimately show ?case using Cons by simp
qed

lemma hex_Encode_inject [simp]:
  "hex_EncodeToString a = hex_EncodeToString b \<longleftrightarrow> a = b"
  by (metis hex_Decode_Encode sum.inject(2))

lemma hex_DecodeString_length:
  "hex_DecodeString s = Inr bs \<Longrightarrow> length s = 2 * length bs"
  by (induction s arbitrary: bs rule: hex_DecodeString.induct)
    (auto simp: bindE_eq_Inr split: option.splits)

lemma not_panics_hex_Decode [simp]: "\<not> panics (hex_DecodeString s)"
  by (induction s rule: hex_DecodeString.induct)
    (auto simp: panics_bindE split: option.splits)

definition strings_TrimPrefix :: "string \<Rightarrow> string \<Rightarrow> string" where
  "strings_TrimPrefix s p = (if take (length p) s = p then drop (length p) s else s)"

text \<open>\<open>strings.Trim(s, cutset)\<close> for a one-byte cutset.\<close>

definition strings_Trim1 :: "char \<Rightarrow> string \<Rightarrow> string" where
  "strings_Trim1 c s = rev (dropWhile (\<lambda>x. x = c) (rev (dropWhile (\<lambda>x. x = c) s)))"

text \<open>\<open>strings.Split(s, sep)\<close> for a one-byte separator.\<close>

fun strings_Split1 :: "char \<Rightarrow> string \<Rightarrow> string list" where
  "strings_Split1 c [] = [[]]"
| "strings_Split1 c (x # xs) =
     (if x = c then [] # strings_Split1 c xs
      else (case strings_Split1 c xs of [] \<Rightarrow> [[x]] | y # ys \<Rightarrow> (x # y) # ys))"

lemma strings_Split1_none: "c \<notin> set a \<Longrightarrow> strings_Split1 c a = [a]"
  by (induction a) auto

lemma strings_Split1_append: "c \<notin> set a \<Longrightarrow> strings_Split1 c (a @ c # b) = a # strings_Split1 c b"
  by (induction a) auto

lemma hex_digit_neq [simp]:
  "n < 16 \<Longrightarrow> hex_digit n \<noteq> CHR ''x''" "n < 16 \<Longrightarrow> hex_digit n \<noteq> CHR 0x22"
  by (drule less_16_cases, auto simp: hex_digit_def)+

lemma hex_Encode_chars: "c \<in> set (hex_EncodeToString bs) \<Longrightarrow> \<exists>n < 16. c = hex_digit n"
proof -
  assume "c \<in> set (hex_EncodeToString bs)"
  then have "\<exists>b :: byte. c = hex_digit (unat b div 16) \<or> c = hex_digit (unat b mod 16)"
    by (induction bs) (auto simp: hex_EncodeToString_def)
  then obtain b :: byte where "c = hex_digit (unat b div 16) \<or> c = hex_digit (unat b mod 16)"
    by blast
  moreover have "unat b < 256" using unsigned_less [of b, where ?'a = nat] by simp
  then have "unat b div 16 < 16" "unat b mod 16 < 16" by auto
  ultimately show ?thesis by blast
qed

end
