(* ===== verification/Go_Hash.thy ===== *)
theory Go_Hash
  imports Go_Stdlib
begin

text \<open>
  The hash functions of Go's standard library the program calls: \<open>crypto/sha256\<close> (FIPS 180-4) and the
  32-bit FNV-1a of \<open>hash/fnv\<close>, both on byte lists and executable.
\<close>

unbundle bit_operations_syntax

section \<open>SHA-256\<close>

definition sha256_H0 :: "uint32 list" where
  "sha256_H0 =
     [0x6A09E667, 0xBB67AE85, 0x3C6EF372, 0xA54FF53A,
      0x510E527F, 0x9B05688C, 0x1F83D9AB, 0x5BE0CD19]"

definition sha256_K :: "uint32 list" where
  "sha256_K =
     [0x428A2F98, 0x71374491, 0xB5C0FBCF, 0xE9B5DBA5,
      0x3956C25B, 0x59F111F1, 0x923F82A4, 0xAB1C5ED5,
      0xD807AA98, 0x12835B01, 0x243185BE, 0x550C7DC3,
      0x72BE5D74, 0x80DEB1FE, 0x9BDC06A7, 0xC19BF174,
      0xE49B69C1, 0xEFBE4786, 0x0FC19DC6, 0x240CA1CC,
      0x2DE92C6F, 0x4A7484AA, 0x5CB0A9DC, 0x76F988DA,
      0x983E5152, 0xA831C66D, 0xB00327C8, 0xBF597FC7,
      0xC6E00BF3, 0xD5A79147, 0x06CA6351, 0x14292967,
      0x27B70A85, 0x2E1B2138, 0x4D2C6DFC, 0x53380D13,
      0x650A7354, 0x766A0ABB, 0x81C2C92E, 0x92722C85,
      0xA2BFE8A1, 0xA81A664B, 0xC24B8B70, 0xC76C51A3,
      0xD192E819, 0xD6990624, 0xF40E3585, 0x106AA070,
      0x19A4C116, 0x1E376C08, 0x2748774C, 0x34B0BCB5,
      0x391C0CB3, 0x4ED8AA4A, 0x5B9CCA4F, 0x682E6FF3,
      0x748F82EE, 0x78A5636F, 0x84C87814, 0x8CC70208,
      0x90BEFFFA, 0xA4506CEB, 0xBEF9A3F7, 0xC67178F2]"

definition rotr32 :: "nat \<Rightarrow> uint32 \<Rightarrow> uint32" where
  "rotr32 n w = drop_bit n w OR push_bit (32 - n) w"

definition sigma0 :: "uint32 \<Rightarrow> uint32" where
  "sigma0 x = rotr32 7 x XOR rotr32 18 x XOR drop_bit 3 x"

definition sigma1 :: "uint32 \<Rightarrow> uint32" where
  "sigma1 x = rotr32 17 x XOR rotr32 19 x XOR drop_bit 10 x"

definition Sigma0 :: "uint32 \<Rightarrow> uint32" where
  "Sigma0 x = rotr32 2 x XOR rotr32 13 x XOR rotr32 22 x"

definition Sigma1 :: "uint32 \<Rightarrow> uint32" where
  "Sigma1 x = rotr32 6 x XOR rotr32 11 x XOR rotr32 25 x"

text \<open>Runs of \<open>n\<close> elements; the last may be shorter.\<close>

function chunks :: "nat \<Rightarrow> 'a list \<Rightarrow> 'a list list" where
  "chunks n xs = (if n = 0 \<or> xs = [] then [] else take n xs # chunks n (drop n xs))"
  by pat_completeness auto
termination
  by (relation "measure (\<lambda>(n, xs). length xs)") auto

declare chunks.simps [simp del]

text \<open>Padding: the bit 1, zeros, and the length in bits as a big-endian 64-bit integer.\<close>

definition sha256_pad :: "bytes \<Rightarrow> bytes" where
  "sha256_pad m =
     m @ [0x80] @ replicate ((119 - length m mod 64) mod 64) 0 @ rev (le_run 8 (8 * int (length m)))"

fun sha256_schedule :: "nat \<Rightarrow> uint32 list \<Rightarrow> uint32 list" where
  "sha256_schedule 0 w = w"
| "sha256_schedule (Suc n) w =
     (let t = length w in
      sha256_schedule n
        (w @ [sigma1 (w ! (t - 2)) + w ! (t - 7) + sigma0 (w ! (t - 15)) + w ! (t - 16)]))"

fun sha256_round :: "uint32 list \<Rightarrow> uint32 \<times> uint32 \<Rightarrow> uint32 list" where
  "sha256_round [a, b, c, d, e, f, g, h] (k, w) =
     (let t1 = h + Sigma1 e + ((e AND f) XOR ((NOT e) AND g)) + k + w;
          t2 = Sigma0 a + ((a AND b) XOR (a AND c) XOR (b AND c))
      in [t1 + t2, a, b, c, d + t1, e, f, g])"
| "sha256_round v _ = v"

definition sha256_block :: "uint32 list \<Rightarrow> bytes \<Rightarrow> uint32 list" where
  "sha256_block h blk =
     (let w = sha256_schedule 48 (map (\<lambda>c. LE_Uint32 (rev c)) (chunks 4 blk))
      in map2 (+) h (foldl sha256_round h (zip sha256_K w)))"

definition sha256_Sum256 :: "bytes \<Rightarrow> bytes" where
  "sha256_Sum256 m =
     concat (map (\<lambda>w. rev (LE_PutUint32 w)) (foldl sha256_block sha256_H0 (chunks 64 (sha256_pad m))))"

lemma length_sha256_round [simp]: "length (sha256_round v kw) = length v"
  by (induction v kw rule: sha256_round.induct) (auto simp: Let_def)

lemma length_foldl_preserved:
  "(\<And>s x. length (f s x) = length s) \<Longrightarrow> length (foldl f s xs) = length s"
  by (induction xs arbitrary: s) auto

lemma length_sha256_block [simp]: "length (sha256_block h blk) = length h"
  by (simp add: sha256_block_def Let_def length_foldl_preserved)

lemma length_sha256 [simp]: "length (sha256_Sum256 m) = 32"
  by (simp add: sha256_Sum256_def length_concat comp_def length_foldl_preserved
      sha256_H0_def sum_list_triv)

section \<open>FNV-1a\<close>

definition fnv32a_Sum :: "bytes \<Rightarrow> uint32" where
  "fnv32a_Sum bs = foldl (\<lambda>h b. (h XOR ucast b) * 16777619) 2166136261 bs"

end
