(* ===== verification/Core_Types.thy ===== *)
theory Core_Types
  imports Go_Hash
begin

text \<open>
  The fixed-size identifiers of the chain: \<open>pkg/types/hash.go\<close>, \<open>pkg/types/address.go\<close>, the constants
  and enumerations of \<open>pkg/types\<close>, and the signer types of \<open>pkg/signatures/types.go\<close>.  A Go array type
  \<open>[n]byte\<close> is a type of byte lists of that length, so no operation can leave it.  The lemmas are the
  round trips of every textual and binary form and the exact error branches of the parsers.
\<close>

section \<open>Constants\<close>

definition HashSize :: nat where [simp]: "HashSize = 32"
definition SignatureSize :: nat where [simp]: "SignatureSize = 96"
definition AddressSize :: nat where [simp]: "AddressSize = 20"
definition MaximumPayloadSize :: nat where [simp]: "MaximumPayloadSize = 4096"

section \<open>Signer types\<close>

type_synonym signer_type = string

definition BlsSignerType :: signer_type where "BlsSignerType = ''bls''"
definition Ed25519SignerType :: signer_type where "Ed25519SignerType = ''ed25519''"
definition DleqSignerType :: signer_type where "DleqSignerType = ''dleq''"
definition UnknownSignerType :: signer_type where "UnknownSignerType = ''unknown''"

lemmas signer_type_defs =
  BlsSignerType_def Ed25519SignerType_def DleqSignerType_def UnknownSignerType_def

definition SignerType_Uint32 :: "signer_type \<Rightarrow> uint32" where
  "SignerType_Uint32 t =
     (if t = BlsSignerType then 0
      else if t = Ed25519SignerType then 1
      else if t = DleqSignerType then 2
      else 0xFFFFFFFF)"

definition SignerTypeFromUint32 :: "uint32 \<Rightarrow> signer_type" where
  "SignerTypeFromUint32 u =
     (if u = 0 then BlsSignerType
      else if u = 1 then Ed25519SignerType
      else if u = 2 then DleqSignerType
      else UnknownSignerType)"

text \<open>What survives a trip over the wire: an unregistered signer type becomes \<open>unknown\<close>.\<close>

definition norm_signer :: "signer_type \<Rightarrow> signer_type" where
  "norm_signer t =
     (if t \<in> {BlsSignerType, Ed25519SignerType, DleqSignerType} then t else UnknownSignerType)"

lemma SignerType_roundtrip [codec]: "SignerTypeFromUint32 (SignerType_Uint32 t) = norm_signer t"
  by (simp add: SignerTypeFromUint32_def SignerType_Uint32_def norm_signer_def)

lemma norm_signer_idem [simp]: "norm_signer (norm_signer t) = norm_signer t"
  by (simp add: norm_signer_def signer_type_defs)

lemma SignerType_Uint32_norm [simp]: "SignerType_Uint32 (norm_signer t) = SignerType_Uint32 t"
  by (simp add: norm_signer_def SignerType_Uint32_def signer_type_defs)

section \<open>Hashes\<close>

typedef hash = "{xs :: bytes. length xs = 32}" morphisms Hash_Bytes Abs_hash
  by (rule exI [of _ "replicate 32 0"]) simp

text \<open>\<open>copy(h[:], src)\<close> into a fresh \<open>Hash\<close>.\<close>

definition copy_hash :: "bytes \<Rightarrow> hash" where
  "copy_hash src = Abs_hash (copy_array HashSize src)"

lemma Hash_Bytes_Abs [code abstype]: "Abs_hash (Hash_Bytes h) = h"
  by (rule Hash_Bytes_inverse)

lemma Hash_Bytes_copy [simp, code abstract]: "Hash_Bytes (copy_hash src) = copy_array 32 src"
  by (simp add: copy_hash_def Abs_hash_inverse)

lemma length_Hash_Bytes [simp]: "length (Hash_Bytes h) = 32"
  using Hash_Bytes [of h] by simp

lemma copy_Hash_Bytes [simp, codec]: "copy_hash (Hash_Bytes h) = h"
  by (simp add: copy_hash_def Hash_Bytes_inverse)

lemma Hash_Bytes_eq_iff [simp]: "Hash_Bytes a = Hash_Bytes b \<longleftrightarrow> a = b"
  by (rule Hash_Bytes_inject)

lemma Hash_Bytes_not_Nil [simp]: "Hash_Bytes h \<noteq> []"
  by (metis length_Hash_Bytes list.size(3) zero_neq_numeral)

instantiation hash :: equal
begin

definition equal_hash :: "hash \<Rightarrow> hash \<Rightarrow> bool" where
  "equal_hash a b \<longleftrightarrow> Hash_Bytes a = Hash_Bytes b"

instance
  by standard (simp add: equal_hash_def)

end

definition ZeroHash :: hash where "ZeroHash = copy_hash []"

definition SumHash :: "bytes \<Rightarrow> hash" where
  "SumHash data = copy_hash (sha256_Sum256 data)"

definition HashEqual :: "hash \<Rightarrow> hash \<Rightarrow> bool" where
  "HashEqual a b \<longleftrightarrow> Hash_Bytes a = Hash_Bytes b"

definition HashData :: "bytes \<Rightarrow> bytes" where
  "HashData data = sha256_Sum256 data"

definition IsZeroHash :: "hash \<Rightarrow> bool" where
  "IsZeroHash h \<longleftrightarrow> Hash_Bytes h = replicate (length (Hash_Bytes h)) 0"

definition HashFromBytes :: "bytes \<Rightarrow> hash result" where
  "HashFromBytes data =
     (if length data \<noteq> HashSize then Inl (ErrorS ''invalid hash length: expected %d bytes, got %d'')
      else Inr (copy_hash data))"

definition Hash_String :: "hash \<Rightarrow> string" where
  "Hash_String h = hex_EncodeToString (Hash_Bytes h)"

definition Hash_Hex :: "hash \<Rightarrow> string" where
  "Hash_Hex h = hex_EncodeToString (Hash_Bytes h)"

definition Hash_Equal :: "hash \<Rightarrow> hash \<Rightarrow> bool" where
  "Hash_Equal h other \<longleftrightarrow> h = other"

definition Hash_MarshalText :: "hash \<Rightarrow> bytes result" where
  "Hash_MarshalText h = Inr (go_bytes (Hash_Hex h))"

text \<open>The receiver is overwritten on success and kept on an error.\<close>

definition Hash_UnmarshalText :: "hash \<Rightarrow> bytes \<Rightarrow> hash result" where
  "Hash_UnmarshalText h text =
     bindE (hex_DecodeString (go_string text)) (\<lambda>bs.
       if length bs \<noteq> HashSize then Inl (ErrorS ''invalid hash length: expected %d bytes, got %d'')
       else Inr (copy_hash bs))"

definition Hash_MarshalBinary :: "hash \<Rightarrow> bytes result" where
  "Hash_MarshalBinary h = Inr (Hash_Bytes h)"

definition Hash_UnmarshalBinary :: "hash \<Rightarrow> bytes \<Rightarrow> hash result" where
  "Hash_UnmarshalBinary h data =
     (if length data \<noteq> HashSize then Inl (ErrorS ''invalid hash length: expected %d bytes, got %d'')
      else Inr (copy_hash data))"

lemma HashFromBytes_Bytes [simp, codec]: "HashFromBytes (Hash_Bytes h) = Inr h"
  by (simp add: HashFromBytes_def)

lemma HashFromBytes_len [simp]: "length data = 32 \<Longrightarrow> HashFromBytes data = Inr (copy_hash data)"
  by (simp add: HashFromBytes_def)

lemma HashEqual_iff [simp]: "HashEqual a b \<longleftrightarrow> a = b"
  by (simp add: HashEqual_def)

lemma Hash_Equal_iff [simp]: "Hash_Equal a b \<longleftrightarrow> a = b"
  by (simp add: Hash_Equal_def)

lemma IsZeroHash_iff: "IsZeroHash h \<longleftrightarrow> h = ZeroHash"
proof -
  have "Hash_Bytes ZeroHash = replicate 32 0" by (simp add: ZeroHash_def copy_array_def)
  then show ?thesis by (metis Hash_Bytes_eq_iff IsZeroHash_def length_Hash_Bytes)
qed

lemma Hash_Hex_inject [simp]: "Hash_Hex a = Hash_Hex b \<longleftrightarrow> a = b"
  by (simp add: Hash_Hex_def)

lemma Hash_String_not_empty [simp]: "Hash_String h \<noteq> ''''"
proof -
  have "length (Hash_String h) = 64" by (simp add: Hash_String_def)
  then show ?thesis by force
qed

section \<open>Addresses\<close>

typedef address = "{xs :: bytes. length xs = 20}" morphisms address_slice Abs_address
  by (rule exI [of _ "replicate 20 0"]) simp

definition copy_address :: "bytes \<Rightarrow> address" where
  "copy_address src = Abs_address (copy_array AddressSize src)"

lemma address_slice_Abs [code abstype]: "Abs_address (address_slice a) = a"
  by (rule address_slice_inverse)

lemma address_slice_copy [simp, code abstract]: "address_slice (copy_address src) = copy_array 20 src"
  by (simp add: copy_address_def Abs_address_inverse)

lemma length_address_slice [simp]: "length (address_slice a) = 20"
  using address_slice [of a] by simp

lemma copy_address_slice [simp, codec]: "copy_address (address_slice a) = a"
  by (simp add: copy_address_def address_slice_inverse)

lemma address_slice_eq_iff [simp]: "address_slice a = address_slice b \<longleftrightarrow> a = b"
  by (rule address_slice_inject)

instantiation address :: equal
begin

definition equal_address :: "address \<Rightarrow> address \<Rightarrow> bool" where
  "equal_address a b \<longleftrightarrow> address_slice a = address_slice b"

instance
  by standard (simp add: equal_address_def)

end

definition ZeroAddress :: address where "ZeroAddress = copy_address []"

definition ErrInvalidAddressLength :: go_error where
  "ErrInvalidAddressLength = ErrorS ''invalid address length''"

definition IsZeroAddress :: "address \<Rightarrow> bool" where
  "IsZeroAddress h \<longleftrightarrow> address_slice h = []"

definition NewAddress :: "bytes \<Rightarrow> address result" where
  "NewAddress bs =
     (if length bs \<noteq> AddressSize then Inl ErrInvalidAddressLength else Inr (copy_address bs))"

definition FromBytes :: "bytes \<Rightarrow> address result" where
  "FromBytes bs =
     (if length bs \<noteq> AddressSize
      then Inl (Panic ''invalid address length: expected %d bytes, got %d'')
      else Inr (copy_address bs))"

definition FromHex :: "string \<Rightarrow> address result" where
  "FromHex s =
     (let cleaned = strings_TrimPrefix s ''0x'' in
      if length cleaned \<noteq> AddressSize * 2 then Inl ErrInvalidAddressLength
      else bindE (hex_DecodeString cleaned) (\<lambda>bs. Inr (copy_address bs)))"

definition MustFromHex :: "string \<Rightarrow> address result" where
  "MustFromHex s = (case FromHex s of Inl e \<Rightarrow> Inl (Panic ''FromHex'') | Inr a \<Rightarrow> Inr a)"

definition Address_Bytes :: "address \<Rightarrow> bytes" where
  "Address_Bytes a = copy_array AddressSize (address_slice a)"

definition Address_Hex :: "address \<Rightarrow> string" where
  "Address_Hex a = ''0x'' @ hex_EncodeToString (address_slice a)"

definition Address_String :: "address \<Rightarrow> string" where
  "Address_String a = Address_Hex a"

definition Address_Equals :: "address \<Rightarrow> address \<Rightarrow> bool" where
  "Address_Equals a other =
     list_all (\<lambda>i. address_slice a ! i = address_slice other ! i) [0..<AddressSize]"

definition Address_MarshalText :: "address \<Rightarrow> bytes result" where
  "Address_MarshalText a = Inr (go_bytes (Address_Hex a))"

definition Address_UnmarshalText :: "address \<Rightarrow> bytes \<Rightarrow> address result" where
  "Address_UnmarshalText a text = FromHex (go_string text)"

definition Address_MarshalJSON :: "address \<Rightarrow> bytes result" where
  "Address_MarshalJSON a = Inr (go_bytes ([CHR 0x22] @ Address_Hex a @ [CHR 0x22]))"

definition Address_UnmarshalJSON :: "address \<Rightarrow> bytes \<Rightarrow> address result" where
  "Address_UnmarshalJSON a data = FromHex (strings_Trim1 (CHR 0x22) (go_string data))"

definition Address_MarshalBinary :: "address \<Rightarrow> bytes result" where
  "Address_MarshalBinary a = Inr (Address_Bytes a)"

definition Address_UnmarshalBinary :: "address \<Rightarrow> bytes \<Rightarrow> address result" where
  "Address_UnmarshalBinary a data =
     (if length data \<noteq> AddressSize then Inl ErrInvalidAddressLength else Inr (copy_address data))"

definition Address_IsZero :: "address \<Rightarrow> bool" where
  "Address_IsZero a = list_all (\<lambda>b. b = 0) (address_slice a)"

definition Address_ShortHex :: "address \<Rightarrow> string" where
  "Address_ShortHex a =
     (let h = Address_Hex a in
      if length h < 10 then h else take 6 h @ ''...'' @ drop (length h - 4) h)"

lemma Address_Bytes_slice [simp]: "Address_Bytes a = address_slice a"
  by (simp add: Address_Bytes_def)

lemma Address_UnmarshalBinary_len [simp]:
  "length data = 20 \<Longrightarrow> Address_UnmarshalBinary a data = Inr (copy_address data)"
  by (simp add: Address_UnmarshalBinary_def)

lemma Address_Equals_iff [simp]: "Address_Equals a b \<longleftrightarrow> a = b"
proof -
  have "Address_Equals a b \<longleftrightarrow> address_slice a = address_slice b"
    by (auto simp: Address_Equals_def list_all_iff list_eq_iff_nth_eq
        simp del: address_slice_eq_iff)
  then show ?thesis by simp
qed

lemma length_Address_Hex [simp]: "length (Address_Hex a) = 42"
  by (simp add: Address_Hex_def)

lemma Address_Hex_inject [simp]: "Address_Hex a = Address_Hex b \<longleftrightarrow> a = b"
  by (simp add: Address_Hex_def)

lemma FromHex_Hex [simp, codec]: "FromHex (Address_Hex a) = Inr a"
  by (simp add: FromHex_def Address_Hex_def strings_TrimPrefix_def)

lemma Address_IsZero_iff: "Address_IsZero a \<longleftrightarrow> a = ZeroAddress"
proof -
  have "Address_IsZero a \<longleftrightarrow> address_slice a = replicate 20 0"
    using replicate_length_same [of "address_slice a" 0]
    by (auto simp: Address_IsZero_def list_all_iff)
  also have "\<dots> \<longleftrightarrow> address_slice a = address_slice ZeroAddress"
    by (simp add: ZeroAddress_def copy_array_def)
  finally show ?thesis by simp
qed

lemma strings_Trim1_quoted:
  assumes "s \<noteq> []" "hd s \<noteq> c" "last s \<noteq> c"
  shows "strings_Trim1 c ([c] @ s @ [c]) = s"
proof -
  have "dropWhile (\<lambda>x. x = c) ([c] @ s @ [c]) = s @ [c]"
    using assms by (cases s) auto
  moreover have "dropWhile (\<lambda>x. x = c) (rev (s @ [c])) = rev s"
    using assms by (cases "rev s") (auto simp: last_rev hd_rev rev_eq_Cons_iff)
  ultimately show ?thesis by (simp add: strings_Trim1_def)
qed

lemma Address_Hex_last: "last (Address_Hex a) \<noteq> CHR 0x22"
proof -
  have ne: "hex_EncodeToString (address_slice a) \<noteq> []"
    by (metis length_address_slice length_hex_Encode list.size(3) mult_is_0 zero_neq_numeral)
  then have "last (Address_Hex a) = last (hex_EncodeToString (address_slice a))"
    by (simp add: Address_Hex_def)
  then have "last (Address_Hex a) \<in> set (hex_EncodeToString (address_slice a))"
    using ne by simp
  then show ?thesis using hex_Encode_chars hex_digit_neq(2) by metis
qed

lemma UnmarshalJSON_MarshalJSON:
  "bindE (Address_MarshalJSON a) (Address_UnmarshalJSON b) = Inr a"
proof -
  have "strings_Trim1 (CHR 0x22) ([CHR 0x22] @ Address_Hex a @ [CHR 0x22]) = Address_Hex a"
    by (rule strings_Trim1_quoted) (use Address_Hex_last in \<open>auto simp: Address_Hex_def\<close>)
  then show ?thesis
    by (simp only: Address_MarshalJSON_def Address_UnmarshalJSON_def bindE_Inr go_string_bytes
        FromHex_Hex)
qed

section \<open>Transport, handler and database types\<close>

type_synonym transport_type = int

definition UDPTransportType :: transport_type where "UDPTransportType = 0"
definition DummyTransportType :: transport_type where "DummyTransportType = 1"
definition QUICTransportType :: transport_type where "QUICTransportType = 2"
definition UDSTransportType :: transport_type where "UDSTransportType = 3"
definition TCPTransportType :: transport_type where "TCPTransportType = 4"

lemmas transport_type_defs =
  UDPTransportType_def DummyTransportType_def QUICTransportType_def UDSTransportType_def
  TCPTransportType_def

definition TransportType_String :: "transport_type \<Rightarrow> string" where
  "TransportType_String t =
     (if t = UDSTransportType then ''uds''
      else if t = QUICTransportType then ''quic''
      else if t = TCPTransportType then ''tcp''
      else if t = UDPTransportType then ''udp''
      else if t = DummyTransportType then ''dummy''
      else ''unknown'')"

definition ParseTransportType :: "string \<Rightarrow> transport_type result" where
  "ParseTransportType s =
     (if s = ''uds'' then Inr UDSTransportType
      else if s = ''quic'' then Inr QUICTransportType
      else if s = ''tcp'' then Inr TCPTransportType
      else if s = ''udp'' then Inr UDPTransportType
      else if s = ''dummy'' then Inr DummyTransportType
      else Inl (ErrorS ''unknown transport type: %s''))"

text \<open>The YAML decoder hands over a string or an error; the receiver is kept on an error.\<close>

definition TransportType_UnmarshalYAML :: "transport_type \<Rightarrow> string result \<Rightarrow> transport_type result" where
  "TransportType_UnmarshalYAML t unmarshal = bindE unmarshal ParseTransportType"

type_synonym handler_type = byte

definition WriteHandlerType :: handler_type where "WriteHandlerType = 1"
definition ReadHandlerType :: handler_type where "ReadHandlerType = 2"
definition ReadWriteHandlerType :: handler_type where "ReadWriteHandlerType = 3"
definition ErrorHandlerType :: handler_type where "ErrorHandlerType = 4"

definition HandlerType_FromByte :: "byte \<Rightarrow> handler_type result" where
  "HandlerType_FromByte b =
     (if b = 1 then Inr WriteHandlerType
      else if b = 2 then Inr ReadHandlerType
      else if b = 3 then Inr ReadWriteHandlerType
      else Inl (ErrorS ''invalid action byte: %v''))"

definition uint64ToBytes :: "uint64 \<Rightarrow> bytes" where
  "uint64ToBytes num = LE_PutUint64 num"

lemma ParseTransportType_String:
  "ParseTransportType (TransportType_String t) = Inr t \<longleftrightarrow> 0 \<le> t \<and> t \<le> 4"
  by (auto simp: ParseTransportType_def TransportType_String_def transport_type_defs)

lemma ParseTransportType_Inr:
  "ParseTransportType s = Inr t \<Longrightarrow> TransportType_String t = s"
  by (auto simp: ParseTransportType_def TransportType_String_def transport_type_defs split: if_splits)

end
