(* ===== verification/Codec.thy ===== *)
theory Codec
  imports Prelude
begin

text \<open>
  The contract between a serializer and its deserializer, which every wire format of the program
  promises: on the values that fit the format's length fields the encoder returns, the decoder gives the
  value back up to the format's normal form, and the normal form is what the encoding determines.  A
  client relies on the lemmas below, not on a particular format.
\<close>

locale wire_codec =
  fixes enc :: "'a \<Rightarrow> bytes result"
    and dec :: "bytes \<Rightarrow> 'a result"
    and fits :: "'a \<Rightarrow> bool"
    and norm :: "'a \<Rightarrow> 'a"
  assumes enc_total: "fits x \<Longrightarrow> \<exists>bs. enc x = Inr bs"
    and dec_enc: "fits x \<Longrightarrow> enc x = Inr bs \<Longrightarrow> dec bs = Inr (norm x)"
    and enc_norm: "enc (norm x) = enc x"
    and fits_norm: "fits (norm x) = fits x"
begin

lemma roundtrip: "fits x \<Longrightarrow> bindE (enc x) dec = Inr (norm x)"
  using enc_total dec_enc by fastforce

lemma enc_eq_iff: "fits x \<Longrightarrow> fits y \<Longrightarrow> enc x = enc y \<longleftrightarrow> norm x = norm y"
  by (metis dec_enc enc_norm enc_total sum.inject(2))

lemma norm_idem: "fits x \<Longrightarrow> norm (norm x) = norm x"
  by (metis enc_eq_iff enc_norm fits_norm)

lemma reencode: "fits x \<Longrightarrow> bindE (bindE (enc x) dec) enc = enc x"
  by (simp add: roundtrip enc_norm)

end

text \<open>A decoder fed by the network must not bring the process down, whatever the bytes.\<close>

locale safe_codec = wire_codec +
  assumes dec_safe: "\<not> panics (dec bs)"
begin

lemma dec_cases: "(\<exists>x. dec bs = Inr x) \<or> (\<exists>e. dec bs = Inl e \<and> \<not> is_panic e)"
  using dec_safe [of bs] by (cases "dec bs") auto

lemma roundtrip_safe: "fits x \<Longrightarrow> \<not> panics (bindE (enc x) dec)"
  by (simp add: roundtrip)

end

end
