(* ===== verification/Transactions.thy ===== *)
theory Transactions
  imports Core_Types Codec
begin

text \<open>
  \<open>pkg/types/transaction.go\<close>: the transaction record, its content hash and its binary form.  The
  serializer of the code allocates a buffer whose size it computes in 32-bit arithmetic and fills it at
  a running offset; the model does the same, with the run-time panics of slice and index expressions.
  The shared part is the buffer of pending writes (\<open>run_puts\<close>), also used for blocks.
\<close>

section \<open>Writing into a fixed buffer at a running offset\<close>

text \<open>
  \<open>PCopy src n\<close> is \<open>copy(buf[offset:], src); offset += n\<close>, \<open>PUint32\<close> and \<open>PUint64\<close> are the
  \<open>binary.LittleEndian.PutUintN(buf[offset:], v); offset += N/8\<close>.  \<open>copy\<close> stops silently at the end of the
  buffer, \<open>PutUintN\<close> panics there, and \<open>buf[offset:]\<close> panics when the offset is past the end.
\<close>

datatype put = PCopy bytes nat | PUint32 uint32 | PUint64 uint64

definition overwrite :: "bytes \<Rightarrow> nat \<Rightarrow> bytes \<Rightarrow> bytes" where
  "overwrite buf off src =
     take off buf @ take (length buf - off) src @ drop (off + length src) buf"

definition put_uint :: "bytes \<Rightarrow> bytes \<times> nat \<Rightarrow> (bytes \<times> nat) result" where
  "put_uint src = (\<lambda>(buf, off).
     if off + length src \<le> length buf then Inr (overwrite buf off src, off + length src)
     else Inl (Panic ''index out of range''))"

fun run_put :: "put \<Rightarrow> bytes \<times> nat \<Rightarrow> (bytes \<times> nat) result" where
  "run_put (PCopy src n) (buf, off) =
     (if off \<le> length buf then Inr (overwrite buf off src, off + n)
      else Inl (Panic ''slice bounds out of range''))"
| "run_put (PUint32 v) c = put_uint (LE_PutUint32 v) c"
| "run_put (PUint64 v) c = put_uint (LE_PutUint64 v) c"

fun run_puts :: "put list \<Rightarrow> bytes \<times> nat \<Rightarrow> (bytes \<times> nat) result" where
  "run_puts [] c = Inr c"
| "run_puts (p # ps) c = bindE (run_put p c) (run_puts ps)"

text \<open>What a write emits when it fits, and when a \<open>PCopy\<close> advances by exactly what it copies.\<close>

fun emits :: "put \<Rightarrow> bytes" where
  "emits (PCopy src n) = src"
| "emits (PUint32 v) = LE_PutUint32 v"
| "emits (PUint64 v) = LE_PutUint64 v"

fun exact :: "put \<Rightarrow> bool" where
  "exact (PCopy src n) \<longleftrightarrow> n = length src"
| "exact _ \<longleftrightarrow> True"

text \<open>A buffer with \<open>w\<close> written and \<open>k\<close> zero bytes to go.\<close>

definition cursor :: "bytes \<Rightarrow> nat \<Rightarrow> bytes \<times> nat" where
  "cursor w k = (w @ replicate k 0, length w)"

definition make_buf :: "nat \<Rightarrow> bytes \<times> nat" where
  "make_buf n = (replicate n 0, 0)"

lemma make_buf_cursor: "make_buf n = cursor [] n"
  by (simp add: make_buf_def cursor_def)

lemma run_put_cursor:
  assumes "exact p" "length (emits p) \<le> k"
  shows "run_put p (cursor w k) = Inr (cursor (w @ emits p) (k - length (emits p)))"
  using assms by (cases p) (auto simp: cursor_def put_uint_def overwrite_def)

lemma run_puts_cursor:
  assumes "list_all exact ps" "length (concat (map emits ps)) \<le> k"
  shows "run_puts ps (cursor w k) =
    Inr (cursor (w @ concat (map emits ps)) (k - length (concat (map emits ps))))"
  using assms
proof (induction ps arbitrary: w k)
  case Nil
  then show ?case by (simp add: cursor_def)
next
  case (Cons p ps)
  then show ?case by (simp add: run_put_cursor)
qed

lemma run_puts_exact:
  assumes "list_all exact ps" "length (concat (map emits ps)) = n"
  shows "bindE (run_puts ps (make_buf n)) (\<lambda>(buf, _). Inr buf) = Inr (concat (map emits ps))"
  using assms by (simp add: make_buf_cursor run_puts_cursor) (simp add: cursor_def)

lemma run_puts_append: "run_puts (ps @ qs) c = bindE (run_puts ps c) (run_puts qs)"
  by (induction ps arbitrary: c) (auto simp: bindE_def split: sum.splits)

section \<open>Transactions\<close>

record transaction =
  tx_ID :: hash
  tx_Sender :: address
  tx_Recipient :: address
  tx_Amount :: uint64
  tx_Fee :: uint64
  tx_Nonce :: uint64
  tx_Timestamp :: int64
  tx_Signature :: bytes
  tx_SignatureType :: signer_type
  tx_Payload :: bytes

definition Transaction_ComputeHash :: "transaction \<Rightarrow> hash" where
  "Transaction_ComputeHash tx =
     SumHash (Address_Bytes (tx_Sender tx) @ Address_Bytes (tx_Recipient tx) @
       LE_PutUint64 (tx_Amount tx) @ LE_PutUint64 (tx_Fee tx) @ LE_PutUint64 (tx_Nonce tx) @
       LE_PutUint64 (tx_Timestamp tx) @ tx_Payload tx)"

text \<open>\<open>now\<close> is \<open>time.Now().Unix()\<close>; fields the constructor leaves out have their zero value.\<close>

definition NewTransaction ::
  "int64 \<Rightarrow> address \<Rightarrow> address \<Rightarrow> uint64 \<Rightarrow> uint64 \<Rightarrow> uint64 \<Rightarrow> bytes \<Rightarrow> transaction result" where
  "NewTransaction now sender recipient amount fee nonce payload =
     (let tx = \<lparr>tx_ID = ZeroHash, tx_Sender = sender, tx_Recipient = recipient, tx_Amount = amount,
                tx_Fee = fee, tx_Nonce = nonce, tx_Timestamp = now, tx_Signature = [],
                tx_SignatureType = '''', tx_Payload = payload\<rparr>
      in Inr (tx\<lparr>tx_ID := Transaction_ComputeHash tx\<rparr>))"

definition Transaction_puts :: "transaction \<Rightarrow> put list" where
  "Transaction_puts tx =
     [PCopy (Hash_Bytes (tx_ID tx)) HashSize,
      PCopy (Address_Bytes (tx_Sender tx)) AddressSize,
      PCopy (Address_Bytes (tx_Recipient tx)) AddressSize,
      PUint64 (tx_Amount tx),
      PUint64 (tx_Fee tx),
      PUint64 (tx_Nonce tx),
      PUint64 (tx_Timestamp tx),
      PUint32 (SignerType_Uint32 (tx_SignatureType tx)),
      PUint32 (uint32_len (tx_Signature tx)),
      PCopy (tx_Signature tx) (unat (uint32_len (tx_Signature tx))),
      PUint32 (uint32_len (tx_Payload tx)),
      PCopy (tx_Payload tx) (unat (uint32_len (tx_Payload tx)))]"

text \<open>The size is a \<open>uint32\<close> sum (the untyped constants take the type of the lengths), so it wraps.\<close>

definition Transaction_Serialize :: "transaction \<Rightarrow> bytes result" where
  "Transaction_Serialize tx =
     (let signatureLength = uint32_len (tx_Signature tx);
          payloadLength = uint32_len (tx_Payload tx);
          totalSize = word_of_nat (HashSize + AddressSize * 2 + 8 * 4 + 4 + 4) + signatureLength
                        + 4 + payloadLength :: uint32
      in bindE (run_puts (Transaction_puts tx) (make_buf (unat totalSize))) (\<lambda>(buf, _). Inr buf))"

definition DeserializeTransaction :: "bytes \<Rightarrow> transaction result" where
  "DeserializeTransaction data =
   (let minSize = HashSize + AddressSize * 2 + 8 * 4 + 4 + 4 + 4 in
    if length data < minSize then Inl (ErrorS ''data too short to deserialize Transaction'')
    else
    let offset = 0 in
    bindE (bindE (slice data offset (offset + HashSize)) HashFromBytes) (\<lambda>ID.
    let offset = offset + HashSize in
    bindE (bindE (slice data offset (offset + AddressSize)) (Address_UnmarshalBinary ZeroAddress)) (\<lambda>Sender.
    let offset = offset + AddressSize in
    bindE (bindE (slice data offset (offset + AddressSize)) (Address_UnmarshalBinary ZeroAddress)) (\<lambda>Recipient.
    let offset = offset + AddressSize in
    bindE (slice data offset (offset + 8)) (\<lambda>Amount.
    let offset = offset + 8 in
    bindE (slice data offset (offset + 8)) (\<lambda>Fee.
    let offset = offset + 8 in
    bindE (slice data offset (offset + 8)) (\<lambda>Nonce.
    let offset = offset + 8 in
    bindE (slice data offset (offset + 8)) (\<lambda>Timestamp.
    let offset = offset + 8 in
    if offset + 4 > length data then Inl (ErrorS ''data too short to read SignatureType'') else
    bindE (slice data offset (offset + 4)) (\<lambda>SigType.
    let offset = offset + 4 in
    if offset + 4 > length data then Inl (ErrorS ''data too short to read Signature length'') else
    bindE (slice data offset (offset + 4)) (\<lambda>SigLen.
    let signatureLength = unat (LE_Uint32 SigLen); offset = offset + 4 in
    if offset + signatureLength > length data then Inl (ErrorS ''data too short to read Signature data'') else
    bindE (slice data offset (offset + signatureLength)) (\<lambda>Signature.
    let offset = offset + signatureLength in
    if offset + 4 > length data then Inl (ErrorS ''data too short to read Payload length'') else
    bindE (slice data offset (offset + 4)) (\<lambda>PayLen.
    let payloadLength = unat (LE_Uint32 PayLen); offset = offset + 4 in
    if offset + payloadLength > length data then Inl (ErrorS ''data too short to read Payload data'') else
    bindE (slice data offset (offset + payloadLength)) (\<lambda>Payload.
    Inr \<lparr>tx_ID = ID, tx_Sender = Sender, tx_Recipient = Recipient,
         tx_Amount = LE_Uint64 Amount, tx_Fee = LE_Uint64 Fee, tx_Nonce = LE_Uint64 Nonce,
         tx_Timestamp = LE_Uint64 Timestamp, tx_Signature = Signature,
         tx_SignatureType = SignerTypeFromUint32 (LE_Uint32 SigType),
         tx_Payload = Payload\<rparr>)))))))))))))"

definition Transaction_Size :: "transaction \<Rightarrow> nat" where
  "Transaction_Size tx =
     HashSize + AddressSize * 2 + 8 * 4 + 4 + length (tx_Signature tx) + 4 + length (tx_Payload tx)"

section \<open>The wire format\<close>

text \<open>The intended layout, and when the 32-bit size computation is exact.\<close>

definition tx_layout :: "transaction \<Rightarrow> bytes" where
  "tx_layout tx =
     Hash_Bytes (tx_ID tx) @ address_slice (tx_Sender tx) @ address_slice (tx_Recipient tx) @
     LE_PutUint64 (tx_Amount tx) @ LE_PutUint64 (tx_Fee tx) @ LE_PutUint64 (tx_Nonce tx) @
     LE_PutUint64 (tx_Timestamp tx) @ LE_PutUint32 (SignerType_Uint32 (tx_SignatureType tx)) @
     LE_PutUint32 (uint32_len (tx_Signature tx)) @ tx_Signature tx @
     LE_PutUint32 (uint32_len (tx_Payload tx)) @ tx_Payload tx"

definition tx_fits :: "transaction \<Rightarrow> bool" where
  "tx_fits tx \<longleftrightarrow> 116 + length (tx_Signature tx) + length (tx_Payload tx) < 2 ^ 32"

definition tx_norm :: "transaction \<Rightarrow> transaction" where
  "tx_norm tx = tx\<lparr>tx_SignatureType := norm_signer (tx_SignatureType tx)\<rparr>"

lemma length_tx_layout [simp]:
  "length (tx_layout tx) = 116 + length (tx_Signature tx) + length (tx_Payload tx)"
  by (simp add: tx_layout_def)

lemma concat_tx_puts [simp]: "concat (map emits (Transaction_puts tx)) = tx_layout tx"
  by (simp add: Transaction_puts_def tx_layout_def)

lemma Serialize_layout: "tx_fits tx \<Longrightarrow> Transaction_Serialize tx = Inr (tx_layout tx)"
proof -
  assume fits: "tx_fits tx"
  then have len: "length (tx_Signature tx) < 2 ^ 32" "length (tx_Payload tx) < 2 ^ 32"
    by (simp_all add: tx_fits_def)
  have "unat (112 + uint32_len (tx_Signature tx) + 4 + uint32_len (tx_Payload tx)) =
      length (tx_layout tx)"
    using fits by (simp add: tx_fits_def uint32_len_def unat_word_ariths unat_of_nat)
  moreover have "list_all exact (Transaction_puts tx)"
    using len by (simp add: Transaction_puts_def)
  ultimately show ?thesis
    by (simp add: Transaction_Serialize_def Let_def run_puts_exact)
qed

lemma Deserialize_layout:
  "tx_fits tx \<Longrightarrow> DeserializeTransaction (tx_layout tx) = Inr (tx_norm tx)"
  by (simp add: DeserializeTransaction_def Let_def tx_layout_def tx_fits_def codec tx_norm_def)

section \<open>Contract\<close>

lemma length_overwrite: "off \<le> length buf \<Longrightarrow> length (overwrite buf off src) = length buf"
  by (simp add: overwrite_def)

lemma length_run_put: "run_put p c = Inr c' \<Longrightarrow> length (fst c') = length (fst c)"
  by (cases p; cases c) (auto simp: put_uint_def length_overwrite split: if_splits)

lemma length_run_puts: "run_puts ps c = Inr c' \<Longrightarrow> length (fst c') = length (fst c)"
proof (induction ps arbitrary: c)
  case Nil
  then show ?case by simp
next
  case (Cons p ps)
  then show ?case by (auto simp: bindE_eq_Inr dest!: length_run_put)
qed

lemma Serialize_length:
  assumes "Transaction_Serialize tx = Inr bs"
  shows "length bs < 2 ^ 32"
proof -
  obtain n :: uint32 and off where "run_puts (Transaction_puts tx) (make_buf (unat n)) = Inr (bs, off)"
    using assms by (auto simp: Transaction_Serialize_def Let_def bindE_eq_Inr)
  then have "length bs = unat n"
    by (auto simp: make_buf_def dest!: length_run_puts)
  then show ?thesis using unsigned_less [of n, where ?'a = nat] by simp
qed

lemma Serialize_layout_iff: "Transaction_Serialize tx = Inr (tx_layout tx) \<longleftrightarrow> tx_fits tx"
  using Serialize_layout Serialize_length by (fastforce simp: tx_fits_def)

lemma DeserializeTransaction_safe: "\<not> panics (DeserializeTransaction data)"
  by (auto simp: DeserializeTransaction_def Let_def panics_bindE)

lemma tx_norm_simps [simp]:
  "tx_layout (tx_norm tx) = tx_layout tx" "tx_fits (tx_norm tx) = tx_fits tx"
  "tx_norm (tx_norm tx) = tx_norm tx"
  by (simp_all add: tx_norm_def tx_layout_def tx_fits_def)

lemma Serialize_norm [simp]: "Transaction_Serialize (tx_norm tx) = Transaction_Serialize tx"
  by (simp add: Transaction_Serialize_def Transaction_puts_def tx_norm_def Let_def)

interpretation tx_codec: safe_codec Transaction_Serialize DeserializeTransaction tx_fits tx_norm
  by unfold_locales
    (auto simp: Serialize_layout Deserialize_layout DeserializeTransaction_safe)

section \<open>Properties\<close>

text \<open>
  \<open>Transaction.Serialize\<close> produces the intended layout exactly when the total size is below
  \<open>2 ^ 32\<close>; from there on the 32-bit size computation wraps and the buffer is too small.
\<close>

theorem Transaction_Serialize_exact:
  "(Transaction_Serialize tx = Inr (tx_layout tx)) =
     (HashSize + 2 * AddressSize + 4 * 8 + 3 * 4 + length (tx_Signature tx) + length (tx_Payload tx) < 2 ^ 32)"
  unfolding Serialize_layout_iff by (simp add: tx_fits_def)

text \<open>
  A transaction whose total size fits in 32 bits survives the trip through \<open>Serialize\<close> and
  \<open>DeserializeTransaction\<close> up to the normal form of the signature type, and serializing again gives
  the same bytes.
\<close>

theorem transaction_roundtrip:
  assumes "tx_fits tx"
  shows "bindE (Transaction_Serialize tx) DeserializeTransaction = Inr (tx_norm tx) \<and>
    bindE (bindE (Transaction_Serialize tx) DeserializeTransaction) Transaction_Serialize =
      Transaction_Serialize tx"
  using assms tx_codec.roundtrip tx_codec.reencode by blast

theorem transaction_roundtrip_witness:
  "\<exists>tx. tx_fits tx \<and> tx_Payload tx = [1, 2, 3] \<and>
     bindE (Transaction_Serialize tx) DeserializeTransaction = Inr (tx_norm tx)"
proof -
  define tx where "tx = \<lparr>tx_ID = ZeroHash, tx_Sender = copy_address [1], tx_Recipient = copy_address [2],
     tx_Amount = 5, tx_Fee = 1, tx_Nonce = 0, tx_Timestamp = 10, tx_Signature = [7, 7],
     tx_SignatureType = ''BLS'', tx_Payload = [1, 2, 3 :: byte]\<rparr>"
  have fits: "tx_fits tx" by (simp add: tx_def tx_fits_def)
  have "tx_Payload tx = [1, 2, 3]" by (simp add: tx_def)
  with fits transaction_roundtrip [OF fits] show ?thesis by blast
qed

end
