(* ===== verification/Blocks.thy ===== *)
theory Blocks
  imports Transactions
begin

text \<open>
  \<open>pkg/types/block.go\<close>: the block record, its Merkle root and hash, and its binary form.  Shown here: the
  Merkle loop terminates; the root and the header hash bind what they cover up to a SHA-256 collision; the
  serializer produces the intended layout, and the deserializer inverts it and never panics.
\<close>

section \<open>Blocks\<close>

record block =
  bl_Index :: uint64
  bl_Timestamp :: int64
  bl_PreviousHash :: hash
  bl_Hash :: hash
  bl_MerkleRoot :: hash
  bl_Signature :: bytes
  bl_SignatureType :: signer_type
  bl_ValidatorID :: address
  bl_Transactions :: "transaction list"
  bl_Difficulty :: uint64
  bl_Version :: uint32
  bl_FinalizedBy :: "address list"

text \<open>One pass of the Merkle loop: neighbours are hashed together, an odd last one is carried over.\<close>

fun merkle_level :: "bytes list \<Rightarrow> bytes list" where
  "merkle_level [] = []"
| "merkle_level [x] = [x]"
| "merkle_level (x # y # xs) = sha256_Sum256 (x @ y) # merkle_level xs"

lemma length_merkle_level: "length (merkle_level xs) = (length xs + 1) div 2"
  by (induction xs rule: merkle_level.induct) auto

function merkle_loop :: "bytes list \<Rightarrow> bytes list" where
  "merkle_loop xs = (if length xs > 1 then merkle_loop (merkle_level xs) else xs)"
  by pat_completeness auto
termination
  by (relation "measure length") (auto simp: length_merkle_level)

declare merkle_loop.simps [simp del]

definition Block_ComputeMerkleRoot :: "block \<Rightarrow> hash" where
  "Block_ComputeMerkleRoot b =
     (let txHashes = map (\<lambda>tx. Hash_Bytes (tx_ID tx)) (bl_Transactions b) in
      if txHashes = [] then ZeroHash
      else copy_hash (hd (merkle_loop txHashes)))"

definition Block_ComputeHash :: "block \<Rightarrow> hash" where
  "Block_ComputeHash b =
     SumHash (LE_PutUint64 (bl_Index b) @ LE_PutUint64 (bl_Timestamp b) @
       Hash_Bytes (bl_PreviousHash b) @ Hash_Bytes (bl_MerkleRoot b) @
       Address_Bytes (bl_ValidatorID b) @ LE_PutUint64 (bl_Difficulty b) @
       LE_PutUint32 (bl_Version b))"

text \<open>\<open>now\<close> is \<open>time.Now().Unix()\<close>.\<close>

definition NewBlock ::
  "int64 \<Rightarrow> uint64 \<Rightarrow> hash \<Rightarrow> transaction list \<Rightarrow> address \<Rightarrow> uint64 \<Rightarrow> block result" where
  "NewBlock now index previousHash transactions validatorID difficulty =
     (if transactions = [] then Inl (ErrorS ''block must contain at least one transaction'')
      else
      let b = \<lparr>bl_Index = index, bl_Timestamp = now, bl_PreviousHash = previousHash,
               bl_Hash = ZeroHash, bl_MerkleRoot = ZeroHash, bl_Signature = [],
               bl_SignatureType = '''', bl_ValidatorID = validatorID,
               bl_Transactions = transactions, bl_Difficulty = difficulty, bl_Version = 1,
               bl_FinalizedBy = []\<rparr>;
          b = b\<lparr>bl_MerkleRoot := Block_ComputeMerkleRoot b\<rparr>
      in Inr (b\<lparr>bl_Hash := Block_ComputeHash b\<rparr>))"

section \<open>Serialization\<close>

text \<open>The first loop: every transaction is serialized and stored at its index.\<close>

fun serialize_txs :: "nat \<Rightarrow> nat \<Rightarrow> transaction list \<Rightarrow> bytes list result" where
  "serialize_txs i txCount [] = Inr []"
| "serialize_txs i txCount (tx # txs) =
     bindE (Transaction_Serialize tx) (\<lambda>txBytes.
       if i \<ge> txCount then Inl (Panic ''index out of range'')
       else bindE (serialize_txs (Suc i) txCount txs) (\<lambda>rest. Inr (txBytes # rest)))"

definition Block_puts :: "block \<Rightarrow> bytes list \<Rightarrow> put list" where
  "Block_puts b txBytesList =
     [PUint64 (bl_Index b),
      PUint64 (bl_Timestamp b),
      PCopy (Hash_Bytes (bl_PreviousHash b)) HashSize,
      PCopy (Hash_Bytes (bl_Hash b)) HashSize,
      PCopy (Hash_Bytes (bl_MerkleRoot b)) HashSize,
      PUint32 (SignerType_Uint32 (bl_SignatureType b)),
      PUint32 (uint32_len (bl_Signature b)),
      PCopy (bl_Signature b) (unat (uint32_len (bl_Signature b))),
      PCopy (Address_Bytes (bl_ValidatorID b)) AddressSize,
      PUint64 (bl_Difficulty b),
      PUint32 (bl_Version b),
      PUint32 (uint32_len (bl_Transactions b))] @
     concat (map (\<lambda>txBytes. [PUint32 (uint32_len txBytes),
                             PCopy txBytes (unat (uint32_len txBytes))]) txBytesList) @
     [PUint32 (uint32_len (bl_FinalizedBy b))] @
     map (\<lambda>a. PCopy (Address_Bytes a) AddressSize) (bl_FinalizedBy b)"

definition Block_Serialize :: "block \<Rightarrow> bytes result" where
  "Block_Serialize b =
     (let txCount = uint32_len (bl_Transactions b) in
      bindE (serialize_txs 0 (unat txCount) (bl_Transactions b)) (\<lambda>txBytesList.
      let txSize = sum_list (map (\<lambda>txBytes. 4 + length txBytes) txBytesList);
          finalizedCount = uint32_len (bl_FinalizedBy b);
          finalizedSize = unat finalizedCount * AddressSize;
          signatureLength = uint32_len (bl_Signature b);
          totalSize = 8 + 8 + HashSize * 3 + 4 + 4 + unat signatureLength + AddressSize + 8 + 4 + 4
                        + txSize + 4 + finalizedSize
      in bindE (run_puts (Block_puts b txBytesList) (make_buf totalSize)) (\<lambda>(buf, _). Inr buf)))"

text \<open>The two loops of the deserializer; they return what they read and the new offset.\<close>

fun read_txs :: "bytes \<Rightarrow> nat \<Rightarrow> nat \<Rightarrow> (transaction list \<times> nat) result" where
  "read_txs data 0 offset = Inr ([], offset)"
| "read_txs data (Suc n) offset =
     (if offset + 4 > length data
      then Inl (ErrorS ''unexpected end of data while deserializing transaction length'')
      else
      bindE (slice data offset (offset + 4)) (\<lambda>lenBytes.
      let txLen = unat (LE_Uint32 lenBytes); offset = offset + 4 in
      if offset + txLen > length data
      then Inl (ErrorS ''unexpected end of data while deserializing transaction'')
      else
      bindE (slice data offset (offset + txLen)) (\<lambda>txData.
      bindE (DeserializeTransaction txData) (\<lambda>tx.
      bindE (read_txs data n (offset + txLen)) (\<lambda>(txs, offset'). Inr (tx # txs, offset'))))))"

fun read_finalized :: "bytes \<Rightarrow> nat \<Rightarrow> nat \<Rightarrow> (address list \<times> nat) result" where
  "read_finalized data 0 offset = Inr ([], offset)"
| "read_finalized data (Suc n) offset =
     (if offset + AddressSize > length data
      then Inl (ErrorS ''data too short to deserialize FinalizedBy addresses'')
      else
      bindE (bindE (slice data offset (offset + AddressSize)) (Address_UnmarshalBinary ZeroAddress)) (\<lambda>a.
      bindE (read_finalized data n (offset + AddressSize)) (\<lambda>(as, offset'). Inr (a # as, offset'))))"

text \<open>\<open>block.PreviousHash, _ = HashFromBytes(...)\<close>: the error is dropped, the value kept.\<close>

definition hash_or_zero :: "hash result \<Rightarrow> hash" where
  "hash_or_zero r = (case r of Inl _ \<Rightarrow> ZeroHash | Inr h \<Rightarrow> h)"

definition DeserializeBlock :: "bytes \<Rightarrow> block result" where
  "DeserializeBlock data =
   (let minSize = 8 + 8 + HashSize * 3 + 4 + 4 + AddressSize + 8 + 4 + 4 in
    if length data < minSize then Inl (ErrorS ''data too short to deserialize Block'')
    else
    let offset = 0 in
    bindE (slice data offset (offset + 8)) (\<lambda>Index.
    let offset = offset + 8 in
    bindE (slice data offset (offset + 8)) (\<lambda>Timestamp.
    let offset = offset + 8 in
    bindE (slice data offset (offset + HashSize)) (\<lambda>PreviousHash.
    let offset = offset + HashSize in
    bindE (slice data offset (offset + HashSize)) (\<lambda>Hash.
    let offset = offset + HashSize in
    bindE (slice data offset (offset + HashSize)) (\<lambda>MerkleRoot.
    let offset = offset + HashSize in
    if offset + 4 > length data then Inl (ErrorS ''data too short to read SignatureType'') else
    bindE (slice data offset (offset + 4)) (\<lambda>SigType.
    let offset = offset + 4 in
    if offset + 4 > length data then Inl (ErrorS ''data too short to read Signature length'') else
    bindE (slice data offset (offset + 4)) (\<lambda>SigLen.
    let signatureLength = unat (LE_Uint32 SigLen); offset = offset + 4 in
    if offset + signatureLength > length data then Inl (ErrorS ''data too short to read Signature data'') else
    bindE (slice data offset (offset + signatureLength)) (\<lambda>Signature.
    let offset = offset + signatureLength in
    if offset + AddressSize > length data then Inl (ErrorS ''data too short to read ValidatorID'') else
    bindE (bindE (slice data offset (offset + AddressSize)) (Address_UnmarshalBinary ZeroAddress)) (\<lambda>ValidatorID.
    let offset = offset + AddressSize in
    if offset + 8 + 4 + 4 > length data
    then Inl (ErrorS ''data too short to read Difficulty, Version, and Transaction count'') else
    bindE (slice data offset (offset + 8)) (\<lambda>Difficulty.
    let offset = offset + 8 in
    bindE (slice data offset (offset + 4)) (\<lambda>Version.
    let offset = offset + 4 in
    bindE (slice data offset (offset + 4)) (\<lambda>TxCount.
    let txCount = unat (LE_Uint32 TxCount); offset = offset + 4 in
    bindE (read_txs data txCount offset) (\<lambda>(Transactions, offset).
    if offset + 4 > length data then Inl (ErrorS ''data too short to deserialize FinalizedBy count'') else
    bindE (slice data offset (offset + 4)) (\<lambda>FinCount.
    let finalizedCount = unat (LE_Uint32 FinCount); offset = offset + 4 in
    bindE (read_finalized data finalizedCount offset) (\<lambda>(FinalizedBy, offset).
    Inr \<lparr>bl_Index = LE_Uint64 Index, bl_Timestamp = LE_Uint64 Timestamp,
         bl_PreviousHash = hash_or_zero (HashFromBytes PreviousHash),
         bl_Hash = hash_or_zero (HashFromBytes Hash),
         bl_MerkleRoot = hash_or_zero (HashFromBytes MerkleRoot),
         bl_Signature = Signature,
         bl_SignatureType = SignerTypeFromUint32 (LE_Uint32 SigType),
         bl_ValidatorID = ValidatorID, bl_Transactions = Transactions,
         bl_Difficulty = LE_Uint64 Difficulty, bl_Version = LE_Uint32 Version,
         bl_FinalizedBy = FinalizedBy\<rparr>))))))))))))))))"

definition Block_Size :: "block \<Rightarrow> nat" where
  "Block_Size b =
     (let txSize = sum_list (map (\<lambda>tx. 4 + Transaction_Size tx) (bl_Transactions b));
          finalizedSize = length (bl_FinalizedBy b) * AddressSize;
          signatureLength = length (bl_Signature b)
      in 8 + 8 + HashSize * 3 + 4 + 4 + signatureLength + AddressSize + 8 + 4 + 4 + txSize + 4
           + finalizedSize)"

section \<open>The wire format\<close>

definition tx_frame :: "transaction \<Rightarrow> bytes" where
  "tx_frame tx = LE_PutUint32 (uint32_len (tx_layout tx)) @ tx_layout tx"

definition block_layout :: "block \<Rightarrow> bytes" where
  "block_layout b =
     LE_PutUint64 (bl_Index b) @ LE_PutUint64 (bl_Timestamp b) @ Hash_Bytes (bl_PreviousHash b) @
     Hash_Bytes (bl_Hash b) @ Hash_Bytes (bl_MerkleRoot b) @
     LE_PutUint32 (SignerType_Uint32 (bl_SignatureType b)) @
     LE_PutUint32 (uint32_len (bl_Signature b)) @ bl_Signature b @
     address_slice (bl_ValidatorID b) @ LE_PutUint64 (bl_Difficulty b) @
     LE_PutUint32 (bl_Version b) @ LE_PutUint32 (uint32_len (bl_Transactions b)) @
     concat (map tx_frame (bl_Transactions b)) @ LE_PutUint32 (uint32_len (bl_FinalizedBy b)) @
     concat (map address_slice (bl_FinalizedBy b))"

definition block_fits :: "block \<Rightarrow> bool" where
  "block_fits b \<longleftrightarrow> length (bl_Signature b) < 2 ^ 32 \<and> length (bl_Transactions b) < 2 ^ 32 \<and>
     length (bl_FinalizedBy b) < 2 ^ 32 \<and> list_all tx_fits (bl_Transactions b)"

definition block_norm :: "block \<Rightarrow> block" where
  "block_norm b = b\<lparr>bl_SignatureType := norm_signer (bl_SignatureType b),
                    bl_Transactions := map tx_norm (bl_Transactions b)\<rparr>"

lemma serialize_txs_layout:
  "list_all tx_fits txs \<Longrightarrow> i + length txs \<le> n \<Longrightarrow>
     serialize_txs i n txs = Inr (map tx_layout txs)"
  by (induction txs arbitrary: i) (auto simp: Serialize_layout)

lemma concat_address_puts:
  "concat (map (emits \<circ> (\<lambda>a. PCopy (address_slice a) 20)) as) = concat (map address_slice as)"
  by (induction as) auto

lemma concat_frame_puts:
  "concat (map emits (concat (map ((\<lambda>txBytes. [PUint32 (uint32_len txBytes),
      PCopy txBytes (unat (uint32_len txBytes))]) \<circ> tx_layout) txs))) = concat (map tx_frame txs)"
  by (induction txs) (auto simp: tx_frame_def)

lemma concat_block_puts:
  "concat (map emits (Block_puts b (map tx_layout (bl_Transactions b)))) = block_layout b"
  by (simp add: Block_puts_def block_layout_def concat_address_puts concat_frame_puts)

lemma exact_frames:
  "list_all tx_fits txs \<Longrightarrow>
     list_all exact (concat (map ((\<lambda>txBytes. [PUint32 (uint32_len txBytes),
       PCopy txBytes (unat (uint32_len txBytes))]) \<circ> tx_layout) txs))"
  by (induction txs) (auto simp: tx_fits_def)

lemma exact_addresses: "list_all exact (map (\<lambda>a. PCopy (address_slice a) 20) as)"
  by (induction as) auto

lemma exact_block_puts:
  "block_fits b \<Longrightarrow> list_all exact (Block_puts b (map tx_layout (bl_Transactions b)))"
  by (simp add: Block_puts_def block_fits_def exact_frames exact_addresses)

lemma length_concat_frames:
  "length (concat (map tx_frame txs)) = sum_list (map (\<lambda>tx. 4 + length (tx_layout tx)) txs)"
  by (induction txs) (auto simp: tx_frame_def)

lemma length_concat_addresses: "length (concat (map address_slice as)) = 20 * length as"
  by (induction as) auto

lemma length_block_layout:
  "length (block_layout b) = 160 + length (bl_Signature b) +
     sum_list (map (\<lambda>tx. 4 + length (tx_layout tx)) (bl_Transactions b)) +
     20 * length (bl_FinalizedBy b)"
  unfolding block_layout_def length_append length_concat_frames length_concat_addresses by simp

lemma Block_Serialize_layout:
  assumes "block_fits b"
  shows "Block_Serialize b = Inr (block_layout b)"
proof -
  let ?n = "8 + 8 + HashSize * 3 + 4 + 4 + length (bl_Signature b) + AddressSize + 8 + 4 + 4
    + sum_list (map ((\<lambda>txBytes. 4 + length txBytes) \<circ> tx_layout) (bl_Transactions b)) + 4
    + length (bl_FinalizedBy b) * AddressSize"
  have ser: "serialize_txs 0 (length (bl_Transactions b)) (bl_Transactions b) =
      Inr (map tx_layout (bl_Transactions b))"
    using assms by (intro serialize_txs_layout) (auto simp: block_fits_def)
  have "?n = length (block_layout b)"
    unfolding length_block_layout by (simp add: comp_def del: length_tx_layout)
  then have "bindE (run_puts (Block_puts b (map tx_layout (bl_Transactions b))) (make_buf ?n))
      (\<lambda>(buf, _). Inr buf) = Inr (block_layout b)"
    using run_puts_exact [OF exact_block_puts [OF assms]] by (simp only: concat_block_puts)
  with assms ser show ?thesis
    by (simp add: Block_Serialize_def Let_def block_fits_def comp_def del: length_tx_layout)
qed

lemma read_txs_layout:
  assumes "list_all tx_fits txs"
  shows "read_txs (pre @ concat (map tx_frame txs) @ post) (length txs) (length pre) =
    Inr (map tx_norm txs, length pre + length (concat (map tx_frame txs)))"
  using assms
proof (induction txs arbitrary: pre)
  case Nil
  then show ?case by simp
next
  case (Cons tx txs)
  have fits: "length (tx_layout tx) < 2 ^ 32" using Cons.prems by (simp add: tx_fits_def)
  have dec: "DeserializeTransaction (tx_layout tx) = Inr (tx_norm tx)"
    using Cons.prems by (simp add: Deserialize_layout)
  have "read_txs ((pre @ tx_frame tx) @ concat (map tx_frame txs) @ post) (length txs)
      (length (pre @ tx_frame tx)) =
    Inr (map tx_norm txs, length (pre @ tx_frame tx) + length (concat (map tx_frame txs)))"
    using Cons.prems by (intro Cons.IH) simp
  then have IH: "read_txs (pre @ LE_PutUint32 (uint32_len (tx_layout tx)) @ tx_layout tx @
        concat (map tx_frame txs) @ post) (length txs) (length pre + 4 + length (tx_layout tx)) =
    Inr (map tx_norm txs, length pre + 4 + length (tx_layout tx) + length (concat (map tx_frame txs)))"
    by (simp add: tx_frame_def [of tx] add.assoc del: length_tx_layout length_concat)
  from fits dec IH show ?case
    by (simp add: tx_frame_def [of tx] Let_def add.assoc del: length_tx_layout length_concat)
qed

lemma read_finalized_layout:
  "read_finalized (pre @ concat (map address_slice as) @ post) (length as) (length pre) =
     Inr (as, length pre + length (concat (map address_slice as)))"
proof (induction as arbitrary: pre)
  case Nil
  then show ?case by simp
next
  case (Cons a as)
  have "read_finalized ((pre @ address_slice a) @ concat (map address_slice as) @ post) (length as)
      (length (pre @ address_slice a)) =
    Inr (as, length (pre @ address_slice a) + length (concat (map address_slice as)))"
    by (rule Cons)
  then show ?case by (simp add: Let_def codec del: length_concat)
qed

lemma DeserializeBlock_layout:
  assumes "block_fits b"
  shows "DeserializeBlock (block_layout b) = Inr (block_norm b)"
proof -
  define hd where "hd = LE_PutUint64 (bl_Index b) @ LE_PutUint64 (bl_Timestamp b) @
     Hash_Bytes (bl_PreviousHash b) @
     Hash_Bytes (bl_Hash b) @ Hash_Bytes (bl_MerkleRoot b) @
     LE_PutUint32 (SignerType_Uint32 (bl_SignatureType b)) @
     LE_PutUint32 (uint32_len (bl_Signature b)) @ bl_Signature b @
     address_slice (bl_ValidatorID b) @ LE_PutUint64 (bl_Difficulty b) @
     LE_PutUint32 (bl_Version b) @ LE_PutUint32 (uint32_len (bl_Transactions b))"
  define F where "F = concat (map tx_frame (bl_Transactions b))"
  define A where "A = concat (map address_slice (bl_FinalizedBy b))"
  define n where "n = length (bl_Signature b)"
  define c where "c = LE_PutUint32 (uint32_len (bl_FinalizedBy b))"
  have layout: "block_layout b = hd @ F @ c @ A"
    by (simp add: block_layout_def hd_def F_def A_def c_def)
  have len: "length hd = 156 + n" by (simp add: hd_def n_def)
  have txs: "read_txs (hd @ F @ c @ A) (length (bl_Transactions b)) (156 + n) =
      Inr (map tx_norm (bl_Transactions b), 156 + n + length F)"
    using read_txs_layout [of "bl_Transactions b" hd "c @ A"] assms
    unfolding F_def [symmetric] len by (simp add: block_fits_def)
  have fin: "read_finalized (hd @ F @ c @ A) (length (bl_FinalizedBy b)) (160 + (n + length F)) =
      Inr (bl_FinalizedBy b, 160 + n + length F + length A)"
    using read_finalized_layout [of "hd @ F @ c" "bl_FinalizedBy b" "[]"]
    unfolding A_def [symmetric] by (simp add: len c_def add_ac)
  show ?thesis
    using assms txs fin unfolding layout hd_def
    by (simp add: DeserializeBlock_def Let_def codec n_def c_def block_fits_def block_norm_def
        hash_or_zero_def)
qed

section \<open>Contract\<close>

lemma read_txs_safe: "\<not> panics (read_txs data n off)"
  by (induction data n off rule: read_txs.induct)
    (auto simp: Let_def panics_bindE DeserializeTransaction_safe)

lemma read_finalized_safe: "\<not> panics (read_finalized data n off)"
  by (induction data n off rule: read_finalized.induct) (auto simp: panics_bindE)

lemma DeserializeBlock_safe: "\<not> panics (DeserializeBlock data)"
  by (auto simp: DeserializeBlock_def Let_def panics_bindE read_txs_safe read_finalized_safe)

lemma tx_frame_norm [simp]: "tx_frame (tx_norm tx) = tx_frame tx"
  by (simp add: tx_frame_def uint32_len_def)

lemma block_norm_layout [simp]:
  "block_layout (block_norm b) = block_layout b" "block_fits (block_norm b) = block_fits b"
  by (simp_all add: block_norm_def block_layout_def block_fits_def list_all_iff uint32_len_def comp_def)

lemma serialize_txs_norm [simp]: "serialize_txs i n (map tx_norm txs) = serialize_txs i n txs"
  by (induction txs arbitrary: i) (auto cong: if_cong)

lemma Block_Serialize_norm [simp]: "Block_Serialize (block_norm b) = Block_Serialize b"
  by (simp add: Block_Serialize_def Block_puts_def block_norm_def Let_def uint32_len_def)

interpretation block_codec: safe_codec Block_Serialize DeserializeBlock block_fits block_norm
  by unfold_locales
    (auto simp: Block_Serialize_layout DeserializeBlock_layout DeserializeBlock_safe)

section \<open>What the hashes bind\<close>

text \<open>The bytes a transaction ID and a block hash are computed from.\<close>

definition tx_preimage :: "transaction \<Rightarrow> bytes" where
  "tx_preimage tx = address_slice (tx_Sender tx) @ address_slice (tx_Recipient tx) @
     LE_PutUint64 (tx_Amount tx) @ LE_PutUint64 (tx_Fee tx) @ LE_PutUint64 (tx_Nonce tx) @
     LE_PutUint64 (tx_Timestamp tx) @ tx_Payload tx"

definition block_preimage :: "block \<Rightarrow> bytes" where
  "block_preimage b = LE_PutUint64 (bl_Index b) @ LE_PutUint64 (bl_Timestamp b) @
     Hash_Bytes (bl_PreviousHash b) @ Hash_Bytes (bl_MerkleRoot b) @
     address_slice (bl_ValidatorID b) @ LE_PutUint64 (bl_Difficulty b) @ LE_PutUint32 (bl_Version b)"

definition tx_body :: "transaction \<Rightarrow> address \<times> address \<times> uint64 \<times> uint64 \<times> uint64 \<times> int64 \<times> bytes" where
  "tx_body tx = (tx_Sender tx, tx_Recipient tx, tx_Amount tx, tx_Fee tx, tx_Nonce tx,
     tx_Timestamp tx, tx_Payload tx)"

definition block_header ::
  "block \<Rightarrow> uint64 \<times> int64 \<times> hash \<times> hash \<times> address \<times> uint64 \<times> uint32" where
  "block_header b = (bl_Index b, bl_Timestamp b, bl_PreviousHash b, bl_MerkleRoot b,
     bl_ValidatorID b, bl_Difficulty b, bl_Version b)"

text \<open>Every byte string hashed while the Merkle root of a list of leaves is computed.\<close>

fun level_preimages :: "bytes list \<Rightarrow> bytes list" where
  "level_preimages (x # y # xs) = (x @ y) # level_preimages xs"
| "level_preimages _ = []"

function merkle_preimages :: "bytes list \<Rightarrow> bytes list" where
  "merkle_preimages xs =
     (if length xs > 1 then level_preimages xs @ merkle_preimages (merkle_level xs) else [])"
  by pat_completeness auto
termination
  by (relation "measure length") (auto simp: length_merkle_level)

declare merkle_preimages.simps [simp del]

lemma tx_preimage_iff: "tx_preimage t = tx_preimage t' \<longleftrightarrow> tx_body t = tx_body t'"
  by (auto simp: tx_preimage_def tx_body_def)

lemma block_preimage_iff: "block_preimage b = block_preimage b' \<longleftrightarrow> block_header b = block_header b'"
  by (auto simp: block_preimage_def block_header_def)

lemma SumHash_eq_iff: "SumHash x = SumHash y \<longleftrightarrow> sha256_Sum256 x = sha256_Sum256 y"
  by (metis Hash_Bytes_copy SumHash_def copy_array_id length_sha256)

lemma ComputeHash_preimage:
  "Transaction_ComputeHash t = SumHash (tx_preimage t)" "Block_ComputeHash b = SumHash (block_preimage b)"
  by (simp_all add: Transaction_ComputeHash_def tx_preimage_def Block_ComputeHash_def block_preimage_def)

lemma merkle_level_inj:
  assumes "length xs = length ys" "\<forall>x \<in> set xs \<union> set ys. length x = 32"
    "inj_on sha256_Sum256 (set (level_preimages xs) \<union> set (level_preimages ys))"
    "merkle_level xs = merkle_level ys"
  shows "xs = ys"
  using assms
proof (induction xs arbitrary: ys rule: merkle_level.induct)
  case (3 x y xs)
  then obtain u v us where ys: "ys = u # v # us" by (metis Suc_length_conv length_Cons)
  have "x @ y = u @ v"
    by (rule inj_onD [OF "3.prems"(3)]) (use "3.prems"(4) ys in auto)
  moreover have "xs = us"
  proof (rule "3.IH")
    show "inj_on sha256_Sum256 (set (level_preimages xs) \<union> set (level_preimages us))"
      using "3.prems"(3) by (rule inj_on_subset) (auto simp: ys)
  qed (use "3.prems"(1,2,4) ys in auto)
  ultimately show ?case using "3.prems"(2) ys by auto
next
  case (2 x)
  then show ?case by (cases ys) auto
qed auto

lemma merkle_level_widths: "\<forall>x \<in> set xs. length x = 32 \<Longrightarrow> \<forall>x \<in> set (merkle_level xs). length x = 32"
  by (induction xs rule: merkle_level.induct) auto

lemma length_merkle_loop: "xs \<noteq> [] \<Longrightarrow> length (merkle_loop xs) = 1"
proof (induction xs rule: merkle_loop.induct)
  case (1 xs)
  show ?case
  proof (cases "length xs > 1")
    case True
    then have "length (merkle_level xs) > 0" by (simp add: length_merkle_level)
    with True 1 show ?thesis by (subst merkle_loop.simps) simp
  next
    case False
    with 1(2) show ?thesis by (subst merkle_loop.simps) (cases xs; auto)
  qed
qed

lemma merkle_loop_inj:
  assumes "length xs = length ys" "\<forall>x \<in> set xs \<union> set ys. length x = 32"
    "inj_on sha256_Sum256 (set (merkle_preimages xs) \<union> set (merkle_preimages ys))"
    "merkle_loop xs = merkle_loop ys"
  shows "xs = ys"
  using assms
proof (induction xs arbitrary: ys rule: merkle_loop.induct)
  case (1 xs)
  show ?case
  proof (cases "length xs > 1")
    case True
    with "1.prems" have pre: "merkle_preimages xs = level_preimages xs @ merkle_preimages (merkle_level xs)"
      "merkle_preimages ys = level_preimages ys @ merkle_preimages (merkle_level ys)"
      by (subst merkle_preimages.simps, simp)+
    have "merkle_level xs = merkle_level ys"
    proof (rule "1.IH" [OF True])
      show "merkle_loop (merkle_level xs) = merkle_loop (merkle_level ys)"
        using "1.prems"(1,4) True by (metis merkle_loop.simps)
      show "inj_on sha256_Sum256
          (set (merkle_preimages (merkle_level xs)) \<union> set (merkle_preimages (merkle_level ys)))"
        using "1.prems"(3) by (rule inj_on_subset) (auto simp: pre)
    qed (use "1.prems" merkle_level_widths in \<open>auto simp: length_merkle_level\<close>)
    moreover have "inj_on sha256_Sum256 (set (level_preimages xs) \<union> set (level_preimages ys))"
      using "1.prems"(3) by (rule inj_on_subset) (auto simp: pre)
    ultimately show ?thesis using "1.prems" merkle_level_inj by blast
  next
    case False
    with "1.prems" show ?thesis by (metis merkle_loop.simps)
  qed
qed

text \<open>
  A block is sealed when its hash, its Merkle root and its transactions' IDs are the computed ones;
  \<open>collision_free\<close> says that SHA-256 separates the given (finitely many) strings.
\<close>

definition tx_leaves :: "block \<Rightarrow> bytes list" where
  "tx_leaves b = map (\<lambda>tx. Hash_Bytes (tx_ID tx)) (bl_Transactions b)"

definition block_sealed :: "block \<Rightarrow> bool" where
  "block_sealed b \<longleftrightarrow> bl_Hash b = Block_ComputeHash b \<and> bl_MerkleRoot b = Block_ComputeMerkleRoot b \<and>
     list_all (\<lambda>tx. tx_ID tx = Transaction_ComputeHash tx) (bl_Transactions b)"

definition collision_free :: "bytes set \<Rightarrow> bool" where
  "collision_free S \<longleftrightarrow> inj_on sha256_Sum256 S"

lemma collision_freeD:
  "collision_free S \<Longrightarrow> x \<in> S \<Longrightarrow> y \<in> S \<Longrightarrow> SumHash x = SumHash y \<Longrightarrow> x = y"
  by (auto simp: collision_free_def SumHash_eq_iff dest: inj_onD)

lemma collision_free_singleton [simp]: "collision_free {}" "collision_free {x}"
  by (simp_all add: collision_free_def)

lemma length_hd_merkle_loop:
  assumes "xs \<noteq> []" "\<forall>x \<in> set xs. length x = 32"
  shows "merkle_loop xs = [hd (merkle_loop xs)] \<and> length (hd (merkle_loop xs)) = 32"
proof -
  have "\<forall>x \<in> set (merkle_loop xs). length x = 32"
    using assms(2)
  proof (induction xs rule: merkle_loop.induct)
    case (1 xs)
    then show ?case
      by (subst merkle_loop.simps) (use merkle_level_widths in auto)
  qed
  moreover have "length (merkle_loop xs) = 1" by (rule length_merkle_loop) fact
  ultimately show ?thesis by (cases "merkle_loop xs") auto
qed

lemma ComputeMerkleRoot_inj:
  assumes "length (bl_Transactions b) = length (bl_Transactions b')"
    and "collision_free (set (merkle_preimages (tx_leaves b)) \<union> set (merkle_preimages (tx_leaves b')))"
    and "Block_ComputeMerkleRoot b = Block_ComputeMerkleRoot b'"
  shows "map tx_ID (bl_Transactions b) = map tx_ID (bl_Transactions b')"
proof (cases "bl_Transactions b = []")
  case True
  then show ?thesis using assms(1) by simp
next
  case False
  then have ne: "tx_leaves b \<noteq> []" "tx_leaves b' \<noteq> []" using assms(1) by (auto simp: tx_leaves_def)
  have widths: "\<forall>x \<in> set (tx_leaves c). length x = 32" for c by (auto simp: tx_leaves_def)
  have "copy_hash (hd (merkle_loop (tx_leaves b))) = copy_hash (hd (merkle_loop (tx_leaves b')))"
    using assms(3) ne unfolding Block_ComputeMerkleRoot_def tx_leaves_def [symmetric] Let_def by simp
  then have "hd (merkle_loop (tx_leaves b)) = hd (merkle_loop (tx_leaves b'))"
    using length_hd_merkle_loop [OF _ widths] ne by (metis Hash_Bytes_copy copy_array_id)
  then have "merkle_loop (tx_leaves b) = merkle_loop (tx_leaves b')"
    using length_hd_merkle_loop [OF _ widths] ne by metis
  then have "tx_leaves b = tx_leaves b'"
    by (rule merkle_loop_inj [rotated -1])
      (use assms(1,2) widths in \<open>auto simp: collision_free_def tx_leaves_def\<close>)
  then have "map Hash_Bytes (map tx_ID (bl_Transactions b)) = map Hash_Bytes (map tx_ID (bl_Transactions b'))"
    by (simp add: tx_leaves_def comp_def)
  then show ?thesis by (rule map_injective) (simp add: inj_def)
qed

lemma tx_IDs_inj:
  assumes "map tx_ID txs = map tx_ID txs'"
    and "list_all (\<lambda>tx. tx_ID tx = Transaction_ComputeHash tx) (txs @ txs')"
    and "collision_free (tx_preimage ` set (txs @ txs'))"
  shows "map tx_body txs = map tx_body txs'"
proof -
  have len: "length txs = length txs'" using assms(1) by (rule map_eq_imp_length_eq)
  moreover have "tx_body (txs ! i) = tx_body (txs' ! i)" if "i < length txs" for i
  proof -
    have "SumHash (tx_preimage (txs ! i)) = SumHash (tx_preimage (txs' ! i))"
      using assms(2) arg_cong [OF assms(1), of "\<lambda>ids. ids ! i"] that len
      by (simp add: list_all_iff ball_Un flip: ComputeHash_preimage(1))
    then have "tx_preimage (txs ! i) = tx_preimage (txs' ! i)"
      by (rule collision_freeD [OF assms(3), rotated -1]) (use that len in auto)
    then show ?thesis by (simp add: tx_preimage_iff)
  qed
  ultimately show ?thesis by (simp add: list_eq_iff_nth_eq)
qed

lemma NewBlock_sealed:
  assumes "NewBlock now index prev txs v d = Inr b"
    and "list_all (\<lambda>tx. tx_ID tx = Transaction_ComputeHash tx) txs"
  shows "block_sealed b" "bl_Transactions b = txs"
  using assms
  by (auto simp: NewBlock_def block_sealed_def Block_ComputeHash_def Block_ComputeMerkleRoot_def Let_def
      split: if_splits)

lemma NewTransaction_ID: "NewTransaction now s r a f n pl = Inr tx \<Longrightarrow> tx_ID tx = Transaction_ComputeHash tx"
  by (auto simp: NewTransaction_def Transaction_ComputeHash_def Let_def)

section \<open>Properties\<close>

text \<open>
  C8: A block whose length fields fit in 32 bits survives the trip through \<open>Serialize\<close> and
  \<open>DeserializeBlock\<close>, transactions and finalizers included, up to the normal form of the signature types
  (an unknown signer type is written as 0 and read back as the default one).
\<close>

theorem block_roundtrip:
  "block_fits b \<Longrightarrow> bindE (Block_Serialize b) DeserializeBlock = Inr (block_norm b)"
  by (rule block_codec.roundtrip)

definition sample_tx :: transaction where
  "sample_tx = \<lparr>tx_ID = ZeroHash, tx_Sender = copy_address [1], tx_Recipient = copy_address [2],
     tx_Amount = 5, tx_Fee = 1, tx_Nonce = 0, tx_Timestamp = 10, tx_Signature = [7, 7],
     tx_SignatureType = ''BLS'', tx_Payload = [1, 2, 3]\<rparr>"

definition sample_block :: block where
  "sample_block = \<lparr>bl_Index = 1, bl_Timestamp = 20, bl_PreviousHash = ZeroHash, bl_Hash = ZeroHash,
     bl_MerkleRoot = ZeroHash, bl_Signature = [9], bl_SignatureType = ''Ed25519'',
     bl_ValidatorID = copy_address [3], bl_Transactions = [sample_tx, sample_tx\<lparr>tx_Nonce := 1\<rparr>],
     bl_Difficulty = 1, bl_Version = 1, bl_FinalizedBy = [copy_address [4]]\<rparr>"

theorem block_roundtrip_witness:
  "block_fits sample_block \<and>
   bindE (Block_Serialize sample_block) DeserializeBlock = Inr (block_norm sample_block)"
proof -
  have fits: "block_fits sample_block"
    by (simp add: block_fits_def sample_block_def tx_fits_def sample_tx_def)
  with block_roundtrip show ?thesis by blast
qed

text \<open>C18: No byte string makes \<open>DeserializeBlock\<close> panic: it returns a block or an error.\<close>

theorem DeserializeBlock_never_panics: "\<not> panics (DeserializeBlock data)"
  by (rule block_codec.dec_safe)

text \<open>
  C26: A block hash commits to the block.  Two sealed blocks with the same hash and the same number
  of transactions agree on every header field and on every transaction (sender, recipient, amount,
  fee, nonce, timestamp and payload), unless two of the strings hashed on the way collide.
\<close>

theorem block_hash_binds:
  assumes "block_sealed b" "block_sealed b'" "bl_Hash b = bl_Hash b'"
    and "length (bl_Transactions b) = length (bl_Transactions b')"
    and "collision_free {block_preimage b, block_preimage b'}"
    and "collision_free (set (merkle_preimages (tx_leaves b)) \<union> set (merkle_preimages (tx_leaves b')))"
    and "collision_free (tx_preimage ` set (bl_Transactions b @ bl_Transactions b'))"
  shows "block_header b = block_header b' \<and>
    map tx_body (bl_Transactions b) = map tx_body (bl_Transactions b')"
proof -
  have hdr: "block_header b = block_header b'"
    using assms(1-3) collision_freeD [OF assms(5), of "block_preimage b" "block_preimage b'"]
    by (simp add: block_sealed_def ComputeHash_preimage block_preimage_iff)
  then have "Block_ComputeMerkleRoot b = Block_ComputeMerkleRoot b'"
    using assms(1,2) by (simp add: block_sealed_def block_header_def)
  then have "map tx_ID (bl_Transactions b) = map tx_ID (bl_Transactions b')"
    by (rule ComputeMerkleRoot_inj [OF assms(4,6)])
  then have "map tx_body (bl_Transactions b) = map tx_body (bl_Transactions b')"
    by (rule tx_IDs_inj) (use assms(1,2,7) in \<open>auto simp: block_sealed_def\<close>)
  with hdr show ?thesis by simp
qed

definition sealed_tx :: transaction where
  "sealed_tx = sample_tx\<lparr>tx_ID := Transaction_ComputeHash sample_tx\<rparr>"

definition sealed_block :: block where
  "sealed_block = (let b = sample_block\<lparr>bl_Transactions := [sealed_tx],
       bl_MerkleRoot := Block_ComputeMerkleRoot (sample_block\<lparr>bl_Transactions := [sealed_tx]\<rparr>)\<rparr>
     in b\<lparr>bl_Hash := Block_ComputeHash b\<rparr>)"

theorem block_hash_binds_witness:
  "block_header sealed_block = block_header (sealed_block\<lparr>bl_Signature := [8]\<rparr>) \<and>
   map tx_body (bl_Transactions sealed_block) =
     map tx_body (bl_Transactions (sealed_block\<lparr>bl_Signature := [8]\<rparr>))"
proof -
  have "block_preimage (sealed_block\<lparr>bl_Signature := [8]\<rparr>) = block_preimage sealed_block"
    "tx_leaves (sealed_block\<lparr>bl_Signature := [8]\<rparr>) = tx_leaves sealed_block"
    by (simp_all add: block_preimage_def tx_leaves_def)
  moreover have "merkle_preimages (tx_leaves sealed_block) = []"
    by (simp add: tx_leaves_def sealed_block_def Let_def merkle_preimages.simps)
  moreover have "block_sealed sealed_block" "block_sealed (sealed_block\<lparr>bl_Signature := [8]\<rparr>)"
    by (simp_all add: block_sealed_def sealed_block_def sealed_tx_def Let_def Block_ComputeHash_def
        Block_ComputeMerkleRoot_def Transaction_ComputeHash_def)
  ultimately show ?thesis
    by (intro block_hash_binds) (simp_all add: sealed_block_def Let_def)
qed

text \<open>
  The equal-length hypothesis above is needed: an odd leaf is carried over unhashed, so a block
  of two transactions, the first with the ID \<open>H(id1 id2)\<close>, has the same Merkle root and the same hash as
  the block of three.
\<close>

theorem merkle_root_ambiguous:
  assumes "map (\<lambda>tx. Hash_Bytes (tx_ID tx)) (bl_Transactions b) = [x, y, z]"
  shows "Block_ComputeMerkleRoot
      (b\<lparr>bl_Transactions := [t\<lparr>tx_ID := SumHash (x @ y)\<rparr>, bl_Transactions b ! 2]\<rparr>) =
    Block_ComputeMerkleRoot b"
proof -
  have "Hash_Bytes (tx_ID (bl_Transactions b ! 2)) = z"
    using arg_cong [OF assms, of "\<lambda>xs. xs ! 2"] arg_cong [OF assms, of length] by simp
  with assms show ?thesis
    by (simp add: Block_ComputeMerkleRoot_def merkle_loop.simps SumHash_def)
qed

theorem merkle_root_ambiguous_witness:
  "Block_ComputeMerkleRoot (sample_block\<lparr>bl_Transactions :=
       [sample_tx\<lparr>tx_ID := SumHash (Hash_Bytes ZeroHash @ Hash_Bytes ZeroHash)\<rparr>, sample_tx]\<rparr>) =
   Block_ComputeMerkleRoot (sample_block\<lparr>bl_Transactions := [sample_tx, sample_tx, sample_tx]\<rparr>)"
  using merkle_root_ambiguous [of "sample_block\<lparr>bl_Transactions := [sample_tx, sample_tx, sample_tx]\<rparr>"
      "Hash_Bytes ZeroHash" "Hash_Bytes ZeroHash" "Hash_Bytes ZeroHash" sample_tx]
  by (simp add: sample_tx_def)

text \<open>
  \<open>Block.Size\<close> is four bytes short of the serialized length for every transaction of the block,
  because \<open>Transaction.Size\<close> leaves out the signature type.
\<close>

theorem Block_Size_short:
  assumes "block_fits b" "Block_Serialize b = Inr bs"
  shows "length bs = Block_Size b + 4 * length (bl_Transactions b)"
proof -
  have "(\<Sum>tx\<leftarrow>txs. 4 + length (tx_layout tx)) = (\<Sum>tx\<leftarrow>txs. 4 + Transaction_Size tx) + 4 * length txs" for txs
    by (induction txs) (auto simp: Transaction_Size_def)
  moreover have "bs = block_layout b" using assms by (simp add: Block_Serialize_layout)
  ultimately show ?thesis
    by (simp add: length_block_layout Block_Size_def Let_def del: length_tx_layout)
qed

theorem Block_Size_short_witness:
  "length (block_layout sample_block) = Block_Size sample_block + 8"
proof -
  have fits: "block_fits sample_block"
    by (simp add: block_fits_def sample_block_def tx_fits_def sample_tx_def)
  show ?thesis
    using Block_Size_short [OF fits Block_Serialize_layout [OF fits]] by (simp add: sample_block_def)
qed

end
