(* ===== verification/Ledger_State.thy ===== *)
theory Ledger_State
  imports Blocks
begin

text \<open>
  \<open>pkg/ledger/state.go\<close>, \<open>utils.go\<close> and the transaction checks of \<open>validation.go\<close>: balances and nonces in 64-bit
  arithmetic, with the wrap-around and the clamping at zero of the code.  Shown here: when a
  validated transaction without overflow is applied nothing is created or lost, a transaction cannot be validated
  again once it has been applied, and two ways in which the checks fall short.
\<close>

section \<open>Balances and nonces\<close>

record ledger_state =
  ls_balances :: "(string, uint64) fmap"
  ls_nonces :: "(string, uint64) fmap"

definition Ledger_NewState :: ledger_state where
  "Ledger_NewState = \<lparr>ls_balances = fmempty, ls_nonces = fmempty\<rparr>"

text \<open>A missing key reads as zero.\<close>

definition lookup0 :: "(string, uint64) fmap \<Rightarrow> string \<Rightarrow> uint64" where
  "lookup0 m k = (case fmlookup m k of None \<Rightarrow> 0 | Some v \<Rightarrow> v)"

definition GetBalance :: "address \<Rightarrow> ledger_state \<Rightarrow> uint64" where
  "GetBalance address s = lookup0 (ls_balances s) (Address_Hex address)"

definition UpdateBalance :: "address \<Rightarrow> int64 \<Rightarrow> ledger_state \<Rightarrow> ledger_state" where
  "UpdateBalance address amount s =
     (let addrStr = Address_Hex address;
          currentBalance = lookup0 (ls_balances s) addrStr;
          newBalance = currentBalance + amount;
          newBalance = (if sint newBalance < 0 then 0 else newBalance)
      in s\<lparr>ls_balances := fmupd addrStr newBalance (ls_balances s)\<rparr>)"

definition GetNonce :: "address \<Rightarrow> ledger_state \<Rightarrow> uint64" where
  "GetNonce address s = lookup0 (ls_nonces s) (Address_Hex address)"

definition IncrementNonce :: "address \<Rightarrow> ledger_state \<Rightarrow> ledger_state" where
  "IncrementNonce address s =
     s\<lparr>ls_nonces := fmupd (Address_Hex address) (lookup0 (ls_nonces s) (Address_Hex address) + 1) (ls_nonces s)\<rparr>"

text \<open>The body of the loop of \<open>applyBlock\<close>, and the loop.\<close>

definition apply_tx :: "address \<Rightarrow> transaction \<Rightarrow> ledger_state \<Rightarrow> ledger_state" where
  "apply_tx validatorID tx s =
     (let s = UpdateBalance (tx_Sender tx) (- (tx_Amount tx + tx_Fee tx)) s;
          s = IncrementNonce (tx_Sender tx) s;
          s = UpdateBalance (tx_Recipient tx) (tx_Amount tx) s
      in UpdateBalance validatorID (tx_Fee tx) s)"

definition applyBlock :: "block \<Rightarrow> ledger_state \<Rightarrow> ledger_state" where
  "applyBlock block s = fold (apply_tx (bl_ValidatorID block)) (bl_Transactions block) s"

section \<open>Transaction checks\<close>

definition validateTransaction :: "ledger_state \<Rightarrow> transaction \<Rightarrow> bool \<Rightarrow> go_error option" where
  "validateTransaction s tx isGenesisBlock =
     (if Address_IsZero (tx_Sender tx) then Some (ErrorS ''transaction sender address is zero'')
      else if tx_Amount tx \<le> 0 then Some (ErrorS ''transaction amount must be positive'')
      else if tx_Fee tx < 0 then Some (ErrorS ''transaction fee cannot be negative'')
      else if \<not> isGenesisBlock \<and> GetBalance (tx_Sender tx) s < tx_Amount tx + tx_Fee tx
      then Some (ErrorS ''sender has insufficient balance'')
      else if \<not> isGenesisBlock \<and> tx_Nonce tx \<noteq> GetNonce (tx_Sender tx) s + 1
      then Some (ErrorS ''invalid transaction nonce: expected %d, got %d'')
      else None)"

text \<open>The loop over the transactions of a block: the state does not move between the checks.\<close>

fun validate_txs :: "(transaction \<Rightarrow> go_error option) \<Rightarrow> transaction list \<Rightarrow> go_error option" where
  "validate_txs check [] = None"
| "validate_txs check (tx # txs) =
     (case check tx of
        Some err \<Rightarrow> Some (wrap_error ''invalid transaction %s'' err)
      | None \<Rightarrow> validate_txs check txs)"

section \<open>Proof of work\<close>

text \<open>\<open>hash[i] < target[i]\<close> from the first byte on; equal hashes meet the target.\<close>

fun meets_target :: "bytes \<Rightarrow> bytes \<Rightarrow> bool" where
  "meets_target (h # hs) (t # ts) = (if h < t then True else if h > t then False else meets_target hs ts)"
| "meets_target _ _ = True"

definition blockHashMeetsTarget :: "hash \<Rightarrow> hash \<Rightarrow> bool" where
  "blockHashMeetsTarget hash target = meets_target (Hash_Bytes hash) (Hash_Bytes target)"

definition CalculateTarget :: "uint64 \<Rightarrow> hash" where
  "CalculateTarget difficulty = copy_hash (replicate HashSize 0xFF)"

definition validateConsensusRules :: "block \<Rightarrow> go_error option" where
  "validateConsensusRules block =
     (if \<not> blockHashMeetsTarget (bl_Hash block) (CalculateTarget (bl_Difficulty block))
      then Some (ErrorS ''block hash does not meet difficulty target'') else None)"

section \<open>Lemmas\<close>

lemma lookup0_upd [simp]: "lookup0 (fmupd k v m) k' = (if k' = k then v else lookup0 m k')"
  by (simp add: lookup0_def)

lemma GetBalance_UpdateBalance:
  "GetBalance a (UpdateBalance b x s) =
     (if a = b then (if sint (GetBalance b s + x) < 0 then 0 else GetBalance b s + x) else GetBalance a s)"
  by (simp add: GetBalance_def UpdateBalance_def Let_def)

lemma GetBalance_IncrementNonce [simp]: "GetBalance a (IncrementNonce b s) = GetBalance a s"
  by (simp add: GetBalance_def IncrementNonce_def)

lemma GetNonce_UpdateBalance [simp]: "GetNonce a (UpdateBalance b x s) = GetNonce a s"
  by (simp add: GetNonce_def UpdateBalance_def Let_def)

lemma GetNonce_IncrementNonce:
  "GetNonce a (IncrementNonce b s) = (if a = b then GetNonce b s + 1 else GetNonce a s)"
  by (simp add: GetNonce_def IncrementNonce_def)

lemma GetNonce_apply_tx:
  "GetNonce a (apply_tx v tx s) = (if a = tx_Sender tx then GetNonce a s + 1 else GetNonce a s)"
  by (simp add: apply_tx_def Let_def GetNonce_IncrementNonce)

lemma GetNonce_applyBlock:
  "GetNonce a (fold (apply_tx v) txs s) =
     GetNonce a s + word_of_nat (length (filter (\<lambda>tx. tx_Sender tx = a) txs))"
  by (induction txs arbitrary: s) (auto simp: GetNonce_apply_tx)

lemma validate_txs_None: "validate_txs check txs = None \<longleftrightarrow> (\<forall>tx \<in> set txs. check tx = None)"
  by (induction txs) (auto split: option.splits)

text \<open>Without overflow a balance update is the addition it means to be.\<close>

definition total_balance :: "address set \<Rightarrow> ledger_state \<Rightarrow> int" where
  "total_balance A s = (\<Sum>a \<in> A. uint (GetBalance a s))"

lemma total_nonneg: "finite A \<Longrightarrow> a \<in> A \<Longrightarrow> uint (GetBalance a s) \<le> total_balance A s"
  unfolding total_balance_def by (rule member_le_sum) auto

lemma sint_eq_uint_small: "uint (w :: int64) < 2 ^ 63 \<Longrightarrow> sint w = uint w"
proof -
  assume *: "uint w < 2 ^ 63"
  have "- (2 ^ 63) \<le> uint w" by (rule order_trans [of _ 0]) simp_all
  with * show ?thesis by (simp add: sint_uint signed_take_bit_int_eq_self_iff)
qed

lemma uint_credit:
  assumes "uint (GetBalance a s) + uint (x :: int64) < 2 ^ 63"
  shows "uint (GetBalance a (UpdateBalance a x s)) = uint (GetBalance a s) + uint x"
proof -
  have "uint (GetBalance a s + x) = uint (GetBalance a s) + uint x"
    using assms by (simp add: uint_word_ariths)
  with assms show ?thesis
    by (simp add: GetBalance_UpdateBalance sint_eq_uint_small not_less)
qed

lemma uint_debit:
  assumes "uint (GetBalance a s) < 2 ^ 63" "x \<le> GetBalance a s"
  shows "uint (GetBalance a (UpdateBalance a (- x) s)) = uint (GetBalance a s) - uint x"
proof -
  have "uint (GetBalance a s - x) = uint (GetBalance a s) - uint x"
    using assms(2) by (simp add: uint_minus_simple_alt word_le_def)
  moreover from this have "sint (GetBalance a s - x) = uint (GetBalance a s - x)"
    using assms(1) uint_nonnegative [of x] by (intro sint_eq_uint_small) linarith
  ultimately show ?thesis using assms(2) by (simp add: GetBalance_UpdateBalance not_less word_le_def)
qed

lemma total_update:
  assumes "finite A" "a \<in> A" "uint (GetBalance a (UpdateBalance a x s)) = uint (GetBalance a s) + d"
  shows "total_balance A (UpdateBalance a x s) = total_balance A s + d"
proof -
  have "total_balance A (UpdateBalance a x s) = uint (GetBalance a (UpdateBalance a x s)) +
      (\<Sum>b \<in> A - {a}. uint (GetBalance b (UpdateBalance a x s)))"
    unfolding total_balance_def using assms(1,2) by (rule sum.remove)
  also have "(\<Sum>b \<in> A - {a}. uint (GetBalance b (UpdateBalance a x s))) = (\<Sum>b \<in> A - {a}. uint (GetBalance b s))"
    by (rule sum.cong) (auto simp: GetBalance_UpdateBalance)
  finally have "total_balance A (UpdateBalance a x s) =
      uint (GetBalance a s) + (\<Sum>b \<in> A - {a}. uint (GetBalance b s)) + d"
    using assms(3) by simp
  also have "uint (GetBalance a s) + (\<Sum>b \<in> A - {a}. uint (GetBalance b s)) = total_balance A s"
    unfolding total_balance_def using assms(1,2) by (simp add: sum.remove)
  finally show ?thesis .
qed

section \<open>Applying a transaction\<close>

text \<open>The sums the code computes are the real ones.\<close>

definition no_overflow :: "transaction \<Rightarrow> bool" where
  "no_overflow tx \<longleftrightarrow> uint (tx_Amount tx) + uint (tx_Fee tx) < 2 ^ 64"

definition funded :: "transaction \<Rightarrow> ledger_state \<Rightarrow> bool" where
  "funded tx s \<longleftrightarrow> uint (tx_Amount tx) + uint (tx_Fee tx) \<le> uint (GetBalance (tx_Sender tx) s)"

lemma validated_funded:
  assumes "validateTransaction s tx False = None" "no_overflow tx"
  shows "funded tx s"
proof -
  have "tx_Amount tx + tx_Fee tx \<le> GetBalance (tx_Sender tx) s"
    using assms(1) by (auto simp: validateTransaction_def not_less split: if_splits)
  moreover have "uint (tx_Amount tx + tx_Fee tx) = uint (tx_Amount tx) + uint (tx_Fee tx)"
    using assms(2) by (simp add: no_overflow_def uint_word_ariths)
  ultimately show ?thesis by (simp add: funded_def word_le_def)
qed

lemma apply_tx_conserves:
  assumes "funded tx s" "finite A" "tx_Sender tx \<in> A" "tx_Recipient tx \<in> A" "v \<in> A" "total_balance A s < 2 ^ 63"
  shows "total_balance A (apply_tx v tx s) = total_balance A s \<and>
    (\<forall>b. b \<in> A \<longrightarrow> b \<noteq> tx_Sender tx \<longrightarrow> uint (GetBalance b s) \<le> uint (GetBalance b (apply_tx v tx s)))"
proof -
  let ?a = "uint (tx_Amount tx)" and ?f = "uint (tx_Fee tx)"
  define s1 where "s1 = IncrementNonce (tx_Sender tx) (UpdateBalance (tx_Sender tx) (- (tx_Amount tx + tx_Fee tx)) s)"
  define s2 where "s2 = UpdateBalance (tx_Recipient tx) (tx_Amount tx) s1"
  have tot: "total_balance A (IncrementNonce x t) = total_balance A t" for x t by (simp add: total_balance_def)
  have le: "uint (GetBalance a t) \<le> total_balance A t" if "a \<in> A" for a t using total_nonneg [OF assms(2) that] .
  have sum: "uint (tx_Amount tx + tx_Fee tx) = ?a + ?f"
    using assms(1) unsigned_less [of "GetBalance (tx_Sender tx) s", where ?'a = int]
    by (simp add: funded_def uint_word_ariths)
  have "uint (GetBalance (tx_Sender tx) (UpdateBalance (tx_Sender tx) (- (tx_Amount tx + tx_Fee tx)) s)) =
      uint (GetBalance (tx_Sender tx) s) - (?a + ?f)"
    unfolding sum [symmetric]
    using assms(1,6) le [OF assms(3), of s] by (intro uint_debit) (auto simp: funded_def word_le_def sum)
  then have t1: "total_balance A s1 = total_balance A s - (?a + ?f)"
    using total_update [OF assms(2,3), of "- (tx_Amount tx + tx_Fee tx)" s "- (?a + ?f)"] by (simp add: s1_def tot)
  have nn: "0 \<le> ?a" "0 \<le> ?f" by simp_all
  have c2: "uint (GetBalance (tx_Recipient tx) s2) = uint (GetBalance (tx_Recipient tx) s1) + ?a"
    unfolding s2_def using le [OF assms(4), of s1] t1 assms(6) nn by (intro uint_credit) linarith
  then have t2: "total_balance A s2 = total_balance A s - ?f"
    unfolding s2_def using total_update [OF assms(2,4)] t1 by (simp add: s2_def)
  have c3: "uint (GetBalance v (UpdateBalance v (tx_Fee tx) s2)) = uint (GetBalance v s2) + ?f"
    using le [OF assms(5), of s2] t2 assms(6) nn by (intro uint_credit) linarith
  then have "total_balance A (UpdateBalance v (tx_Fee tx) s2) = total_balance A s"
    using total_update [OF assms(2,5)] t2 by simp
  moreover have fin: "apply_tx v tx s = UpdateBalance v (tx_Fee tx) s2"
    by (simp add: apply_tx_def s1_def s2_def Let_def)
  moreover have "uint (GetBalance b s) \<le> uint (GetBalance b (apply_tx v tx s))" if "b \<in> A" "b \<noteq> tx_Sender tx" for b
  proof -
    have b1: "GetBalance b s1 = GetBalance b s" using that by (simp add: s1_def GetBalance_UpdateBalance)
    have b2: "uint (GetBalance b s1) \<le> uint (GetBalance b s2)"
      using c2 nn by (cases "b = tx_Recipient tx") (simp_all add: s2_def GetBalance_UpdateBalance)
    have "uint (GetBalance b s2) \<le> uint (GetBalance b (UpdateBalance v (tx_Fee tx) s2))"
      using c3 nn by (cases "b = v") (simp_all add: GetBalance_UpdateBalance)
    with b1 b2 show ?thesis by (simp add: fin)
  qed
  ultimately show ?thesis by simp
qed

lemma fold_conserves:
  assumes "list_all (\<lambda>tx. funded tx s) txs" "distinct (map tx_Sender txs)" "finite A" "v \<in> A"
    "list_all (\<lambda>tx. tx_Sender tx \<in> A \<and> tx_Recipient tx \<in> A) txs" "total_balance A s < 2 ^ 63"
  shows "total_balance A (fold (apply_tx v) txs s) = total_balance A s"
  using assms
proof (induction txs arbitrary: s)
  case (Cons tx txs)
  have step: "total_balance A (apply_tx v tx s) = total_balance A s"
    "\<And>b. b \<in> A \<Longrightarrow> b \<noteq> tx_Sender tx \<Longrightarrow> uint (GetBalance b s) \<le> uint (GetBalance b (apply_tx v tx s))"
    using apply_tx_conserves [of tx s A v] Cons.prems by auto
  have "funded t (apply_tx v tx s)" if "t \<in> set txs" for t
  proof -
    have "tx_Sender t \<noteq> tx_Sender tx" using Cons.prems(2) imageI [OF that, of tx_Sender] by auto
    moreover have "tx_Sender t \<in> A" "funded t s" using Cons.prems that by (auto simp: list_all_iff)
    ultimately show ?thesis using step(2) [of "tx_Sender t"] by (simp add: funded_def)
  qed
  then have "total_balance A (fold (apply_tx v) txs (apply_tx v tx s)) = total_balance A (apply_tx v tx s)"
    using Cons.prems step(1) by (intro Cons.IH) (auto simp: list_all_iff)
  with step(1) show ?case by simp
qed simp

section \<open>Properties\<close>

text \<open>
  C5: Conservation.  Applying a block whose transactions all pass validation leaves the sum of the
  balances unchanged, provided every sender occurs once in the block, no amount plus fee
  overflows and the sum is below \<open>2 ^ 63\<close>.
\<close>

theorem applyBlock_conserves:
  assumes "validate_txs (\<lambda>tx. validateTransaction s tx False) (bl_Transactions b) = None"
    and "distinct (map tx_Sender (bl_Transactions b))" "list_all no_overflow (bl_Transactions b)"
    and "finite A" "bl_ValidatorID b \<in> A"
    and "list_all (\<lambda>tx. tx_Sender tx \<in> A \<and> tx_Recipient tx \<in> A) (bl_Transactions b)"
    and "total_balance A s < 2 ^ 63"
  shows "total_balance A (applyBlock b s) = total_balance A s"
  unfolding applyBlock_def
proof (rule fold_conserves)
  show "list_all (\<lambda>tx. funded tx s) (bl_Transactions b)"
    using assms(1,3) validated_funded by (auto simp: list_all_iff validate_txs_None)
qed (use assms in auto)

definition sample_state :: ledger_state where
  "sample_state = \<lparr>ls_balances = fmupd (Address_Hex (copy_address [1])) 10 fmempty, ls_nonces = fmempty\<rparr>"

definition spend_tx :: transaction where
  "spend_tx = sample_tx\<lparr>tx_Nonce := 1\<rparr>"

lemma address_neq:
  "copy_address [1] \<noteq> ZeroAddress" "copy_address [1] \<noteq> copy_address [2]"
  "copy_address [1] \<noteq> copy_address [3]" "copy_address [2] \<noteq> copy_address [3]"
  "copy_address [2] \<noteq> ZeroAddress"
  by (simp_all add: ZeroAddress_def copy_array_def eval_nat_numeral flip: address_slice_eq_iff)

lemma sample_state_facts:
  "GetBalance (copy_address [1]) sample_state = 10" "GetNonce a sample_state = 0"
  "a \<noteq> copy_address [1] \<Longrightarrow> GetBalance a sample_state = 0"
  by (simp_all add: sample_state_def GetBalance_def GetNonce_def lookup0_def)

lemma spend_tx_valid: "validateTransaction sample_state spend_tx False = None"
  by (simp add: validateTransaction_def spend_tx_def sample_tx_def sample_state_facts address_neq
      Address_IsZero_iff)

lemma spend_tx_fields [simp]:
  "tx_Sender spend_tx = copy_address [1]" "tx_Recipient spend_tx = copy_address [2]" "tx_Amount spend_tx = 5"
  "tx_Fee spend_tx = 1" "tx_Nonce spend_tx = 1"
  by (simp_all add: spend_tx_def sample_tx_def)

lemma sample_block_fields [simp]: "bl_ValidatorID sample_block = copy_address [3]"
  by (simp add: sample_block_def)

theorem applyBlock_conserves_witness:
  "total_balance {copy_address [1], copy_address [2], copy_address [3]}
     (applyBlock (sample_block\<lparr>bl_Transactions := [spend_tx]\<rparr>) sample_state) = 10"
proof -
  let ?A = "{copy_address [1], copy_address [2], copy_address [3]}"
  have tot: "total_balance ?A sample_state = 10"
    using address_neq by (simp add: total_balance_def sample_state_facts)
  have "total_balance ?A (applyBlock (sample_block\<lparr>bl_Transactions := [spend_tx]\<rparr>) sample_state) =
      total_balance ?A sample_state"
    by (rule applyBlock_conserves) (simp_all add: spend_tx_valid no_overflow_def tot)
  with tot show ?thesis by simp
qed



text \<open>
  C39: The overflow condition is needed.  A transaction of amount \<open>2 ^ 64 - k\<close> and fee \<open>k\<close> passes validation for
  a sender without any balance, and applying it takes \<open>k\<close> from the recipient and gives it to the
  validator.
\<close>

theorem overflowing_transaction_steals:
  assumes "0 < k" "uint k \<le> uint (GetBalance (tx_Recipient tx) s)" "uint (GetBalance (tx_Recipient tx) s) < 2 ^ 62"
    and "uint (GetBalance v s) < 2 ^ 62" "tx_Amount tx = - k" "tx_Fee tx = k"
    and "tx_Sender tx \<noteq> ZeroAddress" "tx_Nonce tx = GetNonce (tx_Sender tx) s + 1"
    and "v \<noteq> tx_Recipient tx" "tx_Sender tx \<notin> {v, tx_Recipient tx}"
  shows "validateTransaction s tx False = None \<and>
    uint (GetBalance (tx_Recipient tx) (apply_tx v tx s)) = uint (GetBalance (tx_Recipient tx) s) - uint k \<and>
    uint (GetBalance v (apply_tx v tx s)) = uint (GetBalance v s) + uint k"
proof -
  have "- k \<noteq> 0" using assms(1) by auto
  then have valid: "validateTransaction s tx False = None"
    using assms by (simp add: validateTransaction_def Address_IsZero_iff)
  define s1 where "s1 = IncrementNonce (tx_Sender tx) (UpdateBalance (tx_Sender tx) (- (tx_Amount tx + tx_Fee tx)) s)"
  define s2 where "s2 = UpdateBalance (tx_Recipient tx) (tx_Amount tx) s1"
  have s1: "GetBalance b s1 = GetBalance b s" if "b \<noteq> tx_Sender tx" for b
    using that by (simp add: s1_def GetBalance_UpdateBalance)
  have r: "uint (GetBalance (tx_Recipient tx) s2) = uint (GetBalance (tx_Recipient tx) s1) - uint k"
    unfolding s2_def assms(5)
    by (rule uint_debit) (use assms s1 [of "tx_Recipient tx"] in \<open>auto simp: word_le_def\<close>)
  have v: "GetBalance v s2 = GetBalance v s"
    using assms(9,10) s1 [of v] by (auto simp: s2_def GetBalance_UpdateBalance)
  have "uint k < 2 ^ 62" using assms(2,3) by linarith
  then have c: "uint (GetBalance v (UpdateBalance v (tx_Fee tx) s2)) = uint (GetBalance v s2) + uint k"
    unfolding assms(6) by (intro uint_credit) (use v assms(4) in simp)
  have "apply_tx v tx s = UpdateBalance v (tx_Fee tx) s2" by (simp add: apply_tx_def s1_def s2_def Let_def)
  then show ?thesis
    using valid r c v s1 [of "tx_Recipient tx"] assms(9,10) by (auto simp: GetBalance_UpdateBalance)
qed

theorem overflowing_transaction_steals_witness:
  "uint (GetBalance (copy_address [3])
     (apply_tx (copy_address [3]) (sample_tx\<lparr>tx_Sender := copy_address [2], tx_Recipient := copy_address [1],
        tx_Amount := - 4, tx_Fee := 4, tx_Nonce := 1\<rparr>) sample_state)) = 4"
proof -
  let ?tx = "sample_tx\<lparr>tx_Sender := copy_address [2], tx_Recipient := copy_address [1],
        tx_Amount := - 4, tx_Fee := 4, tx_Nonce := 1\<rparr>"
  show ?thesis
    using overflowing_transaction_steals [of 4 ?tx sample_state "copy_address [3]"] address_neq
    by (auto simp: sample_state_facts)
qed

text \<open>
  The distinct-senders condition is needed.  Validation looks at every transaction in the state
  before the block, so a block with the same transfer twice passes, and the balance clamped at zero
  leaves the recipient with more than the sender had.
\<close>

theorem double_spend_in_one_block:
  "validate_txs (\<lambda>tx. validateTransaction sample_state tx False) [spend_tx, spend_tx] = None \<and>
   total_balance {copy_address [1], copy_address [2], copy_address [3]}
     (applyBlock (sample_block\<lparr>bl_Transactions := [spend_tx, spend_tx]\<rparr>) sample_state) >
   total_balance {copy_address [1], copy_address [2], copy_address [3]} sample_state"
proof -
  have "GetBalance (copy_address [1]) (applyBlock (sample_block\<lparr>bl_Transactions := [spend_tx, spend_tx]\<rparr>) sample_state) = 0"
    "GetBalance (copy_address [2]) (applyBlock (sample_block\<lparr>bl_Transactions := [spend_tx, spend_tx]\<rparr>) sample_state) = 10"
    "GetBalance (copy_address [3]) (applyBlock (sample_block\<lparr>bl_Transactions := [spend_tx, spend_tx]\<rparr>) sample_state) = 2"
    using address_neq
    by (simp_all add: applyBlock_def apply_tx_def Let_def GetBalance_UpdateBalance sample_state_facts)
  with address_neq show ?thesis
    by (simp add: validate_txs_None spend_tx_valid total_balance_def sample_state_facts)
qed

lemma meets_max_target: "length hs = length ts \<Longrightarrow> list_all (\<lambda>t. t = - 1) ts \<Longrightarrow> meets_target hs ts"
proof (induction hs ts rule: meets_target.induct)
  case (1 h hs t ts)
  then have "h \<le> t" by simp
  with 1 show ?case by (auto simp: not_less dest: order.antisym)
qed auto

text \<open>
  The proof-of-work check accepts every block: the target is all ones whatever the difficulty, and no
  hash exceeds it.
\<close>

theorem proof_of_work_vacuous: "validateConsensusRules b = None"
proof -
  have "Hash_Bytes (CalculateTarget d) = replicate 32 (- 1)" for d
    by (simp add: CalculateTarget_def)
  then show ?thesis
    by (simp add: validateConsensusRules_def blockHashMeetsTarget_def meets_max_target list_all_iff)
qed

end
