(* ===== verification/Ledger.thy ===== *)
theory Ledger
  imports Ledger_State
begin

text \<open>
  \<open>pkg/ledger\<close>: the DAG of blocks (\<open>ledger.go\<close>, \<open>block.go\<close>, \<open>chain.go\<close>, \<open>traversal.go\<close>, \<open>transaction.go\<close>,
  \<open>validation.go\<close>).  The graph is a third-party library over the same database as the ledger, so its
  operations are the fields of \<open>'e graph_lib\<close> over the database environment \<open>'e\<close>, and \<open>graph_laws\<close> names what
  the library documents.  Shown here: the ledger stays acyclic and linked, and what \<open>AddBlock\<close> leaves behind on
  every path, errors included.
\<close>

section \<open>The graph library\<close>

definition ErrVertexNotFound :: go_error where "ErrVertexNotFound = ErrorS ''vertex not found''"
definition ErrVertexAlreadyExists :: go_error where "ErrVertexAlreadyExists = ErrorS ''vertex already exists''"
definition ErrEdgeAlreadyExists :: go_error where "ErrEdgeAlreadyExists = ErrorS ''edge already exists''"
definition ErrCycle :: go_error where "ErrCycle = ErrorS ''graph contains at least one cycle''"

lemmas graph_errors = ErrVertexNotFound_def ErrVertexAlreadyExists_def ErrEdgeAlreadyExists_def ErrCycle_def

text \<open>
  \<open>g_AdjacencyMap\<close> gives the targets of each vertex in the order in which they are iterated;
  \<open>g_BFS\<close> the order in which a breadth-first search from a vertex visits.
\<close>

record 'e graph_lib =
  g_AddVertex :: "block \<Rightarrow> 'e \<Rightarrow> go_error option \<times> 'e"
  g_Vertex :: "hash \<Rightarrow> 'e \<Rightarrow> block result"
  g_CreatesCycle :: "hash \<Rightarrow> hash \<Rightarrow> 'e \<Rightarrow> bool result"
  g_AddEdge :: "hash \<Rightarrow> hash \<Rightarrow> 'e \<Rightarrow> go_error option \<times> 'e"
  g_AdjacencyMap :: "'e \<Rightarrow> (hash, hash list) fmap result"
  g_TopologicalSort :: "'e \<Rightarrow> hash list result"
  g_BFS :: "hash \<Rightarrow> 'e \<Rightarrow> hash list result"

text \<open>\<open>l.storage.Set\<close>, the only method of the provider the ledger calls itself.\<close>

type_synonym 'e setter = "bytes \<Rightarrow> bytes \<Rightarrow> 'e \<Rightarrow> go_error option \<times> 'e"

section \<open>Ledger\<close>

record 'e ledger =
  lg_env :: 'e
  lg_state :: ledger_state

definition NewLedger :: "'e \<Rightarrow> 'e ledger" where
  "NewLedger storage = \<lparr>lg_env = storage, lg_state = Ledger_NewState\<rparr>"

definition is_err :: "go_error option \<Rightarrow> go_error \<Rightarrow> bool" where
  "is_err r target \<longleftrightarrow> (case r of None \<Rightarrow> False | Some e \<Rightarrow> errors_Is e target)"

definition credit_genesis :: "transaction list \<Rightarrow> ledger_state \<Rightarrow> ledger_state" where
  "credit_genesis txs s = fold (\<lambda>tx. UpdateBalance (tx_Recipient tx) (tx_Amount tx)) txs s"

definition AddBlock :: "'e graph_lib \<Rightarrow> 'e setter \<Rightarrow> block \<Rightarrow> 'e ledger \<Rightarrow> go_error option \<times> 'e ledger" where
  "AddBlock G pset block l =
     (if IsZeroHash (bl_PreviousHash block) then
        let (err, env) = g_AddVertex G block (lg_env l); l = l\<lparr>lg_env := env\<rparr> in
        if err \<noteq> None \<and> \<not> is_err err ErrVertexAlreadyExists
        then (map_option (wrap_error ''failed to add genesis block to graph'') err, l)
        else
          (case Block_Serialize block of
             Inl err \<Rightarrow> (Some (wrap_error ''failed to serialize genesis block'' err), l)
           | Inr value \<Rightarrow>
               let (err, env) = pset (Hash_Bytes (bl_Hash block)) value (lg_env l); l = l\<lparr>lg_env := env\<rparr> in
               if err \<noteq> None
               then (map_option (wrap_error ''failed to store genesis block in database'') err, l)
               else (None, l\<lparr>lg_state := credit_genesis (bl_Transactions block) (lg_state l)\<rparr>))
      else
        let l = l\<lparr>lg_state := applyBlock block (lg_state l)\<rparr>;
            (err, env) = g_AddVertex G block (lg_env l); l = l\<lparr>lg_env := env\<rparr> in
        if err \<noteq> None \<and> \<not> is_err err ErrVertexAlreadyExists
        then (map_option (wrap_error ''failed to add vertex to graph'') err, l)
        else
          (case g_CreatesCycle G (bl_PreviousHash block) (bl_Hash block) (lg_env l) of
             Inl err \<Rightarrow> (Some (wrap_error ''failed to check for cycles'' err), l)
           | Inr createsCycle \<Rightarrow>
               if createsCycle then (Some (ErrorS ''adding block %s would create a cycle''), l)
               else
                 let (err, env) = g_AddEdge G (bl_PreviousHash block) (bl_Hash block) (lg_env l);
                     l = l\<lparr>lg_env := env\<rparr> in
                 if err \<noteq> None \<and> \<not> is_err err ErrEdgeAlreadyExists
                 then (map_option (wrap_error ''failed to add edge from %s to %s'') err, l)
                 else (None, l)))"

definition GetBlock :: "'e graph_lib \<Rightarrow> hash \<Rightarrow> 'e ledger \<Rightarrow> block result" where
  "GetBlock G hash l = wrapE ''failed to retrieve block from graph'' (g_Vertex G hash (lg_env l))"

text \<open>The inner and outer loop of \<open>GetBlockByIndex\<close> run over all edge targets in iteration order.\<close>

fun find_index :: "'e graph_lib \<Rightarrow> uint64 \<Rightarrow> hash list \<Rightarrow> 'e ledger \<Rightarrow> block option" where
  "find_index G index [] l = None"
| "find_index G index (target # targets) l =
     (case g_Vertex G target (lg_env l) of
        Inr block \<Rightarrow> if bl_Index block = index then Some block else find_index G index targets l
      | Inl _ \<Rightarrow> find_index G index targets l)"

definition GetBlockByIndex :: "'e graph_lib \<Rightarrow> hash list \<Rightarrow> uint64 \<Rightarrow> 'e ledger \<Rightarrow> block result" where
  "GetBlockByIndex G order index l =
     bindE (wrapE ''failed to get adjacency map'' (g_AdjacencyMap G (lg_env l))) (\<lambda>adjacencyMap.
       case find_index G index (concat (range_values order adjacencyMap)) l of
         Some block \<Rightarrow> Inr block
       | None \<Rightarrow> Inl (ErrorS ''block with index %d not found''))"

fun latest_loop :: "'e graph_lib \<Rightarrow> (hash, hash list) fmap \<Rightarrow> hash list \<Rightarrow> 'e ledger \<Rightarrow> block result" where
  "latest_loop G adjacencyMap [] l = Inl (ErrorS ''failed to find the latest block'')"
| "latest_loop G adjacencyMap (blockHash # hashes) l =
     (if fmlookup adjacencyMap blockHash = Some []
      then wrapE ''failed to retrieve latest block from graph'' (g_Vertex G blockHash (lg_env l))
      else latest_loop G adjacencyMap hashes l)"

definition GetLatestBlock :: "'e graph_lib \<Rightarrow> hash list \<Rightarrow> 'e ledger \<Rightarrow> block result" where
  "GetLatestBlock G order l =
     bindE (wrapE ''failed to get adjacency map'' (g_AdjacencyMap G (lg_env l))) (\<lambda>adjacencyMap.
       latest_loop G adjacencyMap order l)"

text \<open>The library reports a cycle with its own error; the ledger compares the text.\<close>

definition Ledger_ValidateChain :: "'e graph_lib \<Rightarrow> 'e ledger \<Rightarrow> bool \<times> go_error option" where
  "Ledger_ValidateChain G l =
     (case g_TopologicalSort G (lg_env l) of
        Inl err \<Rightarrow>
          if err = ErrCycle then (False, Some (ErrorS ''ledger contains cycles''))
          else (False, Some (wrap_error ''failed to perform topological sort'' err))
      | Inr _ \<Rightarrow> (True, None))"

section \<open>Traversal\<close>

fun collect :: "'e graph_lib \<Rightarrow> hash list \<Rightarrow> (hash, block) fmap \<Rightarrow> 'e ledger \<Rightarrow> (hash, block) fmap" where
  "collect G [] blocksMap l = blocksMap"
| "collect G (v # vs) blocksMap l =
     (case g_Vertex G v (lg_env l) of
        Inr block \<Rightarrow> collect G vs (fmupd v block blocksMap) l
      | Inl _ \<Rightarrow> collect G vs blocksMap l)"

fun collect_targets :: "'e graph_lib \<Rightarrow> hash list \<Rightarrow> (hash, block) fmap \<Rightarrow> 'e ledger \<Rightarrow> (hash, block) fmap" where
  "collect_targets G [] blocksMap l = blocksMap"
| "collect_targets G (v # vs) blocksMap l =
     (if fmlookup blocksMap v = None
      then (case g_Vertex G v (lg_env l) of
              Inr block \<Rightarrow> collect_targets G vs (fmupd v block blocksMap) l
            | Inl _ \<Rightarrow> collect_targets G vs blocksMap l)
      else collect_targets G vs blocksMap l)"

definition ListBlocks_map :: "'e graph_lib \<Rightarrow> hash list \<Rightarrow> hash list \<Rightarrow> 'e ledger \<Rightarrow> (hash, block) fmap result" where
  "ListBlocks_map G order1 order2 l =
     bindE (wrapE ''failed to get adjacency map'' (g_AdjacencyMap G (lg_env l))) (\<lambda>adjacencyMap.
     Inr (collect_targets G (concat (range_values order2 adjacencyMap)) (collect G order1 fmempty l) l))"

text \<open>\<open>order1\<close> and \<open>order2\<close> are the two iterations over the adjacency map, \<open>order3\<close> that over the result.\<close>

definition ListBlocks ::
  "'e graph_lib \<Rightarrow> hash list \<Rightarrow> hash list \<Rightarrow> hash list \<Rightarrow> 'e ledger \<Rightarrow> block list result" where
  "ListBlocks G order1 order2 order3 l =
     bindE (ListBlocks_map G order1 order2 l) (\<lambda>blocksMap. Inr (range_values order3 blocksMap))"

fun successors_loop :: "'e graph_lib \<Rightarrow> hash \<Rightarrow> hash list \<Rightarrow> hash list \<Rightarrow> block list \<Rightarrow> 'e ledger \<Rightarrow> block list" where
  "successors_loop G hash [] visited successors l = successors"
| "successors_loop G hash (u # us) visited successors l =
     (if Hash_Equal u hash \<or> u \<in> set visited then successors_loop G hash us visited successors l
      else
        (case g_Vertex G u (lg_env l) of
           Inl _ \<Rightarrow> successors
         | Inr block \<Rightarrow> successors_loop G hash us (u # visited) (successors @ [block]) l))"

definition TraverseSuccessors :: "'e graph_lib \<Rightarrow> hash \<Rightarrow> 'e ledger \<Rightarrow> block list result" where
  "TraverseSuccessors G hash l =
     bindE (wrapE ''failed to traverse successors'' (g_BFS G hash (lg_env l))) (\<lambda>order.
       Inr (successors_loop G hash order [] [] l))"

fun find_tx :: "hash \<Rightarrow> transaction list \<Rightarrow> transaction option" where
  "find_tx txID [] = None"
| "find_tx txID (tx # txs) = (if Hash_Equal (tx_ID tx) txID then Some tx else find_tx txID txs)"

definition Ledger_GetTransaction ::
  "'e graph_lib \<Rightarrow> hash list \<Rightarrow> hash list \<Rightarrow> hash list \<Rightarrow> hash \<Rightarrow> 'e ledger \<Rightarrow> transaction result" where
  "Ledger_GetTransaction G order1 order2 order3 txID l =
     bindE (wrapE ''failed to list blocks'' (ListBlocks G order1 order2 order3 l)) (\<lambda>blocks.
       case find_tx txID (concat (map bl_Transactions blocks)) of
         Some tx \<Rightarrow> Inr tx
       | None \<Rightarrow> Inl (ErrorS ''transaction %s not found''))"

text \<open>The callback carries a state of its own, since it may collect what it sees.\<close>

fun iterate_txs :: "(transaction \<Rightarrow> 's \<Rightarrow> go_error option \<times> 's) \<Rightarrow> transaction list \<Rightarrow> 's \<Rightarrow> go_error option \<times> 's" where
  "iterate_txs fn [] s = (None, s)"
| "iterate_txs fn (tx # txs) s =
     (case fn tx s of (Some err, s) \<Rightarrow> (Some err, s) | (None, s) \<Rightarrow> iterate_txs fn txs s)"

definition IterateTransactions ::
  "'e graph_lib \<Rightarrow> hash list \<Rightarrow> hash list \<Rightarrow> hash list \<Rightarrow> (transaction \<Rightarrow> 's \<Rightarrow> go_error option \<times> 's) \<Rightarrow>
   'e ledger \<Rightarrow> 's \<Rightarrow> go_error option \<times> 's" where
  "IterateTransactions G order1 order2 order3 fn l s =
     (case ListBlocks G order1 order2 order3 l of
        Inl err \<Rightarrow> (Some (wrap_error ''failed to list blocks'' err), s)
      | Inr blocks \<Rightarrow> iterate_txs fn (concat (map bl_Transactions blocks)) s)"

definition SeekTransactions ::
  "'e graph_lib \<Rightarrow> hash list \<Rightarrow> hash list \<Rightarrow> hash list \<Rightarrow> (transaction \<Rightarrow> bool) \<Rightarrow> 'e ledger \<Rightarrow> transaction list result"
where
  "SeekTransactions G order1 order2 order3 pred l =
     (case IterateTransactions G order1 order2 order3
             (\<lambda>tx matched. (None, if pred tx then matched @ [tx] else matched)) l [] of
        (Some err, _) \<Rightarrow> Inl err
      | (None, matchedTxs) \<Rightarrow> Inr matchedTxs)"

section \<open>Block validation\<close>

definition Ledger_MaxTimeDrift :: int64 where "Ledger_MaxTimeDrift = 900"

text \<open>
  \<open>Ledger.ValidateBlock\<close> and \<open>Blockchain.ValidateBlock\<close> are the same text with their own drift, transaction
  checks and consensus rules; the common part takes the three.  \<open>now\<close> is \<open>time.Now().Unix()\<close>.
\<close>

definition validate_block_with ::
  "int64 \<Rightarrow> (transaction \<Rightarrow> bool \<Rightarrow> go_error option) \<Rightarrow> (block \<Rightarrow> go_error option) \<Rightarrow> (hash \<Rightarrow> block result) \<Rightarrow> int64 \<Rightarrow> block \<Rightarrow>
   go_error option"
where
  "validate_block_with drift check_tx rules get_block now block =
     (if bl_Index block = 0 \<and> bl_PreviousHash block \<noteq> ZeroHash
      then Some (ErrorS ''genesis block must have a zero previous hash'')
      else
      (case (if bl_Index block > 0
             then (case get_block (bl_PreviousHash block) of
                     Inl err \<Rightarrow> Some (wrap_error ''previous block not found'' err)
                   | Inr prevBlock \<Rightarrow>
                       if bl_Index block \<noteq> bl_Index prevBlock + 1
                       then Some (ErrorS ''block index %d is not sequential'') else None)
             else None) of
         Some err \<Rightarrow> Some err
       | None \<Rightarrow>
      if \<not> HashEqual (bl_Hash block) (Block_ComputeHash block) then Some (ErrorS ''block hash is invalid'')
      else if \<not> HashEqual (bl_MerkleRoot block) (Block_ComputeMerkleRoot block)
      then Some (ErrorS ''block Merkle root is invalid'')
      else if sint (bl_Timestamp block) > sint (now + drift)
      then Some (ErrorS ''block timestamp %d is too far in the future'')
      else
      (case (if bl_Index block > 0
             then (case get_block (bl_PreviousHash block) of
                     Inl err \<Rightarrow> Some (wrap_error ''previous block not found'' err)
                   | Inr prevBlock \<Rightarrow>
                       if sint (bl_Timestamp block) < sint (bl_Timestamp prevBlock)
                       then Some (ErrorS ''block timestamp %d is not greater than previous block timestamp %d'')
                       else None)
             else None) of
         Some err \<Rightarrow> Some err
       | None \<Rightarrow>
      (case validate_txs (\<lambda>tx. check_tx tx (bl_Index block = 0)) (bl_Transactions block) of
         Some err \<Rightarrow> Some err
       | None \<Rightarrow> map_option (wrap_error ''block does not meet consensus rules'') (rules block)))))"

definition Ledger_ValidateBlock :: "'e graph_lib \<Rightarrow> int64 \<Rightarrow> block \<Rightarrow> 'e ledger \<Rightarrow> go_error option" where
  "Ledger_ValidateBlock G now block l =
     validate_block_with Ledger_MaxTimeDrift (validateTransaction (lg_state l)) validateConsensusRules (\<lambda>h. GetBlock G h l)
       now block"

section \<open>What the library promises\<close>

text \<open>
  \<open>V e\<close> are the vertices and \<open>E e\<close> the edges stored in the environment.  Errors other than the documented
  ones (I/O) are possible and change nothing; writing a 32-byte key leaves the graph alone, since the keys of
  the graph store are longer.
\<close>

definition graph_laws ::
  "'e graph_lib \<Rightarrow> 'e setter \<Rightarrow> ('e \<Rightarrow> hash \<Rightarrow> block option) \<Rightarrow> ('e \<Rightarrow> (hash \<times> hash) set) \<Rightarrow> bool" where
  "graph_laws G pset V E \<longleftrightarrow>
     (\<forall>b e r e'. g_AddVertex G b e = (r, e') \<longrightarrow> E e' = E e \<and>
        (if r = None then V e (bl_Hash b) = None \<and> V e' = (V e)(bl_Hash b \<mapsto> b) else V e' = V e) \<and>
        (is_err r ErrVertexAlreadyExists \<longrightarrow> V e (bl_Hash b) \<noteq> None)) \<and>
     (\<forall>h e. g_Vertex G h e = (case V e h of None \<Rightarrow> Inl ErrVertexNotFound | Some b \<Rightarrow> Inr b)) \<and>
     (\<forall>u v e c. g_CreatesCycle G u v e = Inr c \<longrightarrow>
        V e u \<noteq> None \<and> V e v \<noteq> None \<and> (c \<longleftrightarrow> u = v \<or> (v, u) \<in> (E e)\<^sup>*)) \<and>
     (\<forall>u v e. V e u = None \<or> V e v = None \<longrightarrow> (\<exists>err. g_CreatesCycle G u v e = Inl err)) \<and>
     (\<forall>u v e r e'. g_AddEdge G u v e = (r, e') \<longrightarrow> V e' = V e \<and>
        (if r = None then E e' = insert (u, v) (E e) else E e' = E e) \<and>
        (is_err r ErrEdgeAlreadyExists \<longrightarrow> (u, v) \<in> E e)) \<and>
     (\<forall>k v e r e'. length k = 32 \<longrightarrow> pset k v e = (r, e') \<longrightarrow> V e' = V e \<and> E e' = E e)"

definition adjacency_laws ::
  "'e graph_lib \<Rightarrow> ('e \<Rightarrow> hash \<Rightarrow> block option) \<Rightarrow> ('e \<Rightarrow> (hash \<times> hash) set) \<Rightarrow> bool" where
  "adjacency_laws G V E \<longleftrightarrow>
     (\<forall>e. \<exists>m. g_AdjacencyMap G e = Inr m \<and> fset (fmdom m) = dom (V e) \<and>
        (\<forall>u ts. fmlookup m u = Some ts \<longrightarrow> set ts = {v. (u, v) \<in> E e}))"

section \<open>The ledger invariant\<close>

text \<open>No cycles, edges only between blocks of the ledger, and vertices filed under their hash.\<close>

definition dag_ok :: "('e \<Rightarrow> hash \<Rightarrow> block option) \<Rightarrow> ('e \<Rightarrow> (hash \<times> hash) set) \<Rightarrow> 'e \<Rightarrow> bool" where
  "dag_ok V E e \<longleftrightarrow> acyclic (E e) \<and> (\<forall>(u, v) \<in> E e. V e u \<noteq> None \<and> V e v \<noteq> None) \<and>
     (\<forall>h b. V e h = Some b \<longrightarrow> bl_Hash b = h)"

lemma acyclic_insert_edge: "acyclic r \<Longrightarrow> u \<noteq> v \<Longrightarrow> (v, u) \<notin> r\<^sup>* \<Longrightarrow> acyclic (insert (u, v) r)"
  by (simp add: acyclic_insert)

text \<open>The path of \<open>AddBlock\<close> for a block with a predecessor.\<close>

lemma AddBlock_linked:
  assumes "graph_laws G pset V E" "\<not> IsZeroHash (bl_PreviousHash b)" "AddBlock G pset b l = (r, l')"
  shows "lg_state l' = applyBlock b (lg_state l) \<and>
    (V (lg_env l') = V (lg_env l) \<or> V (lg_env l) (bl_Hash b) = None \<and> V (lg_env l') = (V (lg_env l))(bl_Hash b \<mapsto> b)) \<and>
    (E (lg_env l') = E (lg_env l) \<and> (r = None \<longrightarrow> (bl_PreviousHash b, bl_Hash b) \<in> E (lg_env l)) \<or>
     r = None \<and> E (lg_env l') = insert (bl_PreviousHash b, bl_Hash b) (E (lg_env l)) \<and>
       bl_PreviousHash b \<noteq> bl_Hash b \<and> (bl_Hash b, bl_PreviousHash b) \<notin> (E (lg_env l))\<^sup>* \<and>
       V (lg_env l') (bl_PreviousHash b) \<noteq> None \<and> V (lg_env l') (bl_Hash b) \<noteq> None) \<and>
    (r = None \<longrightarrow> V (lg_env l') (bl_PreviousHash b) \<noteq> None \<and> V (lg_env l') (bl_Hash b) \<noteq> None)"
proof -
  let ?u = "bl_PreviousHash b" and ?v = "bl_Hash b"
  obtain err1 e1 where av: "g_AddVertex G b (lg_env l) = (err1, e1)" by (cases "g_AddVertex G b (lg_env l)")
  have 1: "E e1 = E (lg_env l)" "V e1 = V (lg_env l) \<or> V (lg_env l) ?v = None \<and> V e1 = (V (lg_env l))(?v \<mapsto> b)"
    using assms(1) av unfolding graph_laws_def by (metis (mono_tags))+
  show ?thesis
  proof (cases "err1 \<noteq> None \<and> \<not> is_err err1 ErrVertexAlreadyExists")
    case True
    then have "r \<noteq> None" "l' = \<lparr>lg_env = e1, lg_state = applyBlock b (lg_state l)\<rparr>"
      using assms(2,3) av by (auto simp: AddBlock_def Let_def split: if_splits)
    with 1 show ?thesis by auto
  next
    case False
    show ?thesis
    proof (cases "g_CreatesCycle G ?u ?v e1 = Inr False")
      case no: True
      obtain err2 e2 where ae: "g_AddEdge G ?u ?v e1 = (err2, e2)" by (cases "g_AddEdge G ?u ?v e1")
      have cyc: "V e1 ?u \<noteq> None" "V e1 ?v \<noteq> None" "?u \<noteq> ?v" "(?v, ?u) \<notin> (E e1)\<^sup>*"
        using assms(1) no unfolding graph_laws_def by blast+
      have edge: "V e2 = V e1" "if err2 = None then E e2 = insert (?u, ?v) (E e1) else E e2 = E e1"
        "is_err err2 ErrEdgeAlreadyExists \<longrightarrow> (?u, ?v) \<in> E e1"
        using assms(1) ae unfolding graph_laws_def by blast+
      have "l' = \<lparr>lg_env = e2, lg_state = applyBlock b (lg_state l)\<rparr>"
        "r = None \<longleftrightarrow> err2 = None \<or> is_err err2 ErrEdgeAlreadyExists"
        using assms(2,3) av no ae False by (auto simp: AddBlock_def Let_def split: if_splits)
      with 1 cyc edge show ?thesis by (auto split: if_splits)
    next
      case yes: False
      then have "r \<noteq> None" "l' = \<lparr>lg_env = e1, lg_state = applyBlock b (lg_state l)\<rparr>"
        using assms(2,3) av False by (auto simp: AddBlock_def Let_def split: sum.splits if_splits)
      with 1 show ?thesis by auto
    qed
  qed
qed

lemma AddBlock_genesis_graph:
  assumes "graph_laws G pset V E" "IsZeroHash (bl_PreviousHash b)" "AddBlock G pset b l = (r, l')"
  shows "E (lg_env l') = E (lg_env l) \<and>
    (V (lg_env l') = V (lg_env l) \<or> V (lg_env l) (bl_Hash b) = None \<and> V (lg_env l') = (V (lg_env l))(bl_Hash b \<mapsto> b)) \<and>
    (r = None \<longrightarrow> V (lg_env l') (bl_Hash b) \<noteq> None \<and>
       lg_state l' = credit_genesis (bl_Transactions b) (lg_state l)) \<and>
    (r \<noteq> None \<longrightarrow> lg_state l' = lg_state l)"
proof -
  obtain err1 e1 where av: "g_AddVertex G b (lg_env l) = (err1, e1)" by (cases "g_AddVertex G b (lg_env l)")
  have 1: "E e1 = E (lg_env l)" "V e1 = V (lg_env l) \<or> V (lg_env l) (bl_Hash b) = None \<and> V e1 = (V (lg_env l))(bl_Hash b \<mapsto> b)"
    "err1 = None \<longrightarrow> V e1 (bl_Hash b) \<noteq> None" "is_err err1 ErrVertexAlreadyExists \<longrightarrow> V e1 (bl_Hash b) \<noteq> None"
    using assms(1) av unfolding graph_laws_def by (metis (mono_tags) fun_upd_same option.distinct(1))+
  have 2: "V e2 = V e1" "E e2 = E e1" if "pset (Hash_Bytes (bl_Hash b)) v e1 = (r2, e2)" for v r2 e2
    using assms(1) that unfolding graph_laws_def by (metis length_Hash_Bytes)+
  show ?thesis
    using assms(2,3) av 1 2
    by (auto simp: AddBlock_def Let_def split: if_splits sum.splits prod.splits)
qed

lemma dag_ok_vertex:
  assumes "dag_ok V E e" "E e' = E e"
    "V e' = V e \<or> V e (bl_Hash b) = None \<and> V e' = (V e)(bl_Hash b \<mapsto> b)"
  shows "dag_ok V E e'"
proof -
  have mono: "V e u \<noteq> None \<Longrightarrow> V e' u \<noteq> None" for u using assms(3) by auto
  have filed: "bl_Hash c = h" if "V e' h = Some c" for h c
    using assms(1,3) that by (auto simp: dag_ok_def split: if_splits)
  have edges: "V e u \<noteq> None \<and> V e v \<noteq> None" if "(u, v) \<in> E e" for u v
    using assms(1) that unfolding dag_ok_def by blast
  have "acyclic (E e')" using assms(1,2) by (simp add: dag_ok_def)
  moreover have "\<forall>(u, v) \<in> E e'. V e' u \<noteq> None \<and> V e' v \<noteq> None"
  proof (rule ballI)
    fix x assume "x \<in> E e'"
    then have "(fst x, snd x) \<in> E e" using assms(2) by simp
    from edges [OF this] show "case x of (u, v) \<Rightarrow> V e' u \<noteq> None \<and> V e' v \<noteq> None"
      using mono [of "fst x"] mono [of "snd x"] by (simp add: case_prod_beta)
  qed
  ultimately show ?thesis unfolding dag_ok_def using filed by blast
qed

lemma dag_ok_edge:
  assumes "acyclic (E e)" "\<forall>(x, y) \<in> E e. V e' x \<noteq> None \<and> V e' y \<noteq> None" "\<forall>h b. V e' h = Some b \<longrightarrow> bl_Hash b = h"
    "E e' = insert (u, v) (E e)" "u \<noteq> v" "(v, u) \<notin> (E e)\<^sup>*" "V e' u \<noteq> None" "V e' v \<noteq> None"
  shows "dag_ok V E e'"
  using assms acyclic_insert_edge [of "E e" u v] unfolding dag_ok_def by auto

lemma dag_ok_AddBlock:
  assumes "graph_laws G pset V E" "dag_ok V E (lg_env l)" "AddBlock G pset b l = (r, l')"
  shows "dag_ok V E (lg_env l')"
proof (cases "IsZeroHash (bl_PreviousHash b)")
  case True
  from AddBlock_genesis_graph [OF assms(1) True assms(3)] show ?thesis
    by (intro dag_ok_vertex [OF assms(2)]) blast+
next
  case False
  let ?u = "bl_PreviousHash b" and ?v = "bl_Hash b"
  note A = AddBlock_linked [OF assms(1) False assms(3)]
  have Vs: "V (lg_env l') = V (lg_env l) \<or> V (lg_env l) ?v = None \<and> V (lg_env l') = (V (lg_env l))(?v \<mapsto> b)"
    using A by blast
  show ?thesis
  proof (cases "E (lg_env l') = E (lg_env l)")
    case True
    then show ?thesis using Vs by (rule dag_ok_vertex [OF assms(2)])
  next
    case neq: False
    have mono: "V (lg_env l) x \<noteq> None \<Longrightarrow> V (lg_env l') x \<noteq> None" for x using Vs by auto
    show ?thesis
    proof (rule dag_ok_edge)
      show "\<forall>(x, y) \<in> E (lg_env l). V (lg_env l') x \<noteq> None \<and> V (lg_env l') y \<noteq> None"
        using assms(2) mono unfolding dag_ok_def by blast
      show "\<forall>h c. V (lg_env l') h = Some c \<longrightarrow> bl_Hash c = h"
        using assms(2) Vs by (auto simp: dag_ok_def split: if_splits)
    qed (use A neq assms(2) in \<open>auto simp: dag_ok_def\<close>)
  qed
qed

lemma AddBlock_state:
  assumes "AddBlock G pset b l = (r, l')"
  shows "lg_state l' = (if \<not> IsZeroHash (bl_PreviousHash b) then applyBlock b (lg_state l)
    else if r = None then credit_genesis (bl_Transactions b) (lg_state l) else lg_state l)"
  using assms by (auto simp: AddBlock_def Let_def split: if_splits sum.splits prod.splits)

text \<open>A graph kept in memory that satisfies the laws.\<close>

type_synonym mem_env = "(hash, block) fmap \<times> (hash \<times> hash) list"

definition mem_graph :: "mem_env graph_lib" where
  "mem_graph = \<lparr>
     g_AddVertex = (\<lambda>b (vs, es). case fmlookup vs (bl_Hash b) of
        Some _ \<Rightarrow> (Some ErrVertexAlreadyExists, (vs, es)) | None \<Rightarrow> (None, (fmupd (bl_Hash b) b vs, es))),
     g_Vertex = (\<lambda>h (vs, es). case fmlookup vs h of None \<Rightarrow> Inl ErrVertexNotFound | Some b \<Rightarrow> Inr b),
     g_CreatesCycle = (\<lambda>u v (vs, es). if fmlookup vs u = None \<or> fmlookup vs v = None then Inl ErrVertexNotFound
        else Inr (u = v \<or> (v, u) \<in> (set es)\<^sup>*)),
     g_AddEdge = (\<lambda>u v (vs, es). if (u, v) \<in> set es then (Some ErrEdgeAlreadyExists, (vs, es))
        else (None, (vs, (u, v) # es))),
     g_AdjacencyMap = (\<lambda>(vs, es). Inr (fmmap_keys (\<lambda>u _. map snd (filter (\<lambda>e. fst e = u) es)) vs)),
     g_TopologicalSort = (\<lambda>(vs, es). if acyclic (set es) then Inr [] else Inl ErrCycle),
     g_BFS = (\<lambda>h (vs, es). if fmlookup vs h = None then Inl ErrVertexNotFound else Inr [h])\<rparr>"

definition mem_set :: "mem_env setter" where
  "mem_set k v e = (None, e)"

definition mem_V :: "mem_env \<Rightarrow> hash \<Rightarrow> block option" where "mem_V e = fmlookup (fst e)"
definition mem_E :: "mem_env \<Rightarrow> (hash \<times> hash) set" where "mem_E e = set (snd e)"

lemma mem_graph_laws: "graph_laws mem_graph mem_set mem_V mem_E"
  unfolding graph_laws_def
  by (intro conjI allI impI)
    (auto simp: mem_graph_def mem_set_def mem_V_def mem_E_def is_err_def graph_errors fun_eq_iff
      split: option.splits if_splits prod.splits)

lemma mem_adjacency_laws: "adjacency_laws mem_graph mem_V mem_E"
  by (auto simp: adjacency_laws_def mem_graph_def mem_V_def mem_E_def split: prod.splits
      simp: fmdom'_alt_def [symmetric] fmlookup_dom'_iff fmlookup_dom_iff intro: rev_image_eqI)

section \<open>Runs of the ledger\<close>

definition ledger_step :: "'e graph_lib \<Rightarrow> 'e setter \<Rightarrow> 'e ledger \<Rightarrow> 'e ledger \<Rightarrow> bool" where
  "ledger_step G pset l l' \<longleftrightarrow> (\<exists>b r. AddBlock G pset b l = (r, l'))"

definition dag_empty :: "('e \<Rightarrow> hash \<Rightarrow> block option) \<Rightarrow> ('e \<Rightarrow> (hash \<times> hash) set) \<Rightarrow> 'e \<Rightarrow> bool" where
  "dag_empty V E e \<longleftrightarrow> V e = Map.empty \<and> E e = {}"

interpretation ledger: invariant_system
    "\<lambda>l. dag_empty V E (lg_env l)" "ledger_step G pset"
    "\<lambda>l. graph_laws G pset V E \<longrightarrow> dag_ok V E (lg_env l)" for G pset V E
proof
  show "graph_laws G pset V E \<longrightarrow> dag_ok V E (lg_env l)" if "dag_empty V E (lg_env l)" for l :: "'a ledger"
    using that by (simp add: dag_empty_def dag_ok_def acyclic_def)
next
  show "graph_laws G pset V E \<longrightarrow> dag_ok V E (lg_env l')"
    if "graph_laws G pset V E \<longrightarrow> dag_ok V E (lg_env l)" "ledger_step G pset l l'" for l l' :: "'a ledger"
    using that dag_ok_AddBlock unfolding ledger_step_def by blast
qed



text \<open>
  A block that \<open>AddBlock\<close> accepts is in the ledger, linked to its predecessor: its hash and the
  predecessor's hash are found, the edge from the predecessor is recorded, no path leads back, and the balances
  are those of \<open>applyBlock\<close>; nothing else in the graph changed.
\<close>

theorem AddBlock_links_block:
  assumes "graph_laws G pset V E" "dag_ok V E (lg_env l)" "\<not> IsZeroHash (bl_PreviousHash b)"
    "AddBlock G pset b l = (None, l')"
  shows "(\<exists>c. GetBlock G (bl_Hash b) l' = Inr c \<and> bl_Hash c = bl_Hash b) \<and>
    (\<exists>p. GetBlock G (bl_PreviousHash b) l' = Inr p \<and> bl_Hash p = bl_PreviousHash b) \<and>
    E (lg_env l') = insert (bl_PreviousHash b, bl_Hash b) (E (lg_env l)) \<and>
    (bl_Hash b, bl_PreviousHash b) \<notin> (E (lg_env l'))\<^sup>+ \<and>
    lg_state l' = applyBlock b (lg_state l)"
proof -
  let ?u = "bl_PreviousHash b" and ?v = "bl_Hash b"
  note A = AddBlock_linked [OF assms(1,3,4)]
  have ok: "dag_ok V E (lg_env l')" using dag_ok_AddBlock [OF assms(1,2,4)] .
  have get: "\<exists>c. GetBlock G h l' = Inr c \<and> bl_Hash c = h" if "V (lg_env l') h \<noteq> None" for h
    using that ok assms(1) by (auto simp: GetBlock_def graph_laws_def dag_ok_def)
  have edge: "E (lg_env l') = insert (?u, ?v) (E (lg_env l))" using A by auto
  then have "(?u, ?u) \<in> (E (lg_env l'))\<^sup>+" if "(?v, ?u) \<in> (E (lg_env l'))\<^sup>+"
    using that by (auto intro: trancl_into_trancl2)
  then have "(?v, ?u) \<notin> (E (lg_env l'))\<^sup>+"
    using ok unfolding dag_ok_def acyclic_def by blast
  with A edge get show ?thesis by blast
qed

definition genesis_sample :: block where
  "genesis_sample = sample_block\<lparr>bl_Index := 0, bl_Hash := copy_hash [1], bl_Transactions := []\<rparr>"

definition child_sample :: block where
  "child_sample = sample_block\<lparr>bl_PreviousHash := copy_hash [1], bl_Hash := copy_hash [2], bl_Transactions := [spend_tx]\<rparr>"

lemma sample_hash_neq [simp]:
  "copy_hash [1] \<noteq> copy_hash [2]" "copy_hash [2] \<noteq> copy_hash [1]"
  "\<not> IsZeroHash (copy_hash [1])" "\<not> IsZeroHash (copy_hash [2])"
  by (simp_all add: Hash_Bytes_eq_iff [symmetric] IsZeroHash_iff ZeroHash_def copy_array_def
      numeral_eq_Suc del: Hash_Bytes_eq_iff)

lemma sample_hashes [simp]:
  "bl_Hash genesis_sample = copy_hash [1]" "bl_PreviousHash child_sample = copy_hash [1]"
  "bl_Hash child_sample = copy_hash [2]"
  by (simp_all add: genesis_sample_def child_sample_def)

text \<open>A ledger that holds the genesis block only.\<close>

definition one_block_ledger :: "mem_env ledger" where
  "one_block_ledger = \<lparr>lg_env = (fmupd (copy_hash [1]) genesis_sample fmempty, []), lg_state = sample_state\<rparr>"

theorem AddBlock_links_block_witness:
  "\<exists>l'. AddBlock mem_graph mem_set child_sample one_block_ledger = (None, l') \<and>
     lg_state l' = applyBlock child_sample sample_state \<and> (copy_hash [2], copy_hash [1]) \<notin> (mem_E (lg_env l'))\<^sup>+"
proof -
  obtain r l' where run: "AddBlock mem_graph mem_set child_sample one_block_ledger = (r, l')"
    by (cases "AddBlock mem_graph mem_set child_sample one_block_ledger")
  then have "r = None" by (simp add: AddBlock_def one_block_ledger_def mem_graph_def split: if_splits)
  with run have "AddBlock mem_graph mem_set child_sample one_block_ledger = (None, l')" by simp
  moreover have "dag_ok mem_V mem_E (lg_env one_block_ledger)"
    by (auto simp: one_block_ledger_def dag_ok_def mem_V_def mem_E_def acyclic_def split: if_splits)
  from AddBlock_links_block [OF mem_graph_laws this _ calculation]
  have "lg_state l' = applyBlock child_sample sample_state \<and> (copy_hash [2], copy_hash [1]) \<notin> (mem_E (lg_env l'))\<^sup>+"
    by (metis IsZeroHash_iff ledger.select_convs(2) one_block_ledger_def sample_hash_neq(3) sample_hashes(2,3))
  ultimately show ?thesis by blast
qed

text \<open>
  \<open>AddBlock\<close> applies the transactions before it asks the graph, and does not undo them: a block whose
  predecessor is unknown is refused, no edge is added, and yet every balance is that of \<open>applyBlock\<close>.
\<close>

theorem refused_block_is_applied:
  assumes "graph_laws G pset V E" "\<not> IsZeroHash (bl_PreviousHash b)"
    "V (lg_env l) (bl_PreviousHash b) = None" "bl_PreviousHash b \<noteq> bl_Hash b" "AddBlock G pset b l = (r, l')"
  shows "r \<noteq> None \<and> E (lg_env l') = E (lg_env l) \<and> lg_state l' = applyBlock b (lg_state l)"
  using AddBlock_linked [OF assms(1,2,5)] assms(3,4) by auto

theorem refused_block_is_applied_witness:
  "fst (AddBlock mem_graph mem_set child_sample \<lparr>lg_env = (fmempty, []), lg_state = sample_state\<rparr>) \<noteq> None \<and>
   GetBalance (copy_address [2])
     (lg_state (snd (AddBlock mem_graph mem_set child_sample \<lparr>lg_env = (fmempty, []), lg_state = sample_state\<rparr>))) = 5"
proof -
  let ?l = "\<lparr>lg_env = (fmempty, []), lg_state = sample_state\<rparr> :: mem_env ledger"
  have "fst (AddBlock mem_graph mem_set child_sample ?l) \<noteq> None \<and>
    mem_E (lg_env (snd (AddBlock mem_graph mem_set child_sample ?l))) = mem_E (lg_env ?l) \<and>
    lg_state (snd (AddBlock mem_graph mem_set child_sample ?l)) = applyBlock child_sample (lg_state ?l)"
    by (rule refused_block_is_applied [OF mem_graph_laws]) (simp_all add: mem_V_def)
  moreover have "GetBalance (copy_address [2]) (applyBlock child_sample sample_state) = 5"
    using address_neq
    by (simp add: child_sample_def sample_block_def applyBlock_def apply_tx_def Let_def GetBalance_UpdateBalance
        sample_state_facts)
  ultimately show ?thesis by simp
qed

end
