(* ===== verification/Genesis.thy ===== *)
theory Genesis
  imports Ledger
begin

text \<open>
  \<open>pkg/genesis/genesis.go\<close>: the genesis configuration, its checks, and the genesis block made from it.  Reading the
  file and the YAML library are parameters of \<open>LoadGenesis\<close>; \<open>big.Int\<close> is \<open>int\<close>.  Shown here: what the accounts
  hold after the genesis block is added to a fresh ledger, and that balances of \<open>2 ^ 63\<close> and more are lost.
\<close>

section \<open>Configuration\<close>

record genesis_config = gc_ChainID :: uint64

record alloc_item = ai_Balance :: string

record genesis =
  gn_Config :: genesis_config
  gn_Alloc :: "(string, alloc_item) fmap"
  gn_Difficulty :: uint64
  gn_Timestamp :: int64
  gn_ExtraData :: string

fun check_alloc :: "string list \<Rightarrow> (string, alloc_item) fmap \<Rightarrow> go_error option" where
  "check_alloc [] allocs = None"
| "check_alloc (addr # addrs) allocs =
     (if addr = '''' then Some (ErrorS ''allocation address cannot be empty'')
      else if map_option ai_Balance (fmlookup allocs addr) = Some ''''
      then Some (ErrorS ''balance for address %s cannot be empty'')
      else check_alloc addrs allocs)"

text \<open>\<open>order\<close> is the order in which the range over \<open>g.Alloc\<close> meets the accounts.\<close>

definition Genesis_Validate :: "string list \<Rightarrow> genesis \<Rightarrow> go_error option" where
  "Genesis_Validate order g =
     (if gc_ChainID (gn_Config g) = 0 then Some (ErrorS ''chainId must be greater than zero'')
      else if gn_Difficulty g = 0 then Some (ErrorS ''difficulty must be greater than zero'')
      else if gn_Timestamp g = 0 then Some (ErrorS ''timestamp must be set'')
      else if fmlen (gn_Alloc g) = 0 then Some (ErrorS ''alloc must have at least one account'')
      else check_alloc order (gn_Alloc g))"

definition LoadGenesis ::
  "(string \<Rightarrow> bytes result) \<Rightarrow> (bytes \<Rightarrow> genesis result) \<Rightarrow> string list \<Rightarrow> string \<Rightarrow> genesis result" where
  "LoadGenesis os_ReadFile yaml_UnmarshalStrict order genesisPath =
     bindE (wrapE ''failed to read genesis file'' (os_ReadFile genesisPath)) (\<lambda>data.
     bindE (wrapE ''failed to parse genesis file'' (yaml_UnmarshalStrict data)) (\<lambda>genesis.
       case Genesis_Validate order genesis of
         Some err \<Rightarrow> Inl (wrap_error ''invalid genesis configuration'' err)
       | None \<Rightarrow> Inr genesis))"

section \<open>Decimal numbers of \<open>math/big\<close>\<close>

definition dec_value :: "char \<Rightarrow> nat option" where
  "dec_value c = (let n = of_char c :: nat in if 48 \<le> n \<and> n \<le> 57 then Some (n - 48) else None)"

fun dec_digits :: "nat \<Rightarrow> string \<Rightarrow> nat option" where
  "dec_digits acc [] = Some acc"
| "dec_digits acc (c # cs) = (case dec_value c of None \<Rightarrow> None | Some d \<Rightarrow> dec_digits (10 * acc + d) cs)"

text \<open>\<open>SetString(s, 10)\<close>: an optional sign, then at least one digit and nothing else.\<close>

definition big_SetString :: "string \<Rightarrow> int option" where
  "big_SetString s =
     (let (neg, ds) = (case s of c # cs \<Rightarrow> if c = CHR ''-'' then (True, cs) else if c = CHR ''+'' then (False, cs) else (False, s)
                               | [] \<Rightarrow> (False, s))
      in if ds = '''' then None
         else map_option (\<lambda>n. if neg then - int n else int n) (dec_digits 0 ds))"

text \<open>\<open>Uint64\<close> returns the low 64 bits of the absolute value.\<close>

definition big_Uint64 :: "int \<Rightarrow> uint64" where
  "big_Uint64 x = of_int \<bar>x\<bar>"

section \<open>The genesis block\<close>

definition genesis_tx :: "address \<Rightarrow> int64 \<Rightarrow> string \<Rightarrow> alloc_item \<Rightarrow> transaction result" where
  "genesis_tx mAddr timestamp addrStr alloc =
     bindE (wrapE ''invalid address %s'' (FromHex addrStr)) (\<lambda>address.
       case big_SetString (ai_Balance alloc) of
         None \<Rightarrow> Inl (ErrorS ''invalid balance format for address %s: %s'')
       | Some balance \<Rightarrow> Inr \<lparr>
           tx_ID = copy_hash (sha256_Sum256 (go_bytes (''alloc-'' @ addrStr))),
           tx_Sender = mAddr, tx_Recipient = address, tx_Amount = big_Uint64 balance, tx_Fee = 0, tx_Nonce = 0,
           tx_Timestamp = timestamp, tx_Signature = [], tx_SignatureType = BlsSignerType,
           tx_Payload = go_bytes ''Initial allocation''\<rparr>)"

fun genesis_txs :: "address \<Rightarrow> int64 \<Rightarrow> (string, alloc_item) fmap \<Rightarrow> string list \<Rightarrow> transaction list result" where
  "genesis_txs mAddr timestamp allocs [] = Inr []"
| "genesis_txs mAddr timestamp allocs (addrStr # order) =
     (case fmlookup allocs addrStr of
        None \<Rightarrow> genesis_txs mAddr timestamp allocs order
      | Some alloc \<Rightarrow>
          bindE (genesis_tx mAddr timestamp addrStr alloc) (\<lambda>tx.
          bindE (genesis_txs mAddr timestamp allocs order) (\<lambda>txs. Inr (tx # txs))))"

text \<open>\<open>now\<close> is the clock read by \<open>NewBlock\<close>.\<close>

definition CreateGenesisBlock :: "int64 \<Rightarrow> string list \<Rightarrow> address \<Rightarrow> genesis \<Rightarrow> block result" where
  "CreateGenesisBlock now order mAddr genesis =
     bindE (genesis_txs mAddr (gn_Timestamp genesis) (gn_Alloc genesis) order) (\<lambda>genesisTransactions.
       wrapE ''failed to create genesis block''
         (NewBlock now 0 ZeroHash genesisTransactions mAddr (gn_Difficulty genesis)))"

section \<open>Balances after the genesis block\<close>

text \<open>What the configuration declares for a key of \<open>alloc\<close>, and the keys that name an address.\<close>

definition declared :: "genesis \<Rightarrow> string \<Rightarrow> nat" where
  "declared g k = (case fmlookup (gn_Alloc g) k of
     None \<Rightarrow> 0
   | Some alloc \<Rightarrow> (case big_SetString (ai_Balance alloc) of None \<Rightarrow> 0 | Some x \<Rightarrow> nat \<bar>x\<bar>))"

definition names :: "genesis \<Rightarrow> address \<Rightarrow> string set" where
  "names g a = {k \<in> fset (fmdom (gn_Alloc g)). FromHex k = Inr a}"

lemma genesis_tx_Inr:
  assumes "genesis_tx mAddr t k alloc = Inr tx"
  shows "FromHex k = Inr (tx_Recipient tx)" "\<exists>x. big_SetString (ai_Balance alloc) = Some x \<and> tx_Amount tx = big_Uint64 x"
    "tx_Sender tx = mAddr"
  using assms by (auto simp: genesis_tx_def bindE_eq_Inr split: option.splits)

lemma genesis_txs_Inr:
  assumes "genesis_txs mAddr t (gn_Alloc g) ks = Inr txs" "set ks \<subseteq> fset (fmdom (gn_Alloc g))"
  shows "map (\<lambda>tx. (tx_Recipient tx, tx_Amount tx)) txs = map (\<lambda>k. (the_inv Inr (FromHex k), of_nat (declared g k))) ks
    \<and> (\<forall>k \<in> set ks. \<exists>a. FromHex k = Inr a) \<and> (\<forall>tx \<in> set txs. tx_Sender tx = mAddr)"
  using assms
proof (induction ks arbitrary: txs)
  case (Cons k ks)
  from Cons.prems(2) obtain alloc where alloc: "fmlookup (gn_Alloc g) k = Some alloc"
    by (auto simp: fmlookup_dom_iff)
  with Cons.prems(1) obtain tx rest where tx: "genesis_tx mAddr t k alloc = Inr tx" "txs = tx # rest"
    and rest: "genesis_txs mAddr t (gn_Alloc g) ks = Inr rest"
    by (auto simp: bindE_eq_Inr)
  from genesis_tx_Inr [OF tx(1)] alloc
  have "tx_Amount tx = of_nat (declared g k)" "FromHex k = Inr (tx_Recipient tx)" "tx_Sender tx = mAddr"
    by (auto simp: declared_def big_Uint64_def)
  moreover have "the_inv Inr (Inr a :: address result) = a" for a
    by (rule the_inv_f_f) (simp add: inj_on_def)
  ultimately show ?case
    using Cons.IH [OF rest] Cons.prems(2) tx(2) by auto
qed simp

text \<open>The balance of one account is a fold over the amounts sent to it, clamped at each step.\<close>

definition credit :: "uint64 \<Rightarrow> uint64 \<Rightarrow> uint64" where
  "credit amount balance = (if sint (balance + amount) < 0 then 0 else balance + amount)"

lemma GetBalance_credit_genesis:
  "GetBalance a (credit_genesis txs s) =
     fold credit (map tx_Amount (filter (\<lambda>tx. tx_Recipient tx = a) txs)) (GetBalance a s)"
  by (induction txs arbitrary: s) (auto simp: credit_genesis_def GetBalance_UpdateBalance credit_def)

lemma fold_credit:
  assumes "unat b + sum_list ns < 2 ^ 63"
  shows "unat (fold credit (map of_nat ns) b) = unat b + sum_list ns"
  using assms
proof (induction ns arbitrary: b)
  case (Cons n ns)
  have small: "unat b + n < 2 ^ 63" using Cons.prems by simp
  then have n: "unat (of_nat n :: uint64) = n" by (simp add: unat_of_nat take_bit_nat_eq_self)
  have sum: "unat (b + of_nat n) = unat b + n"
    by (subst unat_add_lem [THEN iffD1]) (use small n in simp_all)
  have "uint (b + of_nat n) < 2 ^ 63"
    unfolding uint_nat sum using small by (simp flip: of_nat_add)
  then have "sint (b + of_nat n) = uint (b + of_nat n)" by (rule sint_eq_uint_small)
  then have "0 \<le> sint (b + of_nat n)" by simp
  with sum Cons.IH [of "b + of_nat n"] Cons.prems show ?case by (simp add: credit_def)
qed simp

lemma sint_neg_large:
  assumes "2 ^ 63 \<le> uint (w :: int64)"
  shows "sint w < 0"
proof -
  have "uint w < 2 ^ 64" using uint_bounded [of w] by simp
  with assms have "uint w div 2 ^ 63 = 1" by simp
  then have "bit (uint w) 63" by (simp add: bit_iff_odd)
  then show ?thesis by (simp add: sint_uint)
qed

text \<open>The genesis block, seen from one account: the declared amounts of the keys that name it.\<close>

lemma CreateGenesisBlock_Inr:
  assumes "CreateGenesisBlock now order mAddr g = Inr b"
  shows "genesis_txs mAddr (gn_Timestamp g) (gn_Alloc g) order = Inr (bl_Transactions b)" "bl_Index b = 0"
    "bl_PreviousHash b = ZeroHash" "bl_Transactions b \<noteq> []" "bl_ValidatorID b = mAddr" "bl_Hash b = Block_ComputeHash b"
    "bl_MerkleRoot b = Block_ComputeMerkleRoot b"
  using assms
  by (auto simp: CreateGenesisBlock_def NewBlock_def Let_def bindE_eq_Inr Block_ComputeHash_def
      Block_ComputeMerkleRoot_def split: if_splits)

lemma genesis_amounts:
  assumes "CreateGenesisBlock now order mAddr g = Inr b" "ranges order (gn_Alloc g)"
  shows "map tx_Amount (filter (\<lambda>tx. tx_Recipient tx = a) (bl_Transactions b)) =
    map of_nat (map (declared g) (filter (\<lambda>k. k \<in> names g a) order))"
proof -
  let ?f = "\<lambda>k. the_inv Inr (FromHex k)" and ?p = "\<lambda>tx. (tx_Recipient tx, tx_Amount tx)"
  note dom = ranges_set [OF assms(2)]
  from genesis_txs_Inr [OF CreateGenesisBlock_Inr(1) [OF assms(1)]] dom
  have txs: "map ?p (bl_Transactions b) = map (\<lambda>k. (?f k, of_nat (declared g k))) order"
    and hex: "\<forall>k \<in> set order. \<exists>a. FromHex k = Inr a" by auto
  have inv: "the_inv Inr (Inr x :: address result) = x" for x
    by (rule the_inv_f_f) (simp add: inj_on_def)
  have "map tx_Amount (filter (\<lambda>tx. tx_Recipient tx = a) ts) = map snd (filter (\<lambda>p. fst p = a) (map ?p ts))" for ts
    by (induction ts) auto
  then have "map tx_Amount (filter (\<lambda>tx. tx_Recipient tx = a) (bl_Transactions b)) =
      map snd (filter (\<lambda>p. fst p = a) (map (\<lambda>k. (?f k, of_nat (declared g k))) order))"
    using txs by metis
  also have "\<dots> = map of_nat (map (declared g) (filter (\<lambda>k. ?f k = a) order))"
    by (simp add: filter_map comp_def)
  also have "filter (\<lambda>k. ?f k = a) order = filter (\<lambda>k. k \<in> names g a) order"
    by (rule filter_cong) (use hex dom inv in \<open>auto simp: names_def\<close>)
  finally show ?thesis .
qed

lemma genesis_balance:
  assumes "CreateGenesisBlock now order mAddr g = Inr b" "ranges order (gn_Alloc g)"
    "AddBlock G pset b (NewLedger e) = (None, l)"
  shows "GetBalance a (lg_state l) = fold credit (map of_nat (map (declared g) (filter (\<lambda>k. k \<in> names g a) order))) 0"
proof -
  have "lg_state l = credit_genesis (bl_Transactions b) Ledger_NewState"
    using AddBlock_state [OF assms(3)] CreateGenesisBlock_Inr(3) [OF assms(1)]
    by (simp add: IsZeroHash_iff NewLedger_def)
  then show ?thesis
    using GetBalance_credit_genesis [of a "bl_Transactions b" Ledger_NewState] genesis_amounts [OF assms(1,2), of a]
    by (simp add: GetBalance_def [of a Ledger_NewState] lookup0_def Ledger_NewState_def [THEN arg_cong, of ls_balances])
qed

text \<open>A configuration with one account.\<close>

definition sample_genesis :: "string \<Rightarrow> genesis" where
  "sample_genesis balance = \<lparr>gn_Config = \<lparr>gc_ChainID = 1\<rparr>,
     gn_Alloc = fmupd (Address_Hex (copy_address [1])) \<lparr>ai_Balance = balance\<rparr> fmempty,
     gn_Difficulty = 1, gn_Timestamp = 5, gn_ExtraData = ''''\<rparr>"

lemma sample_genesis_run:
  assumes "big_SetString s = Some x"
  obtains b l where
    "CreateGenesisBlock now [Address_Hex (copy_address [1])] mAddr (sample_genesis s) = Inr b"
    "ranges [Address_Hex (copy_address [1])] (gn_Alloc (sample_genesis s))"
    "AddBlock mem_graph mem_set b (NewLedger (fmempty, [])) = (None, l)"
    "names (sample_genesis s) (copy_address [1]) = {Address_Hex (copy_address [1])}"
    "declared (sample_genesis s) (Address_Hex (copy_address [1])) = nat \<bar>x\<bar>"
proof -
  let ?k = "Address_Hex (copy_address [1])"
  obtain b where b: "CreateGenesisBlock now [?k] mAddr (sample_genesis s) = Inr b"
    and txs: "list_all tx_fits (bl_Transactions b)" "length (bl_Transactions b) = 1"
    "bl_Signature b = []" "bl_FinalizedBy b = []"
    using assms
    by (simp add: CreateGenesisBlock_def genesis_tx_def sample_genesis_def NewBlock_def Let_def tx_fits_def go_bytes_def)
  then obtain data where ser: "Block_Serialize b = Inr data"
    using block_codec.enc_total [of b] by (auto simp: block_fits_def)
  have "bl_PreviousHash b = ZeroHash" using CreateGenesisBlock_Inr(3) [OF b] .
  with ser obtain l where "AddBlock mem_graph mem_set b (NewLedger (fmempty, [])) = (None, l)"
    by (auto simp: AddBlock_def IsZeroHash_iff mem_graph_def mem_set_def NewLedger_def)
  moreover have "ranges [?k] (gn_Alloc (sample_genesis s))"
    by (simp add: ranges_def sample_genesis_def)
  moreover have "names (sample_genesis s) (copy_address [1]) = {?k}"
    by (auto simp: names_def sample_genesis_def)
  moreover have "declared (sample_genesis s) ?k = nat \<bar>x\<bar>"
    using assms by (simp add: declared_def sample_genesis_def)
  ultimately show thesis using b that by blast
qed

text \<open>
  The genesis block distributes the declared balances.  After it is added to a fresh ledger, every account
  holds exactly the sum of what the configuration declares for the keys that name it (a key may be written with or
  without the \<open>0x\<close> prefix and in either case), whatever order the map was ranged over in, provided that sum is below
  \<open>2 ^ 63\<close>.
\<close>

theorem genesis_balances:
  assumes "CreateGenesisBlock now order mAddr g = Inr b" "ranges order (gn_Alloc g)"
    "AddBlock G pset b (NewLedger e) = (None, l)" "sum (declared g) (names g a) < 2 ^ 63"
  shows "unat (GetBalance a (lg_state l)) = sum (declared g) (names g a)"
proof -
  let ?ks = "filter (\<lambda>k. k \<in> names g a) order"
  have "distinct ?ks" "set ?ks = names g a"
    using assms(2) ranges_set [OF assms(2)] by (auto simp: ranges_def names_def)
  then have "sum_list (map (declared g) ?ks) = sum (declared g) (names g a)"
    by (metis sum.distinct_set_conv_list)
  with fold_credit [of 0 "map (declared g) ?ks"] assms(4) show ?thesis
    by (simp add: genesis_balance [OF assms(1-3)])
qed

theorem genesis_balances_witness:
  "\<exists>b l. CreateGenesisBlock 0 [Address_Hex (copy_address [1])] ZeroAddress (sample_genesis ''1000'') = Inr b \<and>
     AddBlock mem_graph mem_set b (NewLedger (fmempty, [])) = (None, l) \<and>
     unat (GetBalance (copy_address [1]) (lg_state l)) = 1000"
proof -
  have n: "big_SetString ''1000'' = Some 1000"
    by (simp add: big_SetString_def dec_value_def Let_def)
  obtain b l where run:
    "CreateGenesisBlock 0 [Address_Hex (copy_address [1])] ZeroAddress (sample_genesis ''1000'') = Inr b"
    "ranges [Address_Hex (copy_address [1])] (gn_Alloc (sample_genesis ''1000''))"
    "AddBlock mem_graph mem_set b (NewLedger (fmempty, [])) = (None, l)"
    "names (sample_genesis ''1000'') (copy_address [1]) = {Address_Hex (copy_address [1])}"
    "declared (sample_genesis ''1000'') (Address_Hex (copy_address [1])) = nat \<bar>1000\<bar>"
    by (rule sample_genesis_run [OF n])
  with genesis_balances [OF run(1-3), of "copy_address [1]"] show ?thesis by auto
qed

text \<open>
  A declared balance of \<open>2 ^ 63\<close> or more is lost: the amount is converted to \<open>int64\<close>, the sum reads as
  negative and is clamped, so the account starts with nothing.
\<close>

theorem large_allocation_lost:
  assumes "CreateGenesisBlock now order mAddr g = Inr b" "ranges order (gn_Alloc g)"
    "AddBlock G pset b (NewLedger e) = (None, l)" "names g a = {k}" "2 ^ 63 \<le> declared g k" "declared g k < 2 ^ 64"
  shows "GetBalance a (lg_state l) = 0"
proof -
  have "filter (\<lambda>x. x \<in> names g a) order = [k]"
  proof -
    have "distinct order" "k \<in> set order"
      using assms(2,4) ranges_set [OF assms(2)] by (auto simp: ranges_def names_def)
    then have "filter (\<lambda>x. x = k) order = [k]"
      by (induction order) (auto simp: filter_empty_conv)
    with assms(4) show ?thesis by simp
  qed
  moreover have "sint (of_nat (declared g k) :: uint64) < 0"
  proof -
    have "uint (of_nat (declared g k) :: uint64) = int (declared g k)"
      using assms(6) by (simp add: uint_nat unat_of_nat take_bit_nat_eq_self)
    then show ?thesis
      using assms(5) by (intro sint_neg_large) simp
  qed
  ultimately show ?thesis
    by (simp add: genesis_balance [OF assms(1-3)] credit_def)
qed

theorem large_allocation_lost_witness:
  "\<exists>b l. CreateGenesisBlock 0 [Address_Hex (copy_address [1])] ZeroAddress (sample_genesis ''9223372036854775808'') = Inr b \<and>
     AddBlock mem_graph mem_set b (NewLedger (fmempty, [])) = (None, l) \<and>
     GetBalance (copy_address [1]) (lg_state l) = 0"
proof -
  have n: "big_SetString ''9223372036854775808'' = Some 9223372036854775808"
    by (simp add: big_SetString_def dec_value_def Let_def)
  obtain b l where run:
    "CreateGenesisBlock 0 [Address_Hex (copy_address [1])] ZeroAddress (sample_genesis ''9223372036854775808'') = Inr b"
    "ranges [Address_Hex (copy_address [1])] (gn_Alloc (sample_genesis ''9223372036854775808''))"
    "AddBlock mem_graph mem_set b (NewLedger (fmempty, [])) = (None, l)"
    "names (sample_genesis ''9223372036854775808'') (copy_address [1]) = {Address_Hex (copy_address [1])}"
    "declared (sample_genesis ''9223372036854775808'') (Address_Hex (copy_address [1])) = nat \<bar>9223372036854775808\<bar>"
    by (rule sample_genesis_run [OF n])
  with large_allocation_lost [OF run(1-4)] show ?thesis by (auto simp: run(5))
qed

end
