(* ===== verification/Chain.thy ===== *)
theory Chain
  imports Genesis
begin

text \<open>
  \<open>pkg/chain\<close>: the blockchain on top of the ledger (\<open>chain.go\<close>, \<open>blocks.go\<close>, \<open>organization.go\<close>,
  \<open>validation.go\<close>).  The graph library is the parameter of \<open>Ledger\<close>; \<open>now\<close> is the clock and \<open>order\<close> the order of a
  range over a map.  Shown here: every stored block follows a stored predecessor with the next index, so the walk
  back to the genesis block ends; what the head is after each operation; and that a fresh ledger cannot be started.
\<close>

record 'e blockchain =
  bc_ledger :: "'e ledger"
  bc_head :: "block option"
  bc_genesisBlock :: "block option"

section \<open>Setup\<close>

text \<open>The loop that walks back to the block without predecessor; \<open>None\<close> when it does not end.\<close>

partial_function (option) find_genesis :: "(hash \<Rightarrow> block result) \<Rightarrow> block \<Rightarrow> block result option" where
  "find_genesis get_block currentBlock =
     (if bl_PreviousHash currentBlock \<noteq> ZeroHash
      then (case get_block (bl_PreviousHash currentBlock) of
              Inl err \<Rightarrow> Some (Inl (wrap_error ''failed to traverse to genesis block'' err))
            | Inr block \<Rightarrow> find_genesis get_block block)
      else Some (Inr currentBlock))"

text \<open>
  \<open>setup\<close> after the call of \<open>GetLatestBlock\<close>, whose result is a pointer: \<open>Inr None\<close> is the \<open>nil\<close> block the code
  tests for.
\<close>

definition setup_with ::
  "'e graph_lib \<Rightarrow> 'e setter \<Rightarrow> int64 \<Rightarrow> string list \<Rightarrow> genesis \<Rightarrow> block option result \<Rightarrow> 'e blockchain \<Rightarrow>
   (go_error option \<times> 'e blockchain) option" where
  "setup_with G pset now order genesisConfig latest bc =
     (case latest of
        Inl err \<Rightarrow> Some (Some (wrap_error ''failed to get latest block'' err), bc)
      | Inr None \<Rightarrow>
          (case CreateGenesisBlock now order ZeroAddress genesisConfig of
             Inl err \<Rightarrow> Some (Some (wrap_error ''failed to create genesis block'' err), bc)
           | Inr genesisBlock \<Rightarrow>
               (case AddBlock G pset genesisBlock (bc_ledger bc) of
                  (Some err, l) \<Rightarrow> Some (Some (wrap_error ''failed to add genesis block to ledger'' err), bc\<lparr>bc_ledger := l\<rparr>)
                | (None, l) \<Rightarrow>
                    Some (None, bc\<lparr>bc_ledger := l, bc_head := Some genesisBlock, bc_genesisBlock := Some genesisBlock\<rparr>)))
      | Inr (Some latestBlock) \<Rightarrow>
          (let bc = bc\<lparr>bc_head := Some latestBlock\<rparr> in
           case find_genesis (\<lambda>h. GetBlock G h (bc_ledger bc)) latestBlock of
             None \<Rightarrow> None
           | Some (Inl err) \<Rightarrow> Some (Some err, bc)
           | Some (Inr currentBlock) \<Rightarrow> Some (None, bc\<lparr>bc_genesisBlock := Some currentBlock\<rparr>)))"

definition Blockchain_setup ::
  "'e graph_lib \<Rightarrow> 'e setter \<Rightarrow> int64 \<Rightarrow> string list \<Rightarrow> hash list \<Rightarrow> genesis \<Rightarrow> 'e blockchain \<Rightarrow>
   (go_error option \<times> 'e blockchain) option" where
  "Blockchain_setup G pset now order vorder genesisConfig bc =
     setup_with G pset now order genesisConfig
       (bindE (GetLatestBlock G vorder (bc_ledger bc)) (\<lambda>b. Inr (Some b))) bc"

definition NewBlockchain ::
  "'e graph_lib \<Rightarrow> 'e setter \<Rightarrow> int64 \<Rightarrow> string list \<Rightarrow> hash list \<Rightarrow> 'e ledger \<Rightarrow> genesis \<Rightarrow> 'e blockchain result option"
where
  "NewBlockchain G pset now order vorder ledger genesisConfig =
     (case Blockchain_setup G pset now order vorder genesisConfig
             \<lparr>bc_ledger = ledger, bc_head = None, bc_genesisBlock = None\<rparr> of
        None \<Rightarrow> None
      | Some (Some err, _) \<Rightarrow> Some (Inl err)
      | Some (None, bc) \<Rightarrow> Some (Inr bc))"

definition ErrNoGenesisBlock :: go_error where "ErrNoGenesisBlock = ErrorS ''no genesis block found''"

definition GetChainHeight :: "'e blockchain \<Rightarrow> uint64 result" where
  "GetChainHeight bc = (case bc_head bc of None \<Rightarrow> Inl ErrNoGenesisBlock | Some head \<Rightarrow> Inr (bl_Index head))"

definition Blockchain_ValidateChain :: "'e graph_lib \<Rightarrow> 'e blockchain \<Rightarrow> bool \<times> go_error option" where
  "Blockchain_ValidateChain G bc = Ledger_ValidateChain G (bc_ledger bc)"

section \<open>Validation\<close>

definition Chain_MaxTimeDrift :: int64 where "Chain_MaxTimeDrift = 5 * 60"

definition Chain_validateTransaction :: "'e blockchain \<Rightarrow> transaction \<Rightarrow> bool \<Rightarrow> go_error option" where
  "Chain_validateTransaction bc tx isGenesisBlock =
     (if Address_IsZero (tx_Sender tx) then Some (ErrorS ''transaction sender address is zero'')
      else if tx_Amount tx \<le> 0 then Some (ErrorS ''transaction amount must be positive'')
      else if tx_Fee tx < 0 then Some (ErrorS ''transaction fee cannot be negative'')
      else if \<not> isGenesisBlock \<and> GetBalance (tx_Sender tx) (lg_state (bc_ledger bc)) < tx_Amount tx + tx_Fee tx
      then Some (ErrorS ''sender has insufficient balance'')
      else if \<not> isGenesisBlock \<and> tx_Nonce tx \<noteq> GetNonce (tx_Sender tx) (lg_state (bc_ledger bc)) + 1
      then Some (ErrorS ''invalid transaction nonce: expected %d, got %d'')
      else None)"

definition Chain_validateConsensusRules :: "block \<Rightarrow> go_error option" where
  "Chain_validateConsensusRules block = None"

definition Blockchain_ValidateBlock :: "'e graph_lib \<Rightarrow> int64 \<Rightarrow> block \<Rightarrow> 'e blockchain \<Rightarrow> go_error option" where
  "Blockchain_ValidateBlock G now block bc =
     validate_block_with Chain_MaxTimeDrift (Chain_validateTransaction bc) Chain_validateConsensusRules
       (\<lambda>h. GetBlock G h (bc_ledger bc)) now block"

section \<open>Adding blocks\<close>

definition Blockchain_AddBlock ::
  "'e graph_lib \<Rightarrow> 'e setter \<Rightarrow> int64 \<Rightarrow> block \<Rightarrow> 'e blockchain \<Rightarrow> go_error option \<times> 'e blockchain" where
  "Blockchain_AddBlock G pset now block bc =
     (case Blockchain_ValidateBlock G now block bc of
        Some err \<Rightarrow> (Some err, bc)
      | None \<Rightarrow>
          (case AddBlock G pset block (bc_ledger bc) of
             (Some err, l) \<Rightarrow> (Some err, bc\<lparr>bc_ledger := l\<rparr>)
           | (None, l) \<Rightarrow> (None, bc\<lparr>bc_ledger := l, bc_head := Some block\<rparr>)))"

text \<open>\<open>bc.head.Hash\<close> dereferences the head: without one the node panics.\<close>

definition HandleIncomingBlock ::
  "'e graph_lib \<Rightarrow> 'e setter \<Rightarrow> int64 \<Rightarrow> block \<Rightarrow> 'e blockchain \<Rightarrow> go_error option \<times> 'e blockchain" where
  "HandleIncomingBlock G pset now block bc =
     (case Blockchain_ValidateBlock G now block bc of
        Some err \<Rightarrow> (Some err, bc)
      | None \<Rightarrow>
          (case bc_head bc of
             None \<Rightarrow> (Some (Panic ''nil pointer dereference''), bc)
           | Some head \<Rightarrow>
               if Hash_Equal (bl_PreviousHash block) (bl_Hash head) then
                 (case AddBlock G pset block (bc_ledger bc) of
                    (Some err, l) \<Rightarrow> (Some err, bc\<lparr>bc_ledger := l\<rparr>)
                  | (None, l) \<Rightarrow> (None, bc\<lparr>bc_ledger := l, bc_head := Some block\<rparr>))
               else (Some (ErrorS ''block does not extend the current chain and fork handling not implemented''), bc)))"

section \<open>Queries\<close>

definition Blockchain_GetLatestBlock :: "'e graph_lib \<Rightarrow> hash list \<Rightarrow> 'e blockchain \<Rightarrow> block result" where
  "Blockchain_GetLatestBlock G vorder bc = GetLatestBlock G vorder (bc_ledger bc)"

definition Blockchain_GetBlockByIndex :: "'e graph_lib \<Rightarrow> hash list \<Rightarrow> uint64 \<Rightarrow> 'e blockchain \<Rightarrow> block result" where
  "Blockchain_GetBlockByIndex G vorder index bc = GetBlockByIndex G vorder index (bc_ledger bc)"

definition GetBlockByHash :: "'e graph_lib \<Rightarrow> hash \<Rightarrow> 'e blockchain \<Rightarrow> block result" where
  "GetBlockByHash G hash bc = GetBlock G hash (bc_ledger bc)"

definition GetTransactionByHash ::
  "'e graph_lib \<Rightarrow> hash list \<Rightarrow> hash list \<Rightarrow> hash list \<Rightarrow> hash \<Rightarrow> 'e blockchain \<Rightarrow> transaction result" where
  "GetTransactionByHash G order1 order2 order3 hash bc = Ledger_GetTransaction G order1 order2 order3 hash (bc_ledger bc)"

definition Blockchain_ListBlocks ::
  "'e graph_lib \<Rightarrow> hash list \<Rightarrow> hash list \<Rightarrow> hash list \<Rightarrow> 'e blockchain \<Rightarrow> block list result" where
  "Blockchain_ListBlocks G order1 order2 order3 bc = ListBlocks G order1 order2 order3 (bc_ledger bc)"

section \<open>The chain invariant\<close>

lemma GetBlock_iff: "graph_laws G pset V E \<Longrightarrow> GetBlock G h l = Inr b \<longleftrightarrow> V (lg_env l) h = Some b"
  by (auto simp: GetBlock_def graph_laws_def split: option.splits)

lemma AddBlock_vertices:
  assumes "graph_laws G pset V E" "AddBlock G pset b l = (r, l')"
  shows "V (lg_env l') = V (lg_env l) \<or> V (lg_env l) (bl_Hash b) = None \<and> V (lg_env l') = (V (lg_env l))(bl_Hash b \<mapsto> b)"
  using AddBlock_linked [OF assms(1) _ assms(2)] AddBlock_genesis_graph [OF assms(1) _ assms(2)] by blast

text \<open>
  What validation checks of a block and its predecessor; a stored block keeps it because no block is ever
  overwritten.
\<close>

definition block_linked :: "(hash \<Rightarrow> block option) \<Rightarrow> block \<Rightarrow> bool" where
  "block_linked get b \<longleftrightarrow> bl_Hash b = Block_ComputeHash b \<and> bl_MerkleRoot b = Block_ComputeMerkleRoot b \<and>
     (if bl_Index b = 0 then bl_PreviousHash b = ZeroHash
      else \<exists>p. get (bl_PreviousHash b) = Some p \<and> bl_Index b = bl_Index p + 1 \<and>
             sint (bl_Timestamp p) \<le> sint (bl_Timestamp b))"

definition chain_linked :: "(hash \<Rightarrow> block option) \<Rightarrow> bool" where
  "chain_linked get \<longleftrightarrow> (\<forall>h b. get h = Some b \<longrightarrow> bl_Hash b = h \<and> block_linked get b)"

lemma validated_linked:
  assumes "validate_block_with drift check rules get_block now b = None"
    "\<And>h p. get_block h = Inr p \<longleftrightarrow> get h = Some p"
  shows "block_linked get b \<and> sint (bl_Timestamp b) \<le> sint (now + drift) \<and>
    (\<forall>tx \<in> set (bl_Transactions b). check tx (bl_Index b = 0) = None)"
proof -
  have txs: "validate_txs c txs = None \<longleftrightarrow> (\<forall>tx \<in> set txs. c tx = None)" for c txs
    by (induction txs) (auto split: option.splits)
  show ?thesis
  proof (cases "bl_Index b = 0")
    case True
    with assms(1) show ?thesis
      by (simp add: validate_block_with_def block_linked_def txs not_less split: if_splits option.splits)
  next
    case False
    then have pos: "0 < bl_Index b" by (simp add: word_gt_0)
    have "get_block (bl_PreviousHash b) \<noteq> Inl err" for err
      using assms(1) pos by (auto simp: validate_block_with_def split: if_splits)
    then obtain p where "get_block (bl_PreviousHash b) = Inr p"
      by (metis sum.exhaust)
    moreover from this have "get (bl_PreviousHash b) = Some p" by (simp add: assms(2))
    ultimately show ?thesis
      using assms(1) False pos
      by (simp add: validate_block_with_def block_linked_def txs not_less split: if_splits option.splits)
  qed
qed

lemma chain_linked_insert:
  assumes "chain_linked get" "block_linked get b" "get (bl_Hash b) = None"
  shows "chain_linked (get(bl_Hash b \<mapsto> b))"
proof -
  have ext: "block_linked (get(bl_Hash b \<mapsto> b)) c" if "block_linked get c" for c
    using that assms(3) by (auto simp: block_linked_def split: if_splits)
  with assms show ?thesis by (auto simp: chain_linked_def)
qed

inductive chain_step :: "'e graph_lib \<Rightarrow> 'e setter \<Rightarrow> 'e blockchain \<Rightarrow> 'e blockchain \<Rightarrow> bool" for G pset where
  add: "Blockchain_AddBlock G pset now b bc = (r, bc') \<Longrightarrow> chain_step G pset bc bc'"
| incoming: "HandleIncomingBlock G pset now b bc = (r, bc') \<Longrightarrow> chain_step G pset bc bc'"

inductive_cases chain_stepE: "chain_step G pset bc bc'"

text \<open>Both ways of adding a block leave the ledger alone or call \<open>AddBlock\<close> with a validated block.\<close>

lemma chain_step_cases:
  assumes "chain_step G pset bc bc'"
  shows "bc_ledger bc' = bc_ledger bc \<or>
    (\<exists>now b r. Blockchain_ValidateBlock G now b bc = None \<and> AddBlock G pset b (bc_ledger bc) = (r, bc_ledger bc'))"
  using assms
  by (cases rule: chain_step.cases)
    (fastforce simp: Blockchain_AddBlock_def HandleIncomingBlock_def split: option.splits prod.splits if_splits)+

lemma chain_step_linked:
  assumes "graph_laws G pset V E" "chain_linked (V (lg_env (bc_ledger bc)))" "chain_step G pset bc bc'"
  shows "chain_linked (V (lg_env (bc_ledger bc')))"
  using chain_step_cases [OF assms(3)]
proof
  assume "\<exists>now b r. Blockchain_ValidateBlock G now b bc = None \<and> AddBlock G pset b (bc_ledger bc) = (r, bc_ledger bc')"
  then obtain now b r where v: "Blockchain_ValidateBlock G now b bc = None"
    and a: "AddBlock G pset b (bc_ledger bc) = (r, bc_ledger bc')" by blast
  from v have "block_linked (V (lg_env (bc_ledger bc))) b"
    unfolding Blockchain_ValidateBlock_def
    by (rule validated_linked [THEN conjunct1]) (rule GetBlock_iff [OF assms(1)])
  with AddBlock_vertices [OF assms(1) a] assms(2) chain_linked_insert show ?thesis by metis
qed (use assms(2) in simp)

interpretation chain: invariant_system
    "\<lambda>bc. dag_empty V E (lg_env (bc_ledger bc))" "chain_step G pset"
    "\<lambda>bc. graph_laws G pset V E \<longrightarrow> chain_linked (V (lg_env (bc_ledger bc)))" for G pset V E
proof
  show "graph_laws G pset V E \<longrightarrow> chain_linked (V (lg_env (bc_ledger bc)))"
    if "dag_empty V E (lg_env (bc_ledger bc))" for bc :: "'a blockchain"
    using that by (simp add: dag_empty_def chain_linked_def)
next
  show "graph_laws G pset V E \<longrightarrow> chain_linked (V (lg_env (bc_ledger bc')))"
    if "graph_laws G pset V E \<longrightarrow> chain_linked (V (lg_env (bc_ledger bc)))" "chain_step G pset bc bc'"
    for bc bc' :: "'a blockchain"
    using that chain_step_linked by blast
qed

section \<open>The walk to the genesis block ends\<close>

lemma find_genesis_linked:
  assumes "chain_linked get" "\<And>h p. get_block h = Inr p \<longleftrightarrow> get h = Some p" "block_linked get b"
  shows "\<exists>g. find_genesis get_block b = Some (Inr g) \<and> bl_PreviousHash g = ZeroHash"
  using assms(3)
proof (induction "unat (bl_Index b)" arbitrary: b rule: less_induct)
  case less
  show ?case
  proof (cases "bl_PreviousHash b = ZeroHash")
    case True
    then show ?thesis by (simp add: find_genesis.simps)
  next
    case False
    with less.prems obtain p where p: "get (bl_PreviousHash b) = Some p" "bl_Index b = bl_Index p + 1" "bl_Index b \<noteq> 0"
      by (auto simp: block_linked_def split: if_splits)
    then have "unat (bl_Index p) < unat (bl_Index b)"
      by (metis add.commute lessI unatSuc)
    moreover have "block_linked get p" using assms(1) p(1) by (auto simp: chain_linked_def)
    moreover have "get_block (bl_PreviousHash b) = Inr p" using assms(2) p(1) by blast
    ultimately show ?thesis
      using less.hyps [of p] False by (subst find_genesis.simps) simp
  qed
qed

section \<open>Properties\<close>


definition start_chain :: "mem_env blockchain" where
  "start_chain = \<lparr>bc_ledger = NewLedger (fmempty, []), bc_head = None, bc_genesisBlock = None\<rparr>"

lemma start_chain_empty: "dag_empty mem_V mem_E (lg_env (bc_ledger start_chain))"
  by (simp add: start_chain_def dag_empty_def NewLedger_def mem_V_def mem_E_def fun_eq_iff)

text \<open>A first block that validation accepts, and the chain after it is added.\<close>

definition first_block :: block where
  "first_block = (let b = sample_block\<lparr>bl_Index := 0, bl_Transactions := []\<rparr>;
     b = b\<lparr>bl_MerkleRoot := Block_ComputeMerkleRoot b\<rparr> in b\<lparr>bl_Hash := Block_ComputeHash b\<rparr>)"

definition first_chain :: "mem_env blockchain" where
  "first_chain = snd (Blockchain_AddBlock mem_graph mem_set 100 first_block start_chain)"

lemma first_chain_run: "(chain_step mem_graph mem_set)\<^sup>*\<^sup>* start_chain first_chain"
  unfolding first_chain_def by (rule r_into_rtranclp, rule chain_step.add, rule prod.collapse [symmetric])

lemma first_block_stored: "GetBlockByHash mem_graph (bl_Hash first_block) first_chain = Inr first_block"
proof -
  have "block_fits first_block"
    by (simp add: block_fits_def first_block_def Let_def sample_block_def)
  then obtain data where "Block_Serialize first_block = Inr data" using block_codec.enc_total by blast
  moreover have "Blockchain_ValidateBlock mem_graph 100 first_block start_chain = None"
    by (simp add: Blockchain_ValidateBlock_def validate_block_with_def first_block_def Let_def sample_block_def
        Chain_validateConsensusRules_def Chain_MaxTimeDrift_def Block_ComputeHash_def Block_ComputeMerkleRoot_def)
  moreover have "bl_PreviousHash first_block = ZeroHash"
    by (simp add: first_block_def Let_def sample_block_def)
  ultimately show ?thesis
    by (simp add: first_chain_def Blockchain_AddBlock_def AddBlock_def IsZeroHash_iff start_chain_def NewLedger_def
        mem_graph_def mem_set_def GetBlockByHash_def GetBlock_def)
qed




text \<open>
  An incoming block moves the head only when it extends it.  If \<open>HandleIncomingBlock\<close> returns no error, the new
  head is the block, its previous hash is the old head's hash, the edge is in the graph and its transactions are
  applied; on every error the head stays, and a block that does not extend the head leaves the whole chain as it was.
\<close>

theorem incoming_block_extends_head:
  assumes "graph_laws G pset V E" "\<not> IsZeroHash (bl_PreviousHash b)" "HandleIncomingBlock G pset now b bc = (r, bc')"
  shows "(r = None \<longrightarrow> bc_head bc' = Some b \<and> (\<exists>h. bc_head bc = Some h \<and> bl_PreviousHash b = bl_Hash h) \<and>
      (bl_PreviousHash b, bl_Hash b) \<in> E (lg_env (bc_ledger bc')) \<and>
      lg_state (bc_ledger bc') = applyBlock b (lg_state (bc_ledger bc))) \<and>
    (r \<noteq> None \<longrightarrow> bc_head bc' = bc_head bc) \<and>
    ((\<forall>h. bc_head bc = Some h \<longrightarrow> bl_PreviousHash b \<noteq> bl_Hash h) \<longrightarrow> bc' = bc) \<and>
    bc_genesisBlock bc' = bc_genesisBlock bc"
proof -
  obtain r1 l1 where a: "AddBlock G pset b (bc_ledger bc) = (r1, l1)" by (cases "AddBlock G pset b (bc_ledger bc)")
  from AddBlock_linked [OF assms(1,2) a]
  have "lg_state l1 = applyBlock b (lg_state (bc_ledger bc))"
    "r1 = None \<Longrightarrow> (bl_PreviousHash b, bl_Hash b) \<in> E (lg_env l1)" by auto
  with assms(3) a show ?thesis
    by (auto simp: HandleIncomingBlock_def split: option.splits if_splits)
qed

theorem incoming_block_extends_head_witness:
  "snd (HandleIncomingBlock mem_graph mem_set 100 child_sample start_chain) = start_chain"
proof -
  obtain r bc' where run: "HandleIncomingBlock mem_graph mem_set 100 child_sample start_chain = (r, bc')"
    by (cases "HandleIncomingBlock mem_graph mem_set 100 child_sample start_chain")
  from incoming_block_extends_head [OF mem_graph_laws _ this] have "bc' = start_chain"
    by (simp add: start_chain_def)
  with run show ?thesis by simp
qed

text \<open>
  A node with an empty ledger cannot start: \<open>GetLatestBlock\<close> reports an error rather than the \<open>nil\<close> block that
  \<open>setup\<close> tests for, so the genesis block is never created.
\<close>

theorem empty_ledger_cannot_start:
  assumes "adjacency_laws G V E" "dag_empty V E (lg_env l)"
  shows "\<exists>err. NewBlockchain G pset now order vorder l g = Some (Inl err)"
proof -
  obtain m where m: "g_AdjacencyMap G (lg_env l) = Inr m" "fset (fmdom m) = {}"
    using assms unfolding adjacency_laws_def dag_empty_def by (metis dom_empty)
  have "latest_loop G m ks l = Inl (ErrorS ''failed to find the latest block'')" for ks
    using m(2) by (induction ks) (auto dest: fmdomI)
  with m(1) show ?thesis
    by (simp add: NewBlockchain_def Blockchain_setup_def setup_with_def GetLatestBlock_def)
qed

theorem empty_ledger_cannot_start_witness:
  "\<exists>err. NewBlockchain mem_graph mem_set 7 [] [] (NewLedger (fmempty, [])) (sample_genesis ''1000'') = Some (Inl err)"
  by (rule empty_ledger_cannot_start [OF mem_adjacency_laws])
    (simp add: dag_empty_def NewLedger_def mem_V_def mem_E_def fun_eq_iff)

text \<open>
  The genesis block that \<open>setup\<close> would create fails the chain's own validation: its transactions are sent by the
  zero address, which \<open>validateTransaction\<close> refuses in the genesis block as well.
\<close>

theorem genesis_block_fails_validation:
  assumes "CreateGenesisBlock t order ZeroAddress g = Inr b" "ranges order (gn_Alloc g)"
  shows "Blockchain_ValidateBlock G now b bc \<noteq> None"
proof
  assume "Blockchain_ValidateBlock G now b bc = None"
  then have check: "\<forall>tx \<in> set (bl_Transactions b). Chain_validateTransaction bc tx (bl_Index b = 0) = None"
    unfolding Blockchain_ValidateBlock_def
    by (rule validated_linked [where get = "\<lambda>h. case GetBlock G h (bc_ledger bc) of Inl _ \<Rightarrow> None | Inr p \<Rightarrow> Some p",
          THEN conjunct2, THEN conjunct2]) (auto split: sum.splits)
  obtain tx where tx: "tx \<in> set (bl_Transactions b)"
    using CreateGenesisBlock_Inr(4) [OF assms(1)] by (cases "bl_Transactions b") auto
  then have "tx_Sender tx = ZeroAddress"
    using genesis_txs_Inr [OF CreateGenesisBlock_Inr(1) [OF assms(1)]] ranges_set [OF assms(2)] by auto
  with check tx show False by (auto simp: Chain_validateTransaction_def Address_IsZero_iff)
qed

theorem genesis_block_fails_validation_witness:
  "\<exists>b. CreateGenesisBlock 0 [Address_Hex (copy_address [1])] ZeroAddress (sample_genesis ''1000'') = Inr b \<and>
     Blockchain_ValidateBlock mem_graph 100 b start_chain \<noteq> None"
proof -
  have "big_SetString ''1000'' = Some 1000"
    by (simp add: big_SetString_def dec_value_def Let_def)
  then obtain b where
    "CreateGenesisBlock 0 [Address_Hex (copy_address [1])] ZeroAddress (sample_genesis ''1000'') = Inr b"
    "ranges [Address_Hex (copy_address [1])] (gn_Alloc (sample_genesis ''1000''))"
    by (rule sample_genesis_run)
  with genesis_block_fails_validation show ?thesis by blast
qed

end
