(* ===== verification/Tx_Pool.thy ===== *)
theory Tx_Pool
  imports Blocks "HOL-Library.Multiset"
begin

text \<open>
  \<open>pkg/txpool/pool.go\<close>: the pool of pending transactions.  Timestamps and durations are 64-bit integers in
  nanoseconds.  Where the code ranges over the map the iteration order is an argument; the same
  argument covers the ties that \<open>sort.Slice\<close> may break either way, so the sort is a stable one.  Shown
  here: the pool stays within its size, eviction takes the oldest transaction, retrieval is sorted by
  nonce, clean-up removes exactly the expired transactions.
\<close>

section \<open>State\<close>

record tx_pool =
  tp_transactions :: "(hash, transaction) fmap"
  tp_maxSize :: int
  tp_txExpiry :: int64
  tp_validateTransaction :: "transaction \<Rightarrow> go_error option"
  tp_cleanupInterval :: int64

definition DefaultMaxPoolSize :: int where "DefaultMaxPoolSize = 1000"
definition DefaultTxExpiry :: int64 where "DefaultTxExpiry = 600000000000"
definition DefaultCleanupInterval :: int64 where "DefaultCleanupInterval = 60000000000"
definition MaxInt64 :: int where "MaxInt64 = 9223372036854775807"

definition validateTransactionDefault :: "transaction \<Rightarrow> go_error option" where
  "validateTransactionDefault tx =
     (if tx_Amount tx = 0 then Some (ErrorS ''transaction amount must be greater than zero'') else None)"

definition NewTxPool :: tx_pool where
  "NewTxPool = \<lparr>tp_transactions = fmempty, tp_maxSize = DefaultMaxPoolSize, tp_txExpiry = DefaultTxExpiry,
     tp_validateTransaction = validateTransactionDefault, tp_cleanupInterval = DefaultCleanupInterval\<rparr>"

definition NewTxPoolWithOptions ::
  "int \<Rightarrow> int64 \<Rightarrow> int64 \<Rightarrow> (transaction \<Rightarrow> go_error option) option \<Rightarrow> tx_pool" where
  "NewTxPoolWithOptions maxSize txExpiry cleanupInterval validateFn =
     \<lparr>tp_transactions = fmempty, tp_maxSize = maxSize, tp_txExpiry = txExpiry,
      tp_validateTransaction = (case validateFn of None \<Rightarrow> validateTransactionDefault | Some f \<Rightarrow> f),
      tp_cleanupInterval = cleanupInterval\<rparr>"

section \<open>Operations\<close>

definition SetMaxSize :: "int \<Rightarrow> tx_pool \<Rightarrow> tx_pool" where
  "SetMaxSize mx tp = tp\<lparr>tp_maxSize := mx\<rparr>"

definition SetTxExpiry :: "int64 \<Rightarrow> tx_pool \<Rightarrow> tx_pool" where
  "SetTxExpiry expiry tp = tp\<lparr>tp_txExpiry := expiry\<rparr>"

fun oldest_loop :: "hash list \<Rightarrow> (hash, transaction) fmap \<Rightarrow> hash \<Rightarrow> int \<Rightarrow> hash \<times> int" where
  "oldest_loop [] txs oldestTxID oldestTimestamp = (oldestTxID, oldestTimestamp)"
| "oldest_loop (txID # ids) txs oldestTxID oldestTimestamp =
     (case fmlookup txs txID of
        None \<Rightarrow> oldest_loop ids txs oldestTxID oldestTimestamp
      | Some tx \<Rightarrow>
          if sint (tx_Timestamp tx) < oldestTimestamp
          then oldest_loop ids txs txID (sint (tx_Timestamp tx))
          else oldest_loop ids txs oldestTxID oldestTimestamp)"

definition evictTransaction :: "hash list \<Rightarrow> tx_pool \<Rightarrow> hash \<times> tx_pool" where
  "evictTransaction order tp =
     (let (oldestTxID, _) = oldest_loop order (tp_transactions tp) ZeroHash MaxInt64 in
      if Hash_String oldestTxID \<noteq> ''''
      then (oldestTxID, tp\<lparr>tp_transactions := fmdrop oldestTxID (tp_transactions tp)\<rparr>)
      else (ZeroHash, tp))"

text \<open>
  \<open>now\<close> is \<open>time.Now().UnixNano()\<close>.  The stamp is written through the caller's pointer: the first
  result is the caller's transaction after the call.
\<close>

definition AddTransaction ::
  "hash list \<Rightarrow> int64 \<Rightarrow> transaction \<Rightarrow> tx_pool \<Rightarrow> go_error option \<times> transaction \<times> tx_pool" where
  "AddTransaction order now tx tp =
     (case tp_validateTransaction tp tx of
        Some err \<Rightarrow> (Some err, tx, tp)
      | None \<Rightarrow>
     let txID = tx_ID tx in
     if fmlookup (tp_transactions tp) txID \<noteq> None
     then (Some (ErrorS ''transaction already exists in the pool''), tx, tp)
     else
       let (ok, tp) =
             (if int (fmlen (tp_transactions tp)) \<ge> tp_maxSize tp
              then let (evicted, tp) = evictTransaction order tp in (\<not> IsZeroHash evicted, tp)
              else (True, tp))
       in if \<not> ok then (Some (ErrorS ''transaction pool is full and eviction failed''), tx, tp)
          else
            let tx = tx\<lparr>tx_Timestamp := now\<rparr>
            in (None, tx, tp\<lparr>tp_transactions := fmupd txID tx (tp_transactions tp)\<rparr>))"

definition sortTransactionsByNonceAsc :: "transaction list \<Rightarrow> transaction list" where
  "sortTransactionsByNonceAsc txs = sort_key tx_Nonce txs"

definition sortTransactionsByFeeDesc :: "transaction list \<Rightarrow> transaction list" where
  "sortTransactionsByFeeDesc txs = sort_key (\<lambda>tx. - uint (tx_Fee tx)) txs"

definition GetTransactions :: "hash list \<Rightarrow> int \<Rightarrow> tx_pool \<Rightarrow> transaction list result" where
  "GetTransactions order mx tp =
     (let txs = sortTransactionsByNonceAsc (range_values order (tp_transactions tp));
          mx = (if mx > int (length txs) then int (length txs) else mx)
      in if mx < 0 then Inl (Panic ''slice bounds out of range'') else Inr (take (nat mx) txs))"

definition RemoveTransaction :: "hash \<Rightarrow> tx_pool \<Rightarrow> tx_pool" where
  "RemoveTransaction txID tp = tp\<lparr>tp_transactions := fmdrop txID (tp_transactions tp)\<rparr>"

fun RemoveTransactions :: "hash list \<Rightarrow> tx_pool \<Rightarrow> tx_pool" where
  "RemoveTransactions [] tp = tp"
| "RemoveTransactions (txID # txIDs) tp =
     RemoveTransactions txIDs (tp\<lparr>tp_transactions := fmdrop txID (tp_transactions tp)\<rparr>)"

definition GetTransaction :: "hash \<Rightarrow> tx_pool \<Rightarrow> transaction option" where
  "GetTransaction txID tp = fmlookup (tp_transactions tp) txID"

definition TxPool_Size :: "tx_pool \<Rightarrow> int" where
  "TxPool_Size tp = int (fmlen (tp_transactions tp))"

text \<open>One turn of the clean-up goroutine (both variants have the same body).\<close>

definition expired :: "int64 \<Rightarrow> int64 \<Rightarrow> transaction \<Rightarrow> bool" where
  "expired now expiry tx \<longleftrightarrow> sint (now - tx_Timestamp tx) > sint expiry"

fun cleanup_loop :: "hash list \<Rightarrow> int64 \<Rightarrow> tx_pool \<Rightarrow> tx_pool" where
  "cleanup_loop [] now tp = tp"
| "cleanup_loop (txID # ids) now tp =
     (case fmlookup (tp_transactions tp) txID of
        None \<Rightarrow> cleanup_loop ids now tp
      | Some tx \<Rightarrow>
          if expired now (tp_txExpiry tp) tx
          then cleanup_loop ids now (tp\<lparr>tp_transactions := fmdrop txID (tp_transactions tp)\<rparr>)
          else cleanup_loop ids now tp)"

definition cleanupExpiredTransactions :: "hash list \<Rightarrow> int64 \<Rightarrow> tx_pool \<Rightarrow> tx_pool" where
  "cleanupExpiredTransactions order now tp = cleanup_loop order now tp"

section \<open>Lemmas\<close>

definition is_min :: "(hash, transaction) fmap \<Rightarrow> hash list \<Rightarrow> hash \<Rightarrow> int \<Rightarrow> hash \<Rightarrow> int \<Rightarrow> bool" where
  "is_min txs ids i0 t0 i t \<longleftrightarrow>
     (i = i0 \<and> t = t0 \<or> t < t0 \<and> (\<exists>tx. fmlookup txs i = Some tx \<and> t = sint (tx_Timestamp tx))) \<and>
     (\<forall>j \<in> set ids. \<forall>tx. fmlookup txs j = Some tx \<longrightarrow> t \<le> sint (tx_Timestamp tx))"

lemma oldest_loop_spec: "oldest_loop ids txs i0 t0 = (i, t) \<Longrightarrow> is_min txs ids i0 t0 i t"
proof (induction ids arbitrary: i0 t0)
  case Nil
  then show ?case by (simp add: is_min_def)
next
  case (Cons j ids)
  show ?case
  proof (cases "\<exists>tx. fmlookup txs j = Some tx \<and> sint (tx_Timestamp tx) < t0")
    case True
    then obtain tx where tx: "fmlookup txs j = Some tx" "sint (tx_Timestamp tx) < t0" by blast
    then have "is_min txs ids j (sint (tx_Timestamp tx)) i t" using Cons by simp
    with tx show ?thesis by (auto simp: is_min_def)
  next
    case False
    then have "is_min txs ids i0 t0 i t" using Cons by (auto split: option.splits if_splits)
    moreover from this have "t \<le> t0" by (auto simp: is_min_def)
    ultimately show ?thesis using False by (auto simp: is_min_def not_less dest: order_trans)
  qed
qed

lemma sint_le_MaxInt64: "sint (t :: int64) \<le> MaxInt64"
  using sint_less [of t] by (simp add: MaxInt64_def)

lemma evict_spec:
  assumes "ranges order (tp_transactions tp)" "evictTransaction order tp = (i, tp')"
  shows "tp' = tp\<lparr>tp_transactions := fmdrop i (tp_transactions tp)\<rparr> \<and>
    (i \<noteq> ZeroHash \<longrightarrow> (\<exists>tx. fmlookup (tp_transactions tp) i = Some tx \<and>
      (\<forall>j tx'. fmlookup (tp_transactions tp) j = Some tx' \<longrightarrow> sint (tx_Timestamp tx) \<le> sint (tx_Timestamp tx'))))"
proof -
  obtain t where loop: "oldest_loop order (tp_transactions tp) ZeroHash MaxInt64 = (i, t)"
    and tp': "tp' = tp\<lparr>tp_transactions := fmdrop i (tp_transactions tp)\<rparr>"
    using assms(2) by (auto simp: evictTransaction_def split: prod.splits)
  have mem: "j \<in> set order" if "fmlookup (tp_transactions tp) j = Some tx" for j tx
    using ranges_set [OF assms(1)] that by (simp add: fmdomI)
  have min: "is_min (tp_transactions tp) order ZeroHash MaxInt64 i t" by (rule oldest_loop_spec [OF loop])
  have "\<exists>tx. fmlookup (tp_transactions tp) i = Some tx \<and>
      (\<forall>j tx'. fmlookup (tp_transactions tp) j = Some tx' \<longrightarrow> sint (tx_Timestamp tx) \<le> sint (tx_Timestamp tx'))"
    if "i \<noteq> ZeroHash"
    using min that mem unfolding is_min_def by blast
  with tp' show ?thesis by blast
qed

lemma fmlen_drop_Some: "fmlookup m k = Some v \<Longrightarrow> int (fmlen (fmdrop k m)) = int (fmlen m) - 1"
proof -
  assume *: "fmlookup m k = Some v"
  then have "k |\<in>| fmdom m" by (rule fmdomI)
  moreover have "m \<noteq> fmempty" using * by auto
  then have "fmlen m > 0" by (metis fmlen_eq_0 gr0I)
  ultimately show ?thesis by (simp add: fmlen_drop of_nat_diff)
qed

lemma AddTransaction_cases:
  assumes "ranges order (tp_transactions tp)" "AddTransaction order now tx tp = (r, tx', tp')"
  obtains
    (rejected) e where "r = Some e" "tx' = tx" "tp' = tp"
  | (evict_failed) e where "r = Some e" "tx' = tx" "tp' = tp\<lparr>tp_transactions := fmdrop ZeroHash (tp_transactions tp)\<rparr>"
  | (added) "r = None" "tx' = tx\<lparr>tx_Timestamp := now\<rparr>" "fmlookup (tp_transactions tp) (tx_ID tx) = None"
      "int (fmlen (tp_transactions tp)) < tp_maxSize tp"
      "tp' = tp\<lparr>tp_transactions := fmupd (tx_ID tx) tx' (tp_transactions tp)\<rparr>"
  | (replaced) i old where "r = None" "tx' = tx\<lparr>tx_Timestamp := now\<rparr>"
      "fmlookup (tp_transactions tp) (tx_ID tx) = None"
      "fmlookup (tp_transactions tp) i = Some old"
      "\<forall>j t. fmlookup (tp_transactions tp) j = Some t \<longrightarrow> sint (tx_Timestamp old) \<le> sint (tx_Timestamp t)"
      "tp' = tp\<lparr>tp_transactions := fmupd (tx_ID tx) tx' (fmdrop i (tp_transactions tp))\<rparr>"
proof (cases "tp_validateTransaction tp tx = None \<and> fmlookup (tp_transactions tp) (tx_ID tx) = None")
  case False
  show thesis
  proof (cases "tp_validateTransaction tp tx")
    case None
    with False assms(2) show thesis by (auto simp: AddTransaction_def intro: rejected)
  next
    case (Some e)
    with assms(2) show thesis by (intro rejected [of e]) (simp_all add: AddTransaction_def)
  qed
next
  case True
  obtain i tp1 where ev: "evictTransaction order tp = (i, tp1)" by (cases "evictTransaction order tp")
  note spec = evict_spec [OF assms(1) ev]
  show thesis
  proof (cases "int (fmlen (tp_transactions tp)) \<ge> tp_maxSize tp")
    case False
    then show thesis using True assms(2) added by (auto simp: AddTransaction_def Let_def)
  next
    case full: True
    show thesis
    proof (cases "i = ZeroHash")
      case zero: True
      then show thesis
        using True full assms(2) ev spec evict_failed by (auto simp: AddTransaction_def Let_def IsZeroHash_iff)
    next
      case False
      with True full assms(2) ev spec show thesis
        by (auto simp: AddTransaction_def Let_def IsZeroHash_iff intro: replaced)
    qed
  qed
qed

lemma cleanup_loop_lookup:
  "tp_txExpiry (cleanup_loop ids now tp) = tp_txExpiry tp \<and> tp_maxSize (cleanup_loop ids now tp) = tp_maxSize tp \<and>
   fmlookup (tp_transactions (cleanup_loop ids now tp)) k =
     (case fmlookup (tp_transactions tp) k of
        None \<Rightarrow> None
      | Some tx \<Rightarrow> if k \<in> set ids \<and> expired now (tp_txExpiry tp) tx then None else Some tx)"
proof (induction ids arbitrary: tp)
  case (Cons i ids)
  show ?case
  proof (cases "fmlookup (tp_transactions tp) i")
    case None
    with Cons show ?thesis by (auto split: option.splits)
  next
    case (Some t)
    with Cons show ?thesis by (auto split: option.splits)
  qed
qed (auto split: option.splits)

lemma RemoveTransactions_lookup:
  "fmlookup (tp_transactions (RemoveTransactions ids tp)) k =
     (if k \<in> set ids then None else fmlookup (tp_transactions tp) k)"
  "tp_maxSize (RemoveTransactions ids tp) = tp_maxSize tp"
  by (induction ids arbitrary: tp) auto

section \<open>Invariant\<close>

text \<open>Transactions are filed under their ID, and there are never more of them than the limit.\<close>

definition pool_keyed :: "tx_pool \<Rightarrow> bool" where
  "pool_keyed tp \<longleftrightarrow> (\<forall>i tx. fmlookup (tp_transactions tp) i = Some tx \<longrightarrow> tx_ID tx = i)"

definition pool_inv :: "tx_pool \<Rightarrow> bool" where
  "pool_inv tp \<longleftrightarrow> pool_keyed tp \<and> TxPool_Size tp \<le> max 0 (tp_maxSize tp)"

text \<open>What can happen to a pool whose limit is left alone.\<close>

inductive pool_step :: "tx_pool \<Rightarrow> tx_pool \<Rightarrow> bool" where
  add: "ranges order (tp_transactions tp) \<Longrightarrow> AddTransaction order now tx tp = (r, tx', tp') \<Longrightarrow> pool_step tp tp'"
| remove: "pool_step tp (RemoveTransaction i tp)"
| remove_many: "pool_step tp (RemoveTransactions ids tp)"
| cleanup: "ranges order (tp_transactions tp) \<Longrightarrow> pool_step tp (cleanupExpiredTransactions order now tp)"
| set_expiry: "pool_step tp (SetTxExpiry e tp)"

lemma pool_shrink:
  assumes "pool_inv tp" "fmlookup (tp_transactions tp') \<subseteq>\<^sub>m fmlookup (tp_transactions tp)"
    and "tp_maxSize tp' = tp_maxSize tp"
  shows "pool_inv tp'"
proof -
  have "fmlookup (tp_transactions tp') i = Some tx \<Longrightarrow> fmlookup (tp_transactions tp) i = Some tx" for i tx
    using assms(2) by (metis domI map_le_def)
  then have "pool_keyed tp'" using assms(1) by (simp add: pool_inv_def pool_keyed_def)
  moreover have "fmlen (tp_transactions tp') \<le> fmlen (tp_transactions tp)" by (rule fmlen_mono) fact
  ultimately show ?thesis using assms(1,3) by (simp add: pool_inv_def TxPool_Size_def)
qed

lemma pool_inv_add:
  assumes "pool_inv tp" "ranges order (tp_transactions tp)" "AddTransaction order now tx tp = (r, tx', tp')"
  shows "pool_inv tp'"
  using assms(2,3)
proof (cases rule: AddTransaction_cases)
  case (rejected e)
  then show ?thesis using assms(1) by simp
next
  case (evict_failed e)
  then show ?thesis using assms(1) by (auto intro!: pool_shrink [OF assms(1)] simp: map_le_def)
next
  case added
  then show ?thesis
    using assms(1) by (auto simp: pool_inv_def pool_keyed_def TxPool_Size_def fmlen_upd split: if_splits)
next
  case (replaced i old)
  have "int (fmlen (fmdrop i (tp_transactions tp))) = int (fmlen (tp_transactions tp)) - 1"
    by (rule fmlen_drop_Some) fact
  with replaced show ?thesis
    using assms(1) by (auto simp: pool_inv_def pool_keyed_def TxPool_Size_def fmlen_upd split: if_splits)
qed

lemma pool_inv_step:
  assumes "pool_inv tp" "pool_step tp tp'"
  shows "pool_inv tp'"
  using assms(2)
proof cases
  case (add order now tx r tx')
  then show ?thesis using assms(1) pool_inv_add by blast
next
  case (remove i)
  then show ?thesis by (auto intro!: pool_shrink [OF assms(1)] simp: RemoveTransaction_def map_le_def)
next
  case (remove_many ids)
  then show ?thesis
    by (auto intro!: pool_shrink [OF assms(1)] simp: RemoveTransactions_lookup map_le_def dom_def)
next
  case (cleanup order now)
  then show ?thesis
    by (auto intro!: pool_shrink [OF assms(1)] simp: cleanupExpiredTransactions_def cleanup_loop_lookup map_le_def
        dom_def split: option.splits if_splits)
next
  case (set_expiry e)
  then show ?thesis by (auto intro!: pool_shrink [OF assms(1)] simp: SetTxExpiry_def)
qed

interpretation tx_pool: invariant_system
    "\<lambda>tp. tp_transactions tp = fmempty" pool_step pool_inv
proof
  show "pool_inv tp" if "tp_transactions tp = fmempty" for tp
    using that by (simp add: pool_inv_def pool_keyed_def TxPool_Size_def)
qed (rule pool_inv_step)

section \<open>Properties\<close>

text \<open>
  C9: A pool never holds more transactions than its limit (and none twice): in every state reached
  from an empty pool by adding, removing and cleaning up, the size is at most the limit and every
  transaction is filed under its own ID.
\<close>

theorem pool_within_limit:
  assumes "tp_transactions tp = fmempty" "0 \<le> tp_maxSize tp" "pool_step\<^sup>*\<^sup>* tp tp'"
  shows "TxPool_Size tp' \<le> tp_maxSize tp \<and> pool_keyed tp'"
proof -
  have max: "tp_maxSize tp' = tp_maxSize tp"
    using assms(3)
  proof (induction rule: rtranclp_induct)
    case (step y z)
    then show ?case
      by (auto elim!: pool_step.cases elim!: AddTransaction_cases
          simp: RemoveTransaction_def RemoveTransactions_lookup cleanupExpiredTransactions_def cleanup_loop_lookup
            SetTxExpiry_def)
  qed simp
  have "pool_inv tp'" by (rule tx_pool.inv_reachable [OF assms(1,3)])
  with max assms(2) show ?thesis by (simp add: pool_inv_def)
qed

theorem pool_within_limit_witness:
  "TxPool_Size (RemoveTransaction ZeroHash NewTxPool) \<le> 1000"
proof -
  have "pool_step\<^sup>*\<^sup>* NewTxPool (RemoveTransaction ZeroHash NewTxPool)" using pool_step.remove by blast
  from pool_within_limit [OF _ _ this] show ?thesis by (simp add: NewTxPool_def DefaultMaxPoolSize_def)
qed

text \<open>
  \<open>AddTransaction\<close>: on success the transaction is in the pool under its ID with the current time as its
  timestamp, and at most one other left the pool, one with the smallest timestamp; on failure the
  caller's transaction is untouched and the pool has lost at most what was filed under the zero hash.
\<close>

theorem AddTransaction_effect:
  assumes "ranges order (tp_transactions tp)" "AddTransaction order now tx tp = (r, tx', tp')"
  shows "(r = None \<longrightarrow> GetTransaction (tx_ID tx) tp' = Some (tx\<lparr>tx_Timestamp := now\<rparr>) \<and>
      (\<exists>out. (\<forall>i. i \<noteq> tx_ID tx \<longrightarrow> i \<notin> out \<longrightarrow> GetTransaction i tp' = GetTransaction i tp) \<and>
         (\<forall>i \<in> out. \<exists>old. out = {i} \<and> GetTransaction i tp = Some old \<and>
            (\<forall>j t. GetTransaction j tp = Some t \<longrightarrow> sint (tx_Timestamp old) \<le> sint (tx_Timestamp t))))) \<and>
    (r \<noteq> None \<longrightarrow> tx' = tx \<and> (\<forall>i. i \<noteq> ZeroHash \<longrightarrow> GetTransaction i tp' = GetTransaction i tp))"
  using assms
proof (cases rule: AddTransaction_cases)
  case (rejected e)
  then show ?thesis by simp
next
  case (evict_failed e)
  then show ?thesis by (simp add: GetTransaction_def)
next
  case added
  then show ?thesis by (auto simp: GetTransaction_def intro!: exI [of _ "{}"])
next
  case (replaced i old)
  then show ?thesis by (auto simp: GetTransaction_def intro!: exI [of _ "{i}"])
qed

theorem AddTransaction_effect_witness:
  "GetTransaction ZeroHash (snd (snd (AddTransaction [] 5 sample_tx NewTxPool))) = Some (sample_tx\<lparr>tx_Timestamp := 5\<rparr>)"
proof -
  obtain r tx' tp' where e: "AddTransaction [] 5 sample_tx NewTxPool = (r, tx', tp')"
    by (cases "AddTransaction [] 5 sample_tx NewTxPool")
  then have "r = None"
    by (auto simp: AddTransaction_def NewTxPool_def validateTransactionDefault_def sample_tx_def
        DefaultMaxPoolSize_def Let_def)
  moreover have ran: "ranges [] (tp_transactions NewTxPool)" by (simp add: NewTxPool_def)
  ultimately have "GetTransaction (tx_ID sample_tx) tp' = Some (sample_tx\<lparr>tx_Timestamp := 5\<rparr>)"
    using AddTransaction_effect [OF ran e] by blast
  then show ?thesis by (simp add: e) (simp add: sample_tx_def)
qed

text \<open>
  \<open>GetTransactions\<close> with a nonnegative maximum returns the smaller of that many and all of the pool's
  transactions, in ascending order of nonce, and leaves out none with a smaller nonce than one it returns.
\<close>

theorem GetTransactions_sorted:
  assumes "ranges order (tp_transactions tp)" "0 \<le> n"
  shows "\<exists>txs rest. GetTransactions order n tp = Inr txs \<and> sorted (map tx_Nonce (txs @ rest)) \<and>
    int (length txs) = min n (TxPool_Size tp) \<and>
    mset (txs @ rest) = mset (range_values order (tp_transactions tp)) \<and>
    set (txs @ rest) = {tx. \<exists>i. GetTransaction i tp = Some tx}"
proof -
  let ?all = "sort_key tx_Nonce (range_values order (tp_transactions tp))"
  have len: "int (length ?all) = TxPool_Size tp"
    using assms(1) by (simp add: TxPool_Size_def range_values_length)
  have "GetTransactions order n tp = Inr (take (nat (min n (int (length ?all)))) ?all)"
    using assms(2) by (auto simp: GetTransactions_def sortTransactionsByNonceAsc_def Let_def min_def)
  moreover have "set ?all = {tx. \<exists>i. GetTransaction i tp = Some tx}"
    using set_range_values [OF assms(1)] by (simp add: GetTransaction_def)
  moreover have "int (length (take (nat (min n (int (length ?all)))) ?all)) = min n (TxPool_Size tp)"
    using assms(2) len by simp
  moreover have "sorted (map tx_Nonce ?all)" "mset ?all = mset (range_values order (tp_transactions tp))" by simp_all
  ultimately show ?thesis
    by (metis append_take_drop_id)
qed

theorem GetTransactions_sorted_witness:
  "\<exists>txs. GetTransactions [] 3 NewTxPool = Inr txs \<and> length txs = 0"
  using GetTransactions_sorted [of "[]" NewTxPool 3] by (auto simp: NewTxPool_def TxPool_Size_def)

text \<open>
  A clean-up turn removes exactly the transactions older than the expiry at that moment, and keeps the
  others as they are.
\<close>

theorem cleanup_exact:
  assumes "ranges order (tp_transactions tp)"
  shows "GetTransaction i (cleanupExpiredTransactions order now tp) =
    (case GetTransaction i tp of
       None \<Rightarrow> None
     | Some tx \<Rightarrow> if sint (now - tx_Timestamp tx) > sint (tp_txExpiry tp) then None else Some tx)"
  using ranges_set [OF assms] fmdomI [of "tp_transactions tp" i]
  by (auto simp: GetTransaction_def cleanupExpiredTransactions_def cleanup_loop_lookup expired_def split: option.splits)

theorem cleanup_exact_witness:
  "GetTransaction ZeroHash (cleanupExpiredTransactions [ZeroHash] 700000000000
     (NewTxPool\<lparr>tp_transactions := fmupd ZeroHash sample_tx fmempty\<rparr>)) = None"
proof -
  have "ranges [ZeroHash] (tp_transactions (NewTxPool\<lparr>tp_transactions := fmupd ZeroHash sample_tx fmempty\<rparr>))"
    by (simp add: ranges_def)
  from cleanup_exact [OF this] show ?thesis
    by (simp add: GetTransaction_def sample_tx_def NewTxPool_def DefaultTxExpiry_def)
qed

text \<open>
  The pool breaks the link between a transaction and its ID: the ID covers the timestamp, and adding
  the transaction replaces the timestamp.  When the clock shows another time than the transaction does, the
  stored transaction's ID is not its hash, or the two preimages are a SHA-256 collision.
\<close>

theorem stored_transaction_ID_stale:
  assumes "ranges order (tp_transactions tp)" "AddTransaction order now tx tp = (None, tx', tp')"
    and "tx_ID tx = Transaction_ComputeHash tx" "now \<noteq> tx_Timestamp tx"
  shows "\<exists>stored. GetTransaction (tx_ID tx) tp' = Some stored \<and>
    (tx_ID stored \<noteq> Transaction_ComputeHash stored \<or>
     tx_preimage tx \<noteq> tx_preimage stored \<and> sha256_Sum256 (tx_preimage tx) = sha256_Sum256 (tx_preimage stored))"
proof -
  have stored: "GetTransaction (tx_ID tx) tp' = Some (tx\<lparr>tx_Timestamp := now\<rparr>)"
    using assms(1,2) by (cases rule: AddTransaction_cases) (auto simp: GetTransaction_def)
  have "tx_preimage tx \<noteq> tx_preimage (tx\<lparr>tx_Timestamp := now\<rparr>)"
    using assms(4) by (auto simp: tx_preimage_iff tx_body_def)
  with stored assms(3) show ?thesis by (auto simp: ComputeHash_preimage SumHash_eq_iff)
qed

theorem stored_transaction_ID_stale_witness:
  "\<exists>stored. GetTransaction (Transaction_ComputeHash sample_tx) (snd (snd (AddTransaction [] 5 sealed_tx NewTxPool))) =
      Some stored \<and>
    (tx_ID stored \<noteq> Transaction_ComputeHash stored \<or>
     tx_preimage sealed_tx \<noteq> tx_preimage stored \<and>
     sha256_Sum256 (tx_preimage sealed_tx) = sha256_Sum256 (tx_preimage stored))"
proof -
  have ran: "ranges [] (tp_transactions NewTxPool)" by (simp add: NewTxPool_def)
  have "fst (AddTransaction [] 5 sealed_tx NewTxPool) = None"
    by (auto simp: AddTransaction_def NewTxPool_def validateTransactionDefault_def sealed_tx_def sample_tx_def
        DefaultMaxPoolSize_def Let_def)
  then obtain tx' tp' where e: "AddTransaction [] 5 sealed_tx NewTxPool = (None, tx', tp')"
    by (cases "AddTransaction [] 5 sealed_tx NewTxPool") auto
  have "tx_ID sealed_tx = Transaction_ComputeHash sealed_tx" "tx_ID sealed_tx = Transaction_ComputeHash sample_tx"
    by (simp_all add: sealed_tx_def Transaction_ComputeHash_def)
  moreover have "5 \<noteq> tx_Timestamp sealed_tx" by (simp add: sealed_tx_def sample_tx_def)
  ultimately show ?thesis using stored_transaction_ID_stale [OF ran e] e by auto
qed

end
