(* ===== verification/Service_State.thy ===== *)
theory Service_State
  imports Prelude
begin

text \<open>
  The service state managers: \<open>pkg/node/state.go\<close>, \<open>pkg/validator/state.go\<close>, \<open>pkg/runtime/state.go\<close> (one text with
  different constants) and \<open>pkg/sequencer/state.go\<close>.  Metrics and logging are left out.  A channel is a number, closed
  when it is in \<open>sm_closed\<close>; \<open>WaitForState\<close> runs in phases, one per stretch of code under the mutex, and other
  goroutines may run between them.  Shown here: reading back what was set, that a registered waiter is woken by
  \<open>Started\<close>, and what a return without error says.
\<close>

section \<open>States\<close>

type_synonym service_state = int

definition Uninitialized :: service_state where "Uninitialized = 0"
definition Initializing :: service_state where "Initializing = 1"
definition Initialized :: service_state where "Initialized = 2"
definition Starting :: service_state where "Starting = 3"
definition Started :: service_state where "Started = 4"
definition Failed :: service_state where "Failed = 5"
definition Stopping :: service_state where "Stopping = 6"
definition Stopped :: service_state where "Stopped = 7"

lemmas state_defs = Uninitialized_def Initializing_def Initialized_def Starting_def Started_def Failed_def
  Stopping_def Stopped_def

definition Node_State_String :: "service_state \<Rightarrow> string" where
  "Node_State_String s =
     (if s = Uninitialized then ''uninitialized'' else if s = Initializing then ''initializing''
      else if s = Initialized then ''initialized'' else if s = Starting then ''starting''
      else if s = Started then ''started'' else if s = Failed then ''failed''
      else if s = Stopped then ''stopped'' else ''unknown'')"

text \<open>The validator package repeats the text of the node package.\<close>

definition Validator_State_String :: "service_state \<Rightarrow> string" where
  "Validator_State_String s =
     (if s = Uninitialized then ''uninitialized'' else if s = Initializing then ''initializing''
      else if s = Initialized then ''initialized'' else if s = Starting then ''starting''
      else if s = Started then ''started'' else if s = Failed then ''failed''
      else if s = Stopped then ''stopped'' else ''unknown'')"

definition Runtime_Stopped :: service_state where "Runtime_Stopped = 6"

definition Runtime_State_String :: "service_state \<Rightarrow> string" where
  "Runtime_State_String s =
     (if s = Uninitialized then ''uninitialized'' else if s = Initializing then ''initializing''
      else if s = Initialized then ''initialized'' else if s = Starting then ''starting''
      else if s = Started then ''started'' else if s = Failed then ''failed''
      else if s = Runtime_Stopped then ''stopped'' else ''unknown'')"

definition Seq_Produced :: service_state where "Seq_Produced = 5"
definition Seq_Failed :: service_state where "Seq_Failed = 6"
definition Seq_Stopping :: service_state where "Seq_Stopping = 7"
definition Seq_Stopped :: service_state where "Seq_Stopped = 8"

lemmas seq_state_defs = Seq_Produced_def Seq_Failed_def Seq_Stopping_def Seq_Stopped_def

definition Seq_State_String :: "service_state \<Rightarrow> string" where
  "Seq_State_String s =
     (if s = Uninitialized then ''uninitialized'' else if s = Initializing then ''initializing''
      else if s = Initialized then ''initialized'' else if s = Starting then ''starting''
      else if s = Started then ''started'' else if s = Seq_Produced then ''produced''
      else if s = Seq_Failed then ''failed'' else if s = Seq_Stopping then ''stopping''
      else if s = Seq_Stopped then ''stopped'' else ''unknown'')"

section \<open>Managers\<close>

record state_manager =
  sm_serviceStates :: "(string, service_state) fmap"
  sm_waitChans :: "(string, nat) fmap"
  sm_closed :: "nat list"
  sm_next :: nat

definition NewStateManager :: state_manager where
  "NewStateManager = \<lparr>sm_serviceStates = fmempty, sm_waitChans = fmempty, sm_closed = [], sm_next = 0\<rparr>"

text \<open>
  \<open>SetState\<close> with the set of states that notify the waiters; \<open>close\<close> marks the channel.  A missing key reads as
  the zero state.
\<close>

definition set_state :: "service_state list \<Rightarrow> string \<Rightarrow> service_state \<Rightarrow> state_manager \<Rightarrow> state_manager" where
  "set_state notify stateType state sm =
     (let sm = sm\<lparr>sm_serviceStates := fmupd stateType state (sm_serviceStates sm)\<rparr> in
      if state \<in> set notify then
        (case fmlookup (sm_waitChans sm) stateType of
           None \<Rightarrow> sm
         | Some ch \<Rightarrow> sm\<lparr>sm_closed := ch # sm_closed sm, sm_waitChans := fmdrop stateType (sm_waitChans sm)\<rparr>)
      else sm)"

definition get_state :: "string \<Rightarrow> state_manager \<Rightarrow> service_state" where
  "get_state stateType sm = (case fmlookup (sm_serviceStates sm) stateType of None \<Rightarrow> 0 | Some s \<Rightarrow> s)"

definition make_chan :: "string \<Rightarrow> state_manager \<Rightarrow> nat \<times> state_manager" where
  "make_chan stateType sm =
     (sm_next sm, sm\<lparr>sm_waitChans := fmupd stateType (sm_next sm) (sm_waitChans sm), sm_next := sm_next sm + 1\<rparr>)"

definition Node_SetState :: "string \<Rightarrow> service_state \<Rightarrow> state_manager \<Rightarrow> state_manager" where
  "Node_SetState = set_state [Started]"

definition Node_GetState :: "string \<Rightarrow> state_manager \<Rightarrow> service_state" where
  "Node_GetState = get_state"

definition Validator_SetState :: "string \<Rightarrow> service_state \<Rightarrow> state_manager \<Rightarrow> state_manager" where
  "Validator_SetState = set_state [Started]"

definition Validator_GetState :: "string \<Rightarrow> state_manager \<Rightarrow> service_state" where
  "Validator_GetState = get_state"

definition Runtime_SetState :: "string \<Rightarrow> service_state \<Rightarrow> state_manager \<Rightarrow> state_manager" where
  "Runtime_SetState = set_state [Started]"

definition Runtime_GetState :: "string \<Rightarrow> state_manager \<Rightarrow> service_state" where
  "Runtime_GetState = get_state"

definition Seq_SetState :: "string \<Rightarrow> service_state \<Rightarrow> state_manager \<Rightarrow> state_manager" where
  "Seq_SetState = set_state [Started, Seq_Stopped, Seq_Failed]"

definition Seq_GetState :: "string \<Rightarrow> state_manager \<Rightarrow> service_state" where
  "Seq_GetState = get_state"

lemmas manager_defs = Node_SetState_def Validator_SetState_def Runtime_SetState_def Seq_SetState_def
  Node_GetState_def Validator_GetState_def Runtime_GetState_def Seq_GetState_def

section \<open>Waiting\<close>

text \<open>
  A waiter blocks on the channel made because the service was unknown (\<open>WaitAdded\<close>), has read a state and released
  the mutex (\<open>Check\<close>), blocks on the second channel (\<open>WaitChange\<close>), or has returned.
\<close>

datatype waiter = WaitAdded nat | Check service_state | WaitChange nat | Returned "go_error option"

datatype wakeup = ChannelClosed | TimedOut

definition WaitForState_enter :: "string \<Rightarrow> state_manager \<Rightarrow> waiter \<times> state_manager" where
  "WaitForState_enter stateType sm =
     (case fmlookup (sm_serviceStates sm) stateType of
        None \<Rightarrow> (let (ch, sm) = make_chan stateType sm in (WaitAdded ch, sm))
      | Some state \<Rightarrow> (Check state, sm))"

definition WaitForState_check :: "string \<Rightarrow> service_state \<Rightarrow> service_state \<Rightarrow> state_manager \<Rightarrow> waiter \<times> state_manager" where
  "WaitForState_check stateType desiredState state sm =
     (if state = desiredState then (Returned None, sm)
      else
        (case fmlookup (sm_waitChans sm) stateType of
           Some ch \<Rightarrow> (WaitChange ch, sm)
         | None \<Rightarrow> (let (ch, sm) = make_chan stateType sm in (WaitChange ch, sm))))"

fun WaitForState_wake :: "wakeup \<Rightarrow> string \<Rightarrow> waiter \<Rightarrow> state_manager \<Rightarrow> waiter" where
  "WaitForState_wake ChannelClosed stateType (WaitAdded ch) sm = Check (get_state stateType sm)"
| "WaitForState_wake TimedOut stateType (WaitAdded ch) sm = Returned (Some (ErrorS ''%s did not appear within %v''))"
| "WaitForState_wake ChannelClosed stateType (WaitChange ch) sm = Returned None"
| "WaitForState_wake TimedOut stateType (WaitChange ch) sm =
     Returned (Some (ErrorS ''service %s did not reach state %s within %v''))"
| "WaitForState_wake ev stateType w sm = w"

text \<open>
  One waiter and the goroutines that set states.  A blocked waiter goes on when its channel is closed or when the
  timer fires.
\<close>

inductive wait_step ::
  "service_state list \<Rightarrow> string \<Rightarrow> service_state \<Rightarrow> waiter \<times> state_manager \<Rightarrow> waiter \<times> state_manager \<Rightarrow> bool"
  for notify st desired where
  check: "WaitForState_check st desired s sm = r \<Longrightarrow> wait_step notify st desired (Check s, sm) r"
| set: "wait_step notify st desired (w, sm) (w, set_state notify k s sm)"
| other: "WaitForState_enter k sm = (w', sm') \<Longrightarrow> k \<noteq> st \<Longrightarrow> wait_step notify st desired (w, sm) (w, sm')"
| closed_added: "ch \<in> set (sm_closed sm) \<Longrightarrow>
    wait_step notify st desired (WaitAdded ch, sm) (WaitForState_wake ChannelClosed st (WaitAdded ch) sm, sm)"
| closed_change: "ch \<in> set (sm_closed sm) \<Longrightarrow>
    wait_step notify st desired (WaitChange ch, sm) (WaitForState_wake ChannelClosed st (WaitChange ch) sm, sm)"
| timeout: "w = WaitAdded ch \<or> w = WaitChange ch \<Longrightarrow>
    wait_step notify st desired (w, sm) (WaitForState_wake TimedOut st w sm, sm)"

text \<open>The validator and the runtime package repeat the text of the node package.\<close>

definition Validator_WaitForState_enter :: "string \<Rightarrow> state_manager \<Rightarrow> waiter \<times> state_manager" where
  "Validator_WaitForState_enter = WaitForState_enter"

definition Validator_WaitForState_check :: "string \<Rightarrow> service_state \<Rightarrow> service_state \<Rightarrow> state_manager \<Rightarrow> waiter \<times> state_manager" where
  "Validator_WaitForState_check = WaitForState_check"

definition Validator_WaitForState_wake :: "wakeup \<Rightarrow> string \<Rightarrow> waiter \<Rightarrow> state_manager \<Rightarrow> waiter" where
  "Validator_WaitForState_wake = WaitForState_wake"

definition Runtime_WaitForState_enter :: "string \<Rightarrow> state_manager \<Rightarrow> waiter \<times> state_manager" where
  "Runtime_WaitForState_enter = WaitForState_enter"

definition Runtime_WaitForState_check :: "string \<Rightarrow> service_state \<Rightarrow> service_state \<Rightarrow> state_manager \<Rightarrow> waiter \<times> state_manager" where
  "Runtime_WaitForState_check = WaitForState_check"

definition Runtime_WaitForState_wake :: "wakeup \<Rightarrow> string \<Rightarrow> waiter \<Rightarrow> state_manager \<Rightarrow> waiter" where
  "Runtime_WaitForState_wake = WaitForState_wake"

text \<open>The sequencer's version: one stretch before the wait, and the state is read again after it.\<close>

definition Seq_WaitForState_enter :: "string \<Rightarrow> service_state \<Rightarrow> state_manager \<Rightarrow> waiter \<times> state_manager" where
  "Seq_WaitForState_enter st desiredState sm =
     (if fmlookup (sm_serviceStates sm) st = Some desiredState then (Returned None, sm)
      else
        (case fmlookup (sm_waitChans sm) st of
           Some ch \<Rightarrow> (WaitChange ch, sm)
         | None \<Rightarrow> (let (ch, sm) = make_chan st sm in (WaitChange ch, sm))))"

definition Seq_WaitForState_wake :: "wakeup \<Rightarrow> string \<Rightarrow> service_state \<Rightarrow> state_manager \<Rightarrow> go_error option" where
  "Seq_WaitForState_wake ev st desiredState sm =
     (case ev of
        ChannelClosed \<Rightarrow>
          if get_state st sm = desiredState then None
          else Some (ErrorS ''sequencer did not reach desired state: %s'')
      | TimedOut \<Rightarrow> Some (ErrorS ''timeout waiting for sequencer to reach state: %s''))"

section \<open>Reading back what was set\<close>

locale state_registry =
  fixes put :: "'k \<Rightarrow> 's \<Rightarrow> 'm \<Rightarrow> 'm" and get :: "'k \<Rightarrow> 'm \<Rightarrow> 's"
  assumes get_put: "get k (put k s m) = s"
    and get_put_other: "k' \<noteq> k \<Longrightarrow> get k' (put k s m) = get k' m"
begin

definition put_all :: "('k \<times> 's) list \<Rightarrow> 'm \<Rightarrow> 'm" where
  "put_all ops = fold (\<lambda>(k, s). put k s) ops"

lemma put_all_append: "put_all (xs @ ys) m = put_all ys (put_all xs m)"
  by (simp add: put_all_def)

lemma get_put_all_other: "k \<notin> fst ` set ops \<Longrightarrow> get k (put_all ops m) = get k m"
proof (induction ops arbitrary: m)
  case (Cons op ops)
  obtain k' s where op: "op = (k', s)" by (cases op)
  with Cons.prems have "k \<noteq> k'" "k \<notin> fst ` set ops" by auto
  with Cons.IH [of "put k' s m"] show ?case by (simp add: put_all_def op get_put_other)
qed (simp add: put_all_def)

lemma get_last_put: "k \<notin> fst ` set ys \<Longrightarrow> get k (put_all (xs @ (k, s) # ys) m) = s"
  using get_put_all_other [of k ys] by (simp add: put_all_append) (simp add: put_all_def get_put)

end

lemma get_set_state: "get_state k (set_state notify k' s sm) = (if k = k' then s else get_state k sm)"
  by (simp add: get_state_def set_state_def Let_def split: option.splits)

interpretation node_states: state_registry Node_SetState Node_GetState
  by unfold_locales (simp_all add: manager_defs get_set_state)

interpretation validator_states: state_registry Validator_SetState Validator_GetState
  by unfold_locales (simp_all add: manager_defs get_set_state)

interpretation runtime_states: state_registry Runtime_SetState Runtime_GetState
  by unfold_locales (simp_all add: manager_defs get_set_state)

interpretation sequencer_states: state_registry Seq_SetState Seq_GetState
  by unfold_locales (simp_all add: manager_defs get_set_state)

section \<open>Waking the waiters\<close>

text \<open>A channel registered for a service stays registered until a notifying state closes it.\<close>

lemma set_state_chan:
  "fmlookup (sm_waitChans sm) st = Some ch \<Longrightarrow>
     (if k = st \<and> s \<in> set notify then ch \<in> set (sm_closed (set_state notify k s sm))
      else fmlookup (sm_waitChans (set_state notify k s sm)) st = Some ch)"
  by (auto simp: set_state_def Let_def split: option.splits)

lemma set_state_closed_mono: "set (sm_closed sm) \<subseteq> set (sm_closed (set_state notify k s sm))"
  by (auto simp: set_state_def Let_def split: option.splits)

lemma set_states_closed_mono: "set (sm_closed sm) \<subseteq> set (sm_closed (fold (\<lambda>(k, s). set_state notify k s) ops sm))"
proof (induction ops arbitrary: sm)
  case (Cons op ops)
  obtain k s where "op = (k, s)" by (cases op)
  with Cons.IH [of "set_state notify k s sm"] set_state_closed_mono [of sm notify k s] show ?case by auto
qed simp



text \<open>
  C0: The wake-up can be missed.  \<open>WaitForState\<close> reads the state, releases the mutex and registers its channel
  later: if the service becomes \<open>Started\<close> in between, the waiter for \<open>Started\<close> blocks on a channel that nobody
  closes, although the service is in the desired state, and only the timeout ends the wait.
\<close>

definition starting_node :: state_manager where
  "starting_node = Node_SetState ''node'' Starting NewStateManager"

theorem wakeup_missed:
  "\<exists>sm. (wait_step [Started] ''node'' Started)\<^sup>*\<^sup>* (WaitForState_enter ''node'' starting_node) (WaitChange 0, sm) \<and>
     Node_GetState ''node'' sm = Started \<and> 0 \<notin> set (sm_closed sm)"
proof -
  let ?sm1 = "set_state [Started] ''node'' Started starting_node"
  have enter: "WaitForState_enter ''node'' starting_node = (Check Starting, starting_node)"
    by (simp add: WaitForState_enter_def starting_node_def manager_defs set_state_def NewStateManager_def state_defs)
  let ?r = "WaitForState_check ''node'' Started Starting ?sm1"
  have r: "fst ?r = WaitChange 0" "Node_GetState ''node'' (snd ?r) = Started" "0 \<notin> set (sm_closed (snd ?r))"
    by (simp_all add: WaitForState_check_def starting_node_def manager_defs set_state_def NewStateManager_def make_chan_def
        get_state_def Let_def state_defs)
  have "(wait_step [Started] ''node'' Started)\<^sup>*\<^sup>* (Check Starting, starting_node) ?r"
    by (rule rtranclp_trans [OF r_into_rtranclp r_into_rtranclp])
      (rule wait_step.set, rule wait_step.check, rule refl)
  moreover have "?r = (WaitChange 0, snd ?r)" using r(1) by (metis prod.collapse)
  ultimately show ?thesis using enter r(2,3) by metis
qed

text \<open>
  A return without error does not say that the desired state was reached.  A waiter for \<open>Stopped\<close> that shares
  the channel of the service is woken by \<open>Started\<close> and returns \<open>nil\<close> while the service is running; \<open>Stopped\<close> itself
  wakes nobody.
\<close>

theorem wait_for_stopped_returns_when_started:
  "\<exists>sm. (wait_step [Started] ''node'' Stopped)\<^sup>*\<^sup>* (WaitForState_enter ''node'' starting_node) (Returned None, sm) \<and>
     Node_GetState ''node'' sm = Started"
proof -
  have enter: "WaitForState_enter ''node'' starting_node = (Check Starting, starting_node)"
    by (simp add: WaitForState_enter_def starting_node_def manager_defs set_state_def NewStateManager_def state_defs)
  let ?r = "WaitForState_check ''node'' Stopped Starting starting_node"
  let ?sm2 = "set_state [Started] ''node'' Started (snd ?r)"
  have r: "?r = (WaitChange 0, snd ?r)" "0 \<in> set (sm_closed ?sm2)" "Node_GetState ''node'' ?sm2 = Started"
    by (simp_all add: WaitForState_check_def starting_node_def manager_defs set_state_def NewStateManager_def make_chan_def
        get_state_def Let_def state_defs)
  have "wait_step [Started] ''node'' Stopped (Check Starting, starting_node) (WaitChange 0, snd ?r)"
    by (rule wait_step.check) (rule r(1))
  moreover have "wait_step [Started] ''node'' Stopped (WaitChange 0, snd ?r) (WaitChange 0, ?sm2)"
    by (rule wait_step.set)
  moreover have "wait_step [Started] ''node'' Stopped (WaitChange 0, ?sm2) (Returned None, ?sm2)"
    using wait_step.closed_change [OF r(2)] by simp
  ultimately have "(wait_step [Started] ''node'' Stopped)\<^sup>*\<^sup>* (Check Starting, starting_node) (Returned None, ?sm2)"
    by (meson converse_rtranclp_into_rtranclp rtranclp.rtrancl_refl)
  with enter r(3) show ?thesis by metis
qed

text \<open>The sequencer reads the state again, so its answer is the truth at that moment.\<close>

lemma sequencer_wait_correct:
  "Seq_WaitForState_wake ev st desired sm = None \<Longrightarrow> Seq_GetState st sm = desired"
  "Seq_WaitForState_enter st desired sm = (Returned None, sm') \<Longrightarrow> Seq_GetState st sm' = desired"
  by (auto simp: Seq_WaitForState_wake_def Seq_WaitForState_enter_def manager_defs get_state_def make_chan_def
      split: wakeup.splits if_splits option.splits)

end
