(* ===== verification/Sequencer.thy ===== *)
theory Sequencer
  imports Chain Tx_Pool Service_State
begin

text \<open>
  \<open>pkg/sequencer\<close>: the block producer (\<open>producer.go\<close>), which takes transactions from the pool, makes a block of them
  and adds it to the chain, and the sequencer that calls it on a timer (\<open>sequencer.go\<close>).  Pool, chain and state
  manager are those of their own theories.  Shown here: what a successful forge does to pool and chain together,
  that a failed one keeps the pool, and that two transactions of one sender stop block production.
\<close>

section \<open>Block producer\<close>

definition SequencerStateType :: string where "SequencerStateType = ''sequencer''"
definition ProducerStateType :: string where "ProducerStateType = ''producer''"

record 'e producer =
  bp_txPool :: tx_pool
  bp_blockchain :: "'e blockchain"
  bp_stateMgr :: state_manager

definition NewBlockProducer :: "tx_pool \<Rightarrow> 'e blockchain \<Rightarrow> state_manager \<Rightarrow> 'e producer" where
  "NewBlockProducer txPool blockchain stateMgr =
     \<lparr>bp_txPool = txPool, bp_blockchain = blockchain, bp_stateMgr = stateMgr\<rparr>"

definition producer_state :: "service_state \<Rightarrow> 'e producer \<Rightarrow> 'e producer" where
  "producer_state s bp = bp\<lparr>bp_stateMgr := Seq_SetState ProducerStateType s (bp_stateMgr bp)\<rparr>"

text \<open>
  \<open>torder\<close> and \<open>vorder\<close> are the orders in which the pool and the adjacency map are ranged over, \<open>now\<close> the clock when
  the block is made and \<open>now'\<close> when it is validated.
\<close>

definition ForgeBlock ::
  "'e graph_lib \<Rightarrow> 'e setter \<Rightarrow> int64 \<Rightarrow> int64 \<Rightarrow> hash list \<Rightarrow> hash list \<Rightarrow> 'e producer \<Rightarrow> go_error option \<times> 'e producer" where
  "ForgeBlock G pset now now' torder vorder bp =
     (let bp = producer_state Started bp in
      case GetTransactions torder 100 (bp_txPool bp) of
        Inl err \<Rightarrow> (Some err, bp)
      | Inr txs \<Rightarrow>
          if length txs = 0 then (None, producer_state Seq_Failed bp)
          else
            (case Blockchain_GetLatestBlock G vorder (bp_blockchain bp) of
               Inl err \<Rightarrow> (Some err, producer_state Seq_Failed bp)
             | Inr latestBlock \<Rightarrow>
            (case NewBlock now (bl_Index latestBlock + 1) (bl_Hash latestBlock) txs
                    (bl_ValidatorID latestBlock) (bl_Difficulty latestBlock) of
               Inl err \<Rightarrow> (Some err, producer_state Seq_Failed bp)
             | Inr newBlock \<Rightarrow>
            (case Blockchain_AddBlock G pset now' newBlock (bp_blockchain bp) of
               (Some err, bc) \<Rightarrow> (Some err, producer_state Seq_Failed (bp\<lparr>bp_blockchain := bc\<rparr>))
             | (None, bc) \<Rightarrow>
                 (None, producer_state Seq_Produced
                    (bp\<lparr>bp_blockchain := bc,
                        bp_txPool := fold (\<lambda>tx. RemoveTransaction (tx_ID tx)) txs (bp_txPool bp)\<rparr>))))))"

section \<open>Sequencer\<close>

record 'e sequencer =
  sq_stateMgr :: "state_manager option"
  sq_producer :: "'e producer"
  sq_ticking :: bool
  sq_cancelled :: bool

definition NewSequencer :: "'e producer \<Rightarrow> 'e sequencer" where
  "NewSequencer producer =
     \<lparr>sq_stateMgr = Some NewStateManager, sq_producer = producer, sq_ticking = False, sq_cancelled = False\<rparr>"

definition Sequencer_Start :: "'e sequencer \<Rightarrow> go_error option \<times> 'e sequencer" where
  "Sequencer_Start s =
     (case sq_stateMgr s of
        None \<Rightarrow> (Some (ErrorS ''state manager not initialized''), s)
      | Some sm \<Rightarrow>
          let sm = Seq_SetState SequencerStateType Initializing sm;
              sm = Seq_SetState ProducerStateType Initializing sm;
              sm = Seq_SetState SequencerStateType Started sm
          in (None, s\<lparr>sq_stateMgr := Some sm, sq_ticking := True\<rparr>))"

text \<open>The two branches of the loop of \<open>produce\<close>: the timer, whose forging error is only logged, and the end.\<close>

definition produce_tick ::
  "'e graph_lib \<Rightarrow> 'e setter \<Rightarrow> int64 \<Rightarrow> int64 \<Rightarrow> hash list \<Rightarrow> hash list \<Rightarrow> 'e sequencer \<Rightarrow> 'e sequencer" where
  "produce_tick G pset now now' torder vorder s =
     s\<lparr>sq_stateMgr := map_option (Seq_SetState ProducerStateType Starting) (sq_stateMgr s),
       sq_producer := snd (ForgeBlock G pset now now' torder vorder (sq_producer s))\<rparr>"

definition produce_done :: "'e sequencer \<Rightarrow> 'e sequencer" where
  "produce_done s =
     s\<lparr>sq_stateMgr := map_option (\<lambda>sm. Seq_SetState SequencerStateType Seq_Stopped
           (Seq_SetState SequencerStateType Seq_Stopping sm)) (sq_stateMgr s),
       sq_ticking := False\<rparr>"

definition Sequencer_Stop :: "'e sequencer \<Rightarrow> go_error option \<times> 'e sequencer" where
  "Sequencer_Stop s = (None, s\<lparr>sq_cancelled := True\<rparr>)"

inductive sequencer_step :: "'e graph_lib \<Rightarrow> 'e setter \<Rightarrow> 'e sequencer \<Rightarrow> 'e sequencer \<Rightarrow> bool" for G pset where
  tick: "sq_ticking s \<Longrightarrow> sequencer_step G pset s (produce_tick G pset now now' torder vorder s)"
| quit: "sq_ticking s \<Longrightarrow> sq_cancelled s \<Longrightarrow> sequencer_step G pset s (produce_done s)"
| stop: "sequencer_step G pset s (snd (Sequencer_Stop s))"
| submit: "AddTransaction order now tx (bp_txPool (sq_producer s)) = (r, tx', tp) \<Longrightarrow>
    sequencer_step G pset s (s\<lparr>sq_producer := (sq_producer s)\<lparr>bp_txPool := tp\<rparr>\<rparr>)"

section \<open>Lemmas\<close>

lemma producer_state_simps [simp]:
  "bp_txPool (producer_state s bp) = bp_txPool bp" "bp_blockchain (producer_state s bp) = bp_blockchain bp"
  by (simp_all add: producer_state_def)

lemma producer_state_get [simp]:
  "Seq_GetState ProducerStateType (bp_stateMgr (producer_state s bp)) = s"
  by (simp add: producer_state_def sequencer_states.get_put)

lemma remove_all_lookup:
  "fmlookup (tp_transactions (fold (\<lambda>tx. RemoveTransaction (tx_ID tx)) txs tp)) i =
     (if i \<in> tx_ID ` set txs then None else fmlookup (tp_transactions tp) i)"
  by (induction txs arbitrary: tp) (auto simp: RemoveTransaction_def)

text \<open>What is forged: the first transactions of the pool, and nothing when the pool is empty.\<close>

lemma GetTransactions_100: "\<exists>txs. GetTransactions order 100 tp = Inr txs \<and> length txs \<le> 100 \<and>
    set txs \<subseteq> set (range_values order (tp_transactions tp)) \<and>
    (length (range_values order (tp_transactions tp)) \<le> 100 \<longrightarrow> set txs = set (range_values order (tp_transactions tp)))"
proof -
  let ?ts = "sortTransactionsByNonceAsc (range_values order (tp_transactions tp))"
  have "set ?ts = set (range_values order (tp_transactions tp))" "length ?ts = length (range_values order (tp_transactions tp))"
    by (simp_all add: sortTransactionsByNonceAsc_def)
  then show ?thesis
    by (auto simp: GetTransactions_def Let_def dest: in_set_takeD)
qed

text \<open>The outcomes of \<open>ForgeBlock\<close>: nothing to do, an error that keeps the pool, or a block added.\<close>

lemma ForgeBlock_cases:
  assumes "ForgeBlock G pset now now' torder vorder bp = (r, bp')"
  obtains (idle) "r = None" "bp_txPool bp' = bp_txPool bp" "bp_blockchain bp' = bp_blockchain bp"
      "Seq_GetState ProducerStateType (bp_stateMgr bp') = Seq_Failed" "GetTransactions torder 100 (bp_txPool bp) = Inr []"
  | (no_block) e where "r = Some e" "bp_txPool bp' = bp_txPool bp" "bp_blockchain bp' = bp_blockchain bp"
  | (forged) txs latest b where "GetTransactions torder 100 (bp_txPool bp) = Inr txs" "txs \<noteq> []"
      "Blockchain_GetLatestBlock G vorder (bp_blockchain bp) = Inr latest"
      "NewBlock now (bl_Index latest + 1) (bl_Hash latest) txs (bl_ValidatorID latest) (bl_Difficulty latest) = Inr b"
      "Blockchain_AddBlock G pset now' b (bp_blockchain bp) = (r, bp_blockchain bp')"
      "bp_txPool bp' = (if r = None then fold (\<lambda>tx. RemoveTransaction (tx_ID tx)) txs (bp_txPool bp) else bp_txPool bp)"
      "Seq_GetState ProducerStateType (bp_stateMgr bp') = (if r = None then Seq_Produced else Seq_Failed)"
proof -
  obtain txs where txs: "GetTransactions torder 100 (bp_txPool bp) = Inr txs" using GetTransactions_100 by blast
  show thesis
  proof (cases "txs = []")
    case True
    with assms txs have "(r, bp') = (None, producer_state Seq_Failed (producer_state Started bp))"
      by (simp add: ForgeBlock_def Let_def)
    then have "r = None" "bp' = producer_state Seq_Failed (producer_state Started bp)" by simp_all
    with txs True show thesis by (auto intro: idle)
  next
    case ne: False
    show thesis
    proof (cases "Blockchain_GetLatestBlock G vorder (bp_blockchain bp)")
      case (Inl e)
      with assms txs ne have "(r, bp') = (Some e, producer_state Seq_Failed (producer_state Started bp))"
        by (simp add: ForgeBlock_def Let_def)
      then show thesis by (intro no_block) auto
    next
      case latest: (Inr latest)
      obtain b where b: "NewBlock now (bl_Index latest + 1) (bl_Hash latest) txs (bl_ValidatorID latest)
          (bl_Difficulty latest) = Inr b"
        using ne by (auto simp: NewBlock_def Let_def)
      obtain r1 bc where a: "Blockchain_AddBlock G pset now' b (bp_blockchain bp) = (r1, bc)"
        by (cases "Blockchain_AddBlock G pset now' b (bp_blockchain bp)")
      from assms txs ne latest b a show thesis
        by (intro forged [OF txs ne latest b]) (auto simp: ForgeBlock_def Let_def split: option.splits)
    qed
  qed
qed

lemma Blockchain_AddBlock_result:
  assumes "Blockchain_AddBlock G pset now b bc = (r, bc')"
  shows "(r = None \<longrightarrow> bc_head bc' = Some b \<and> AddBlock G pset b (bc_ledger bc) = (None, bc_ledger bc')) \<and>
    (r \<noteq> None \<longrightarrow> bc_head bc' = bc_head bc)"
  using assms by (auto simp: Blockchain_AddBlock_def split: option.splits prod.splits)

lemma NewBlock_Inr:
  assumes "NewBlock now i h txs v d = Inr b"
  shows "bl_Index b = i" "bl_PreviousHash b = h" "bl_Transactions b = txs"
  using assms by (auto simp: NewBlock_def Let_def split: if_splits)

text \<open>A chain with its genesis block, and pools with one and with two transactions of one sender.\<close>

definition sample_chain :: "mem_env blockchain" where
  "sample_chain = \<lparr>bc_ledger = one_block_ledger, bc_head = Some genesis_sample, bc_genesisBlock = Some genesis_sample\<rparr>"

definition acyclic_graph :: "mem_env graph_lib" where
  "acyclic_graph = mem_graph\<lparr>g_CreatesCycle := \<lambda>_ _ _. Inr False\<rparr>"

definition one_tx_pool :: tx_pool where
  "one_tx_pool = NewTxPool\<lparr>tp_transactions := fmupd ZeroHash spend_tx fmempty\<rparr>"

definition two_tx_pool :: tx_pool where
  "two_tx_pool = NewTxPool\<lparr>tp_transactions :=
     fmupd (copy_hash [1]) (spend_tx\<lparr>tx_ID := copy_hash [1], tx_Nonce := 2\<rparr>) (fmupd ZeroHash spend_tx fmempty)\<rparr>"

lemma sample_latest:
  "G = mem_graph \<or> G = acyclic_graph \<Longrightarrow> Blockchain_GetLatestBlock G [copy_hash [1]] sample_chain = Inr genesis_sample"
  by (auto simp: Blockchain_GetLatestBlock_def GetLatestBlock_def sample_chain_def one_block_ledger_def mem_graph_def
      acyclic_graph_def)

lemma one_tx_pool_txs: "GetTransactions [ZeroHash] 100 one_tx_pool = Inr [spend_tx]"
  by (simp add: one_tx_pool_def GetTransactions_def range_values_def sortTransactionsByNonceAsc_def List.map_filter_def)

section \<open>Properties\<close>

text \<open>
  C22: Forging moves transactions from the pool to the chain.  When \<open>ForgeBlock\<close> reports a produced block, the new
  head is a block on top of the latest one with the next index, it holds between one and a hundred transactions, all
  of them from the pool and in the order of their nonces, exactly these leave the pool, and the balances are those of
  applying the block.
\<close>

theorem forged_block_leaves_pool:
  assumes "ForgeBlock G pset now now' torder vorder bp = (None, bp')"
    "Seq_GetState ProducerStateType (bp_stateMgr bp') = Seq_Produced"
  shows "\<exists>b latest. bc_head (bp_blockchain bp') = Some b \<and>
    Blockchain_GetLatestBlock G vorder (bp_blockchain bp) = Inr latest \<and>
    bl_Index b = bl_Index latest + 1 \<and> bl_PreviousHash b = bl_Hash latest \<and>
    bl_Transactions b \<noteq> [] \<and> length (bl_Transactions b) \<le> 100 \<and>
    set (bl_Transactions b) \<subseteq> set (range_values torder (tp_transactions (bp_txPool bp))) \<and>
    sorted (map tx_Nonce (bl_Transactions b)) \<and>
    (\<forall>i. GetTransaction i (bp_txPool bp') =
       (if i \<in> tx_ID ` set (bl_Transactions b) then None else GetTransaction i (bp_txPool bp))) \<and>
    (\<not> IsZeroHash (bl_Hash latest) \<longrightarrow>
       lg_state (bc_ledger (bp_blockchain bp')) = applyBlock b (lg_state (bc_ledger (bp_blockchain bp))))"
  using assms(1)
proof (cases rule: ForgeBlock_cases)
  case idle
  with assms(2) show ?thesis by (simp add: seq_state_defs)
next
  case (forged txs latest b)
  note nb = NewBlock_Inr [OF forged(4)]
  obtain ts where ts: "GetTransactions torder 100 (bp_txPool bp) = Inr ts" "length ts \<le> 100"
    "set ts \<subseteq> set (range_values torder (tp_transactions (bp_txPool bp)))" using GetTransactions_100 by blast
  have "sorted (map tx_Nonce txs)"
    using forged(1) by (auto simp: GetTransactions_def Let_def sortTransactionsByNonceAsc_def take_map [symmetric]
        intro!: sorted_wrt_take split: if_splits)
  moreover from forged(5) have "bc_head (bp_blockchain bp') = Some b"
    and added: "AddBlock G pset b (bc_ledger (bp_blockchain bp)) = (None, bc_ledger (bp_blockchain bp'))"
    by (simp_all add: Blockchain_AddBlock_result)
  moreover from AddBlock_state [OF added] nb(2) have "\<not> IsZeroHash (bl_Hash latest) \<longrightarrow>
       lg_state (bc_ledger (bp_blockchain bp')) = applyBlock b (lg_state (bc_ledger (bp_blockchain bp)))"
    by simp
  ultimately show ?thesis
    using nb forged(1-3,6) ts by (intro exI [of _ b] exI [of _ latest]) (simp add: GetTransaction_def remove_all_lookup)
qed simp

theorem forged_block_leaves_pool_witness:
  "\<exists>bp' b. ForgeBlock acyclic_graph mem_set 100 100 [ZeroHash] [copy_hash [1]]
       (NewBlockProducer one_tx_pool sample_chain NewStateManager) = (None, bp') \<and>
     bc_head (bp_blockchain bp') = Some b \<and> bl_Index b = 1 \<and> GetTransaction ZeroHash (bp_txPool bp') = None"
proof -
  let ?bp = "NewBlockProducer one_tx_pool sample_chain NewStateManager"
  obtain b where b: "NewBlock 100 (bl_Index genesis_sample + 1) (bl_Hash genesis_sample) [spend_tx]
      (bl_ValidatorID genesis_sample) (bl_Difficulty genesis_sample) = Inr b" by (simp add: NewBlock_def Let_def)
  then have fields: "bl_Index b = 1" "bl_PreviousHash b = copy_hash [1]" "bl_Transactions b = [spend_tx]"
    "bl_Timestamp b = 100" "bl_Hash b = Block_ComputeHash b" "bl_MerkleRoot b = Block_ComputeMerkleRoot b"
    by (auto simp: NewBlock_def Let_def genesis_sample_def Block_ComputeHash_def Block_ComputeMerkleRoot_def)
  have "Chain_validateTransaction sample_chain spend_tx False = None"
    by (simp add: Chain_validateTransaction_def sample_chain_def one_block_ledger_def sample_state_facts Address_IsZero_iff
        address_neq)
  moreover have "GetBlock acyclic_graph (copy_hash [1]) (bc_ledger sample_chain) = Inr genesis_sample"
    by (simp add: GetBlock_def acyclic_graph_def mem_graph_def sample_chain_def one_block_ledger_def)
  moreover have "bl_Index genesis_sample = 0" "bl_Timestamp genesis_sample = 20"
    by (simp_all add: genesis_sample_def sample_block_def)
  ultimately have valid: "Blockchain_ValidateBlock acyclic_graph 100 b sample_chain = None"
    using fields by (simp add: Blockchain_ValidateBlock_def validate_block_with_def Chain_validateConsensusRules_def
        Chain_MaxTimeDrift_def)
  have "fst (AddBlock acyclic_graph mem_set b (bc_ledger sample_chain)) = None"
    using fields(2) by (simp add: AddBlock_def acyclic_graph_def mem_graph_def sample_chain_def one_block_ledger_def is_err_def
        graph_errors split: option.splits)
  with valid have add: "fst (Blockchain_AddBlock acyclic_graph mem_set 100 b sample_chain) = None"
    by (auto simp: Blockchain_AddBlock_def split: option.splits prod.splits)
  obtain r bp' where run: "ForgeBlock acyclic_graph mem_set 100 100 [ZeroHash] [copy_hash [1]] ?bp = (r, bp')"
    by (cases "ForgeBlock acyclic_graph mem_set 100 100 [ZeroHash] [copy_hash [1]] ?bp")
  with add b sample_latest [of acyclic_graph] one_tx_pool_txs
  have r: "r = None" "Seq_GetState ProducerStateType (bp_stateMgr bp') = Seq_Produced"
    by (auto simp: ForgeBlock_def NewBlockProducer_def Let_def split: option.splits prod.splits)
  from forged_block_leaves_pool [OF run [unfolded r(1)] r(2)] sample_latest [of acyclic_graph]
  obtain b' where "bc_head (bp_blockchain bp') = Some b'" "bl_Index b' = bl_Index genesis_sample + 1"
    and left: "bl_Transactions b' \<noteq> []" "set (bl_Transactions b') \<subseteq> set (range_values [ZeroHash] (tp_transactions one_tx_pool))"
    "\<And>i. GetTransaction i (bp_txPool bp') = (if i \<in> tx_ID ` set (bl_Transactions b') then None else GetTransaction i one_tx_pool)"
    by (auto simp: NewBlockProducer_def)
  moreover from left(1,2) have "set (bl_Transactions b') = {spend_tx}"
    by (cases "bl_Transactions b'") (auto simp: one_tx_pool_def range_values_def List.map_filter_def)
  then have "GetTransaction ZeroHash (bp_txPool bp') = None"
    by (simp add: left(3) spend_tx_def sample_tx_def)
  ultimately show ?thesis using run r(1) by (auto simp: genesis_sample_def)
qed

text \<open>
  A failed forge loses nothing: whenever \<open>ForgeBlock\<close> returns an error, the pool is what it was and the head of
  the chain has not moved.
\<close>

theorem failed_forge_keeps_pool:
  assumes "ForgeBlock G pset now now' torder vorder bp = (Some e, bp')"
  shows "bp_txPool bp' = bp_txPool bp \<and> bc_head (bp_blockchain bp') = bc_head (bp_blockchain bp)"
  using assms
  by (cases rule: ForgeBlock_cases) (auto dest: Blockchain_AddBlock_result)

theorem failed_forge_keeps_pool_witness:
  "\<exists>e bp'. ForgeBlock mem_graph mem_set 100 100 [ZeroHash] []
       (NewBlockProducer one_tx_pool start_chain NewStateManager) = (Some e, bp') \<and> bp_txPool bp' = one_tx_pool"
proof -
  let ?bp = "NewBlockProducer one_tx_pool start_chain NewStateManager"
  obtain r bp' where run: "ForgeBlock mem_graph mem_set 100 100 [ZeroHash] [] ?bp = (r, bp')"
    by (cases "ForgeBlock mem_graph mem_set 100 100 [ZeroHash] [] ?bp")
  then have "r \<noteq> None"
    by (auto simp: ForgeBlock_def NewBlockProducer_def one_tx_pool_txs Blockchain_GetLatestBlock_def GetLatestBlock_def
        mem_graph_def start_chain_def NewLedger_def Let_def)
  then obtain e where "r = Some e" by blast
  with run failed_forge_keeps_pool [of mem_graph mem_set 100 100 "[ZeroHash]" "[]" ?bp e bp'] show ?thesis
    by (simp add: NewBlockProducer_def)
qed

text \<open>
  Two transactions of one sender stop block production.  If the pool (of at most a hundred transactions) holds two
  transactions of the same sender with different nonces, every call of \<open>ForgeBlock\<close> fails and leaves pool and chain as
  they are, since each transaction of a block is checked against the nonce before the block: no block is forged until
  one of the two expires.
\<close>

theorem same_sender_blocks_forging:
  assumes "ranges torder (tp_transactions (bp_txPool bp))" "TxPool_Size (bp_txPool bp) \<le> 100"
    "GetTransaction i (bp_txPool bp) = Some t" "GetTransaction j (bp_txPool bp) = Some u"
    "tx_Sender t = tx_Sender u" "tx_Nonce t \<noteq> tx_Nonce u"
    "\<And>b. Blockchain_GetLatestBlock G vorder (bp_blockchain bp) = Inr b \<Longrightarrow> bl_Index b \<noteq> - 1"
    "ForgeBlock G pset now now' torder vorder bp = (r, bp')"
  shows "r \<noteq> None \<and> bp_txPool bp' = bp_txPool bp \<and> bp_blockchain bp' = bp_blockchain bp"
proof -
  let ?rv = "range_values torder (tp_transactions (bp_txPool bp))"
  have small: "length ?rv \<le> 100"
    using assms(1,2) by (simp add: range_values_length TxPool_Size_def)
  have mem: "t \<in> set ?rv" "u \<in> set ?rv"
    using assms(3,4) by (auto simp: set_range_values [OF assms(1)] GetTransaction_def)
  obtain ts where ts: "GetTransactions torder 100 (bp_txPool bp) = Inr ts" "set ts = set ?rv"
    using GetTransactions_100 [of torder "bp_txPool bp"] small by auto
  from assms(8) show ?thesis
  proof (cases rule: ForgeBlock_cases)
    case idle
    with ts mem show ?thesis by simp
  next
    case (forged txs latest b)
    note nb = NewBlock_Inr [OF forged(4)]
    have "bl_Index b \<noteq> 0" using assms(7) [OF forged(3)] nb(1) by (metis add.commute add_eq_0_iff)
    have "Blockchain_ValidateBlock G now' b (bp_blockchain bp) \<noteq> None"
    proof
      assume "Blockchain_ValidateBlock G now' b (bp_blockchain bp) = None"
      then have "\<forall>tx \<in> set (bl_Transactions b). Chain_validateTransaction (bp_blockchain bp) tx (bl_Index b = 0) = None"
        unfolding Blockchain_ValidateBlock_def
        by (rule validated_linked [where get = "\<lambda>h. case GetBlock G h (bc_ledger (bp_blockchain bp)) of Inl _ \<Rightarrow> None | Inr p \<Rightarrow> Some p",
              THEN conjunct2, THEN conjunct2]) (auto split: sum.splits)
      moreover have "t \<in> set (bl_Transactions b)" "u \<in> set (bl_Transactions b)"
        using mem ts forged(1) nb(3) by auto
      ultimately have "tx_Nonce t = tx_Nonce u"
        using \<open>bl_Index b \<noteq> 0\<close> assms(5) by (auto simp: Chain_validateTransaction_def split: if_splits)
      with assms(6) show False ..
    qed
    then obtain e where "Blockchain_AddBlock G pset now' b (bp_blockchain bp) = (Some e, bp_blockchain bp)"
      by (auto simp: Blockchain_AddBlock_def)
    with forged(5,6) have "r = Some e" "bp_blockchain bp' = bp_blockchain bp" by auto
    with forged(6) show ?thesis by simp
  qed simp
qed

theorem same_sender_blocks_forging_witness:
  "fst (ForgeBlock mem_graph mem_set 100 100 [copy_hash [1], ZeroHash] [copy_hash [1]]
     (NewBlockProducer two_tx_pool sample_chain NewStateManager)) \<noteq> None"
proof -
  let ?bp = "NewBlockProducer two_tx_pool sample_chain NewStateManager"
  have neq: "copy_hash [1] \<noteq> ZeroHash" using sample_hash_neq(3) by (simp add: IsZeroHash_iff)
  obtain r bp' where run: "ForgeBlock mem_graph mem_set 100 100 [copy_hash [1], ZeroHash] [copy_hash [1]] ?bp = (r, bp')"
    by (cases "ForgeBlock mem_graph mem_set 100 100 [copy_hash [1], ZeroHash] [copy_hash [1]] ?bp")
  have "r \<noteq> None \<and> bp_txPool bp' = bp_txPool ?bp \<and> bp_blockchain bp' = bp_blockchain ?bp"
  proof (rule same_sender_blocks_forging [OF _ _ _ _ _ _ _ run, of ZeroHash spend_tx "copy_hash [1]"])
    show "ranges [copy_hash [1], ZeroHash] (tp_transactions (bp_txPool ?bp))"
      using neq by (simp add: NewBlockProducer_def two_tx_pool_def ranges_def)
    show "TxPool_Size (bp_txPool ?bp) \<le> 100"
      using neq by (simp add: NewBlockProducer_def two_tx_pool_def TxPool_Size_def fmlen_def fcard_finsert_disjoint fcard.rep_eq)
    show "GetTransaction ZeroHash (bp_txPool ?bp) = Some spend_tx"
      using neq by (simp add: NewBlockProducer_def two_tx_pool_def GetTransaction_def)
    show "GetTransaction (copy_hash [1]) (bp_txPool ?bp) = Some (spend_tx\<lparr>tx_ID := copy_hash [1], tx_Nonce := 2\<rparr>)"
      by (simp add: NewBlockProducer_def two_tx_pool_def GetTransaction_def)
    show "bl_Index b \<noteq> - 1" if "Blockchain_GetLatestBlock mem_graph [copy_hash [1]] (bp_blockchain ?bp) = Inr b" for b
      using that sample_latest [of mem_graph] by (auto simp: NewBlockProducer_def genesis_sample_def)
  qed (simp_all add: NewBlockProducer_def)
  with run show ?thesis by simp
qed

end
