(* ===== verification/Packets.thy ===== *)
theory Packets
  imports Core_Types Codec
begin

text \<open>
  \<open>pkg/packets\<close>: the consensus, network and route packets and their binary forms.  The writers append to
  a \<open>bytes.Buffer\<close> (whose writes never fail), so a serializer is the concatenation of what it writes;
  the readers consume a \<open>bytes.Buffer\<close> or a \<open>bytes.Reader\<close>, kept as the bytes still unread.  A nil and an
  empty slice are one value where the code only looks at the length.  Shown here: each format is a safe
  codec, and a truncated hash, block or signature is padded with zeros instead of being refused.
\<close>

section \<open>Packet types\<close>

type_synonym packet_type = byte

definition PacketTypeUnknown :: packet_type where "PacketTypeUnknown = 0"
definition PacketTypeProposal :: packet_type where "PacketTypeProposal = 1"
definition PacketTypeApproval :: packet_type where "PacketTypeApproval = 2"
definition PacketTypeFinalization :: packet_type where "PacketTypeFinalization = 3"
definition PacketTypePing :: packet_type where "PacketTypePing = 5"
definition PacketTypeRequest :: packet_type where "PacketTypeRequest = 6"
definition PacketTypeResponse :: packet_type where "PacketTypeResponse = 7"

lemmas packet_type_defs =
  PacketTypeUnknown_def PacketTypeProposal_def PacketTypeApproval_def PacketTypeFinalization_def
  PacketTypePing_def PacketTypeRequest_def PacketTypeResponse_def

section \<open>Shared pieces\<close>

definition serializePeerID :: "peer_id \<Rightarrow> bytes" where
  "serializePeerID i = LE_PutUint32 (uint32_len i) @ i"

definition deserializePeerID :: "bytes \<Rightarrow> (peer_id \<times> bytes) result" where
  "deserializePeerID r =
     bindE (wrapE ''failed to deserialize peer ID length'' (binary_Read_uint32 r)) (\<lambda>(peerIDLen, r).
     wrapE ''failed to deserialize peer ID'' (io_ReadFull (unat peerIDLen) r))"

text \<open>The signature block both \<open>ConsensusPacket\<close> and \<open>NetworkPacket\<close> end with.\<close>

definition write_signature :: "bytes \<Rightarrow> bytes" where
  "write_signature sig =
     (if length sig > 0 then [1] @ LE_PutUint32 (uint32_len sig) @ sig else [0] @ LE_PutUint32 0)"

section \<open>Consensus packets\<close>

record consensus_packet =
  cp_Type :: packet_type
  cp_Signer :: signer_type
  cp_ProposerID :: peer_id
  cp_ValidatorID :: peer_id
  cp_BlockHash :: bytes
  cp_BlockData :: bytes
  cp_Signature :: bytes

definition ConsensusPacket_Serialize :: "consensus_packet \<Rightarrow> bytes result" where
  "ConsensusPacket_Serialize cp = Inr (
     [cp_Type cp] @ LE_PutUint32 (SignerType_Uint32 (cp_Signer cp)) @
     serializePeerID (cp_ProposerID cp) @ serializePeerID (cp_ValidatorID cp) @
     LE_PutUint32 (uint32_len (cp_BlockHash cp)) @ cp_BlockHash cp @
     (if cp_Type cp = PacketTypeProposal
      then LE_PutUint32 (uint32_len (cp_BlockData cp)) @ cp_BlockData cp
      else LE_PutUint32 0) @
     write_signature (cp_Signature cp))"

definition DeserializeConsensusPacket :: "bytes \<Rightarrow> consensus_packet result" where
  "DeserializeConsensusPacket data =
     bindE (wrapE ''failed to deserialize packet type'' (binary_Read_uint8 data)) (\<lambda>(ty, r).
     bindE (wrapE ''failed to deserialize signer'' (binary_Read_uint32 r)) (\<lambda>(signerUint, r).
     bindE (wrapE ''failed to deserialize proposer ID'' (deserializePeerID r)) (\<lambda>(proposerID, r).
     bindE (wrapE ''failed to deserialize validator ID'' (deserializePeerID r)) (\<lambda>(validatorID, r).
     bindE (wrapE ''failed to deserialize block hash length'' (binary_Read_uint32 r)) (\<lambda>(blockHashLen, r).
     bindE (wrapE ''failed to deserialize block hash'' (Buffer_Read (unat blockHashLen) r))
       (\<lambda>(_, blockHash, r).
     bindE
       (if ty = PacketTypeProposal then
          bindE (wrapE ''failed to deserialize block data length'' (binary_Read_uint32 r)) (\<lambda>(blockDataLen, r).
          if blockDataLen > 0 then
            bindE (wrapE ''failed to deserialize block data'' (Buffer_Read (unat blockDataLen) r))
              (\<lambda>(_, blockData, r). Inr (blockData, r))
          else Inr ([], r))
        else
          bindE (wrapE ''failed to deserialize empty block data length'' (binary_Read_uint32 r))
            (\<lambda>(blockDataLen, r).
          if blockDataLen > 0 then
            bindE (wrapE ''failed to discard block data'' (Buffer_Read (unat blockDataLen) r))
              (\<lambda>(_, _, r). Inr ([], r))
          else Inr ([], r)))
       (\<lambda>(blockData, r).
     bindE (wrapE ''failed to deserialize signature presence flag'' (binary_Read_uint8 r)) (\<lambda>(sigPresence, r).
     bindE (wrapE ''failed to deserialize signature length'' (binary_Read_uint32 r)) (\<lambda>(sigLen, r).
     bindE
       (if sigPresence = 1 \<and> sigLen > 0 then
          bindE (wrapE ''failed to deserialize signature'' (Buffer_Read (unat sigLen) r))
            (\<lambda>(_, signature, _). Inr signature)
        else Inr [])
       (\<lambda>signature.
     Inr \<lparr>cp_Type = ty, cp_Signer = SignerTypeFromUint32 signerUint, cp_ProposerID = proposerID,
          cp_ValidatorID = validatorID, cp_BlockHash = blockHash, cp_BlockData = blockData,
          cp_Signature = signature\<rparr>))))))))))"

section \<open>Network packets\<close>

record network_packet =
  np_Type :: packet_type
  np_SenderID :: peer_id
  np_ReceiverID :: peer_id
  np_Payload :: bytes
  np_Signature :: bytes

definition NetworkPacket_Serialize :: "network_packet \<Rightarrow> bytes result" where
  "NetworkPacket_Serialize np = Inr (
     [np_Type np] @ serializePeerID (np_SenderID np) @ serializePeerID (np_ReceiverID np) @
     LE_PutUint32 (uint32_len (np_Payload np)) @ np_Payload np @
     write_signature (np_Signature np))"

definition DeserializeNetworkPacket :: "bytes \<Rightarrow> network_packet result" where
  "DeserializeNetworkPacket data =
     bindE (wrapE ''failed to deserialize packet type'' (binary_Read_uint8 data)) (\<lambda>(ty, r).
     bindE (wrapE ''failed to deserialize sender ID'' (deserializePeerID r)) (\<lambda>(senderID, r).
     bindE (wrapE ''failed to deserialize receiver ID'' (deserializePeerID r)) (\<lambda>(receiverID, r).
     bindE (wrapE ''failed to deserialize payload length'' (binary_Read_uint32 r)) (\<lambda>(payloadLen, r).
     bindE (wrapE ''failed to deserialize payload'' (Reader_Read (unat payloadLen) r)) (\<lambda>(_, payload, r).
     bindE (wrapE ''failed to deserialize signature presence flag'' (binary_Read_uint8 r)) (\<lambda>(sigPresence, r).
     bindE (wrapE ''failed to deserialize signature length'' (binary_Read_uint32 r)) (\<lambda>(sigLen, r).
     bindE
       (if sigPresence = 1 \<and> sigLen > 0 then
          bindE (wrapE ''failed to deserialize signature'' (Reader_Read (unat sigLen) r))
            (\<lambda>(_, signature, _). Inr signature)
        else Inr [])
       (\<lambda>signature.
     Inr \<lparr>np_Type = ty, np_SenderID = senderID, np_ReceiverID = receiverID,
          np_Payload = payload, np_Signature = signature\<rparr>))))))))"

section \<open>Route packets\<close>

definition MACLength :: nat where "MACLength = 6"
definition SignatureLength :: nat where "SignatureLength = 64"
definition IPLength :: nat where "IPLength = 16"

text \<open>Here nil and empty differ (\<open>!= nil\<close> alone is tested), so the optional fields are options.\<close>

record route_packet =
  rp_NextHopIP :: bytes
  rp_NextHopMAC :: "bytes option"
  rp_Signature :: "bytes option"

definition write_optional :: "string \<Rightarrow> nat \<Rightarrow> bytes option \<Rightarrow> bytes result" where
  "write_optional err n field =
     (case field of
        None \<Rightarrow> Inr [0]
      | Some bs \<Rightarrow> if length bs \<noteq> n then Inl (ErrorS err) else Inr (1 # bs))"

definition SerializeRoutePacket :: "route_packet \<Rightarrow> bytes result" where
  "SerializeRoutePacket pkt =
     bindE (write_optional ''NextHopMAC length is %d, expected %d'' MACLength (rp_NextHopMAC pkt)) (\<lambda>mac.
     bindE (write_optional ''Signature length is %d, expected %d'' SignatureLength (rp_Signature pkt)) (\<lambda>sig.
     Inr (rp_NextHopIP pkt @ mac @ sig)))"

definition read_optional :: "string \<Rightarrow> string \<Rightarrow> string \<Rightarrow> nat \<Rightarrow> bytes \<Rightarrow> (bytes option \<times> bytes) result" where
  "read_optional err_flag err_read err_short n r =
     bindE (wrapE err_flag (binary_Read_uint8 r)) (\<lambda>(flag, r).
     if flag = 1 then
       bindE (wrapE err_read (Reader_Read n r)) (\<lambda>(k, bs, r).
       if k \<noteq> n then Inl (ErrorS err_short) else Inr (Some bs, r))
     else Inr (None, r))"

definition DeserializeRoutePacket :: "bytes \<Rightarrow> route_packet result" where
  "DeserializeRoutePacket data =
     bindE (wrapE ''failed to deserialize NextHopIP'' (io_ReadFull IPLength data)) (\<lambda>(ip, r).
     bindE (read_optional ''failed to read NextHopMAC indicator'' ''failed to deserialize NextHopMAC''
              ''incomplete NextHopMAC data'' MACLength r) (\<lambda>(mac, r).
     bindE (read_optional ''failed to read Signature indicator'' ''failed to deserialize Signature''
              ''incomplete Signature data'' SignatureLength r) (\<lambda>(sig, r).
     if length r \<noteq> 0 then Inl (ErrorS ''unexpected extra data: %d bytes remaining'')
     else Inr \<lparr>rp_NextHopIP = ip, rp_NextHopMAC = mac, rp_Signature = sig\<rparr>)))"

definition NewRoutePacket :: "bytes \<Rightarrow> route_packet" where
  "NewRoutePacket nextHopIP = \<lparr>rp_NextHopIP = nextHopIP, rp_NextHopMAC = None, rp_Signature = None\<rparr>"

section \<open>Contracts\<close>

definition cp_fits :: "consensus_packet \<Rightarrow> bool" where
  "cp_fits cp \<longleftrightarrow> length (cp_ProposerID cp) < 2 ^ 32 \<and> length (cp_ValidatorID cp) < 2 ^ 32 \<and>
     length (cp_BlockHash cp) < 2 ^ 32 \<and> length (cp_Signature cp) < 2 ^ 32 \<and>
     (cp_Type cp = PacketTypeProposal \<longrightarrow> length (cp_BlockData cp) < 2 ^ 32)"

text \<open>Block data is only carried by proposals, and the signer type is normalised.\<close>

definition cp_norm :: "consensus_packet \<Rightarrow> consensus_packet" where
  "cp_norm cp = cp\<lparr>cp_Signer := norm_signer (cp_Signer cp),
     cp_BlockData := (if cp_Type cp = PacketTypeProposal then cp_BlockData cp else [])\<rparr>"

definition np_fits :: "network_packet \<Rightarrow> bool" where
  "np_fits np \<longleftrightarrow> length (np_SenderID np) < 2 ^ 32 \<and> length (np_ReceiverID np) < 2 ^ 32 \<and>
     length (np_Payload np) < 2 ^ 32 \<and> length (np_Signature np) < 2 ^ 32"

definition rp_fits :: "route_packet \<Rightarrow> bool" where
  "rp_fits rp \<longleftrightarrow> length (rp_NextHopIP rp) = IPLength \<and>
     (case rp_NextHopMAC rp of None \<Rightarrow> True | Some m \<Rightarrow> length m = MACLength) \<and>
     (case rp_Signature rp of None \<Rightarrow> True | Some s \<Rightarrow> length s = SignatureLength)"

lemma uint32_len_pos: "length xs < 2 ^ 32 \<Longrightarrow> uint32_len xs > 0 \<longleftrightarrow> xs \<noteq> []"
  by (simp add: word_less_nat_alt)

lemma uint32_len_Nil [simp]: "uint32_len [] = 0"
  by (simp add: uint32_len_def)

lemma deserializePeerID_append [codec]:
  "length i < 2 ^ 32 \<Longrightarrow> deserializePeerID (serializePeerID i @ rest) = Inr (i, rest)"
  by (simp add: deserializePeerID_def serializePeerID_def codec)

lemma not_panics_deserializePeerID [simp]: "\<not> panics (deserializePeerID r)"
  by (auto simp: deserializePeerID_def panics_bindE)

lemma Buffer_Read_exact [codec]: "length xs = n \<Longrightarrow> Buffer_Read n xs = Inr (n, xs, [])"
  using Buffer_Read_append [of xs n "[]"] by simp

lemma DeserializeConsensusPacket_Serialize:
  "cp_fits cp \<Longrightarrow> ConsensusPacket_Serialize cp = Inr bs \<Longrightarrow> DeserializeConsensusPacket bs = Inr (cp_norm cp)"
  by (auto simp: ConsensusPacket_Serialize_def DeserializeConsensusPacket_def cp_fits_def cp_norm_def
      write_signature_def codec uint32_len_pos)

lemma DeserializeConsensusPacket_safe: "\<not> panics (DeserializeConsensusPacket bs)"
  by (auto simp: DeserializeConsensusPacket_def panics_bindE split: if_splits)

lemma ConsensusPacket_Serialize_norm: "ConsensusPacket_Serialize (cp_norm cp) = ConsensusPacket_Serialize cp"
  by (simp add: ConsensusPacket_Serialize_def cp_norm_def)

interpretation consensus_packet_codec:
  safe_codec ConsensusPacket_Serialize DeserializeConsensusPacket cp_fits cp_norm
  by unfold_locales
    (auto simp: DeserializeConsensusPacket_Serialize DeserializeConsensusPacket_safe
      ConsensusPacket_Serialize_norm ConsensusPacket_Serialize_def cp_fits_def cp_norm_def)

lemma DeserializeNetworkPacket_Serialize:
  "np_fits np \<Longrightarrow> NetworkPacket_Serialize np = Inr bs \<Longrightarrow> DeserializeNetworkPacket bs = Inr np"
  by (auto simp: NetworkPacket_Serialize_def DeserializeNetworkPacket_def np_fits_def
      write_signature_def codec uint32_len_pos)

lemma DeserializeNetworkPacket_safe: "\<not> panics (DeserializeNetworkPacket bs)"
  by (auto simp: DeserializeNetworkPacket_def panics_bindE split: if_splits)

interpretation network_packet_codec:
  safe_codec NetworkPacket_Serialize DeserializeNetworkPacket np_fits "\<lambda>np. np"
  by unfold_locales
    (auto simp: DeserializeNetworkPacket_Serialize DeserializeNetworkPacket_safe NetworkPacket_Serialize_def)

lemma read_optional_append [codec]:
  "write_optional e n field = Inr bs \<Longrightarrow> 0 < n \<Longrightarrow> read_optional e1 e2 e3 n (bs @ rest) = Inr (field, rest)"
  by (auto simp: write_optional_def read_optional_def codec split: option.splits if_splits)

lemma not_panics_read_optional [simp]: "\<not> panics (read_optional e1 e2 e3 n r)"
  by (auto simp: read_optional_def panics_bindE)

lemma SerializeRoutePacket_Inr:
  "(\<exists>bs. SerializeRoutePacket rp = Inr bs) \<and> length (rp_NextHopIP rp) = IPLength \<longleftrightarrow> rp_fits rp"
  by (auto simp: SerializeRoutePacket_def rp_fits_def write_optional_def bindE_eq_Inr
      split: option.splits if_splits)

lemma DeserializeRoutePacket_Serialize:
  assumes "rp_fits rp" "SerializeRoutePacket rp = Inr bs"
  shows "DeserializeRoutePacket bs = Inr rp"
proof -
  obtain mac sig where w:
    "write_optional ''NextHopMAC length is %d, expected %d'' MACLength (rp_NextHopMAC rp) = Inr mac"
    "write_optional ''Signature length is %d, expected %d'' SignatureLength (rp_Signature rp) = Inr sig"
    "bs = rp_NextHopIP rp @ mac @ sig"
    using assms(2) by (auto simp: SerializeRoutePacket_def bindE_eq_Inr)
  have "0 < MACLength" "0 < SignatureLength" by (simp_all add: MACLength_def SignatureLength_def)
  with w assms(1) read_optional_append [OF w(2), where rest = "[]"] show ?thesis
    by (simp add: DeserializeRoutePacket_def rp_fits_def codec)
qed

lemma DeserializeRoutePacket_safe: "\<not> panics (DeserializeRoutePacket bs)"
  by (auto simp: DeserializeRoutePacket_def panics_bindE)

interpretation route_packet_codec:
  safe_codec SerializeRoutePacket DeserializeRoutePacket rp_fits "\<lambda>rp. rp"
  by unfold_locales
    (use SerializeRoutePacket_Inr in \<open>auto simp: DeserializeRoutePacket_Serialize DeserializeRoutePacket_safe\<close>)

text \<open>Unlike the other two, the route format is canonical: what decodes is what was encoded.\<close>

lemma Reader_Read_full:
  "Reader_Read n r = Inr (n, bs, r') \<Longrightarrow> r = bs @ r' \<and> length bs = n"
  by (auto simp: Reader_Read_def copy_array_def split: if_splits)

lemma read_optional_Inr:
  assumes "read_optional e1 e2 e3 n r = Inr (field, r')"
  shows "\<exists>flag. r = flag # (case field of None \<Rightarrow> [] | Some bs \<Rightarrow> bs) @ r' \<and> (flag = 1 \<longleftrightarrow> field \<noteq> None) \<and>
    (case field of None \<Rightarrow> True | Some bs \<Rightarrow> length bs = n)"
  using assms
  by (cases r) (auto simp: read_optional_def bindE_eq_Inr binary_Read_uint8_Cons
      binary_Read_uint8_def io_ReadFull_def split: if_splits dest!: Reader_Read_full)

lemma DeserializeRoutePacket_fits: "DeserializeRoutePacket data = Inr rp \<Longrightarrow> rp_fits rp"
  by (auto simp: DeserializeRoutePacket_def bindE_eq_Inr rp_fits_def split: if_splits
      dest!: io_ReadFull_Inr read_optional_Inr)

text \<open>All of a serialized consensus packet but the bytes of its (nonempty) signature.\<close>

definition cp_head :: "consensus_packet \<Rightarrow> bytes" where
  "cp_head cp = [cp_Type cp] @ LE_PutUint32 (SignerType_Uint32 (cp_Signer cp)) @
     serializePeerID (cp_ProposerID cp) @ serializePeerID (cp_ValidatorID cp) @
     LE_PutUint32 (uint32_len (cp_BlockHash cp)) @ cp_BlockHash cp @
     (if cp_Type cp = PacketTypeProposal
      then LE_PutUint32 (uint32_len (cp_BlockData cp)) @ cp_BlockData cp
      else LE_PutUint32 0) @
     [1] @ LE_PutUint32 (uint32_len (cp_Signature cp))"

lemma ConsensusPacket_Serialize_head:
  "cp_Signature cp \<noteq> [] \<Longrightarrow> ConsensusPacket_Serialize cp = Inr (cp_head cp @ cp_Signature cp)"
  by (simp add: ConsensusPacket_Serialize_def write_signature_def cp_head_def)

lemma DeserializeConsensusPacket_head:
  assumes "cp_fits cp" "cp_Signature cp \<noteq> []" "s \<noteq> []" "length s \<le> length (cp_Signature cp)"
  shows "DeserializeConsensusPacket (cp_head cp @ s) =
    Inr ((cp_norm cp)\<lparr>cp_Signature := s @ replicate (length (cp_Signature cp) - length s) 0\<rparr>)"
proof -
  have "Buffer_Read (length (cp_Signature cp)) s =
      Inr (length s, s @ replicate (length (cp_Signature cp) - length s) 0, [])"
    using assms(3,4) by (simp add: Buffer_Read_def copy_array_def)
  with assms show ?thesis
    by (auto simp: DeserializeConsensusPacket_def cp_fits_def cp_norm_def codec uint32_len_pos cp_head_def)
qed

section \<open>Properties\<close>

text \<open>
  C27: A consensus packet whose variable-length fields fit in 32 bits is read back as it was sent, up to
  the signer's normal form and block data on a packet that is not a proposal; and no byte string
  makes the reader panic.
\<close>

theorem consensus_packet_roundtrip:
  assumes "cp_fits cp"
  shows "bindE (ConsensusPacket_Serialize cp) DeserializeConsensusPacket = Inr (cp_norm cp) \<and>
    \<not> panics (DeserializeConsensusPacket data)"
  using assms consensus_packet_codec.roundtrip consensus_packet_codec.dec_safe by blast

definition sample_proposal :: consensus_packet where
  "sample_proposal = \<lparr>cp_Type = PacketTypeProposal, cp_Signer = ''Ed25519'', cp_ProposerID = [1, 2],
     cp_ValidatorID = [], cp_BlockHash = [3, 4], cp_BlockData = [5, 6, 7], cp_Signature = [8]\<rparr>"

theorem consensus_packet_roundtrip_witness:
  "cp_fits sample_proposal \<and>
   bindE (ConsensusPacket_Serialize sample_proposal) DeserializeConsensusPacket =
     Inr (cp_norm sample_proposal)"
proof -
  have "cp_fits sample_proposal" by (simp add: cp_fits_def sample_proposal_def)
  with consensus_packet_roundtrip show ?thesis by blast
qed

text \<open>
  A consensus packet cut short inside its signature is accepted: the missing bytes are read as
  zeros, because \<open>buffer.Read\<close> reports a short read without an error and the count is dropped.
\<close>

theorem truncated_signature_accepted:
  assumes "cp_fits cp" "ConsensusPacket_Serialize cp = Inr bs" "0 < k" "k < length (cp_Signature cp)"
  shows "DeserializeConsensusPacket (take (length bs - k) bs) =
    Inr ((cp_norm cp)\<lparr>cp_Signature :=
           take (length (cp_Signature cp) - k) (cp_Signature cp) @ replicate k 0\<rparr>)"
proof -
  let ?s = "take (length (cp_Signature cp) - k) (cp_Signature cp)"
  have ne: "cp_Signature cp \<noteq> []" using assms(4) by auto
  with assms(2,4) have "take (length bs - k) bs = cp_head cp @ ?s"
    by (auto simp: ConsensusPacket_Serialize_head)
  moreover have "?s \<noteq> []" "length ?s \<le> length (cp_Signature cp)" using assms(4) by auto
  ultimately show ?thesis
    using DeserializeConsensusPacket_head [OF assms(1) ne, of ?s] assms(3,4) by simp
qed

theorem truncated_signature_accepted_witness:
  "DeserializeConsensusPacket (cp_head (sample_proposal\<lparr>cp_Signature := [8, 9]\<rparr>) @ [8]) =
     Inr ((cp_norm sample_proposal)\<lparr>cp_Signature := [8, 0]\<rparr>)"
proof -
  let ?cp = "sample_proposal\<lparr>cp_Signature := [8, 9]\<rparr>"
  have "cp_fits ?cp" "ConsensusPacket_Serialize ?cp = Inr (cp_head ?cp @ [8, 9])"
    by (simp_all add: cp_fits_def sample_proposal_def ConsensusPacket_Serialize_head)
  from truncated_signature_accepted [OF this, of 1] show ?thesis by (simp add: cp_norm_def)
qed

text \<open>
  C28: The route format is exact in both directions: every packet with a 16-byte address and
  well-sized optional fields is read back as it was sent, everything the reader accepts is such a
  packet, and no byte string makes it panic.
\<close>

theorem route_packet_exact:
  "(rp_fits rp \<longleftrightarrow> (\<exists>data. DeserializeRoutePacket data = Inr rp)) \<and>
   (rp_fits rp \<longleftrightarrow> length (rp_NextHopIP rp) = IPLength \<and>
      bindE (SerializeRoutePacket rp) DeserializeRoutePacket = Inr rp) \<and>
   \<not> panics (DeserializeRoutePacket data')"
proof -
  have "rp_fits rp" if "bindE (SerializeRoutePacket rp) DeserializeRoutePacket = Inr rp"
    using that DeserializeRoutePacket_fits by (auto simp: bindE_eq_Inr)
  moreover have "length (rp_NextHopIP rp) = IPLength" if "rp_fits rp"
    using that by (simp add: rp_fits_def)
  ultimately show ?thesis
    using route_packet_codec.roundtrip route_packet_codec.dec_safe
      DeserializeRoutePacket_fits by (metis bindE_eq_Inr)
qed

end
