(* ===== verification/Storage.thy ===== *)
theory Storage
  imports Go_Stdlib "HOL-Library.List_Lexorder" "HOL-Library.Sublist"
begin

text \<open>
  \<open>pkg/storage\<close>: the key-value store over MDBX, its manager and the batch writer.  MDBX itself is not part
  of the program: its transactions and cursors are the fields of a record \<open>'e mdbx\<close> over an opaque
  environment \<open>'e\<close>, and \<open>mdbx_laws\<close> names what its documentation promises.  The interface
  \<open>storage.Provider\<close> is the locale \<open>kv_provider\<close>: \<open>Db\<close> implements it over every lawful MDBX.
\<close>

section \<open>MDBX\<close>

definition mdbx_ErrNotFound :: go_error where
  "mdbx_ErrNotFound = ErrorS ''MDBX_NOTFOUND: No matching key/data pair found''"

text \<open>
  \<open>env_Update\<close> and \<open>env_View\<close> run a function in a transaction, \<open>txn_*\<close> are the operations inside one,
  \<open>cursor_SetRange p\<close> moves to the first key at or after \<open>p\<close>, \<open>cursor_Next k\<close> from \<open>k\<close> to the next key.
\<close>

record 'e mdbx =
  env_Update :: "('e \<Rightarrow> go_error option \<times> 'e) \<Rightarrow> 'e \<Rightarrow> go_error option \<times> 'e"
  env_View :: "('e \<Rightarrow> bytes result) \<Rightarrow> 'e \<Rightarrow> bytes result"
  env_BeginTxn :: "'e \<Rightarrow> go_error option"
  txn_OpenCursor :: "'e \<Rightarrow> go_error option"
  txn_Put :: "bytes \<Rightarrow> bytes \<Rightarrow> 'e \<Rightarrow> go_error option \<times> 'e"
  txn_Get :: "bytes \<Rightarrow> 'e \<Rightarrow> bytes result"
  txn_Del :: "bytes \<Rightarrow> 'e \<Rightarrow> go_error option \<times> 'e"
  cursor_SetRange :: "bytes \<Rightarrow> 'e \<Rightarrow> bytes result"
  cursor_Next :: "bytes \<Rightarrow> 'e \<Rightarrow> bytes result"

section \<open>Db\<close>

definition ErrKeyNotFound :: go_error where "ErrKeyNotFound = ErrorS ''key not found''"

definition Db_Set :: "'e mdbx \<Rightarrow> bytes \<Rightarrow> bytes \<Rightarrow> 'e \<Rightarrow> go_error option \<times> 'e" where
  "Db_Set M key value env = env_Update M (\<lambda>txn. txn_Put M key value txn) env"

definition Db_Get :: "'e mdbx \<Rightarrow> bytes \<Rightarrow> 'e \<Rightarrow> bytes result" where
  "Db_Get M key env =
     env_View M (\<lambda>txn.
       case txn_Get M key txn of
         Inl err \<Rightarrow> if errors_Is err mdbx_ErrNotFound then Inl ErrKeyNotFound else Inl err
       | Inr value \<Rightarrow> Inr value) env"

definition Db_Exists :: "'e mdbx \<Rightarrow> bytes \<Rightarrow> 'e \<Rightarrow> bool result" where
  "Db_Exists M key env =
     (case env_View M (\<lambda>txn. txn_Get M key txn) env of
        Inr _ \<Rightarrow> Inr True
      | Inl err \<Rightarrow> if errors_Is err mdbx_ErrNotFound then Inr False else Inl err)"

definition Db_Delete :: "'e mdbx \<Rightarrow> bytes \<Rightarrow> 'e \<Rightarrow> go_error option \<times> 'e" where
  "Db_Delete M key env = env_Update M (\<lambda>txn. txn_Del M key txn) env"

text \<open>
  The scan of \<open>ListKeysWithPrefix\<close>.  \<open>done n\<close> is what \<open>ctx.Err()\<close> gives at the \<open>n\<close>-th turn when the
  context is cancelled by then.  A cursor need not run out of keys, so the loop may not return.
\<close>

partial_function (option) list_keys_loop ::
  "'e mdbx \<Rightarrow> (nat \<Rightarrow> go_error option) \<Rightarrow> bytes \<Rightarrow> 'e \<Rightarrow> nat \<Rightarrow> bytes \<Rightarrow> bytes list \<Rightarrow> bytes list result option"
where
  "list_keys_loop M ctx_done prefixBytes env n key keys =
     (case ctx_done n of
        Some err \<Rightarrow> Some (Inl err)
      | None \<Rightarrow>
          if \<not> prefix prefixBytes key then Some (Inr keys)
          else
            (case cursor_Next M key env of
               Inl err \<Rightarrow>
                 if err = mdbx_ErrNotFound then Some (Inr (keys @ [key]))
                 else Some (Inl (wrap_error ''failed to get next key from cursor'' err))
             | Inr key' \<Rightarrow> list_keys_loop M ctx_done prefixBytes env (Suc n) key' (keys @ [key])))"

definition Db_ListKeysWithPrefix ::
  "'e mdbx \<Rightarrow> (nat \<Rightarrow> go_error option) \<Rightarrow> string \<Rightarrow> 'e \<Rightarrow> bytes list result option" where
  "Db_ListKeysWithPrefix M ctx_done pre env =
     (case env_BeginTxn M env of
        Some err \<Rightarrow> Some (Inl (wrap_error ''failed to begin MDBX read transaction'' err))
      | None \<Rightarrow>
     (case txn_OpenCursor M env of
        Some err \<Rightarrow> Some (Inl (wrap_error ''failed to open MDBX cursor'' err))
      | None \<Rightarrow>
     (case cursor_SetRange M (go_bytes pre) env of
        Inl err \<Rightarrow>
          if err = mdbx_ErrNotFound then Some (Inr [])
          else Some (Inl (wrap_error ''failed to get key from cursor'' err))
      | Inr key \<Rightarrow> list_keys_loop M ctx_done (go_bytes pre) env 0 key [])))"

section \<open>Manager\<close>

text \<open>
  \<open>open_db\<close> is \<open>NewDb\<close> with the configuration the manager passes; the databases are kept by name.  How a file
  is opened and closed, and the construction of the manager, are in \<open>Storage_Open\<close>.
\<close>

record node_config =
  node_Name :: string
  node_Path :: string

type_synonym 'd manager = "(string, 'd) fmap"

definition Manager_CreateDb ::
  "(node_config \<Rightarrow> 'd result) \<Rightarrow> string \<Rightarrow> 'd manager \<Rightarrow> 'd result \<times> 'd manager" where
  "Manager_CreateDb open_db name m =
     (case fmlookup m name of
        Some _ \<Rightarrow> (Inl (ErrorS ''database %s already exists''), m)
      | None \<Rightarrow>
          (case open_db \<lparr>node_Name = name, node_Path = ''./data/'' @ name @ ''.mdbx''\<rparr> of
             Inl err \<Rightarrow> (Inl err, m)
           | Inr db \<Rightarrow> (Inr db, fmupd name db m)))"

definition Manager_GetDb :: "string \<Rightarrow> 'd manager \<Rightarrow> 'd result" where
  "Manager_GetDb name m =
     (case fmlookup m name of
        None \<Rightarrow> Inl (ErrorS ''mdbx database not found: %s'')
      | Some db \<Rightarrow> Inr db)"

section \<open>Batch writer\<close>

text \<open>
  The state of a \<open>BatchWriter\<close>: per worker the queued requests (its channel, capacity 500000) and its
  buffer, and the environment.  A step is one turn of a worker's \<open>select\<close>.
\<close>

record 'e batch_writer =
  bw_channels :: "(bytes \<times> bytes) list list"
  bw_buffers :: "(bytes, bytes) fmap list"
  bw_maxBatchSize :: int
  bw_workers :: nat
  bw_env :: 'e

definition channel_capacity :: nat where "channel_capacity = 500000"

definition NewBatchWriter :: "'e \<Rightarrow> int \<Rightarrow> nat \<Rightarrow> 'e batch_writer" where
  "NewBatchWriter env maxBatchSize workers =
     \<lparr>bw_channels = replicate workers [], bw_buffers = replicate workers fmempty,
      bw_maxBatchSize = maxBatchSize, bw_workers = workers, bw_env = env\<rparr>"

text \<open>The transaction of \<open>flush\<close>: every pair of the buffer, in the order \<open>order\<close> of the map iteration.\<close>

fun put_all :: "'e mdbx \<Rightarrow> bytes list \<Rightarrow> (bytes, bytes) fmap \<Rightarrow> 'e \<Rightarrow> go_error option \<times> 'e" where
  "put_all M [] buf txn = (None, txn)"
| "put_all M (k # ks) buf txn =
     (case fmlookup buf k of
        None \<Rightarrow> put_all M ks buf txn
      | Some v \<Rightarrow>
          (case txn_Put M k v txn of
             (Some err, txn') \<Rightarrow> (Some (wrap_error ''failed to write key: %x'' err), txn')
           | (None, txn') \<Rightarrow> put_all M ks buf txn'))"

definition BatchWriter_flush :: "'e mdbx \<Rightarrow> bytes list \<Rightarrow> nat \<Rightarrow> 'e batch_writer \<Rightarrow> 'e batch_writer" where
  "BatchWriter_flush M order workerID bw =
     (let buf = bw_buffers bw ! workerID in
      if fmlen buf = 0 then bw
      else
        let (_, env') = env_Update M (\<lambda>txn.
              case txn_OpenCursor M txn of
                Some err \<Rightarrow> (Some (wrap_error ''failed to open cursor'' err), txn)
              | None \<Rightarrow> put_all M order buf txn) (bw_env bw)
        in bw\<lparr>bw_env := env', bw_buffers := (bw_buffers bw)[workerID := fmempty]\<rparr>)"

text \<open>\<open>BufferWrite\<close> panics without workers (division by zero) and blocks while the channel is full.\<close>

definition BatchWriter_BufferWrite ::
  "bytes \<Rightarrow> bytes \<Rightarrow> 'e batch_writer \<Rightarrow> 'e batch_writer option result" where
  "BatchWriter_BufferWrite key value bw =
     (if bw_workers bw = 0 then Inl (Panic ''integer divide by zero'')
      else
        let workerID = unat (key ! 0) mod bw_workers bw;
            ch = bw_channels bw ! workerID
        in if length ch \<ge> channel_capacity then Inr None
           else Inr (Some (bw\<lparr>bw_channels := (bw_channels bw)[workerID := ch @ [(key, value)]]\<rparr>)))"

definition worker_request :: "'e mdbx \<Rightarrow> bytes list \<Rightarrow> nat \<Rightarrow> 'e batch_writer \<Rightarrow> 'e batch_writer" where
  "worker_request M order workerID bw =
     (case bw_channels bw ! workerID of
        [] \<Rightarrow> bw
      | (key, value) # rest \<Rightarrow>
          let buf = fmupd key value (bw_buffers bw ! workerID);
              bw = bw\<lparr>bw_channels := (bw_channels bw)[workerID := rest],
                      bw_buffers := (bw_buffers bw)[workerID := buf]\<rparr>
          in if int (fmlen buf) \<ge> bw_maxBatchSize bw then BatchWriter_flush M order workerID bw else bw)"

section \<open>What MDBX promises\<close>

text \<open>
  \<open>db env\<close> is the committed content.  A transaction whose function fails is rolled back with that
  error; one whose function succeeds either commits or fails as a whole.
\<close>

definition mdbx_laws :: "'e mdbx \<Rightarrow> ('e \<Rightarrow> bytes \<Rightarrow> bytes option) \<Rightarrow> bool" where
  "mdbx_laws M db \<longleftrightarrow>
     (\<forall>f e. env_View M f e = f e) \<and>
     (\<forall>f e e'. f e = (None, e') \<longrightarrow>
        db (snd (env_Update M f e)) = (if fst (env_Update M f e) = None then db e' else db e)) \<and>
     (\<forall>f e err e'. f e = (Some err, e') \<longrightarrow>
        fst (env_Update M f e) = Some err \<and> db (snd (env_Update M f e)) = db e) \<and>
     (\<forall>k e. txn_Get M k e = (case db e k of None \<Rightarrow> Inl mdbx_ErrNotFound | Some v \<Rightarrow> Inr v)) \<and>
     (\<forall>k v e e'. txn_Put M k v e = (None, e') \<longrightarrow> db e' = (db e)(k \<mapsto> v)) \<and>
     (\<forall>k e. db e k = None \<longrightarrow> fst (txn_Del M k e) = Some mdbx_ErrNotFound) \<and>
     (\<forall>k e e'. txn_Del M k e = (None, e') \<longrightarrow> db e' = (db e)(k := None))"

text \<open>Cursors walk the keys in lexicographic order.\<close>

definition keys_of :: "('k::linorder \<Rightarrow> 'v option) \<Rightarrow> 'k list" where
  "keys_of m = sorted_list_of_set (dom m)"

definition cursor_laws :: "'e mdbx \<Rightarrow> ('e \<Rightarrow> bytes \<Rightarrow> bytes option) \<Rightarrow> bool" where
  "cursor_laws M db \<longleftrightarrow>
     (\<forall>e. finite (dom (db e)) \<and> env_BeginTxn M e = None \<and> txn_OpenCursor M e = None) \<and>
     (\<forall>p e. cursor_SetRange M p e =
        (case dropWhile (\<lambda>k. k < p) (keys_of (db e)) of [] \<Rightarrow> Inl mdbx_ErrNotFound | k # _ \<Rightarrow> Inr k)) \<and>
     (\<forall>p e. cursor_Next M p e =
        (case dropWhile (\<lambda>k. k \<le> p) (keys_of (db e)) of [] \<Rightarrow> Inl mdbx_ErrNotFound | k # _ \<Rightarrow> Inr k))"

section \<open>The provider interface\<close>

locale kv_provider =
  fixes set_kv :: "bytes \<Rightarrow> bytes \<Rightarrow> 's \<Rightarrow> go_error option \<times> 's"
    and get_kv :: "bytes \<Rightarrow> 's \<Rightarrow> bytes result"
    and exists_kv :: "bytes \<Rightarrow> 's \<Rightarrow> bool result"
    and delete_kv :: "bytes \<Rightarrow> 's \<Rightarrow> go_error option \<times> 's"
    and view :: "'s \<Rightarrow> bytes \<Rightarrow> bytes option"
  assumes set_view: "view (snd (set_kv k v s)) = (if fst (set_kv k v s) = None then (view s)(k \<mapsto> v) else view s)"
    and get_view: "get_kv k s = (case view s k of None \<Rightarrow> Inl ErrKeyNotFound | Some v \<Rightarrow> Inr v)"
    and exists_view: "exists_kv k s = Inr (view s k \<noteq> None)"
    and delete_view: "view (snd (delete_kv k s)) = (if fst (delete_kv k s) = None then (view s)(k := None) else view s)"
    and delete_absent: "view s k = None \<Longrightarrow> fst (delete_kv k s) \<noteq> None"
begin

lemma get_set_same: "set_kv k v s = (None, s') \<Longrightarrow> get_kv k s' = Inr v"
  using set_view [of k v s] by (simp add: get_view)

lemma get_set_other: "k' \<noteq> k \<Longrightarrow> get_kv k' (snd (set_kv k v s)) = get_kv k' s"
  using set_view [of k v s] by (simp add: get_view)

lemma get_set_failed: "set_kv k v s = (Some err, s') \<Longrightarrow> get_kv k' s' = get_kv k' s"
  using set_view [of k v s] by (simp add: get_view)

lemma exists_iff_get: "exists_kv k s = Inr b \<Longrightarrow> b \<longleftrightarrow> (\<exists>v. get_kv k s = Inr v)"
  by (auto simp: exists_view get_view split: option.splits)

lemma get_delete: "delete_kv k s = (None, s') \<Longrightarrow> get_kv k s' = Inl ErrKeyNotFound"
  using delete_view [of k s] by (simp add: get_view)

lemma get_delete_other: "k' \<noteq> k \<Longrightarrow> get_kv k' (snd (delete_kv k s)) = get_kv k' s"
  using delete_view [of k s] by (simp add: get_view)

lemma last_write_wins:
  "set_kv k v s = (None, s') \<Longrightarrow> set_kv k v' s' = (None, s'') \<Longrightarrow> get_kv k s'' = Inr v'"
  by (rule get_set_same)

end

lemma Db_Set_view:
  assumes "mdbx_laws M db"
  shows "db (snd (Db_Set M k v e)) = (if fst (Db_Set M k v e) = None then (db e)(k \<mapsto> v) else db e)"
proof (cases "txn_Put M k v e")
  case (Pair r e')
  with assms show ?thesis
    by (cases r) (simp_all add: Db_Set_def mdbx_laws_def)
qed

lemma Db_Set_effect:
  "mdbx_laws M db \<Longrightarrow> Db_Set M k v e = (r, e') \<Longrightarrow> db e' = (if r = None then (db e)(k \<mapsto> v) else db e)"
  using Db_Set_view [of M db k v e] by simp

lemma Db_Delete_view:
  assumes "mdbx_laws M db"
  shows "db (snd (Db_Delete M k e)) = (if fst (Db_Delete M k e) = None then (db e)(k := None) else db e)"
proof (cases "txn_Del M k e")
  case (Pair r e')
  with assms show ?thesis
    by (cases r) (simp_all add: Db_Delete_def mdbx_laws_def)
qed

lemma Db_Delete_absent:
  assumes "mdbx_laws M db" "db e k = None"
  shows "fst (Db_Delete M k e) = Some mdbx_ErrNotFound"
proof -
  have "fst (txn_Del M k e) = Some mdbx_ErrNotFound" using assms by (simp add: mdbx_laws_def)
  then obtain e' where "txn_Del M k e = (Some mdbx_ErrNotFound, e')" by (cases "txn_Del M k e") auto
  with assms show ?thesis by (simp add: Db_Delete_def mdbx_laws_def)
qed

lemma Db_Get_view:
  "mdbx_laws M db \<Longrightarrow> Db_Get M k e = (case db e k of None \<Rightarrow> Inl ErrKeyNotFound | Some v \<Rightarrow> Inr v)"
  by (simp add: Db_Get_def mdbx_laws_def mdbx_ErrNotFound_def split: option.splits)

lemma Db_Exists_view: "mdbx_laws M db \<Longrightarrow> Db_Exists M k e = Inr (db e k \<noteq> None)"
  by (simp add: Db_Exists_def mdbx_laws_def mdbx_ErrNotFound_def split: option.splits)

text \<open>\<open>Db\<close> over any MDBX that keeps its documented laws is a provider.\<close>

locale mdbx_store =
  fixes M :: "'e mdbx" and db :: "'e \<Rightarrow> bytes \<Rightarrow> bytes option"
  assumes laws: "mdbx_laws M db"

sublocale mdbx_store \<subseteq> kv_provider "Db_Set M" "Db_Get M" "Db_Exists M" "Db_Delete M" db
  using laws by unfold_locales
    (simp_all add: Db_Set_view Db_Get_view Db_Exists_view Db_Delete_view Db_Delete_absent)

context mdbx_store
begin

lemmas mdbx_store_kv_provider = kv_provider_axioms

end

lemmas mdbx_store_kv_provider_laws = mdbx_store.mdbx_store_kv_provider [OF mdbx_store.intro]

text \<open>An MDBX kept in memory, which satisfies the laws: \<open>Db\<close> over it is a provider.\<close>

definition mem_mdbx :: "(bytes, bytes) fmap mdbx" where
  "mem_mdbx = \<lparr>
     env_Update = (\<lambda>f e. case f e of (None, e') \<Rightarrow> (None, e') | (Some err, _) \<Rightarrow> (Some err, e)),
     env_View = (\<lambda>f e. f e),
     env_BeginTxn = (\<lambda>_. None), txn_OpenCursor = (\<lambda>_. None),
     txn_Put = (\<lambda>k v e. (None, fmupd k v e)),
     txn_Get = (\<lambda>k e. case fmlookup e k of None \<Rightarrow> Inl mdbx_ErrNotFound | Some v \<Rightarrow> Inr v),
     txn_Del = (\<lambda>k e. case fmlookup e k of None \<Rightarrow> (Some mdbx_ErrNotFound, e) | Some _ \<Rightarrow> (None, fmdrop k e)),
     cursor_SetRange = (\<lambda>p e. case dropWhile (\<lambda>k. k < p) (keys_of (fmlookup e)) of
        [] \<Rightarrow> Inl mdbx_ErrNotFound | k # _ \<Rightarrow> Inr k),
     cursor_Next = (\<lambda>p e. case dropWhile (\<lambda>k. k \<le> p) (keys_of (fmlookup e)) of
        [] \<Rightarrow> Inl mdbx_ErrNotFound | k # _ \<Rightarrow> Inr k)\<rparr>"

lemma mem_mdbx_laws: "mdbx_laws mem_mdbx fmlookup"
  by (auto simp: mdbx_laws_def mem_mdbx_def split: option.splits)

lemma mem_mdbx_cursor_laws: "cursor_laws mem_mdbx fmlookup"
  by (simp add: cursor_laws_def mem_mdbx_def)

interpretation mem_db: mdbx_store mem_mdbx fmlookup
  by unfold_locales (rule mem_mdbx_laws)

section \<open>Prefix scans\<close>

lemma prefix_go_bytes: "prefix (go_bytes a) (go_bytes b) \<longleftrightarrow> prefix a b"
proof
  assume "prefix (go_bytes a) (go_bytes b)"
  then have "take (length a) (go_bytes b) = go_bytes a" by (metis append_eq_conv_conj length_go_bytes prefix_def)
  then have "go_bytes (take (length a) b) = go_bytes a" by (simp add: go_bytes_def take_map)
  then show "prefix a b" by (metis go_bytes_inject take_is_prefix)
next
  assume "prefix a b" then show "prefix (go_bytes a) (go_bytes b)" by (auto simp: prefix_def go_bytes_append)
qed

lemma prefix_le: "prefix p k \<Longrightarrow> p \<le> (k :: 'a::linorder list)"
proof (induction p arbitrary: k)
  case (Cons x p)
  then show ?case by (cases k) auto
qed simp

lemma prefix_convex:
  "p \<le> k \<Longrightarrow> k \<le> k' \<Longrightarrow> prefix p k' \<Longrightarrow> prefix p (k :: 'a::linorder list)"
proof (induction p arbitrary: k k')
  case (Cons x p)
  from Cons.prems obtain y ks where "k = y # ks" by (cases k) auto
  with Cons show ?case by (cases k') (auto simp: prefix_Cons)
qed simp

lemma takeWhile_prefix_sorted:
  assumes "sorted ks"
  shows "takeWhile (prefix p) (dropWhile (\<lambda>k. k < p) ks) = filter (prefix p) (ks :: 'a::linorder list list)"
  using assms
proof (induction ks)
  case (Cons k ks)
  show ?case
  proof (cases "k < p")
    case True
    then have "\<not> prefix p k" using prefix_le leD by blast
    with True Cons show ?thesis by simp
  next
    case False
    then have "dropWhile (\<lambda>k. k < p) ks = ks" using Cons.prems by (cases ks) auto
    moreover have "filter (prefix p) ks = []" if "\<not> prefix p k"
      using that False Cons.prems prefix_convex by (auto simp: filter_empty_conv not_less)
    ultimately show ?thesis using False Cons by auto
  qed
qed simp

lemma dropWhile_le_sorted:
  assumes "sorted (us @ k # vs)" "distinct (us @ k # vs)"
  shows "dropWhile (\<lambda>x. x \<le> k) (us @ k # vs) = (vs :: 'a::linorder list)"
proof -
  have "\<forall>x \<in> set us. x \<le> k" using assms by (auto simp: sorted_append)
  moreover have "dropWhile (\<lambda>x. x \<le> k) vs = vs" using assms by (cases vs) (auto simp: sorted_append)
  ultimately show ?thesis by (simp add: dropWhile_append2)
qed

lemma keys_of_sorted: "sorted (keys_of m)" "distinct (keys_of m)"
  by (simp_all add: keys_of_def)

lemma list_keys_loop_scan:
  assumes "cursor_laws M db" "\<And>n. ctx_done n = None" "keys_of (db e) = us @ k # vs"
  shows "list_keys_loop M ctx_done p e n k acc = Some (Inr (acc @ takeWhile (prefix p) (k # vs)))"
  using assms(3)
proof (induction vs arbitrary: us k n acc)
  case Nil
  then have "cursor_Next M k e = Inl mdbx_ErrNotFound"
    using assms(1) keys_of_sorted [of "db e"] dropWhile_le_sorted [of us k "[]"]
    by (simp add: cursor_laws_def)
  then show ?case by (simp add: list_keys_loop.simps assms(2))
next
  case (Cons v vs)
  then have "cursor_Next M k e = Inr v"
    using assms(1) keys_of_sorted [of "db e"] dropWhile_le_sorted [of us k "v # vs"]
    by (simp add: cursor_laws_def)
  moreover have "list_keys_loop M ctx_done p e (Suc n) v (acc @ [k]) =
      Some (Inr ((acc @ [k]) @ takeWhile (prefix p) (v # vs)))"
    by (rule Cons.IH [of "us @ [k]"]) (simp add: Cons.prems)
  ultimately show ?case by (subst list_keys_loop.simps) (simp add: assms(2))
qed

section \<open>The batch writer as one map\<close>

text \<open>
  What a reader would see once everything queued has been written: the request queue of the key's
  worker over its buffer over the store.  Every key belongs to one worker, so the last write wins.
\<close>

definition worker_of :: "'e batch_writer \<Rightarrow> bytes \<Rightarrow> nat" where
  "worker_of bw k = unat (k ! 0) mod bw_workers bw"

definition bw_view :: "('e \<Rightarrow> bytes \<Rightarrow> bytes option) \<Rightarrow> 'e batch_writer \<Rightarrow> bytes \<Rightarrow> bytes option" where
  "bw_view db bw k =
     (db (bw_env bw) ++ fmlookup (bw_buffers bw ! worker_of bw k) ++
      map_of (rev (bw_channels bw ! worker_of bw k))) k"

definition bw_wf :: "'e batch_writer \<Rightarrow> bool" where
  "bw_wf bw \<longleftrightarrow> length (bw_channels bw) = bw_workers bw \<and> length (bw_buffers bw) = bw_workers bw \<and>
     (\<forall>w < bw_workers bw. (\<forall>k \<in> dom (fmlookup (bw_buffers bw ! w)). worker_of bw k = w) \<and>
        (\<forall>k \<in> fst ` set (bw_channels bw ! w). worker_of bw k = w))"

definition reliable :: "'e mdbx \<Rightarrow> bool" where
  "reliable M \<longleftrightarrow> (\<forall>k v e. fst (txn_Put M k v e) = None) \<and> (\<forall>e. txn_OpenCursor M e = None) \<and>
     (\<forall>f e e'. f e = (None, e') \<longrightarrow> fst (env_Update M f e) = None)"

lemma put_all_view:
  assumes "mdbx_laws M db" "reliable M"
  shows "\<exists>e'. put_all M ks buf e = (None, e') \<and>
    db e' = db e ++ (\<lambda>k. if k \<in> set ks then fmlookup buf k else None)"
proof (induction ks arbitrary: e)
  case (Cons k ks)
  show ?case
  proof (cases "fmlookup buf k")
    case None
    then have "(\<lambda>x. if x \<in> set (k # ks) then fmlookup buf x else None) =
        (\<lambda>x. if x \<in> set ks then fmlookup buf x else None)" by auto
    with None Cons show ?thesis by simp
  next
    case (Some v)
    have "fst (txn_Put M k v e) = None" using assms(2) by (simp add: reliable_def)
    then obtain e1 where put: "txn_Put M k v e = (None, e1)" by (cases "txn_Put M k v e") auto
    then have "db e1 = (db e)(k \<mapsto> v)" using assms(1) unfolding mdbx_laws_def by blast
    moreover obtain e' where e': "put_all M ks buf e1 = (None, e')"
      "db e' = db e1 ++ (\<lambda>x. if x \<in> set ks then fmlookup buf x else None)" using Cons by blast
    ultimately have "db e' = db e ++ (\<lambda>x. if x \<in> set (k # ks) then fmlookup buf x else None)"
      using Some by (auto simp: map_add_def split: option.splits)
    with e' put Some show ?thesis by simp
  qed
qed simp

lemma flush_view:
  assumes "mdbx_laws M db" "reliable M" "bw_wf bw" "w < bw_workers bw" "ranges order (bw_buffers bw ! w)"
  shows "bw_wf (BatchWriter_flush M order w bw) \<and> bw_view db (BatchWriter_flush M order w bw) = bw_view db bw"
proof (cases "bw_buffers bw ! w = fmempty")
  case True
  then show ?thesis using assms(3) by (simp add: BatchWriter_flush_def)
next
  case False
  define f where "f = (\<lambda>txn. case txn_OpenCursor M txn of
      Some err \<Rightarrow> (Some (wrap_error ''failed to open cursor'' err), txn)
    | None \<Rightarrow> put_all M order (bw_buffers bw ! w) txn)"
  obtain e' where e': "f (bw_env bw) = (None, e')"
    "db e' = db (bw_env bw) ++ (\<lambda>k. if k \<in> set order then fmlookup (bw_buffers bw ! w) k else None)"
    using put_all_view [OF assms(1,2), of order "bw_buffers bw ! w" "bw_env bw"] assms(2)
    by (auto simp: f_def reliable_def)
  then have "db (snd (env_Update M f (bw_env bw))) = db e'"
    using assms(1,2) by (simp add: mdbx_laws_def reliable_def)
  moreover have "(\<lambda>k. if k \<in> set order then fmlookup (bw_buffers bw ! w) k else None) = fmlookup (bw_buffers bw ! w)"
    using assms(5) by (auto simp: ranges_set fmlookup_dom_iff)
  ultimately have env: "db (snd (env_Update M f (bw_env bw))) = db (bw_env bw) ++ fmlookup (bw_buffers bw ! w)"
    using e'(2) by simp
  have bw': "BatchWriter_flush M order w bw =
      bw\<lparr>bw_env := snd (env_Update M f (bw_env bw)), bw_buffers := (bw_buffers bw)[w := fmempty]\<rparr>"
    using False by (simp add: BatchWriter_flush_def Let_def f_def case_prod_beta)
  have "bw_wf (BatchWriter_flush M order w bw)"
    using assms(3,4) by (auto simp: bw' bw_wf_def worker_of_def nth_list_update split: if_splits)
  moreover have "bw_view db (BatchWriter_flush M order w bw) k = bw_view db bw k" for k
  proof (cases "worker_of bw k = w")
    case True
    then show ?thesis using assms(3,4) by (simp add: bw' bw_view_def worker_of_def env bw_wf_def map_add_def)
  next
    case neq: False
    then have "fmlookup (bw_buffers bw ! w) k = None" using assms(3,4) by (fastforce simp: bw_wf_def)
    with neq show ?thesis
      by (simp add: bw' bw_view_def worker_of_def env map_add_def split: option.splits)
  qed
  ultimately show ?thesis by blast
qed

lemma request_view:
  assumes "mdbx_laws M db" "reliable M" "bw_wf bw" "w < bw_workers bw"
    and "\<And>k v rest. bw_channels bw ! w = (k, v) # rest \<Longrightarrow> ranges order (fmupd k v (bw_buffers bw ! w))"
  shows "bw_wf (worker_request M order w bw) \<and> bw_view db (worker_request M order w bw) = bw_view db bw"
proof (cases "bw_channels bw ! w")
  case Nil
  then show ?thesis using assms(3) by (simp add: worker_request_def)
next
  case (Cons r rest)
  obtain k v where r: "r = (k, v)" by (cases r)
  define bw1 where "bw1 = bw\<lparr>bw_channels := (bw_channels bw)[w := rest],
    bw_buffers := (bw_buffers bw)[w := fmupd k v (bw_buffers bw ! w)]\<rparr>"
  have len: "length (bw_channels bw) = bw_workers bw" "length (bw_buffers bw) = bw_workers bw"
    using assms(3) by (simp_all add: bw_wf_def)
  have wk: "worker_of bw k = w" using assms(3,4) Cons r by (force simp: bw_wf_def)
  have wf: "bw_wf bw1"
    unfolding bw_wf_def
  proof (intro conjI allI impI)
    fix x assume x: "x < bw_workers bw1"
    have old: "\<forall>k \<in> dom (fmlookup (bw_buffers bw ! x)). worker_of bw k = x"
      "\<forall>k \<in> fst ` set (bw_channels bw ! x). worker_of bw k = x"
      using assms(3) x by (simp_all add: bw_wf_def bw1_def)
    show "\<forall>k \<in> dom (fmlookup (bw_buffers bw1 ! x)). worker_of bw1 k = x"
      using old wk len x by (cases "x = w") (auto simp: bw1_def worker_of_def)
    show "\<forall>k \<in> fst ` set (bw_channels bw1 ! x). worker_of bw1 k = x"
      using old len x Cons by (cases "x = w") (auto simp: bw1_def worker_of_def)
  qed (use len in \<open>simp_all add: bw1_def\<close>)
  moreover have view: "bw_view db bw1 = bw_view db bw"
  proof
    fix x show "bw_view db bw1 x = bw_view db bw x"
      using len assms(4) Cons r wk
      by (cases "worker_of bw x = w") (auto simp: bw_view_def bw1_def worker_of_def map_add_def split: option.splits)
  qed
  moreover have "ranges order (bw_buffers bw1 ! w)"
    using assms(5) [OF Cons [unfolded r]] len assms(4) by (simp add: bw1_def)
  moreover have "worker_request M order w bw =
      (if int (fmlen (fmupd k v (bw_buffers bw ! w))) \<ge> bw_maxBatchSize bw
       then BatchWriter_flush M order w bw1 else bw1)"
    by (simp add: worker_request_def Cons r bw1_def Let_def)
  ultimately show ?thesis
    using flush_view [OF assms(1,2) wf] assms(4) by (simp add: bw1_def)
qed

lemma BufferWrite_view:
  assumes "bw_wf bw" "BatchWriter_BufferWrite k v bw = Inr (Some bw')"
  shows "bw_wf bw' \<and> bw_view db bw' = (bw_view db bw)(k \<mapsto> v)"
proof -
  let ?w = "worker_of bw k"
  have bw': "bw' = bw\<lparr>bw_channels := (bw_channels bw)[?w := bw_channels bw ! ?w @ [(k, v)]]\<rparr>"
    and pos: "bw_workers bw > 0"
    using assms(2) by (auto simp: BatchWriter_BufferWrite_def Let_def worker_of_def split: if_splits)
  have len: "length (bw_channels bw) = bw_workers bw" "?w < bw_workers bw"
    using assms(1) pos by (simp_all add: bw_wf_def worker_of_def)
  have "bw_view db bw' x = ((bw_view db bw)(k \<mapsto> v)) x" for x
    using len by (cases "worker_of bw x = ?w") (auto simp: bw' bw_view_def worker_of_def map_add_def)
  moreover have "bw_wf bw'"
    using assms(1) len unfolding bw_wf_def bw'
    by (auto simp: worker_of_def nth_list_update)
  ultimately show ?thesis by blast
qed

lemma keys_with_prefix:
  assumes "cursor_laws M db" "\<And>n. ctx_done n = None"
  shows "Db_ListKeysWithPrefix M ctx_done pre e =
    Some (Inr (filter (prefix (go_bytes pre)) (sorted_list_of_set (dom (db e)))))"
proof (cases "dropWhile (\<lambda>k. k < go_bytes pre) (keys_of (db e))")
  case Nil
  then have "filter (prefix (go_bytes pre)) (keys_of (db e)) = []"
    by (metis takeWhile_prefix_sorted [OF keys_of_sorted(1)] takeWhile.simps(1))
  moreover have "cursor_SetRange M (go_bytes pre) e = Inl mdbx_ErrNotFound"
    using assms(1) Nil unfolding cursor_laws_def by (simp del: dropWhile_eq_Nil_conv)
  ultimately show ?thesis
    using assms(1) by (simp add: Db_ListKeysWithPrefix_def cursor_laws_def flip: keys_of_def)
next
  case (Cons k vs)
  then obtain us where "keys_of (db e) = us @ k # vs"
    by (metis takeWhile_dropWhile_id)
  from list_keys_loop_scan [OF assms this, where p = "go_bytes pre" and n = 0 and acc = "[]"] Cons
    takeWhile_prefix_sorted [OF keys_of_sorted(1), of "go_bytes pre" "db e"] assms(1)
  show ?thesis by (simp add: Db_ListKeysWithPrefix_def cursor_laws_def flip: keys_of_def)
qed

section \<open>Properties\<close>

text \<open>
  \<open>ListKeysWithPrefix\<close> returns, and what it returns is exactly the keys with the prefix, each
  once and in lexicographic order, as long as the context is not cancelled.
\<close>

theorem ListKeysWithPrefix_exact:
  assumes "cursor_laws M db" "\<And>n. ctx_done n = None"
  shows "Db_ListKeysWithPrefix M ctx_done pre e =
    Some (Inr (filter (prefix (go_bytes pre)) (sorted_list_of_set (dom (db e)))))"
  using assms by (rule keys_with_prefix)

theorem ListKeysWithPrefix_exact_witness:
  "Db_ListKeysWithPrefix mem_mdbx (\<lambda>_. None) ''a'' (fmupd (go_bytes ''ab'') [1] (fmupd (go_bytes ''b'') [2] fmempty)) =
     Some (Inr (filter (prefix (go_bytes ''a''))
       (sorted_list_of_set {go_bytes ''ab'', go_bytes ''b''})))"
proof -
  let ?e = "fmupd (go_bytes ''ab'') [1] (fmupd (go_bytes ''b'') [2] fmempty) :: (bytes, bytes) fmap"
  have "dom (fmlookup ?e) = {go_bytes ''ab'', go_bytes ''b''}" by auto
  with ListKeysWithPrefix_exact [OF mem_mdbx_cursor_laws, of "\<lambda>_. None" "''a''" ?e] show ?thesis by simp
qed

text \<open>
  \<open>Db\<close> over a lawful MDBX behaves as a map: after a successful \<open>Set\<close> the key reads back as the value
  written and every other key is unchanged, after a failed one nothing has changed, and
  \<open>Exists\<close> agrees with \<open>Get\<close>.
\<close>

theorem Db_Set_Get:
  assumes "mdbx_laws M db" "Db_Set M k v e = (r, e')"
  shows "Db_Get M k' e' = (if r = None \<and> k' = k then Inr v else Db_Get M k' e) \<and>
    Db_Exists M k' e' = Inr (\<exists>x. Db_Get M k' e' = Inr x)"
proof -
  note P = mdbx_store_kv_provider_laws [OF assms(1)]
  have "Db_Exists M k' e' = Inr (\<exists>x. Db_Get M k' e' = Inr x)"
    using kv_provider.exists_iff_get [OF P, of k' e'] Db_Exists_view [OF assms(1), of k' e'] by auto
  moreover have "Db_Get M k' e' = (if r = None \<and> k' = k then Inr v else Db_Get M k' e)"
    using kv_provider.get_set_same [OF P, of k v e e'] kv_provider.get_set_other [OF P, of k' k v e]
      kv_provider.get_set_failed [OF P, of k v e _ e' k'] assms(2) by (cases r) auto
  ultimately show ?thesis by simp
qed

theorem Db_Set_Get_witness:
  "Db_Get mem_mdbx [1] (snd (Db_Set mem_mdbx [1] [9] fmempty)) = Inr [9]"
proof -
  have "Db_Set mem_mdbx [1] [9] fmempty = (None, fmupd [1] [9] fmempty)"
    by (simp add: Db_Set_def mem_mdbx_def)
  with Db_Set_Get [OF mem_mdbx_laws this, of "[1]"] show ?thesis by simp
qed

text \<open>
  C10: Over an MDBX whose writes succeed the batch writer is a map: \<open>BufferWrite\<close> updates it at the key,
  and neither a worker taking a request nor a flush changes it, whatever the order in which the
  buffer is iterated.
\<close>

theorem batch_writer_refines_map:
  assumes "mdbx_laws M db" "reliable M" "bw_wf bw"
  shows "(BatchWriter_BufferWrite k v bw = Inr (Some bw') \<longrightarrow>
      bw_wf bw' \<and> bw_view db bw' = (bw_view db bw)(k \<mapsto> v)) \<and>
    (w < bw_workers bw \<and> ranges order (bw_buffers bw ! w) \<longrightarrow>
      bw_wf (BatchWriter_flush M order w bw) \<and> bw_view db (BatchWriter_flush M order w bw) = bw_view db bw) \<and>
    (w < bw_workers bw \<and>
      (\<forall>k v rest. bw_channels bw ! w = (k, v) # rest \<longrightarrow> ranges order (fmupd k v (bw_buffers bw ! w))) \<longrightarrow>
      bw_wf (worker_request M order w bw) \<and> bw_view db (worker_request M order w bw) = bw_view db bw)"
  using BufferWrite_view flush_view [OF assms] request_view [OF assms] assms(3) by blast

lemma mem_mdbx_reliable: "reliable mem_mdbx"
  by (auto simp: reliable_def mem_mdbx_def)

definition sample_writer :: "(bytes, bytes) fmap batch_writer" where
  "sample_writer = \<lparr>bw_channels = [[]], bw_buffers = [fmupd [1] [9] fmempty], bw_maxBatchSize = 10,
     bw_workers = 1, bw_env = fmempty\<rparr>"

theorem batch_writer_refines_map_witness:
  "bw_view fmlookup (BatchWriter_flush mem_mdbx [[1]] 0 sample_writer) [1] = Some [9]"
proof -
  have "bw_wf sample_writer" "ranges [[1]] (bw_buffers sample_writer ! 0)" "0 < bw_workers sample_writer"
    by (auto simp: bw_wf_def sample_writer_def worker_of_def ranges_def)
  then have "bw_view fmlookup (BatchWriter_flush mem_mdbx [[1]] 0 sample_writer) = bw_view fmlookup sample_writer"
    using batch_writer_refines_map [OF mem_mdbx_laws mem_mdbx_reliable] by blast
  then show ?thesis by (simp add: bw_view_def worker_of_def sample_writer_def map_add_def)
qed

text \<open>
  A flush whose transaction fails loses the buffered writes: the buffer is cleared although the
  store is unchanged.
\<close>

theorem failed_flush_loses_writes:
  assumes "mdbx_laws M db" "w < length (bw_buffers bw)" "bw_buffers bw ! w \<noteq> fmempty"
    and "txn_OpenCursor M (bw_env bw) = Some err"
  shows "db (bw_env (BatchWriter_flush M order w bw)) = db (bw_env bw) \<and>
    bw_buffers (BatchWriter_flush M order w bw) ! w = fmempty"
proof -
  define f where "f = (\<lambda>txn. case txn_OpenCursor M txn of
      Some err \<Rightarrow> (Some (wrap_error ''failed to open cursor'' err), txn)
    | None \<Rightarrow> put_all M order (bw_buffers bw ! w) txn)"
  have "f (bw_env bw) = (Some (wrap_error ''failed to open cursor'' err), bw_env bw)"
    using assms(4) by (simp add: f_def)
  then have "db (snd (env_Update M f (bw_env bw))) = db (bw_env bw)"
    using assms(1) unfolding mdbx_laws_def by blast
  with assms(2,3) show ?thesis
    by (simp add: BatchWriter_flush_def Let_def case_prod_beta flip: f_def)
qed

theorem failed_flush_loses_writes_witness:
  "bw_view fmlookup (BatchWriter_flush (mem_mdbx\<lparr>txn_OpenCursor := \<lambda>_. Some EOF\<rparr>) [[1]] 0 sample_writer) [1] = None"
proof -
  let ?M = "mem_mdbx\<lparr>txn_OpenCursor := \<lambda>_. Some EOF\<rparr>"
  let ?bw = "BatchWriter_flush ?M [[1]] 0 sample_writer"
  have "mdbx_laws ?M fmlookup" using mem_mdbx_laws by (simp add: mdbx_laws_def)
  moreover have ne: "fmupd [1] [9] fmempty \<noteq> (fmempty :: (bytes, bytes) fmap)"
    by (metis fmempty_lookup fmupd_lookup option.distinct(1))
  ultimately have "fmlookup (bw_env ?bw) = fmlookup (bw_env sample_writer) \<and> bw_buffers ?bw ! 0 = fmempty"
    by (intro failed_flush_loses_writes [where err = EOF]) (simp_all add: sample_writer_def)
  moreover have "bw_channels ?bw = [[]]" "bw_workers ?bw = 1"
    using ne by (simp_all add: BatchWriter_flush_def sample_writer_def Let_def case_prod_beta)
  ultimately show ?thesis by (simp add: bw_view_def worker_of_def sample_writer_def map_add_def)
qed

end
