(* ===== verification/Signatures.thy ===== *)
theory Signatures
  imports Core_Types
begin

text \<open>
  \<open>pkg/signatures\<close>: the \<open>Signer\<close> interface and its Ed25519 and BLS implementations.  The cryptography is
  in third-party libraries, so their operations are the fields of the records \<open>ed25519_lib\<close> and \<open>bls_lib\<close>;
  the sources' own code (the checks, the hashing of the message, the key handling) is modelled around them.
\<close>

section \<open>The Signer interface\<close>

record signer =
  sg_Type :: signer_type
  sg_Sign :: "bytes \<Rightarrow> bytes result"
  sg_Verify :: "bytes \<Rightarrow> bytes \<Rightarrow> bool \<times> go_error option"

section \<open>Ed25519\<close>

record ed25519_lib =
  ed_GenerateKey :: "(bytes \<times> bytes) result"
  ed_Sign :: "bytes \<Rightarrow> bytes \<Rightarrow> bytes result"
  ed_Verify :: "bytes \<Rightarrow> bytes \<Rightarrow> bytes \<Rightarrow> bool"

definition ed_PrivateKeySize :: nat where "ed_PrivateKeySize = 64"
definition ed_PublicKeySize :: nat where "ed_PublicKeySize = 32"
definition ed_SignatureSize :: nat where "ed_SignatureSize = 64"

lemmas ed_sizes = ed_PrivateKeySize_def ed_PublicKeySize_def ed_SignatureSize_def

text \<open>A nil key is \<open>None\<close>.\<close>

record ed25519_key_pair =
  ek_PrivateKey :: "bytes option"
  ek_PublicKey :: "bytes option"

definition Ed25519_GenerateKey ::
  "ed25519_lib \<Rightarrow> ed25519_key_pair \<Rightarrow> go_error option \<times> ed25519_key_pair" where
  "Ed25519_GenerateKey L kp =
     (case ed_GenerateKey L of
        Inl err \<Rightarrow> (Some (wrap_error ''failed to generate Ed25519 key pair'' err), kp)
      | Inr (publicKey, privateKey) \<Rightarrow>
          (None, kp\<lparr>ek_PrivateKey := Some privateKey, ek_PublicKey := Some publicKey\<rparr>))"

definition Ed25519_SerializePrivate :: "ed25519_key_pair \<Rightarrow> bytes result" where
  "Ed25519_SerializePrivate kp =
     (case ek_PrivateKey kp of None \<Rightarrow> Inl (ErrorS ''private key is nil'') | Some k \<Rightarrow> Inr k)"

definition Ed25519_SerializePublic :: "ed25519_key_pair \<Rightarrow> bytes result" where
  "Ed25519_SerializePublic kp =
     (case ek_PublicKey kp of None \<Rightarrow> Inl (ErrorS ''public key is nil'') | Some k \<Rightarrow> Inr k)"

definition Ed25519_DeserializePrivate :: "bytes \<Rightarrow> ed25519_key_pair \<Rightarrow> ed25519_key_pair result" where
  "Ed25519_DeserializePrivate data kp =
     (if length data \<noteq> ed_PrivateKeySize then Inl (ErrorS ''invalid private key data'')
      else Inr (kp\<lparr>ek_PrivateKey := Some data, ek_PublicKey := Some (drop 32 data)\<rparr>))"

definition Ed25519_DeserializePublic :: "bytes \<Rightarrow> ed25519_key_pair \<Rightarrow> ed25519_key_pair result" where
  "Ed25519_DeserializePublic data kp =
     (if length data \<noteq> ed_PublicKeySize then Inl (ErrorS ''invalid public key data'')
      else Inr (kp\<lparr>ek_PublicKey := Some data\<rparr>))"

definition NewEd25519Signer :: "ed25519_lib \<Rightarrow> ed25519_key_pair result" where
  "NewEd25519Signer L =
     (case Ed25519_GenerateKey L \<lparr>ek_PrivateKey = None, ek_PublicKey = None\<rparr> of
        (Some err, _) \<Rightarrow> Inl err
      | (None, kp) \<Rightarrow> Inr kp)"

definition NewEd25519SignerWithKeys :: "bytes \<Rightarrow> bytes \<Rightarrow> ed25519_key_pair result" where
  "NewEd25519SignerWithKeys privateKeyData publicKeyData =
     bindE (Ed25519_DeserializePrivate privateKeyData \<lparr>ek_PrivateKey = None, ek_PublicKey = None\<rparr>) (\<lambda>kp.
     Ed25519_DeserializePublic publicKeyData kp)"

definition Ed25519Signer_Sign :: "ed25519_lib \<Rightarrow> ed25519_key_pair \<Rightarrow> bytes \<Rightarrow> bytes result" where
  "Ed25519Signer_Sign L kp data =
     (case ek_PrivateKey kp of
        None \<Rightarrow> Inl (ErrorS ''private key is nil'')
      | Some k \<Rightarrow>
          if length data = 0 then Inl (ErrorS ''data to sign is empty'')
          else ed_Sign L k (sha256_Sum256 data))"

definition Ed25519Signer_Verify ::
  "ed25519_lib \<Rightarrow> ed25519_key_pair \<Rightarrow> bytes \<Rightarrow> bytes \<Rightarrow> bool \<times> go_error option" where
  "Ed25519Signer_Verify L kp data signature =
     (case ek_PublicKey kp of
        None \<Rightarrow> (False, Some (ErrorS ''public key is nil''))
      | Some k \<Rightarrow>
          if length data = 0 then (False, Some (ErrorS ''data to verify is empty''))
          else if length signature \<noteq> ed_SignatureSize then (False, Some (ErrorS ''invalid signature''))
          else (ed_Verify L k (sha256_Sum256 data) signature, None))"

definition Ed25519_signer :: "ed25519_lib \<Rightarrow> ed25519_key_pair \<Rightarrow> signer" where
  "Ed25519_signer L kp = \<lparr>sg_Type = Ed25519SignerType, sg_Sign = Ed25519Signer_Sign L kp,
     sg_Verify = Ed25519Signer_Verify L kp\<rparr>"

section \<open>BLS\<close>

record ('sk, 'pk, 'sg) bls_lib =
  bls_Init :: "go_error option"
  bls_new_SecretKey :: 'sk
  bls_new_PublicKey :: 'pk
  bls_new_Sign :: 'sg
  sk_SetByCSPRNG :: "'sk \<Rightarrow> 'sk"
  sk_GetPublicKey :: "'sk \<Rightarrow> 'pk"
  sk_Serialize :: "'sk \<Rightarrow> bytes"
  sk_Deserialize :: "bytes \<Rightarrow> 'sk \<Rightarrow> go_error option \<times> 'sk"
  pk_Serialize :: "'pk \<Rightarrow> bytes"
  pk_Deserialize :: "bytes \<Rightarrow> 'pk \<Rightarrow> go_error option \<times> 'pk"
  sk_SignHash :: "'sk \<Rightarrow> bytes \<Rightarrow> 'sg"
  sg_Serialize :: "'sg \<Rightarrow> bytes"
  sg_Deserialize :: "bytes \<Rightarrow> 'sg \<Rightarrow> go_error option \<times> 'sg"
  sg_VerifyHash :: "'sg \<Rightarrow> 'pk \<Rightarrow> bytes \<Rightarrow> bool"
  sg_Add :: "'sg \<Rightarrow> 'sg \<Rightarrow> 'sg"

record ('sk, 'pk) bls_key_pair =
  bk_PrivateKey :: "'sk option"
  bk_PublicKey :: "'pk option"

definition BLS_GenerateKey ::
  "('sk, 'pk, 'sg) bls_lib \<Rightarrow> ('sk, 'pk) bls_key_pair \<Rightarrow> go_error option \<times> ('sk, 'pk) bls_key_pair" where
  "BLS_GenerateKey L kp =
     (case bls_Init L of
        Some err \<Rightarrow> (Some (wrap_error ''failed to initialize BLS library'' err), kp)
      | None \<Rightarrow>
          let sk = sk_SetByCSPRNG L (bls_new_SecretKey L)
          in (None, kp\<lparr>bk_PrivateKey := Some sk, bk_PublicKey := Some (sk_GetPublicKey L sk)\<rparr>))"

definition BLS_SerializePrivate :: "('sk, 'pk, 'sg) bls_lib \<Rightarrow> ('sk, 'pk) bls_key_pair \<Rightarrow> bytes result" where
  "BLS_SerializePrivate L kp =
     (case bk_PrivateKey kp of None \<Rightarrow> Inl (ErrorS ''private key is nil'') | Some k \<Rightarrow> Inr (sk_Serialize L k))"

definition BLS_SerializePublic :: "('sk, 'pk, 'sg) bls_lib \<Rightarrow> ('sk, 'pk) bls_key_pair \<Rightarrow> bytes result" where
  "BLS_SerializePublic L kp =
     (case bk_PublicKey kp of None \<Rightarrow> Inl (ErrorS ''public key is nil'') | Some k \<Rightarrow> Inr (pk_Serialize L k))"

definition BLS_DeserializePrivate ::
  "('sk, 'pk, 'sg) bls_lib \<Rightarrow> bytes \<Rightarrow> ('sk, 'pk) bls_key_pair \<Rightarrow> go_error option \<times> ('sk, 'pk) bls_key_pair" where
  "BLS_DeserializePrivate L data kp =
     (if length data = 0 then (Some (ErrorS ''private key data is empty''), kp)
      else
        let sk = (case bk_PrivateKey kp of None \<Rightarrow> bls_new_SecretKey L | Some sk \<Rightarrow> sk)
        in case sk_Deserialize L data sk of
             (Some err, sk') \<Rightarrow>
               (Some (wrap_error ''failed to deserialize private key'' err), kp\<lparr>bk_PrivateKey := Some sk'\<rparr>)
           | (None, sk') \<Rightarrow>
               (None, kp\<lparr>bk_PrivateKey := Some sk', bk_PublicKey := Some (sk_GetPublicKey L sk')\<rparr>))"

definition BLS_DeserializePublic ::
  "('sk, 'pk, 'sg) bls_lib \<Rightarrow> bytes \<Rightarrow> ('sk, 'pk) bls_key_pair \<Rightarrow> go_error option \<times> ('sk, 'pk) bls_key_pair" where
  "BLS_DeserializePublic L data kp =
     (if length data = 0 then (Some (ErrorS ''public key data is empty''), kp)
      else
        let pk = (case bk_PublicKey kp of None \<Rightarrow> bls_new_PublicKey L | Some pk \<Rightarrow> pk)
        in case pk_Deserialize L data pk of
             (Some err, pk') \<Rightarrow>
               (Some (wrap_error ''failed to deserialize public key'' err), kp\<lparr>bk_PublicKey := Some pk'\<rparr>)
           | (None, pk') \<Rightarrow> (None, kp\<lparr>bk_PublicKey := Some pk'\<rparr>))"

definition NewBLSSigner :: "('sk, 'pk, 'sg) bls_lib \<Rightarrow> ('sk, 'pk) bls_key_pair result" where
  "NewBLSSigner L =
     (case BLS_GenerateKey L \<lparr>bk_PrivateKey = None, bk_PublicKey = None\<rparr> of
        (Some err, _) \<Rightarrow> Inl err
      | (None, kp) \<Rightarrow> Inr kp)"

definition NewBLSSignerWithKeys ::
  "('sk, 'pk, 'sg) bls_lib \<Rightarrow> bytes \<Rightarrow> bytes \<Rightarrow> ('sk, 'pk) bls_key_pair result" where
  "NewBLSSignerWithKeys L privateKeyData publicKeyData =
     (case BLS_DeserializePrivate L privateKeyData \<lparr>bk_PrivateKey = None, bk_PublicKey = None\<rparr> of
        (Some err, _) \<Rightarrow> Inl err
      | (None, kp) \<Rightarrow>
          (case BLS_DeserializePublic L publicKeyData kp of
             (Some err, _) \<Rightarrow> Inl err
           | (None, kp) \<Rightarrow> Inr kp))"

definition BLSSigner_Sign :: "('sk, 'pk, 'sg) bls_lib \<Rightarrow> ('sk, 'pk) bls_key_pair \<Rightarrow> bytes \<Rightarrow> bytes result" where
  "BLSSigner_Sign L kp data =
     (case bk_PrivateKey kp of
        None \<Rightarrow> Inl (ErrorS ''private key is nil'')
      | Some sk \<Rightarrow>
          if length data = 0 then Inl (ErrorS ''data to sign is empty'')
          else Inr (sg_Serialize L (sk_SignHash L sk (sha256_Sum256 data))))"

definition BLSSigner_Verify ::
  "('sk, 'pk, 'sg) bls_lib \<Rightarrow> ('sk, 'pk) bls_key_pair \<Rightarrow> bytes \<Rightarrow> bytes \<Rightarrow> bool \<times> go_error option" where
  "BLSSigner_Verify L kp data signature =
     (case bk_PublicKey kp of
        None \<Rightarrow> (False, Some (ErrorS ''public key is nil''))
      | Some pk \<Rightarrow>
          if length data = 0 then (False, Some (ErrorS ''data to verify is empty''))
          else if length signature = 0 then (False, Some (ErrorS ''signature is empty''))
          else
            (case sg_Deserialize L signature (bls_new_Sign L) of
               (Some err, _) \<Rightarrow> (False, Some (wrap_error ''failed to deserialize signature'' err))
             | (None, sig) \<Rightarrow> (sg_VerifyHash L sig pk (sha256_Sum256 data), None)))"

definition BLS_signer :: "('sk, 'pk, 'sg) bls_lib \<Rightarrow> ('sk, 'pk) bls_key_pair \<Rightarrow> signer" where
  "BLS_signer L kp = \<lparr>sg_Type = BlsSignerType, sg_Sign = BLSSigner_Sign L kp, sg_Verify = BLSSigner_Verify L kp\<rparr>"

fun aggregate_loop :: "('sk, 'pk, 'sg) bls_lib \<Rightarrow> bytes list \<Rightarrow> 'sg \<Rightarrow> 'sg result" where
  "aggregate_loop L [] aggSig = Inr aggSig"
| "aggregate_loop L (sigBytes # rest) aggSig =
     (if length sigBytes = 0 then Inl (ErrorS ''one of the signatures is empty'')
      else case sg_Deserialize L sigBytes (bls_new_Sign L) of
             (Some err, _) \<Rightarrow> Inl (wrap_error ''failed to deserialize signature'' err)
           | (None, s) \<Rightarrow> aggregate_loop L rest (sg_Add L aggSig s))"

definition AggregateSignatures :: "('sk, 'pk, 'sg) bls_lib \<Rightarrow> bytes list \<Rightarrow> bytes result" where
  "AggregateSignatures L signatures =
     (if length signatures = 0 then Inl (ErrorS ''no signatures to aggregate'')
      else bindE (aggregate_loop L signatures (bls_new_Sign L)) (\<lambda>aggSig. Inr (sg_Serialize L aggSig)))"

section \<open>What the libraries promise\<close>

definition ed25519_laws :: "ed25519_lib \<Rightarrow> bool" where
  "ed25519_laws L \<longleftrightarrow>
     (\<forall>sk m. length sk = 64 \<longrightarrow> (\<exists>s. ed_Sign L sk m = Inr s \<and> length s = 64 \<and> ed_Verify L (drop 32 sk) m s))"

definition bls_laws :: "('sk, 'pk, 'sg) bls_lib \<Rightarrow> bool" where
  "bls_laws L \<longleftrightarrow>
     (\<forall>sk h. sg_VerifyHash L (sk_SignHash L sk h) (sk_GetPublicKey L sk) h) \<and>
     (\<forall>s x. sg_Serialize L s \<noteq> [] \<and> sg_Deserialize L (sg_Serialize L s) x = (None, s)) \<and>
     (\<forall>k x. sk_Serialize L k \<noteq> [] \<and> sk_Deserialize L (sk_Serialize L k) x = (None, k)) \<and>
     (\<forall>k x. pk_Serialize L k \<noteq> [] \<and> pk_Deserialize L (pk_Serialize L k) x = (None, k))"

section \<open>The contract of a signer\<close>

text \<open>
  What the clients (accounts, consensus) rely on: an empty message is neither signed nor verified, and
  what \<open>Sign\<close> returns \<open>Verify\<close> accepts.
\<close>

locale signing =
  fixes sg :: signer
  assumes sign_empty: "\<exists>e. sg_Sign sg [] = Inl e \<and> \<not> is_panic e"
    and verify_empty: "\<not> fst (sg_Verify sg [] s)"
    and sign_verifies: "data \<noteq> [] \<Longrightarrow> \<exists>s. sg_Sign sg data = Inr s \<and> sg_Verify sg data s = (True, None)"
begin

lemma signed_verifies: "sg_Sign sg data = Inr s \<Longrightarrow> sg_Verify sg data s = (True, None)"
  using sign_empty sign_verifies [of data] by (cases "data = []") auto

lemma sign_safe: "\<not> panics (sg_Sign sg data)"
  using sign_empty sign_verifies [of data] by (cases "data = []") (auto simp: panics_def)

end

locale ed25519_keys =
  fixes L :: ed25519_lib and sk :: bytes and kp :: ed25519_key_pair
  assumes laws: "ed25519_laws L" and sk_size: "length sk = 64"
    and pair: "kp = \<lparr>ek_PrivateKey = Some sk, ek_PublicKey = Some (drop 32 sk)\<rparr>"

sublocale ed25519_keys \<subseteq> signing "Ed25519_signer L kp"
proof
  fix data :: bytes assume "data \<noteq> []"
  then show "\<exists>s. sg_Sign (Ed25519_signer L kp) data = Inr s \<and> sg_Verify (Ed25519_signer L kp) data s = (True, None)"
    using laws sk_size pair unfolding ed25519_laws_def
    by (auto simp: Ed25519_signer_def Ed25519Signer_Sign_def Ed25519Signer_Verify_def ed_sizes)
qed (use laws sk_size pair in \<open>auto simp: Ed25519_signer_def Ed25519Signer_Sign_def Ed25519Signer_Verify_def\<close>)

context ed25519_keys
begin

lemmas ed25519_keys_signing = signing_axioms

end

lemmas ed25519_keys_signing_laws = ed25519_keys.ed25519_keys_signing [OF ed25519_keys.intro]

locale bls_keys =
  fixes L :: "('sk, 'pk, 'sg) bls_lib" and sk :: 'sk and kp :: "('sk, 'pk) bls_key_pair"
  assumes laws: "bls_laws L"
    and pair: "kp = \<lparr>bk_PrivateKey = Some sk, bk_PublicKey = Some (sk_GetPublicKey L sk)\<rparr>"

sublocale bls_keys \<subseteq> signing "BLS_signer L kp"
proof
  fix data :: bytes assume "data \<noteq> []"
  then show "\<exists>s. sg_Sign (BLS_signer L kp) data = Inr s \<and> sg_Verify (BLS_signer L kp) data s = (True, None)"
    using laws pair unfolding bls_laws_def
    by (auto simp: BLS_signer_def BLSSigner_Sign_def BLSSigner_Verify_def)
qed (use laws pair in \<open>auto simp: BLS_signer_def BLSSigner_Sign_def BLSSigner_Verify_def\<close>)

context bls_keys
begin

lemmas bls_keys_signing = signing_axioms

end

lemmas bls_keys_signing_laws = bls_keys.bls_keys_signing [OF bls_keys.intro]

text \<open>
  A stand-in for the BLS library that satisfies its laws (the signature is the key and the hash), to
  instantiate the parameter.
\<close>

definition plain_bls :: "(bytes, bytes, bytes) bls_lib" where
  "plain_bls = \<lparr>bls_Init = None, bls_new_SecretKey = [], bls_new_PublicKey = [], bls_new_Sign = [],
     sk_SetByCSPRNG = (\<lambda>_. [1]), sk_GetPublicKey = (\<lambda>sk. sk), sk_Serialize = (\<lambda>sk. 0 # sk),
     sk_Deserialize = (\<lambda>d _. (None, tl d)), pk_Serialize = (\<lambda>pk. 0 # pk),
     pk_Deserialize = (\<lambda>d _. (None, tl d)), sk_SignHash = (\<lambda>sk h. sk @ h), sg_Serialize = (\<lambda>s. 0 # s),
     sg_Deserialize = (\<lambda>d _. (None, tl d)), sg_VerifyHash = (\<lambda>s pk h. s = pk @ h), sg_Add = (@)\<rparr>"

lemma plain_bls_laws: "bls_laws plain_bls"
  by (simp add: bls_laws_def plain_bls_def)

definition plain_signer :: signer where
  "plain_signer = BLS_signer plain_bls \<lparr>bk_PrivateKey = Some [1], bk_PublicKey = Some [1]\<rparr>"

interpretation plain_keys: bls_keys plain_bls "[1]" "\<lparr>bk_PrivateKey = Some [1], bk_PublicKey = Some [1]\<rparr>"
  by unfold_locales (rule plain_bls_laws, simp add: plain_bls_def)

lemmas plain_sign_verifies = plain_keys.sign_verifies [folded plain_signer_def]
lemmas plain_sign_safe = plain_keys.sign_safe [folded plain_signer_def]

definition plain_ed25519 :: ed25519_lib where
  "plain_ed25519 = \<lparr>ed_GenerateKey = Inl EOF, ed_Sign = \<lambda>sk m. Inr (copy_array 64 m),
     ed_Verify = \<lambda>pk m s. s = copy_array 64 m\<rparr>"

lemma plain_ed25519_laws: "ed25519_laws plain_ed25519"
  by (simp add: ed25519_laws_def plain_ed25519_def)

interpretation plain_ed_keys: ed25519_keys plain_ed25519 "replicate 64 0"
    "\<lparr>ek_PrivateKey = Some (replicate 64 0), ek_PublicKey = Some (drop 32 (replicate 64 0))\<rparr>"
  by unfold_locales (simp_all add: plain_ed25519_laws)

section \<open>Loading a stored key pair\<close>

lemma BLS_pair_loads:
  assumes "bls_laws L" "bk_PrivateKey kp = Some sk" "bk_PublicKey kp = Some pk"
    "BLS_SerializePrivate L kp = Inr skb" "BLS_SerializePublic L kp = Inr pkb"
  shows "NewBLSSignerWithKeys L skb pkb = Inr kp"
  using assms
  by (auto simp: NewBLSSignerWithKeys_def BLS_DeserializePrivate_def BLS_DeserializePublic_def
      BLS_SerializePrivate_def BLS_SerializePublic_def bls_laws_def)

lemma Ed25519_pair_loads:
  assumes "ek_PrivateKey kp = Some sk" "length sk = 64" "ek_PublicKey kp = Some pk" "length pk = 32"
  shows "NewEd25519SignerWithKeys sk pk = Inr kp"
  using assms
  by (simp add: NewEd25519SignerWithKeys_def Ed25519_DeserializePrivate_def Ed25519_DeserializePublic_def ed_sizes)

section \<open>Properties\<close>

text \<open>
  A BLS signer created with generated keys, stored with \<open>SerializePrivate\<close>/\<open>SerializePublic\<close> and
  loaded again with \<open>NewBLSSignerWithKeys\<close> is the same signer, and every signature it makes over a
  nonempty message verifies.
\<close>

theorem BLS_signer_persists:
  assumes "bls_laws L" "NewBLSSigner L = Inr kp" "BLS_SerializePrivate L kp = Inr skb"
    "BLS_SerializePublic L kp = Inr pkb"
  shows "NewBLSSignerWithKeys L skb pkb = Inr kp \<and>
    (\<forall>data. data \<noteq> [] \<longrightarrow> (\<exists>s. BLSSigner_Sign L kp data = Inr s \<and> BLSSigner_Verify L kp data s = (True, None)))"
proof -
  obtain sk where kp: "kp = \<lparr>bk_PrivateKey = Some sk, bk_PublicKey = Some (sk_GetPublicKey L sk)\<rparr>"
    using assms(2) by (auto simp: NewBLSSigner_def BLS_GenerateKey_def Let_def split: option.splits)
  with assms have "NewBLSSignerWithKeys L skb pkb = Inr kp" by (auto intro: BLS_pair_loads)
  moreover have "\<forall>data. data \<noteq> [] \<longrightarrow>
      (\<exists>s. BLSSigner_Sign L kp data = Inr s \<and> BLSSigner_Verify L kp data s = (True, None))"
    using signing.sign_verifies [OF bls_keys_signing_laws [OF assms(1) kp]] by (simp add: BLS_signer_def)
  ultimately show ?thesis by blast
qed

theorem BLS_signer_persists_witness:
  "NewBLSSignerWithKeys plain_bls [0, 1] [0, 1] = NewBLSSigner plain_bls"
proof -
  let ?kp = "\<lparr>bk_PrivateKey = Some [1], bk_PublicKey = Some [1]\<rparr> :: (bytes, bytes) bls_key_pair"
  have new: "NewBLSSigner plain_bls = Inr ?kp"
    by (simp add: NewBLSSigner_def BLS_GenerateKey_def plain_bls_def Let_def)
  moreover have "BLS_SerializePrivate plain_bls ?kp = Inr [0, 1]" "BLS_SerializePublic plain_bls ?kp = Inr [0, 1]"
    by (simp_all add: BLS_SerializePrivate_def BLS_SerializePublic_def plain_bls_def)
  ultimately have "NewBLSSignerWithKeys plain_bls [0, 1] [0, 1] = Inr ?kp"
    using BLS_signer_persists [OF plain_bls_laws] by blast
  then show ?thesis by (simp add: new)
qed

text \<open>
  An Ed25519 signer loaded from a 64-byte private key and the public key inside it signs every
  nonempty message with a signature it verifies; loaded from a public key of another pair, the
  constructor succeeds all the same.
\<close>

theorem Ed25519_signer_correct:
  assumes "ed25519_laws L" "length sk = 64" "length pk = 32"
  shows "\<exists>kp. NewEd25519SignerWithKeys sk pk = Inr kp \<and> ek_PublicKey kp = Some pk \<and>
    (pk = drop 32 sk \<longrightarrow> data \<noteq> [] \<longrightarrow>
       (\<exists>s. Ed25519Signer_Sign L kp data = Inr s \<and> Ed25519Signer_Verify L kp data s = (True, None)))"
proof -
  define kp where "kp = \<lparr>ek_PrivateKey = Some sk, ek_PublicKey = Some pk\<rparr>"
  have "NewEd25519SignerWithKeys sk pk = Inr kp"
    using assms(2,3) by (intro Ed25519_pair_loads) (simp_all add: kp_def)
  moreover have "\<exists>s. Ed25519Signer_Sign L kp data = Inr s \<and> Ed25519Signer_Verify L kp data s = (True, None)"
    if "pk = drop 32 sk" "data \<noteq> []"
    using signing.sign_verifies [OF ed25519_keys_signing_laws [OF assms(1,2)]] that
    by (simp add: Ed25519_signer_def kp_def)
  ultimately show ?thesis by (simp add: kp_def)
qed

theorem Ed25519_signer_correct_witness:
  "\<exists>kp. NewEd25519SignerWithKeys (replicate 64 0) (replicate 32 0) = Inr kp \<and>
    ek_PublicKey kp = Some (replicate 32 0)"
proof -
  from Ed25519_signer_correct [OF plain_ed25519_laws, of "replicate 64 0" "replicate 32 0"] show ?thesis by auto
qed

end
