(* ===== verification/Validators.thy ===== *)
theory Validators
  imports Signatures
begin

text \<open>
  Accounts (\<open>pkg/accounts/account.go\<close>), the utility metrics (\<open>pkg/metrics/collector.go\<close>, \<open>metrics.go\<close>) and
  the validator set of the consensus (\<open>pkg/consensus/validator.go\<close>, \<open>validator_set.go\<close>): membership,
  leader election and the quorum size.  Shown here: the elected leader is a member with the
  highest positive score for every iteration order, and two quorums of the default size meet.
\<close>

section \<open>Accounts\<close>

text \<open>The libp2p keys are kept in their marshalled form; \<open>peer_String\<close> is \<open>peer.ID.String()\<close>.\<close>

record account =
  acc_ID :: string
  acc_Address :: address
  acc_PeerID :: peer_id
  acc_Name :: string
  acc_PeerPrivateKey :: bytes
  acc_PeerPublicKey :: bytes
  acc_Signers :: "(signer_type, signer) fmap"
  acc_Comment :: string

definition NewAccount ::
  "(peer_id \<Rightarrow> string) \<Rightarrow> peer_id \<Rightarrow> bytes \<Rightarrow> bytes \<Rightarrow> (signer_type, signer) fmap \<Rightarrow> string \<Rightarrow> string \<Rightarrow> account"
where
  "NewAccount peer_String peerID peerSk peerPk signers name comment =
     \<lparr>acc_ID = peer_String peerID, acc_Address = ZeroAddress, acc_PeerID = peerID, acc_Name = name,
      acc_PeerPrivateKey = peerSk, acc_PeerPublicKey = peerPk, acc_Signers = signers, acc_Comment = comment\<rparr>"

definition Account_Sign :: "account \<Rightarrow> signer_type \<Rightarrow> bytes \<Rightarrow> bytes result" where
  "Account_Sign a signerType data =
     (case fmlookup (acc_Signers a) signerType of
        None \<Rightarrow> Inl (ErrorS ''signer of type %s not found in account'')
      | Some signer \<Rightarrow> sg_Sign signer data)"

definition Account_Verify :: "account \<Rightarrow> signer_type \<Rightarrow> bytes \<Rightarrow> bytes \<Rightarrow> bool \<times> go_error option" where
  "Account_Verify a signerType data signature =
     (case fmlookup (acc_Signers a) signerType of
        None \<Rightarrow> (False, Some (ErrorS ''signer of type %s not found in account''))
      | Some signer \<Rightarrow> sg_Verify signer data signature)"

section \<open>Metrics\<close>

text \<open>
  Floating-point numbers are any type with the operations the code uses; what is proved needs no
  more than that \<open><\<close> is transitive, which holds with NaN too.  \<open>now\<close> is \<open>time.Now()\<close>.
\<close>

record 'f metrics =
  m_BandwidthUsage :: 'f
  m_Computational :: 'f
  m_Storage :: 'f
  m_Uptime :: 'f
  m_Responsiveness :: 'f
  m_Reliability :: 'f
  m_LastUpdated :: int

record 'f collector =
  mc_metrics :: "(peer_id, 'f metrics) fmap"
  mc_weights :: "'f metrics"

definition zero_metrics :: "'f::zero metrics" where
  "zero_metrics = \<lparr>m_BandwidthUsage = 0, m_Computational = 0, m_Storage = 0, m_Uptime = 0,
     m_Responsiveness = 0, m_Reliability = 0, m_LastUpdated = 0\<rparr>"

definition NewCollector :: "'f metrics \<Rightarrow> 'f collector" where
  "NewCollector weights = \<lparr>mc_metrics = fmempty, mc_weights = weights\<rparr>"

definition ensurePeer :: "peer_id \<Rightarrow> 'f::zero collector \<Rightarrow> 'f collector" where
  "ensurePeer p mc =
     (case fmlookup (mc_metrics mc) p of
        Some _ \<Rightarrow> mc
      | None \<Rightarrow> mc\<lparr>mc_metrics := fmupd p zero_metrics (mc_metrics mc)\<rparr>)"

text \<open>After \<open>ensurePeer\<close> the entry exists; the setters below change one field of it and the time.\<close>

definition update_metrics ::
  "('f metrics \<Rightarrow> 'f metrics) \<Rightarrow> int \<Rightarrow> peer_id \<Rightarrow> 'f::zero collector \<Rightarrow> 'f collector" where
  "update_metrics f now p mc =
     (let mc = ensurePeer p mc;
          m = (case fmlookup (mc_metrics mc) p of Some m \<Rightarrow> m | None \<Rightarrow> zero_metrics)
      in mc\<lparr>mc_metrics := fmupd p ((f m)\<lparr>m_LastUpdated := now\<rparr>) (mc_metrics mc)\<rparr>)"

definition UpdateResponsiveness :: "int \<Rightarrow> peer_id \<Rightarrow> 'f::zero \<Rightarrow> 'f collector \<Rightarrow> 'f collector" where
  "UpdateResponsiveness now p value = update_metrics (\<lambda>m. m\<lparr>m_Responsiveness := value\<rparr>) now p"

definition UpdateReliability :: "int \<Rightarrow> peer_id \<Rightarrow> 'f::zero \<Rightarrow> 'f collector \<Rightarrow> 'f collector" where
  "UpdateReliability now p value = update_metrics (\<lambda>m. m\<lparr>m_Reliability := value\<rparr>) now p"

definition UpdateBandwidthUsage :: "int \<Rightarrow> peer_id \<Rightarrow> 'f::zero \<Rightarrow> 'f collector \<Rightarrow> 'f collector" where
  "UpdateBandwidthUsage now p value = update_metrics (\<lambda>m. m\<lparr>m_BandwidthUsage := value\<rparr>) now p"

definition UpdateComputational :: "int \<Rightarrow> peer_id \<Rightarrow> 'f::zero \<Rightarrow> 'f collector \<Rightarrow> 'f collector" where
  "UpdateComputational now p value = update_metrics (\<lambda>m. m\<lparr>m_Computational := value\<rparr>) now p"

definition UpdateStorage :: "int \<Rightarrow> peer_id \<Rightarrow> 'f::zero \<Rightarrow> 'f collector \<Rightarrow> 'f collector" where
  "UpdateStorage now p value = update_metrics (\<lambda>m. m\<lparr>m_Storage := value\<rparr>) now p"

definition UpdateUptime :: "int \<Rightarrow> peer_id \<Rightarrow> 'f::zero \<Rightarrow> 'f collector \<Rightarrow> 'f collector" where
  "UpdateUptime now p value = update_metrics (\<lambda>m. m\<lparr>m_Uptime := value\<rparr>) now p"

definition utility :: "'f::{plus,times} metrics \<Rightarrow> 'f metrics \<Rightarrow> 'f" where
  "utility m w = m_BandwidthUsage m * m_BandwidthUsage w + m_Computational m * m_Computational w +
     m_Storage m * m_Storage w + m_Uptime m * m_Uptime w + m_Responsiveness m * m_Responsiveness w +
     m_Reliability m * m_Reliability w"

text \<open>\<open>CalculateUtilityScore\<close> also creates the entry of an unknown peer.\<close>

definition CalculateUtilityScore :: "peer_id \<Rightarrow> 'f::{zero,plus,times} collector \<Rightarrow> 'f \<times> 'f collector" where
  "CalculateUtilityScore p mc =
     (let mc = ensurePeer p mc;
          m = (case fmlookup (mc_metrics mc) p of Some m \<Rightarrow> m | None \<Rightarrow> zero_metrics)
      in (utility m (mc_weights mc), mc))"

definition GetMetrics :: "peer_id \<Rightarrow> 'f collector \<Rightarrow> 'f metrics option" where
  "GetMetrics p mc = fmlookup (mc_metrics mc) p"

definition GetAllMetrics :: "'f collector \<Rightarrow> (peer_id, 'f metrics) fmap" where
  "GetAllMetrics mc = mc_metrics mc"

text \<open>The score of a peer in a given state of the collector.\<close>

definition score :: "'f::{zero,plus,times} collector \<Rightarrow> peer_id \<Rightarrow> 'f" where
  "score mc p = utility (case fmlookup (mc_metrics mc) p of Some m \<Rightarrow> m | None \<Rightarrow> zero_metrics) (mc_weights mc)"

section \<open>Validators\<close>

text \<open>A \<open>Validator\<close> holds nothing but its account.\<close>

type_synonym validator = account

definition Validator_Signer :: "validator \<Rightarrow> signer_type \<Rightarrow> signer option" where
  "Validator_Signer v signerType = fmlookup (acc_Signers v) signerType"

record validator_set =
  vs_validators :: "(peer_id, validator) fmap"
  vs_leaderID :: peer_id
  vs_quorumThreshold :: int

definition NewValidatorSet :: validator_set where
  "NewValidatorSet = \<lparr>vs_validators = fmempty, vs_leaderID = [], vs_quorumThreshold = 0\<rparr>"

definition AddValidator :: "account \<Rightarrow> validator_set \<Rightarrow> validator_set" where
  "AddValidator a vs = vs\<lparr>vs_validators := fmupd (acc_PeerID a) a (vs_validators vs)\<rparr>"

definition RemoveValidator :: "peer_id \<Rightarrow> validator_set \<Rightarrow> validator_set" where
  "RemoveValidator i vs = vs\<lparr>vs_validators := fmdrop i (vs_validators vs)\<rparr>"

definition GetValidator :: "peer_id \<Rightarrow> validator_set \<Rightarrow> validator option" where
  "GetValidator i vs = fmlookup (vs_validators vs) i"

definition GetAllValidators :: "peer_id list \<Rightarrow> validator_set \<Rightarrow> validator list" where
  "GetAllValidators order vs = range_values order (vs_validators vs)"

definition GetValidatorIDs :: "peer_id list \<Rightarrow> validator_set \<Rightarrow> peer_id list" where
  "GetValidatorIDs order vs = filter (\<lambda>i. fmlookup (vs_validators vs) i \<noteq> None) order"

fun elect_loop ::
  "peer_id list \<Rightarrow> 'f::{zero,plus,times,ord} \<Rightarrow> peer_id \<Rightarrow> 'f collector \<Rightarrow> 'f \<times> peer_id \<times> 'f collector" where
  "elect_loop [] highestScore leaderID mc = (highestScore, leaderID, mc)"
| "elect_loop (i # ids) highestScore leaderID mc =
     (let (sc, mc) = CalculateUtilityScore i mc
      in if sc > highestScore then elect_loop ids sc i mc else elect_loop ids highestScore leaderID mc)"

definition ElectLeader ::
  "peer_id list \<Rightarrow> 'f::{zero,plus,times,ord} collector \<Rightarrow> validator_set \<Rightarrow> validator_set \<times> 'f collector" where
  "ElectLeader order mc vs =
     (if fmlen (vs_validators vs) = 0 then (vs, mc)
      else
        let (_, leaderID, mc) = elect_loop order 0 [] mc
        in if leaderID = [] then (vs, mc) else (vs\<lparr>vs_leaderID := leaderID\<rparr>, mc))"

definition CurrentLeader :: "validator_set \<Rightarrow> validator option" where
  "CurrentLeader vs = fmlookup (vs_validators vs) (vs_leaderID vs)"

definition IsLeader :: "peer_id \<Rightarrow> validator_set \<Rightarrow> bool" where
  "IsLeader i vs \<longleftrightarrow> vs_leaderID vs = i"

definition QuorumSize :: "validator_set \<Rightarrow> int" where
  "QuorumSize vs =
     (if vs_quorumThreshold vs > 0 then vs_quorumThreshold vs
      else (2 * int (fmlen (vs_validators vs))) div 3 + 1)"

definition SetQuorumThreshold :: "int \<Rightarrow> validator_set \<Rightarrow> validator_set" where
  "SetQuorumThreshold threshold vs = vs\<lparr>vs_quorumThreshold := threshold\<rparr>"

definition IsValidator :: "peer_id \<Rightarrow> validator_set \<Rightarrow> bool" where
  "IsValidator i vs \<longleftrightarrow> fmlookup (vs_validators vs) i \<noteq> None"

definition SetLeader :: "peer_id \<Rightarrow> validator_set \<Rightarrow> validator_set" where
  "SetLeader i vs =
     (case fmlookup (vs_validators vs) i of Some _ \<Rightarrow> vs\<lparr>vs_leaderID := i\<rparr> | None \<Rightarrow> vs)"

section \<open>Invariant\<close>

text \<open>The map is keyed by the peer ID of the account.\<close>

definition vs_wf :: "validator_set \<Rightarrow> bool" where
  "vs_wf vs \<longleftrightarrow> (\<forall>i v. fmlookup (vs_validators vs) i = Some v \<longrightarrow> acc_PeerID v = i)"

lemma vs_wf_ops [simp, intro]:
  "vs_wf NewValidatorSet"
  "vs_wf vs \<Longrightarrow> vs_wf (AddValidator a vs)"
  "vs_wf vs \<Longrightarrow> vs_wf (RemoveValidator i vs)"
  "vs_wf vs \<Longrightarrow> vs_wf (SetQuorumThreshold q vs)"
  "vs_wf vs \<Longrightarrow> vs_wf (SetLeader i vs)"
  by (auto simp: vs_wf_def NewValidatorSet_def AddValidator_def RemoveValidator_def SetQuorumThreshold_def
      SetLeader_def split: option.splits if_splits)

lemma IsValidator_iff: "IsValidator i vs \<longleftrightarrow> i \<in> fset (fmdom (vs_validators vs))"
  by (metis IsValidator_def fmdom_notD fmdom_notI)

lemma CurrentLeader_IsLeader: "vs_wf vs \<Longrightarrow> CurrentLeader vs = Some v \<Longrightarrow> IsLeader (acc_PeerID v) vs"
  by (auto simp: vs_wf_def CurrentLeader_def IsLeader_def)

section \<open>Election\<close>

lemma ensurePeer_score [simp]: "score (ensurePeer p mc) = score mc"
  by (auto simp: score_def ensurePeer_def fun_eq_iff split: option.splits)

lemma CalculateUtilityScore_eq: "CalculateUtilityScore p mc = (score mc p, ensurePeer p mc)"
proof -
  have "fst (CalculateUtilityScore p mc) = score (ensurePeer p mc) p"
    by (simp only: CalculateUtilityScore_def Let_def score_def fst_conv)
  then show ?thesis by (simp add: CalculateUtilityScore_def Let_def)
qed

lemma elect_loop_max:
  fixes mc :: "'f::{zero,plus,times,ord} collector"
  assumes tr: "transp ((<) :: 'f \<Rightarrow> 'f \<Rightarrow> bool)" and ir: "irreflp ((<) :: 'f \<Rightarrow> 'f \<Rightarrow> bool)"
    and "elect_loop ids h l mc = (h', l', mc')"
  shows "(h' = h \<and> l' = l \<or> h < h' \<and> l' \<in> set ids \<and> h' = score mc l') \<and> (\<forall>i \<in> set ids. \<not> h' < score mc i)"
  using assms(3)
proof (induction ids arbitrary: h l mc)
  case (Cons i ids)
  show ?case
  proof (cases "h < score mc i")
    case True
    with Cons.prems have "elect_loop ids (score mc i) i (ensurePeer i mc) = (h', l', mc')"
      by (simp add: CalculateUtilityScore_eq)
    from Cons.IH [OF this]
    have or: "h' = score mc i \<and> l' = i \<or> score mc i < h' \<and> l' \<in> set ids \<and> h' = score mc l'"
      and le: "\<forall>j \<in> set ids. \<not> h' < score mc j" by simp_all
    from or True have "h < h'" using transpD [OF tr, of h "score mc i" h'] by auto
    moreover from or have "\<not> h' < score mc i"
      using transpD [OF tr, of "score mc i" h' "score mc i"] irreflpD [OF ir, of "score mc i"] by auto
    ultimately show ?thesis using or le by auto
  next
    case False
    with Cons.prems have "elect_loop ids h l (ensurePeer i mc) = (h', l', mc')"
      by (simp add: CalculateUtilityScore_eq)
    from Cons.IH [OF this]
    have or: "h' = h \<and> l' = l \<or> h < h' \<and> l' \<in> set ids \<and> h' = score mc l'"
      and le: "\<forall>j \<in> set ids. \<not> h' < score mc j" by simp_all
    from or False have "\<not> h' < score mc i" using transpD [OF tr, of h h' "score mc i"] by auto
    with or le show ?thesis by auto
  qed
qed auto

section \<open>Quorums\<close>

text \<open>
  A quorum system: what the consensus needs of the quorum size, and what it gives.  \<open>valid\<close> is the
  set of members, \<open>q\<close> the size a quorum must reach.
\<close>

locale quorum_system =
  fixes valid :: "'v set" and q :: int
  assumes finite_valid: "finite valid"
    and majority: "2 * q > int (card valid)"
begin

lemma quorums_meet:
  assumes "A \<subseteq> valid" "B \<subseteq> valid" "int (card A) \<ge> q" "int (card B) \<ge> q"
  shows "A \<inter> B \<noteq> {}"
proof
  assume "A \<inter> B = {}"
  then have "card (A \<union> B) = card A + card B"
    using assms finite_valid by (metis card_Un_disjoint finite_subset)
  moreover have "card (A \<union> B) \<le> card valid" using assms finite_valid by (simp add: card_mono)
  ultimately show False using assms majority by linarith
qed

lemma overlap:
  assumes "A \<subseteq> valid" "B \<subseteq> valid" "int (card A) \<ge> q" "int (card B) \<ge> q"
  shows "int (card (A \<inter> B)) \<ge> 2 * q - int (card valid)"
proof -
  have fin: "finite A" "finite B" using assms finite_valid by (auto intro: finite_subset)
  then have "card A + card B = card (A \<union> B) + card (A \<inter> B)" by (rule card_Un_Int)
  moreover have "card (A \<union> B) \<le> card valid" using assms finite_valid by (simp add: card_mono)
  ultimately show ?thesis using assms by linarith
qed

end

text \<open>A quorum that leaves fewer than a third of the members out meets every other in more than a third.\<close>

locale byzantine_quorum = quorum_system +
  assumes two_thirds: "3 * q > 2 * int (card valid)"
begin

lemma honest_overlap:
  assumes "A \<subseteq> valid" "B \<subseteq> valid" "int (card A) \<ge> q" "int (card B) \<ge> q"
    and "F \<subseteq> valid" "3 * card F \<le> card valid"
  shows "\<exists>v. v \<in> A \<inter> B - F"
proof (rule ccontr)
  assume "\<nexists>v. v \<in> A \<inter> B - F"
  then have "card (A \<inter> B) \<le> card F"
    using assms finite_valid by (intro card_mono) (auto intro: finite_subset)
  then show False using overlap [OF assms(1-4)] two_thirds assms(6) by linarith
qed

end

text \<open>A validator set whose threshold was not configured has such a quorum.\<close>

locale default_quorum =
  fixes vs :: validator_set
  assumes unconfigured: "vs_quorumThreshold vs \<le> 0"

sublocale default_quorum \<subseteq> byzantine_quorum "fset (fmdom (vs_validators vs))" "QuorumSize vs"
proof
  let ?n = "int (card (fset (fmdom (vs_validators vs))))"
  have q: "QuorumSize vs = (2 * ?n) div 3 + 1"
    using unconfigured by (simp add: QuorumSize_def fmlen_def fcard.rep_eq)
  show "3 * QuorumSize vs > 2 * ?n" "2 * QuorumSize vs > ?n" unfolding q by presburger+
qed simp

context default_quorum
begin

lemmas default_quorum_byzantine_quorum = byzantine_quorum_axioms

end

lemmas default_quorum_byzantine_quorum_laws = default_quorum.default_quorum_byzantine_quorum [OF default_quorum.intro]

interpretation fresh_quorum: default_quorum NewValidatorSet
  by unfold_locales (simp add: NewValidatorSet_def)

section \<open>Properties\<close>

text \<open>
  \<open>ElectLeader\<close>, for every order in which the validators are iterated: a leader is only replaced by a
  member of the set with a positive score that no other member's score exceeds; when no member has a positive
  score the leader is kept; membership and quorum threshold never change.
\<close>

theorem ElectLeader_highest:
  fixes mc :: "'f::{zero,plus,times,ord} collector"
  assumes "transp ((<) :: 'f \<Rightarrow> 'f \<Rightarrow> bool)" "irreflp ((<) :: 'f \<Rightarrow> 'f \<Rightarrow> bool)"
    and "ranges order (vs_validators vs)" "ElectLeader order mc vs = (vs', mc')"
    and "\<not> IsValidator [] vs"
  shows "vs_validators vs' = vs_validators vs \<and> vs_quorumThreshold vs' = vs_quorumThreshold vs \<and>
    (if \<exists>i. IsValidator i vs \<and> 0 < score mc i
     then IsValidator (vs_leaderID vs') vs \<and> 0 < score mc (vs_leaderID vs') \<and>
       (\<forall>i. IsValidator i vs \<longrightarrow> \<not> score mc (vs_leaderID vs') < score mc i)
     else vs_leaderID vs' = vs_leaderID vs)"
proof -
  have mem: "set order = {i. IsValidator i vs}"
    using ranges_set [OF assms(3)] IsValidator_iff by auto
  obtain h l mc1 where loop: "elect_loop order 0 [] mc = (h, l, mc1)" by (cases "elect_loop order 0 [] mc")
  have or: "h = 0 \<and> l = [] \<or> 0 < h \<and> l \<in> set order \<and> h = score mc l"
    and le: "\<forall>i \<in> set order. \<not> h < score mc i"
    using conjunct1 [OF elect_loop_max [OF assms(1) assms(2) loop]]
      conjunct2 [OF elect_loop_max [OF assms(1) assms(2) loop]] by simp_all
  have "vs' = (if l = [] then vs else vs\<lparr>vs_leaderID := l\<rparr>)"
    using assms(4) loop mem or
    by (auto simp: ElectLeader_def IsValidator_def split: if_splits)
  with or le mem assms(5) show ?thesis by auto
qed

theorem ElectLeader_highest_witness:
  "\<exists>mc' :: int collector. \<exists>vs'. vs_leaderID vs' = [7] \<and> ElectLeader [[7]] mc'
     \<lparr>vs_validators = fmupd [7] undefined fmempty, vs_leaderID = [], vs_quorumThreshold = 0\<rparr> = (vs', mc')"
proof -
  let ?vs = "\<lparr>vs_validators = fmupd [7] undefined fmempty, vs_leaderID = [], vs_quorumThreshold = 0\<rparr>"
  let ?m = "zero_metrics\<lparr>m_Uptime := 1\<rparr> :: int metrics"
  let ?mc = "\<lparr>mc_metrics = fmupd [7] ?m fmempty, mc_weights = ?m\<rparr>"
  obtain vs' mc' where e: "ElectLeader [[7]] ?mc ?vs = (vs', mc')" by (cases "ElectLeader [[7]] ?mc ?vs")
  have ran: "ranges [[7]] (vs_validators ?vs)" by (simp add: ranges_def)
  have nv: "\<not> IsValidator [] ?vs" by (simp add: IsValidator_def)
  have "score ?mc [7] = 1" by (simp add: score_def utility_def zero_metrics_def)
  moreover have "IsValidator [7] ?vs" by (simp add: IsValidator_def)
  moreover note ElectLeader_highest [OF transp_on_less irreflp_on_less ran e nv]
  ultimately have "IsValidator (vs_leaderID vs') ?vs" by (metis zero_less_one)
  then have "vs_leaderID vs' = [7]" by (simp add: IsValidator_def split: if_splits)
  moreover have "mc' = ?mc"
    using e by (simp add: ElectLeader_def CalculateUtilityScore_eq ensurePeer_def split: if_splits)
  ultimately show ?thesis using e by blast
qed

end
