(* ===== verification/Consensus_State.thy ===== *)
theory Consensus_State
  imports Packets Storage Validators
begin

text \<open>
  The book-keeping of the consensus: \<open>pkg/consensus/state.go\<close> (proposals, approvals and finalizations, each
  mirrored to the database) and \<open>pkg/consensus/message_pool.go\<close> (packets in flight).  Each public
  method takes its mutex for its whole effect on the maps, so it is one function on the state.
\<close>

section \<open>State\<close>

record 'e cstate =
  cs_proposals :: "(string, consensus_packet) fmap"
  cs_approvals :: "(string, (peer_id, bytes) fmap) fmap"
  cs_finalized :: "(string, bool) fmap"
  cs_storage :: 'e

definition NewState :: "'e \<Rightarrow> 'e cstate" where
  "NewState storage = \<lparr>cs_proposals = fmempty, cs_approvals = fmempty, cs_finalized = fmempty, cs_storage = storage\<rparr>"

text \<open>\<open>fmt.Sprintf("%x", blockHash)\<close>\<close>

definition blockHashKey :: "bytes \<Rightarrow> string" where
  "blockHashKey blockHash = hex_EncodeToString blockHash"

text \<open>\<open>cs.storage.Set(key, value)\<close> with the environment kept in the state.\<close>

definition persist :: "'e mdbx \<Rightarrow> bytes \<Rightarrow> bytes \<Rightarrow> 'e cstate \<Rightarrow> go_error option \<times> 'e cstate" where
  "persist M key value cs =
     (let (err, env) = Db_Set M key value (cs_storage cs) in (err, cs\<lparr>cs_storage := env\<rparr>))"

definition AddProposal :: "'e mdbx \<Rightarrow> consensus_packet \<Rightarrow> 'e cstate \<Rightarrow> go_error option \<times> 'e cstate" where
  "AddProposal M msg cs =
     (if cp_Type msg \<noteq> PacketTypeProposal then (Some (ErrorS ''invalid packet type for proposal: %v''), cs)
      else
        let cs = cs\<lparr>cs_proposals := fmupd (blockHashKey (cp_BlockHash msg)) msg (cs_proposals cs)\<rparr>
        in persist M (cp_BlockHash msg) (cp_BlockData msg) cs)"

definition HasProposal :: "bytes \<Rightarrow> 'e cstate \<Rightarrow> bool" where
  "HasProposal blockHash cs \<longleftrightarrow> fmlookup (cs_proposals cs) (blockHashKey blockHash) \<noteq> None"

text \<open>\<open>cs.approvals[key]\<close>; a missing entry reads as the nil (empty) map.\<close>

definition approvals_for :: "string \<Rightarrow> 'e cstate \<Rightarrow> (peer_id, bytes) fmap" where
  "approvals_for key cs = (case fmlookup (cs_approvals cs) key of None \<Rightarrow> fmempty | Some m \<Rightarrow> m)"

definition AddApproval :: "'e mdbx \<Rightarrow> consensus_packet \<Rightarrow> 'e cstate \<Rightarrow> go_error option \<times> 'e cstate" where
  "AddApproval M msg cs =
     (if cp_Type msg \<noteq> PacketTypeApproval then (Some (ErrorS ''invalid packet type for approval: %v''), cs)
      else
        let key = blockHashKey (cp_BlockHash msg);
            approvalsForBlock = approvals_for key cs;
            cs = (case fmlookup (cs_approvals cs) key of
                    Some _ \<Rightarrow> cs
                  | None \<Rightarrow> cs\<lparr>cs_approvals := fmupd key fmempty (cs_approvals cs)\<rparr>)
        in case fmlookup approvalsForBlock (cp_ValidatorID msg) of
             Some _ \<Rightarrow> (None, cs)
           | None \<Rightarrow>
               let cs = cs\<lparr>cs_approvals :=
                     fmupd key (fmupd (cp_ValidatorID msg) (cp_Signature msg) approvalsForBlock) (cs_approvals cs)\<rparr>
               in persist M (cp_BlockHash msg) (cp_Signature msg) cs)"

definition GetApprovalCount :: "bytes \<Rightarrow> 'e cstate \<Rightarrow> int" where
  "GetApprovalCount blockHash cs = int (fmlen (approvals_for (blockHashKey blockHash) cs))"

definition HasReachedQuorum :: "bytes \<Rightarrow> int \<Rightarrow> 'e cstate \<Rightarrow> bool" where
  "HasReachedQuorum blockHash quorumSize cs \<longleftrightarrow>
     int (fmlen (approvals_for (blockHashKey blockHash) cs)) \<ge> quorumSize"

definition State_FinalizeBlock :: "'e mdbx \<Rightarrow> bytes \<Rightarrow> 'e cstate \<Rightarrow> go_error option \<times> 'e cstate" where
  "State_FinalizeBlock M blockHash cs =
     (let cs = cs\<lparr>cs_finalized := fmupd (blockHashKey blockHash) True (cs_finalized cs)\<rparr>;
          (err, cs) = persist M blockHash (go_bytes ''finalized'') cs
      in (map_option (wrap_error ''failed to persist finalized block'') err, cs))"

definition IsFinalized :: "bytes \<Rightarrow> 'e cstate \<Rightarrow> bool" where
  "IsFinalized blockHash cs \<longleftrightarrow> fmlookup (cs_finalized cs) (blockHashKey blockHash) = Some True"

section \<open>Message pool\<close>

type_synonym message_pool = "(bytes, consensus_packet) fmap"

definition NewMessagePool :: message_pool where "NewMessagePool = fmempty"

definition AddMessage :: "consensus_packet \<Rightarrow> message_pool \<Rightarrow> message_pool" where
  "AddMessage msg mp = fmupd (cp_BlockHash msg) msg mp"

definition GetMessage :: "bytes \<Rightarrow> message_pool \<Rightarrow> consensus_packet result" where
  "GetMessage blockHash mp =
     (case fmlookup mp blockHash of
        None \<Rightarrow> Inl (ErrorS ''message for block hash %x not found'')
      | Some m \<Rightarrow> Inr m)"

definition RemoveMessage :: "bytes \<Rightarrow> message_pool \<Rightarrow> message_pool" where
  "RemoveMessage blockHash mp = fmdrop blockHash mp"

definition HasMessage :: "bytes \<Rightarrow> message_pool \<Rightarrow> bool" where
  "HasMessage blockHash mp \<longleftrightarrow> fmlookup mp blockHash \<noteq> None"

definition ListMessages :: "bytes list \<Rightarrow> message_pool \<Rightarrow> consensus_packet list" where
  "ListMessages order mp = range_values order mp"

section \<open>Keyed stores\<close>

text \<open>
  The contract of the in-memory stores of the program that file items under a key computed from the item:
  what is added is found under its key until it is removed or replaced, and nothing else moves.
\<close>

locale keyed_store =
  fixes key :: "'a \<Rightarrow> 'k"
    and add :: "'a \<Rightarrow> 's \<Rightarrow> 's"
    and remove :: "'k \<Rightarrow> 's \<Rightarrow> 's"
    and look :: "'s \<Rightarrow> 'k \<Rightarrow> 'a option"
  assumes look_add: "look (add x s) = (look s)(key x \<mapsto> x)"
    and look_remove: "look (remove k s) = (look s)(k := None)"
begin

lemma add_found: "look (add x s) (key x) = Some x"
  by (simp add: look_add)

lemma remove_gone: "look (remove k s) k = None"
  by (simp add: look_remove)

lemma add_remove: "look s (key x) = None \<Longrightarrow> look (remove (key x) (add x s)) = look s"
  by (auto simp: look_add look_remove fun_eq_iff)

lemma add_commute: "key x \<noteq> key y \<Longrightarrow> look (add x (add y s)) = look (add y (add x s))"
  by (auto simp: look_add fun_eq_iff)

lemma keys_right:
  assumes "\<And>k x. look s k = Some x \<Longrightarrow> key x = k"
  shows "look (add y s) k = Some x \<Longrightarrow> key x = k" "look (remove k' s) k = Some x \<Longrightarrow> key x = k"
  using assms by (auto simp: look_add look_remove split: if_splits)

end

interpretation message_pool: keyed_store cp_BlockHash AddMessage RemoveMessage fmlookup
  by unfold_locales (auto simp: AddMessage_def RemoveMessage_def fun_eq_iff)

section \<open>Lemmas\<close>

lemma blockHashKey_inject [simp]: "blockHashKey a = blockHashKey b \<longleftrightarrow> a = b"
  by (simp add: blockHashKey_def)

lemma persist_maps [simp]:
  "cs_proposals (snd (persist M k v cs)) = cs_proposals cs"
  "cs_approvals (snd (persist M k v cs)) = cs_approvals cs"
  "cs_finalized (snd (persist M k v cs)) = cs_finalized cs"
  by (simp_all add: persist_def case_prod_beta Let_def)

lemma AddProposal_maps [simp]:
  "cs_approvals (snd (AddProposal M msg cs)) = cs_approvals cs"
  "cs_finalized (snd (AddProposal M msg cs)) = cs_finalized cs"
  by (simp_all add: AddProposal_def Let_def)

lemma AddProposal_proposals:
  "cs_proposals (snd (AddProposal M msg cs)) =
     (if cp_Type msg = PacketTypeProposal
      then fmupd (blockHashKey (cp_BlockHash msg)) msg (cs_proposals cs) else cs_proposals cs)"
  by (simp add: AddProposal_def Let_def)

lemma AddApproval_maps [simp]:
  "cs_proposals (snd (AddApproval M msg cs)) = cs_proposals cs"
  "cs_finalized (snd (AddApproval M msg cs)) = cs_finalized cs"
  by (simp_all add: AddApproval_def Let_def split: option.splits)

text \<open>An approval is recorded once: the first signature of a validator for a block stays.\<close>

lemma approvals_for_AddApproval:
  "approvals_for k (snd (AddApproval M msg cs)) =
     (if cp_Type msg = PacketTypeApproval \<and> k = blockHashKey (cp_BlockHash msg) \<and>
         fmlookup (approvals_for k cs) (cp_ValidatorID msg) = None
      then fmupd (cp_ValidatorID msg) (cp_Signature msg) (approvals_for k cs)
      else approvals_for k cs)"
  by (auto simp: AddApproval_def Let_def approvals_for_def split: option.splits)

lemma approvals_for_cong: "cs_approvals cs = cs_approvals cs' \<Longrightarrow> approvals_for k cs = approvals_for k cs'"
  by (simp add: approvals_for_def)

lemma approvals_for_AddProposal [simp]: "approvals_for k (snd (AddProposal M msg cs)) = approvals_for k cs"
  by (rule approvals_for_cong) simp

lemma State_FinalizeBlock_maps [simp]:
  "cs_proposals (snd (State_FinalizeBlock M h cs)) = cs_proposals cs"
  "cs_approvals (snd (State_FinalizeBlock M h cs)) = cs_approvals cs"
  "cs_finalized (snd (State_FinalizeBlock M h cs)) = fmupd (blockHashKey h) True (cs_finalized cs)"
  by (simp_all add: State_FinalizeBlock_def Let_def case_prod_beta)

lemma approvals_for_Finalize [simp]: "approvals_for k (snd (State_FinalizeBlock M h cs)) = approvals_for k cs"
  by (rule approvals_for_cong) simp

text \<open>Approvals only grow.\<close>

definition approvals_mono :: "'e cstate \<Rightarrow> 'e cstate \<Rightarrow> bool" where
  "approvals_mono cs cs' \<longleftrightarrow> (\<forall>k. fmlookup (approvals_for k cs) \<subseteq>\<^sub>m fmlookup (approvals_for k cs'))"

lemma approvals_mono_refl [simp, intro]: "approvals_mono cs cs"
  by (simp add: approvals_mono_def)

lemma approvals_mono_trans: "approvals_mono a b \<Longrightarrow> approvals_mono b c \<Longrightarrow> approvals_mono a c"
  unfolding approvals_mono_def by (meson map_le_trans)

lemma approvals_mono_AddApproval: "approvals_mono cs (snd (AddApproval M msg cs))"
  by (auto simp: approvals_mono_def approvals_for_AddApproval map_le_def dom_def)

lemma quorum_mono:
  "approvals_mono cs cs' \<Longrightarrow> HasReachedQuorum h q cs \<Longrightarrow> HasReachedQuorum h q cs'"
  unfolding approvals_mono_def HasReachedQuorum_def
  using fmlen_mono by (meson of_nat_le_iff order_trans)

end
