(* ===== verification/Consensus.thy ===== *)
theory Consensus
  imports Consensus_State
begin

text \<open>
  \<open>pkg/consensus/protocol.go\<close>: the SHPoNU protocol of one node.  Operations that can fail after they have
  changed something return the error and the new state; \<open>Some (Panic _)\<close> is a crash of the process.  The
  network and the block finalizer are interfaces of the sources: their answers may depend on what
  they have been given so far, so the state records it.  Handlers hold a mutex from start to
  end and are single steps here.
\<close>

section \<open>State\<close>

record network =
  net_HostID :: peer_id
  net_Broadcast :: "bytes list \<Rightarrow> bytes \<Rightarrow> go_error option"

type_synonym finalizer = "(bytes \<times> bytes) list \<Rightarrow> bytes \<Rightarrow> bytes \<Rightarrow> go_error option"

record 'e protocol =
  pr_state :: "'e cstate"
  pr_validators :: validator_set
  pr_messagePool :: message_pool
  pr_p2pNetwork :: "network option"
  pr_blockFinalizer :: "finalizer option"
  pr_quorumThreshold :: int
  pr_sent :: "bytes list"
  pr_finalizer_calls :: "(bytes \<times> bytes) list"

type_synonym 'e outcome = "go_error option \<times> 'e protocol"

definition ErrNotLeader :: go_error where
  "ErrNotLeader = ErrorS ''current validator is not the leader''"

definition ErrQuorumNotReached :: go_error where
  "ErrQuorumNotReached = ErrorS ''quorum not reached for finalization''"

definition nil_dereference :: go_error where
  "nil_dereference = Panic ''invalid memory address or nil pointer dereference''"

text \<open>The goroutine that \<open>NewProtocol\<close> starts is the step relation below.\<close>

definition NewProtocol ::
  "(node_config \<Rightarrow> 'e result) \<Rightarrow> 'e manager \<Rightarrow> validator_set \<Rightarrow> network option \<Rightarrow> finalizer option \<Rightarrow>
   'e protocol result \<times> 'e manager" where
  "NewProtocol open_db storageMgr validators p2pNet fin =
     (let (consensusDB, storageMgr) =
            (case Manager_GetDb ''consensus'' storageMgr of
               Inr db \<Rightarrow> (Inr db, storageMgr)
             | Inl _ \<Rightarrow> Manager_CreateDb open_db ''consensus'' storageMgr)
      in (bindE (wrapE ''failed to create consensus DB'' consensusDB) (\<lambda>env.
            Inr \<lparr>pr_state = NewState env, pr_validators = validators, pr_messagePool = NewMessagePool,
                 pr_p2pNetwork = p2pNet, pr_blockFinalizer = fin,
                 pr_quorumThreshold = QuorumSize validators, pr_sent = [], pr_finalizer_calls = []\<rparr>),
          storageMgr))"

text \<open>A call of a method of \<open>State\<close>.\<close>

definition on_state :: "('e cstate \<Rightarrow> go_error option \<times> 'e cstate) \<Rightarrow> 'e protocol \<Rightarrow> 'e outcome" where
  "on_state f p = (let (err, cs) = f (pr_state p) in (err, p\<lparr>pr_state := cs\<rparr>))"

section \<open>Operations\<close>

definition BroadcastMessage :: "consensus_packet \<Rightarrow> 'e protocol \<Rightarrow> 'e outcome" where
  "BroadcastMessage pkt p =
     (case ConsensusPacket_Serialize pkt of
        Inl err \<Rightarrow> (Some (wrap_error ''failed to serialize consensus packet'' err), p)
      | Inr serializedPkt \<Rightarrow>
          (case pr_p2pNetwork p of
             None \<Rightarrow> (None, p)
           | Some net \<Rightarrow>
               (net_Broadcast net (pr_sent p) serializedPkt, p\<lparr>pr_sent := pr_sent p @ [serializedPkt]\<rparr>)))"

definition proposal_packet :: "peer_id \<Rightarrow> bytes \<Rightarrow> bytes \<Rightarrow> bytes \<Rightarrow> consensus_packet" where
  "proposal_packet proposer blockHash blockData signature =
     \<lparr>cp_Type = PacketTypeProposal, cp_Signer = '''', cp_ProposerID = proposer, cp_ValidatorID = [],
      cp_BlockHash = blockHash, cp_BlockData = blockData, cp_Signature = signature\<rparr>"

definition approval_packet :: "peer_id \<Rightarrow> bytes \<Rightarrow> bytes \<Rightarrow> consensus_packet" where
  "approval_packet validatorID blockHash signature =
     \<lparr>cp_Type = PacketTypeApproval, cp_Signer = '''', cp_ProposerID = [], cp_ValidatorID = validatorID,
      cp_BlockHash = blockHash, cp_BlockData = [], cp_Signature = signature\<rparr>"

definition finalization_packet :: "bytes \<Rightarrow> consensus_packet" where
  "finalization_packet blockHash =
     \<lparr>cp_Type = PacketTypeFinalization, cp_Signer = '''', cp_ProposerID = [], cp_ValidatorID = [],
      cp_BlockHash = blockHash, cp_BlockData = [], cp_Signature = []\<rparr>"

definition ProposeBlock :: "'e mdbx \<Rightarrow> bytes \<Rightarrow> 'e protocol \<Rightarrow> 'e outcome" where
  "ProposeBlock M blockData p =
     (case CurrentLeader (pr_validators p) of
        None \<Rightarrow> (Some ErrNotLeader, p)
      | Some leader \<Rightarrow>
     if \<not> IsLeader (acc_PeerID leader) (pr_validators p) then (Some ErrNotLeader, p)
     else
       let blockHash = HashData blockData in
       (case Validator_Signer leader BlsSignerType of
          None \<Rightarrow> (Some (ErrorS ''signer not found for type %v''), p)
        | Some signer \<Rightarrow>
       (case sg_Sign signer blockHash of
          Inl err \<Rightarrow> (Some (wrap_error ''failed to sign block hash'' err), p)
        | Inr signature \<Rightarrow>
            let proposalPkt = proposal_packet (acc_PeerID leader) blockHash blockData signature in
            (case on_state (AddProposal M proposalPkt) p of
               (Some err, p) \<Rightarrow> (Some (wrap_error ''failed to add proposal'' err), p)
             | (None, p) \<Rightarrow>
                 (case BroadcastMessage proposalPkt p of
                    (Some err, p) \<Rightarrow> (Some (wrap_error ''failed to broadcast proposal packet'' err), p)
                  | (None, p) \<Rightarrow> (None, p))))))"

definition Protocol_FinalizeBlock :: "'e mdbx \<Rightarrow> bytes \<Rightarrow> 'e protocol \<Rightarrow> 'e outcome" where
  "Protocol_FinalizeBlock M blockHash p =
     (if IsFinalized blockHash (pr_state p) then (None, p)
      else if \<not> HasReachedQuorum blockHash (pr_quorumThreshold p) (pr_state p)
      then (Some ErrQuorumNotReached, p)
      else
        (case on_state (State_FinalizeBlock M blockHash) p of
           (Some err, p) \<Rightarrow> (Some (wrap_error ''failed to finalize block'' err), p)
         | (None, p) \<Rightarrow>
             (case BroadcastMessage (finalization_packet blockHash) p of
                (Some err, p) \<Rightarrow> (Some (wrap_error ''failed to broadcast finalization packet'' err), p)
              | (None, p) \<Rightarrow> (None, p))))"

text \<open>\<open>if cp.state.HasReachedQuorum(...) { if err := cp.FinalizeBlock(...); err != nil { log } }\<close>\<close>

definition finalize_if_quorum :: "'e mdbx \<Rightarrow> bytes \<Rightarrow> 'e protocol \<Rightarrow> 'e outcome" where
  "finalize_if_quorum M blockHash p =
     (if HasReachedQuorum blockHash (pr_quorumThreshold p) (pr_state p)
      then (None, snd (Protocol_FinalizeBlock M blockHash p))
      else (None, p))"

definition ApproveProposal :: "'e mdbx \<Rightarrow> bytes \<Rightarrow> peer_id \<Rightarrow> 'e protocol \<Rightarrow> 'e outcome" where
  "ApproveProposal M blockHash approverID p =
     (case GetValidator approverID (pr_validators p) of
        None \<Rightarrow> (Some (ErrorS ''approver validator not found''), p)
      | Some approver \<Rightarrow>
     (case Validator_Signer approver BlsSignerType of
        None \<Rightarrow> (Some nil_dereference, p)
      | Some signer \<Rightarrow>
     (case sg_Sign signer blockHash of
        Inl err \<Rightarrow> (Some (wrap_error ''failed to sign block hash'' err), p)
      | Inr signature \<Rightarrow>
          let approvalPkt = approval_packet (acc_PeerID approver) blockHash signature in
          (case on_state (AddApproval M approvalPkt) p of
             (Some err, p) \<Rightarrow> (Some (wrap_error ''failed to add approval packet'' err), p)
           | (None, p) \<Rightarrow>
               (case BroadcastMessage approvalPkt p of
                  (Some err, p) \<Rightarrow> (Some (wrap_error ''failed to broadcast approval packet'' err), p)
                | (None, p) \<Rightarrow> finalize_if_quorum M blockHash p)))))"

section \<open>Handlers\<close>

definition HandleProposal :: "'e mdbx \<Rightarrow> consensus_packet \<Rightarrow> 'e protocol \<Rightarrow> 'e outcome" where
  "HandleProposal M pkt p =
     (if HasProposal (cp_BlockHash pkt) (pr_state p) then (None, p)
      else
        (case GetValidator (cp_ProposerID pkt) (pr_validators p) of
           None \<Rightarrow> (None, p)
         | Some proposer \<Rightarrow>
        (case Validator_Signer proposer BlsSignerType of
           None \<Rightarrow> (Some nil_dereference, p)
         | Some signer \<Rightarrow>
        if \<not> fst (sg_Verify signer (cp_BlockHash pkt) (cp_Signature pkt)) then (None, p)
        else
          (case on_state (AddProposal M pkt) p of
             (Some _, p) \<Rightarrow> (None, p)
           | (None, p) \<Rightarrow>
          (case pr_p2pNetwork p of
             None \<Rightarrow> (Some nil_dereference, p)
           | Some net \<Rightarrow>
               let nodeID = net_HostID net in
               if IsValidator nodeID (pr_validators p) \<and> nodeID \<noteq> cp_ProposerID pkt
               then
                 (case ApproveProposal M (cp_BlockHash pkt) nodeID p of
                    (Some (Panic s), p) \<Rightarrow> (Some (Panic s), p)
                  | (_, p) \<Rightarrow> (None, p))
               else (None, p))))))"

definition HandleApproval :: "'e mdbx \<Rightarrow> consensus_packet \<Rightarrow> 'e protocol \<Rightarrow> 'e outcome" where
  "HandleApproval M pkt p =
     (case GetValidator (cp_ValidatorID pkt) (pr_validators p) of
        None \<Rightarrow> (None, p)
      | Some approver \<Rightarrow>
     (case Validator_Signer approver BlsSignerType of
        None \<Rightarrow> (Some nil_dereference, p)
      | Some signer \<Rightarrow>
     if \<not> fst (sg_Verify signer (cp_BlockHash pkt) (cp_Signature pkt)) then (None, p)
     else
       (case on_state (AddApproval M pkt) p of
          (Some _, p) \<Rightarrow> (None, p)
        | (None, p) \<Rightarrow> finalize_if_quorum M (cp_BlockHash pkt) p)))"

text \<open>The optional call of the block finalizer, and whether the handler goes on after it.\<close>

definition invoke_finalizer :: "'e mdbx \<Rightarrow> bytes \<Rightarrow> 'e protocol \<Rightarrow> bool \<times> 'e protocol" where
  "invoke_finalizer M blockHash p =
     (case pr_blockFinalizer p of
        None \<Rightarrow> (True, p)
      | Some fin \<Rightarrow>
          (case Db_Get M blockHash (cs_storage (pr_state p)) of
             Inl _ \<Rightarrow> (False, p)
           | Inr blockData \<Rightarrow>
               (fin (pr_finalizer_calls p) blockHash blockData = None,
                p\<lparr>pr_finalizer_calls := pr_finalizer_calls p @ [(blockHash, blockData)]\<rparr>)))"

definition HandleFinalization :: "'e mdbx \<Rightarrow> consensus_packet \<Rightarrow> 'e protocol \<Rightarrow> 'e outcome" where
  "HandleFinalization M pkt p =
     (if IsFinalized (cp_BlockHash pkt) (pr_state p) then (None, p)
      else
        (case on_state (State_FinalizeBlock M (cp_BlockHash pkt)) p of
           (Some _, p) \<Rightarrow> (None, p)
         | (None, p) \<Rightarrow>
             (case invoke_finalizer M (cp_BlockHash pkt) p of
                (False, p) \<Rightarrow> (None, p)
              | (True, p) \<Rightarrow> (None, snd (BroadcastMessage (finalization_packet (cp_BlockHash pkt)) p)))))"

definition HandleMessage :: "'e mdbx \<Rightarrow> consensus_packet \<Rightarrow> 'e protocol \<Rightarrow> 'e outcome" where
  "HandleMessage M pkt p =
     (if cp_Type pkt = PacketTypeProposal then HandleProposal M pkt p
      else if cp_Type pkt = PacketTypeApproval then HandleApproval M pkt p
      else if cp_Type pkt = PacketTypeFinalization then HandleFinalization M pkt p
      else (None, p))"

section \<open>The receive loop\<close>

text \<open>
  A turn of \<open>Start\<close> decodes a message, adds it to the pool and spawns a goroutine; the goroutine
  handles the packet and removes what the pool has under its block hash.
\<close>

definition Start_receive :: "bytes \<Rightarrow> 'e protocol \<Rightarrow> (consensus_packet \<times> 'e protocol) option" where
  "Start_receive data p =
     (case DeserializeConsensusPacket data of
        Inl _ \<Rightarrow> None
      | Inr pkt \<Rightarrow> Some (pkt, p\<lparr>pr_messagePool := AddMessage pkt (pr_messagePool p)\<rparr>))"

definition Start_process :: "'e mdbx \<Rightarrow> consensus_packet \<Rightarrow> 'e protocol \<Rightarrow> 'e outcome" where
  "Start_process M pkt p =
     (case HandleMessage M pkt p of
        (Some err, p) \<Rightarrow> (Some err, p)
      | (None, p) \<Rightarrow> (None, p\<lparr>pr_messagePool := RemoveMessage (cp_BlockHash pkt) (pr_messagePool p)\<rparr>))"

text \<open>
  The node as a transition system: the protocol state, the packets whose goroutine has not run yet (they
  run in any order), and the packets processed so far.  A crash has no successor.
\<close>

record 'e node =
  nd_protocol :: "'e protocol"
  nd_inflight :: "consensus_packet list"
  nd_processed :: "consensus_packet list"

definition crashed :: "go_error option \<Rightarrow> bool" where
  "crashed r \<longleftrightarrow> (case r of None \<Rightarrow> False | Some e \<Rightarrow> is_panic e)"

inductive cstep :: "'e mdbx \<Rightarrow> 'e node \<Rightarrow> 'e node \<Rightarrow> bool" for M where
  receive: "Start_receive data (nd_protocol n) = Some (pkt, p) \<Longrightarrow>
    cstep M n (n\<lparr>nd_protocol := p, nd_inflight := nd_inflight n @ [pkt]\<rparr>)"
| process: "nd_inflight n = xs @ pkt # ys \<Longrightarrow> Start_process M pkt (nd_protocol n) = (None, p) \<Longrightarrow>
    cstep M n (n\<lparr>nd_protocol := p, nd_inflight := xs @ ys, nd_processed := pkt # nd_processed n\<rparr>)"
| propose: "ProposeBlock M blockData (nd_protocol n) = (r, p) \<Longrightarrow> \<not> crashed r \<Longrightarrow>
    cstep M n (n\<lparr>nd_protocol := p\<rparr>)"
| approve: "ApproveProposal M blockHash approverID (nd_protocol n) = (r, p) \<Longrightarrow> \<not> crashed r \<Longrightarrow>
    cstep M n (n\<lparr>nd_protocol := p\<rparr>)"
| finalize: "Protocol_FinalizeBlock M blockHash (nd_protocol n) = (r, p) \<Longrightarrow> \<not> crashed r \<Longrightarrow>
    cstep M n (n\<lparr>nd_protocol := p\<rparr>)"

inductive_cases cstepE: "cstep M n n'"

section \<open>What an operation may change\<close>

text \<open>An approval is authentic when the validator's BLS signer accepts or produced the signature.\<close>

definition authentic_approval :: "validator_set \<Rightarrow> bytes \<Rightarrow> peer_id \<Rightarrow> bytes \<Rightarrow> bool" where
  "authentic_approval vs blockHash i sig \<longleftrightarrow>
     (\<exists>v s. GetValidator i vs = Some v \<and> Validator_Signer v BlsSignerType = Some s \<and>
        (fst (sg_Verify s blockHash sig) \<or> sg_Sign s blockHash = Inr sig))"

definition all_authentic :: "'e protocol \<Rightarrow> bool" where
  "all_authentic p \<longleftrightarrow>
     (\<forall>h i sig. fmlookup (approvals_for (blockHashKey h) (pr_state p)) i = Some sig \<longrightarrow>
        authentic_approval (pr_validators p) h i sig)"

text \<open>
  The frame of every operation: the configuration stays, approvals only grow and stay authentic, and a block
  becomes finalized only with a quorum of approvals, unless its hash is in \<open>X\<close>.
\<close>

definition safe_step :: "bytes set \<Rightarrow> 'e protocol \<Rightarrow> 'e protocol \<Rightarrow> bool" where
  "safe_step X p p' \<longleftrightarrow>
     pr_validators p' = pr_validators p \<and> pr_p2pNetwork p' = pr_p2pNetwork p \<and>
     pr_blockFinalizer p' = pr_blockFinalizer p \<and> pr_quorumThreshold p' = pr_quorumThreshold p \<and>
     approvals_mono (pr_state p) (pr_state p') \<and>
     (all_authentic p \<longrightarrow> all_authentic p') \<and>
     (\<forall>h. IsFinalized h (pr_state p) \<longrightarrow> IsFinalized h (pr_state p')) \<and>
     (\<forall>h. IsFinalized h (pr_state p') \<longrightarrow> IsFinalized h (pr_state p) \<or> h \<in> X \<or>
        HasReachedQuorum h (pr_quorumThreshold p) (pr_state p'))"

lemma safe_step_refl [simp, intro]: "safe_step X p p"
  by (auto simp: safe_step_def)

lemma safe_step_trans: "safe_step X p q \<Longrightarrow> safe_step X q r \<Longrightarrow> safe_step X p r"
  unfolding safe_step_def using approvals_mono_trans quorum_mono by metis

lemma safe_step_mono: "safe_step X p q \<Longrightarrow> X \<subseteq> Y \<Longrightarrow> safe_step Y p q"
  unfolding safe_step_def by blast

text \<open>Changes outside the approvals and finalizations.\<close>

lemma safe_step_frame:
  assumes "pr_validators p' = pr_validators p" "pr_p2pNetwork p' = pr_p2pNetwork p"
    "pr_blockFinalizer p' = pr_blockFinalizer p" "pr_quorumThreshold p' = pr_quorumThreshold p"
    "cs_approvals (pr_state p') = cs_approvals (pr_state p)" "cs_finalized (pr_state p') = cs_finalized (pr_state p)"
  shows "safe_step X p p'"
proof -
  have "approvals_for k (pr_state p') = approvals_for k (pr_state p)" for k
    using assms(5) by (rule approvals_for_cong)
  with assms show ?thesis
    by (simp add: safe_step_def approvals_mono_def all_authentic_def IsFinalized_def)
qed

lemma snd_on_state: "snd (on_state f p) = p\<lparr>pr_state := snd (f (pr_state p))\<rparr>"
  by (simp add: on_state_def case_prod_beta)

lemma safe_Broadcast: "safe_step X p (snd (BroadcastMessage pkt p))"
  by (rule safe_step_frame)
    (auto simp: BroadcastMessage_def split: sum.splits option.splits)

lemma safe_AddProposal: "safe_step X p (snd (on_state (AddProposal M pkt) p))"
  by (rule safe_step_frame) (simp_all add: snd_on_state)

lemma safe_AddApproval:
  assumes "authentic_approval (pr_validators p) (cp_BlockHash pkt) (cp_ValidatorID pkt) (cp_Signature pkt)"
  shows "safe_step X p (snd (on_state (AddApproval M pkt) p))"
  using assms approvals_mono_AddApproval [of "pr_state p" M pkt]
  by (auto simp: safe_step_def snd_on_state all_authentic_def approvals_for_AddApproval IsFinalized_def
      split: if_splits)

lemma safe_State_Finalize:
  assumes "h \<in> X \<or> HasReachedQuorum h (pr_quorumThreshold p) (pr_state p)"
  shows "safe_step X p (snd (on_state (State_FinalizeBlock M h) p))"
  using assms
  by (auto simp: safe_step_def snd_on_state all_authentic_def IsFinalized_def approvals_mono_def
      HasReachedQuorum_def split: if_splits)

lemma safe_Protocol_FinalizeBlock: "safe_step X p (snd (Protocol_FinalizeBlock M h p))"
proof -
  let ?p1 = "on_state (State_FinalizeBlock M h) p"
  have "safe_step X p (snd ?p1)" if "HasReachedQuorum h (pr_quorumThreshold p) (pr_state p)"
    using that by (intro safe_State_Finalize) simp
  moreover have "safe_step X (snd ?p1) (snd (BroadcastMessage (finalization_packet h) (snd ?p1)))"
    by (rule safe_Broadcast)
  ultimately show ?thesis
    by (auto simp: Protocol_FinalizeBlock_def split: prod.splits option.splits intro: safe_step_trans)
qed

lemma safe_finalize_if_quorum: "safe_step X p (snd (finalize_if_quorum M h p))"
  by (simp add: finalize_if_quorum_def safe_Protocol_FinalizeBlock)

lemma authentic_signed:
  assumes "vs_wf vs" "GetValidator i vs = Some v" "Validator_Signer v BlsSignerType = Some s"
    "fst (sg_Verify s h sig) \<or> sg_Sign s h = Inr sig"
  shows "authentic_approval vs h (acc_PeerID v) sig"
proof -
  have "acc_PeerID v = i" using assms(1,2) by (simp add: vs_wf_def GetValidator_def)
  with assms show ?thesis unfolding authentic_approval_def by blast
qed

lemma safe_ApproveProposal:
  assumes "vs_wf (pr_validators p)"
  shows "safe_step X p (snd (ApproveProposal M h i p))"
proof (cases "\<exists>v s sig. GetValidator i (pr_validators p) = Some v \<and>
    Validator_Signer v BlsSignerType = Some s \<and> sg_Sign s h = Inr sig")
  case True
  then obtain v s sig where v: "GetValidator i (pr_validators p) = Some v"
    "Validator_Signer v BlsSignerType = Some s" "sg_Sign s h = Inr sig" by blast
  let ?pkt = "approval_packet (acc_PeerID v) h sig"
  let ?r1 = "on_state (AddApproval M ?pkt) p"
  let ?r2 = "BroadcastMessage ?pkt (snd ?r1)"
  have 1: "safe_step X p (snd ?r1)"
    using authentic_signed [OF assms v(1,2)] v(3) by (intro safe_AddApproval) (simp add: approval_packet_def)
  then have 2: "safe_step X p (snd ?r2)" using safe_Broadcast safe_step_trans by blast
  then have "safe_step X p (snd (finalize_if_quorum M h (snd ?r2)))"
    using safe_finalize_if_quorum safe_step_trans by blast
  with 1 2 v show ?thesis
    by (auto simp: ApproveProposal_def Let_def split: prod.splits option.splits)
next
  case False
  then show ?thesis by (auto simp: ApproveProposal_def split: option.splits sum.splits)
qed

lemma safe_ProposeBlock: "safe_step X p (snd (ProposeBlock M d p))"
proof -
  have 1: "safe_step X p q" if "on_state (AddProposal M pkt) p = (r, q)" for pkt r q
    using safe_AddProposal [of X p M pkt] that by simp
  have 2: "safe_step X p q'" if "on_state (AddProposal M pkt) p = (r, q)" "BroadcastMessage pkt q = (r', q')"
    for pkt r q r' q'
    using 1 [OF that(1)] safe_Broadcast [of X q pkt] that(2) by (auto intro: safe_step_trans)
  show ?thesis
    by (auto simp: ProposeBlock_def Let_def dest: 1 2 split: option.splits sum.splits prod.splits)
qed

lemma safe_HandleProposal:
  assumes "vs_wf (pr_validators p)"
  shows "safe_step X p (snd (HandleProposal M pkt p))"
proof -
  obtain r1 p1 where r1: "on_state (AddProposal M pkt) p = (r1, p1)" by (cases "on_state (AddProposal M pkt) p")
  then have 1: "safe_step X p p1" using safe_AddProposal [of X p M pkt] by simp
  have "vs_wf (pr_validators p1)" using assms 1 by (simp add: safe_step_def)
  then have 2: "safe_step X p q" if "ApproveProposal M h i p1 = (r, q)" for h i r q
    using safe_ApproveProposal [of p1 X M h i] that 1 by (auto intro: safe_step_trans)
  show ?thesis
    using 1 by (auto simp: HandleProposal_def Let_def r1 dest: 2 split: option.splits prod.splits go_error.splits)
qed

lemma safe_HandleApproval:
  assumes "vs_wf (pr_validators p)"
  shows "safe_step X p (snd (HandleApproval M pkt p))"
proof (cases "\<exists>v s. GetValidator (cp_ValidatorID pkt) (pr_validators p) = Some v \<and>
    Validator_Signer v BlsSignerType = Some s \<and> fst (sg_Verify s (cp_BlockHash pkt) (cp_Signature pkt))")
  case True
  then have "safe_step X p (snd (on_state (AddApproval M pkt) p))"
    by (intro safe_AddApproval) (auto simp: authentic_approval_def)
  moreover from this have "safe_step X p
      (snd (finalize_if_quorum M (cp_BlockHash pkt) (snd (on_state (AddApproval M pkt) p))))"
    using safe_finalize_if_quorum safe_step_trans by blast
  ultimately show ?thesis
    by (auto simp: HandleApproval_def split: option.splits prod.splits)
next
  case False
  then show ?thesis by (auto simp: HandleApproval_def split: option.splits)
qed

lemma safe_invoke_finalizer: "safe_step X p (snd (invoke_finalizer M h p))"
  by (rule safe_step_frame) (auto simp: invoke_finalizer_def split: option.splits sum.splits)

lemma safe_HandleFinalization: "safe_step {cp_BlockHash pkt} p (snd (HandleFinalization M pkt p))"
proof -
  let ?X = "{cp_BlockHash pkt}"
  let ?r1 = "on_state (State_FinalizeBlock M (cp_BlockHash pkt)) p"
  let ?r2 = "invoke_finalizer M (cp_BlockHash pkt) (snd ?r1)"
  have 1: "safe_step ?X p (snd ?r1)" by (rule safe_State_Finalize) simp
  then have 2: "safe_step ?X p (snd ?r2)" using safe_invoke_finalizer safe_step_trans by blast
  then have "safe_step ?X p (snd (BroadcastMessage (finalization_packet (cp_BlockHash pkt)) (snd ?r2)))"
    using safe_Broadcast safe_step_trans by blast
  with 1 2 show ?thesis
    by (auto simp: HandleFinalization_def split: option.splits prod.splits bool.splits)
qed

definition claimed :: "consensus_packet list \<Rightarrow> bytes set" where
  "claimed pkts = {cp_BlockHash pkt | pkt. pkt \<in> set pkts \<and> cp_Type pkt = PacketTypeFinalization}"

lemma safe_HandleMessage:
  "vs_wf (pr_validators p) \<Longrightarrow> safe_step (claimed [pkt]) p (snd (HandleMessage M pkt p))"
  using safe_HandleFinalization [of pkt p M]
  by (auto simp: HandleMessage_def claimed_def safe_HandleProposal safe_HandleApproval)

lemma safe_Start_process:
  assumes "vs_wf (pr_validators p)"
  shows "safe_step (claimed [pkt]) p (snd (Start_process M pkt p))"
proof -
  have "safe_step (claimed [pkt]) q (q\<lparr>pr_messagePool := mp\<rparr>)" for q :: "'a protocol" and mp
    by (rule safe_step_frame) simp_all
  with safe_HandleMessage [OF assms, of pkt M] show ?thesis
    by (auto simp: Start_process_def split: prod.splits option.splits intro: safe_step_trans)
qed

section \<open>Reachable states\<close>

definition init_node :: "'e protocol \<Rightarrow> 'e node" where
  "init_node p = \<lparr>nd_protocol = p, nd_inflight = [], nd_processed = []\<rparr>"

definition started :: "'e node \<Rightarrow> bool" where
  "started n \<longleftrightarrow> (\<exists>open_db mgr mgr' vs net fin p. vs_wf vs \<and>
     NewProtocol open_db mgr vs net fin = (Inr p, mgr') \<and> n = init_node p)"

definition node_inv :: "'e node \<Rightarrow> bool" where
  "node_inv n \<longleftrightarrow> vs_wf (pr_validators (nd_protocol n)) \<and> all_authentic (nd_protocol n) \<and>
     (\<forall>h. IsFinalized h (pr_state (nd_protocol n)) \<longrightarrow> h \<in> claimed (nd_processed n) \<or>
        HasReachedQuorum h (pr_quorumThreshold (nd_protocol n)) (pr_state (nd_protocol n)))"

lemma NewProtocol_Inr:
  assumes "NewProtocol open_db mgr vs net fin = (Inr p, mgr')"
  shows "\<exists>env. p = \<lparr>pr_state = NewState env, pr_validators = vs, pr_messagePool = NewMessagePool,
                 pr_p2pNetwork = net, pr_blockFinalizer = fin,
                 pr_quorumThreshold = QuorumSize vs, pr_sent = [], pr_finalizer_calls = []\<rparr>"
  using assms by (auto simp: NewProtocol_def Let_def bindE_eq_Inr case_prod_beta)

lemma node_inv_started: "started n \<Longrightarrow> node_inv n"
  by (auto simp: started_def node_inv_def init_node_def all_authentic_def NewState_def approvals_for_def
      IsFinalized_def dest!: NewProtocol_Inr)

lemma claimed_Cons: "claimed (pkt # pkts) = claimed [pkt] \<union> claimed pkts"
  by (auto simp: claimed_def)

lemma node_inv_safe_step:
  assumes "node_inv n" "safe_step X (nd_protocol n) p" "X \<union> claimed (nd_processed n) \<subseteq> claimed done"
  shows "node_inv (n\<lparr>nd_protocol := p, nd_inflight := fl, nd_processed := done\<rparr>)"
  unfolding node_inv_def
proof (intro conjI allI impI)
  fix h assume "IsFinalized h (pr_state (nd_protocol (n\<lparr>nd_protocol := p, nd_inflight := fl, nd_processed := done\<rparr>)))"
  then consider "IsFinalized h (pr_state (nd_protocol n))" | "h \<in> X"
    | "HasReachedQuorum h (pr_quorumThreshold (nd_protocol n)) (pr_state p)"
    using assms(2) unfolding safe_step_def by auto
  then show "h \<in> claimed (nd_processed (n\<lparr>nd_protocol := p, nd_inflight := fl, nd_processed := done\<rparr>)) \<or>
      HasReachedQuorum h (pr_quorumThreshold (nd_protocol (n\<lparr>nd_protocol := p, nd_inflight := fl, nd_processed := done\<rparr>)))
        (pr_state (nd_protocol (n\<lparr>nd_protocol := p, nd_inflight := fl, nd_processed := done\<rparr>)))"
    using assms quorum_mono unfolding safe_step_def node_inv_def by cases (auto, blast+)
qed (use assms in \<open>auto simp: safe_step_def node_inv_def\<close>)

lemma node_inv_same_done:
  "node_inv n \<Longrightarrow> safe_step {} (nd_protocol n) p \<Longrightarrow> node_inv (n\<lparr>nd_protocol := p, nd_inflight := fl\<rparr>)"
  using node_inv_safe_step [of n "{}" p "nd_processed n" fl] by simp

lemma node_inv_protocol_only:
  "node_inv n \<Longrightarrow> safe_step {} (nd_protocol n) p \<Longrightarrow> node_inv (n\<lparr>nd_protocol := p\<rparr>)"
  using node_inv_same_done [of n p "nd_inflight n"] by simp

lemma safe_Start_receive: "Start_receive data p = Some (pkt, q) \<Longrightarrow> safe_step X p q"
  by (rule safe_step_frame) (auto simp: Start_receive_def split: sum.splits)

lemma node_inv_cstep:
  assumes "node_inv n" "cstep M n n'"
  shows "node_inv n'"
proof -
  have wf: "vs_wf (pr_validators (nd_protocol n))" using assms(1) by (simp add: node_inv_def)
  from assms(2) show ?thesis
  proof cases
    case (receive data pkt p)
    then show ?thesis using assms(1) node_inv_same_done safe_Start_receive by blast
  next
    case (process xs pkt ys p)
    have "safe_step (claimed [pkt]) (nd_protocol n) p"
      using safe_Start_process [OF wf, of pkt M] process(3) by simp
    then show ?thesis
      unfolding process(1)
      by (rule node_inv_safe_step [OF assms(1)]) (simp add: claimed_Cons [of pkt "nd_processed n"])
  next
    case (propose blockData r p)
    then show ?thesis using assms(1) node_inv_protocol_only safe_ProposeBlock by (metis snd_conv)
  next
    case (approve blockHash approverID r p)
    then show ?thesis using assms(1) node_inv_protocol_only safe_ApproveProposal [OF wf] by (metis snd_conv)
  next
    case (finalize blockHash r p)
    then show ?thesis using assms(1) node_inv_protocol_only safe_Protocol_FinalizeBlock by (metis snd_conv)
  qed
qed

interpretation consensus: invariant_system started "cstep M" node_inv for M
  by unfold_locales (auto intro: node_inv_started node_inv_cstep)

text \<open>The configuration never changes along a run.\<close>

lemma cstep_config:
  assumes "vs_wf (pr_validators (nd_protocol n))" "cstep M n n'"
  shows "pr_validators (nd_protocol n') = pr_validators (nd_protocol n) \<and>
    pr_quorumThreshold (nd_protocol n') = pr_quorumThreshold (nd_protocol n)"
  using assms(2)
proof cases
  case (process xs pkt ys p)
  then show ?thesis using safe_Start_process [OF assms(1), of pkt M] by (simp add: safe_step_def)
next
  case (receive data pkt p)
  then show ?thesis using safe_Start_receive [of data "nd_protocol n"] by (fastforce simp: safe_step_def)
next
  case (propose blockData r p)
  then show ?thesis using safe_ProposeBlock [of "{}" "nd_protocol n" M blockData] by (simp add: safe_step_def)
next
  case (approve h i r p)
  then show ?thesis using safe_ApproveProposal [OF assms(1), of "{}" M h i] by (simp add: safe_step_def)
next
  case (finalize h r p)
  then show ?thesis using safe_Protocol_FinalizeBlock [of "{}" "nd_protocol n" M h] by (simp add: safe_step_def)
qed

lemma run_config:
  assumes "(cstep M)\<^sup>*\<^sup>* n n'" "vs_wf (pr_validators (nd_protocol n))"
  shows "pr_validators (nd_protocol n') = pr_validators (nd_protocol n) \<and>
    pr_quorumThreshold (nd_protocol n') = pr_quorumThreshold (nd_protocol n)"
  using assms by (induction rule: rtranclp_induct) (auto dest!: cstep_config [rotated])

section \<open>Quorums of approvals\<close>

definition approvers :: "bytes \<Rightarrow> 'e protocol \<Rightarrow> peer_id set" where
  "approvers h p = {i. \<exists>sig. fmlookup (approvals_for (blockHashKey h) (pr_state p)) i = Some sig \<and>
     authentic_approval (pr_validators p) h i sig}"

lemma approvers_valid: "approvers h p \<subseteq> {i. IsValidator i (pr_validators p)}"
  by (auto simp: approvers_def authentic_approval_def IsValidator_def GetValidator_def)

lemma approvers_card:
  assumes "all_authentic p"
  shows "card (approvers h p) = fmlen (approvals_for (blockHashKey h) (pr_state p))"
proof -
  have "approvers h p = fset (fmdom (approvals_for (blockHashKey h) (pr_state p)))"
    using assms by (auto simp: approvers_def all_authentic_def fmlookup_dom_iff)
  then show ?thesis by (simp add: fmlen_def fcard.rep_eq)
qed

lemma finalized_quorum:
  assumes "node_inv n" "IsFinalized h (pr_state (nd_protocol n))" "h \<notin> claimed (nd_processed n)"
  shows "int (card (approvers h (nd_protocol n))) \<ge> pr_quorumThreshold (nd_protocol n)"
  using assms approvers_card [of "nd_protocol n" h] by (auto simp: node_inv_def HasReachedQuorum_def)

section \<open>Properties\<close>

text \<open>
  C1: Finality.  In every state a node can reach, a finalized block has at least a quorum of distinct
  approvers, each a validator whose BLS signer accepts (or made) the recorded signature, unless the node has
  processed a finalization packet for that block.
\<close>

theorem finalized_blocks_have_quorum:
  assumes "vs_wf vs" "NewProtocol open_db mgr vs net fin = (Inr p, mgr')"
    and "(cstep M)\<^sup>*\<^sup>* (init_node p) n"
    and "IsFinalized h (pr_state (nd_protocol n))"
    and "\<forall>pkt \<in> set (nd_processed n). cp_Type pkt = PacketTypeFinalization \<longrightarrow> cp_BlockHash pkt \<noteq> h"
  shows "\<exists>A. A \<subseteq> {i. IsValidator i vs} \<and> int (card A) \<ge> QuorumSize vs \<and>
    (\<forall>i \<in> A. \<exists>sig. fmlookup (approvals_for (blockHashKey h) (pr_state (nd_protocol n))) i = Some sig \<and>
       authentic_approval vs h i sig)"
proof -
  have st: "started (init_node p)" using assms(1,2) unfolding started_def by blast
  have cfg: "pr_validators (nd_protocol n) = vs" "pr_quorumThreshold (nd_protocol n) = QuorumSize vs"
    using run_config [OF assms(3)] NewProtocol_Inr [OF assms(2)] assms(1) by (auto simp: init_node_def)
  have "h \<notin> claimed (nd_processed n)" using assms(5) by (auto simp: claimed_def)
  then have "int (card (approvers h (nd_protocol n))) \<ge> QuorumSize vs"
    using finalized_quorum [OF consensus.inv_reachable [OF st assms(3)] assms(4)] cfg by simp
  with approvers_valid [of h "nd_protocol n"] cfg show ?thesis
    by (intro exI [of _ "approvers h (nd_protocol n)"]) (auto simp: approvers_def)
qed

definition sample_account :: account where
  "sample_account = NewAccount (\<lambda>_. '''') [7] [] [] (fmupd BlsSignerType plain_signer fmempty) '''' ''''"

definition sample_validators :: validator_set where
  "sample_validators = AddValidator sample_account NewValidatorSet"

definition sample_protocol :: "(bytes, bytes) fmap protocol" where
  "sample_protocol = \<lparr>pr_state = NewState fmempty, pr_validators = sample_validators,
     pr_messagePool = NewMessagePool, pr_p2pNetwork = None, pr_blockFinalizer = None,
     pr_quorumThreshold = QuorumSize sample_validators, pr_sent = [], pr_finalizer_calls = []\<rparr>"

lemma sample_NewProtocol:
  "NewProtocol (\<lambda>_. Inr fmempty) fmempty sample_validators None None =
     (Inr sample_protocol, fmupd ''consensus'' fmempty fmempty)"
  by (simp add: NewProtocol_def Manager_GetDb_def Manager_CreateDb_def sample_protocol_def)

lemma sample_validators_facts:
  "vs_wf sample_validators" "QuorumSize sample_validators = 1"
  "GetValidator [7] sample_validators = Some sample_account"
  "Validator_Signer sample_account BlsSignerType = Some plain_signer"
  "vs_quorumThreshold sample_validators = 0"
  by (simp_all add: sample_validators_def vs_wf_def QuorumSize_def AddValidator_def NewValidatorSet_def
      GetValidator_def Validator_Signer_def sample_account_def NewAccount_def fmlen_upd)

lemma sample_approve:
  "\<exists>p'. ApproveProposal mem_mdbx [h] [7] sample_protocol = (None, p') \<and> IsFinalized [h] (pr_state p')"
proof -
  obtain sig where sig: "sg_Sign plain_signer [h] = Inr sig" using plain_sign_verifies [of "[h]"] by auto
  have id: "acc_PeerID sample_account = [7]" by (simp add: sample_account_def NewAccount_def)
  have P: "pr_validators sample_protocol = sample_validators" "pr_p2pNetwork sample_protocol = None"
    "pr_quorumThreshold sample_protocol = 1" "pr_state sample_protocol = NewState fmempty"
    by (simp_all add: sample_protocol_def sample_validators_facts)
  have set: "Db_Set mem_mdbx k v e = (None, fmupd k v e)" for k v e by (simp add: Db_Set_def mem_mdbx_def)
  show ?thesis
    by (simp add: ApproveProposal_def P sample_validators_facts sig id approval_packet_def Let_def on_state_def
        AddApproval_def persist_def set NewState_def approvals_for_def BroadcastMessage_def
        ConsensusPacket_Serialize_def finalize_if_quorum_def HasReachedQuorum_def Protocol_FinalizeBlock_def
        State_FinalizeBlock_def finalization_packet_def IsFinalized_def fmlen_upd)
qed

lemma sample_run:
  "\<exists>n. (cstep mem_mdbx)\<^sup>*\<^sup>* (init_node sample_protocol) n \<and> IsFinalized [h] (pr_state (nd_protocol n)) \<and>
     nd_processed n = []"
proof -
  obtain p' where p': "ApproveProposal mem_mdbx [h] [7] sample_protocol = (None, p')" "IsFinalized [h] (pr_state p')"
    using sample_approve by blast
  have "cstep mem_mdbx (init_node sample_protocol) ((init_node sample_protocol)\<lparr>nd_protocol := p'\<rparr>)"
    by (rule cstep.approve) (use p' in \<open>auto simp: init_node_def crashed_def\<close>)
  with p' show ?thesis
    by (intro exI [of _ "(init_node sample_protocol)\<lparr>nd_protocol := p'\<rparr>"]) (auto simp: init_node_def)
qed

theorem finalized_blocks_have_quorum_witness:
  "\<exists>n :: (bytes, bytes) fmap node. IsFinalized [5] (pr_state (nd_protocol n)) \<and>
    (\<exists>A. A \<subseteq> {i. IsValidator i sample_validators} \<and> int (card A) \<ge> QuorumSize sample_validators \<and>
      (\<forall>i \<in> A. \<exists>sig. fmlookup (approvals_for (blockHashKey [5]) (pr_state (nd_protocol n))) i = Some sig))"
proof -
  obtain n where run: "(cstep mem_mdbx)\<^sup>*\<^sup>* (init_node sample_protocol) n"
    and fin: "IsFinalized [5] (pr_state (nd_protocol n))" and prc: "nd_processed n = []"
    using sample_run by blast
  have "\<forall>pkt \<in> set (nd_processed n). cp_Type pkt = PacketTypeFinalization \<longrightarrow> cp_BlockHash pkt \<noteq> [5]"
    by (simp add: prc)
  from finalized_blocks_have_quorum [OF sample_validators_facts(1) sample_NewProtocol run fin this] fin
  show ?thesis by blast
qed

text \<open>
  C2: Agreement.  With the default quorum of two thirds plus one, two blocks finalized by a node without a
  finalization packet for either have an approver in common outside any set of at most a
  third of the validators: for conflicting blocks to be finalized, a validator outside the
  faulty set must have approved both.
\<close>

theorem finalized_blocks_share_honest_approver:
  assumes "vs_wf vs" "vs_quorumThreshold vs \<le> 0" "NewProtocol open_db mgr vs net fin = (Inr p, mgr')"
    and "(cstep M)\<^sup>*\<^sup>* (init_node p) n"
    and "IsFinalized h (pr_state (nd_protocol n))" "IsFinalized h' (pr_state (nd_protocol n))"
    and "h \<notin> claimed (nd_processed n)" "h' \<notin> claimed (nd_processed n)"
    and "F \<subseteq> {i. IsValidator i vs}" "3 * card F \<le> card {i. IsValidator i vs}"
  shows "\<exists>i. i \<notin> F \<and> i \<in> approvers h (nd_protocol n) \<and> i \<in> approvers h' (nd_protocol n)"
proof -
  have dom: "{i. IsValidator i vs} = fset (fmdom (vs_validators vs))" by (auto simp: IsValidator_iff)
  have st: "started (init_node p)" using assms(1,3) unfolding started_def by blast
  have cfg: "pr_validators (nd_protocol n) = vs" "pr_quorumThreshold (nd_protocol n) = QuorumSize vs"
    using run_config [OF assms(4)] NewProtocol_Inr [OF assms(3)] assms(1) by (auto simp: init_node_def)
  note inv = consensus.inv_reachable [OF st assms(4)]
  have sub: "approvers k (nd_protocol n) \<subseteq> fset (fmdom (vs_validators vs))" for k
    using approvers_valid [of k "nd_protocol n"] cfg dom by simp
  have "\<exists>v. v \<in> approvers h (nd_protocol n) \<inter> approvers h' (nd_protocol n) - F"
  proof (rule byzantine_quorum.honest_overlap [OF default_quorum_byzantine_quorum_laws [OF assms(2)] sub sub])
    show "int (card (approvers h (nd_protocol n))) \<ge> QuorumSize vs"
      using finalized_quorum [OF inv assms(5,7)] cfg by simp
    show "int (card (approvers h' (nd_protocol n))) \<ge> QuorumSize vs"
      using finalized_quorum [OF inv assms(6,8)] cfg by simp
  qed (use assms(9,10) dom in simp_all)
  then show ?thesis by blast
qed

theorem finalized_blocks_share_honest_approver_witness:
  "\<exists>n i. IsFinalized [5] (pr_state (nd_protocol n)) \<and>
    i \<in> approvers [5] (nd_protocol (n :: (bytes, bytes) fmap node))"
proof -
  obtain n where run: "(cstep mem_mdbx)\<^sup>*\<^sup>* (init_node sample_protocol) n"
    and fin: "IsFinalized [5] (pr_state (nd_protocol n))" and prc: "nd_processed n = []"
    using sample_run by blast
  have un: "[5] \<notin> claimed (nd_processed n)" by (simp add: claimed_def prc)
  have "vs_quorumThreshold sample_validators \<le> 0" by (simp add: sample_validators_facts)
  from finalized_blocks_share_honest_approver [OF sample_validators_facts(1) this sample_NewProtocol run fin fin un un,
      of "{}"] fin show ?thesis by auto
qed

text \<open>
  C38: A finalization packet is believed as it is: in any state, handling one finalizes its block hash,
  whatever its sender and signature and without a single approval.
\<close>

theorem unsigned_finalization_finalizes:
  assumes "cp_Type pkt = PacketTypeFinalization"
  shows "\<exists>p'. HandleMessage M pkt p = (None, p') \<and> IsFinalized (cp_BlockHash pkt) (pr_state p') \<and>
    (\<forall>k. approvals_for k (pr_state p') = approvals_for k (pr_state p))"
proof -
  let ?h = "cp_BlockHash pkt"
  let ?r1 = "on_state (State_FinalizeBlock M ?h) p"
  have st1: "pr_state (snd ?r1) = snd (State_FinalizeBlock M ?h (pr_state p))" by (simp add: snd_on_state)
  have st2: "pr_state (snd (invoke_finalizer M ?h q)) = pr_state q" for q
    by (auto simp: invoke_finalizer_def split: option.splits sum.splits)
  have st3: "pr_state (snd (BroadcastMessage x q)) = pr_state q" for x and q :: "'a protocol"
    by (auto simp: BroadcastMessage_def split: option.splits sum.splits)
  have fin: "IsFinalized ?h (snd (State_FinalizeBlock M ?h (pr_state p)))" by (simp add: IsFinalized_def)
  show ?thesis
  proof (cases "IsFinalized ?h (pr_state p)")
    case True
    with assms show ?thesis by (simp add: HandleMessage_def HandleFinalization_def packet_type_defs)
  next
    case False
    obtain err p1 where r1: "?r1 = (err, p1)" by (cases ?r1)
    then have p1: "pr_state p1 = snd (State_FinalizeBlock M ?h (pr_state p))" using st1 by simp
    obtain ok p2 where r2: "invoke_finalizer M ?h p1 = (ok, p2)" by (cases "invoke_finalizer M ?h p1")
    then have p2: "pr_state p2 = pr_state p1" using st2 [of p1] by simp
    have "HandleMessage M pkt p = HandleFinalization M pkt p"
      using assms by (simp add: HandleMessage_def packet_type_defs)
    with False fin r1 r2 p1 p2 show ?thesis
      by (cases err; cases ok) (simp_all add: HandleFinalization_def st3)
  qed
qed

theorem unsigned_finalization_finalizes_witness:
  "\<exists>p'. HandleMessage mem_mdbx (finalization_packet [5]) sample_protocol = (None, p') \<and>
     IsFinalized [5] (pr_state p') \<and> fmlen (approvals_for (blockHashKey [5]) (pr_state p')) = 0"
  using unsigned_finalization_finalizes [of "finalization_packet [5]" mem_mdbx sample_protocol]
  by (auto simp: finalization_packet_def sample_protocol_def NewState_def approvals_for_def)

text \<open>
  The finalizer never sees the block: \<open>FinalizeBlock\<close> overwrites the block data stored under the
  hash with the word \<open>finalized\<close> before the handler reads it back.
\<close>

theorem finalizer_gets_marker:
  assumes "mdbx_laws M db" "HandleFinalization M pkt p = (None, p')"
    and "pr_finalizer_calls p' \<noteq> pr_finalizer_calls p"
  shows "pr_finalizer_calls p' = pr_finalizer_calls p @ [(cp_BlockHash pkt, go_bytes ''finalized'')]"
proof -
  let ?h = "cp_BlockHash pkt"
  obtain err p1 where r1: "on_state (State_FinalizeBlock M ?h) p = (err, p1)"
    by (cases "on_state (State_FinalizeBlock M ?h) p")
  have calls1: "pr_finalizer_calls p1 = pr_finalizer_calls p"
    using snd_on_state [of "State_FinalizeBlock M ?h" p] r1 by simp
  have get: "Db_Get M ?h (cs_storage (pr_state p1)) = Inr (go_bytes ''finalized'')" if none: "err = None"
  proof -
    obtain e where e: "Db_Set M ?h (go_bytes ''finalized'') (cs_storage (pr_state p)) = (None, e)"
        "cs_storage (pr_state p1) = e"
      using r1 none
      by (auto simp: on_state_def State_FinalizeBlock_def persist_def Let_def split: prod.splits)
    then show ?thesis using kv_provider.get_set_same [OF mdbx_store_kv_provider_laws [OF assms(1)] e(1)] by simp
  qed
  have br: "pr_finalizer_calls (snd (BroadcastMessage x q)) = pr_finalizer_calls q" for x and q :: "'a protocol"
    by (auto simp: BroadcastMessage_def split: option.splits sum.splits)
  show ?thesis
    using assms(2,3) r1 calls1 get
    by (cases err; cases "pr_blockFinalizer p1")
      (auto simp: HandleFinalization_def invoke_finalizer_def br split: if_splits bool.splits prod.splits)
qed

theorem finalizer_gets_marker_witness:
  "pr_finalizer_calls (snd (HandleFinalization mem_mdbx (finalization_packet [5])
      (sample_protocol\<lparr>pr_blockFinalizer := Some (\<lambda>_ _ _. None)\<rparr>))) = [([5], go_bytes ''finalized'')]"
proof -
  let ?p = "sample_protocol\<lparr>pr_blockFinalizer := Some (\<lambda>_ _ _. None)\<rparr>"
  let ?r = "HandleFinalization mem_mdbx (finalization_packet [5]) ?p"
  have none: "fst ?r = None" and calls: "pr_finalizer_calls (snd ?r) \<noteq> []"
    by (simp_all add: HandleFinalization_def sample_protocol_def NewState_def IsFinalized_def on_state_def
        State_FinalizeBlock_def persist_def Db_Set_def Db_Get_def mem_mdbx_def invoke_finalizer_def
        finalization_packet_def BroadcastMessage_def ConsensusPacket_Serialize_def)
  have "pr_finalizer_calls ?p = []" by (simp add: sample_protocol_def)
  with finalizer_gets_marker [OF mem_mdbx_laws, of "finalization_packet [5]" ?p "snd ?r"] none calls
  show ?thesis by (simp add: prod_eq_iff) (simp add: finalization_packet_def)
qed

lemma finalize_if_quorum_None: "fst (finalize_if_quorum M h p) = None"
  by (simp add: finalize_if_quorum_def)

definition bls_ready :: "validator_set \<Rightarrow> bool" where
  "bls_ready vs \<longleftrightarrow> (\<forall>i v. GetValidator i vs = Some v \<longrightarrow>
     (\<exists>s. Validator_Signer v BlsSignerType = Some s \<and> (\<forall>d. \<not> panics (sg_Sign s d))))"

definition network_ready :: "network option \<Rightarrow> bool" where
  "network_ready n \<longleftrightarrow> (\<exists>net. n = Some net \<and> (\<forall>sent m. \<not> crashed (net_Broadcast net sent m)))"

definition storage_ready :: "'e mdbx \<Rightarrow> bool" where
  "storage_ready M \<longleftrightarrow> (\<forall>k v e. \<not> crashed (fst (Db_Set M k v e)))"

lemma crashed_simps [simp]:
  "\<not> crashed None" "crashed (Some (wrap_error s e)) \<longleftrightarrow> crashed (Some e)" "\<not> crashed (Some (ErrorS s))"
  "crashed (map_option (wrap_error s) r) \<longleftrightarrow> crashed r"
  by (auto simp: crashed_def split: option.splits)

lemma crashed_persist: "storage_ready M \<Longrightarrow> persist M k v cs = (r, cs') \<Longrightarrow> \<not> crashed r"
  by (auto simp: storage_ready_def persist_def case_prod_beta Let_def)

lemma crashed_AddApproval: "storage_ready M \<Longrightarrow> on_state (AddApproval M pkt) p = (r, p') \<Longrightarrow> \<not> crashed r"
  by (auto simp: on_state_def AddApproval_def Let_def split: if_splits option.splits prod.splits
      dest: crashed_persist)

lemma crashed_Broadcast:
  "network_ready (pr_p2pNetwork p) \<Longrightarrow> BroadcastMessage pkt p = (r, p') \<Longrightarrow> \<not> crashed r"
  by (auto simp: network_ready_def BroadcastMessage_def ConsensusPacket_Serialize_def)

lemma ApproveProposal_safe:
  assumes "bls_ready (pr_validators p)" "network_ready (pr_p2pNetwork p)" "storage_ready M"
  shows "\<not> crashed (fst (ApproveProposal M h i p))"
proof (cases "GetValidator i (pr_validators p)")
  case None
  then show ?thesis by (simp add: ApproveProposal_def)
next
  case (Some v)
  then obtain s where s: "Validator_Signer v BlsSignerType = Some s" "\<And>d. \<not> panics (sg_Sign s d)"
    using assms(1) unfolding bls_ready_def by blast
  have sign: "sg_Sign s h = Inl e \<Longrightarrow> \<not> crashed (Some e)" for e using s(2) [of h] by (auto simp: crashed_def)
  have net: "on_state (AddApproval M pkt) p = (r, q) \<Longrightarrow> network_ready (pr_p2pNetwork q)" for pkt r q
    using assms(2) snd_on_state [of "AddApproval M pkt" p] by simp
  show ?thesis
    using Some s(1) sign
    by (auto simp: ApproveProposal_def finalize_if_quorum_None Let_def split: sum.splits prod.splits option.splits
        dest: crashed_AddApproval [OF assms(3)] crashed_Broadcast [OF net])
qed

lemma HandleProposal_safe:
  assumes "bls_ready (pr_validators p)" "network_ready (pr_p2pNetwork p)" "storage_ready M"
  shows "fst (HandleProposal M pkt p) = None"
proof -
  have "bls_ready (pr_validators q) \<and> network_ready (pr_p2pNetwork q)" if "on_state (AddProposal M pkt) p = (r, q)" for r q
    using assms(1,2) snd_on_state [of "AddProposal M pkt" p] that by simp
  then have approve: "\<not> crashed r'" if "on_state (AddProposal M pkt) p = (r, q)" "ApproveProposal M h i q = (r', q')"
    for r q h i r' q'
    using ApproveProposal_safe [of q M h i] assms(3) that by simp
  have net: "\<exists>net. pr_p2pNetwork q = Some net" if "on_state (AddProposal M pkt) p = (r, q)" for r q
    using assms(2) snd_on_state [of "AddProposal M pkt" p] that by (auto simp: network_ready_def)
  have bls: "Validator_Signer v BlsSignerType \<noteq> None" if "GetValidator i (pr_validators p) = Some v" for i v
    using assms(1) that unfolding bls_ready_def by blast
  show ?thesis
    by (auto simp: HandleProposal_def Let_def crashed_def split: option.splits prod.splits go_error.splits
        dest: bls net approve)
qed

lemma HandleApproval_safe:
  assumes "bls_ready (pr_validators p)"
  shows "fst (HandleApproval M pkt p) = None"
proof -
  have bls: "Validator_Signer v BlsSignerType \<noteq> None" if "GetValidator i (pr_validators p) = Some v" for i v
    using assms that unfolding bls_ready_def by blast
  then show ?thesis
    by (auto simp: HandleApproval_def finalize_if_quorum_None split: option.splits prod.splits dest: bls)
qed

lemma HandleFinalization_None: "fst (HandleFinalization M pkt p) = None"
  by (auto simp: HandleFinalization_def split: option.splits prod.splits bool.splits)


definition sample_network :: network where
  "sample_network = \<lparr>net_HostID = [7], net_Broadcast = (\<lambda>_ _. None)\<rparr>"

lemma sample_ready:
  "bls_ready sample_validators" "network_ready (Some sample_network)" "storage_ready mem_mdbx"
proof -
  have "v = sample_account" if "GetValidator i sample_validators = Some v" for i v
    using that by (simp add: sample_validators_def AddValidator_def GetValidator_def NewValidatorSet_def split: if_splits)
  then show "bls_ready sample_validators"
    using plain_sign_safe sample_validators_facts(4) by (auto simp: bls_ready_def)
qed (simp_all add: network_ready_def sample_network_def storage_ready_def Db_Set_def mem_mdbx_def)


text \<open>
  Without those conditions a packet can crash the node: a proposal or approval naming a validator that
  has no BLS signer dereferences a nil interface.
\<close>

theorem missing_signer_crashes:
  assumes "GetValidator i (pr_validators p) = Some v" "Validator_Signer v BlsSignerType = None"
    and "cp_Type pkt = PacketTypeApproval" "cp_ValidatorID pkt = i"
  shows "HandleMessage M pkt p = (Some nil_dereference, p)"
  using assms by (simp add: HandleMessage_def HandleApproval_def packet_type_defs)

theorem missing_signer_crashes_witness:
  "HandleMessage mem_mdbx (approval_packet [7] [1] [2])
     (sample_protocol\<lparr>pr_validators := AddValidator (sample_account\<lparr>acc_Signers := fmempty\<rparr>) NewValidatorSet\<rparr>) =
   (Some nil_dereference,
    sample_protocol\<lparr>pr_validators := AddValidator (sample_account\<lparr>acc_Signers := fmempty\<rparr>) NewValidatorSet\<rparr>)"
  by (rule missing_signer_crashes [of "[7]" _ "sample_account\<lparr>acc_Signers := fmempty\<rparr>"])
    (simp_all add: GetValidator_def AddValidator_def Validator_Signer_def approval_packet_def
      sample_account_def NewAccount_def)

section \<open>Progress\<close>

text \<open>Handling a list of packets one after the other.\<close>

fun handle_all :: "'e mdbx \<Rightarrow> consensus_packet list \<Rightarrow> 'e protocol \<Rightarrow> 'e protocol" where
  "handle_all M [] p = p"
| "handle_all M (pkt # pkts) p = handle_all M pkts (snd (HandleMessage M pkt p))"

definition valid_approval :: "validator_set \<Rightarrow> bytes \<Rightarrow> consensus_packet \<Rightarrow> bool" where
  "valid_approval vs h pkt \<longleftrightarrow> cp_Type pkt = PacketTypeApproval \<and> cp_BlockHash pkt = h \<and>
     (\<exists>v s. GetValidator (cp_ValidatorID pkt) vs = Some v \<and> Validator_Signer v BlsSignerType = Some s \<and>
        fst (sg_Verify s h (cp_Signature pkt)))"

lemma Protocol_FinalizeBlock_finalizes:
  assumes "HasReachedQuorum h (pr_quorumThreshold p) (pr_state p)"
  shows "IsFinalized h (pr_state (snd (Protocol_FinalizeBlock M h p)))"
proof -
  have st: "pr_state (snd (BroadcastMessage x q)) = pr_state q" for x and q :: "'a protocol"
    by (auto simp: BroadcastMessage_def split: option.splits sum.splits)
  obtain err p1 where r1: "on_state (State_FinalizeBlock M h) p = (err, p1)"
    by (cases "on_state (State_FinalizeBlock M h) p")
  then have "IsFinalized h (pr_state p1)"
    using snd_on_state [of "State_FinalizeBlock M h" p] by (simp add: IsFinalized_def)
  moreover have "IsFinalized h (pr_state p2)" if "BroadcastMessage x p1 = (r, p2)" for x r p2
    using st [of x p1] that calculation by simp
  ultimately show ?thesis
    using assms r1 by (auto simp: Protocol_FinalizeBlock_def split: option.splits prod.splits)
qed

lemma HandleApproval_progress:
  assumes "valid_approval (pr_validators p) h pkt" "\<And>k v e. fst (Db_Set M k v e) = None"
  shows "let p' = snd (HandleMessage M pkt p) in
    cp_ValidatorID pkt |\<in>| fmdom (approvals_for (blockHashKey h) (pr_state p')) \<and>
    (HasReachedQuorum h (pr_quorumThreshold p) (pr_state p') \<longrightarrow> IsFinalized h (pr_state p'))"
proof -
  let ?r1 = "on_state (AddApproval M pkt) p"
  let ?p1 = "snd ?r1"
  have ty: "cp_Type pkt = PacketTypeApproval" "cp_BlockHash pkt = h"
    using assms(1) by (simp_all add: valid_approval_def)
  have ok: "fst ?r1 = None"
    using assms(2) ty
    by (auto simp: on_state_def AddApproval_def persist_def Let_def split: option.splits prod.splits)
      (metis fst_conv option.distinct(1))+
  have "HandleMessage M pkt p = finalize_if_quorum M h ?p1"
    using assms(1) ok ty
    by (auto simp: HandleMessage_def HandleApproval_def valid_approval_def packet_type_defs split: prod.splits)
  moreover have ap: "cp_ValidatorID pkt |\<in>| fmdom (approvals_for (blockHashKey h) (pr_state ?p1))"
    using ty by (auto simp: snd_on_state approvals_for_AddApproval fmlookup_dom_iff)
  moreover have "approvals_for k (pr_state (snd (finalize_if_quorum M h ?p1))) = approvals_for k (pr_state ?p1)" for k
    by (auto simp: finalize_if_quorum_def Protocol_FinalizeBlock_def BroadcastMessage_def on_state_def Let_def
        ConsensusPacket_Serialize_def case_prod_beta split: option.splits)
  moreover have "IsFinalized h (pr_state (snd (finalize_if_quorum M h ?p1)))"
    if "HasReachedQuorum h (pr_quorumThreshold p) (pr_state ?p1)"
    using that Protocol_FinalizeBlock_finalizes [of h ?p1 M] by (simp add: finalize_if_quorum_def snd_on_state)
  ultimately show ?thesis by (simp add: Let_def HasReachedQuorum_def)
qed

lemma handle_all_append: "handle_all M (xs @ ys) p = handle_all M ys (handle_all M xs p)"
  by (induction xs arbitrary: p) auto

lemma handle_all_safe:
  "vs_wf (pr_validators p) \<Longrightarrow> \<exists>X. safe_step X p (handle_all M pkts p)"
proof (induction pkts arbitrary: p)
  case (Cons pkt pkts)
  let ?q = "snd (HandleMessage M pkt p)"
  have 1: "safe_step (claimed [pkt]) p ?q" by (rule safe_HandleMessage) fact
  then have "vs_wf (pr_validators ?q)" using Cons.prems by (simp add: safe_step_def)
  then obtain X where "safe_step X ?q (handle_all M pkts ?q)" using Cons.IH by blast
  then have "safe_step (X \<union> claimed [pkt]) p (handle_all M pkts ?q)"
    using safe_step_trans [OF safe_step_mono [OF 1] safe_step_mono] by (metis Un_upper1 Un_upper2)
  then show ?case by auto
qed auto

lemma handle_all_config:
  assumes "vs_wf (pr_validators p)"
  shows "pr_validators (handle_all M pkts p) = pr_validators p"
    "pr_quorumThreshold (handle_all M pkts p) = pr_quorumThreshold p"
  using handle_all_safe [OF assms, of M pkts] by (auto simp: safe_step_def)

lemma handle_all_approvals:
  assumes "vs_wf (pr_validators p)" "\<And>k v e. fst (Db_Set M k v e) = None"
    and "list_all (valid_approval (pr_validators p) h) pkts"
  shows "cp_ValidatorID ` set pkts \<subseteq> fset (fmdom (approvals_for (blockHashKey h) (pr_state (handle_all M pkts p))))"
  using assms(3)
proof (induction pkts rule: rev_induct)
  case (snoc pkt pkts)
  let ?q = "handle_all M pkts p"
  have wf: "vs_wf (pr_validators ?q)" using assms(1) by (simp add: handle_all_config)
  have "safe_step (claimed [pkt]) ?q (snd (HandleMessage M pkt ?q))" by (rule safe_HandleMessage [OF wf])
  then have "fmlookup (approvals_for (blockHashKey h) (pr_state ?q)) \<subseteq>\<^sub>m
      fmlookup (approvals_for (blockHashKey h) (pr_state (snd (HandleMessage M pkt ?q))))"
    by (simp add: safe_step_def approvals_mono_def)
  then have "fset (fmdom (approvals_for (blockHashKey h) (pr_state ?q))) \<subseteq>
      fset (fmdom (approvals_for (blockHashKey h) (pr_state (snd (HandleMessage M pkt ?q)))))"
    by (rule map_le_fset)
  moreover have "cp_ValidatorID pkt |\<in>| fmdom (approvals_for (blockHashKey h) (pr_state (snd (HandleMessage M pkt ?q))))"
    using HandleApproval_progress [of ?q h pkt M] snoc.prems assms(1,2) by (simp add: handle_all_config Let_def)
  ultimately show ?case using snoc by (auto simp: handle_all_append)
qed simp

text \<open>
  C3: Progress.  Once a node has handled valid approvals of a block from a quorum of distinct
  validators, in any order and whatever state it started from, it has finalized the block, provided
  the database accepts the writes.
\<close>

theorem quorum_of_approvals_finalizes:
  assumes "vs_wf (pr_validators p)" "\<And>k v e. fst (Db_Set M k v e) = None"
    and "list_all (valid_approval (pr_validators p) h) pkts" "distinct (map cp_ValidatorID pkts)"
    and "pkts \<noteq> []" "int (length pkts) \<ge> pr_quorumThreshold p"
  shows "IsFinalized h (pr_state (handle_all M pkts p))"
proof -
  obtain xs pkt where pkts: "pkts = xs @ [pkt]" using assms(5) by (metis rev_exhaust)
  let ?q = "handle_all M xs p"
  let ?m = "approvals_for (blockHashKey h) (pr_state (handle_all M pkts p))"
  have "card (cp_ValidatorID ` set pkts) = length pkts"
    using distinct_card [OF assms(4)] by simp
  moreover have "card (cp_ValidatorID ` set pkts) \<le> card (fset (fmdom ?m))"
    using handle_all_approvals [OF assms(1-3)] by (intro card_mono) auto
  ultimately have "HasReachedQuorum h (pr_quorumThreshold p) (pr_state (handle_all M pkts p))"
    using assms(6) by (simp add: HasReachedQuorum_def fmlen_def fcard.rep_eq)
  then show ?thesis
    using HandleApproval_progress [of ?q h pkt M] assms(1-3)
    by (simp add: pkts handle_all_append handle_all_config Let_def)
qed

theorem quorum_of_approvals_finalizes_witness:
  "\<exists>sig. IsFinalized [5] (pr_state (handle_all mem_mdbx [approval_packet [7] [5] sig] sample_protocol))"
proof -
  obtain sig where sig: "sg_Verify plain_signer [5] sig = (True, None)" using plain_sign_verifies [of "[5]"] by auto
  let ?pkts = "[approval_packet [7] [5] sig]"
  have V: "pr_validators sample_protocol = sample_validators" "pr_quorumThreshold sample_protocol = 1"
    by (simp_all add: sample_protocol_def sample_validators_facts)
  have "list_all (valid_approval (pr_validators sample_protocol) [5]) ?pkts"
    by (simp add: V valid_approval_def approval_packet_def sample_validators_facts sig)
  then have "IsFinalized [5] (pr_state (handle_all mem_mdbx ?pkts sample_protocol))"
    by (intro quorum_of_approvals_finalizes)
      (simp_all add: V sample_validators_facts Db_Set_def mem_mdbx_def)
  then show ?thesis ..
qed

end
