(* ===== verification/Sharding.thy ===== *)
theory Sharding
  imports Core_Types
begin

text \<open>
  \<open>pkg/sharding\<close>: shards (\<open>shard.go\<close>) and their manager (\<open>manager.go\<close>).  The text form of a peer ID is computed by
  libp2p and is the parameter \<open>pstr\<close>; ranges over maps take their order.  Shown here: every validator sits in exactly
  the shard its hash selects, in every reachable manager; assignment is idempotent; and rebalancing changes nothing.
\<close>

section \<open>The FNV-1a hash of the standard library\<close>

definition fnv32a :: "bytes \<Rightarrow> uint32" where
  "fnv32a data = fold (\<lambda>b h. xor h (ucast b) * 16777619) data 2166136261"

section \<open>Shards\<close>

record shard =
  sh_ID :: int
  sh_validators :: "(peer_id, unit) fmap"
  sh_data :: "(string, bytes) fmap"

definition NewShard :: "int \<Rightarrow> shard" where
  "NewShard i = \<lparr>sh_ID = i, sh_validators = fmempty, sh_data = fmempty\<rparr>"

definition Shard_AddValidator :: "peer_id \<Rightarrow> shard \<Rightarrow> shard" where
  "Shard_AddValidator v s = s\<lparr>sh_validators := fmupd v () (sh_validators s)\<rparr>"

definition Shard_RemoveValidator :: "peer_id \<Rightarrow> shard \<Rightarrow> shard" where
  "Shard_RemoveValidator v s = s\<lparr>sh_validators := fmdrop v (sh_validators s)\<rparr>"

definition HasValidator :: "peer_id \<Rightarrow> shard \<Rightarrow> bool" where
  "HasValidator v s \<longleftrightarrow> fmlookup (sh_validators s) v \<noteq> None"

definition ClearValidators :: "shard \<Rightarrow> shard" where
  "ClearValidators s = s\<lparr>sh_validators := fmempty\<rparr>"

definition StoreData :: "string \<Rightarrow> bytes \<Rightarrow> shard \<Rightarrow> shard" where
  "StoreData key value s = s\<lparr>sh_data := fmupd key value (sh_data s)\<rparr>"

definition RetrieveData :: "string \<Rightarrow> shard \<Rightarrow> bytes option" where
  "RetrieveData key s = fmlookup (sh_data s) key"

text \<open>The validators met by the range, in its order.\<close>

definition ListValidators :: "peer_id list \<Rightarrow> shard \<Rightarrow> peer_id list" where
  "ListValidators vorder s = filter (\<lambda>v. fmlookup (sh_validators s) v \<noteq> None) vorder"

section \<open>Manager\<close>

record shard_manager =
  shm_ShardCount :: int
  shm_Shards :: "(int, shard) fmap"

definition NewShardManager :: "int \<Rightarrow> shard_manager" where
  "NewShardManager shardCount =
     \<lparr>shm_ShardCount = shardCount,
      shm_Shards = fold (\<lambda>i. fmupd i (NewShard i)) (map int [0..<nat shardCount]) fmempty\<rparr>"

definition hashValidator :: "(peer_id \<Rightarrow> string) \<Rightarrow> peer_id \<Rightarrow> int" where
  "hashValidator pstr v = uint (fnv32a (go_bytes (pstr v)))"

definition hashData :: "string \<Rightarrow> int" where
  "hashData key = uint (fnv32a (go_bytes key))"

text \<open>Go's \<open>%\<close> truncates and panics on zero; the hashes are not negative.\<close>

definition shard_mod :: "int \<Rightarrow> int \<Rightarrow> int result" where
  "shard_mod h n = (if n = 0 then Inl (Panic ''integer divide by zero'') else Inr (h mod \<bar>n\<bar>))"

text \<open>Adding to the shard with an ID; a missing shard is a nil pointer.\<close>

definition add_to_shard :: "int \<Rightarrow> peer_id \<Rightarrow> shard_manager \<Rightarrow> shard_manager result" where
  "add_to_shard shardID v sm =
     (case fmlookup (shm_Shards sm) shardID of
        None \<Rightarrow> Inl (Panic ''nil pointer dereference'')
      | Some shard \<Rightarrow> Inr (sm\<lparr>shm_Shards := fmupd shardID (Shard_AddValidator v shard) (shm_Shards sm)\<rparr>))"

fun find_shard :: "int list \<Rightarrow> peer_id \<Rightarrow> shard_manager \<Rightarrow> int option" where
  "find_shard [] v sm = None"
| "find_shard (shardID # ids) v sm =
     (case fmlookup (shm_Shards sm) shardID of
        Some shard \<Rightarrow> if HasValidator v shard then Some shardID else find_shard ids v sm
      | None \<Rightarrow> find_shard ids v sm)"

definition AssignValidator :: "(peer_id \<Rightarrow> string) \<Rightarrow> int list \<Rightarrow> peer_id \<Rightarrow> shard_manager \<Rightarrow> (int \<times> shard_manager) result" where
  "AssignValidator pstr order validatorID sm =
     (case find_shard order validatorID sm of
        Some shardID \<Rightarrow> Inr (shardID, sm)
      | None \<Rightarrow>
          bindE (shard_mod (hashValidator pstr validatorID) (shm_ShardCount sm)) (\<lambda>shardID.
          bindE (add_to_shard shardID validatorID sm) (\<lambda>sm. Inr (shardID, sm))))"

definition Manager_RemoveValidator :: "int list \<Rightarrow> peer_id \<Rightarrow> shard_manager \<Rightarrow> go_error option \<times> shard_manager" where
  "Manager_RemoveValidator order validatorID sm =
     (case find_shard order validatorID sm of
        Some shardID \<Rightarrow>
          (None, sm\<lparr>shm_Shards := (case fmlookup (shm_Shards sm) shardID of
             Some shard \<Rightarrow> fmupd shardID (Shard_RemoveValidator validatorID shard) (shm_Shards sm) | None \<Rightarrow> shm_Shards sm)\<rparr>)
      | None \<Rightarrow> (Some (ErrorS ''validator %s is not assigned to any shard''), sm))"

definition GetShard :: "int \<Rightarrow> shard_manager \<Rightarrow> shard result" where
  "GetShard shardID sm =
     (case fmlookup (shm_Shards sm) shardID of
        Some shard \<Rightarrow> Inr shard | None \<Rightarrow> Inl (ErrorS ''invalid shard ID: %d''))"

definition GetValidatorsInShard :: "peer_id list \<Rightarrow> int \<Rightarrow> shard_manager \<Rightarrow> peer_id list result" where
  "GetValidatorsInShard vorder shardID sm =
     (case fmlookup (shm_Shards sm) shardID of
        Some shard \<Rightarrow> Inr (ListValidators vorder shard) | None \<Rightarrow> Inl (ErrorS ''invalid shard ID''))"

definition GetShardForData :: "string \<Rightarrow> shard_manager \<Rightarrow> shard result" where
  "GetShardForData key sm =
     bindE (shard_mod (hashData key) (shm_ShardCount sm)) (\<lambda>shardID.
       case fmlookup (shm_Shards sm) shardID of
         Some shard \<Rightarrow> Inr shard | None \<Rightarrow> Inl (ErrorS ''invalid shard ID''))"

text \<open>The first loop of \<open>RebalanceShards\<close> collects and clears, the second reassigns.\<close>

fun collect_validators :: "int list \<Rightarrow> (int \<Rightarrow> peer_id list) \<Rightarrow> peer_id list \<Rightarrow> shard_manager \<Rightarrow> peer_id list \<times> shard_manager" where
  "collect_validators [] vorder allValidators sm = (allValidators, sm)"
| "collect_validators (shardID # ids) vorder allValidators sm =
     (case fmlookup (shm_Shards sm) shardID of
        None \<Rightarrow> collect_validators ids vorder allValidators sm
      | Some shard \<Rightarrow>
          collect_validators ids vorder (allValidators @ ListValidators (vorder shardID) shard)
            (sm\<lparr>shm_Shards := fmupd shardID (ClearValidators shard) (shm_Shards sm)\<rparr>))"

fun reassign :: "(peer_id \<Rightarrow> string) \<Rightarrow> peer_id list \<Rightarrow> shard_manager \<Rightarrow> shard_manager result" where
  "reassign pstr [] sm = Inr sm"
| "reassign pstr (v # vs) sm =
     bindE (shard_mod (hashValidator pstr v) (shm_ShardCount sm)) (\<lambda>shardID.
     bindE (add_to_shard shardID v sm) (reassign pstr vs))"

definition RebalanceShards ::
  "(peer_id \<Rightarrow> string) \<Rightarrow> int list \<Rightarrow> (int \<Rightarrow> peer_id list) \<Rightarrow> shard_manager \<Rightarrow> shard_manager result" where
  "RebalanceShards pstr order vorder sm =
     (case collect_validators order vorder [] sm of (allValidators, sm) \<Rightarrow> reassign pstr allValidators sm)"

section \<open>What a manager holds\<close>

definition members :: "shard_manager \<Rightarrow> int \<Rightarrow> peer_id \<Rightarrow> bool" where
  "members sm i v \<longleftrightarrow> (case fmlookup (shm_Shards sm) i of None \<Rightarrow> False | Some s \<Rightarrow> HasValidator v s)"

definition shard_data :: "shard_manager \<Rightarrow> int \<Rightarrow> (int \<times> (string, bytes) fmap) option" where
  "shard_data sm i = map_option (\<lambda>s. (sh_ID s, sh_data s)) (fmlookup (shm_Shards sm) i)"

text \<open>\<open>IDs\<close> and data of the shards, which assigning validators leaves alone.\<close>

definition same_frame :: "shard_manager \<Rightarrow> shard_manager \<Rightarrow> bool" where
  "same_frame sm sm' \<longleftrightarrow> shm_ShardCount sm' = shm_ShardCount sm \<and> shard_data sm' = shard_data sm"

lemma same_frame_refl [simp]: "same_frame sm sm"
  by (simp add: same_frame_def)

lemma same_frame_trans: "same_frame a b \<Longrightarrow> same_frame b c \<Longrightarrow> same_frame a c"
  by (simp add: same_frame_def)

lemma HasValidator_simps [simp]:
  "HasValidator v (Shard_AddValidator w s) \<longleftrightarrow> v = w \<or> HasValidator v s"
  "HasValidator v (Shard_RemoveValidator w s) \<longleftrightarrow> v \<noteq> w \<and> HasValidator v s"
  "\<not> HasValidator v (ClearValidators s)" "\<not> HasValidator v (NewShard i)"
  "HasValidator v (StoreData k d s) \<longleftrightarrow> HasValidator v s"
  by (auto simp: HasValidator_def Shard_AddValidator_def Shard_RemoveValidator_def ClearValidators_def NewShard_def StoreData_def)

lemma shard_frame_simps [simp]:
  "sh_ID (Shard_AddValidator w s) = sh_ID s" "sh_data (Shard_AddValidator w s) = sh_data s"
  "sh_ID (Shard_RemoveValidator w s) = sh_ID s" "sh_data (Shard_RemoveValidator w s) = sh_data s"
  "sh_ID (ClearValidators s) = sh_ID s" "sh_data (ClearValidators s) = sh_data s"
  by (simp_all add: Shard_AddValidator_def Shard_RemoveValidator_def ClearValidators_def)

lemma add_to_shard_Inr:
  assumes "shard_data sm i \<noteq> None"
  shows "\<exists>sm'. add_to_shard i v sm = Inr sm' \<and> same_frame sm sm' \<and>
    (\<forall>j w. members sm' j w \<longleftrightarrow> members sm j w \<or> j = i \<and> w = v)"
proof -
  from assms obtain s where s: "fmlookup (shm_Shards sm) i = Some s" by (auto simp: shard_data_def)
  let ?sm = "sm\<lparr>shm_Shards := fmupd i (Shard_AddValidator v s) (shm_Shards sm)\<rparr>"
  have "add_to_shard i v sm = Inr ?sm" by (simp add: add_to_shard_def s)
  moreover have "same_frame sm ?sm" using s by (auto simp: same_frame_def shard_data_def fun_eq_iff)
  moreover have "members ?sm j w \<longleftrightarrow> members sm j w \<or> j = i \<and> w = v" for j w
    using s by (auto simp: members_def)
  ultimately show ?thesis by blast
qed

section \<open>Invariant\<close>

definition home :: "(peer_id \<Rightarrow> string) \<Rightarrow> shard_manager \<Rightarrow> peer_id \<Rightarrow> int" where
  "home pstr sm v = hashValidator pstr v mod shm_ShardCount sm"

definition frame_ok :: "shard_manager \<Rightarrow> bool" where
  "frame_ok sm \<longleftrightarrow> 0 < shm_ShardCount sm \<and> (\<forall>i. shard_data sm i \<noteq> None \<longleftrightarrow> 0 \<le> i \<and> i < shm_ShardCount sm)"

definition shard_inv :: "(peer_id \<Rightarrow> string) \<Rightarrow> shard_manager \<Rightarrow> bool" where
  "shard_inv pstr sm \<longleftrightarrow> frame_ok sm \<and> (\<forall>i v. members sm i v \<longrightarrow> i = home pstr sm v)"

lemma frame_ok_same: "same_frame sm sm' \<Longrightarrow> frame_ok sm' = frame_ok sm"
  by (simp add: frame_ok_def same_frame_def)

lemma home_same: "same_frame sm sm' \<Longrightarrow> home pstr sm' = home pstr sm"
  by (simp add: home_def same_frame_def fun_eq_iff)

lemma home_in_range: "frame_ok sm \<Longrightarrow> shard_data sm (home pstr sm v) \<noteq> None"
  by (simp add: frame_ok_def home_def)

lemma shard_mod_home: "frame_ok sm \<Longrightarrow> shard_mod (hashValidator pstr v) (shm_ShardCount sm) = Inr (home pstr sm v)"
  by (simp add: frame_ok_def shard_mod_def home_def)

lemma find_shard_Some: "find_shard ids v sm = Some i \<Longrightarrow> members sm i v \<and> i \<in> set ids"
  by (induction ids) (auto simp: members_def split: option.splits if_splits)

lemma find_shard_None: "find_shard ids v sm = None \<Longrightarrow> i \<in> set ids \<Longrightarrow> \<not> members sm i v"
  by (induction ids) (auto simp: members_def split: option.splits if_splits)

lemma assign_spec:
  assumes "shard_inv pstr sm"
  shows "\<exists>sm'. AssignValidator pstr order v sm = Inr (home pstr sm v, sm') \<and> same_frame sm sm' \<and>
    (\<forall>j w. members sm' j w \<longleftrightarrow> members sm j w \<or> j = home pstr sm v \<and> w = v)"
proof (cases "find_shard order v sm")
  case None
  have frame: "frame_ok sm" using assms by (simp add: shard_inv_def)
  obtain sm' where "add_to_shard (home pstr sm v) v sm = Inr sm'" "same_frame sm sm'"
    "\<forall>j w. members sm' j w \<longleftrightarrow> members sm j w \<or> j = home pstr sm v \<and> w = v"
    using add_to_shard_Inr [OF home_in_range [OF frame, of pstr v], of v] by blast
  with None frame show ?thesis by (auto simp: AssignValidator_def shard_mod_home)
next
  case (Some i)
  then have "members sm i v" using find_shard_Some by blast
  with assms have "i = home pstr sm v" by (simp add: shard_inv_def)
  with Some \<open>members sm i v\<close> show ?thesis by (auto simp: AssignValidator_def)
qed

lemma shard_inv_extend:
  assumes "shard_inv pstr sm" "same_frame sm sm'" "\<And>j w. members sm' j w \<Longrightarrow> members sm j w \<or> j = home pstr sm w"
  shows "shard_inv pstr sm'"
  using assms by (auto simp: shard_inv_def frame_ok_same home_same)

lemma remove_spec:
  assumes "Manager_RemoveValidator order v sm = (r, sm')"
  shows "same_frame sm sm' \<and> (\<forall>j w. members sm' j w \<longrightarrow> members sm j w)"
proof (cases "find_shard order v sm")
  case None
  with assms show ?thesis by (simp add: Manager_RemoveValidator_def)
next
  case (Some i)
  then have "members sm i v" using find_shard_Some by blast
  then obtain s where s: "fmlookup (shm_Shards sm) i = Some s" by (auto simp: members_def split: option.splits)
  with Some assms have "sm' = sm\<lparr>shm_Shards := fmupd i (Shard_RemoveValidator v s) (shm_Shards sm)\<rparr>"
    by (simp add: Manager_RemoveValidator_def)
  with s show ?thesis by (auto simp: same_frame_def shard_data_def fun_eq_iff members_def split: if_splits)
qed

section \<open>Rebalancing\<close>

lemma reassign_spec:
  assumes "frame_ok sm"
  shows "\<exists>sm'. reassign pstr vs sm = Inr sm' \<and> same_frame sm sm' \<and>
    (\<forall>j w. members sm' j w \<longleftrightarrow> members sm j w \<or> w \<in> set vs \<and> j = home pstr sm w)"
  using assms
proof (induction vs arbitrary: sm)
  case (Cons v vs)
  obtain sm1 where sm1: "add_to_shard (home pstr sm v) v sm = Inr sm1" "same_frame sm sm1"
    "\<forall>j w. members sm1 j w \<longleftrightarrow> members sm j w \<or> j = home pstr sm v \<and> w = v"
    using add_to_shard_Inr [OF home_in_range [OF Cons.prems, of pstr v], of v] by blast
  then have "frame_ok sm1" using Cons.prems by (simp add: frame_ok_same)
  from Cons.IH [OF this] obtain sm2 where sm2: "reassign pstr vs sm1 = Inr sm2" "same_frame sm1 sm2"
    "\<forall>j w. members sm2 j w \<longleftrightarrow> members sm1 j w \<or> w \<in> set vs \<and> j = home pstr sm1 w" by blast
  have "reassign pstr (v # vs) sm = Inr sm2"
    using Cons.prems sm1(1) sm2(1) by (simp add: shard_mod_home)
  moreover have "same_frame sm sm2" using sm1(2) sm2(2) same_frame_trans by blast
  ultimately show ?case using sm1(2,3) sm2(3) by (auto simp: home_same)
qed simp

lemma collect_spec:
  assumes "distinct ids" "\<And>i s. i \<in> set ids \<Longrightarrow> fmlookup (shm_Shards sm) i = Some s \<Longrightarrow> set (vorder i) = fset (fmdom (sh_validators s))"
    "collect_validators ids vorder acc sm = (all, sm')"
  shows "same_frame sm sm' \<and> (\<forall>j w. members sm' j w \<longleftrightarrow> members sm j w \<and> j \<notin> set ids) \<and>
    set all = set acc \<union> {v. \<exists>i \<in> set ids. members sm i v}"
  using assms
proof (induction ids arbitrary: acc sm)
  case (Cons i ids)
  show ?case
  proof (cases "fmlookup (shm_Shards sm) i")
    case None
    then have "\<not> members sm i v" for v by (simp add: members_def)
    with None Cons.IH [of sm acc] Cons.prems show ?thesis by auto
  next
    case (Some s)
    let ?sm = "sm\<lparr>shm_Shards := fmupd i (ClearValidators s) (shm_Shards sm)\<rparr>"
    have run: "collect_validators ids vorder (acc @ ListValidators (vorder i) s) ?sm = (all, sm')"
      using Cons.prems(3) Some by simp
    have listed: "set (ListValidators (vorder i) s) = {v. members sm i v}"
      using Cons.prems(2) [OF _ Some] Some by (auto simp: ListValidators_def members_def HasValidator_def intro: fmdomI)
    have frame: "same_frame sm ?sm" using Some by (auto simp: same_frame_def shard_data_def fun_eq_iff)
    have mem: "members ?sm j w \<longleftrightarrow> members sm j w \<and> j \<noteq> i" for j w using Some by (auto simp: members_def)
    have ids: "i \<notin> set ids" "distinct ids" using Cons.prems(1) by auto
    have vs: "set (vorder j) = fset (fmdom (sh_validators t))" if "j \<in> set ids" "fmlookup (shm_Shards ?sm) j = Some t" for j t
      using Cons.prems(2) [of j t] that ids(1) by (auto split: if_splits)
    have "same_frame ?sm sm' \<and> (\<forall>j w. members sm' j w \<longleftrightarrow> members ?sm j w \<and> j \<notin> set ids) \<and>
        set all = set (acc @ ListValidators (vorder i) s) \<union> {v. \<exists>j \<in> set ids. members ?sm j v}"
      by (rule Cons.IH [OF ids(2) vs run])
    with frame mem listed ids(1) show ?thesis
      using same_frame_trans [OF frame, of sm'] by auto
  qed
qed simp

lemma rebalance_spec:
  assumes "shard_inv pstr sm" "ranges order (shm_Shards sm)"
    "\<forall>i s. fmlookup (shm_Shards sm) i = Some s \<longrightarrow> ranges (vorder i) (sh_validators s)"
  shows "\<exists>sm'. RebalanceShards pstr order vorder sm = Inr sm' \<and> same_frame sm sm' \<and> members sm' = members sm"
proof -
  obtain vs sm1 where run: "collect_validators order vorder [] sm = (vs, sm1)"
    by (cases "collect_validators order vorder [] sm")
  have all: "members sm i v \<Longrightarrow> i \<in> set order" for i v
    using ranges_set [OF assms(2)] by (auto simp: members_def intro: fmdomI split: option.splits)
  have "same_frame sm sm1 \<and> (\<forall>j w. members sm1 j w \<longleftrightarrow> members sm j w \<and> j \<notin> set order) \<and>
      set vs = set [] \<union> {v. \<exists>i \<in> set order. members sm i v}"
    using assms(2,3) ranges_set by (intro collect_spec [OF _ _ run]) (auto simp: ranges_def [of order], blast+)
  then have c: "same_frame sm sm1" "\<And>j w. \<not> members sm1 j w" "set vs = {v. \<exists>i. members sm i v}"
    using all by auto
  have "frame_ok sm1" using assms(1) c(1) by (simp add: shard_inv_def frame_ok_same)
  from reassign_spec [OF this] obtain sm2 where sm2: "reassign pstr vs sm1 = Inr sm2" "same_frame sm1 sm2"
    "\<forall>j w. members sm2 j w \<longleftrightarrow> members sm1 j w \<or> w \<in> set vs \<and> j = home pstr sm1 w" by blast
  have "members sm2 j w \<longleftrightarrow> members sm j w" for j w
    using sm2(3) c assms(1) by (auto simp: shard_inv_def home_same)
  then have "members sm2 = members sm" by (simp add: fun_eq_iff)
  with run sm2(1) same_frame_trans [OF c(1) sm2(2)] show ?thesis by (auto simp: RebalanceShards_def)
qed

section \<open>Runs\<close>

text \<open>A shard obtained from the manager is shared with it, so storing data through it is a step of the manager.\<close>

inductive shard_step :: "(peer_id \<Rightarrow> string) \<Rightarrow> shard_manager \<Rightarrow> shard_manager \<Rightarrow> bool" for pstr where
  assign: "AssignValidator pstr order v sm = Inr (i, sm') \<Longrightarrow> shard_step pstr sm sm'"
| remove: "Manager_RemoveValidator order v sm = (r, sm') \<Longrightarrow> shard_step pstr sm sm'"
| rebalance: "ranges order (shm_Shards sm) \<Longrightarrow>
    \<forall>i s. fmlookup (shm_Shards sm) i = Some s \<longrightarrow> ranges (vorder i) (sh_validators s) \<Longrightarrow>
    RebalanceShards pstr order vorder sm = Inr sm' \<Longrightarrow> shard_step pstr sm sm'"
| store: "GetShard i sm = Inr s \<Longrightarrow> shard_step pstr sm (sm\<lparr>shm_Shards := fmupd i (StoreData key d s) (shm_Shards sm)\<rparr>)"

lemma new_manager_lookup:
  "fmlookup (fold (\<lambda>i. fmupd i (NewShard i)) (map int [0..<n]) fmempty) i =
     (if 0 \<le> i \<and> i < int n then Some (NewShard i) else None)"
  by (induction n) auto

lemma shard_inv_new: "0 < n \<Longrightarrow> shard_inv pstr (NewShardManager n)"
  by (auto simp: shard_inv_def frame_ok_def shard_data_def members_def NewShardManager_def new_manager_lookup
      split: option.splits if_splits)

lemma shard_inv_step:
  assumes "shard_inv pstr sm" "shard_step pstr sm sm'"
  shows "shard_inv pstr sm'"
  using assms(2)
proof cases
  case (assign order v i)
  then show ?thesis
    using assign_spec [OF assms(1), of order v] by (intro shard_inv_extend [OF assms(1)]) auto
next
  case (remove order v r)
  then show ?thesis using remove_spec [OF remove] by (intro shard_inv_extend [OF assms(1)]) auto
next
  case (rebalance order vorder)
  have "\<exists>sm'. RebalanceShards pstr order vorder sm = Inr sm' \<and> same_frame sm sm' \<and> members sm' = members sm"
    by (rule rebalance_spec [OF assms(1) rebalance(1,2)])
  with rebalance(3) have "same_frame sm sm'" "members sm' = members sm" by auto
  then show ?thesis by (intro shard_inv_extend [OF assms(1)]) auto
next
  case (store i s key d)
  then have s: "fmlookup (shm_Shards sm) i = Some s" by (simp add: GetShard_def split: option.splits)
  have count: "shm_ShardCount sm' = shm_ShardCount sm" using store by simp
  have "members sm' j w \<longleftrightarrow> members sm j w" "shard_data sm' j \<noteq> None \<longleftrightarrow> shard_data sm j \<noteq> None" for j w
    using s store by (auto simp: members_def shard_data_def)
  then show ?thesis using assms(1) count by (simp add: shard_inv_def frame_ok_def home_def)
qed

interpretation sharding: invariant_system
    "\<lambda>sm. \<exists>n > 0. sm = NewShardManager n" "shard_step pstr" "shard_inv pstr" for pstr
  by unfold_locales (auto intro: shard_inv_new shard_inv_step)

section \<open>Properties\<close>

text \<open>
  C23: Every validator has one shard.  In every manager reached from a new one with at least one shard, by assigning,
  removing, rebalancing and storing in any order, a validator sits in no other shard than the one its hash selects, and
  assigning it never panics, returns that shard and puts it there without touching any other assignment.
\<close>

theorem validator_in_its_hash_shard:
  assumes "0 < n" "(shard_step pstr)\<^sup>*\<^sup>* (NewShardManager n) sm"
  shows "(\<forall>i v. members sm i v \<longrightarrow> i = hashValidator pstr v mod shm_ShardCount sm) \<and>
    (\<exists>sm'. AssignValidator pstr order v sm = Inr (hashValidator pstr v mod shm_ShardCount sm, sm') \<and>
       (\<forall>j w. members sm' j w \<longleftrightarrow> members sm j w \<or> j = hashValidator pstr v mod shm_ShardCount sm \<and> w = v))"
proof -
  have "shard_inv pstr sm" using sharding.inv_reachable assms by blast
  with assign_spec [OF this, of order v] show ?thesis by (auto simp: shard_inv_def home_def)
qed

theorem validator_in_its_hash_shard_witness:
  "\<exists>sm'. AssignValidator go_string [0, 1, 2] [7] (NewShardManager 3) = Inr (hashValidator go_string [7] mod 3, sm') \<and>
     members sm' (hashValidator go_string [7] mod 3) [7]"
  using validator_in_its_hash_shard [of 3 go_string "NewShardManager 3" "[0, 1, 2]" "[7]"]
  by (auto simp: NewShardManager_def)

text \<open>
  Rebalancing changes nothing.  Validators are reassigned by the same hash that placed them, so after
  \<open>RebalanceShards\<close> every shard of a reachable manager holds exactly the validators and the data it held before.
\<close>

theorem rebalancing_changes_nothing:
  assumes "0 < n" "(shard_step pstr)\<^sup>*\<^sup>* (NewShardManager n) sm" "ranges order (shm_Shards sm)"
    "\<forall>i s. fmlookup (shm_Shards sm) i = Some s \<longrightarrow> ranges (vorder i) (sh_validators s)"
  shows "\<exists>sm'. RebalanceShards pstr order vorder sm = Inr sm' \<and> members sm' = members sm \<and> shard_data sm' = shard_data sm"
proof -
  have "shard_inv pstr sm" using sharding.inv_reachable assms(1,2) by blast
  from rebalance_spec [OF this assms(3,4)] show ?thesis by (auto simp: same_frame_def)
qed

theorem rebalancing_changes_nothing_witness:
  "\<exists>sm'. RebalanceShards go_string [0] (\<lambda>_. []) (NewShardManager 1) = Inr sm' \<and> members sm' = members (NewShardManager 1)"
proof -
  have "ranges [0] (shm_Shards (NewShardManager 1))" "\<forall>i s. fmlookup (shm_Shards (NewShardManager 1)) i = Some s \<longrightarrow> ranges [] (sh_validators s)"
    by (auto simp: NewShardManager_def NewShard_def ranges_def split: if_splits)
  from rebalancing_changes_nothing [OF _ _ this, of 1 go_string] show ?thesis by auto
qed

end
