(* ===== verification/Validator_Node.thy ===== *)
theory Validator_Node
  imports Consensus Service_State Sharding
begin

text \<open>
  \<open>pkg/validator\<close>: the consensus module a validator runs (\<open>consensus.go\<close>) and the validator around it
  (\<open>validator.go\<close>).  The module has a listener, a processor, an election ticker and, on the leader, proposing
  goroutines; a turn of each is one function here.  The publish/subscribe topic is a library: what \<open>Publish\<close>
  answers may depend on everything published before, which the state records.  Shown here: a block is finalized
  only by an authenticated finalization packet or a quorum of signed approvals; no message is handled twice; and,
  since the key of the duplicate check leaves out the packet type, the finalization of a validator whose
  approval came first is dropped by every node.
\<close>

section \<open>State\<close>

record ('e, 'f) vconsensus =
  vc_identity :: account
  vc_publish :: "bytes list \<Rightarrow> bytes \<Rightarrow> go_error option"
  vc_sent :: "bytes list"
  vc_shardManager :: shard_manager
  vc_state :: "'e cstate"
  vc_stateMgr :: state_manager
  vc_ctx_done :: bool
  vc_messageChan :: "consensus_packet list"
  vc_pending :: "consensus_packet option"
  vc_processedMsgs :: "(string, bool) fmap"
  vc_validatorSet :: validator_set
  vc_currentLeader :: peer_id
  vc_collector :: "'f collector"
  vc_proposers :: nat

text \<open>
  \<open>vc_pending\<close> is the packet the listener is about to send on the channel (it blocks while the channel is
  full), \<open>vc_proposers\<close> the number of running \<open>proposeBlocks\<close> goroutines.
\<close>

definition ValidatorStateType :: string where "ValidatorStateType = ''validator''"
definition ConsensusStateType :: string where "ConsensusStateType = ''consensus''"

definition NewConsensus ::
  "account \<Rightarrow> (bytes list \<Rightarrow> bytes \<Rightarrow> go_error option) \<Rightarrow> shard_manager \<Rightarrow> 'e \<Rightarrow> validator_set \<Rightarrow> 'f collector \<Rightarrow>
   state_manager \<Rightarrow> ('e, 'f) vconsensus" where
  "NewConsensus did publish shardMgr store validatorSet collector stateMgr =
     \<lparr>vc_identity = did, vc_publish = publish, vc_sent = [], vc_shardManager = shardMgr, vc_state = NewState store,
      vc_stateMgr = Validator_SetState ConsensusStateType Uninitialized stateMgr, vc_ctx_done = False,
      vc_messageChan = [], vc_pending = None, vc_processedMsgs = fmempty, vc_validatorSet = validatorSet,
      vc_currentLeader = [], vc_collector = collector, vc_proposers = 0\<rparr>"

definition cm_set_state :: "service_state \<Rightarrow> ('e, 'f) vconsensus \<Rightarrow> ('e, 'f) vconsensus" where
  "cm_set_state s cm = cm\<lparr>vc_stateMgr := Validator_SetState ConsensusStateType s (vc_stateMgr cm)\<rparr>"

text \<open>\<open>Start\<close> spawns the goroutines whose turns are the steps below.\<close>

definition cm_Start :: "('e, 'f) vconsensus \<Rightarrow> ('e, 'f) vconsensus" where
  "cm_Start cm = cm_set_state Started (cm_set_state Starting cm)"

text \<open>\<open>wg.Wait()\<close> returns when every goroutine has seen the cancelled context.\<close>

definition cm_Shutdown :: "('e, 'f) vconsensus \<Rightarrow> go_error option \<times> ('e, 'f) vconsensus" where
  "cm_Shutdown cm =
     (let cm = cm_set_state Stopping cm;
          cm = cm\<lparr>vc_ctx_done := True, vc_proposers := 0\<rparr>
      in (None, cm_set_state Stopped cm))"

section \<open>Signing, verifying and publishing\<close>

definition signed_data :: "consensus_packet \<Rightarrow> bytes result" where
  "signed_data pkt =
     (if cp_Type pkt = PacketTypeProposal then Inr (cp_BlockHash pkt @ cp_BlockData pkt)
      else if cp_Type pkt = PacketTypeApproval \<or> cp_Type pkt = PacketTypeFinalization then Inr (cp_BlockHash pkt)
      else Inl (ErrorS ''unknown packet type: %d''))"

definition signer_id :: "consensus_packet \<Rightarrow> peer_id" where
  "signer_id pkt = (if cp_Type pkt = PacketTypeProposal then cp_ProposerID pkt else cp_ValidatorID pkt)"

text \<open>The signer is looked up under the type the packet names; a missing one is a nil interface.\<close>

definition verifySignature :: "validator_set \<Rightarrow> consensus_packet \<Rightarrow> bool result" where
  "verifySignature vs pkt =
     bindE (signed_data pkt) (\<lambda>dataToVerify.
       case GetValidator (signer_id pkt) vs of
         None \<Rightarrow> Inl (ErrorS ''validator not found: %s'')
       | Some validator \<Rightarrow>
           (case Validator_Signer validator (cp_Signer pkt) of
              None \<Rightarrow> Inl nil_dereference
            | Some signer \<Rightarrow>
                (case sg_Verify signer dataToVerify (cp_Signature pkt) of
                   (_, Some err) \<Rightarrow> Inl err
                 | (valid, None) \<Rightarrow> Inr valid)))"

definition cm_Sign :: "signer_type \<Rightarrow> bytes \<Rightarrow> ('e, 'f) vconsensus \<Rightarrow> bytes result" where
  "cm_Sign signType data cm = wrapE ''failed to sign message'' (Account_Sign (vc_identity cm) signType data)"

type_synonym ('e, 'f) voutcome = "go_error option \<times> ('e, 'f) vconsensus"

definition cm_BroadcastMessage :: "consensus_packet \<Rightarrow> ('e, 'f) vconsensus \<Rightarrow> ('e, 'f) voutcome" where
  "cm_BroadcastMessage pkt cm =
     (case ConsensusPacket_Serialize pkt of
        Inl err \<Rightarrow> (Some (wrap_error ''failed to serialize consensus packet'' err), cm)
      | Inr serializedPkt \<Rightarrow>
          (vc_publish cm (vc_sent cm) serializedPkt, cm\<lparr>vc_sent := vc_sent cm @ [serializedPkt]\<rparr>))"

definition cm_on_state ::
  "('e cstate \<Rightarrow> go_error option \<times> 'e cstate) \<Rightarrow> ('e, 'f) vconsensus \<Rightarrow> ('e, 'f) voutcome" where
  "cm_on_state f cm = (let (err, cs) = f (vc_state cm) in (err, cm\<lparr>vc_state := cs\<rparr>))"

section \<open>Operations\<close>

definition context_Canceled :: go_error where "context_Canceled = ErrorS ''context canceled''"

definition cm_ProposeBlock :: "'e mdbx \<Rightarrow> bytes \<Rightarrow> ('e, 'f) vconsensus \<Rightarrow> ('e, 'f) voutcome" where
  "cm_ProposeBlock M blockData cm =
     (if vc_ctx_done cm then (Some context_Canceled, cm)
      else
        let blockHash = HashData blockData in
        (case cm_Sign BlsSignerType (blockHash @ blockData) cm of
           Inl err \<Rightarrow> (Some (wrap_error ''failed to sign proposal packet'' err), cm)
         | Inr signature \<Rightarrow>
             let proposalPkt = \<lparr>cp_Type = PacketTypeProposal, cp_Signer = BlsSignerType,
                   cp_ProposerID = acc_PeerID (vc_identity cm), cp_ValidatorID = [], cp_BlockHash = blockHash,
                   cp_BlockData = blockData, cp_Signature = signature\<rparr>
             in (case cm_BroadcastMessage proposalPkt cm of
                   (Some err, cm) \<Rightarrow> (Some (wrap_error ''failed to broadcast proposal packet'' err), cm)
                 | (None, cm) \<Rightarrow>
                     (case cm_on_state (AddProposal M proposalPkt) cm of
                        (Some err, cm) \<Rightarrow> (Some (wrap_error ''failed to add proposal to state'' err), cm)
                      | (None, cm) \<Rightarrow> (None, cm)))))"

definition vote_packet :: "packet_type \<Rightarrow> peer_id \<Rightarrow> bytes \<Rightarrow> bytes \<Rightarrow> consensus_packet" where
  "vote_packet ty validatorID blockHash signature =
     \<lparr>cp_Type = ty, cp_Signer = BlsSignerType, cp_ProposerID = [], cp_ValidatorID = validatorID,
      cp_BlockHash = blockHash, cp_BlockData = [], cp_Signature = signature\<rparr>"

definition cm_ApproveProposal :: "'e mdbx \<Rightarrow> bytes \<Rightarrow> ('e, 'f) vconsensus \<Rightarrow> ('e, 'f) voutcome" where
  "cm_ApproveProposal M blockHash cm =
     (case cm_Sign BlsSignerType blockHash cm of
        Inl err \<Rightarrow> (Some (wrap_error ''failed to sign approval packet'' err), cm)
      | Inr signature \<Rightarrow>
          let approvalPkt = vote_packet PacketTypeApproval (acc_PeerID (vc_identity cm)) blockHash signature
          in (case cm_BroadcastMessage approvalPkt cm of
                (Some err, cm) \<Rightarrow> (Some (wrap_error ''failed to broadcast approval packet'' err), cm)
              | (None, cm) \<Rightarrow>
                  (case cm_on_state (AddApproval M approvalPkt) cm of
                     (Some err, cm) \<Rightarrow> (Some (wrap_error ''failed to add approval to state'' err), cm)
                   | (None, cm) \<Rightarrow> (None, cm))))"

definition cm_FinalizeBlock :: "'e mdbx \<Rightarrow> bytes \<Rightarrow> ('e, 'f) vconsensus \<Rightarrow> ('e, 'f) voutcome" where
  "cm_FinalizeBlock M blockHash cm =
     (case cm_Sign BlsSignerType blockHash cm of
        Inl err \<Rightarrow> (Some (wrap_error ''failed to sign finalization packet'' err), cm)
      | Inr signature \<Rightarrow>
          let finalizationPkt = vote_packet PacketTypeFinalization (acc_PeerID (vc_identity cm)) blockHash signature
          in (case cm_BroadcastMessage finalizationPkt cm of
                (Some err, cm) \<Rightarrow> (Some (wrap_error ''failed to broadcast finalization packet'' err), cm)
              | (None, cm) \<Rightarrow>
                  (case cm_on_state (State_FinalizeBlock M blockHash) cm of
                     (Some err, cm) \<Rightarrow> (Some (wrap_error ''failed to finalize block'' err), cm)
                   | (None, cm) \<Rightarrow> (None, cm))))"

section \<open>Handlers\<close>

text \<open>An error of a call whose result is only logged; a panic is not caught.\<close>

definition logged :: "('e, 'f) voutcome \<Rightarrow> ('e, 'f) voutcome" where
  "logged r = (case r of (Some (Panic s), cm) \<Rightarrow> (Some (Panic s), cm) | (_, cm) \<Rightarrow> (None, cm))"

definition cm_handleProposal :: "'e mdbx \<Rightarrow> consensus_packet \<Rightarrow> ('e, 'f) vconsensus \<Rightarrow> ('e, 'f) voutcome" where
  "cm_handleProposal M pkt cm =
     (if cp_ProposerID pkt \<noteq> vc_currentLeader cm then (None, cm)
      else
        (case cm_on_state (AddProposal M pkt) cm of
           (Some err, cm) \<Rightarrow> logged (Some err, cm)
         | (None, cm) \<Rightarrow>
             if IsValidator (acc_PeerID (vc_identity cm)) (vc_validatorSet cm)
             then logged (cm_ApproveProposal M (cp_BlockHash pkt) cm)
             else (None, cm)))"

definition cm_handleApproval :: "'e mdbx \<Rightarrow> consensus_packet \<Rightarrow> ('e, 'f) vconsensus \<Rightarrow> ('e, 'f) voutcome" where
  "cm_handleApproval M pkt cm =
     (case cm_on_state (AddApproval M pkt) cm of
        (Some err, cm) \<Rightarrow> logged (Some err, cm)
      | (None, cm) \<Rightarrow>
          if acc_PeerID (vc_identity cm) = vc_currentLeader cm \<and>
             HasReachedQuorum (cp_BlockHash pkt) (QuorumSize (vc_validatorSet cm)) (vc_state cm) \<and>
             \<not> IsFinalized (cp_BlockHash pkt) (vc_state cm)
          then logged (cm_FinalizeBlock M (cp_BlockHash pkt) cm)
          else (None, cm))"

definition cm_handleFinalization :: "'e mdbx \<Rightarrow> consensus_packet \<Rightarrow> ('e, 'f) vconsensus \<Rightarrow> ('e, 'f) voutcome" where
  "cm_handleFinalization M pkt cm = logged (cm_on_state (State_FinalizeBlock M (cp_BlockHash pkt)) cm)"

text \<open>The body of the \<open>processMessages\<close> loop.\<close>

definition processMessage :: "'e mdbx \<Rightarrow> consensus_packet \<Rightarrow> ('e, 'f) vconsensus \<Rightarrow> ('e, 'f) voutcome" where
  "processMessage M pkt cm =
     (if cp_Type pkt = PacketTypeProposal then cm_handleProposal M pkt cm
      else if cp_Type pkt = PacketTypeApproval then cm_handleApproval M pkt cm
      else if cp_Type pkt = PacketTypeFinalization then cm_handleFinalization M pkt cm
      else (None, cm))"

section \<open>Goroutines\<close>

text \<open>\<open>fmt.Sprintf("%s:%x", ValidatorID, BlockHash)\<close>; \<open>pstr\<close> is \<open>peer.ID.String()\<close> of libp2p.\<close>

definition msgID :: "(peer_id \<Rightarrow> string) \<Rightarrow> consensus_packet \<Rightarrow> string" where
  "msgID pstr pkt = pstr (cp_ValidatorID pkt) @ '':'' @ hex_EncodeToString (cp_BlockHash pkt)"

text \<open>A turn of \<open>listenToNetwork\<close> up to the send; the result is a panic or the new state.\<close>

definition listen_receive ::
  "(peer_id \<Rightarrow> string) \<Rightarrow> bytes \<Rightarrow> ('e, 'f) vconsensus \<Rightarrow> ('e, 'f) vconsensus result" where
  "listen_receive pstr data cm =
     (case DeserializeConsensusPacket data of
        Inl _ \<Rightarrow> Inr cm
      | Inr consensusPkt \<Rightarrow>
          (case verifySignature (vc_validatorSet cm) consensusPkt of
             Inl err \<Rightarrow> if is_panic err then Inl err else Inr cm
           | Inr valid \<Rightarrow>
               if \<not> valid then Inr cm
               else if fmlookup (vc_processedMsgs cm) (msgID pstr consensusPkt) = Some True then Inr cm
               else Inr (cm\<lparr>vc_processedMsgs := fmupd (msgID pstr consensusPkt) True (vc_processedMsgs cm),
                            vc_pending := Some consensusPkt\<rparr>)))"

definition election_tick ::
  "peer_id list \<Rightarrow> ('e, 'f::{zero,plus,times,ord}) vconsensus \<Rightarrow> ('e, 'f) vconsensus" where
  "election_tick order cm =
     (let (vs, mc) = ElectLeader order (vc_collector cm) (vc_validatorSet cm);
          cm = cm\<lparr>vc_validatorSet := vs, vc_collector := mc\<rparr>
      in case CurrentLeader vs of
           None \<Rightarrow> cm
         | Some leader \<Rightarrow>
             let cm = cm\<lparr>vc_currentLeader := acc_PeerID leader\<rparr>
             in if acc_PeerID leader = acc_PeerID (vc_identity cm)
                then cm\<lparr>vc_proposers := vc_proposers cm + 1\<rparr> else cm)"

definition chan_capacity :: nat where "chan_capacity = 1000"

text \<open>
  The module as a transition system.  Handlers and \<open>ProposeBlock\<close> are single steps; the packets handled so far are
  kept beside the module.  A block is proposed with any data (the code puts the time and its own ID there).
  A panic has no successor.
\<close>

record ('e, 'f) vnode =
  vn_module :: "('e, 'f) vconsensus"
  vn_handled :: "consensus_packet list"

inductive vstep ::
  "(peer_id \<Rightarrow> string) \<Rightarrow> 'e mdbx \<Rightarrow> ('e, 'f::{zero,plus,times,ord}) vnode \<Rightarrow> ('e, 'f) vnode \<Rightarrow> bool"
  for pstr M where
  receive: "vc_pending (vn_module n) = None \<Longrightarrow> listen_receive pstr data (vn_module n) = Inr cm \<Longrightarrow>
    vstep pstr M n (n\<lparr>vn_module := cm\<rparr>)"
| send: "vc_pending (vn_module n) = Some pkt \<Longrightarrow> length (vc_messageChan (vn_module n)) < chan_capacity \<Longrightarrow>
    vstep pstr M n (n\<lparr>vn_module :=
      (vn_module n)\<lparr>vc_messageChan := vc_messageChan (vn_module n) @ [pkt], vc_pending := None\<rparr>\<rparr>)"
| process: "vc_messageChan (vn_module n) = pkt # rest \<Longrightarrow>
    processMessage M pkt ((vn_module n)\<lparr>vc_messageChan := rest\<rparr>) = (None, cm) \<Longrightarrow>
    vstep pstr M n (n\<lparr>vn_module := cm, vn_handled := pkt # vn_handled n\<rparr>)"
| elect: "ranges order (vs_validators (vc_validatorSet (vn_module n))) \<Longrightarrow>
    vstep pstr M n (n\<lparr>vn_module := election_tick order (vn_module n)\<rparr>)"
| propose: "vc_proposers (vn_module n) > 0 \<Longrightarrow> cm_ProposeBlock M blockData (vn_module n) = (r, cm) \<Longrightarrow>
    \<not> crashed r \<Longrightarrow> vstep pstr M n (n\<lparr>vn_module := cm\<rparr>)"

section \<open>The validator\<close>

record ('e, 'f) validator_service =
  va_did :: account
  va_vSet :: validator_set
  va_shardManager :: shard_manager
  va_consensus :: "('e, 'f) vconsensus"

text \<open>The state manager is shared: it is the one of the consensus module.\<close>

definition va_stateMgr :: "('e, 'f) validator_service \<Rightarrow> state_manager" where
  "va_stateMgr v = vc_stateMgr (va_consensus v)"

definition va_set_state :: "service_state \<Rightarrow> ('e, 'f) validator_service \<Rightarrow> ('e, 'f) validator_service" where
  "va_set_state s v = v\<lparr>va_consensus := (va_consensus v)\<lparr>vc_stateMgr :=
     Validator_SetState ValidatorStateType s (va_stateMgr v)\<rparr>\<rparr>"

definition NewValidator ::
  "(peer_id \<Rightarrow> string) \<Rightarrow> int list \<Rightarrow> int \<Rightarrow> account \<Rightarrow> 'e manager \<Rightarrow> (bytes list \<Rightarrow> bytes \<Rightarrow> go_error option) \<Rightarrow>
   validator_set \<Rightarrow> 'f collector \<Rightarrow> ('e, 'f) validator_service result" where
  "NewValidator pstr order shardCount did sm publish validatorSet collector =
     (let stateMgr = Validator_SetState ValidatorStateType Uninitialized NewStateManager in
      if \<not> IsValidator (acc_PeerID did) validatorSet
      then Inl (ErrorS ''validator not found for peer ID %s'')
      else
        bindE (wrapE ''failed to assign validator to shard''
                (AssignValidator pstr order (acc_PeerID did) (NewShardManager shardCount))) (\<lambda>(shardID, shardManager).
        bindE (Manager_GetDb ''consensus'' sm) (\<lambda>consensusDb.
          let vConsensus = NewConsensus did publish shardManager consensusDb validatorSet collector stateMgr
          in Inr (va_set_state Initialized
               \<lparr>va_did = did, va_vSet = validatorSet, va_shardManager = shardManager, va_consensus = vConsensus\<rparr>))))"

definition Validator_Start :: "('e, 'f) validator_service \<Rightarrow> ('e, 'f) validator_service" where
  "Validator_Start v =
     (let v = va_set_state Starting v;
          v = v\<lparr>va_consensus := cm_Start (va_consensus v)\<rparr>
      in va_set_state Started v)"

text \<open>
  \<open>WaitForState(ConsensusStateType, Stopped, ...)\<close> without another goroutine in between: it returns at once when
  the state is the desired one and runs into its timeout otherwise.
\<close>

definition wait_alone :: "string \<Rightarrow> service_state \<Rightarrow> state_manager \<Rightarrow> go_error option \<times> state_manager" where
  "wait_alone stateType desiredState sm =
     (case WaitForState_enter stateType sm of
        (Check s, sm) \<Rightarrow>
          (case WaitForState_check stateType desiredState s sm of
             (Returned r, sm) \<Rightarrow> (r, sm)
           | (w, sm) \<Rightarrow>
               (case WaitForState_wake TimedOut stateType w sm of Returned r \<Rightarrow> (r, sm) | _ \<Rightarrow> (None, sm)))
      | (w, sm) \<Rightarrow>
          (case WaitForState_wake TimedOut stateType w sm of Returned r \<Rightarrow> (r, sm) | _ \<Rightarrow> (None, sm)))"

definition Validator_Shutdown ::
  "('e, 'f) validator_service \<Rightarrow> go_error option \<times> ('e, 'f) validator_service" where
  "Validator_Shutdown v =
     (let v = va_set_state Stopping v;
          v = v\<lparr>va_consensus := (va_consensus v)\<lparr>vc_ctx_done := True\<rparr>\<rparr>;
          (err, cm) = cm_Shutdown (va_consensus v);
          v = v\<lparr>va_consensus := (case err of None \<Rightarrow> cm | Some _ \<Rightarrow> cm_set_state Failed cm)\<rparr>;
          (werr, sm) = wait_alone ConsensusStateType Stopped (va_stateMgr v);
          v = v\<lparr>va_consensus := (va_consensus v)\<lparr>vc_stateMgr := sm\<rparr>\<rparr>
      in case werr of
           Some err \<Rightarrow> (Some (wrap_error ''failed to wait for consensus started state'' err), va_set_state Failed v)
         | None \<Rightarrow> (None, va_set_state Stopped v))"

section \<open>What a handler may change\<close>

text \<open>
  An approval in the books comes from a handled packet or was signed by the node itself, being a validator;
  a block is finalized by a handled packet or with a quorum.  \<open>P\<close> are the packets handled meanwhile.
\<close>

definition approval_origin ::
  "consensus_packet set \<Rightarrow> ('e, 'f) vconsensus \<Rightarrow> bytes \<Rightarrow> peer_id \<Rightarrow> bytes \<Rightarrow> bool" where
  "approval_origin P cm h i sig \<longleftrightarrow>
     (i = acc_PeerID (vc_identity cm) \<and> IsValidator i (vc_validatorSet cm) \<and>
        Account_Sign (vc_identity cm) BlsSignerType h = Inr sig) \<or>
     (\<exists>pkt \<in> P. cp_Type pkt = PacketTypeApproval \<and> cp_ValidatorID pkt = i \<and> cp_BlockHash pkt = h \<and>
        cp_Signature pkt = sig)"

definition finalization_in :: "consensus_packet set \<Rightarrow> bytes \<Rightarrow> bool" where
  "finalization_in P h \<longleftrightarrow> (\<exists>pkt \<in> P. cp_Type pkt = PacketTypeFinalization \<and> cp_BlockHash pkt = h)"

definition cm_quorum :: "bytes \<Rightarrow> ('e, 'f) vconsensus \<Rightarrow> bool" where
  "cm_quorum h cm \<longleftrightarrow> HasReachedQuorum h (QuorumSize (vc_validatorSet cm)) (vc_state cm)"

definition vsafe :: "consensus_packet set \<Rightarrow> ('e, 'f) vconsensus \<Rightarrow> ('e, 'f) vconsensus \<Rightarrow> bool" where
  "vsafe P cm cm' \<longleftrightarrow>
     vc_identity cm' = vc_identity cm \<and> vc_validatorSet cm' = vc_validatorSet cm \<and>
     vc_processedMsgs cm' = vc_processedMsgs cm \<and> vc_messageChan cm' = vc_messageChan cm \<and>
     vc_pending cm' = vc_pending cm \<and> vc_currentLeader cm' = vc_currentLeader cm \<and>
     approvals_mono (vc_state cm) (vc_state cm') \<and>
     (\<forall>h i sig. fmlookup (approvals_for (blockHashKey h) (vc_state cm')) i = Some sig \<longrightarrow>
        fmlookup (approvals_for (blockHashKey h) (vc_state cm)) i = Some sig \<or> approval_origin P cm h i sig) \<and>
     (\<forall>h. IsFinalized h (vc_state cm') \<longrightarrow> IsFinalized h (vc_state cm) \<or> finalization_in P h \<or> cm_quorum h cm')"

lemma vsafe_refl [simp, intro]: "vsafe P cm cm"
  by (simp add: vsafe_def)

lemma approval_origin_cong:
  "vc_identity cm' = vc_identity cm \<Longrightarrow> vc_validatorSet cm' = vc_validatorSet cm \<Longrightarrow>
    approval_origin P cm' = approval_origin P cm"
  by (simp add: approval_origin_def fun_eq_iff)

lemma vsafe_trans:
  assumes "vsafe P a b" "vsafe P b c"
  shows "vsafe P a c"
proof -
  have org: "approval_origin P b = approval_origin P a" 
    using assms(1) by (intro approval_origin_cong) (simp_all add: vsafe_def)
  have mono: "cm_quorum h b \<Longrightarrow> cm_quorum h c" for h
    using assms(2) quorum_mono by (auto simp: vsafe_def cm_quorum_def)
  have "fmlookup (approvals_for (blockHashKey h) (vc_state a)) i = Some sig \<or> approval_origin P a h i sig"
    if "fmlookup (approvals_for (blockHashKey h) (vc_state c)) i = Some sig" for h i sig
    using assms that unfolding vsafe_def org by blast
  moreover have "IsFinalized h (vc_state a) \<or> finalization_in P h \<or> cm_quorum h c" if "IsFinalized h (vc_state c)" for h
    using assms that mono unfolding vsafe_def by blast
  moreover have "approvals_mono (vc_state a) (vc_state c)"
    using assms approvals_mono_trans unfolding vsafe_def by blast
  ultimately show ?thesis using assms by (simp add: vsafe_def)
qed

lemma vsafe_frame:
  assumes "vc_identity cm' = vc_identity cm" "vc_validatorSet cm' = vc_validatorSet cm"
    "vc_processedMsgs cm' = vc_processedMsgs cm" "vc_messageChan cm' = vc_messageChan cm"
    "vc_pending cm' = vc_pending cm" "vc_currentLeader cm' = vc_currentLeader cm"
    "cs_approvals (vc_state cm') = cs_approvals (vc_state cm)"
    "cs_finalized (vc_state cm') = cs_finalized (vc_state cm)"
  shows "vsafe P cm cm'"
proof -
  have "approvals_for k (vc_state cm') = approvals_for k (vc_state cm)" for k
    using assms(7) by (rule approvals_for_cong)
  with assms show ?thesis by (simp add: vsafe_def approvals_mono_def IsFinalized_def)
qed

lemma snd_cm_on_state: "snd (cm_on_state f cm) = cm\<lparr>vc_state := snd (f (vc_state cm))\<rparr>"
  by (simp add: cm_on_state_def case_prod_beta)

lemma vsafe_Broadcast: "cm_BroadcastMessage pkt cm = (r, cm') \<Longrightarrow> vsafe P cm cm'"
  by (rule vsafe_frame) (auto simp: cm_BroadcastMessage_def split: sum.splits)

lemma vsafe_AddProposal: "cm_on_state (AddProposal M pkt) cm = (r, cm') \<Longrightarrow> vsafe P cm cm'"
  using snd_cm_on_state [of "AddProposal M pkt" cm] by (intro vsafe_frame) simp_all

lemma vsafe_AddApproval:
  assumes "cm_on_state (AddApproval M pkt) cm = (r, cm')"
    "cp_Type pkt = PacketTypeApproval \<longrightarrow>
      approval_origin P cm (cp_BlockHash pkt) (cp_ValidatorID pkt) (cp_Signature pkt)"
  shows "vsafe P cm cm'"
  using assms snd_cm_on_state [of "AddApproval M pkt" cm] approvals_mono_AddApproval [of "vc_state cm" M pkt]
  by (auto simp: vsafe_def approvals_for_AddApproval IsFinalized_def split: if_splits)

lemma vsafe_Finalize:
  assumes "cm_on_state (State_FinalizeBlock M h) cm = (r, cm')" "finalization_in P h \<or> cm_quorum h cm"
  shows "vsafe P cm cm'"
  using assms snd_cm_on_state [of "State_FinalizeBlock M h" cm]
  by (auto simp: vsafe_def IsFinalized_def approvals_mono_def cm_quorum_def HasReachedQuorum_def split: if_splits)

lemma snd_logged [simp]: "snd (logged r) = snd r"
  by (auto simp: logged_def split: prod.splits option.splits go_error.splits)

lemma loggedD: "logged (x, cm) = (r, cm') \<Longrightarrow> cm' = cm"
  using snd_logged [of "(x, cm)"] by simp

lemma vsafe_ProposeBlock:
  assumes "cm_ProposeBlock M d cm = (r, cm')"
  shows "vsafe P cm cm'"
proof -
  have add: "vsafe P cm cm2"
    if "cm_BroadcastMessage pkt cm = (r1, cm1)" "cm_on_state (AddProposal M pkt) cm1 = (r2, cm2)" for pkt r1 cm1 r2 cm2
    using that by (blast intro: vsafe_Broadcast vsafe_AddProposal vsafe_trans)
  show ?thesis
    using assms by (auto simp: cm_ProposeBlock_def Let_def split: if_splits sum.splits prod.splits option.splits
        dest: add vsafe_Broadcast)
qed

lemma vsafe_ApproveProposal:
  assumes "cm_ApproveProposal M h cm = (r, cm')" "IsValidator (acc_PeerID (vc_identity cm)) (vc_validatorSet cm)"
  shows "vsafe P cm cm'"
proof -
  have origin: "approval_origin P cm1 h (acc_PeerID (vc_identity cm)) sig"
    if "cm_Sign BlsSignerType h cm = Inr sig" "cm_BroadcastMessage pkt cm = (r1, cm1)" for sig pkt r1 cm1
    using that assms(2) vsafe_Broadcast [OF that(2), of P]
    by (auto simp: approval_origin_def cm_Sign_def vsafe_def)
  have add: "vsafe P cm cm2"
    if "cm_Sign BlsSignerType h cm = Inr sig"
      "cm_BroadcastMessage (vote_packet PacketTypeApproval (acc_PeerID (vc_identity cm)) h sig) cm = (r1, cm1)"
      "cm_on_state (AddApproval M (vote_packet PacketTypeApproval (acc_PeerID (vc_identity cm)) h sig)) cm1 = (r2, cm2)"
    for sig r1 cm1 r2 cm2
    using vsafe_AddApproval [OF that(3), of P] origin [OF that(1,2)] vsafe_Broadcast [OF that(2)]
    by (auto simp: vote_packet_def intro: vsafe_trans)
  show ?thesis
    using assms(1) by (auto simp: cm_ApproveProposal_def Let_def split: sum.splits prod.splits option.splits
        dest: add vsafe_Broadcast)
qed

lemma vsafe_FinalizeBlock:
  assumes "cm_FinalizeBlock M h cm = (r, cm')" "cm_quorum h cm"
  shows "vsafe P cm cm'"
proof -
  have fin: "vsafe P cm cm2"
    if "cm_BroadcastMessage pkt cm = (r1, cm1)" "cm_on_state (State_FinalizeBlock M h) cm1 = (r2, cm2)" for pkt r1 cm1 r2 cm2
  proof -
    have 1: "vsafe P cm cm1" using that(1) by (rule vsafe_Broadcast)
    then have "cm_quorum h cm1" using assms(2) quorum_mono by (auto simp: vsafe_def cm_quorum_def)
    then show ?thesis using vsafe_Finalize [OF that(2)] 1 vsafe_trans by blast
  qed
  show ?thesis
    using assms(1) by (auto simp: cm_FinalizeBlock_def Let_def split: sum.splits prod.splits option.splits
        dest: fin vsafe_Broadcast)
qed

lemma vsafe_handleProposal:
  assumes "cm_handleProposal M pkt cm = (r, cm')"
  shows "vsafe P cm cm'"
proof (cases "cm_on_state (AddProposal M pkt) cm")
  case (Pair r1 cm1)
  then have 1: "vsafe P cm cm1" by (rule vsafe_AddProposal)
  have 2: "vsafe P cm cm2" if "cm_ApproveProposal M h cm1 = (r2, cm2)"
    "IsValidator (acc_PeerID (vc_identity cm1)) (vc_validatorSet cm1)" for h r2 cm2
    using vsafe_ApproveProposal [OF that] 1 vsafe_trans by blast
  obtain r2 cm2 where app: "cm_ApproveProposal M (cp_BlockHash pkt) cm1 = (r2, cm2)" by fastforce
  have "cm' \<in> {cm, cm1} \<or> cm' = cm2 \<and> IsValidator (acc_PeerID (vc_identity cm1)) (vc_validatorSet cm1)"
    using assms Pair app
    by (auto simp: cm_handleProposal_def split: if_splits option.splits dest!: loggedD)
  with 1 2 [OF app] show ?thesis by auto
qed

lemma vsafe_handleApproval:
  assumes "cm_handleApproval M pkt cm = (r, cm')" "pkt \<in> P" "cp_Type pkt = PacketTypeApproval"
  shows "vsafe P cm cm'"
proof (cases "cm_on_state (AddApproval M pkt) cm")
  case (Pair r1 cm1)
  have 1: "vsafe P cm cm1"
    by (rule vsafe_AddApproval [OF Pair]) (use assms(2,3) in \<open>auto simp: approval_origin_def\<close>)
  obtain r2 cm2 where fin: "cm_FinalizeBlock M (cp_BlockHash pkt) cm1 = (r2, cm2)" by fastforce
  have "cm' = cm1 \<or> cm' = cm2 \<and> cm_quorum (cp_BlockHash pkt) cm1"
    using assms(1) Pair fin
    by (auto simp: cm_handleApproval_def cm_quorum_def split: if_splits option.splits dest!: loggedD)
  with 1 vsafe_FinalizeBlock [OF fin, of P] vsafe_trans show ?thesis by blast
qed

lemma vsafe_handleFinalization:
  assumes "cm_handleFinalization M pkt cm = (r, cm')" "pkt \<in> P" "cp_Type pkt = PacketTypeFinalization"
  shows "vsafe P cm cm'"
proof (cases "cm_on_state (State_FinalizeBlock M (cp_BlockHash pkt)) cm")
  case (Pair r1 cm1)
  with assms(1) have "cm' = cm1" by (auto simp: cm_handleFinalization_def dest: loggedD)
  then show ?thesis using vsafe_Finalize [OF Pair, of P] assms(2,3) by (auto simp: finalization_in_def)
qed

lemma vsafe_processMessage: "processMessage M pkt cm = (r, cm') \<Longrightarrow> pkt \<in> P \<Longrightarrow> vsafe P cm cm'"
  by (auto simp: processMessage_def split: if_splits
      intro: vsafe_handleProposal vsafe_handleApproval vsafe_handleFinalization)

section \<open>Reachable states\<close>

definition in_flight :: "('e, 'f) vnode \<Rightarrow> consensus_packet list" where
  "in_flight n = vn_handled n @ vc_messageChan (vn_module n) @
     (case vc_pending (vn_module n) of None \<Rightarrow> [] | Some pkt \<Rightarrow> [pkt])"

text \<open>Everything past the listener is authentic and was let through once.\<close>

definition listener_inv :: "(peer_id \<Rightarrow> string) \<Rightarrow> ('e, 'f) vnode \<Rightarrow> bool" where
  "listener_inv pstr n \<longleftrightarrow>
     (\<forall>pkt \<in> set (in_flight n). verifySignature (vc_validatorSet (vn_module n)) pkt = Inr True \<and>
        fmlookup (vc_processedMsgs (vn_module n)) (msgID pstr pkt) = Some True) \<and>
     distinct (map (msgID pstr) (in_flight n)) \<and> length (vc_messageChan (vn_module n)) \<le> chan_capacity"

definition books_inv :: "('e, 'f) vnode \<Rightarrow> bool" where
  "books_inv n \<longleftrightarrow>
     (\<forall>h i sig. fmlookup (approvals_for (blockHashKey h) (vc_state (vn_module n))) i = Some sig \<longrightarrow>
        approval_origin (set (vn_handled n)) (vn_module n) h i sig) \<and>
     (\<forall>h. IsFinalized h (vc_state (vn_module n)) \<longrightarrow>
        finalization_in (set (vn_handled n)) h \<or> cm_quorum h (vn_module n))"

definition vnode_inv :: "(peer_id \<Rightarrow> string) \<Rightarrow> ('e, 'f) vnode \<Rightarrow> bool" where
  "vnode_inv pstr n \<longleftrightarrow> listener_inv pstr n \<and> books_inv n"

lemma approval_origin_mono: "approval_origin P cm h i sig \<Longrightarrow> P \<subseteq> Q \<Longrightarrow> approval_origin Q cm h i sig"
  by (auto simp: approval_origin_def)

lemma finalization_in_mono: "finalization_in P h \<Longrightarrow> P \<subseteq> Q \<Longrightarrow> finalization_in Q h"
  by (auto simp: finalization_in_def)

lemma books_inv_vsafe:
  assumes "books_inv n" "vsafe P (vn_module n) cm" "P \<union> set (vn_handled n) \<subseteq> set hs"
  shows "books_inv (n\<lparr>vn_module := cm, vn_handled := hs\<rparr>)"
proof -
  have org: "approval_origin Q cm = approval_origin Q (vn_module n)" for Q
    using assms(2) by (intro approval_origin_cong) (simp_all add: vsafe_def)
  have "approval_origin (set hs) cm h i sig"
    if "fmlookup (approvals_for (blockHashKey h) (vc_state cm)) i = Some sig" for h i sig
  proof -
    have "approval_origin (set (vn_handled n)) (vn_module n) h i sig \<or> approval_origin P (vn_module n) h i sig"
      using assms(1,2) that unfolding vsafe_def books_inv_def by blast
    then show ?thesis using assms(3) approval_origin_mono unfolding org by (metis Un_subset_iff)
  qed
  moreover have "finalization_in (set hs) h \<or> cm_quorum h cm" if "IsFinalized h (vc_state cm)" for h
  proof -
    have "cm_quorum h cm" if "cm_quorum h (vn_module n)"
      using that assms(2) quorum_mono by (auto simp: vsafe_def cm_quorum_def)
    then show ?thesis
      using assms that finalization_in_mono unfolding vsafe_def books_inv_def by (metis Un_subset_iff)
  qed
  ultimately show ?thesis by (simp add: books_inv_def)
qed

lemma verifySignature_cong: "vs_validators vs' = vs_validators vs \<Longrightarrow> verifySignature vs' = verifySignature vs"
  by (simp add: verifySignature_def fun_eq_iff GetValidator_def)

lemma ElectLeader_members:
  "ElectLeader order mc vs = (vs', mc') \<Longrightarrow>
    vs_validators vs' = vs_validators vs \<and> vs_quorumThreshold vs' = vs_quorumThreshold vs"
  by (auto simp: ElectLeader_def Let_def split: if_splits prod.splits)

lemma QuorumSize_cong:
  "vs_validators vs' = vs_validators vs \<Longrightarrow> vs_quorumThreshold vs' = vs_quorumThreshold vs \<Longrightarrow>
    QuorumSize vs' = QuorumSize vs"
  by (simp add: QuorumSize_def)

lemma election_tick_keeps:
  "vc_state (election_tick order cm) = vc_state cm" "vc_identity (election_tick order cm) = vc_identity cm"
  "vc_processedMsgs (election_tick order cm) = vc_processedMsgs cm"
  "vc_messageChan (election_tick order cm) = vc_messageChan cm" "vc_pending (election_tick order cm) = vc_pending cm"
  "vs_validators (vc_validatorSet (election_tick order cm)) = vs_validators (vc_validatorSet cm)"
  "QuorumSize (vc_validatorSet (election_tick order cm)) = QuorumSize (vc_validatorSet cm)"
  by (auto simp: election_tick_def Let_def split: prod.splits option.splits
      dest!: ElectLeader_members intro: QuorumSize_cong)

lemma listener_inv_cong:
  assumes "listener_inv pstr n" "set (in_flight n') \<subseteq> set (in_flight n)"
    "distinct (map (msgID pstr) (in_flight n)) \<longrightarrow> distinct (map (msgID pstr) (in_flight n'))"
    "vc_processedMsgs (vn_module n') = vc_processedMsgs (vn_module n)"
    "vs_validators (vc_validatorSet (vn_module n')) = vs_validators (vc_validatorSet (vn_module n))"
    "length (vc_messageChan (vn_module n')) \<le> chan_capacity"
  shows "listener_inv pstr n'"
  using assms verifySignature_cong [OF assms(5)] by (auto simp: listener_inv_def)

lemma listener_inv_receive:
  assumes "listener_inv pstr n" "vc_pending (vn_module n) = None"
    "listen_receive pstr data (vn_module n) = Inr cm"
  shows "listener_inv pstr (n\<lparr>vn_module := cm\<rparr>)"
proof (cases "cm = vn_module n")
  case True
  with assms(1) show ?thesis by simp
next
  case False
  with assms(3) obtain pkt where pkt: "verifySignature (vc_validatorSet (vn_module n)) pkt = Inr True"
    "fmlookup (vc_processedMsgs (vn_module n)) (msgID pstr pkt) \<noteq> Some True"
    "cm = (vn_module n)\<lparr>vc_processedMsgs := fmupd (msgID pstr pkt) True (vc_processedMsgs (vn_module n)),
       vc_pending := Some pkt\<rparr>"
    by (auto simp: listen_receive_def split: sum.splits if_splits)
  have fl: "in_flight (n\<lparr>vn_module := cm\<rparr>) = in_flight n @ [pkt]"
    using assms(2) by (simp add: in_flight_def pkt(3))
  have "msgID pstr pkt \<notin> msgID pstr ` set (in_flight n)"
    using assms(1) pkt(2) by (force simp: listener_inv_def)
  with assms(1) pkt(1) show ?thesis unfolding listener_inv_def fl by (auto simp: pkt(3))
qed

lemma books_inv_same:
  assumes "books_inv n" "vc_state cm = vc_state (vn_module n)" "vc_identity cm = vc_identity (vn_module n)"
    "vs_validators (vc_validatorSet cm) = vs_validators (vc_validatorSet (vn_module n))"
    "QuorumSize (vc_validatorSet cm) = QuorumSize (vc_validatorSet (vn_module n))"
  shows "books_inv (n\<lparr>vn_module := cm\<rparr>)"
proof -
  have "approval_origin P cm = approval_origin P (vn_module n)" for P
    using assms(3,4) by (simp add: approval_origin_def fun_eq_iff IsValidator_def)
  with assms(1,2,5) show ?thesis by (simp add: books_inv_def cm_quorum_def)
qed

lemma listen_receive_keeps:
  "listen_receive pstr data cm = Inr cm' \<Longrightarrow>
    vc_state cm' = vc_state cm \<and> vc_identity cm' = vc_identity cm \<and> vc_validatorSet cm' = vc_validatorSet cm"
  by (auto simp: listen_receive_def split: sum.splits if_splits)

lemma vnode_inv_step:
  assumes "vnode_inv pstr n" "vstep pstr M n n'"
  shows "vnode_inv pstr n'"
  using assms(2)
proof cases
  case (receive data cm)
  have "books_inv (n\<lparr>vn_module := cm\<rparr>)"
    by (rule books_inv_same) (use assms(1) listen_receive_keeps [OF receive(3)] in \<open>auto simp: vnode_inv_def\<close>)
  with listener_inv_receive [OF _ receive(2,3)] receive(1) assms(1) show ?thesis by (simp add: vnode_inv_def)
next
  case (send pkt)
  have "listener_inv pstr n'"
    by (rule listener_inv_cong [of pstr n])
      (use assms(1) send in \<open>auto simp: vnode_inv_def in_flight_def chan_capacity_def\<close>)
  moreover have "books_inv n'" unfolding send(1) by (rule books_inv_same) (use assms(1) in \<open>auto simp: vnode_inv_def\<close>)
  ultimately show ?thesis by (simp add: vnode_inv_def)
next
  case (process pkt rest cm)
  have safe: "vsafe {pkt} ((vn_module n)\<lparr>vc_messageChan := rest\<rparr>) cm" by (rule vsafe_processMessage [OF process(3)]) simp
  have "books_inv (n\<lparr>vn_module := (vn_module n)\<lparr>vc_messageChan := rest\<rparr>\<rparr>)"
    by (rule books_inv_same) (use assms(1) in \<open>auto simp: vnode_inv_def\<close>)
  then have "books_inv n'"
    unfolding process(1) using books_inv_vsafe [OF _ , of _ "{pkt}" cm "pkt # vn_handled n"] safe by fastforce
  moreover have "listener_inv pstr n'"
    by (rule listener_inv_cong [of pstr n])
      (use assms(1) process(1,2) safe in \<open>auto simp: vnode_inv_def in_flight_def vsafe_def listener_inv_def\<close>)
  ultimately show ?thesis by (simp add: vnode_inv_def)
next
  case (elect order)
  have "books_inv n'" unfolding elect(1)
    by (rule books_inv_same) (use assms(1) in \<open>auto simp: vnode_inv_def election_tick_keeps\<close>)
  moreover have "listener_inv pstr n'"
    by (rule listener_inv_cong [of pstr n])
      (use assms(1) elect(1) in \<open>auto simp: vnode_inv_def in_flight_def election_tick_keeps listener_inv_def\<close>)
  ultimately show ?thesis by (simp add: vnode_inv_def)
next
  case (propose blockData r cm)
  have safe: "vsafe {} (vn_module n) cm" by (rule vsafe_ProposeBlock [OF propose(3)])
  have "books_inv n'"
    using books_inv_vsafe [OF _ safe, of "vn_handled n"] assms(1) propose(1) by (simp add: vnode_inv_def)
  moreover have "listener_inv pstr n'"
    by (rule listener_inv_cong [of pstr n])
      (use assms(1) propose(1) safe in \<open>auto simp: vnode_inv_def in_flight_def vsafe_def listener_inv_def\<close>)
  ultimately show ?thesis by (simp add: vnode_inv_def)
qed

definition vnode_started :: "('e, 'f) vnode \<Rightarrow> bool" where
  "vnode_started n \<longleftrightarrow> (\<exists>did publish shm store vs mc stm.
     n = \<lparr>vn_module = cm_Start (NewConsensus did publish shm store vs mc stm), vn_handled = []\<rparr>)"

interpretation vnode: invariant_system vnode_started "vstep pstr M" "vnode_inv pstr" for pstr M
proof
  show "vnode_inv pstr n" if "vnode_started n" for n :: "('a, 'b) vnode"
    using that by (auto simp: vnode_started_def vnode_inv_def listener_inv_def books_inv_def in_flight_def
        NewConsensus_def cm_Start_def cm_set_state_def NewState_def approvals_for_def IsFinalized_def chan_capacity_def)
qed (auto intro: vnode_inv_step)

section \<open>Finality\<close>

lemma processed_mono:
  assumes "vstep pstr M n n'" "fmlookup (vc_processedMsgs (vn_module n)) k = Some True"
  shows "fmlookup (vc_processedMsgs (vn_module n')) k = Some True"
  using assms(1)
proof cases
  case (receive data cm)
  then show ?thesis using assms(2) by (auto simp: listen_receive_def split: sum.splits if_splits)
next
  case (process pkt rest cm)
  then show ?thesis using assms(2) vsafe_processMessage [OF process(3), of UNIV] by (simp add: vsafe_def)
next
  case (propose blockData r cm)
  then show ?thesis using assms(2) vsafe_ProposeBlock [OF propose(3)] by (simp add: vsafe_def)
qed (use assms(2) in \<open>simp_all add: election_tick_keeps\<close>)

lemma processed_run:
  "(vstep pstr M)\<^sup>*\<^sup>* n n' \<Longrightarrow> fmlookup (vc_processedMsgs (vn_module n)) k = Some True \<Longrightarrow>
    fmlookup (vc_processedMsgs (vn_module n')) k = Some True"
  by (induction rule: rtranclp_induct) (auto intro: processed_mono)

lemma verified_member:
  "verifySignature vs pkt = Inr True \<Longrightarrow> IsValidator (signer_id pkt) vs"
  by (auto simp: verifySignature_def bindE_eq_Inr IsValidator_def GetValidator_def split: option.splits)

text \<open>An approval the node may count: its own signature, or a packet whose signature was checked.\<close>

definition counted_approval ::
  "('e, 'f) vnode \<Rightarrow> bytes \<Rightarrow> peer_id \<Rightarrow> bytes \<Rightarrow> bool" where
  "counted_approval n h i sig \<longleftrightarrow>
     (i = acc_PeerID (vc_identity (vn_module n)) \<and> Account_Sign (vc_identity (vn_module n)) BlsSignerType h = Inr sig) \<or>
     (\<exists>pkt \<in> set (vn_handled n). cp_Type pkt = PacketTypeApproval \<and> cp_ValidatorID pkt = i \<and> cp_BlockHash pkt = h \<and>
        cp_Signature pkt = sig \<and> verifySignature (vc_validatorSet (vn_module n)) pkt = Inr True)"

lemma origin_counted:
  assumes "vnode_inv pstr n" "approval_origin (set (vn_handled n)) (vn_module n) h i sig"
  shows "IsValidator i (vc_validatorSet (vn_module n)) \<and> counted_approval n h i sig"
proof -
  have ver: "verifySignature (vc_validatorSet (vn_module n)) pkt = Inr True" if "pkt \<in> set (vn_handled n)" for pkt
    using assms(1) that by (auto simp: vnode_inv_def listener_inv_def in_flight_def)
  show ?thesis
    using assms(2) ver verified_member [OF ver]
    by (fastforce simp: approval_origin_def counted_approval_def signer_id_def packet_type_defs)
qed

lemma finalization_handled:
  assumes "\<And>k v e. fst (Db_Set M k v e) = None" "cp_Type pkt = PacketTypeFinalization"
  shows "\<exists>cm'. processMessage M pkt cm = (None, cm') \<and> IsFinalized (cp_BlockHash pkt) (vc_state cm')"
proof -
  obtain e where "Db_Set M (cp_BlockHash pkt) (go_bytes ''finalized'') (cs_storage (vc_state cm)) = (None, e)"
    using assms(1) by (metis prod.collapse)
  with assms(2) show ?thesis
    by (simp add: processMessage_def packet_type_defs cm_handleFinalization_def cm_on_state_def State_FinalizeBlock_def
        persist_def Let_def logged_def IsFinalized_def)
qed

lemma mem_Db_Set: "fst (Db_Set mem_mdbx k v e) = None"
  by (simp add: Db_Set_def mem_mdbx_def)

lemma approvals_for_NewState [simp]: "approvals_for k (NewState e) = fmempty"
  by (simp add: approvals_for_def NewState_def)

section \<open>A sample node\<close>

definition sample_module :: "((bytes, bytes) fmap, int) vconsensus" where
  "sample_module = cm_Start (NewConsensus sample_account (\<lambda>_ _. None) (NewShardManager 1) fmempty sample_validators
     (NewCollector zero_metrics) NewStateManager)"

definition sample_vnode :: "((bytes, bytes) fmap, int) vnode" where
  "sample_vnode = \<lparr>vn_module = sample_module, vn_handled = []\<rparr>"

definition sample_signature :: "bytes \<Rightarrow> bytes" where
  "sample_signature h = 0 # 1 # sha256_Sum256 h"

definition sample_vote :: "packet_type \<Rightarrow> bytes \<Rightarrow> consensus_packet" where
  "sample_vote ty h = vote_packet ty [7] h (sample_signature h)"

lemma sample_vote_fields:
  "cp_Type (sample_vote ty h) = ty" "cp_ValidatorID (sample_vote ty h) = [7]" "cp_BlockHash (sample_vote ty h) = h"
  by (simp_all add: sample_vote_def vote_packet_def)

lemma sample_signature_valid:
  "h \<noteq> [] \<Longrightarrow> sg_Sign plain_signer h = Inr (sample_signature h)"
  "h \<noteq> [] \<Longrightarrow> sg_Verify plain_signer h (sample_signature h) = (True, None)"
  by (simp_all add: plain_signer_def BLS_signer_def BLSSigner_Sign_def BLSSigner_Verify_def plain_bls_def
      sample_signature_def)

lemma sample_vote_verified:
  "h \<noteq> [] \<Longrightarrow> ty = PacketTypeApproval \<or> ty = PacketTypeFinalization \<Longrightarrow>
    verifySignature sample_validators (sample_vote ty h) = Inr True"
  by (auto simp: verifySignature_def signed_data_def signer_id_def sample_vote_def vote_packet_def packet_type_defs
      sample_validators_facts sample_signature_valid)

lemma sample_vote_decoded:
  assumes "length h < 2 ^ 32" "ty \<noteq> PacketTypeProposal"
  shows "\<exists>data. DeserializeConsensusPacket data = Inr (sample_vote ty h)"
proof -
  obtain data where "ConsensusPacket_Serialize (sample_vote ty h) = Inr data" by (simp add: ConsensusPacket_Serialize_def)
  moreover have "cp_fits (sample_vote ty h)"
    using assms by (simp add: cp_fits_def sample_vote_def vote_packet_def sample_signature_def)
  moreover have "cp_norm (sample_vote ty h) = sample_vote ty h"
    using assms(2) by (simp add: cp_norm_def sample_vote_def vote_packet_def norm_signer_def)
  ultimately show ?thesis using DeserializeConsensusPacket_Serialize by metis
qed

lemma sample_vnode_facts:
  "vnode_started sample_vnode" "vc_pending (vn_module sample_vnode) = None" "vc_messageChan (vn_module sample_vnode) = []"
  "vc_processedMsgs (vn_module sample_vnode) = fmempty" "vc_validatorSet (vn_module sample_vnode) = sample_validators"
  "vc_state (vn_module sample_vnode) = NewState fmempty" "vn_handled sample_vnode = []"
  unfolding vnode_started_def sample_vnode_def sample_module_def
  by (blast, simp_all add: cm_Start_def cm_set_state_def NewConsensus_def)

lemma sample_receive:
  assumes "h \<noteq> []" "length h < 2 ^ 32" "ty = PacketTypeApproval \<or> ty = PacketTypeFinalization"
  shows "\<exists>n. vstep pstr mem_mdbx sample_vnode n \<and> vc_pending (vn_module n) = Some (sample_vote ty h) \<and>
    n = sample_vnode\<lparr>vn_module := (vn_module sample_vnode)\<lparr>
      vc_processedMsgs := fmupd (msgID pstr (sample_vote ty h)) True fmempty, vc_pending := Some (sample_vote ty h)\<rparr>\<rparr>"
proof -
  obtain data where "DeserializeConsensusPacket data = Inr (sample_vote ty h)"
    using sample_vote_decoded [OF assms(2), of ty] assms(3) by (auto simp: packet_type_defs)
  then have "listen_receive pstr data (vn_module sample_vnode) = Inr ((vn_module sample_vnode)\<lparr>
      vc_processedMsgs := fmupd (msgID pstr (sample_vote ty h)) True fmempty, vc_pending := Some (sample_vote ty h)\<rparr>)"
    using sample_vote_verified [OF assms(1,3)] by (simp add: listen_receive_def sample_vnode_facts)
  from vstep.receive [OF sample_vnode_facts(2) this] show ?thesis by simp
qed

section \<open>Properties\<close>

text \<open>
  C4: Finality of the validator's consensus module.  In every state it can reach, a finalized block has a
  handled finalization packet with a valid signature of a validator, or approvals of at least a quorum of
  distinct validators, each signed by the node itself or carried by a packet whose signature was verified.
\<close>

theorem validator_finality:
  fixes n :: "('e, 'f::{zero,plus,times,ord}) vnode"
  assumes "n0 = \<lparr>vn_module = cm_Start (NewConsensus did publish shm store vs mc stm), vn_handled = []\<rparr>"
    and "(vstep pstr M)\<^sup>*\<^sup>* n0 n" "IsFinalized h (vc_state (vn_module n))"
  shows "(\<exists>pkt \<in> set (vn_handled n). cp_Type pkt = PacketTypeFinalization \<and> cp_BlockHash pkt = h \<and>
      verifySignature (vc_validatorSet (vn_module n)) pkt = Inr True) \<or>
    (\<exists>A. A \<subseteq> {i. IsValidator i (vc_validatorSet (vn_module n))} \<and>
      int (card A) \<ge> QuorumSize (vc_validatorSet (vn_module n)) \<and>
      (\<forall>i \<in> A. \<exists>sig. fmlookup (approvals_for (blockHashKey h) (vc_state (vn_module n))) i = Some sig \<and>
         counted_approval n h i sig))"
proof -
  have "vnode_started n0" using assms(1) unfolding vnode_started_def by blast
  then have inv: "vnode_inv pstr n" using assms(2) by (rule vnode.inv_reachable)
  let ?m = "approvals_for (blockHashKey h) (vc_state (vn_module n))"
  have counted: "IsValidator i (vc_validatorSet (vn_module n)) \<and> counted_approval n h i sig"
    if "fmlookup ?m i = Some sig" for i sig
    using inv that by (intro origin_counted [OF inv]) (auto simp: vnode_inv_def books_inv_def)
  have "finalization_in (set (vn_handled n)) h \<or> cm_quorum h (vn_module n)"
    using inv assms(3) by (simp add: vnode_inv_def books_inv_def)
  then show ?thesis
  proof
    assume "finalization_in (set (vn_handled n)) h"
    then show ?thesis using inv
      by (auto simp: finalization_in_def vnode_inv_def listener_inv_def in_flight_def)
  next
    assume "cm_quorum h (vn_module n)"
    then have "int (card (fset (fmdom ?m))) \<ge> QuorumSize (vc_validatorSet (vn_module n))"
      by (simp add: cm_quorum_def HasReachedQuorum_def fmlen_def fcard.rep_eq)
    moreover have "\<exists>sig. fmlookup ?m i = Some sig" if "i \<in> fset (fmdom ?m)" for i
      using that by (auto simp: fmlookup_dom_iff)
    ultimately show ?thesis
      using counted by (intro disjI2 exI [of _ "fset (fmdom ?m)"]) blast
  qed
qed

theorem validator_finality_witness:
  "\<exists>n :: ((bytes, bytes) fmap, int) vnode. IsFinalized [5] (vc_state (vn_module n)) \<and>
    ((\<exists>pkt \<in> set (vn_handled n). cp_Type pkt = PacketTypeFinalization \<and> cp_BlockHash pkt = [5] \<and>
        verifySignature (vc_validatorSet (vn_module n)) pkt = Inr True) \<or>
      (\<exists>A. A \<subseteq> {i. IsValidator i (vc_validatorSet (vn_module n))} \<and>
        int (card A) \<ge> QuorumSize (vc_validatorSet (vn_module n))))"
proof -
  let ?p = "sample_vote PacketTypeFinalization [5]" and ?P = hex_EncodeToString
  obtain n1 where n1: "vstep ?P mem_mdbx sample_vnode n1" "vc_pending (vn_module n1) = Some ?p"
    "n1 = sample_vnode\<lparr>vn_module := (vn_module sample_vnode)\<lparr>
      vc_processedMsgs := fmupd (msgID ?P ?p) True fmempty, vc_pending := Some ?p\<rparr>\<rparr>"
    using sample_receive [of "[5]" PacketTypeFinalization ?P] by auto
  let ?n2 = "n1\<lparr>vn_module := (vn_module n1)\<lparr>vc_messageChan := vc_messageChan (vn_module n1) @ [?p], vc_pending := None\<rparr>\<rparr>"
  have n2: "vstep ?P mem_mdbx n1 ?n2"
    by (rule vstep.send [OF n1(2)]) (simp add: n1(3) sample_vnode_facts chan_capacity_def)
  have chan: "vc_messageChan (vn_module ?n2) = [?p]" by (simp add: n1(3) sample_vnode_facts)
  obtain cm where cm: "processMessage mem_mdbx ?p ((vn_module ?n2)\<lparr>vc_messageChan := []\<rparr>) = (None, cm)"
    "IsFinalized [5] (vc_state cm)"
    using finalization_handled [OF mem_Db_Set, of ?p "(vn_module ?n2)\<lparr>vc_messageChan := []\<rparr>"]
    unfolding sample_vote_fields by blast
  let ?n3 = "?n2\<lparr>vn_module := cm, vn_handled := ?p # vn_handled ?n2\<rparr>"
  have n3: "vstep ?P mem_mdbx ?n2 ?n3" by (rule vstep.process [OF chan cm(1)])
  have run: "(vstep ?P mem_mdbx)\<^sup>*\<^sup>* sample_vnode ?n3"
    by (rule converse_rtranclp_into_rtranclp, rule n1(1), rule converse_rtranclp_into_rtranclp, rule n2,
        rule r_into_rtranclp, rule n3)
  have fin: "IsFinalized [5] (vc_state (vn_module ?n3))" using cm(2) by simp
  note F = validator_finality [OF sample_vnode_def [unfolded sample_module_def] run fin]
  from F fin show ?thesis by (intro exI [of _ ?n3]) blast
qed

text \<open>
  C21: Once a packet with some validator and block hash has passed the listener, every later packet with the same
  two fields is ignored, whatever its type and in every later state: after a validator's approval its
  finalization of the same block changes nothing.
\<close>

theorem second_message_ignored:
  fixes n :: "('e, 'f::{zero,plus,times,ord}) vnode"
  assumes "vnode_started n0" "(vstep pstr M)\<^sup>*\<^sup>* n0 n" "pkt \<in> set (in_flight n)" "(vstep pstr M)\<^sup>*\<^sup>* n n'"
    and "DeserializeConsensusPacket data = Inr later"
    and "cp_ValidatorID later = cp_ValidatorID pkt" "cp_BlockHash later = cp_BlockHash pkt"
    and "listen_receive pstr data (vn_module n') = Inr cm"
  shows "cm = vn_module n'"
proof -
  have "fmlookup (vc_processedMsgs (vn_module n)) (msgID pstr pkt) = Some True"
    using vnode.inv_reachable [OF assms(1,2)] assms(3) by (auto simp: vnode_inv_def listener_inv_def)
  then have "fmlookup (vc_processedMsgs (vn_module n')) (msgID pstr later) = Some True"
    using processed_run [OF assms(4)] assms(6,7) by (simp add: msgID_def)
  with assms(5,8) show ?thesis by (auto simp: listen_receive_def split: sum.splits if_splits)
qed

theorem second_message_ignored_witness:
  "\<exists>(n :: ((bytes, bytes) fmap, int) vnode) data.
    sample_vote PacketTypeApproval [5] \<in> set (in_flight n) \<and>
    DeserializeConsensusPacket data = Inr (sample_vote PacketTypeFinalization [5]) \<and>
    listen_receive hex_EncodeToString data (vn_module n) = Inr (vn_module n)"
proof -
  let ?a = "sample_vote PacketTypeApproval [5]" and ?f = "sample_vote PacketTypeFinalization [5]"
    and ?P = hex_EncodeToString
  obtain n where n: "vstep ?P mem_mdbx sample_vnode n" "vc_pending (vn_module n) = Some ?a"
    "n = sample_vnode\<lparr>vn_module := (vn_module sample_vnode)\<lparr>
      vc_processedMsgs := fmupd (msgID ?P ?a) True fmempty, vc_pending := Some ?a\<rparr>\<rparr>"
    using sample_receive [of "[5]" PacketTypeApproval ?P] by auto
  obtain data where data: "DeserializeConsensusPacket data = Inr ?f"
    using sample_vote_decoded [of "[5]" PacketTypeFinalization] by (auto simp: packet_type_defs)
  have "vc_validatorSet (vn_module n) = sample_validators" by (simp add: n(3) sample_vnode_facts)
  then obtain cm where cm: "listen_receive ?P data (vn_module n) = Inr cm"
    using data sample_vote_verified [of "[5]" PacketTypeFinalization] unfolding listen_receive_def
    by (cases "fmlookup (vc_processedMsgs (vn_module n)) (msgID ?P ?f) = Some True") simp_all
  have mem: "?a \<in> set (in_flight n)" using n(2) by (simp add: in_flight_def)
  have "cm = vn_module n"
  proof (rule second_message_ignored [OF sample_vnode_facts(1) _ mem _ data _ _ cm])
    show "(vstep ?P mem_mdbx)\<^sup>*\<^sup>* sample_vnode n" using n(1) by (rule r_into_rtranclp)
  qed (simp_all add: sample_vote_fields)
  with mem data cm show ?thesis by blast
qed

text \<open>
  Nothing checks that a validator has a signer of the type a packet names: for every validator without a signer of
  some type there is a message, which needs no key, that makes the listener dereference a nil signer.  When every
  validator has a signer of every type and \<open>Verify\<close> does not panic, no message does.
\<close>

theorem missing_signer_type_crashes:
  fixes cm :: "('e, 'f) vconsensus"
  shows "(\<forall>i v. GetValidator i (vc_validatorSet cm) = Some v \<and> length i < 2 ^ 32 \<and>
       Validator_Signer v (norm_signer t) = None \<longrightarrow>
      (\<exists>data. listen_receive pstr data cm = Inl nil_dereference)) \<and>
    ((\<forall>i v. GetValidator i (vc_validatorSet cm) = Some v \<longrightarrow>
        (\<forall>t. \<exists>s. Validator_Signer v t = Some s \<and> (\<forall>d sig e. snd (sg_Verify s d sig) = Some e \<longrightarrow> \<not> is_panic e))) \<longrightarrow>
      \<not> panics (listen_receive pstr data' cm))"
proof (intro conjI allI impI)
  fix i v
  assume v: "GetValidator i (vc_validatorSet cm) = Some v \<and> length i < 2 ^ 32 \<and> Validator_Signer v (norm_signer t) = None"
  define pkt where "pkt = (vote_packet PacketTypeApproval i [] [])\<lparr>cp_Signer := t\<rparr>"
  obtain data where "ConsensusPacket_Serialize pkt = Inr data" by (simp add: ConsensusPacket_Serialize_def)
  moreover have "cp_fits pkt" using v by (simp add: cp_fits_def pkt_def vote_packet_def)
  ultimately have "DeserializeConsensusPacket data = Inr (cp_norm pkt)" by (rule DeserializeConsensusPacket_Serialize [rotated])
  moreover have "verifySignature (vc_validatorSet cm) (cp_norm pkt) = Inl nil_dereference"
    using v by (simp add: verifySignature_def signed_data_def signer_id_def pkt_def vote_packet_def cp_norm_def packet_type_defs)
  ultimately have "listen_receive pstr data cm = Inl nil_dereference"
    by (simp add: listen_receive_def nil_dereference_def)
  then show "\<exists>data. listen_receive pstr data cm = Inl nil_dereference" ..
next
  assume all: "\<forall>i v. GetValidator i (vc_validatorSet cm) = Some v \<longrightarrow>
    (\<forall>t. \<exists>s. Validator_Signer v t = Some s \<and> (\<forall>d sig e. snd (sg_Verify s d sig) = Some e \<longrightarrow> \<not> is_panic e))"
  have "\<not> panics (verifySignature (vc_validatorSet cm) pkt)" for pkt
  proof (cases "GetValidator (signer_id pkt) (vc_validatorSet cm)")
    case (Some v)
    with all obtain s where s: "Validator_Signer v (cp_Signer pkt) = Some s"
      "\<forall>d sig e. snd (sg_Verify s d sig) = Some e \<longrightarrow> \<not> is_panic e" by meson
    have "\<not> panics (case sg_Verify s d sig of (_, Some err) \<Rightarrow> Inl err | (valid, None) \<Rightarrow> Inr valid)" for d sig
      using s(2) [rule_format, of d sig] by (cases "sg_Verify s d sig") (auto split: option.splits)
    with Some s(1) show ?thesis by (auto simp: verifySignature_def signed_data_def panics_bindE)
  qed (auto simp: verifySignature_def signed_data_def panics_bindE)
  then have "\<not> is_panic e" if "verifySignature (vc_validatorSet cm) pkt = Inl e" for pkt e
    using that by (metis panics_Inl)
  then show "\<not> panics (listen_receive pstr data' cm)"
    by (auto simp: listen_receive_def split: sum.splits)
qed

theorem missing_signer_type_crashes_witness:
  "\<exists>data. listen_receive hex_EncodeToString data sample_module = Inl nil_dereference"
proof -
  have vs: "vc_validatorSet sample_module = sample_validators"
    using sample_vnode_facts(5) by (simp add: sample_vnode_def)
  have no: "Validator_Signer sample_account (norm_signer DleqSignerType) = None"
    by (simp add: Validator_Signer_def sample_account_def NewAccount_def norm_signer_def signer_type_defs)
  have "GetValidator [7] (vc_validatorSet sample_module) = Some sample_account"
    by (simp add: vs sample_validators_facts)
  moreover have "length ([7] :: bytes) < 2 ^ 32" by simp
  ultimately show ?thesis
    using missing_signer_type_crashes [of sample_module DleqSignerType hex_EncodeToString "[]"] no by blast
qed

text \<open>
  C20: Progress of the leader.  When the node is the leader, can sign and publish, and the database accepts writes,
  handling an approval that completes the quorum of a block that is not yet final finalizes the block, and the last
  message published is the node's signed finalization packet of that block.
\<close>

theorem leader_finalizes_at_quorum:
  fixes cm :: "('e, 'f) vconsensus"
  assumes "cp_Type pkt = PacketTypeApproval" "acc_PeerID (vc_identity cm) = vc_currentLeader cm"
    and "\<And>k v e. fst (Db_Set M k v e) = None" "\<And>sent msg. vc_publish cm sent msg = None"
    and "Account_Sign (vc_identity cm) BlsSignerType (cp_BlockHash pkt) = Inr sig"
    and "HasReachedQuorum (cp_BlockHash pkt) (QuorumSize (vc_validatorSet cm)) (snd (AddApproval M pkt (vc_state cm)))"
    and "\<not> IsFinalized (cp_BlockHash pkt) (vc_state cm)"
  shows "\<exists>cm' msg. processMessage M pkt cm = (None, cm') \<and> IsFinalized (cp_BlockHash pkt) (vc_state cm') \<and>
    vc_sent cm' = vc_sent cm @ [msg] \<and>
    ConsensusPacket_Serialize
      (vote_packet PacketTypeFinalization (acc_PeerID (vc_identity cm)) (cp_BlockHash pkt) sig) = Inr msg"
proof -
  let ?h = "cp_BlockHash pkt"
  let ?f = "vote_packet PacketTypeFinalization (acc_PeerID (vc_identity cm)) ?h sig"
  obtain cs1 where cs1: "AddApproval M pkt (vc_state cm) = (None, cs1)"
    using assms(1,3) by (cases "AddApproval M pkt (vc_state cm)")
      (auto simp: AddApproval_def persist_def Let_def split: option.splits prod.splits, (metis fst_conv option.distinct(1))+)
  obtain msg where msg: "ConsensusPacket_Serialize ?f = Inr msg" by (simp add: ConsensusPacket_Serialize_def)
  obtain cs2 where cs2: "State_FinalizeBlock M ?h cs1 = (None, cs2)"
    using assms(3) by (cases "State_FinalizeBlock M ?h cs1")
      (auto simp: State_FinalizeBlock_def persist_def Let_def split: prod.splits, metis fst_conv option.distinct(1))
  have nf: "\<not> IsFinalized ?h cs1" using assms(7) AddApproval_maps(2) [of M pkt "vc_state cm"]
    by (simp add: cs1 IsFinalized_def)
  have fin: "IsFinalized ?h cs2" using State_FinalizeBlock_maps(3) [of M ?h cs1] by (simp add: cs2 IsFinalized_def)
  have "cm_FinalizeBlock M ?h (cm\<lparr>vc_state := cs1\<rparr>) =
      (None, cm\<lparr>vc_state := cs2, vc_sent := vc_sent cm @ [msg]\<rparr>)"
    using assms(4,5) msg by (simp add: cm_FinalizeBlock_def cm_Sign_def Let_def cm_BroadcastMessage_def cm_on_state_def cs2)
  then have "processMessage M pkt cm = (None, cm\<lparr>vc_state := cs2, vc_sent := vc_sent cm @ [msg]\<rparr>)"
    using assms(1,2,6) nf
    by (simp add: processMessage_def packet_type_defs cm_handleApproval_def cm_on_state_def cs1 logged_def)
  with fin msg show ?thesis by simp
qed

theorem leader_finalizes_at_quorum_witness:
  "\<exists>cm'. processMessage mem_mdbx (sample_vote PacketTypeApproval [5])
      (sample_module\<lparr>vc_currentLeader := [7]\<rparr>) = (None, cm') \<and> IsFinalized [5] (vc_state cm')"
proof -
  let ?cm = "sample_module\<lparr>vc_currentLeader := [7]\<rparr>" and ?p = "sample_vote PacketTypeApproval [5]"
  have st: "vc_state ?cm = NewState fmempty" "vc_validatorSet ?cm = sample_validators"
    using sample_vnode_facts(5,6) by (simp_all add: sample_vnode_def)
  have id: "vc_identity ?cm = sample_account" "vc_publish ?cm = (\<lambda>_ _. None)"
    by (simp_all add: sample_module_def cm_Start_def cm_set_state_def NewConsensus_def)
  have "Account_Sign sample_account BlsSignerType [5] = Inr (sample_signature [5])"
    using sample_validators_facts(4) by (simp add: Account_Sign_def Validator_Signer_def sample_signature_valid)
  moreover have "HasReachedQuorum [5] 1 (snd (AddApproval mem_mdbx ?p (NewState fmempty)))"
    by (simp add: HasReachedQuorum_def approvals_for_AddApproval sample_vote_fields approvals_for_NewState fmlen_upd)
  moreover have "acc_PeerID sample_account = [7]" by (simp add: sample_account_def NewAccount_def)
  moreover have "\<not> IsFinalized [5] (NewState fmempty)" by (simp add: IsFinalized_def NewState_def)
  ultimately show ?thesis
    using leader_finalizes_at_quorum [of ?p ?cm mem_mdbx "sample_signature [5]"]
    by (simp only: sample_vote_fields st id sample_validators_facts mem_Db_Set) auto
qed

section \<open>Life cycle\<close>

lemmas lifecycle_defs = va_stateMgr_def va_set_state_def cm_set_state_def cm_Start_def cm_Shutdown_def Validator_Start_def
  manager_defs get_set_state ValidatorStateType_def ConsensusStateType_def state_defs

lemma NewValidator_Inr:
  assumes "NewValidator pstr order shardCount did sm publish vs mc = Inr v"
  shows "\<exists>shardID shm db. IsValidator (acc_PeerID did) vs \<and>
    AssignValidator pstr order (acc_PeerID did) (NewShardManager shardCount) = Inr (shardID, shm) \<and>
    va_shardManager v = shm \<and>
    v = va_set_state Initialized \<lparr>va_did = did, va_vSet = vs, va_shardManager = shm, va_consensus =
      NewConsensus did publish shm db vs mc (Validator_SetState ValidatorStateType Uninitialized NewStateManager)\<rparr>"
  using assms by (auto simp: NewValidator_def Let_def bindE_eq_Inr va_set_state_def split: if_splits)

lemma wait_alone_reached: "get_state k sm = s \<Longrightarrow> s \<noteq> 0 \<Longrightarrow> wait_alone k s sm = (None, sm)"
  by (auto simp: wait_alone_def WaitForState_enter_def WaitForState_check_def get_state_def split: option.splits)

lemma Validator_Shutdown_ok:
  "\<exists>v'. Validator_Shutdown v = (None, v') \<and> vc_ctx_done (va_consensus v') \<and>
     Validator_GetState ValidatorStateType (va_stateMgr v') = Stopped \<and>
     Validator_GetState ConsensusStateType (va_stateMgr v') = Stopped"
  by (simp add: Validator_Shutdown_def Let_def lifecycle_defs wait_alone_reached)

text \<open>
  The life of a validator.  A validator that \<open>NewValidator\<close> returns is a member of the set, alone in the shard its
  hash selects, and \<open>Initialized\<close>; \<open>Start\<close> takes it and its consensus to \<open>Started\<close>; \<open>Shutdown\<close> then returns without
  an error, with the context cancelled and both \<open>Stopped\<close>.
\<close>

theorem validator_lifecycle:
  fixes v :: "('e, 'f) validator_service"
  assumes "NewValidator pstr order shardCount did sm publish vs mc = Inr v" "0 < shardCount"
  shows "IsValidator (acc_PeerID did) vs \<and>
    (\<forall>i w. members (va_shardManager v) i w \<longleftrightarrow> i = hashValidator pstr (acc_PeerID did) mod shardCount \<and> w = acc_PeerID did) \<and>
    Validator_GetState ValidatorStateType (va_stateMgr v) = Initialized \<and>
    Validator_GetState ValidatorStateType (va_stateMgr (Validator_Start v)) = Started \<and>
    Validator_GetState ConsensusStateType (va_stateMgr (Validator_Start v)) = Started \<and>
    (\<exists>v'. Validator_Shutdown (Validator_Start v) = (None, v') \<and> vc_ctx_done (va_consensus v') \<and>
       Validator_GetState ValidatorStateType (va_stateMgr v') = Stopped \<and>
       Validator_GetState ConsensusStateType (va_stateMgr v') = Stopped)"
proof (intro conjI)
  obtain shardID shm db where v: "IsValidator (acc_PeerID did) vs"
    "AssignValidator pstr order (acc_PeerID did) (NewShardManager shardCount) = Inr (shardID, shm)"
    "va_shardManager v = shm"
    "v = va_set_state Initialized \<lparr>va_did = did, va_vSet = vs, va_shardManager = shm, va_consensus =
      NewConsensus did publish shm db vs mc (Validator_SetState ValidatorStateType Uninitialized NewStateManager)\<rparr>"
    using NewValidator_Inr [OF assms(1)] by blast
  show "IsValidator (acc_PeerID did) vs" by (rule v(1))
  have "\<not> members (NewShardManager shardCount) i w" for i w
    by (simp add: members_def NewShardManager_def new_manager_lookup split: option.splits if_splits)
  with assign_spec [OF shard_inv_new [OF assms(2)], of pstr order "acc_PeerID did"] v(2,3)
  show "\<forall>i w. members (va_shardManager v) i w \<longleftrightarrow>
      i = hashValidator pstr (acc_PeerID did) mod shardCount \<and> w = acc_PeerID did"
    by (auto simp: home_def NewShardManager_def)
  show "Validator_GetState ValidatorStateType (va_stateMgr v) = Initialized" unfolding v(4) by (simp add: lifecycle_defs)
  show "Validator_GetState ValidatorStateType (va_stateMgr (Validator_Start v)) = Started" by (simp add: lifecycle_defs Let_def)
  show "Validator_GetState ConsensusStateType (va_stateMgr (Validator_Start v)) = Started" by (simp add: lifecycle_defs Let_def)
  show "\<exists>v'. Validator_Shutdown (Validator_Start v) = (None, v') \<and> vc_ctx_done (va_consensus v') \<and>
       Validator_GetState ValidatorStateType (va_stateMgr v') = Stopped \<and>
       Validator_GetState ConsensusStateType (va_stateMgr v') = Stopped"
    by (rule Validator_Shutdown_ok)
qed

theorem validator_lifecycle_witness:
  "\<exists>v :: ((bytes, bytes) fmap, int) validator_service.
    NewValidator go_string [0] 1 sample_account (fmupd ''consensus'' fmempty fmempty) (\<lambda>_ _. None) sample_validators
      (NewCollector zero_metrics) = Inr v \<and> (\<exists>v'. Validator_Shutdown (Validator_Start v) = (None, v'))"
proof -
  have "IsValidator (acc_PeerID sample_account) sample_validators"
    using sample_validators_facts(3) by (simp add: IsValidator_def GetValidator_def sample_account_def NewAccount_def)
  then obtain v :: "((bytes, bytes) fmap, int) validator_service" where v:
    "NewValidator go_string [0] 1 sample_account (fmupd ''consensus'' fmempty fmempty) (\<lambda>_ _. None) sample_validators
      (NewCollector zero_metrics) = Inr v"
    using assign_spec [OF shard_inv_new [of 1 go_string], of "[0]" "acc_PeerID sample_account"]
    by (auto simp: NewValidator_def Let_def Manager_GetDb_def)
  with validator_lifecycle [OF v] show ?thesis by auto
qed

text \<open>With no shards configured the constructor divides by zero.\<close>

lemma no_shards_panics:
  "IsValidator (acc_PeerID did) vs \<Longrightarrow> panics (NewValidator pstr order 0 did sm publish vs mc)"
proof -
  have "find_shard order v (NewShardManager 0) = None" for v
    by (induction order) (auto simp: NewShardManager_def)
  then show "IsValidator (acc_PeerID did) vs \<Longrightarrow> ?thesis"
    by (simp add: NewValidator_def AssignValidator_def NewShardManager_def shard_mod_def Let_def)
qed

end
