(* ===== verification/State_Store.thy ===== *)
theory State_Store
  imports Storage Codec
begin

text \<open>
  \<open>pkg/state\<close>: proposals, peers, latency records and finalizations kept in the database under textual keys
  (\<open>state.go\<close>), each in a compressed binary form (\<open>proposal.go\<close>, \<open>peer.go\<close>, \<open>latency_record.go\<close>,
  \<open>finalization.go\<close>).  The compression library is the parameter \<open>s2_lib\<close>.  Each method of the manager holds its
  mutex to the end and is one function on the database environment.  Shown here: the records are read back,
  proposals and finalizations never change once stored, a listing gives exactly what is stored, and the records of
  a peer whose ID extends another's are listed under both.
\<close>

section \<open>Compression\<close>

record s2_lib =
  s2_Encode :: "bytes \<Rightarrow> bytes"
  s2_Decode :: "bytes \<Rightarrow> bytes result"

text \<open>What the library documents: a block below its size limit decompresses to itself.\<close>

definition s2_laws :: "s2_lib \<Rightarrow> bool" where
  "s2_laws C \<longleftrightarrow> (\<forall>bs. length bs < 2 ^ 31 \<longrightarrow> s2_Decode C (s2_Encode C bs) = Inr bs)"

section \<open>Records\<close>

record proposal =
  pp_ID :: string
  pp_BlockHash :: bytes
  pp_Content :: bytes
  pp_Timestamp :: int64

record state_peer =
  pe_ID :: string
  pe_Address :: string
  pe_JoinedAt :: int64
  pe_LeftAt :: "int64 option"

record latency_record =
  lr_PeerID :: string
  lr_LatencyMs :: int64
  lr_Timestamp :: int64

record finalization =
  fz_BlockHash :: bytes
  fz_Timestamp :: int64

text \<open>An \<open>int32\<close> length and the bytes; a negative length makes \<open>make\<close> panic.\<close>

definition write_block :: "bytes \<Rightarrow> bytes" where
  "write_block bs = LE_PutUint32 (uint32_len bs) @ bs"

definition read_block :: "bytes \<Rightarrow> (bytes \<times> bytes) result" where
  "read_block r =
     bindE (binary_Read_uint32 r) (\<lambda>(n, r).
       if sint n < 0 then Inl (Panic ''makeslice: len out of range'')
       else bindE (Reader_Read (unat n) r) (\<lambda>(_, bs, r). Inr (bs, r)))"

definition proposal_raw :: "proposal \<Rightarrow> bytes" where
  "proposal_raw p = write_block (go_bytes (pp_ID p)) @ write_block (pp_BlockHash p) @ write_block (pp_Content p) @
     LE_PutUint64 (pp_Timestamp p)"

definition Proposal_Encode :: "s2_lib \<Rightarrow> proposal \<Rightarrow> bytes result" where
  "Proposal_Encode C p = Inr (s2_Encode C (proposal_raw p))"

definition DecodeProposal :: "s2_lib \<Rightarrow> bytes \<Rightarrow> proposal result" where
  "DecodeProposal C data =
     bindE (s2_Decode C data) (\<lambda>r.
     bindE (read_block r) (\<lambda>(idBytes, r).
     bindE (read_block r) (\<lambda>(hashBytes, r).
     bindE (read_block r) (\<lambda>(contentBytes, r).
     bindE (binary_Read_uint64 r) (\<lambda>(timestamp, _).
       Inr \<lparr>pp_ID = go_string idBytes, pp_BlockHash = hashBytes, pp_Content = contentBytes,
            pp_Timestamp = timestamp\<rparr>)))))"

definition peer_raw :: "state_peer \<Rightarrow> bytes" where
  "peer_raw p = write_block (go_bytes (pe_ID p)) @ write_block (go_bytes (pe_Address p)) @
     LE_PutUint64 (pe_JoinedAt p) @
     (case pe_LeftAt p of Some leftAt \<Rightarrow> [1] @ LE_PutUint64 leftAt | None \<Rightarrow> [0])"

definition Peer_Encode :: "s2_lib \<Rightarrow> state_peer \<Rightarrow> bytes result" where
  "Peer_Encode C p = Inr (s2_Encode C (peer_raw p))"

definition DecodePeer :: "s2_lib \<Rightarrow> bytes \<Rightarrow> state_peer result" where
  "DecodePeer C data =
     bindE (s2_Decode C data) (\<lambda>r.
     bindE (read_block r) (\<lambda>(idBytes, r).
     bindE (read_block r) (\<lambda>(addrBytes, r).
     bindE (binary_Read_uint64 r) (\<lambda>(joinedAt, r).
     bindE (binary_Read_uint8 r) (\<lambda>(flag, r).
     bindE (if flag = 1 then bindE (binary_Read_uint64 r) (\<lambda>(leftAt, _). Inr (Some leftAt)) else Inr None) (\<lambda>leftAt.
       Inr \<lparr>pe_ID = go_string idBytes, pe_Address = go_string addrBytes, pe_JoinedAt = joinedAt,
            pe_LeftAt = leftAt\<rparr>))))))"

definition latency_raw :: "latency_record \<Rightarrow> bytes" where
  "latency_raw lr = write_block (go_bytes (lr_PeerID lr)) @ LE_PutUint64 (lr_LatencyMs lr) @
     LE_PutUint64 (lr_Timestamp lr)"

definition LatencyRecord_Encode :: "s2_lib \<Rightarrow> latency_record \<Rightarrow> bytes result" where
  "LatencyRecord_Encode C lr = Inr (s2_Encode C (latency_raw lr))"

definition DecodeLatencyRecord :: "s2_lib \<Rightarrow> bytes \<Rightarrow> latency_record result" where
  "DecodeLatencyRecord C data =
     bindE (s2_Decode C data) (\<lambda>r.
     bindE (read_block r) (\<lambda>(peerIDBytes, r).
     bindE (binary_Read_uint64 r) (\<lambda>(latencyMs, r).
     bindE (binary_Read_uint64 r) (\<lambda>(timestamp, _).
       Inr \<lparr>lr_PeerID = go_string peerIDBytes, lr_LatencyMs = latencyMs, lr_Timestamp = timestamp\<rparr>))))"

definition finalization_raw :: "finalization \<Rightarrow> bytes" where
  "finalization_raw f = write_block (fz_BlockHash f) @ LE_PutUint64 (fz_Timestamp f)"

definition Finalization_Encode :: "s2_lib \<Rightarrow> finalization \<Rightarrow> bytes result" where
  "Finalization_Encode C f = Inr (s2_Encode C (finalization_raw f))"

definition DecodeFinalization :: "s2_lib \<Rightarrow> bytes \<Rightarrow> finalization result" where
  "DecodeFinalization C data =
     bindE (s2_Decode C data) (\<lambda>r.
     bindE (read_block r) (\<lambda>(hashBytes, r).
     bindE (binary_Read_uint64 r) (\<lambda>(timestamp, _).
       Inr \<lparr>fz_BlockHash = hashBytes, fz_Timestamp = timestamp\<rparr>)))"

section \<open>Keys\<close>

text \<open>\<open>fmt.Sprintf("%d", n)\<close> of a 64-bit integer.\<close>

fun decimal :: "nat \<Rightarrow> string" where
  "decimal n = (if n < 10 then [hex_digit n] else decimal (n div 10) @ [hex_digit (n mod 10)])"

declare decimal.simps [simp del]

definition fmt_d :: "int64 \<Rightarrow> string" where
  "fmt_d n = (if sint n < 0 then ''-'' @ decimal (nat (- sint n)) else decimal (nat (sint n)))"

definition proposal_key :: "string \<Rightarrow> bytes" where
  "proposal_key i = go_bytes (''proposal:'' @ i)"

definition peer_key :: "string \<Rightarrow> bytes" where
  "peer_key i = go_bytes (''peer:'' @ i)"

definition latency_key :: "string \<Rightarrow> int64 \<Rightarrow> bytes" where
  "latency_key peerID timestamp = go_bytes (''latency:'' @ peerID @ '':'' @ fmt_d timestamp)"

definition finalization_key :: "bytes \<Rightarrow> bytes" where
  "finalization_key blockHash = go_bytes (''finalization:'' @ hex_EncodeToString blockHash)"

section \<open>Manager\<close>

text \<open>
  The bodies the methods share: store under a key that must be free, read and decode, and decode what a list of keys
  holds, leaving out with a log message what cannot be read.  A panic of the decoder is not caught.
\<close>

definition add_new ::
  "'e mdbx \<Rightarrow> string \<Rightarrow> string \<Rightarrow> string \<Rightarrow> string \<Rightarrow> bytes \<Rightarrow> bytes result \<Rightarrow> 'e \<Rightarrow> go_error option \<times> 'e" where
  "add_new M check_failed exists_msg encode_failed store_failed key encoding env =
     (case Db_Exists M key env of
        Inl err \<Rightarrow> (Some (wrap_error check_failed err), env)
      | Inr found \<Rightarrow>
          if found then (Some (ErrorS exists_msg), env)
          else
            (case encoding of
               Inl err \<Rightarrow> (Some (wrap_error encode_failed err), env)
             | Inr encoded \<Rightarrow>
                 (let (err, env) = Db_Set M key encoded env in (map_option (wrap_error store_failed) err, env))))"

definition get_decoded ::
  "'e mdbx \<Rightarrow> (bytes \<Rightarrow> 'a result) \<Rightarrow> string \<Rightarrow> string \<Rightarrow> bytes \<Rightarrow> 'e \<Rightarrow> 'a result" where
  "get_decoded M dec get_failed decode_failed key env =
     bindE (wrapE get_failed (Db_Get M key env)) (\<lambda>data. wrapE decode_failed (dec data))"

fun collect :: "'e mdbx \<Rightarrow> (bytes \<Rightarrow> 'a result) \<Rightarrow> bytes list \<Rightarrow> 'e \<Rightarrow> 'a list result" where
  "collect M dec [] env = Inr []"
| "collect M dec (key # keys) env =
     (case Db_Get M key env of
        Inl _ \<Rightarrow> collect M dec keys env
      | Inr data \<Rightarrow>
          (case dec data of
             Inl err \<Rightarrow> if is_panic err then Inl err else collect M dec keys env
           | Inr x \<Rightarrow> bindE (collect M dec keys env) (\<lambda>xs. Inr (x # xs))))"

definition list_decoded ::
  "'e mdbx \<Rightarrow> (nat \<Rightarrow> go_error option) \<Rightarrow> (bytes \<Rightarrow> 'a result) \<Rightarrow> string \<Rightarrow> string \<Rightarrow> 'e \<Rightarrow> 'a list result option" where
  "list_decoded M ctx_done dec list_failed pre env =
     map_option (\<lambda>keys. bindE (wrapE list_failed keys) (\<lambda>keys. collect M dec keys env))
       (Db_ListKeysWithPrefix M ctx_done pre env)"

definition Manager_AddProposal :: "s2_lib \<Rightarrow> 'e mdbx \<Rightarrow> proposal \<Rightarrow> 'e \<Rightarrow> go_error option \<times> 'e" where
  "Manager_AddProposal C M p =
     add_new M ''failed to check proposal existence'' ''proposal with ID %s already exists''
       ''failed to encode proposal'' ''failed to store proposal'' (proposal_key (pp_ID p)) (Proposal_Encode C p)"

definition Manager_GetProposal :: "s2_lib \<Rightarrow> 'e mdbx \<Rightarrow> string \<Rightarrow> 'e \<Rightarrow> proposal result" where
  "Manager_GetProposal C M i =
     get_decoded M (DecodeProposal C) ''failed to get proposal'' ''failed to decode proposal'' (proposal_key i)"

definition Manager_ListProposals ::
  "s2_lib \<Rightarrow> 'e mdbx \<Rightarrow> (nat \<Rightarrow> go_error option) \<Rightarrow> 'e \<Rightarrow> proposal list result option" where
  "Manager_ListProposals C M ctx_done =
     list_decoded M ctx_done (DecodeProposal C) ''failed to list proposal keys'' ''proposal:''"

definition Manager_AddPeer :: "s2_lib \<Rightarrow> 'e mdbx \<Rightarrow> state_peer \<Rightarrow> 'e \<Rightarrow> go_error option \<times> 'e" where
  "Manager_AddPeer C M p =
     add_new M ''failed to check peer existence'' ''peer with ID %s already exists''
       ''failed to encode peer'' ''failed to store peer'' (peer_key (pe_ID p)) (Peer_Encode C p)"

definition Manager_GetPeer :: "s2_lib \<Rightarrow> 'e mdbx \<Rightarrow> string \<Rightarrow> 'e \<Rightarrow> state_peer result" where
  "Manager_GetPeer C M i =
     get_decoded M (DecodePeer C) ''failed to get peer'' ''failed to decode peer'' (peer_key i)"

definition Manager_RemovePeer :: "s2_lib \<Rightarrow> 'e mdbx \<Rightarrow> string \<Rightarrow> int64 \<Rightarrow> 'e \<Rightarrow> go_error option \<times> 'e" where
  "Manager_RemovePeer C M i leftAt env =
     (case Manager_GetPeer C M i env of
        Inl err \<Rightarrow> (Some err, env)
      | Inr p \<Rightarrow>
          (case pe_LeftAt p of
             Some _ \<Rightarrow> (Some (ErrorS ''peer %s is already removed''), env)
           | None \<Rightarrow>
               (case Peer_Encode C (p\<lparr>pe_LeftAt := Some leftAt\<rparr>) of
                  Inl err \<Rightarrow> (Some (wrap_error ''failed to encode updated peer'' err), env)
                | Inr encoded \<Rightarrow>
                    (let (err, env) = Db_Set M (peer_key i) encoded env
                     in (map_option (wrap_error ''failed to update peer'') err, env)))))"

definition Manager_ListPeers ::
  "s2_lib \<Rightarrow> 'e mdbx \<Rightarrow> (nat \<Rightarrow> go_error option) \<Rightarrow> 'e \<Rightarrow> state_peer list result option" where
  "Manager_ListPeers C M ctx_done env =
     map_option (\<lambda>r. bindE r (\<lambda>ps. Inr (filter (\<lambda>p. pe_LeftAt p = None) ps)))
       (list_decoded M ctx_done (DecodePeer C) ''failed to list peer keys'' ''peer:'' env)"

definition Manager_RecordLatency :: "s2_lib \<Rightarrow> 'e mdbx \<Rightarrow> latency_record \<Rightarrow> 'e \<Rightarrow> go_error option \<times> 'e" where
  "Manager_RecordLatency C M lr env =
     (case LatencyRecord_Encode C lr of
        Inl err \<Rightarrow> (Some (wrap_error ''failed to encode latency record'' err), env)
      | Inr encoded \<Rightarrow>
          (let (err, env) = Db_Set M (latency_key (lr_PeerID lr) (lr_Timestamp lr)) encoded env
           in (map_option (wrap_error ''failed to store latency record'') err, env)))"

definition Manager_GetLatencyRecords ::
  "s2_lib \<Rightarrow> 'e mdbx \<Rightarrow> (nat \<Rightarrow> go_error option) \<Rightarrow> string \<Rightarrow> 'e \<Rightarrow> latency_record list result option" where
  "Manager_GetLatencyRecords C M ctx_done peerID =
     list_decoded M ctx_done (DecodeLatencyRecord C) ''failed to list latency keys'' (''latency:'' @ peerID @ '':'')"

definition Manager_AddFinalization :: "s2_lib \<Rightarrow> 'e mdbx \<Rightarrow> finalization \<Rightarrow> 'e \<Rightarrow> go_error option \<times> 'e" where
  "Manager_AddFinalization C M f =
     add_new M ''failed to check finalization existence'' ''finalization for block hash %x already exists''
       ''failed to encode finalization'' ''failed to store finalization'' (finalization_key (fz_BlockHash f))
       (Finalization_Encode C f)"

definition Manager_GetFinalization :: "s2_lib \<Rightarrow> 'e mdbx \<Rightarrow> bytes \<Rightarrow> 'e \<Rightarrow> finalization result" where
  "Manager_GetFinalization C M blockHash =
     get_decoded M (DecodeFinalization C) ''failed to get finalization'' ''failed to decode finalization''
       (finalization_key blockHash)"

definition Manager_ListFinalizations ::
  "s2_lib \<Rightarrow> 'e mdbx \<Rightarrow> (nat \<Rightarrow> go_error option) \<Rightarrow> 'e \<Rightarrow> finalization list result option" where
  "Manager_ListFinalizations C M ctx_done =
     list_decoded M ctx_done (DecodeFinalization C) ''failed to list finalization keys'' ''finalization:''"

section \<open>Round trips\<close>

lemma sint_uint32_len: "length xs < 2 ^ 31 \<Longrightarrow> \<not> sint (uint32_len xs) < 0"
  by (simp add: uint32_len_def signed_of_nat signed_take_bit_int_eq_self)

lemma read_block_write [codec]:
  "length bs < 2 ^ 31 \<Longrightarrow> rest \<noteq> [] \<Longrightarrow> read_block (write_block bs @ rest) = Inr (bs, rest)"
  by (simp add: read_block_def write_block_def codec sint_uint32_len)

lemma length_write_block [simp]: "length (write_block bs) = 4 + length bs"
  by (simp add: write_block_def)

lemma nonempty_parts [simp]: "write_block bs \<noteq> []" "LE_PutUint64 w \<noteq> []"
  by (metis length_write_block length_0_conv add_is_0 zero_neq_numeral,
      metis length_LE_PutUint64 length_0_conv zero_neq_numeral)

locale s2_codec =
  fixes C :: s2_lib
  assumes s2: "s2_laws C"
begin

lemma decompress: "length bs < 2 ^ 31 \<Longrightarrow> s2_Decode C (s2_Encode C bs) = Inr bs"
  using s2 by (simp add: s2_laws_def)

end

text \<open>
  A record fits when its raw form is below the size limit of the compression, and so of every length field; for a
  peer with room for the time it leaves.
\<close>

definition proposal_fits :: "proposal \<Rightarrow> bool" where "proposal_fits p \<longleftrightarrow> length (proposal_raw p) < 2 ^ 31"
definition peer_fits :: "state_peer \<Rightarrow> bool" where
  "peer_fits p \<longleftrightarrow> length (peer_raw (p\<lparr>pe_LeftAt := Some 0\<rparr>)) < 2 ^ 31"
definition latency_fits :: "latency_record \<Rightarrow> bool" where "latency_fits p \<longleftrightarrow> length (latency_raw p) < 2 ^ 31"
definition finalization_fits :: "finalization \<Rightarrow> bool" where
  "finalization_fits p \<longleftrightarrow> length (finalization_raw p) < 2 ^ 31"

lemmas fits_defs = proposal_fits_def peer_fits_def latency_fits_def finalization_fits_def

sublocale s2_codec \<subseteq> proposal: wire_codec "Proposal_Encode C" "DecodeProposal C" proposal_fits "\<lambda>p. p"
proof
  fix p bs assume "proposal_fits p" "Proposal_Encode C p = Inr bs"
  then show "DecodeProposal C bs = Inr p"
    using decompress [of "proposal_raw p"]
    by (auto simp: proposal_fits_def Proposal_Encode_def DecodeProposal_def proposal_raw_def codec)
qed (simp_all add: Proposal_Encode_def)

sublocale s2_codec \<subseteq> peer: wire_codec "Peer_Encode C" "DecodePeer C" peer_fits "\<lambda>p. p"
proof
  fix p bs assume p: "peer_fits p" "Peer_Encode C p = Inr bs"
  show "DecodePeer C bs = Inr p"
  proof (cases "pe_LeftAt p")
    case None
    with p show ?thesis using decompress [of "peer_raw p"]
      by (auto simp: peer_fits_def Peer_Encode_def DecodePeer_def peer_raw_def codec)
  next
    case (Some t)
    with p show ?thesis using decompress [of "peer_raw p"]
      by (auto simp: peer_fits_def Peer_Encode_def DecodePeer_def peer_raw_def codec)
  qed
qed (simp_all add: Peer_Encode_def)

sublocale s2_codec \<subseteq> latency: wire_codec "LatencyRecord_Encode C" "DecodeLatencyRecord C" latency_fits "\<lambda>p. p"
proof
  fix p bs assume "latency_fits p" "LatencyRecord_Encode C p = Inr bs"
  then show "DecodeLatencyRecord C bs = Inr p"
    using decompress [of "latency_raw p"]
    by (auto simp: latency_fits_def LatencyRecord_Encode_def DecodeLatencyRecord_def latency_raw_def codec)
qed (simp_all add: LatencyRecord_Encode_def)

sublocale s2_codec \<subseteq> finalization: wire_codec "Finalization_Encode C" "DecodeFinalization C" finalization_fits "\<lambda>p. p"
proof
  fix p bs assume "finalization_fits p" "Finalization_Encode C p = Inr bs"
  then show "DecodeFinalization C bs = Inr p"
    using decompress [of "finalization_raw p"]
    by (auto simp: finalization_fits_def Finalization_Encode_def DecodeFinalization_def finalization_raw_def codec)
qed (simp_all add: Finalization_Encode_def)

context s2_codec
begin

lemmas codecs = proposal.wire_codec_axioms peer.wire_codec_axioms latency.wire_codec_axioms finalization.wire_codec_axioms

end

lemmas s2_codecs = s2_codec.codecs [OF s2_codec.intro]

definition no_compression :: s2_lib where
  "no_compression = \<lparr>s2_Encode = (\<lambda>bs. bs), s2_Decode = Inr\<rparr>"

interpretation plain_s2: s2_codec no_compression
  by unfold_locales (simp add: s2_laws_def no_compression_def)

section \<open>Tables\<close>

text \<open>
  What the three keyed tables (proposals, peers, finalizations) have in common: records with an identifier, stored
  under a key that the identifier determines and that begins with the prefix of the table.
\<close>

locale record_table = wire_codec enc dec fits "\<lambda>x. x"
  for enc :: "'a \<Rightarrow> bytes result" and dec :: "bytes \<Rightarrow> 'a result" and fits :: "'a \<Rightarrow> bool" +
  fixes key :: "'k \<Rightarrow> bytes" and ident :: "'a \<Rightarrow> 'k" and pre :: string
  assumes key_inj: "key a = key b \<longleftrightarrow> a = b"
    and key_pre: "prefix (go_bytes pre) (key a)"
begin

definition table_ok :: "(bytes \<Rightarrow> bytes option) \<Rightarrow> bool" where
  "table_ok m \<longleftrightarrow> (\<forall>k v. m k = Some v \<and> prefix (go_bytes pre) k \<longrightarrow> (\<exists>x. fits x \<and> enc x = Inr v \<and> k = key (ident x)))"

lemma table_ok_upd: "table_ok m \<Longrightarrow> fits x \<Longrightarrow> enc x = Inr v \<Longrightarrow> table_ok (m(key (ident x) \<mapsto> v))"
  by (auto simp: table_ok_def)

lemma table_ok_other: "table_ok m \<Longrightarrow> \<not> prefix (go_bytes pre) k \<Longrightarrow> table_ok (m(k \<mapsto> v))"
  by (auto simp: table_ok_def)

lemma stored_read_back:
  assumes "mdbx_laws M db" "db e (key (ident x)) = Some v" "fits x" "enc x = Inr v"
  shows "get_decoded M dec g d (key (ident x)) e = Inr x"
  using assms dec_enc [of x v] by (simp add: get_decoded_def Db_Get_view)

lemma collect_exact:
  assumes "mdbx_laws M db" "\<And>k. k \<in> set ks \<Longrightarrow> \<exists>x v. db e k = Some v \<and> fits x \<and> enc x = Inr v \<and> k = key (ident x)"
  shows "\<exists>xs. collect M dec ks e = Inr xs \<and> map (key \<circ> ident) xs = ks \<and>
    (\<forall>x \<in> set xs. \<exists>v. db e (key (ident x)) = Some v \<and> fits x \<and> enc x = Inr v)"
  using assms(2)
proof (induction ks)
  case (Cons k ks)
  then obtain xs where xs: "collect M dec ks e = Inr xs" "map (key \<circ> ident) xs = ks"
    "\<forall>x \<in> set xs. \<exists>v. db e (key (ident x)) = Some v \<and> fits x \<and> enc x = Inr v" by auto
  obtain x v where x: "db e k = Some v" "fits x" "enc x = Inr v" "k = key (ident x)" using Cons.prems [of k] by auto
  then have "dec v = Inr x" using dec_enc by blast
  with xs x assms(1) show ?case by (intro exI [of _ "x # xs"]) (auto simp: Db_Get_view)
qed simp

lemma list_exact:
  assumes "mdbx_laws M db" "cursor_laws M db" "\<And>n. ctx_done n = None" "table_ok (db e)" "finite (dom (db e))"
  shows "\<exists>xs. list_decoded M ctx_done dec msg pre e = Some (Inr xs) \<and> distinct (map ident xs) \<and>
    set xs = {x. fits x \<and> get_decoded M dec g d (key (ident x)) e = Inr x}"
proof -
  let ?ks = "filter (prefix (go_bytes pre)) (sorted_list_of_set (dom (db e)))"
  have in_ks: "k \<in> set ?ks \<longleftrightarrow> prefix (go_bytes pre) k \<and> (\<exists>v. db e k = Some v)" for k
    using assms(5) by auto
  have each: "\<exists>x v. db e k = Some v \<and> fits x \<and> enc x = Inr v \<and> k = key (ident x)" if "k \<in> set ?ks" for k
    using assms(4) that unfolding in_ks table_ok_def by blast
  obtain xs where xs: "collect M dec ?ks e = Inr xs" "map (key \<circ> ident) xs = ?ks"
    "\<forall>x \<in> set xs. \<exists>v. db e (key (ident x)) = Some v \<and> fits x \<and> enc x = Inr v"
    using collect_exact [OF assms(1) each] by blast
  have "list_decoded M ctx_done dec msg pre e = Some (Inr xs)"
    using keys_with_prefix [OF assms(2,3)] xs(1) by (simp add: list_decoded_def)
  moreover have "distinct (map (key \<circ> ident) xs)" unfolding xs(2) by simp
  then have "distinct (map ident xs)" by (simp add: distinct_map inj_on_def)
  moreover have "set xs = {x. fits x \<and> get_decoded M dec g d (key (ident x)) e = Inr x}"
  proof (intro set_eqI iffI)
    fix x assume "x \<in> set xs"
    with xs(3) obtain v where "db e (key (ident x)) = Some v" "fits x" "enc x = Inr v" by blast
    then show "x \<in> {x. fits x \<and> get_decoded M dec g d (key (ident x)) e = Inr x}"
      using stored_read_back [OF assms(1)] by blast
  next
    fix x assume x: "x \<in> {x. fits x \<and> get_decoded M dec g d (key (ident x)) e = Inr x}"
    then obtain v where v: "db e (key (ident x)) = Some v" "dec v = Inr x"
      using assms(1) by (auto simp: get_decoded_def bindE_eq_Inr Db_Get_view split: option.splits)
    then have "key (ident x) \<in> set ?ks" unfolding in_ks using key_pre by blast
    then have "key (ident x) \<in> (key \<circ> ident) ` set xs" using arg_cong [OF xs(2), of set] by simp
    then obtain y where y: "y \<in> set xs" "key (ident x) = key (ident y)" by auto
    from xs(3) y(1) obtain w where w: "fits y" "enc y = Inr w" "db e (key (ident y)) = Some w" by blast
    have "w = v" using w(3) y(2) v(1) by simp
    moreover have "dec w = Inr y" using w(1,2) by (rule dec_enc)
    ultimately show "x \<in> set xs" using v(2) y(1) by simp
  qed
  ultimately show ?thesis by blast
qed

end

lemmas key_defs = proposal_key_def peer_key_def latency_key_def finalization_key_def

sublocale s2_codec \<subseteq> proposals: record_table "Proposal_Encode C" "DecodeProposal C" proposal_fits
    proposal_key pp_ID "''proposal:''"
  by unfold_locales (simp_all add: key_defs go_bytes_inject prefix_go_bytes)

sublocale s2_codec \<subseteq> peers: record_table "Peer_Encode C" "DecodePeer C" peer_fits peer_key pe_ID "''peer:''"
  by unfold_locales (simp_all add: key_defs go_bytes_inject prefix_go_bytes)

sublocale s2_codec \<subseteq> finalizations: record_table "Finalization_Encode C" "DecodeFinalization C" finalization_fits
    finalization_key fz_BlockHash "''finalization:''"
  by unfold_locales (simp_all add: key_defs go_bytes_inject prefix_go_bytes)

section \<open>Runs\<close>

text \<open>Any sequence of calls that change the store, with records that fit.\<close>

inductive state_step :: "s2_lib \<Rightarrow> 'e mdbx \<Rightarrow> 'e \<Rightarrow> 'e \<Rightarrow> bool" for C M where
  add_proposal: "proposal_fits p \<Longrightarrow> Manager_AddProposal C M p e = (r, e') \<Longrightarrow> state_step C M e e'"
| add_peer: "peer_fits pe \<Longrightarrow> Manager_AddPeer C M pe e = (r, e') \<Longrightarrow> state_step C M e e'"
| remove_peer: "Manager_RemovePeer C M i leftAt e = (r, e') \<Longrightarrow> state_step C M e e'"
| record_latency: "latency_fits lr \<Longrightarrow> Manager_RecordLatency C M lr e = (r, e') \<Longrightarrow> state_step C M e e'"
| add_finalization: "finalization_fits f \<Longrightarrow> Manager_AddFinalization C M f e = (r, e') \<Longrightarrow> state_step C M e e'"

text \<open>A step leaves the database alone or writes one key; which keys can be written over is the point.\<close>

lemma add_new_effect:
  assumes "mdbx_laws M db" "add_new M a b c d k (Inr v) e = (r, e')"
  shows "db e' = db e \<and> r \<noteq> None \<or> db e k = None \<and> db e' = (db e)(k \<mapsto> v) \<and> r = None"
  using assms(2) Db_Set_view [OF assms(1), of k v e] Db_Exists_view [OF assms(1), of k e]
  by (auto simp: add_new_def Let_def split: prod.splits if_splits)

lemma RemovePeer_effect:
  assumes "mdbx_laws M db" "Manager_RemovePeer C M i leftAt e = (r, e')"
  shows "db e' = db e \<and> r \<noteq> None \<or>
    (\<exists>p. Manager_GetPeer C M i e = Inr p \<and> pe_LeftAt p = None \<and> r = None \<and>
       db e' = (db e)(peer_key i \<mapsto> s2_Encode C (peer_raw (p\<lparr>pe_LeftAt := Some leftAt\<rparr>))))"
  using assms(2)
  by (auto simp: Manager_RemovePeer_def Peer_Encode_def Let_def split: sum.splits option.splits prod.splits if_splits
      dest!: Db_Set_effect [OF assms(1)])

lemma RecordLatency_effect:
  assumes "mdbx_laws M db" "Manager_RecordLatency C M lr e = (r, e')"
  shows "db e' = db e \<or> db e' = (db e)(latency_key (lr_PeerID lr) (lr_Timestamp lr) \<mapsto> s2_Encode C (latency_raw lr))"
  using assms(2)
  by (auto simp: Manager_RecordLatency_def LatencyRecord_Encode_def Let_def split: prod.splits if_splits
      dest!: Db_Set_effect [OF assms(1)])

lemmas add_defs = Manager_AddProposal_def Manager_AddPeer_def Manager_AddFinalization_def
  Proposal_Encode_def Peer_Encode_def Finalization_Encode_def

text \<open>What is stored outside the tables of peers and latencies is never written again.\<close>

lemma state_step_keeps:
  assumes "mdbx_laws M db" "state_step C M e e'" "db e k = Some v"
    "\<not> prefix (go_bytes ''peer:'') k" "\<not> prefix (go_bytes ''latency:'') k"
  shows "db e' k = Some v"
  using assms(2)
proof cases
  case (remove_peer i leftAt r)
  then show ?thesis using RemovePeer_effect [OF assms(1) remove_peer] assms(3,4)
    by (auto simp: peer_key_def prefix_go_bytes)
next
  case (record_latency lr r)
  then show ?thesis using RecordLatency_effect [OF assms(1) record_latency(2)] assms(3,5)
    by (auto simp: latency_key_def prefix_go_bytes)
qed (use assms(3) in \<open>auto simp: add_defs dest!: add_new_effect [OF assms(1)]\<close>)

lemma state_run_keeps:
  assumes "mdbx_laws M db" "(state_step C M)\<^sup>*\<^sup>* e e'" "db e k = Some v"
    "\<not> prefix (go_bytes ''peer:'') k" "\<not> prefix (go_bytes ''latency:'') k"
  shows "db e' k = Some v"
  using assms(2,3) by (induction rule: rtranclp_induct) (auto intro: state_step_keeps [OF assms(1) _ _ assms(4,5)])

context s2_codec
begin

definition tables_ok :: "(bytes \<Rightarrow> bytes option) \<Rightarrow> bool" where
  "tables_ok m \<longleftrightarrow> proposals.table_ok m \<and> peers.table_ok m \<and> finalizations.table_ok m"

lemma tables_ok_proposal: "tables_ok m \<Longrightarrow> proposal_fits p \<Longrightarrow> tables_ok (m(proposal_key (pp_ID p) \<mapsto> s2_Encode C (proposal_raw p)))"
  unfolding tables_ok_def
  using proposals.table_ok_upd [of m p] peers.table_ok_other [of m] finalizations.table_ok_other [of m]
  by (simp add: Proposal_Encode_def key_defs prefix_go_bytes)

lemma tables_ok_peer: "tables_ok m \<Longrightarrow> peer_fits p \<Longrightarrow> tables_ok (m(peer_key (pe_ID p) \<mapsto> s2_Encode C (peer_raw p)))"
  unfolding tables_ok_def
  using peers.table_ok_upd [of m p] proposals.table_ok_other [of m] finalizations.table_ok_other [of m]
  by (simp add: Peer_Encode_def key_defs prefix_go_bytes)

lemma tables_ok_finalization:
  "tables_ok m \<Longrightarrow> finalization_fits f \<Longrightarrow> tables_ok (m(finalization_key (fz_BlockHash f) \<mapsto> s2_Encode C (finalization_raw f)))"
  unfolding tables_ok_def
  using finalizations.table_ok_upd [of m f] proposals.table_ok_other [of m] peers.table_ok_other [of m]
  by (simp add: Finalization_Encode_def key_defs prefix_go_bytes)

lemma tables_ok_latency: "tables_ok m \<Longrightarrow> tables_ok (m(latency_key i t \<mapsto> v))"
  unfolding tables_ok_def
  using finalizations.table_ok_other [of m] proposals.table_ok_other [of m] peers.table_ok_other [of m]
  by (simp add: key_defs prefix_go_bytes)

lemma stored_peer:
  assumes "mdbx_laws M db" "tables_ok (db e)" "Manager_GetPeer C M i e = Inr p"
  shows "pe_ID p = i \<and> peer_fits p"
proof -
  obtain v where v: "db e (peer_key i) = Some v" "DecodePeer C v = Inr p"
    using assms(1,3) by (auto simp: Manager_GetPeer_def get_decoded_def bindE_eq_Inr Db_Get_view split: option.splits)
  then obtain q where q: "peer_fits q" "Peer_Encode C q = Inr v" "peer_key i = peer_key (pe_ID q)"
    using assms(2) unfolding tables_ok_def peers.table_ok_def by (metis peers.key_pre)
  then have "DecodePeer C v = Inr q" using peer.dec_enc by blast
  with v q show ?thesis by (simp add: peers.key_inj)
qed

lemma tables_ok_step:
  assumes "mdbx_laws M db" "tables_ok (db e)" "state_step C M e e'"
  shows "tables_ok (db e')"
  using assms(3)
proof cases
  case (add_proposal p r)
  then show ?thesis using assms(2) tables_ok_proposal by (auto simp: add_defs dest!: add_new_effect [OF assms(1)])
next
  case (add_peer p r)
  then show ?thesis using assms(2) tables_ok_peer by (auto simp: add_defs dest!: add_new_effect [OF assms(1)])
next
  case (remove_peer i leftAt r)
  show ?thesis
  proof (cases "db e' = db e")
    case False
    then obtain p where p: "Manager_GetPeer C M i e = Inr p"
      "db e' = (db e)(peer_key i \<mapsto> s2_Encode C (peer_raw (p\<lparr>pe_LeftAt := Some leftAt\<rparr>)))"
      using RemovePeer_effect [OF assms(1) remove_peer] by auto
    have "pe_ID p = i" "peer_fits p" using stored_peer [OF assms(1,2) p(1)] by auto
    then have "peer_fits (p\<lparr>pe_LeftAt := Some leftAt\<rparr>)" by (simp add: peer_fits_def peer_raw_def)
    then show ?thesis using tables_ok_peer [OF assms(2), of "p\<lparr>pe_LeftAt := Some leftAt\<rparr>"] \<open>pe_ID p = i\<close>
      by (simp add: p(2))
  qed (use assms(2) in simp)
next
  case (record_latency lr r)
  then show ?thesis using assms(2) tables_ok_latency RecordLatency_effect [OF assms(1) record_latency(2)] by auto
next
  case (add_finalization f r)
  then show ?thesis using assms(2) tables_ok_finalization by (auto simp: add_defs dest!: add_new_effect [OF assms(1)])
qed

lemma finite_step:
  assumes "mdbx_laws M db" "finite (dom (db e))" "state_step C M e e'"
  shows "finite (dom (db e'))"
  using assms(3)
proof cases
  case (remove_peer i leftAt r)
  then show ?thesis using RemovePeer_effect [OF assms(1) remove_peer] assms(2) by auto
next
  case (record_latency lr r)
  then show ?thesis using RecordLatency_effect [OF assms(1) record_latency(2)] assms(2) by auto
qed (use assms(2) in \<open>auto simp: add_defs dest!: add_new_effect [OF assms(1)]\<close>)

lemma tables_ok_run:
  assumes "mdbx_laws M db" "(state_step C M)\<^sup>*\<^sup>* e e'" "db e = Map.empty"
  shows "tables_ok (db e') \<and> finite (dom (db e'))"
  using assms(2)
proof (induction rule: rtranclp_induct)
  case base
  then show ?case
    by (simp add: assms(3) tables_ok_def proposals.table_ok_def peers.table_ok_def finalizations.table_ok_def)
qed (use tables_ok_step [OF assms(1)] finite_step [OF assms(1)] in blast)

lemma proposals_listed:
  assumes "mdbx_laws M db" "cursor_laws M db" "\<And>n. ctx_done n = None" "(state_step C M)\<^sup>*\<^sup>* e0 e" "db e0 = Map.empty"
  shows "\<exists>ps. Manager_ListProposals C M ctx_done e = Some (Inr ps) \<and> distinct (map pp_ID ps) \<and>
    set ps = {p. proposal_fits p \<and> Manager_GetProposal C M (pp_ID p) e = Inr p}"
  using tables_ok_run [OF assms(1,4,5)] proposals.list_exact [where ctx_done = ctx_done, OF assms(1-3)]
  unfolding Manager_ListProposals_def Manager_GetProposal_def tables_ok_def by blast

lemma finalizations_listed:
  assumes "mdbx_laws M db" "cursor_laws M db" "\<And>n. ctx_done n = None" "(state_step C M)\<^sup>*\<^sup>* e0 e" "db e0 = Map.empty"
  shows "\<exists>fs. Manager_ListFinalizations C M ctx_done e = Some (Inr fs) \<and> distinct (map fz_BlockHash fs) \<and>
    set fs = {f. finalization_fits f \<and> Manager_GetFinalization C M (fz_BlockHash f) e = Inr f}"
  using tables_ok_run [OF assms(1,4,5)] finalizations.list_exact [where ctx_done = ctx_done, OF assms(1-3)]
  unfolding Manager_ListFinalizations_def Manager_GetFinalization_def tables_ok_def by blast

lemma peers_listed:
  assumes "mdbx_laws M db" "cursor_laws M db" "\<And>n. ctx_done n = None" "(state_step C M)\<^sup>*\<^sup>* e0 e" "db e0 = Map.empty"
  shows "\<exists>ps. Manager_ListPeers C M ctx_done e = Some (Inr ps) \<and> distinct (map pe_ID ps) \<and>
    set ps = {p. peer_fits p \<and> pe_LeftAt p = None \<and> Manager_GetPeer C M (pe_ID p) e = Inr p}"
proof -
  have ok: "peers.table_ok (db e)" "finite (dom (db e))"
    using tables_ok_run [OF assms(1,4,5)] by (simp_all add: tables_ok_def)
  obtain qs where qs: "list_decoded M ctx_done (DecodePeer C) ''failed to list peer keys'' ''peer:'' e = Some (Inr qs)"
    "distinct (map pe_ID qs)" "set qs = {p. peer_fits p \<and> Manager_GetPeer C M (pe_ID p) e = Inr p}"
    using peers.list_exact [where ctx_done = ctx_done, OF assms(1-3) ok] unfolding Manager_GetPeer_def by blast
  from qs show ?thesis
    by (intro exI [of _ "filter (\<lambda>p. pe_LeftAt p = None) qs"])
      (auto simp: Manager_ListPeers_def distinct_map inj_on_def)
qed

lemma proposal_added:
  assumes "mdbx_laws M db" "proposal_fits p" "Manager_AddProposal C M p e = (None, e')"
  shows "Manager_GetProposal C M (pp_ID p) e' = Inr p"
proof -
  have "db e' (proposal_key (pp_ID p)) = Some (s2_Encode C (proposal_raw p))"
    using assms(3) by (auto simp: add_defs dest!: add_new_effect [OF assms(1)])
  from proposals.stored_read_back [OF assms(1) this assms(2)] show ?thesis
    by (simp add: Manager_GetProposal_def Proposal_Encode_def)
qed

lemma peer_removed:
  assumes "mdbx_laws M db" "tables_ok (db e)" "Manager_RemovePeer C M i leftAt e = (None, e')"
  shows "\<exists>p. Manager_GetPeer C M i e = Inr p \<and> pe_LeftAt p = None \<and>
    Manager_GetPeer C M i e' = Inr (p\<lparr>pe_LeftAt := Some leftAt\<rparr>)"
proof -
  obtain p where p: "Manager_GetPeer C M i e = Inr p" "pe_LeftAt p = None"
    "db e' = (db e)(peer_key i \<mapsto> s2_Encode C (peer_raw (p\<lparr>pe_LeftAt := Some leftAt\<rparr>)))"
    using RemovePeer_effect [OF assms(1,3)] by auto
  let ?q = "p\<lparr>pe_LeftAt := Some leftAt\<rparr>"
  have q: "pe_ID ?q = i" "peer_fits ?q"
    using stored_peer [OF assms(1,2) p(1)] by (auto simp: peer_fits_def peer_raw_def)
  have "db e' (peer_key (pe_ID ?q)) = Some (s2_Encode C (peer_raw ?q))" using q(1) by (simp add: p(3))
  from peers.stored_read_back [OF assms(1) this q(2)] q(1) have "Manager_GetPeer C M i e' = Inr ?q"
    by (simp add: Manager_GetPeer_def Peer_Encode_def)
  with p show ?thesis by blast
qed

end

section \<open>Properties\<close>

text \<open>
  C15: Proposals and finalizations are immutable: what \<open>AddProposal\<close> has stored is returned by \<open>GetProposal\<close>, unchanged,
  after every sequence of calls of the manager, and a finalization that can be read stays the same as well.
\<close>

theorem stored_records_immutable:
  assumes "s2_laws C" "mdbx_laws M db"
    and "proposal_fits p" "Manager_AddProposal C M p e = (None, e')" "(state_step C M)\<^sup>*\<^sup>* e' e''"
  shows "Manager_GetProposal C M (pp_ID p) e'' = Inr p \<and>
    (\<forall>h f. Manager_GetFinalization C M h e' = Inr f \<longrightarrow> Manager_GetFinalization C M h e'' = Inr f)"
proof (intro conjI allI impI)
  have keep: "db e'' (proposal_key i) = Some v" if "db e' (proposal_key i) = Some v" for i v
    using state_run_keeps [OF assms(2,5) that] by (simp add: key_defs prefix_go_bytes)
  have keep': "db e'' (finalization_key h) = Some v" if "db e' (finalization_key h) = Some v" for h v
    using state_run_keeps [OF assms(2,5) that] by (simp add: key_defs prefix_go_bytes)
  have "Manager_GetProposal C M (pp_ID p) e' = Inr p"
    by (rule s2_codec.proposal_added [OF s2_codec.intro [OF assms(1)] assms(2-4)])
  then show "Manager_GetProposal C M (pp_ID p) e'' = Inr p"
    by (auto simp: Manager_GetProposal_def get_decoded_def bindE_eq_Inr Db_Get_view [OF assms(2)]
        split: option.splits dest: keep)
  show "Manager_GetFinalization C M h e'' = Inr f" if "Manager_GetFinalization C M h e' = Inr f" for h f
    using that by (auto simp: Manager_GetFinalization_def get_decoded_def bindE_eq_Inr Db_Get_view [OF assms(2)]
        split: option.splits dest: keep')
qed

definition small_proposal :: proposal where
  "small_proposal = \<lparr>pp_ID = ''p'', pp_BlockHash = [1, 2], pp_Content = [], pp_Timestamp = 7\<rparr>"

lemma small_proposal_added:
  "proposal_fits small_proposal"
  "Manager_AddProposal no_compression mem_mdbx small_proposal fmempty =
    (None, fmupd (proposal_key ''p'') (proposal_raw small_proposal) fmempty)"
  by (simp_all add: proposal_fits_def proposal_raw_def small_proposal_def add_defs add_new_def Db_Exists_def Db_Set_def
      mem_mdbx_def no_compression_def mdbx_ErrNotFound_def)

theorem stored_records_immutable_witness:
  "Manager_GetProposal no_compression mem_mdbx ''p'' (fmupd (proposal_key ''p'') (proposal_raw small_proposal) fmempty) =
    Inr small_proposal"
  using stored_records_immutable [OF plain_s2.s2 mem_mdbx_laws small_proposal_added rtranclp.rtrancl_refl]
  by (simp add: small_proposal_def)

text \<open>
  The listings are exact.  In every store built from an empty one, \<open>ListProposals\<close> returns and gives every proposal
  that can be got by its ID, each once and nothing else, \<open>ListFinalizations\<close> the same, and \<open>ListPeers\<close> exactly the
  peers that have not left.
\<close>

theorem listings_exact:
  assumes "s2_laws C" "mdbx_laws M db" "cursor_laws M db" "\<And>n. ctx_done n = None"
    and "db e0 = Map.empty" "(state_step C M)\<^sup>*\<^sup>* e0 e"
  shows "(\<exists>ps. Manager_ListProposals C M ctx_done e = Some (Inr ps) \<and> distinct (map pp_ID ps) \<and>
      set ps = {p. proposal_fits p \<and> Manager_GetProposal C M (pp_ID p) e = Inr p}) \<and>
    (\<exists>fs. Manager_ListFinalizations C M ctx_done e = Some (Inr fs) \<and> distinct (map fz_BlockHash fs) \<and>
      set fs = {f. finalization_fits f \<and> Manager_GetFinalization C M (fz_BlockHash f) e = Inr f}) \<and>
    (\<exists>ps. Manager_ListPeers C M ctx_done e = Some (Inr ps) \<and> distinct (map pe_ID ps) \<and>
      set ps = {p. peer_fits p \<and> pe_LeftAt p = None \<and> Manager_GetPeer C M (pe_ID p) e = Inr p})"
proof (intro conjI)
  note lib = s2_codec.intro [OF assms(1)]
  show "\<exists>ps. Manager_ListProposals C M ctx_done e = Some (Inr ps) \<and> distinct (map pp_ID ps) \<and>
      set ps = {p. proposal_fits p \<and> Manager_GetProposal C M (pp_ID p) e = Inr p}"
    by (rule s2_codec.proposals_listed [OF lib assms(2-4,6,5)])
  show "\<exists>fs. Manager_ListFinalizations C M ctx_done e = Some (Inr fs) \<and> distinct (map fz_BlockHash fs) \<and>
      set fs = {f. finalization_fits f \<and> Manager_GetFinalization C M (fz_BlockHash f) e = Inr f}"
    by (rule s2_codec.finalizations_listed [OF lib assms(2-4,6,5)])
  show "\<exists>ps. Manager_ListPeers C M ctx_done e = Some (Inr ps) \<and> distinct (map pe_ID ps) \<and>
      set ps = {p. peer_fits p \<and> pe_LeftAt p = None \<and> Manager_GetPeer C M (pe_ID p) e = Inr p}"
    by (rule s2_codec.peers_listed [OF lib assms(2-4,6,5)])
qed

theorem listings_exact_witness:
  "\<exists>ps. Manager_ListProposals no_compression mem_mdbx (\<lambda>_. None)
      (fmupd (proposal_key ''p'') (proposal_raw small_proposal) fmempty) = Some (Inr ps) \<and> small_proposal \<in> set ps"
proof -
  let ?e = "fmupd (proposal_key ''p'') (proposal_raw small_proposal) fmempty"
  have "state_step no_compression mem_mdbx fmempty ?e" by (rule state_step.add_proposal [OF small_proposal_added])
  then have run: "(state_step no_compression mem_mdbx)\<^sup>*\<^sup>* fmempty ?e" by (rule r_into_rtranclp)
  have "Manager_GetProposal no_compression mem_mdbx (pp_ID small_proposal) ?e = Inr small_proposal"
    using s2_codec.proposal_added [OF plain_s2.s2_codec_axioms mem_mdbx_laws small_proposal_added] by simp
  with listings_exact [OF plain_s2.s2 mem_mdbx_laws mem_mdbx_cursor_laws, of "\<lambda>_. None" fmempty ?e] run
    small_proposal_added(1)
  show ?thesis by (auto simp: fun_eq_iff)
qed

text \<open>
  The latency records of a peer are listed by the prefix of their keys, so a peer whose ID continues another's after
  a colon is mixed up with it: a record of \<open>a:b\<close> is returned for \<open>a\<close>, which has none.
\<close>

theorem latency_of_another_peer:
  "\<exists>lr e. lr_PeerID lr = ''a:b'' \<and>
    Manager_RecordLatency no_compression mem_mdbx lr fmempty = (None, e) \<and>
    Manager_GetLatencyRecords no_compression mem_mdbx (\<lambda>_. None) ''a'' e = Some (Inr [lr])"
proof -
  let ?lr = "\<lparr>lr_PeerID = ''a:b'', lr_LatencyMs = 5, lr_Timestamp = 1\<rparr>"
  let ?k = "latency_key ''a:b'' 1"
  let ?e = "fmupd ?k (latency_raw ?lr) fmempty"
  have "fmlookup ?e = [?k \<mapsto> latency_raw ?lr]" by (auto simp: fun_eq_iff)
  then have "dom (fmlookup ?e) = {?k}" by simp
  moreover have "prefix (go_bytes ''latency:a:'') ?k" by (simp add: latency_key_def prefix_go_bytes)
  ultimately have "Db_ListKeysWithPrefix mem_mdbx (\<lambda>_. None) ''latency:a:'' ?e = Some (Inr [?k])"
    using keys_with_prefix [OF mem_mdbx_cursor_laws, of "\<lambda>_. None" "''latency:a:''" ?e] by simp
  moreover have "DecodeLatencyRecord no_compression (latency_raw ?lr) = Inr ?lr"
    using plain_s2.latency.dec_enc [of ?lr "latency_raw ?lr"]
    by (simp add: latency_fits_def latency_raw_def LatencyRecord_Encode_def no_compression_def)
  moreover have "Db_Get mem_mdbx ?k ?e = Inr (latency_raw ?lr)" by (simp add: Db_Get_view [OF mem_mdbx_laws])
  ultimately have "Manager_GetLatencyRecords no_compression mem_mdbx (\<lambda>_. None) ''a'' ?e = Some (Inr [?lr])"
    by (simp add: Manager_GetLatencyRecords_def list_decoded_def)
  moreover have "Manager_RecordLatency no_compression mem_mdbx ?lr fmempty = (None, ?e)"
    by (simp add: Manager_RecordLatency_def LatencyRecord_Encode_def no_compression_def Db_Set_def mem_mdbx_def)
  ultimately show ?thesis by (intro exI [of _ ?lr] exI [of _ ?e]) simp
qed

end
