(* ===== verification/Topology.thy ===== *)
theory Topology
  imports Go_Stdlib Codec "HOL-Library.Signed_Division" "HOL-Library.Multiset"
begin

text \<open>
  \<open>pkg/topology\<close>: the peers a node is connected to (\<open>manager.go\<close>), the nodes of the network (\<open>state.go\<close>), both behind
  \<open>topology.go\<close>, the messages about them (\<open>message.go\<close>) and the latency and bandwidth figures (\<open>metrics.go\<close>).  The
  manager holds its mutex over both maps, so an operation is one function on the pair.  Shown here: the messages
  are a safe codec, the peers and the nodes never disagree, and the latency figures are what their names say.
\<close>

section \<open>Messages\<close>

type_synonym message_type = byte

definition PeerJoinMessage :: message_type where "PeerJoinMessage = 1"
definition PeerLeaveMessage :: message_type where "PeerLeaveMessage = 2"
definition TopologyUpdateMessage :: message_type where "TopologyUpdateMessage = 3"

record topology_message =
  tm_Type :: message_type
  tm_SenderID :: peer_id
  tm_PeerID :: peer_id
  tm_Addresses :: "string list"

text \<open>\<open>uint8(len(bs))\<close> and the bytes.\<close>

definition uint8_len :: "'a list \<Rightarrow> byte" where
  "uint8_len xs = word_of_nat (length xs)"

definition write_short :: "bytes \<Rightarrow> bytes" where
  "write_short bs = uint8_len bs # bs"

definition TopologyMessage_Serialize :: "topology_message \<Rightarrow> bytes result" where
  "TopologyMessage_Serialize m = Inr (
     tm_Type m # write_short (tm_SenderID m) @ write_short (tm_PeerID m) @
     uint8_len (tm_Addresses m) # concat (map (\<lambda>a. write_short (go_bytes a)) (tm_Addresses m)))"

definition Buffer_ReadByte :: "bytes \<Rightarrow> (byte \<times> bytes) result" where
  "Buffer_ReadByte r = (case r of [] \<Rightarrow> Inl EOF | b # r \<Rightarrow> Inr (b, r))"

definition read_short :: "string \<Rightarrow> string \<Rightarrow> bytes \<Rightarrow> (bytes \<times> bytes) result" where
  "read_short len_failed read_failed r =
     bindE (wrapE len_failed (Buffer_ReadByte r)) (\<lambda>(n, r).
     bindE (wrapE read_failed (Buffer_Read (unat n) r)) (\<lambda>(_, bs, r). Inr (bs, r)))"

fun read_addresses :: "nat \<Rightarrow> bytes \<Rightarrow> string list result" where
  "read_addresses 0 r = Inr []"
| "read_addresses (Suc n) r =
     bindE (read_short ''failed to read address length'' ''failed to read address'' r) (\<lambda>(addressBytes, r).
     bindE (read_addresses n r) (\<lambda>addresses. Inr (go_string addressBytes # addresses)))"

definition DeserializeTopologyMessage :: "bytes \<Rightarrow> topology_message result" where
  "DeserializeTopologyMessage data =
     bindE (wrapE ''failed to read message type'' (Buffer_ReadByte data)) (\<lambda>(msgType, r).
     bindE (read_short ''failed to read sender ID length'' ''failed to read sender ID'' r) (\<lambda>(senderID, r).
     bindE (read_short ''failed to read peer ID length'' ''failed to read peer ID'' r) (\<lambda>(peerID, r).
     bindE (wrapE ''failed to read number of addresses'' (Buffer_ReadByte r)) (\<lambda>(numAddresses, r).
     bindE (read_addresses (unat numAddresses) r) (\<lambda>addresses.
       Inr \<lparr>tm_Type = msgType, tm_SenderID = senderID, tm_PeerID = peerID, tm_Addresses = addresses\<rparr>)))))"

section \<open>Peers and nodes\<close>

record topology_node =
  tn_PeerID :: peer_id
  tn_Addresses :: "string list"
  tn_Children :: "peer_id list"

type_synonym network_topology = "(peer_id, topology_node) fmap"

definition NewNetworkTopology :: network_topology where "NewNetworkTopology = fmempty"

definition AddNode :: "peer_id \<Rightarrow> string list \<Rightarrow> network_topology \<Rightarrow> network_topology" where
  "AddNode peerID addresses nt =
     (case fmlookup nt peerID of
        Some _ \<Rightarrow> nt
      | None \<Rightarrow> fmupd peerID \<lparr>tn_PeerID = peerID, tn_Addresses = addresses, tn_Children = []\<rparr> nt)"

definition RemoveNode :: "peer_id \<Rightarrow> network_topology \<Rightarrow> network_topology" where
  "RemoveNode peerID nt = fmdrop peerID nt"

definition GetNode :: "peer_id \<Rightarrow> network_topology \<Rightarrow> topology_node result" where
  "GetNode peerID nt =
     (case fmlookup nt peerID of None \<Rightarrow> Inl (ErrorS ''node %s not found'') | Some node \<Rightarrow> Inr node)"

definition GetAllNodes :: "peer_id list \<Rightarrow> network_topology \<Rightarrow> topology_node list" where
  "GetAllNodes order nt = range_values order nt"

record peer_info =
  pi_ID :: peer_id
  pi_Addresses :: "string list"
  pi_Status :: string

text \<open>The manager and the network state it updates; \<open>Topology\<close> keeps a reference to both.\<close>

record topology =
  to_peers :: "(peer_id, peer_info) fmap"
  to_state :: network_topology
  to_cancelled :: bool

definition NewTopology :: topology where
  "NewTopology = \<lparr>to_peers = fmempty, to_state = NewNetworkTopology, to_cancelled = False\<rparr>"

definition Topology_AddPeer :: "peer_id \<Rightarrow> string list \<Rightarrow> topology \<Rightarrow> go_error option \<times> topology" where
  "Topology_AddPeer peerID addresses t =
     (case fmlookup (to_peers t) peerID of
        Some _ \<Rightarrow> (Some (ErrorS ''peer %s already exists in topology''), t)
      | None \<Rightarrow>
          (None, t\<lparr>to_peers := fmupd peerID \<lparr>pi_ID = peerID, pi_Addresses = addresses, pi_Status = ''connected''\<rparr> (to_peers t),
                   to_state := AddNode peerID addresses (to_state t)\<rparr>))"

definition Topology_RemovePeer :: "peer_id \<Rightarrow> topology \<Rightarrow> go_error option \<times> topology" where
  "Topology_RemovePeer peerID t =
     (case fmlookup (to_peers t) peerID of
        None \<Rightarrow> (Some (ErrorS ''peer %s not found in topology''), t)
      | Some _ \<Rightarrow> (None, t\<lparr>to_peers := fmdrop peerID (to_peers t), to_state := RemoveNode peerID (to_state t)\<rparr>))"

definition GetPeers :: "peer_id list \<Rightarrow> topology \<Rightarrow> peer_info list" where
  "GetPeers order t = range_values order (to_peers t)"

definition Topology_GetNode :: "peer_id \<Rightarrow> topology \<Rightarrow> topology_node result" where
  "Topology_GetNode peerID t = GetNode peerID (to_state t)"

definition Topology_Shutdown :: "topology \<Rightarrow> topology" where
  "Topology_Shutdown t = t\<lparr>to_cancelled := True\<rparr>"

text \<open>\<open>BroadcastTopologyMessage\<close> only logs; the peers it names are the result.\<close>

definition BroadcastTopologyMessage :: "peer_id list \<Rightarrow> topology_message \<Rightarrow> topology \<Rightarrow> peer_id list result" where
  "BroadcastTopologyMessage order msg t =
     bindE (TopologyMessage_Serialize msg) (\<lambda>_. Inr (map pi_ID (GetPeers order t)))"

inductive topology_step :: "topology \<Rightarrow> topology \<Rightarrow> bool" where
  add: "Topology_AddPeer i addrs t = (r, t') \<Longrightarrow> topology_step t t'"
| remove: "Topology_RemovePeer i t = (r, t') \<Longrightarrow> topology_step t t'"
| shutdown: "topology_step t (Topology_Shutdown t)"

section \<open>Figures\<close>

text \<open>Durations are 64-bit integers; bandwidths are of any type with the operations used.\<close>

record 'f peer_figures =
  pf_latencies :: "(string, int64) fmap"
  pf_bandwidth :: "(string, 'f) fmap"

definition NewMetricsCollector :: "'f peer_figures" where
  "NewMetricsCollector = \<lparr>pf_latencies = fmempty, pf_bandwidth = fmempty\<rparr>"

definition Figures_RecordLatency :: "string \<Rightarrow> int64 \<Rightarrow> 'f peer_figures \<Rightarrow> 'f peer_figures" where
  "Figures_RecordLatency i latency mc = mc\<lparr>pf_latencies := fmupd i latency (pf_latencies mc)\<rparr>"

definition Figures_RecordBandwidth :: "string \<Rightarrow> 'f \<Rightarrow> 'f peer_figures \<Rightarrow> 'f peer_figures" where
  "Figures_RecordBandwidth i bandwidth mc = mc\<lparr>pf_bandwidth := fmupd i bandwidth (pf_bandwidth mc)\<rparr>"

definition GetLatency :: "string \<Rightarrow> 'f peer_figures \<Rightarrow> int64 option" where
  "GetLatency i mc = fmlookup (pf_latencies mc) i"

definition GetBandwidth :: "string \<Rightarrow> 'f peer_figures \<Rightarrow> 'f option" where
  "GetBandwidth i mc = fmlookup (pf_bandwidth mc) i"

text \<open>Go's division truncates toward zero, as \<open>sdiv\<close> does.\<close>

definition CalculateAverageLatency :: "string list \<Rightarrow> 'f peer_figures \<Rightarrow> int64" where
  "CalculateAverageLatency order mc =
     (let totalLatency = fold (\<lambda>latency total. total + latency) (range_values order (pf_latencies mc)) 0
      in if fmlen (pf_latencies mc) = 0 then 0
         else word_of_int (sint totalLatency sdiv int (fmlen (pf_latencies mc))))"

definition CalculateTotalBandwidth :: "string list \<Rightarrow> ('f::{zero,plus}) peer_figures \<Rightarrow> 'f" where
  "CalculateTotalBandwidth order mc = fold (\<lambda>b total. total + b) (range_values order (pf_bandwidth mc)) 0"

definition MaxDuration :: int64 where "MaxDuration = 9223372036854775807"

definition GetMinLatency :: "string list \<Rightarrow> 'f peer_figures \<Rightarrow> int64" where
  "GetMinLatency order mc =
     (let minLatency = fold (\<lambda>latency m. if sint latency < sint m then latency else m)
            (range_values order (pf_latencies mc)) MaxDuration
      in if minLatency = MaxDuration then 0 else minLatency)"

definition GetMaxBandwidth :: "string list \<Rightarrow> ('f::{zero,ord}) peer_figures \<Rightarrow> 'f" where
  "GetMaxBandwidth order mc =
     fold (\<lambda>b m. if b > m then b else m) (range_values order (pf_bandwidth mc)) 0"

section \<open>The message format\<close>

definition tm_fits :: "topology_message \<Rightarrow> bool" where
  "tm_fits m \<longleftrightarrow> length (tm_SenderID m) < 256 \<and> length (tm_PeerID m) < 256 \<and> length (tm_Addresses m) < 256 \<and>
     (\<forall>a \<in> set (tm_Addresses m). length a < 256)"

lemma unat_uint8_len [simp]: "length xs < 256 \<Longrightarrow> unat (uint8_len xs) = length xs"
  by (simp add: uint8_len_def unat_of_nat)

lemma Buffer_ReadByte_Cons [codec]: "Buffer_ReadByte (b # r) = Inr (b, r)"
  by (simp add: Buffer_ReadByte_def)

lemma not_panics_ReadByte [simp]: "\<not> panics (Buffer_ReadByte r)"
  by (cases r) (simp_all add: Buffer_ReadByte_def)

lemma read_short_write [codec]: "length bs < 256 \<Longrightarrow> read_short a b (write_short bs @ rest) = Inr (bs, rest)"
  by (simp add: read_short_def write_short_def codec)

lemma not_panics_read_short [simp]: "\<not> panics (read_short a b r)"
  by (auto simp: read_short_def panics_bindE)

lemma read_addresses_write:
  "\<forall>a \<in> set as. length a < 256 \<Longrightarrow>
    read_addresses (length as) (concat (map (\<lambda>a. write_short (go_bytes a)) as)) = Inr as"
  by (induction as) (simp_all add: codec)

lemma not_panics_read_addresses [simp]: "\<not> panics (read_addresses n r)"
  by (induction n arbitrary: r) (auto simp: panics_bindE)

interpretation topology_codec:
  safe_codec TopologyMessage_Serialize DeserializeTopologyMessage tm_fits "\<lambda>m. m"
  by unfold_locales
    (auto simp: TopologyMessage_Serialize_def DeserializeTopologyMessage_def tm_fits_def codec read_addresses_write
      panics_bindE)

section \<open>Agreement of peers and nodes\<close>

definition topology_inv :: "topology \<Rightarrow> bool" where
  "topology_inv t \<longleftrightarrow> fmdom (to_peers t) = fmdom (to_state t) \<and>
     (\<forall>i p. fmlookup (to_peers t) i = Some p \<longrightarrow> pi_ID p = i \<and> pi_Status p = ''connected'' \<and>
        (\<exists>nd. fmlookup (to_state t) i = Some nd \<and> tn_PeerID nd = i \<and> tn_Addresses nd = pi_Addresses p \<and> tn_Children nd = []))"

lemma topology_inv_AddPeer:
  assumes "topology_inv t" "Topology_AddPeer i addrs t = (r, t')"
  shows "topology_inv t'"
proof (cases "fmlookup (to_peers t) i")
  case None
  then have "i |\<notin>| fmdom (to_state t)" using assms(1) by (metis fmdom_notI topology_inv_def)
  then have "fmlookup (to_state t) i = None" by (rule fmdom_notD)
  with None assms show ?thesis by (auto simp: topology_inv_def Topology_AddPeer_def AddNode_def split: if_splits)
qed (use assms in \<open>simp add: Topology_AddPeer_def\<close>)

interpretation topology: invariant_system "\<lambda>t. t = NewTopology" topology_step topology_inv
proof
  show "topology_inv t" if "t = NewTopology" for t
    using that by (simp add: topology_inv_def NewTopology_def NewNetworkTopology_def)
next
  fix t t' assume inv: "topology_inv t" and "topology_step t t'"
  from this(2) show "topology_inv t'"
  proof cases
    case (add i addrs r)
    then show ?thesis using topology_inv_AddPeer [OF inv] by blast
  next
    case (remove i r)
    then show ?thesis using inv
      by (auto simp: Topology_RemovePeer_def topology_inv_def RemoveNode_def split: option.splits if_splits)
  qed (use inv in \<open>simp add: topology_inv_def Topology_Shutdown_def\<close>)
qed
section \<open>Latency figures\<close>

lemma fold_add_sum: "fold (\<lambda>x total. total + x) xs (a :: int64) = a + sum_list xs"
  by (induction xs arbitrary: a) (simp_all add: algebra_simps)

lemma range_values_perm:
  assumes "ranges ks m" "ranges ks' m"
  shows "mset (range_values ks m) = mset (range_values ks' m)"
proof -
  have "set ks = set ks'" "distinct ks" "distinct ks'"
    using assms by (simp_all add: ranges_set) (simp_all add: ranges_def)
  then have "mset ks = mset ks'" using set_eq_iff_mset_eq_distinct by blast
  then show ?thesis using assms by (simp add: range_values_map ranges_set)
qed

lemma fold_min:
  fixes m :: int64 and xs :: "int64 list"
  defines "r \<equiv> fold (\<lambda>x m. if sint x < sint m then x else m) xs m"
  shows "r \<in> set (m # xs) \<and> (\<forall>x \<in> set (m # xs). sint r \<le> sint x)"
  unfolding r_def by (induction xs arbitrary: m) fastforce+

lemma sint_le_MaxDuration: "sint w \<le> sint MaxDuration" for w :: int64
  using sint_lt [of w] by (simp add: MaxDuration_def)

lemma sint_word_of_int_id: "- (2 ^ 63) \<le> x \<Longrightarrow> x < 2 ^ 63 \<Longrightarrow> sint (word_of_int x :: int64) = x"
  by (simp add: signed_of_int signed_take_bit_int_eq_self)

lemma sum_list_word: "sum_list xs = word_of_int (sum_list (map sint xs))" for xs :: "int64 list"
  by (induction xs) simp_all

lemma sint_sum_list:
  "- (2 ^ 63) \<le> sum_list (map sint xs) \<Longrightarrow> sum_list (map sint xs) < 2 ^ 63 \<Longrightarrow>
    sint (sum_list xs) = sum_list (map sint xs)" for xs :: "int64 list"
  by (subst sum_list_word) (simp add: sint_word_of_int_id)

lemma sdiv_between: "0 < b \<Longrightarrow> min a 0 \<le> a sdiv b \<and> a sdiv b \<le> max a (0 :: int)"
proof -
  assume b: "0 < b"
  have "\<bar>a\<bar> div b \<le> \<bar>a\<bar>" using zdiv_mono2 [of "\<bar>a\<bar>" 1 b] b by simp
  moreover have "0 \<le> \<bar>a\<bar> div b" using b by (simp add: pos_imp_zdiv_nonneg_iff)
  ultimately show ?thesis using b by (auto simp: signed_divide_int_def sgn_if)
qed

section \<open>Properties\<close>

text \<open>
  A topology message whose IDs, addresses and address list are shorter than 256 is read back as it was written, and no
  byte string makes the reader panic.
\<close>

theorem topology_message_roundtrip:
  assumes "tm_fits m"
  shows "bindE (TopologyMessage_Serialize m) DeserializeTopologyMessage = Inr m \<and>
    \<not> panics (DeserializeTopologyMessage data)"
  using topology_codec.roundtrip [OF assms] topology_codec.dec_safe by blast

definition sample_message :: topology_message where
  "sample_message = \<lparr>tm_Type = PeerJoinMessage, tm_SenderID = [1], tm_PeerID = [2, 3], tm_Addresses = [''a'', '''']\<rparr>"

theorem topology_message_roundtrip_witness:
  "bindE (TopologyMessage_Serialize sample_message) DeserializeTopologyMessage = Inr sample_message"
  using topology_message_roundtrip [of sample_message] by (simp add: tm_fits_def sample_message_def)

text \<open>
  C25: The manager and the network state agree.  In every topology reached from a new one, a node is found exactly for
  the peers the manager lists, with the addresses the peer was added with; adding a listed peer and removing an
  unknown one are refused and change nothing.
\<close>

theorem topology_agrees:
  assumes "topology_step\<^sup>*\<^sup>* NewTopology t"
  shows "(\<forall>i nd. Topology_GetNode i t = Inr nd \<longleftrightarrow>
      (\<exists>p. fmlookup (to_peers t) i = Some p \<and> nd = \<lparr>tn_PeerID = i, tn_Addresses = pi_Addresses p, tn_Children = []\<rparr>)) \<and>
    (\<forall>i addrs. fmlookup (to_peers t) i = None \<longrightarrow> (\<exists>t'. Topology_AddPeer i addrs t = (None, t') \<and>
       Topology_GetNode i t' = Inr \<lparr>tn_PeerID = i, tn_Addresses = addrs, tn_Children = []\<rparr>)) \<and>
    (\<forall>i addrs. fmlookup (to_peers t) i \<noteq> None \<longrightarrow> (\<exists>err. Topology_AddPeer i addrs t = (Some err, t))) \<and>
    (\<forall>i. fmlookup (to_peers t) i = None \<longrightarrow> (\<exists>err. Topology_RemovePeer i t = (Some err, t)))"
proof (intro conjI allI impI)
  have inv: "topology_inv t" using topology.inv_reachable [OF refl assms] .
  have no_node: "fmlookup (to_state t) i = None" if "fmlookup (to_peers t) i = None" for i
    using inv that by (metis fmdom_notD fmdom_notI topology_inv_def)
  show "Topology_GetNode i t = Inr nd \<longleftrightarrow>
      (\<exists>p. fmlookup (to_peers t) i = Some p \<and> nd = \<lparr>tn_PeerID = i, tn_Addresses = pi_Addresses p, tn_Children = []\<rparr>)" for i nd
  proof (cases "fmlookup (to_peers t) i")
    case None
    then show ?thesis using no_node by (simp add: Topology_GetNode_def GetNode_def)
  next
    case (Some p)
    with inv obtain nd' where "fmlookup (to_state t) i = Some nd'" "tn_PeerID nd' = i"
      "tn_Addresses nd' = pi_Addresses p" "tn_Children nd' = []" unfolding topology_inv_def by blast
    then show ?thesis using Some by (cases nd') (auto simp: Topology_GetNode_def GetNode_def)
  qed
  show "\<exists>t'. Topology_AddPeer i addrs t = (None, t') \<and>
       Topology_GetNode i t' = Inr \<lparr>tn_PeerID = i, tn_Addresses = addrs, tn_Children = []\<rparr>"
    if "fmlookup (to_peers t) i = None" for i addrs
    using that no_node [OF that] by (simp add: Topology_AddPeer_def Topology_GetNode_def GetNode_def AddNode_def)
qed (auto simp: Topology_AddPeer_def Topology_RemovePeer_def)

theorem topology_agrees_witness:
  "\<exists>t'. Topology_AddPeer [1] [''a''] NewTopology = (None, t') \<and>
    Topology_GetNode [1] t' = Inr \<lparr>tn_PeerID = [1], tn_Addresses = [''a''], tn_Children = []\<rparr>"
  using topology_agrees [OF rtranclp.rtrancl_refl] by (simp add: NewTopology_def)

text \<open>
  The latency figures.  When some latency below the largest duration is recorded, \<open>GetMinLatency\<close> is the least one;
  when the exact sum fits in 64 bits, \<open>CalculateAverageLatency\<close> is the exact mean rounded toward zero; the
  average never depends on the order of the range.
\<close>

theorem latency_figures_exact:
  fixes mc :: "'f peer_figures"
  assumes "ranges order (pf_latencies mc)"
  shows "((\<exists>i l. GetLatency i mc = Some l \<and> l \<noteq> MaxDuration) \<longrightarrow>
      (\<exists>i. GetLatency i mc = Some (GetMinLatency order mc)) \<and>
      (\<forall>i l. GetLatency i mc = Some l \<longrightarrow> sint (GetMinLatency order mc) \<le> sint l)) \<and>
    (\<forall>S. S = sum_list (map sint (range_values order (pf_latencies mc))) \<and> pf_latencies mc \<noteq> fmempty \<and>
        - (2 ^ 63) \<le> S \<and> S < 2 ^ 63 \<longrightarrow>
      sint (CalculateAverageLatency order mc) = S sdiv int (fmlen (pf_latencies mc))) \<and>
    (\<forall>order'. ranges order' (pf_latencies mc) \<longrightarrow>
      CalculateAverageLatency order' mc = CalculateAverageLatency order mc)"
proof (intro conjI allI impI)
  let ?vs = "range_values order (pf_latencies mc)"
  have vs: "set ?vs = {l. \<exists>i. GetLatency i mc = Some l}"
    using set_range_values [OF assms] by (simp add: GetLatency_def)
  assume "\<exists>i l. GetLatency i mc = Some l \<and> l \<noteq> MaxDuration"
  then obtain l where l: "l \<in> set ?vs" "l \<noteq> MaxDuration" using vs by blast
  define r where "r = fold (\<lambda>x m. if sint x < sint m then x else m) ?vs MaxDuration"
  have r: "r \<in> set (MaxDuration # ?vs)" "\<forall>x \<in> set (MaxDuration # ?vs). sint r \<le> sint x"
    using fold_min [of ?vs MaxDuration] by (auto simp: r_def)
  have "r \<noteq> MaxDuration" using r(2) l sint_le_MaxDuration [of l] by (auto simp: signed_word_eqI dest!: antisym)
  then have min: "GetMinLatency order mc = r" "r \<in> set ?vs" using r(1) by (simp_all add: GetMinLatency_def Let_def r_def)
  then show "\<exists>i. GetLatency i mc = Some (GetMinLatency order mc)" using vs by simp
  show "sint (GetMinLatency order mc) \<le> sint l" if "GetLatency i mc = Some l" for i l
    using r(2) vs that min(1) by auto
next
  fix S assume S: "S = sum_list (map sint (range_values order (pf_latencies mc))) \<and> pf_latencies mc \<noteq> fmempty \<and>
    - (2 ^ 63) \<le> S \<and> S < 2 ^ 63"
  let ?n = "int (fmlen (pf_latencies mc))"
  have n: "?n > 0" using S fmlen_eq_0 [of "pf_latencies mc"] by (metis gr0I of_nat_0_less_iff)
  have "sint (sum_list (range_values order (pf_latencies mc))) = S"
    using S by (simp add: sint_sum_list)
  then have "CalculateAverageLatency order mc = word_of_int (S sdiv ?n)"
    using S by (simp add: CalculateAverageLatency_def fold_add_sum)
  moreover have "- (2 ^ 63) \<le> S sdiv ?n" "S sdiv ?n < 2 ^ 63" using sdiv_between [OF n, of S] S by auto
  ultimately show "sint (CalculateAverageLatency order mc) = S sdiv ?n" by (simp only: sint_word_of_int_id)
next
  fix order' assume "ranges order' (pf_latencies mc)"
  then have "sum_list (range_values order' (pf_latencies mc)) = sum_list (range_values order (pf_latencies mc))"
    using range_values_perm [OF assms] by (metis sum_mset_sum_list)
  then show "CalculateAverageLatency order' mc = CalculateAverageLatency order mc"
    by (simp add: CalculateAverageLatency_def fold_add_sum)
qed

theorem latency_figures_exact_witness:
  "\<exists>i. GetLatency i (Figures_RecordLatency ''a'' 5 (NewMetricsCollector :: int peer_figures)) =
    Some (GetMinLatency [''a''] (Figures_RecordLatency ''a'' 5 (NewMetricsCollector :: int peer_figures)))"
proof -
  let ?mc = "Figures_RecordLatency ''a'' 5 NewMetricsCollector :: int peer_figures"
  have "ranges [''a''] (pf_latencies ?mc)" by (simp add: ranges_def Figures_RecordLatency_def NewMetricsCollector_def)
  moreover have "GetLatency ''a'' ?mc = Some 5" by (simp add: GetLatency_def Figures_RecordLatency_def)
  moreover have "(5 :: int64) \<noteq> MaxDuration" by (simp add: MaxDuration_def)
  ultimately show ?thesis using latency_figures_exact by blast
qed

end
