(* ===== verification/Routing.thy ===== *)
theory Routing
  imports Go_Stdlib
begin

text \<open>
  \<open>pkg/routing\<close>: routing entries, their binary form (\<open>entry.go\<close>) and the bytes that are signed
  (\<open>signature.go\<close>).  The reader keeps one buffer for both IP addresses, and a Go slice is a reference: the model
  carries the buffer.  Shown here: what is read back for every entry that is written, which is never the source
  address unless it equals the destination.
\<close>

section \<open>Entries\<close>

record route_entry =
  re_SrcIP :: bytes
  re_DstIP :: bytes
  re_SrcPort :: uint16
  re_DstPort :: uint16
  re_NextHopMAC :: bytes
  re_Signature :: bytes

text \<open>\<open>net.IP.To16\<close>: a 4-byte address in its IPv4-mapped form, nil for other lengths.\<close>

definition To16 :: "bytes \<Rightarrow> bytes" where
  "To16 ip =
     (if length ip = 4 then replicate 10 0 @ [255, 255] @ ip
      else if length ip = 16 then ip else [])"

definition uint16_len :: "'a list \<Rightarrow> uint16" where
  "uint16_len xs = word_of_nat (length xs)"

definition RouteEntry_Serialize :: "route_entry \<Rightarrow> bytes result" where
  "RouteEntry_Serialize re = Inr (
     To16 (re_SrcIP re) @ To16 (re_DstIP re) @ BE_PutUint16 (re_SrcPort re) @ BE_PutUint16 (re_DstPort re) @
     re_NextHopMAC re @ BE_PutUint16 (uint16_len (re_Signature re)) @ re_Signature re)"

text \<open>\<open>buf.Read(p)\<close> of a \<open>bytes.Reader\<close> into a buffer that already holds something.\<close>

definition Reader_Read_into :: "bytes \<Rightarrow> bytes \<Rightarrow> (bytes \<times> bytes) result" where
  "Reader_Read_into p r =
     (if r = [] then Inl EOF
      else Inr (take (length p) r @ drop (min (length p) (length r)) p, drop (length p) r))"

text \<open>Both addresses are the one slice \<open>ipBytes\<close>, so both read what the second \<open>Read\<close> left there.\<close>

definition DeserializeRouteEntry :: "bytes \<Rightarrow> route_entry result" where
  "DeserializeRouteEntry data =
     bindE (wrapE ''failed to deserialize SrcIP'' (Reader_Read_into (replicate 16 0) data)) (\<lambda>(ipBytes, r).
     bindE (wrapE ''failed to deserialize DstIP'' (Reader_Read_into ipBytes r)) (\<lambda>(ipBytes, r).
     bindE (wrapE ''failed to deserialize SrcPort'' (binary_Read_uint16_BE r)) (\<lambda>(srcPort, r).
     bindE (wrapE ''failed to deserialize DstPort'' (binary_Read_uint16_BE r)) (\<lambda>(dstPort, r).
     bindE (wrapE ''failed to deserialize NextHopMAC'' (Reader_Read 6 r)) (\<lambda>(_, macBytes, r).
     bindE (wrapE ''failed to deserialize Signature length'' (binary_Read_uint16_BE r)) (\<lambda>(sigLen, r).
     bindE (wrapE ''failed to deserialize Signature'' (Reader_Read (unat sigLen) r)) (\<lambda>(_, signature, _).
       Inr \<lparr>re_SrcIP = ipBytes, re_DstIP = ipBytes, re_SrcPort = srcPort, re_DstPort = dstPort,
            re_NextHopMAC = macBytes, re_Signature = signature\<rparr>)))))))"

definition uint16ToBytes :: "uint16 \<Rightarrow> bytes" where
  "uint16ToBytes val = [ucast (drop_bit 8 val), ucast (and val 255)]"

definition getSignableData :: "route_entry \<Rightarrow> bytes" where
  "getSignableData re =
     To16 (re_SrcIP re) @ To16 (re_DstIP re) @ uint16ToBytes (re_SrcPort re) @ uint16ToBytes (re_DstPort re) @
     re_NextHopMAC re"

section \<open>Reading back\<close>

definition re_fits :: "route_entry \<Rightarrow> bool" where
  "re_fits re \<longleftrightarrow> length (re_SrcIP re) \<in> {4, 16} \<and> length (re_DstIP re) \<in> {4, 16} \<and>
     length (re_NextHopMAC re) = 6 \<and> length (re_Signature re) < 2 ^ 16"

lemma length_To16: "length ip \<in> {4, 16} \<Longrightarrow> length (To16 ip) = 16"
  by (auto simp: To16_def)

lemma To16_idem: "To16 (To16 ip) = To16 ip"
  by (simp add: To16_def)

lemma Reader_Read_into_append [codec]:
  "length xs = length p \<Longrightarrow> xs \<noteq> [] \<Longrightarrow> Reader_Read_into p (xs @ rest) = Inr (xs, rest)"
  by (simp add: Reader_Read_into_def)

lemma unat_uint16_len: "length xs < 2 ^ 16 \<Longrightarrow> unat (uint16_len xs) = length xs"
  by (simp add: uint16_len_def unat_of_nat)

lemma BE_PutUint16_nonempty [simp]: "BE_PutUint16 w \<noteq> []"
  by (metis length_BE_PutUint16 length_0_conv zero_neq_numeral)

lemma BE_Uint16_exact: "binary_Read_uint16_BE (BE_PutUint16 w) = Inr (w, [])"
  using binary_Read_uint16_BE_append [of w "[]"] by simp

lemma DeserializeRouteEntry_Serialize:
  assumes "re_fits re" "RouteEntry_Serialize re = Inr bs"
  shows "DeserializeRouteEntry bs =
    (if re_Signature re = [] then Inl (wrap_error ''failed to deserialize Signature'' EOF)
     else Inr (re\<lparr>re_SrcIP := To16 (re_DstIP re), re_DstIP := To16 (re_DstIP re)\<rparr>))"
proof -
  have len: "length (To16 (re_SrcIP re)) = 16" "length (To16 (re_DstIP re)) = 16"
    using assms(1) by (simp_all add: re_fits_def length_To16)
  then have ne: "To16 (re_SrcIP re) \<noteq> []" "To16 (re_DstIP re) \<noteq> []" by auto
  have bs: "bs = To16 (re_SrcIP re) @ To16 (re_DstIP re) @ BE_PutUint16 (re_SrcPort re) @ BE_PutUint16 (re_DstPort re) @
     re_NextHopMAC re @ BE_PutUint16 (uint16_len (re_Signature re)) @ re_Signature re"
    using assms(2) by (simp add: RouteEntry_Serialize_def)
  show ?thesis
  proof (cases "re_Signature re = []")
    case True
    with assms(1) show ?thesis
      by (simp add: DeserializeRouteEntry_def bs codec len ne re_fits_def BE_Uint16_exact Reader_Read_def)
  next
    case False
    with assms(1) show ?thesis
      by (simp add: DeserializeRouteEntry_def bs codec len ne re_fits_def unat_uint16_len)
  qed
qed

section \<open>Properties\<close>

text \<open>
  The source address of a route does not survive the wire.  A serialized entry with a nonempty signature is read back
  with the destination in both address fields and everything else as it was, so the bytes its signature is
  checked against are the signed ones only when the two addresses are the same; with an empty signature the entry is
  not read back at all.
\<close>

theorem route_entry_source_lost:
  assumes "re_fits re"
  shows "bindE (RouteEntry_Serialize re) DeserializeRouteEntry =
      (if re_Signature re = [] then Inl (wrap_error ''failed to deserialize Signature'' EOF)
       else Inr (re\<lparr>re_SrcIP := To16 (re_DstIP re), re_DstIP := To16 (re_DstIP re)\<rparr>)) \<and>
    (getSignableData (re\<lparr>re_SrcIP := To16 (re_DstIP re), re_DstIP := To16 (re_DstIP re)\<rparr>) = getSignableData re \<longleftrightarrow>
       To16 (re_SrcIP re) = To16 (re_DstIP re))"
proof
  obtain bs where "RouteEntry_Serialize re = Inr bs" by (simp add: RouteEntry_Serialize_def)
  with DeserializeRouteEntry_Serialize [OF assms this]
  show "bindE (RouteEntry_Serialize re) DeserializeRouteEntry =
      (if re_Signature re = [] then Inl (wrap_error ''failed to deserialize Signature'' EOF)
       else Inr (re\<lparr>re_SrcIP := To16 (re_DstIP re), re_DstIP := To16 (re_DstIP re)\<rparr>))" by simp
  have "length (To16 (re_SrcIP re)) = length (To16 (re_DstIP re))" using assms by (simp add: re_fits_def length_To16)
  then show "getSignableData (re\<lparr>re_SrcIP := To16 (re_DstIP re), re_DstIP := To16 (re_DstIP re)\<rparr>) = getSignableData re \<longleftrightarrow>
       To16 (re_SrcIP re) = To16 (re_DstIP re)"
    by (auto simp: getSignableData_def To16_idem)
qed

definition sample_route :: route_entry where
  "sample_route = \<lparr>re_SrcIP = [10, 0, 0, 1], re_DstIP = [10, 0, 0, 2], re_SrcPort = 53, re_DstPort = 80,
     re_NextHopMAC = [1, 2, 3, 4, 5, 6], re_Signature = [9]\<rparr>"

theorem route_entry_source_lost_witness:
  "\<exists>re. bindE (RouteEntry_Serialize sample_route) DeserializeRouteEntry = Inr re \<and>
    re_SrcIP re = To16 [10, 0, 0, 2] \<and> getSignableData re \<noteq> getSignableData sample_route"
proof -
  have "re_fits sample_route" by (simp add: re_fits_def sample_route_def)
  moreover have "To16 (re_SrcIP sample_route) \<noteq> To16 (re_DstIP sample_route)" by (simp add: To16_def sample_route_def)
  ultimately show ?thesis using route_entry_source_lost [of sample_route] by (simp add: sample_route_def)
qed

end
