(* ===== verification/Graph_Store.thy ===== *)
theory Graph_Store
  imports Storage Core_Types Codec
begin

text \<open>
  \<open>pkg/graphmdbx\<close>: the vertices and edges of a graph kept in the key-value store, which the ledger gives to the graph
  library as its back end.  The type \<open>Store[K, T]\<close> is generic: what \<open>fmt\<close> prints for an identifier, \<open>decodeID\<close>, and
  what \<open>encoding/json\<close> does with the values are fields of the record.  Shown here: with identifiers whose
  text has no colon (hashes) the store refines a pair of maps, its listings are exact, and removing a vertex
  removes the edges at both ends.
\<close>

section \<open>The store\<close>

text \<open>\<open>'v\<close> is \<open>combinedVertex[T]\<close>, the value with its properties, and \<open>'p\<close> the properties of an edge.\<close>

record ('k, 'v, 'p) graph_store =
  gs_vertexPrefix :: string
  gs_edgePrefix :: string
  gs_text :: "'k \<Rightarrow> string"
  gs_decodeID :: "string \<Rightarrow> 'k result"
  gs_MarshalVertex :: "'v \<Rightarrow> bytes result"
  gs_UnmarshalVertex :: "bytes \<Rightarrow> 'v result"
  gs_MarshalEdge :: "'p \<Rightarrow> bytes result"
  gs_UnmarshalEdge :: "bytes \<Rightarrow> 'p result"

definition decodeID_string :: "string \<Rightarrow> string result" where
  "decodeID_string idStr = Inr idStr"

definition decodeID_hash :: "string \<Rightarrow> hash result" where
  "decodeID_hash idStr =
     bindE (wrapE ''failed to decode hex string'' (hex_DecodeString idStr)) (\<lambda>hashBytes.
       if length hashBytes \<noteq> HashSize then Inl (ErrorS ''invalid hash length: expected %d bytes, got %d'')
       else wrapE ''failed to unmarshal hash from bytes'' (Hash_UnmarshalBinary ZeroHash hashBytes))"

definition ErrGraphVertexNotFound :: go_error where "ErrGraphVertexNotFound = ErrorS ''vertex not found''"
definition ErrGraphEdgeNotFound :: go_error where "ErrGraphEdgeNotFound = ErrorS ''edge not found''"

definition vertex_key :: "('k, 'v, 'p) graph_store \<Rightarrow> 'k \<Rightarrow> bytes" where
  "vertex_key s h = go_bytes (gs_vertexPrefix s @ '':'' @ gs_text s h)"

definition edge_key :: "('k, 'v, 'p) graph_store \<Rightarrow> 'k \<Rightarrow> 'k \<Rightarrow> bytes" where
  "edge_key s source target = go_bytes (gs_edgePrefix s @ '':'' @ gs_text s source @ '':'' @ gs_text s target)"

text \<open>Marshal and store under a key.\<close>

definition put_json :: "'e mdbx \<Rightarrow> string \<Rightarrow> string \<Rightarrow> bytes \<Rightarrow> bytes result \<Rightarrow> 'e \<Rightarrow> go_error option \<times> 'e" where
  "put_json M marshal_failed store_failed key json e =
     (case json of
        Inl err \<Rightarrow> (Some (wrap_error marshal_failed err), e)
      | Inr combinedBytes \<Rightarrow>
          (let (err, e) = Db_Set M key combinedBytes e in (map_option (wrap_error store_failed) err, e)))"

definition Graph_AddVertex :: "('k, 'v, 'p) graph_store \<Rightarrow> 'e mdbx \<Rightarrow> 'k \<Rightarrow> 'v \<Rightarrow> 'e \<Rightarrow> go_error option \<times> 'e" where
  "Graph_AddVertex s M h v =
     put_json M ''failed to marshal vertex data'' ''failed to store vertex in MDBX'' (vertex_key s h) (gs_MarshalVertex s v)"

definition Graph_Vertex :: "('k, 'v, 'p) graph_store \<Rightarrow> 'e mdbx \<Rightarrow> 'k \<Rightarrow> 'e \<Rightarrow> 'v result" where
  "Graph_Vertex s M h e =
     (case Db_Get M (vertex_key s h) e of
        Inl err \<Rightarrow>
          if errors_Is err ErrKeyNotFound then Inl ErrGraphVertexNotFound
          else Inl (wrap_error ''failed to retrieve vertex from MDBX'' err)
      | Inr data \<Rightarrow> wrapE ''failed to unmarshal vertex data'' (gs_UnmarshalVertex s data))"

fun delete_keys :: "'e mdbx \<Rightarrow> string \<Rightarrow> bytes list \<Rightarrow> 'e \<Rightarrow> go_error option \<times> 'e" where
  "delete_keys M failed [] e = (None, e)"
| "delete_keys M failed (edgeKey # keys) e =
     (case Db_Delete M edgeKey e of
        (Some err, e) \<Rightarrow> (Some (wrap_error failed err), e)
      | (None, e) \<Rightarrow> delete_keys M failed keys e)"

text \<open>The test of the second loop of \<open>RemoveVertex\<close>.\<close>

definition incoming :: "('k, 'v, 'p) graph_store \<Rightarrow> 'k \<Rightarrow> bytes \<Rightarrow> bool" where
  "incoming s h edgeKey \<longleftrightarrow>
     (let parts = strings_Split1 (CHR '':'') (go_string edgeKey) in length parts = 3 \<and> parts ! 2 = gs_text s h)"

text \<open>The result is \<open>None\<close> when a prefix scan does not return.\<close>

definition Graph_RemoveVertex ::
  "('k, 'v, 'p) graph_store \<Rightarrow> 'e mdbx \<Rightarrow> (nat \<Rightarrow> go_error option) \<Rightarrow> 'k \<Rightarrow> 'e \<Rightarrow> (go_error option \<times> 'e) option" where
  "Graph_RemoveVertex s M ctx_done h e =
     (case Db_Delete M (vertex_key s h) e of
        (Some err, e) \<Rightarrow> Some (Some (wrap_error ''failed to delete vertex from MDBX'' err), e)
      | (None, e) \<Rightarrow>
     (case Db_ListKeysWithPrefix M ctx_done (gs_edgePrefix s @ '':'' @ gs_text s h @ '':'') e of
        None \<Rightarrow> None
      | Some (Inl err) \<Rightarrow> Some (Some (wrap_error ''failed to list outgoing edges for vertex %v'' err), e)
      | Some (Inr outgoingKeys) \<Rightarrow>
     (case delete_keys M ''failed to delete outgoing edge %s'' outgoingKeys e of
        (Some err, e) \<Rightarrow> Some (Some err, e)
      | (None, e) \<Rightarrow>
     (case Db_ListKeysWithPrefix M ctx_done (gs_edgePrefix s @ '':'') e of
        None \<Rightarrow> None
      | Some (Inl err) \<Rightarrow> Some (Some (wrap_error ''failed to list all edges for incoming edge removal'' err), e)
      | Some (Inr allEdgeKeys) \<Rightarrow>
          Some (delete_keys M ''failed to delete incoming edge %s'' (filter (incoming s h) allEdgeKeys) e)))))"

fun decode_ids :: "('k, 'v, 'p) graph_store \<Rightarrow> string \<Rightarrow> bytes list \<Rightarrow> 'k list result" where
  "decode_ids s pre [] = Inr []"
| "decode_ids s pre (key # keys) =
     bindE (wrapE ''failed to decode vertex ID'' (gs_decodeID s (strings_TrimPrefix (go_string key) pre))) (\<lambda>i.
     bindE (decode_ids s pre keys) (\<lambda>ids. Inr (i # ids)))"

definition Graph_ListVertices ::
  "('k, 'v, 'p) graph_store \<Rightarrow> 'e mdbx \<Rightarrow> (nat \<Rightarrow> go_error option) \<Rightarrow> 'e \<Rightarrow> 'k list result option" where
  "Graph_ListVertices s M ctx_done e =
     map_option (\<lambda>keys. bindE (wrapE ''failed to list vertex keys'' keys) (decode_ids s (gs_vertexPrefix s @ '':'')))
       (Db_ListKeysWithPrefix M ctx_done (gs_vertexPrefix s @ '':'') e)"

definition Graph_VertexCount ::
  "('k, 'v, 'p) graph_store \<Rightarrow> 'e mdbx \<Rightarrow> (nat \<Rightarrow> go_error option) \<Rightarrow> 'e \<Rightarrow> nat result option" where
  "Graph_VertexCount s M ctx_done e =
     map_option (\<lambda>vertices. bindE (wrapE ''failed to count vertices'' vertices) (\<lambda>vs. Inr (length vs)))
       (Graph_ListVertices s M ctx_done e)"

definition Graph_AddEdge :: "('k, 'v, 'p) graph_store \<Rightarrow> 'e mdbx \<Rightarrow> 'k \<Rightarrow> 'k \<Rightarrow> 'p \<Rightarrow> 'e \<Rightarrow> go_error option \<times> 'e" where
  "Graph_AddEdge s M a b p =
     put_json M ''failed to marshal edge data'' ''failed to store edge in MDBX'' (edge_key s a b) (gs_MarshalEdge s p)"

definition Graph_UpdateEdge :: "('k, 'v, 'p) graph_store \<Rightarrow> 'e mdbx \<Rightarrow> 'k \<Rightarrow> 'k \<Rightarrow> 'p \<Rightarrow> 'e \<Rightarrow> go_error option \<times> 'e" where
  "Graph_UpdateEdge s M a b p =
     put_json M ''failed to marshal updated edge data'' ''failed to update edge in MDBX'' (edge_key s a b) (gs_MarshalEdge s p)"

definition Graph_RemoveEdge :: "('k, 'v, 'p) graph_store \<Rightarrow> 'e mdbx \<Rightarrow> 'k \<Rightarrow> 'k \<Rightarrow> 'e \<Rightarrow> go_error option \<times> 'e" where
  "Graph_RemoveEdge s M a b e =
     (let (err, e) = Db_Delete M (edge_key s a b) e in (map_option (wrap_error ''failed to delete edge from MDBX'') err, e))"

text \<open>An edge with its ends.\<close>

definition Graph_Edge :: "('k, 'v, 'p) graph_store \<Rightarrow> 'e mdbx \<Rightarrow> 'k \<Rightarrow> 'k \<Rightarrow> 'e \<Rightarrow> ('k \<times> 'k \<times> 'p) result" where
  "Graph_Edge s M a b e =
     (case Db_Get M (edge_key s a b) e of
        Inl err \<Rightarrow>
          if errors_Is err ErrKeyNotFound then Inl ErrGraphEdgeNotFound
          else Inl (wrap_error ''failed to retrieve edge from MDBX'' err)
      | Inr data \<Rightarrow> bindE (wrapE ''failed to unmarshal edge properties'' (gs_UnmarshalEdge s data)) (\<lambda>p. Inr (a, b, p)))"

fun decode_edges :: "('k, 'v, 'p) graph_store \<Rightarrow> 'e mdbx \<Rightarrow> bytes list \<Rightarrow> 'e \<Rightarrow> ('k \<times> 'k \<times> 'p) list result" where
  "decode_edges s M [] e = Inr []"
| "decode_edges s M (key # keys) e =
     (case strings_Split1 (CHR '':'') (strings_TrimPrefix (go_string key) (gs_edgePrefix s @ '':'')) of
        [p0, p1] \<Rightarrow>
          bindE (wrapE ''failed to decode source ID'' (gs_decodeID s p0)) (\<lambda>source.
          bindE (wrapE ''failed to decode target ID'' (gs_decodeID s p1)) (\<lambda>target.
          (case Graph_Edge s M source target e of
             Inl err \<Rightarrow> if is_panic err then Inl err else decode_edges s M keys e
           | Inr edge \<Rightarrow> bindE (decode_edges s M keys e) (\<lambda>edges. Inr (edge # edges)))))
      | _ \<Rightarrow> decode_edges s M keys e)"

definition Graph_ListEdges ::
  "('k, 'v, 'p) graph_store \<Rightarrow> 'e mdbx \<Rightarrow> (nat \<Rightarrow> go_error option) \<Rightarrow> 'e \<Rightarrow> ('k \<times> 'k \<times> 'p) list result option" where
  "Graph_ListEdges s M ctx_done e =
     map_option (\<lambda>keys. bindE (wrapE ''failed to list edge keys'' keys) (\<lambda>keys. decode_edges s M keys e))
       (Db_ListKeysWithPrefix M ctx_done (gs_edgePrefix s @ '':'') e)"

definition Graph_EdgeCount ::
  "('k, 'v, 'p) graph_store \<Rightarrow> 'e mdbx \<Rightarrow> (nat \<Rightarrow> go_error option) \<Rightarrow> 'e \<Rightarrow> nat result option" where
  "Graph_EdgeCount s M ctx_done e =
     map_option (\<lambda>edges. bindE (wrapE ''failed to count edges'' edges) (\<lambda>es. Inr (length es)))
       (Graph_ListEdges s M ctx_done e)"

section \<open>Keys\<close>

lemma split_unique:
  "c \<notin> set a \<Longrightarrow> c \<notin> set b \<Longrightarrow> a @ c # x = b @ c # y \<longleftrightarrow> a = b \<and> x = y"
proof (induction a arbitrary: b)
  case Nil
  then show ?case by (cases b) auto
next
  case (Cons d a)
  then show ?case by (cases b) auto
qed

lemma prefix_split:
  "c \<notin> set a \<Longrightarrow> c \<notin> set b \<Longrightarrow> prefix (a @ c # u) (b @ c # y) \<longleftrightarrow> a = b \<and> prefix u y"
  by (auto simp: prefix_def split_unique)

text \<open>What the store relies on: laws of the database, JSON that reads back, and texts without a colon.\<close>

locale graph_backend =
  fixes s :: "('k, 'v, 'p) graph_store" and M :: "'e mdbx" and db :: "'e \<Rightarrow> bytes \<Rightarrow> bytes option"
  assumes laws: "mdbx_laws M db" and cursor: "cursor_laws M db"
    and prefixes: "CHR '':'' \<notin> set (gs_vertexPrefix s)" "CHR '':'' \<notin> set (gs_edgePrefix s)"
      "gs_vertexPrefix s \<noteq> gs_edgePrefix s"
    and text_decode: "gs_decodeID s (gs_text s h) = Inr h"
    and text_colon: "CHR '':'' \<notin> set (gs_text s h)"
    and vertex_json: "gs_MarshalVertex s v = Inr bs \<Longrightarrow> gs_UnmarshalVertex s bs = Inr v"
    and edge_json: "gs_MarshalEdge s p = Inr bs \<Longrightarrow> gs_UnmarshalEdge s bs = Inr p"
begin

lemma text_inject: "gs_text s a = gs_text s b \<longleftrightarrow> a = b"
  by (metis sum.inject(2) text_decode)

lemma vertex_key_inject: "vertex_key s a = vertex_key s b \<longleftrightarrow> a = b"
  by (simp add: vertex_key_def go_bytes_inject text_inject)

lemma edge_key_inject: "edge_key s a b = edge_key s c d \<longleftrightarrow> a = c \<and> b = d"
  by (simp add: edge_key_def go_bytes_inject split_unique text_colon text_inject)

lemma vertex_edge_key: "vertex_key s a \<noteq> edge_key s b c" "edge_key s b c \<noteq> vertex_key s a"
  using prefixes by (auto simp: vertex_key_def edge_key_def go_bytes_inject split_unique)

lemma key_prefixes:
  "prefix (go_bytes (gs_vertexPrefix s @ '':'')) (vertex_key s a)"
  "prefix (go_bytes (gs_edgePrefix s @ '':'')) (edge_key s a b)"
  "\<not> prefix (go_bytes (gs_edgePrefix s @ '':'')) (vertex_key s a)"
  "\<not> prefix (go_bytes (gs_vertexPrefix s @ '':'')) (edge_key s a b)"
  "prefix (go_bytes (gs_edgePrefix s @ '':'' @ gs_text s h @ '':'')) (edge_key s a b) \<longleftrightarrow> a = h"
  using prefixes
  by (auto simp: vertex_key_def edge_key_def prefix_go_bytes prefix_split text_colon text_inject)

lemma incoming_edge: "incoming s h (edge_key s a b) \<longleftrightarrow> b = h"
  using prefixes(2)
  by (auto simp: incoming_def edge_key_def strings_Split1_append strings_Split1_none text_colon text_inject)

text \<open>The graph an environment holds.\<close>

definition vertices :: "'e \<Rightarrow> 'k \<Rightarrow> 'v option" where
  "vertices e h = (case db e (vertex_key s h) of None \<Rightarrow> None
     | Some bs \<Rightarrow> (case gs_UnmarshalVertex s bs of Inl _ \<Rightarrow> None | Inr v \<Rightarrow> Some v))"

definition edges :: "'e \<Rightarrow> 'k \<times> 'k \<Rightarrow> 'p option" where
  "edges e = (\<lambda>(a, b). case db e (edge_key s a b) of None \<Rightarrow> None
     | Some bs \<Rightarrow> (case gs_UnmarshalEdge s bs of Inl _ \<Rightarrow> None | Inr p \<Rightarrow> Some p))"

definition store_ok :: "(bytes \<Rightarrow> bytes option) \<Rightarrow> bool" where
  "store_ok m \<longleftrightarrow> (\<forall>k bs. m k = Some bs \<longrightarrow>
     (prefix (go_bytes (gs_vertexPrefix s @ '':'')) k \<longrightarrow> (\<exists>h v. k = vertex_key s h \<and> gs_MarshalVertex s v = Inr bs)) \<and>
     (prefix (go_bytes (gs_edgePrefix s @ '':'')) k \<longrightarrow> (\<exists>a b p. k = edge_key s a b \<and> gs_MarshalEdge s p = Inr bs)))"

lemma store_ok_empty: "store_ok Map.empty"
  by (simp add: store_ok_def)

lemma store_ok_vertex: "store_ok m \<Longrightarrow> gs_MarshalVertex s v = Inr bs \<Longrightarrow> store_ok (m(vertex_key s h \<mapsto> bs))"
  using key_prefixes unfolding store_ok_def by auto

lemma store_ok_edge: "store_ok m \<Longrightarrow> gs_MarshalEdge s p = Inr bs \<Longrightarrow> store_ok (m(edge_key s a b \<mapsto> bs))"
  using key_prefixes unfolding store_ok_def by auto

lemma store_ok_subset: "store_ok m \<Longrightarrow> m' \<subseteq>\<^sub>m m \<Longrightarrow> store_ok m'"
  unfolding store_ok_def map_le_def by (metis domI)

lemma stored_vertex:
  assumes "store_ok (db e)" "db e (vertex_key s h) = Some bs"
  shows "\<exists>v. gs_MarshalVertex s v = Inr bs \<and> gs_UnmarshalVertex s bs = Inr v"
proof -
  obtain h' v where "gs_MarshalVertex s v = Inr bs" using assms key_prefixes(1) unfolding store_ok_def by blast
  then show ?thesis using vertex_json by blast
qed

lemma stored_edge:
  assumes "store_ok (db e)" "db e (edge_key s a b) = Some bs"
  shows "\<exists>p. gs_MarshalEdge s p = Inr bs \<and> gs_UnmarshalEdge s bs = Inr p"
proof -
  obtain p where "gs_MarshalEdge s p = Inr bs" using assms key_prefixes(2) unfolding store_ok_def by blast
  then show ?thesis using edge_json by blast
qed

section \<open>Operations\<close>

lemma Vertex_refines:
  assumes "store_ok (db e)"
  shows "Graph_Vertex s M h e = (case vertices e h of None \<Rightarrow> Inl ErrGraphVertexNotFound | Some v \<Rightarrow> Inr v)"
proof (cases "db e (vertex_key s h)")
  case None
  then show ?thesis by (simp add: Graph_Vertex_def Db_Get_view [OF laws] vertices_def ErrKeyNotFound_def)
next
  case (Some bs)
  with stored_vertex [OF assms this] show ?thesis
    by (auto simp: Graph_Vertex_def Db_Get_view [OF laws] vertices_def)
qed

lemma Edge_refines:
  assumes "store_ok (db e)"
  shows "Graph_Edge s M a b e = (case edges e (a, b) of None \<Rightarrow> Inl ErrGraphEdgeNotFound | Some p \<Rightarrow> Inr (a, b, p))"
proof (cases "db e (edge_key s a b)")
  case None
  then show ?thesis by (simp add: Graph_Edge_def Db_Get_view [OF laws] edges_def ErrKeyNotFound_def)
next
  case (Some bs)
  with stored_edge [OF assms this] show ?thesis
    by (auto simp: Graph_Edge_def Db_Get_view [OF laws] edges_def)
qed

lemma put_json_effect:
  assumes "put_json M a b k j e = (r, e')"
  shows "if r = None then \<exists>bs. j = Inr bs \<and> db e' = (db e)(k \<mapsto> bs) else db e' = db e"
  using assms by (auto simp: put_json_def Let_def split: sum.splits prod.splits dest!: Db_Set_effect [OF laws])

lemma vertices_cong: "(\<And>h. db e' (vertex_key s h) = db e (vertex_key s h)) \<Longrightarrow> vertices e' = vertices e"
  by (simp add: vertices_def fun_eq_iff)

lemma edges_cong: "(\<And>a b. db e' (edge_key s a b) = db e (edge_key s a b)) \<Longrightarrow> edges e' = edges e"
  by (simp add: edges_def fun_eq_iff)

lemma AddVertex_refines:
  assumes "store_ok (db e)" "Graph_AddVertex s M h v e = (r, e')"
  shows "store_ok (db e') \<and> edges e' = edges e \<and> vertices e' = (if r = None then (vertices e)(h \<mapsto> v) else vertices e)"
proof (cases r)
  case None
  with put_json_effect [of _ _ _ _ e r e'] assms(2) obtain bs where bs: "gs_MarshalVertex s v = Inr bs"
    "db e' = (db e)(vertex_key s h \<mapsto> bs)" by (fastforce simp: Graph_AddVertex_def)
  have "vertices e' = (vertices e)(h \<mapsto> v)"
    using vertex_json [OF bs(1)] by (auto simp: vertices_def bs(2) fun_eq_iff vertex_key_inject)
  moreover have "edges e' = edges e" by (rule edges_cong) (simp add: bs(2) vertex_edge_key)
  ultimately show ?thesis using store_ok_vertex [OF assms(1) bs(1)] None by (simp add: bs(2))
next
  case (Some err)
  with put_json_effect [of _ _ _ _ e r e'] assms(2) have "db e' = db e" by (fastforce simp: Graph_AddVertex_def)
  with assms(1) Some show ?thesis using vertices_cong [of e' e] edges_cong [of e' e] by simp
qed

lemma put_edge_refines:
  assumes "store_ok (db e)" "put_json M x y (edge_key s a b) (gs_MarshalEdge s p) e = (r, e')"
  shows "store_ok (db e') \<and> vertices e' = vertices e \<and> edges e' = (if r = None then (edges e)((a, b) \<mapsto> p) else edges e)"
proof (cases r)
  case None
  with put_json_effect [OF assms(2)] obtain bs where bs: "gs_MarshalEdge s p = Inr bs"
    "db e' = (db e)(edge_key s a b \<mapsto> bs)" by auto
  have "edges e' = (edges e)((a, b) \<mapsto> p)"
    using edge_json [OF bs(1)] by (auto simp: edges_def bs(2) fun_eq_iff edge_key_inject)
  moreover have "vertices e' = vertices e" by (rule vertices_cong) (simp add: bs(2) vertex_edge_key)
  ultimately show ?thesis using store_ok_edge [OF assms(1) bs(1)] None by (simp add: bs(2))
next
  case (Some err)
  with put_json_effect [OF assms(2)] have "db e' = db e" by simp
  with assms(1) Some show ?thesis using vertices_cong [of e' e] edges_cong [of e' e] by simp
qed

lemma Db_Delete_effect: "Db_Delete M k e = (r, e') \<Longrightarrow> db e' = (if r = None then (db e)(k := None) else db e)"
  using Db_Delete_view [OF laws, of k e] by simp

lemma delete_keys_effect:
  "delete_keys M f ks e = (r, e') \<Longrightarrow>
    db e' \<subseteq>\<^sub>m db e \<and> (r = None \<longrightarrow> db e' = (\<lambda>k. if k \<in> set ks then None else db e k))"
proof (induction ks arbitrary: e)
  case (Cons k ks)
  obtain r1 e1 where d: "Db_Delete M k e = (r1, e1)" by (cases "Db_Delete M k e")
  then have e1: "db e1 = (if r1 = None then (db e)(k := None) else db e)" by (rule Db_Delete_effect)
  then have sub: "db e1 \<subseteq>\<^sub>m db e" by (auto simp: map_le_def)
  show ?case
  proof (cases r1)
    case None
    with Cons.prems d have "delete_keys M f ks e1 = (r, e')" by simp
    then have ih: "db e' \<subseteq>\<^sub>m db e1" "r = None \<longrightarrow> db e' = (\<lambda>k. if k \<in> set ks then None else db e1 k)"
      using Cons.IH by blast+
    have "db e' \<subseteq>\<^sub>m db e" using ih(1) sub by (rule map_le_trans)
    then show ?thesis using ih(2) e1 None by (auto simp: fun_eq_iff)
  next
    case (Some err)
    with Cons.prems d e1 show ?thesis by (auto simp: map_le_refl)
  qed
qed (simp add: map_le_refl)

end

context graph_backend
begin

lemma RemoveEdge_refines:
  assumes "store_ok (db e)" "Graph_RemoveEdge s M a b e = (r, e')"
  shows "store_ok (db e') \<and> vertices e' = vertices e \<and> edges e' = (if r = None then (edges e)((a, b) := None) else edges e)"
proof -
  obtain r1 where del: "Db_Delete M (edge_key s a b) e = (r1, e')" "r = None \<longleftrightarrow> r1 = None"
    using assms(2) by (auto simp: Graph_RemoveEdge_def Let_def split: prod.splits)
  have e': "db e' = (if r = None then (db e)(edge_key s a b := None) else db e)"
    using Db_Delete_effect [OF del(1)] del(2) by simp
  have "db e' \<subseteq>\<^sub>m db e" by (auto simp: e' map_le_def)
  then have "store_ok (db e')" using assms(1) store_ok_subset by blast
  moreover have "vertices e' = vertices e" by (rule vertices_cong) (simp add: e' vertex_edge_key)
  moreover have "edges e' = (if r = None then (edges e)((a, b) := None) else edges e)"
    by (auto simp: e' edges_def fun_eq_iff edge_key_inject)
  ultimately show ?thesis by blast
qed

lemma edge_scan:
  assumes "store_ok (db e)" "\<And>n. ctx_done n = None"
  shows "Db_ListKeysWithPrefix M ctx_done (gs_edgePrefix s @ '':'') e =
      Some (Inr (filter (prefix (go_bytes (gs_edgePrefix s @ '':''))) (sorted_list_of_set (dom (db e)))))"
    "k \<in> set (filter (prefix (go_bytes (gs_edgePrefix s @ '':''))) (sorted_list_of_set (dom (db e)))) \<longleftrightarrow>
      (\<exists>a b p. k = edge_key s a b \<and> edges e (a, b) = Some p)"
proof -
  show "Db_ListKeysWithPrefix M ctx_done (gs_edgePrefix s @ '':'') e =
      Some (Inr (filter (prefix (go_bytes (gs_edgePrefix s @ '':''))) (sorted_list_of_set (dom (db e)))))"
    by (rule keys_with_prefix [OF cursor assms(2)])
  have fin: "finite (dom (db e))" using cursor by (simp add: cursor_laws_def)
  have "edges e (a, b) \<noteq> None" if "db e (edge_key s a b) = Some bs" for a b bs
    using stored_edge [OF assms(1) that] that by (auto simp: edges_def)
  moreover have "\<exists>a b. k = edge_key s a b" if "prefix (go_bytes (gs_edgePrefix s @ '':'')) k" "db e k = Some bs" for bs
    using assms(1) that unfolding store_ok_def by blast
  moreover have "db e (edge_key s a b) \<noteq> None" if "edges e (a, b) = Some p" for a b p
    using that by (auto simp: edges_def split: option.splits)
  ultimately show "k \<in> set (filter (prefix (go_bytes (gs_edgePrefix s @ '':''))) (sorted_list_of_set (dom (db e)))) \<longleftrightarrow>
      (\<exists>a b p. k = edge_key s a b \<and> edges e (a, b) = Some p)"
    using fin key_prefixes(2) by auto blast+
qed

lemma outgoing_scan:
  assumes "store_ok (db e)" "\<And>n. ctx_done n = None"
  shows "\<exists>ks. Db_ListKeysWithPrefix M ctx_done (gs_edgePrefix s @ '':'' @ gs_text s h @ '':'') e = Some (Inr ks) \<and>
    (\<forall>k \<in> set ks. \<exists>b. k = edge_key s h b) \<and> (\<forall>b p. edges e (h, b) = Some p \<longrightarrow> edge_key s h b \<in> set ks)"
proof (intro exI conjI)
  let ?pre = "gs_edgePrefix s @ '':'' @ gs_text s h @ '':''"
  let ?ks = "filter (prefix (go_bytes ?pre)) (sorted_list_of_set (dom (db e)))"
  show "Db_ListKeysWithPrefix M ctx_done ?pre e = Some (Inr ?ks)" by (rule keys_with_prefix [OF cursor assms(2)])
  have fin: "finite (dom (db e))" using cursor by (simp add: cursor_laws_def)
  have pre: "prefix (go_bytes (gs_edgePrefix s @ '':'')) k" if "prefix (go_bytes ?pre) k" for k
  proof -
    have "prefix (go_bytes (gs_edgePrefix s @ '':'')) (go_bytes ?pre)" by (simp add: prefix_go_bytes)
    then show ?thesis using that by (rule prefix_order.trans)
  qed
  show "\<forall>k \<in> set ?ks. \<exists>b. k = edge_key s h b"
  proof
    fix k assume "k \<in> set ?ks"
    then obtain bs where k: "prefix (go_bytes ?pre) k" "db e k = Some bs" using fin by auto
    then obtain a b where "k = edge_key s a b" using assms(1) pre unfolding store_ok_def by blast
    with k(1) show "\<exists>b. k = edge_key s h b" using key_prefixes(5) by auto
  qed
  show "\<forall>b p. edges e (h, b) = Some p \<longrightarrow> edge_key s h b \<in> set ?ks"
    using fin key_prefixes(5) by (auto simp: edges_def split: option.splits)
qed

lemma RemoveVertex_refines:
  assumes "store_ok (db e)" "\<And>n. ctx_done n = None"
  shows "\<exists>r e'. Graph_RemoveVertex s M ctx_done h e = Some (r, e') \<and> store_ok (db e') \<and>
    (r = None \<longrightarrow> vertices e' = (vertices e)(h := None) \<and>
       edges e' = (\<lambda>(a, b). if a = h \<or> b = h then None else edges e (a, b)))"
proof (cases "Db_Delete M (vertex_key s h) e")
  case (Pair r1 e1)
  then have e1: "db e1 = (if r1 = None then (db e)(vertex_key s h := None) else db e)" by (rule Db_Delete_effect)
  then have "db e1 \<subseteq>\<^sub>m db e" by (auto simp: map_le_def)
  then have ok1: "store_ok (db e1)" using assms(1) store_ok_subset by blast
  show ?thesis
  proof (cases r1)
    case (Some err)
    with Pair ok1 show ?thesis by (simp add: Graph_RemoveVertex_def)
  next
    case None
    have ed1: "edges e1 = edges e" by (rule edges_cong) (simp add: e1 vertex_edge_key)
    obtain ks where ks: "Db_ListKeysWithPrefix M ctx_done (gs_edgePrefix s @ '':'' @ gs_text s h @ '':'') e1 = Some (Inr ks)"
      "\<forall>k \<in> set ks. \<exists>b. k = edge_key s h b" "\<forall>b p. edges e1 (h, b) = Some p \<longrightarrow> edge_key s h b \<in> set ks"
      using outgoing_scan [where ctx_done = ctx_done, OF ok1 assms(2)] by blast
    obtain r2 e2 where d2: "delete_keys M ''failed to delete outgoing edge %s'' ks e1 = (r2, e2)" by fastforce
    note D2 = delete_keys_effect [OF d2]
    then have ok2: "store_ok (db e2)" using ok1 store_ok_subset by blast
    show ?thesis
    proof (cases r2)
      case (Some err)
      with Pair None ks d2 ok2 show ?thesis by (simp add: Graph_RemoveVertex_def)
    next
      case none2: None
      let ?all = "filter (prefix (go_bytes (gs_edgePrefix s @ '':''))) (sorted_list_of_set (dom (db e2)))"
      obtain r3 e3 where d3: "delete_keys M ''failed to delete incoming edge %s'' (filter (incoming s h) ?all) e2 = (r3, e3)"
        by fastforce
      note D3 = delete_keys_effect [OF d3]
      have res: "Graph_RemoveVertex s M ctx_done h e = Some (r3, e3)"
        using Pair None ks(1) d2 none2 edge_scan(1) [where ctx_done = ctx_done, OF ok2 assms(2)] d3
        by (simp add: Graph_RemoveVertex_def)
      have ok3: "store_ok (db e3)" using D3 ok2 store_ok_subset by blast
      have "vertices e3 = (vertices e)(h := None) \<and> edges e3 = (\<lambda>(a, b). if a = h \<or> b = h then None else edges e (a, b))"
        if r3: "r3 = None"
      proof
        define L where "L = filter (incoming s h) ?all"
        have db2: "db e2 = (\<lambda>k. if k \<in> set ks then None else db e1 k)" using D2 none2 by blast
        have db3: "db e3 = (\<lambda>k. if k \<in> set L then None else db e2 k)" using D3 r3 by (simp add: L_def)
        have vk: "vertex_key s g \<notin> set ks" "vertex_key s g \<notin> set L" for g
          using ks(2) edge_scan(2) [where ctx_done = ctx_done, OF ok2 assms(2), of "vertex_key s g"] vertex_edge_key
          by (auto simp: L_def)
        have vv: "db e3 (vertex_key s g) = db e1 (vertex_key s g)" for g using vk by (simp add: db2 db3)
        show "vertices e3 = (vertices e)(h := None)"
          by (auto simp: vertices_def fun_eq_iff vv e1 None vertex_key_inject)
        have e2: "edges e2 (a, b) = (if a = h then None else edges e (a, b))" for a b
        proof (cases "a = h")
          case True
          then show ?thesis using ks(3) by (cases "edges e1 (h, b)") (auto simp: edges_def db2 split: option.splits if_splits)
        next
          case False
          then have "edge_key s a b \<notin> set ks" using ks(2) edge_key_inject by metis
          with False show ?thesis using ed1 by (auto simp: edges_def db2 fun_eq_iff)
        qed
        have in3: "edge_key s a b \<in> set L \<longleftrightarrow> b = h \<and> edges e2 (a, b) \<noteq> None" for a b
          using edge_scan(2) [where ctx_done = ctx_done, OF ok2 assms(2), of "edge_key s a b"]
          by (auto simp: incoming_edge edge_key_inject L_def)
        have "edges e3 (a, b) = (if b = h then None else edges e2 (a, b))" for a b
        proof (cases "edge_key s a b \<in> set L")
          case True
          then show ?thesis using in3 by (simp add: edges_def db3)
        next
          case False
          then have "edges e3 (a, b) = edges e2 (a, b)" by (simp add: edges_def db3)
          with False show ?thesis using in3 [of a b] by auto
        qed
        with e2 show "edges e3 = (\<lambda>(a, b). if a = h \<or> b = h then None else edges e (a, b))" by (auto simp: fun_eq_iff)
      qed
      with res ok3 show ?thesis by blast
    qed
  qed
qed

end

section \<open>Listings\<close>

context graph_backend
begin

lemma vertex_scan:
  assumes "store_ok (db e)"
  shows "\<exists>hs. filter (prefix (go_bytes (gs_vertexPrefix s @ '':''))) (sorted_list_of_set (dom (db e))) = map (vertex_key s) hs \<and>
    distinct hs \<and> set hs = dom (vertices e)"
proof -
  let ?ks = "filter (prefix (go_bytes (gs_vertexPrefix s @ '':''))) (sorted_list_of_set (dom (db e)))"
  have fin: "finite (dom (db e))" using cursor by (simp add: cursor_laws_def)
  have "\<forall>k \<in> set ?ks. \<exists>h. k = vertex_key s h" using assms fin unfolding store_ok_def by auto
  then obtain hs where hs: "?ks = map (vertex_key s) hs" unfolding ex_map_conv [symmetric] by blast
  have "distinct (map (vertex_key s) hs)" unfolding hs [symmetric] by simp
  then have "distinct hs" by (simp add: distinct_map)
  moreover have "h \<in> set hs \<longleftrightarrow> vertices e h \<noteq> None" for h
  proof -
    have "h \<in> set hs \<longleftrightarrow> vertex_key s h \<in> set ?ks" unfolding hs by (auto simp: vertex_key_inject)
    also have "\<dots> \<longleftrightarrow> db e (vertex_key s h) \<noteq> None" using fin key_prefixes(1) by auto
    also have "\<dots> \<longleftrightarrow> vertices e h \<noteq> None"
      using stored_vertex [OF assms] by (fastforce simp: vertices_def split: option.splits)
    finally show ?thesis .
  qed
  ultimately show ?thesis using hs by auto
qed

lemma decode_vertices: "decode_ids s (gs_vertexPrefix s @ '':'') (map (vertex_key s) hs) = Inr hs"
  by (induction hs) (simp_all add: vertex_key_def strings_TrimPrefix_def text_decode)

lemma ListVertices_exact:
  assumes "store_ok (db e)" "\<And>n. ctx_done n = None"
  shows "\<exists>hs. Graph_ListVertices s M ctx_done e = Some (Inr hs) \<and> distinct hs \<and> set hs = dom (vertices e) \<and>
    Graph_VertexCount s M ctx_done e = Some (Inr (length hs))"
proof -
  obtain hs where hs: "filter (prefix (go_bytes (gs_vertexPrefix s @ '':''))) (sorted_list_of_set (dom (db e))) = map (vertex_key s) hs"
    "distinct hs" "set hs = dom (vertices e)"
    using vertex_scan [OF assms(1)] by blast
  have "Graph_ListVertices s M ctx_done e = Some (Inr hs)"
    using keys_with_prefix [where ctx_done = ctx_done, OF cursor assms(2), of "gs_vertexPrefix s @ '':''" e] hs(1)
    by (simp add: Graph_ListVertices_def decode_vertices)
  with hs show ?thesis by (auto simp: Graph_VertexCount_def)
qed

lemma decode_edge_keys:
  assumes "store_ok (db e)" "\<forall>(a, b) \<in> set es. edges e (a, b) \<noteq> None"
  shows "decode_edges s M (map (\<lambda>(a, b). edge_key s a b) es) e = Inr (map (\<lambda>(a, b). (a, b, the (edges e (a, b)))) es)"
  using assms(2)
proof (induction es)
  case (Cons ab es)
  obtain a b where ab: "ab = (a, b)" by (cases ab)
  with Cons.prems obtain p where p: "edges e (a, b) = Some p" by auto
  have "strings_Split1 (CHR '':'') (strings_TrimPrefix (go_string (edge_key s a b)) (gs_edgePrefix s @ '':'')) =
      [gs_text s a, gs_text s b]"
    by (simp add: edge_key_def strings_TrimPrefix_def strings_Split1_append strings_Split1_none text_colon)
  with Cons ab p show ?case by (simp add: text_decode Edge_refines [OF assms(1)])
qed simp

lemma ListEdges_exact:
  assumes "store_ok (db e)" "\<And>n. ctx_done n = None"
  shows "\<exists>es. Graph_ListEdges s M ctx_done e = Some (Inr es) \<and> distinct (map (\<lambda>(a, b, p). (a, b)) es) \<and>
    set es = {(a, b, p). edges e (a, b) = Some p} \<and> Graph_EdgeCount s M ctx_done e = Some (Inr (length es))"
proof -
  let ?ks = "filter (prefix (go_bytes (gs_edgePrefix s @ '':''))) (sorted_list_of_set (dom (db e)))"
  note scan = edge_scan [where ctx_done = ctx_done, OF assms]
  have "\<forall>k \<in> set ?ks. \<exists>ab. k = (\<lambda>(a, b). edge_key s a b) ab" using scan(2) by fastforce
  then obtain abs where abs: "?ks = map (\<lambda>(a, b). edge_key s a b) abs" unfolding ex_map_conv [symmetric] by blast
  have mem: "(a, b) \<in> set abs \<longleftrightarrow> edges e (a, b) \<noteq> None" for a b
  proof -
    have "(a, b) \<in> set abs \<longleftrightarrow> edge_key s a b \<in> set ?ks" unfolding abs by (force simp: edge_key_inject)
    also have "\<dots> \<longleftrightarrow> edges e (a, b) \<noteq> None" using scan(2) [of "edge_key s a b"] by (auto simp: edge_key_inject)
    finally show ?thesis .
  qed
  have "distinct (map (\<lambda>(a, b). edge_key s a b) abs)" unfolding abs [symmetric] by simp
  then have dist: "distinct abs" by (simp add: distinct_map)
  let ?es = "map (\<lambda>(a, b). (a, b, the (edges e (a, b)))) abs"
  have "\<forall>(a, b) \<in> set abs. edges e (a, b) \<noteq> None" using mem by blast
  with decode_edge_keys [OF assms(1)]
  have "decode_edges s M (map (\<lambda>(a, b). edge_key s a b) abs) e = Inr ?es" by blast
  then have "Graph_ListEdges s M ctx_done e = Some (Inr ?es)"
    by (simp only: Graph_ListEdges_def scan(1) abs) simp
  moreover have "map (\<lambda>(a, b, p). (a, b)) ?es = abs" by (simp add: case_prod_beta comp_def)
  moreover have "set ?es = {(a, b, p). edges e (a, b) = Some p}" using mem by force
  ultimately show ?thesis using dist by (auto simp: Graph_EdgeCount_def)
qed

end

section \<open>The contract: a pair of maps\<close>

text \<open>The calls that change the store, as values; \<open>graph_exec\<close> runs one of them.\<close>

datatype ('k, 'v, 'p) graph_op =
    Op_AddVertex 'k 'v | Op_RemoveVertex 'k | Op_AddEdge 'k 'k 'p | Op_UpdateEdge 'k 'k 'p | Op_RemoveEdge 'k 'k

fun graph_exec ::
  "('k, 'v, 'p) graph_store \<Rightarrow> 'e mdbx \<Rightarrow> (nat \<Rightarrow> go_error option) \<Rightarrow> ('k, 'v, 'p) graph_op \<Rightarrow> 'e \<Rightarrow>
    (go_error option \<times> 'e) option"
where
  "graph_exec s M ctx_done (Op_AddVertex h v) e = Some (Graph_AddVertex s M h v e)"
| "graph_exec s M ctx_done (Op_RemoveVertex h) e = Graph_RemoveVertex s M ctx_done h e"
| "graph_exec s M ctx_done (Op_AddEdge a b p) e = Some (Graph_AddEdge s M a b p e)"
| "graph_exec s M ctx_done (Op_UpdateEdge a b p) e = Some (Graph_UpdateEdge s M a b p e)"
| "graph_exec s M ctx_done (Op_RemoveEdge a b) e = Some (Graph_RemoveEdge s M a b e)"

text \<open>A sequence of calls that all succeed.\<close>

fun graph_run ::
  "('k, 'v, 'p) graph_store \<Rightarrow> 'e mdbx \<Rightarrow> (nat \<Rightarrow> go_error option) \<Rightarrow> ('k, 'v, 'p) graph_op list \<Rightarrow> 'e \<Rightarrow> 'e option"
where
  "graph_run s M ctx_done [] e = Some e"
| "graph_run s M ctx_done (c # cs) e =
     (case graph_exec s M ctx_done c e of
        Some (None, e) \<Rightarrow> graph_run s M ctx_done cs e
      | _ \<Rightarrow> None)"

text \<open>What each call does to the abstract graph: vertices by identifier, edges by their two ends.\<close>

type_synonym ('k, 'v, 'p) abs_graph = "('k \<Rightarrow> 'v option) \<times> ('k \<times> 'k \<Rightarrow> 'p option)"

fun abs_exec :: "('k, 'v, 'p) graph_op \<Rightarrow> ('k, 'v, 'p) abs_graph \<Rightarrow> ('k, 'v, 'p) abs_graph" where
  "abs_exec (Op_AddVertex h v) (V, E) = (V(h \<mapsto> v), E)"
| "abs_exec (Op_RemoveVertex h) (V, E) = (V(h := None), \<lambda>(a, b). if a = h \<or> b = h then None else E (a, b))"
| "abs_exec (Op_AddEdge a b p) (V, E) = (V, E((a, b) \<mapsto> p))"
| "abs_exec (Op_UpdateEdge a b p) (V, E) = (V, E((a, b) \<mapsto> p))"
| "abs_exec (Op_RemoveEdge a b) (V, E) = (V, E((a, b) := None))"

definition abs_graph :: "('k, 'v, 'p) graph_op list \<Rightarrow> ('k, 'v, 'p) abs_graph" where
  "abs_graph cs = fold abs_exec cs (Map.empty, Map.empty)"

context graph_backend
begin

lemma exec_refines:
  assumes "store_ok (db e)" "\<And>n. ctx_done n = None" "graph_exec s M ctx_done c e = Some (None, e')"
  shows "store_ok (db e') \<and> (vertices e', edges e') = abs_exec c (vertices e, edges e)"
proof (cases c)
  case (Op_AddVertex h v)
  with AddVertex_refines [OF assms(1), of h v None e'] assms(3) show ?thesis by simp
next
  case (Op_RemoveVertex h)
  with RemoveVertex_refines [where ctx_done = ctx_done, OF assms(1,2), of h] assms(3) show ?thesis by auto
next
  case (Op_AddEdge a b p)
  with put_edge_refines [OF assms(1), of _ _ a b p None e'] assms(3) show ?thesis by (auto simp: Graph_AddEdge_def)
next
  case (Op_UpdateEdge a b p)
  with put_edge_refines [OF assms(1), of _ _ a b p None e'] assms(3) show ?thesis by (auto simp: Graph_UpdateEdge_def)
next
  case (Op_RemoveEdge a b)
  with RemoveEdge_refines [OF assms(1), of a b None e'] assms(3) show ?thesis by simp
qed

lemma run_refines:
  assumes "store_ok (db e)" "\<And>n. ctx_done n = None" "graph_run s M ctx_done cs e = Some e'"
  shows "store_ok (db e') \<and> (vertices e', edges e') = fold abs_exec cs (vertices e, edges e)"
  using assms(1,3)
proof (induction cs arbitrary: e)
  case (Cons c cs)
  then obtain e1 where e1: "graph_exec s M ctx_done c e = Some (None, e1)" "graph_run s M ctx_done cs e1 = Some e'"
    by (auto split: option.splits)
  with exec_refines [where ctx_done = ctx_done, OF Cons.prems(1) assms(2) e1(1)] Cons.IH [of e1] show ?case by auto
qed simp

lemma run_from_empty:
  assumes "db e = Map.empty" "\<And>n. ctx_done n = None" "graph_run s M ctx_done cs e = Some e'" "abs_graph cs = (V, E)"
  shows "store_ok (db e')" "vertices e' = V" "edges e' = E"
proof -
  have "vertices e = Map.empty" "edges e = Map.empty" by (simp_all add: vertices_def edges_def fun_eq_iff assms(1))
  with run_refines [where ctx_done = ctx_done, OF _ assms(2,3)] assms(1,4) store_ok_empty
  show "store_ok (db e')" "vertices e' = V" "edges e' = E" by (auto simp: abs_graph_def)
qed

end

section \<open>When a call succeeds\<close>

text \<open>Writing always succeeds; a removal succeeds when what it removes is there.\<close>

fun graph_enabled :: "('k, 'v, 'p) graph_op \<Rightarrow> ('k, 'v, 'p) abs_graph \<Rightarrow> bool" where
  "graph_enabled (Op_RemoveVertex h) (V, E) \<longleftrightarrow> V h \<noteq> None"
| "graph_enabled (Op_RemoveEdge a b) (V, E) \<longleftrightarrow> E (a, b) \<noteq> None"
| "graph_enabled _ _ \<longleftrightarrow> True"

definition deletes_succeed :: "'e mdbx \<Rightarrow> ('e \<Rightarrow> bytes \<Rightarrow> bytes option) \<Rightarrow> bool" where
  "deletes_succeed M db \<longleftrightarrow> (\<forall>k e. db e k \<noteq> None \<longrightarrow> fst (txn_Del M k e) = None)"

lemma Db_Delete_succeeds:
  assumes "mdbx_laws M db" "reliable M" "deletes_succeed M db"
  shows "fst (Db_Delete M k e) = None \<longleftrightarrow> db e k \<noteq> None"
proof (cases "db e k")
  case None
  with Db_Delete_absent [OF assms(1)] show ?thesis by simp
next
  case (Some v)
  then have "fst (txn_Del M k e) = None" using assms(3) by (simp add: deletes_succeed_def)
  then have "txn_Del M k e = (None, snd (txn_Del M k e))" by (simp add: prod_eq_iff)
  with assms(2) Some show ?thesis by (fastforce simp: reliable_def Db_Delete_def)
qed

lemma Db_Set_succeeds:
  assumes "reliable M"
  shows "fst (Db_Set M k v e) = None"
proof -
  have "txn_Put M k v e = (None, snd (txn_Put M k v e))" using assms by (simp add: reliable_def prod_eq_iff)
  with assms show ?thesis by (fastforce simp: reliable_def Db_Set_def)
qed

context graph_backend
begin

lemma delete_keys_succeeds:
  assumes "reliable M" "deletes_succeed M db"
  shows "distinct ks \<Longrightarrow> \<forall>k \<in> set ks. db e k \<noteq> None \<Longrightarrow> \<exists>e'. delete_keys M f ks e = (None, e')"
proof (induction ks arbitrary: e)
  case (Cons k ks)
  obtain e1 where d: "Db_Delete M k e = (None, e1)"
    using Db_Delete_succeeds [OF laws assms, of k e] Cons.prems(2) by (cases "Db_Delete M k e") auto
  then have "db e1 = (db e)(k := None)" using Db_Delete_effect by fastforce
  then have "\<exists>e'. delete_keys M f ks e1 = (None, e')" using Cons.prems by (intro Cons.IH) auto
  with d show ?case by simp
qed simp

lemma RemoveVertex_succeeds:
  assumes "store_ok (db e)" "\<And>n. ctx_done n = None" "reliable M" "deletes_succeed M db" "vertices e h \<noteq> None"
  shows "\<exists>e'. Graph_RemoveVertex s M ctx_done h e = Some (None, e')"
proof -
  have "db e (vertex_key s h) \<noteq> None" using assms(5) by (auto simp: vertices_def split: option.splits)
  then obtain e1 where d1: "Db_Delete M (vertex_key s h) e = (None, e1)"
    using Db_Delete_succeeds [OF laws assms(3,4)] by (metis prod.collapse)
  have fin: "finite (dom (db x))" for x using cursor by (simp add: cursor_laws_def)
  note scan = keys_with_prefix [where ctx_done = ctx_done, OF cursor assms(2)]
  let ?ks = "\<lambda>p x. filter (prefix (go_bytes p)) (sorted_list_of_set (dom (db x)))"
  have ks: "distinct (filter P (?ks p x))" "\<forall>k \<in> set (filter P (?ks p x)). db x k \<noteq> None" for P p x
    using fin by auto
  obtain e2 where d2: "delete_keys M ''failed to delete outgoing edge %s''
      (?ks (gs_edgePrefix s @ '':'' @ gs_text s h @ '':'') e1) e1 = (None, e2)"
    using delete_keys_succeeds [OF assms(3,4)] ks [where P = "\<lambda>_. True"] by (metis filter_True)
  obtain e3 where d3: "delete_keys M ''failed to delete incoming edge %s''
      (filter (incoming s h) (?ks (gs_edgePrefix s @ '':'') e2)) e2 = (None, e3)"
    using delete_keys_succeeds [OF assms(3,4) ks] by blast
  show ?thesis by (simp add: Graph_RemoveVertex_def d1 scan d2 [simplified] d3 [simplified])
qed

lemma exec_succeeds:
  assumes "store_ok (db e)" "\<And>n. ctx_done n = None" "reliable M" "deletes_succeed M db"
    and "\<And>v. \<exists>bs. gs_MarshalVertex s v = Inr bs" "\<And>p. \<exists>bs. gs_MarshalEdge s p = Inr bs"
  shows "(\<exists>e'. graph_exec s M ctx_done c e = Some (None, e')) \<longleftrightarrow> graph_enabled c (vertices e, edges e)"
proof -
  have put: "\<exists>e'. put_json M x y k j e = (None, e')" if "\<exists>bs. j = Inr bs" for x y k j
  proof -
    obtain bs where "j = Inr bs" using \<open>\<exists>bs. j = Inr bs\<close> by blast
    with Db_Set_succeeds [OF assms(3), of k bs e] show ?thesis
      by (cases "Db_Set M k bs e") (simp add: put_json_def)
  qed
  show ?thesis
  proof (cases c)
    case (Op_RemoveVertex h)
    have "vertices e h = None \<longleftrightarrow> db e (vertex_key s h) = None"
      using stored_vertex [OF assms(1)] by (fastforce simp: vertices_def split: option.splits)
    then have "Graph_RemoveVertex s M ctx_done h e \<noteq> Some (None, e')" if "vertices e h = None" for e'
      using Db_Delete_absent [OF laws, of e "vertex_key s h"] that
      by (auto simp: Graph_RemoveVertex_def split: prod.splits)
    with RemoveVertex_succeeds [where ctx_done = ctx_done, OF assms(1-4)] Op_RemoveVertex show ?thesis by auto
  next
    case (Op_RemoveEdge a b)
    have "edges e (a, b) = None \<longleftrightarrow> db e (edge_key s a b) = None"
      using stored_edge [OF assms(1)] by (fastforce simp: edges_def split: option.splits)
    with Db_Delete_succeeds [OF laws assms(3,4), of "edge_key s a b" e] Op_RemoveEdge
    show ?thesis by (auto simp: Graph_RemoveEdge_def Let_def split: prod.splits)
  qed (use put assms(5,6) in \<open>auto simp: Graph_AddVertex_def Graph_AddEdge_def Graph_UpdateEdge_def\<close>)
qed

end

section \<open>The ledger's graph\<close>

text \<open>
  \<open>NewLedger\<close> instantiates the store with block hashes as identifiers and the prefixes \<open>vertex\<close> and \<open>edge\<close>; what JSON
  does with a block and with edge properties is left as two pairs of functions.
\<close>

definition ledger_graph_store ::
  "('v \<Rightarrow> bytes result) \<Rightarrow> (bytes \<Rightarrow> 'v result) \<Rightarrow> ('p \<Rightarrow> bytes result) \<Rightarrow> (bytes \<Rightarrow> 'p result) \<Rightarrow>
    (hash, 'v, 'p) graph_store" where
  "ledger_graph_store mv uv me ue = \<lparr> gs_vertexPrefix = ''vertex'', gs_edgePrefix = ''edge'', gs_text = Hash_String,
     gs_decodeID = decodeID_hash, gs_MarshalVertex = mv, gs_UnmarshalVertex = uv, gs_MarshalEdge = me, gs_UnmarshalEdge = ue \<rparr>"

lemma decodeID_hash_String: "decodeID_hash (Hash_String h) = Inr h"
  by (simp add: decodeID_hash_def Hash_String_def Hash_UnmarshalBinary_def)

lemma hex_digit_no_colon: "n < 16 \<Longrightarrow> hex_digit n \<noteq> CHR '':''"
  by (drule less_16_cases) (auto simp: hex_digit_def)

lemma Hash_String_no_colon: "CHR '':'' \<notin> set (Hash_String h)"
proof -
  have "unat b div 16 < 16" "unat b mod 16 < 16" for b :: byte
    using unsigned_less [of b, where ?'a = nat] by auto
  then show ?thesis by (auto simp: Hash_String_def hex_EncodeToString_def hex_digit_no_colon [symmetric])
qed

definition json_reads_back :: "('a \<Rightarrow> bytes result) \<Rightarrow> (bytes \<Rightarrow> 'a result) \<Rightarrow> bool" where
  "json_reads_back marshal unmarshal \<longleftrightarrow> (\<forall>x bs. marshal x = Inr bs \<longrightarrow> unmarshal bs = Inr x)"

lemma ledger_graph_backend:
  assumes "mdbx_laws M db" "cursor_laws M db" "json_reads_back mv uv" "json_reads_back me ue"
  shows "graph_backend (ledger_graph_store mv uv me ue) M db"
  using assms by unfold_locales
    (auto simp: ledger_graph_store_def json_reads_back_def decodeID_hash_String Hash_String_no_colon)

interpretation block_graph: graph_backend "ledger_graph_store Inr Inr Inr Inr" mem_mdbx fmlookup
  by (rule ledger_graph_backend) (simp_all add: mem_mdbx_laws mem_mdbx_cursor_laws json_reads_back_def)

text \<open>
  C11: The store the ledger gives to the graph library behaves as a graph.  After any sequence of its calls that
  succeeded on a new database, looking a vertex or an edge up gives what the two maps of the abstract graph
  hold, where removing a vertex removed the edges at both its ends and an update writes like an addition; the
  lists of vertices and edges contain each of them exactly once, and the counts are their numbers.
\<close>

theorem graph_store_refines:
  fixes mv :: "'v \<Rightarrow> bytes result" and me :: "'p \<Rightarrow> bytes result"
  assumes "mdbx_laws M db" "cursor_laws M db" "json_reads_back mv uv" "json_reads_back me ue" "\<And>n. ctx_done n = None"
    and "db e0 = Map.empty" "s = ledger_graph_store mv uv me ue" "graph_run s M ctx_done cs e0 = Some e" "abs_graph cs = (V, E)"
  shows "(\<forall>h. Graph_Vertex s M h e = (case V h of None \<Rightarrow> Inl ErrGraphVertexNotFound | Some v \<Rightarrow> Inr v)) \<and>
    (\<forall>a b. Graph_Edge s M a b e = (case E (a, b) of None \<Rightarrow> Inl ErrGraphEdgeNotFound | Some p \<Rightarrow> Inr (a, b, p))) \<and>
    (\<exists>hs. Graph_ListVertices s M ctx_done e = Some (Inr hs) \<and> distinct hs \<and> set hs = dom V \<and>
       Graph_VertexCount s M ctx_done e = Some (Inr (length hs))) \<and>
    (\<exists>es. Graph_ListEdges s M ctx_done e = Some (Inr es) \<and> distinct (map (\<lambda>(a, b, p). (a, b)) es) \<and>
       set es = {(a, b, p). E (a, b) = Some p} \<and> Graph_EdgeCount s M ctx_done e = Some (Inr (length es)))"
proof -
  have backend: "graph_backend s M db" using ledger_graph_backend [OF assms(1-4)] assms(7) by simp
  note view = graph_backend.run_from_empty [where ctx_done = ctx_done, OF backend assms(6,5,8,9)]
  show ?thesis
    using graph_backend.Vertex_refines [OF backend view(1)] graph_backend.Edge_refines [OF backend view(1)]
      graph_backend.ListVertices_exact [where ctx_done = ctx_done, OF backend view(1) assms(5)]
      graph_backend.ListEdges_exact [where ctx_done = ctx_done, OF backend view(1) assms(5)]
    by (simp add: view(2,3))
qed

lemma mem_mdbx_deletes: "deletes_succeed mem_mdbx fmlookup"
  by (auto simp: deletes_succeed_def mem_mdbx_def split: option.splits)

text \<open>
  A short history on the in-memory database: a vertex, an edge from it to itself, then the vertex is removed.
\<close>

definition sample_calls :: "(hash, bytes, bytes) graph_op list" where
  "sample_calls = [Op_AddVertex ZeroHash [1], Op_AddEdge ZeroHash ZeroHash [2], Op_RemoveVertex ZeroHash]"

lemma fmlookup_empty: "fmlookup fmempty = Map.empty"
  by (simp add: fun_eq_iff)

lemma sample_abs_graph: "abs_graph sample_calls = (Map.empty, Map.empty)"
  by (auto simp: abs_graph_def sample_calls_def fun_eq_iff)

lemma sample_graph_run:
  "\<exists>e. graph_run (ledger_graph_store Inr Inr Inr Inr) mem_mdbx (\<lambda>_. None) sample_calls fmempty = Some e"
proof -
  let ?s = "ledger_graph_store Inr Inr Inr Inr :: (hash, bytes, bytes) graph_store"
  obtain e where pre: "graph_run ?s mem_mdbx (\<lambda>_. None) (take 2 sample_calls) fmempty = Some e"
    by (simp add: sample_calls_def Graph_AddVertex_def Graph_AddEdge_def put_json_def Db_Set_def mem_mdbx_def
        ledger_graph_store_def)
  have "abs_graph (take 2 sample_calls) = ([ZeroHash \<mapsto> [1]], [(ZeroHash, ZeroHash) \<mapsto> [2]])"
    by (simp add: abs_graph_def sample_calls_def)
  note view = block_graph.run_from_empty [OF fmlookup_empty _ pre this]
  have "block_graph.vertices e ZeroHash \<noteq> None" using view(2) by simp
  with block_graph.RemoveVertex_succeeds [OF view(1) _ mem_mdbx_reliable mem_mdbx_deletes this, of "\<lambda>_. None"]
  obtain e' where "Graph_RemoveVertex ?s mem_mdbx (\<lambda>_. None) ZeroHash e = Some (None, e')" by blast
  with pre show ?thesis by (auto simp: sample_calls_def split: option.splits prod.splits)
qed

theorem graph_store_refines_witness:
  "\<exists>e. graph_run (ledger_graph_store Inr Inr Inr Inr) mem_mdbx (\<lambda>_. None) sample_calls fmempty = Some e \<and>
     Graph_Vertex (ledger_graph_store Inr Inr Inr Inr) mem_mdbx ZeroHash e = Inl ErrGraphVertexNotFound \<and>
     Graph_ListEdges (ledger_graph_store Inr Inr Inr Inr) mem_mdbx (\<lambda>_. None) e = Some (Inr [])"
proof -
  obtain e where e: "graph_run (ledger_graph_store Inr Inr Inr Inr) mem_mdbx (\<lambda>_. None) sample_calls fmempty = Some e"
    using sample_graph_run by blast
  have json: "json_reads_back Inr Inr" by (simp add: json_reads_back_def)
  have none: "{(a, b, p). False} = {}" by auto
  show ?thesis
    using graph_store_refines [OF mem_mdbx_laws mem_mdbx_cursor_laws json json _ fmlookup_empty refl e sample_abs_graph] e
    by (auto simp: none)
qed

text \<open>
  On a graph built by successful calls, with a database that takes writes and JSON that encodes every
  value, the next call succeeds exactly when it is not the removal of something absent: removing a vertex that is
  there goes through both passes over the edges without an error, and removing an absent vertex or edge is refused.
\<close>

theorem graph_call_succeeds:
  fixes mv :: "'v \<Rightarrow> bytes result" and me :: "'p \<Rightarrow> bytes result"
  assumes "mdbx_laws M db" "cursor_laws M db" "reliable M" "deletes_succeed M db"
    and "json_reads_back mv uv" "json_reads_back me ue" "\<And>v. \<exists>bs. mv v = Inr bs" "\<And>p. \<exists>bs. me p = Inr bs"
    and "\<And>n. ctx_done n = None" "db e0 = Map.empty" "s = ledger_graph_store mv uv me ue"
    and "graph_run s M ctx_done cs e0 = Some e"
  shows "(\<exists>e'. graph_exec s M ctx_done c e = Some (None, e')) \<longleftrightarrow> graph_enabled c (abs_graph cs)"
proof -
  have backend: "graph_backend s M db" using ledger_graph_backend [OF assms(1,2,5,6)] assms(11) by simp
  obtain V E where VE: "abs_graph cs = (V, E)" by fastforce
  note view = graph_backend.run_from_empty [where ctx_done = ctx_done, OF backend assms(10,9,12) VE]
  have "\<exists>bs. gs_MarshalVertex s v = Inr bs" "\<exists>bs. gs_MarshalEdge s p = Inr bs" for v p
    using assms(7,8) by (simp_all add: assms(11) ledger_graph_store_def)
  from graph_backend.exec_succeeds [where ctx_done = ctx_done, OF backend view(1) assms(9,3,4) this]
  show ?thesis by (simp add: view(2,3) VE)
qed

theorem graph_call_succeeds_witness:
  "\<nexists>e'. graph_exec (ledger_graph_store Inr Inr Inr Inr :: (hash, bytes, bytes) graph_store) mem_mdbx (\<lambda>_. None)
     (Op_RemoveEdge ZeroHash ZeroHash) fmempty = Some (None, e')"
proof -
  have json: "json_reads_back Inr Inr" by (simp add: json_reads_back_def)
  show ?thesis
    using graph_call_succeeds [where ctx_done = "\<lambda>_. None" and mv = Inr and me = Inr and cs = "[]" and e = fmempty and e0 = fmempty
        and c = "Op_RemoveEdge ZeroHash ZeroHash",
        OF mem_mdbx_laws mem_mdbx_cursor_laws mem_mdbx_reliable mem_mdbx_deletes json json _ _ _ _ refl]
    by (simp add: abs_graph_def fun_eq_iff)
qed

end
