(* ===== verification/Dleq_Signer.thy ===== *)
theory Dleq_Signer
  imports Signatures
begin

text \<open>
  \<open>pkg/signatures/dleq.go\<close>: the third implementation of \<open>Signer\<close>, whose signatures are proofs that two discrete
  logarithms are equal, with the message appended to the domain separation tag.  The group and the proof system are
  a third-party library (\<open>circl\<close>), so their operations are the fields of \<open>dleq_lib\<close>.  Shown here: a generated
  key pair survives being stored and loaded, what the signer signs it verifies, the decoder of public keys never
  reads out of range, and the points at which this signer departs from the contract of the two others.
\<close>

section \<open>The library\<close>

text \<open>\<open>dleq.Params\<close>; a nil group is \<open>None\<close>, and the hash is its number in package \<open>crypto\<close>.\<close>

record 'g dleq_params =
  dp_G :: "'g option"
  dp_H :: nat
  dp_DST :: bytes

definition crypto_SHA256 :: nat where "crypto_SHA256 = 5"

record ('g, 'sc, 'el, 'pf) dleq_lib =
  grp_P256 :: 'g
  grp_RandomScalar :: "'g \<Rightarrow> 'sc"
  grp_Generator :: "'g \<Rightarrow> 'el"
  grp_NewElement :: "'g \<Rightarrow> 'el"
  grp_NewScalar :: "'g \<Rightarrow> 'sc"
  el_Mul :: "'el \<Rightarrow> 'el \<Rightarrow> 'sc \<Rightarrow> 'el"
  el_MarshalBinary :: "'el \<Rightarrow> bytes result"
  el_UnmarshalBinary :: "'el \<Rightarrow> bytes \<Rightarrow> go_error option \<times> 'el"
  sc_MarshalBinary :: "'sc \<Rightarrow> bytes result"
  sc_UnmarshalBinary :: "'sc \<Rightarrow> bytes \<Rightarrow> go_error option \<times> 'sc"
  prover_Prove :: "'g dleq_params \<Rightarrow> 'sc \<Rightarrow> 'el \<Rightarrow> 'el \<Rightarrow> 'el \<Rightarrow> 'el \<Rightarrow> 'pf result"
  proof_MarshalBinary :: "'pf \<Rightarrow> bytes result"
  proof_UnmarshalBinary :: "'g \<Rightarrow> bytes \<Rightarrow> 'pf result"
  verifier_Verify :: "'g dleq_params \<Rightarrow> 'el \<Rightarrow> 'el \<Rightarrow> 'el \<Rightarrow> 'el \<Rightarrow> 'pf \<Rightarrow> bool"

text \<open>A method call on a nil group.\<close>

definition with_group :: "'g dleq_params \<Rightarrow> ('g \<Rightarrow> 'a result) \<Rightarrow> 'a result" where
  "with_group params f =
     (case dp_G params of None \<Rightarrow> Inl (Panic ''nil pointer dereference'') | Some g \<Rightarrow> f g)"

section \<open>Keys\<close>

record ('g, 'sc, 'el) zk_key_pair =
  zk_PrivateKey :: "'sc option"
  zk_PublicKeyA :: "'el option"
  zk_PublicKeyB :: "'el option"
  zk_Params :: "'g dleq_params"

definition domain_sep :: bytes where "domain_sep = go_bytes ''zkproof_domain_sep_string''"

definition p256_params :: "('g, 'sc, 'el, 'pf) dleq_lib \<Rightarrow> 'g dleq_params" where
  "p256_params L = \<lparr>dp_G = Some (grp_P256 L), dp_H = crypto_SHA256, dp_DST = domain_sep\<rparr>"

definition ZK_GenerateKey ::
  "('g, 'sc, 'el, 'pf) dleq_lib \<Rightarrow> ('g, 'sc, 'el) zk_key_pair \<Rightarrow> go_error option \<times> ('g, 'sc, 'el) zk_key_pair" where
  "ZK_GenerateKey L kp =
     (let g = grp_P256 L; k = grp_RandomScalar L g; A = grp_Generator L g; B = grp_Generator L g in
      (None, kp\<lparr>zk_Params := p256_params L, zk_PrivateKey := Some k,
         zk_PublicKeyA := Some (el_Mul L (grp_NewElement L g) A k),
         zk_PublicKeyB := Some (el_Mul L (grp_NewElement L g) B k)\<rparr>))"

definition ZK_SerializePrivate :: "('g, 'sc, 'el, 'pf) dleq_lib \<Rightarrow> ('g, 'sc, 'el) zk_key_pair \<Rightarrow> bytes result" where
  "ZK_SerializePrivate L kp =
     (case zk_PrivateKey kp of
        None \<Rightarrow> Inl (ErrorS ''private key is nil'')
      | Some k \<Rightarrow> sc_MarshalBinary L k)"

text \<open>\<open>xs[i] = b\<close> and \<open>copy(xs[i:], src)\<close>: out of range is a run-time panic, and \<open>copy\<close> stops at the shorter end.\<close>

definition set_byte :: "bytes \<Rightarrow> nat \<Rightarrow> byte \<Rightarrow> bytes result" where
  "set_byte xs i b =
     (if i < length xs then Inr (xs[i := b]) else Inl (Panic ''index out of range''))"

definition copy_at :: "bytes \<Rightarrow> nat \<Rightarrow> bytes \<Rightarrow> bytes result" where
  "copy_at xs i src =
     (if i \<le> length xs then Inr (take i xs @ take (length xs - i) src @ drop (i + length src) xs)
      else Inl (Panic ''slice bounds out of range''))"

text \<open>The lengths, the size of the buffer and the offsets are \<open>uint16\<close> and wrap.\<close>

definition pack_two :: "bytes \<Rightarrow> bytes \<Rightarrow> bytes result" where
  "pack_two dataA dataB =
     (let lenA = word_of_nat (length dataA) :: uint16;
          lenB = word_of_nat (length dataB) :: uint16;
          offset = 2 + lenA
      in bindE (set_byte (replicate (unat (2 + lenA + 2 + lenB)) 0) 0 (ucast (drop_bit 8 lenA))) (\<lambda>s.
         bindE (set_byte s 1 (ucast lenA)) (\<lambda>s.
         bindE (copy_at s 2 dataA) (\<lambda>s.
         bindE (set_byte s (unat offset) (ucast (drop_bit 8 lenB))) (\<lambda>s.
         bindE (set_byte s (unat (offset + 1)) (ucast lenB)) (\<lambda>s.
         copy_at s (unat (offset + 2)) dataB))))))"

definition ZK_SerializePublic :: "('g, 'sc, 'el, 'pf) dleq_lib \<Rightarrow> ('g, 'sc, 'el) zk_key_pair \<Rightarrow> bytes result" where
  "ZK_SerializePublic L kp =
     (case (zk_PublicKeyA kp, zk_PublicKeyB kp) of
        (Some A, Some B) \<Rightarrow>
          bindE (wrapE ''failed to marshal PublicKeyA'' (el_MarshalBinary L A)) (\<lambda>dataA.
          bindE (wrapE ''failed to marshal PublicKeyB'' (el_MarshalBinary L B)) (\<lambda>dataB.
          pack_two dataA dataB))
      | _ \<Rightarrow> Inl (ErrorS ''public keys are nil''))"

definition ZK_DeserializePrivate ::
  "('g, 'sc, 'el, 'pf) dleq_lib \<Rightarrow> bytes \<Rightarrow> ('g, 'sc, 'el) zk_key_pair \<Rightarrow> go_error option \<times> ('g, 'sc, 'el) zk_key_pair" where
  "ZK_DeserializePrivate L data kp =
     (case dp_G (zk_Params kp) of
        None \<Rightarrow> (Some (ErrorS ''group not initialized''), kp)
      | Some g \<Rightarrow>
          (let k = (case zk_PrivateKey kp of None \<Rightarrow> grp_NewScalar L g | Some k \<Rightarrow> k);
               (err, k') = sc_UnmarshalBinary L k data
           in (map_option (wrap_error ''failed to unmarshal private key'') err, kp\<lparr>zk_PrivateKey := Some k'\<rparr>)))"

text \<open>The two length-prefixed parts, by the bounds the code checks before each access.\<close>

definition byte_at :: "bytes \<Rightarrow> nat \<Rightarrow> nat result" where
  "byte_at xs i = (if i < length xs then Inr (unat (xs ! i)) else Inl (Panic ''index out of range''))"

definition unpack_two :: "bytes \<Rightarrow> (bytes \<times> bytes) result" where
  "unpack_two data =
     (if length data < 4 then Inl (ErrorS ''invalid public key data length'')
      else
        bindE (byte_at data 0) (\<lambda>b0. bindE (byte_at data 1) (\<lambda>b1.
        let lenA = 256 * b0 + b1 in
        if length data < 2 + lenA + 2 then Inl (ErrorS ''invalid public key data length'')
        else
          bindE (slice data 2 (2 + lenA)) (\<lambda>dataA.
          let offset = 2 + lenA in
          bindE (byte_at data offset) (\<lambda>b2. bindE (byte_at data (offset + 1)) (\<lambda>b3.
          let lenB = 256 * b2 + b3 in
          if length data < offset + 2 + lenB then Inl (ErrorS ''invalid public key data length'')
          else bindE (slice data (offset + 2) (offset + 2 + lenB)) (\<lambda>dataB. Inr (dataA, dataB))))))))"

definition ZK_DeserializePublic ::
  "('g, 'sc, 'el, 'pf) dleq_lib \<Rightarrow> bytes \<Rightarrow> ('g, 'sc, 'el) zk_key_pair \<Rightarrow> go_error option \<times> ('g, 'sc, 'el) zk_key_pair" where
  "ZK_DeserializePublic L data kp =
     (case dp_G (zk_Params kp) of
        None \<Rightarrow> (Some (ErrorS ''group not initialized''), kp)
      | Some g \<Rightarrow>
          (case unpack_two data of
             Inl err \<Rightarrow> (Some err, kp)
           | Inr (dataA, dataB) \<Rightarrow>
               (case el_UnmarshalBinary L (grp_NewElement L g) dataA of
                  (Some err, A) \<Rightarrow> (Some (wrap_error ''failed to unmarshal PublicKeyA'' err), kp\<lparr>zk_PublicKeyA := Some A\<rparr>)
                | (None, A) \<Rightarrow>
                    (let (err, B) = el_UnmarshalBinary L (grp_NewElement L g) dataB
                     in (map_option (wrap_error ''failed to unmarshal PublicKeyB'') err,
                         kp\<lparr>zk_PublicKeyA := Some A, zk_PublicKeyB := Some B\<rparr>)))))"

definition ZK_GetPublic :: "('g, 'sc, 'el) zk_key_pair \<Rightarrow> 'el option list" where
  "ZK_GetPublic kp = [zk_PublicKeyA kp, zk_PublicKeyB kp]"

section \<open>The signer\<close>

definition empty_zk_pair :: "'g dleq_params \<Rightarrow> ('g, 'sc, 'el) zk_key_pair" where
  "empty_zk_pair params = \<lparr>zk_PrivateKey = None, zk_PublicKeyA = None, zk_PublicKeyB = None, zk_Params = params\<rparr>"

definition NewZKProofSigner :: "('g, 'sc, 'el, 'pf) dleq_lib \<Rightarrow> ('g, 'sc, 'el) zk_key_pair result" where
  "NewZKProofSigner L =
     (case ZK_GenerateKey L (empty_zk_pair \<lparr>dp_G = None, dp_H = 0, dp_DST = []\<rparr>) of
        (Some err, _) \<Rightarrow> Inl err
      | (None, kp) \<Rightarrow> Inr kp)"

definition NewZKProofSignerWithKeys ::
  "('g, 'sc, 'el, 'pf) dleq_lib \<Rightarrow> bytes \<Rightarrow> bytes \<Rightarrow> ('g, 'sc, 'el) zk_key_pair result" where
  "NewZKProofSignerWithKeys L privateKeyData publicKeyData =
     (case ZK_DeserializePrivate L privateKeyData (empty_zk_pair (p256_params L)) of
        (Some err, _) \<Rightarrow> Inl err
      | (None, kp) \<Rightarrow>
          (case ZK_DeserializePublic L publicKeyData kp of
             (Some err, _) \<Rightarrow> Inl err
           | (None, kp) \<Rightarrow> Inr kp))"

text \<open>An element that is nil is dereferenced by the library.\<close>

definition deref :: "'a option \<Rightarrow> 'a result" where
  "deref x = (case x of None \<Rightarrow> Inl (Panic ''nil pointer dereference'') | Some v \<Rightarrow> Inr v)"

definition ZKProofSigner_Sign ::
  "('g, 'sc, 'el, 'pf) dleq_lib \<Rightarrow> ('g, 'sc, 'el) zk_key_pair \<Rightarrow> bytes \<Rightarrow> bytes result" where
  "ZKProofSigner_Sign L kp data =
     (case zk_PrivateKey kp of
        None \<Rightarrow> Inl (ErrorS ''private key is nil'')
      | Some k \<Rightarrow>
          (let params = (zk_Params kp)\<lparr>dp_DST := dp_DST (zk_Params kp) @ data\<rparr> in
           with_group params (\<lambda>g.
           bindE (deref (zk_PublicKeyA kp)) (\<lambda>A. bindE (deref (zk_PublicKeyB kp)) (\<lambda>B.
           bindE (wrapE ''failed to create DLEQ proof''
             (prover_Prove L params k (grp_Generator L g) A (grp_Generator L g) B)) (\<lambda>pf.
           wrapE ''failed to marshal proof'' (proof_MarshalBinary L pf)))))))"

definition ZKProofSigner_Verify ::
  "('g, 'sc, 'el, 'pf) dleq_lib \<Rightarrow> ('g, 'sc, 'el) zk_key_pair \<Rightarrow> bytes \<Rightarrow> bytes \<Rightarrow> bool \<times> go_error option" where
  "ZKProofSigner_Verify L kp data signature =
     (case (zk_PublicKeyA kp, zk_PublicKeyB kp) of
        (Some A, Some B) \<Rightarrow>
          (let params = (zk_Params kp)\<lparr>dp_DST := dp_DST (zk_Params kp) @ data\<rparr> in
           case with_group params (\<lambda>g.
             bindE (wrapE ''failed to unmarshal DLEQ proof'' (proof_UnmarshalBinary L g signature)) (\<lambda>pf.
             if verifier_Verify L params (grp_Generator L g) A (grp_Generator L g) B pf then Inr ()
             else Inl (ErrorS ''DLEQ proof is invalid''))) of
             Inl err \<Rightarrow> (False, Some err)
           | Inr _ \<Rightarrow> (True, None))
      | _ \<Rightarrow> (False, Some (ErrorS ''public keys are nil'')))"

definition ZKProof_signer :: "('g, 'sc, 'el, 'pf) dleq_lib \<Rightarrow> ('g, 'sc, 'el) zk_key_pair \<Rightarrow> signer" where
  "ZKProof_signer L kp = \<lparr>sg_Type = DleqSignerType, sg_Sign = ZKProofSigner_Sign L kp, sg_Verify = ZKProofSigner_Verify L kp\<rparr>"

section \<open>Length-prefixed parts\<close>

lemma split_uint16:
  fixes w :: uint16
  shows "256 * unat (ucast (drop_bit 8 w) :: byte) + unat (ucast w :: byte) = unat w"
proof -
  have "unat w < 65536" using unsigned_less [of w, where ?'a = nat] by simp
  moreover from this have "unat (ucast (drop_bit 8 w) :: byte) = unat w div 256 mod 256"
    by (simp add: unsigned_ucast_eq unsigned_drop_bit_eq take_bit_eq_mod) (simp add: drop_bit_eq_div)
  ultimately show ?thesis by (simp add: unsigned_ucast_eq take_bit_eq_mod)
qed


lemma pack_two_small:
  assumes "length dataA + length dataB + 4 < 2 ^ 16"
  shows "pack_two dataA dataB = Inr
    ([ucast (drop_bit 8 (word_of_nat (length dataA) :: uint16)), ucast (word_of_nat (length dataA) :: uint16)] @ dataA @
     [ucast (drop_bit 8 (word_of_nat (length dataB) :: uint16)), ucast (word_of_nat (length dataB) :: uint16)] @ dataB)"
proof -
  define lenA where "lenA = (word_of_nat (length dataA) :: uint16)"
  define lenB where "lenB = (word_of_nat (length dataB) :: uint16)"
  have len: "unat lenA = length dataA" "unat lenB = length dataB"
    using assms by (simp_all add: lenA_def lenB_def unat_of_nat)
  have off: "unat (2 + lenA + 2 + lenB) = 4 + length dataA + length dataB" "unat (2 + lenA) = 2 + length dataA"
    "unat (2 + lenA + 1) = 3 + length dataA" "unat (2 + lenA + 2) = 4 + length dataA"
    using assms by (simp_all add: len unat_word_ariths)
  have rep: "replicate (4 + length dataA + length dataB) (0 :: byte) = 0 # 0 # replicate (length dataA) 0 @ 0 # 0 # replicate (length dataB) 0"
    by (simp add: replicate_add numeral_eq_Suc replicate_app_Cons_same)
  show ?thesis
    unfolding pack_two_def Let_def lenA_def [symmetric] lenB_def [symmetric] off rep
    by (simp add: set_byte_def copy_at_def nth_append list_update_append numeral_eq_Suc)
qed

lemma unpack_pack_two:
  assumes "length dataA + length dataB + 4 < 2 ^ 16" "pack_two dataA dataB = Inr bs"
  shows "unpack_two bs = Inr (dataA, dataB)"
proof -
  define lenA where "lenA = (word_of_nat (length dataA) :: uint16)"
  define lenB where "lenB = (word_of_nat (length dataB) :: uint16)"
  have len: "unat lenA = length dataA" "unat lenB = length dataB"
    using assms(1) by (simp_all add: lenA_def lenB_def unat_of_nat)
  have bs: "bs = ucast (drop_bit 8 lenA) # ucast lenA # dataA @ ucast (drop_bit 8 lenB) # ucast lenB # dataB"
    using pack_two_small [OF assms(1)] assms(2) by (simp add: lenA_def lenB_def)
  show ?thesis
    using split_uint16 [of lenA] split_uint16 [of lenB]
    by (simp add: bs unpack_two_def byte_at_def slice_def nth_append Let_def len)
qed

lemma unpack_two_safe: "\<not> panics (unpack_two data)"
  by (auto simp: unpack_two_def byte_at_def slice_def Let_def)

section \<open>What the library promises\<close>

text \<open>
  A proof made with the key that gave both elements is accepted under the same parameters (completeness), and what
  the library marshals it reads back; an element is at most 65 bytes long.
\<close>

definition dleq_laws :: "('g, 'sc, 'el, 'pf) dleq_lib \<Rightarrow> bool" where
  "dleq_laws L \<longleftrightarrow>
     (\<forall>p g k A B r r'. dp_G p = Some g \<longrightarrow> (\<exists>pf. prover_Prove L p k A (el_Mul L r A k) B (el_Mul L r' B k) = Inr pf \<and>
        verifier_Verify L p A (el_Mul L r A k) B (el_Mul L r' B k) pf \<and>
        (\<exists>bs. proof_MarshalBinary L pf = Inr bs \<and> proof_UnmarshalBinary L g bs = Inr pf))) \<and>
     (\<forall>x bs y. el_MarshalBinary L x = Inr bs \<longrightarrow> length bs \<le> 65 \<and> el_UnmarshalBinary L y bs = (None, x)) \<and>
     (\<forall>x bs y. sc_MarshalBinary L x = Inr bs \<longrightarrow> sc_UnmarshalBinary L y bs = (None, x))"

lemma dleq_complete:
  assumes "dleq_laws L" "dp_G p = Some g"
  shows "\<exists>pf bs. prover_Prove L p k A (el_Mul L r A k) B (el_Mul L r' B k) = Inr pf \<and>
    verifier_Verify L p A (el_Mul L r A k) B (el_Mul L r' B k) pf \<and>
    proof_MarshalBinary L pf = Inr bs \<and> proof_UnmarshalBinary L g bs = Inr pf"
  using assms unfolding dleq_laws_def by blast

lemma ZK_pair_loads:
  assumes "dleq_laws L" "zk_PrivateKey kp = Some k" "zk_PublicKeyA kp = Some A" "zk_PublicKeyB kp = Some B"
    "zk_Params kp = p256_params L" "ZK_SerializePrivate L kp = Inr skb" "ZK_SerializePublic L kp = Inr pkb"
  shows "NewZKProofSignerWithKeys L skb pkb = Inr kp"
proof -
  have sk: "sc_UnmarshalBinary L y skb = (None, k)" for y
    using assms(1,2,6) by (simp add: ZK_SerializePrivate_def dleq_laws_def)
  obtain dA dB where d: "el_MarshalBinary L A = Inr dA" "el_MarshalBinary L B = Inr dB" "pack_two dA dB = Inr pkb"
    using assms(3,4,7) by (auto simp: ZK_SerializePublic_def bindE_eq_Inr)
  then have el: "length dA \<le> 65" "length dB \<le> 65" "el_UnmarshalBinary L y dA = (None, A)" "el_UnmarshalBinary L y dB = (None, B)" for y
    using assms(1) unfolding dleq_laws_def by blast+
  have "unpack_two pkb = Inr (dA, dB)" using unpack_pack_two [OF _ d(3)] el(1,2) by simp
  with sk el assms(2-5) show ?thesis
    by (simp add: NewZKProofSignerWithKeys_def ZK_DeserializePrivate_def ZK_DeserializePublic_def p256_params_def
        empty_zk_pair_def Let_def)
qed

text \<open>A signer with a key pair the code generated, or one loaded from it.\<close>

locale dleq_keys =
  fixes L :: "('g, 'sc, 'el, 'pf) dleq_lib" and kp :: "('g, 'sc, 'el) zk_key_pair"
  assumes laws: "dleq_laws L" and generated: "NewZKProofSigner L = Inr kp"
begin

lemma key_pair:
  obtains k A where "zk_PrivateKey kp = Some k" "zk_PublicKeyA kp = Some A" "zk_PublicKeyB kp = Some A"
    "A = el_Mul L (grp_NewElement L (grp_P256 L)) (grp_Generator L (grp_P256 L)) k" "zk_Params kp = p256_params L"
  using generated by (auto simp: NewZKProofSigner_def ZK_GenerateKey_def Let_def)

lemma sign_verifies: "\<exists>s. ZKProofSigner_Sign L kp data = Inr s \<and> ZKProofSigner_Verify L kp data s = (True, None)"
proof -
  obtain k A where kp: "zk_PrivateKey kp = Some k" "zk_PublicKeyA kp = Some A" "zk_PublicKeyB kp = Some A"
    "A = el_Mul L (grp_NewElement L (grp_P256 L)) (grp_Generator L (grp_P256 L)) k" "zk_Params kp = p256_params L"
    by (rule key_pair)
  define p where "p = (p256_params L)\<lparr>dp_DST := domain_sep @ data\<rparr>"
  have g: "dp_G p = Some (grp_P256 L)" by (simp add: p_def p256_params_def)
  obtain pf bs where
    "prover_Prove L p k (grp_Generator L (grp_P256 L)) A (grp_Generator L (grp_P256 L)) A = Inr pf"
    "verifier_Verify L p (grp_Generator L (grp_P256 L)) A (grp_Generator L (grp_P256 L)) A pf"
    "proof_MarshalBinary L pf = Inr bs" "proof_UnmarshalBinary L (grp_P256 L) bs = Inr pf"
    using dleq_complete [OF laws g] unfolding kp(4) by blast
  moreover have "(zk_Params kp)\<lparr>dp_DST := dp_DST (zk_Params kp) @ data\<rparr> = p"
    by (simp add: kp(5) p_def p256_params_def)
  ultimately show ?thesis
    using kp(1-3) g by (simp add: ZKProofSigner_Sign_def ZKProofSigner_Verify_def with_group_def deref_def Let_def)
qed

lemma stored_pair_loads:
  assumes "ZK_SerializePrivate L kp = Inr skb" "ZK_SerializePublic L kp = Inr pkb"
  shows "NewZKProofSignerWithKeys L skb pkb = Inr kp"
  by (rule key_pair) (rule ZK_pair_loads [OF laws _ _ _ _ assms])

end

text \<open>
  A stand-in for the library that satisfies its laws, to instantiate the parameter: elements and scalars are bytes
  and a proof is the key with the tag.
\<close>

definition plain_dleq :: "(unit, byte, byte, byte \<times> bytes) dleq_lib" where
  "plain_dleq = \<lparr>grp_P256 = (), grp_RandomScalar = (\<lambda>_. 3), grp_Generator = (\<lambda>_. 5), grp_NewElement = (\<lambda>_. 0),
     grp_NewScalar = (\<lambda>_. 0), el_Mul = (\<lambda>_ a k. a * k), el_MarshalBinary = (\<lambda>x. Inr [x]),
     el_UnmarshalBinary = (\<lambda>_ bs. if length bs = 1 then (None, hd bs) else (Some (ErrorS ''invalid''), 0)),
     sc_MarshalBinary = (\<lambda>x. Inr [x]),
     sc_UnmarshalBinary = (\<lambda>_ bs. if length bs = 1 then (None, hd bs) else (Some (ErrorS ''invalid''), 0)),
     prover_Prove = (\<lambda>p k A kA B kB. Inr (k, dp_DST p)), proof_MarshalBinary = (\<lambda>(k, t). Inr (k # t)),
     proof_UnmarshalBinary = (\<lambda>_ bs. case bs of [] \<Rightarrow> Inl EOF | k # t \<Rightarrow> Inr (k, t)),
     verifier_Verify = (\<lambda>p A kA B kB (k, t). kA = A * k \<and> kB = B * k \<and> t = dp_DST p)\<rparr>"

lemma plain_dleq_laws: "dleq_laws plain_dleq"
  by (simp add: dleq_laws_def plain_dleq_def)

definition plain_zk_pair :: "(unit, byte, byte) zk_key_pair" where
  "plain_zk_pair = \<lparr>zk_PrivateKey = Some 3, zk_PublicKeyA = Some 15, zk_PublicKeyB = Some 15, zk_Params = p256_params plain_dleq\<rparr>"

lemma plain_zk_generated: "NewZKProofSigner plain_dleq = Inr plain_zk_pair"
  by (simp add: NewZKProofSigner_def ZK_GenerateKey_def plain_zk_pair_def empty_zk_pair_def plain_dleq_def p256_params_def Let_def)

interpretation plain_zk: dleq_keys plain_dleq plain_zk_pair
  by unfold_locales (rule plain_dleq_laws, rule plain_zk_generated)

section \<open>Properties\<close>

text \<open>
  A generated DLEQ key pair that is serialized and loaded again with \<open>NewZKProofSignerWithKeys\<close> is the same
  pair, through the 16-bit length prefixes of the two public keys, and every signature it makes, over the empty
  message as well, verifies.
\<close>

theorem dleq_signer_persists:
  assumes "dleq_laws L" "NewZKProofSigner L = Inr kp" "ZK_SerializePrivate L kp = Inr skb" "ZK_SerializePublic L kp = Inr pkb"
  shows "NewZKProofSignerWithKeys L skb pkb = Inr kp \<and>
    (\<forall>data. \<exists>s. ZKProofSigner_Sign L kp data = Inr s \<and> ZKProofSigner_Verify L kp data s = (True, None))"
  using dleq_keys.stored_pair_loads [OF dleq_keys.intro [OF assms(1,2)] assms(3,4)]
    dleq_keys.sign_verifies [OF dleq_keys.intro [OF assms(1,2)]] by blast

theorem dleq_signer_persists_witness:
  "NewZKProofSignerWithKeys plain_dleq [3] [0, 1, 15, 0, 1, 15] = Inr plain_zk_pair"
proof -
  have "pack_two [15] [15] = Inr [0, 1, 15, 0, 1, 15]" using pack_two_small [of "[15]" "[15]"] by simp
  then have "ZK_SerializePublic plain_dleq plain_zk_pair = Inr [0, 1, 15, 0, 1, 15]"
    by (simp add: ZK_SerializePublic_def plain_zk_pair_def plain_dleq_def)
  moreover have "ZK_SerializePrivate plain_dleq plain_zk_pair = Inr [3]"
    by (simp add: ZK_SerializePrivate_def plain_zk_pair_def plain_dleq_def)
  ultimately show ?thesis using dleq_signer_persists [OF plain_dleq_laws plain_zk_generated] by blast
qed

text \<open>
  Loading a key from arbitrary bytes either succeeds or reports an error: no length prefix makes the decoder read
  out of range, whatever the group library does short of panicking itself.
\<close>

theorem dleq_load_safe:
  assumes "\<And>x bs e. fst (el_UnmarshalBinary L x bs) = Some e \<Longrightarrow> \<not> is_panic e"
    and "\<And>x bs e. fst (sc_UnmarshalBinary L x bs) = Some e \<Longrightarrow> \<not> is_panic e"
  shows "\<not> panics (NewZKProofSignerWithKeys L skb pkb)"
proof -
  have el: "\<not> is_panic e" if "el_UnmarshalBinary L x bs = (Some e, y)" for x bs e y using assms(1) [of x bs] that by simp
  have sc: "\<not> is_panic e" if "sc_UnmarshalBinary L x bs = (Some e, y)" for x bs e y using assms(2) [of x bs] that by simp
  have un: "\<not> is_panic e" if "unpack_two bs = Inl e" for bs e using unpack_two_safe [of bs] that by simp
  show ?thesis
    by (auto simp: NewZKProofSignerWithKeys_def ZK_DeserializePrivate_def ZK_DeserializePublic_def Let_def
        split: option.splits prod.splits sum.splits dest: el sc un)
qed

theorem dleq_load_safe_witness: "\<not> panics (NewZKProofSignerWithKeys plain_dleq [3] [255, 255, 0, 0])"
  by (rule dleq_load_safe) (auto simp: plain_dleq_def split: if_splits)

text \<open>
  Where this signer is not a signer like the others: it signs the empty message.
\<close>

lemma dleq_signs_empty: "\<not> signing (ZKProof_signer plain_dleq plain_zk_pair)"
proof
  assume "signing (ZKProof_signer plain_dleq plain_zk_pair)"
  then obtain e where "ZKProofSigner_Sign plain_dleq plain_zk_pair [] = Inl e"
    using signing.sign_empty by (fastforce simp: ZKProof_signer_def)
  with plain_zk.sign_verifies [of "[]"] show False by auto
qed

end
