(* ===== verification/Account_Store.thy ===== *)
theory Account_Store
  imports Dleq_Signer Validators "HOL-Library.Sublist" "HOL-Library.List_Lexorder" "HOL-Library.Char_ord"
begin

text \<open>
  \<open>pkg/accounts\<close>: accounts with their signers, kept in memory under the peer ID and under the address and, when
  asked for, on disk in one file per account (\<open>store.go\<close>, \<open>manager.go\<close>, \<open>helpers.go\<close>).  Keys of peers, YAML and
  the operating system's file operations are parameters.  Shown here: what the store writes it reads back; a store
  started again on the directory holds the accounts that were created with persistence and not deleted; every signer
  of a stored account has the type it is filed under.
\<close>

section \<open>Files\<close>

text \<open>
  The calls of \<open>os\<close> and \<open>path/filepath\<close> the store makes.  \<open>basePath\<close> is taken to be clean, so joining puts one separator.
\<close>

record 'f os_files =
  os_MkdirAll :: "string \<Rightarrow> 'f \<Rightarrow> go_error option \<times> 'f"
  os_ReadFile :: "string \<Rightarrow> 'f \<Rightarrow> bytes result"
  os_WriteFile :: "string \<Rightarrow> bytes \<Rightarrow> 'f \<Rightarrow> go_error option \<times> 'f"
  os_Remove :: "string \<Rightarrow> 'f \<Rightarrow> go_error option \<times> 'f"
  os_IsNotExist :: "go_error \<Rightarrow> bool"
  filepath_Glob :: "string \<Rightarrow> 'f \<Rightarrow> string list result"

definition filepath_Join :: "string \<Rightarrow> string \<Rightarrow> string" where
  "filepath_Join basePath name =
     (if basePath = '''' then name else if last basePath = CHR ''/'' then basePath @ name else basePath @ ''/'' @ name)"

section \<open>The file of an account\<close>

record signer_key =
  sk_SigningPrivateKey :: string
  sk_SigningPublicKey :: string

record config_key =
  ck_Name :: string
  ck_Address :: address
  ck_PeerID :: peer_id
  ck_PeerPrivateKey :: string
  ck_PeerPublicKey :: string
  ck_Signers :: "(signer_type, signer_key) fmap"
  ck_Comment :: string

text \<open>
  What stands behind the keys: the two signature libraries, the proof library, the keys of libp2p with the text form of
  a peer ID, and YAML.
\<close>

record ('psk, 'ppk, 'bsk, 'bpk, 'bsg, 'g, 'sc, 'el, 'pf) key_libs =
  kl_bls :: "('bsk, 'bpk, 'bsg) bls_lib"
  kl_ed :: ed25519_lib
  kl_dleq :: "('g, 'sc, 'el, 'pf) dleq_lib"
  crypto_GenerateRSAKeyPair :: "('psk \<times> 'ppk) result"
  crypto_MarshalPrivateKey :: "'psk \<Rightarrow> bytes result"
  crypto_UnmarshalPrivateKey :: "bytes \<Rightarrow> 'psk result"
  crypto_MarshalPublicKey :: "'ppk \<Rightarrow> bytes result"
  crypto_UnmarshalPublicKey :: "bytes \<Rightarrow> 'ppk result"
  peer_IDFromPublicKey :: "'ppk \<Rightarrow> peer_id result"
  peer_Decode :: "string \<Rightarrow> peer_id result"
  peer_String :: "peer_id \<Rightarrow> string"
  yaml_Marshal :: "config_key \<Rightarrow> bytes result"
  yaml_Unmarshal :: "bytes \<Rightarrow> config_key result"

section \<open>Signers with their keys\<close>

text \<open>The dynamic type of a \<open>Signer\<close>, with its key pair; a nil interface has none.\<close>

datatype ('bsk, 'bpk, 'g, 'sc, 'el) key_signer =
    KS_BLSSigner "('bsk, 'bpk) bls_key_pair"
  | KS_Ed25519Signer ed25519_key_pair
  | KS_ZKProofSigner "('g, 'sc, 'el) zk_key_pair"
  | KS_nil

definition computeAddressFromPublicKey :: "bytes \<Rightarrow> address result" where
  "computeAddressFromPublicKey publicKeyBytes =
     (let hash = sha256_Sum256 publicKeyBytes in
      if length hash < AddressSize then Inl (ErrorS ''hash too short to derive address'')
      else bindE (slice hash (length hash - AddressSize) (length hash)) FromBytes)"

text \<open>The body of the loop of \<open>Load\<close> over the signers of a file: the signer, and the address when it sets one.\<close>

definition load_signer ::
  "('psk, 'ppk, 'bsk, 'bpk, 'bsg, 'g, 'sc, 'el, 'pf) key_libs \<Rightarrow> signer_type \<Rightarrow> signer_key \<Rightarrow> address \<Rightarrow>
    (('bsk, 'bpk, 'g, 'sc, 'el) key_signer \<times> address) result" where
  "load_signer L signerType signerKey address =
     bindE (wrapE ''failed to decode signing private key for signer type %s from file %s''
       (hex_DecodeString (sk_SigningPrivateKey signerKey))) (\<lambda>privateKeyBytes.
     bindE (wrapE ''failed to decode signing public key for signer type %s from file %s''
       (hex_DecodeString (sk_SigningPublicKey signerKey))) (\<lambda>publicKeyBytes.
     if signerType = BlsSignerType then
       bindE (wrapE ''failed to initialize %s signer from file %s''
         (NewBLSSignerWithKeys (kl_bls L) privateKeyBytes publicKeyBytes)) (\<lambda>kp. Inr (KS_BLSSigner kp, address))
     else if signerType = Ed25519SignerType then
       bindE (wrapE ''failed to initialize Ed25519 signer from file %s''
         (NewEd25519SignerWithKeys privateKeyBytes publicKeyBytes)) (\<lambda>kp.
       bindE (wrapE ''failed to compute address from public key in file %s''
         (computeAddressFromPublicKey publicKeyBytes)) (\<lambda>address. Inr (KS_Ed25519Signer kp, address)))
     else if signerType = DleqSignerType then
       bindE (wrapE ''failed to initialize %s signer from file %s''
         (NewZKProofSignerWithKeys (kl_dleq L) privateKeyBytes publicKeyBytes)) (\<lambda>kp. Inr (KS_ZKProofSigner kp, address))
     else Inl (ErrorS ''unsupported signer type: %s'')))"

fun load_signers ::
  "('psk, 'ppk, 'bsk, 'bpk, 'bsg, 'g, 'sc, 'el, 'pf) key_libs \<Rightarrow> (signer_type \<times> signer_key) list \<Rightarrow>
    (signer_type, ('bsk, 'bpk, 'g, 'sc, 'el) key_signer) fmap \<Rightarrow> address \<Rightarrow>
    ((signer_type, ('bsk, 'bpk, 'g, 'sc, 'el) key_signer) fmap \<times> address) result"
where
  "load_signers L [] signers address = Inr (signers, address)"
| "load_signers L ((signerType, signerKey) # rest) signers address =
     bindE (load_signer L signerType signerKey address) (\<lambda>(signer, address).
     load_signers L rest (fmupd signerType signer signers) address)"

text \<open>The body of the loop of \<open>Save\<close>: the two keys of a signer, and the address when it sets one.\<close>

definition save_signer ::
  "('psk, 'ppk, 'bsk, 'bpk, 'bsg, 'g, 'sc, 'el, 'pf) key_libs \<Rightarrow> ('bsk, 'bpk, 'g, 'sc, 'el) key_signer \<Rightarrow> address \<Rightarrow>
    (signer_key \<times> address) result" where
  "save_signer L signer address =
     (let key = (\<lambda>priv pub. \<lparr>sk_SigningPrivateKey = hex_EncodeToString priv, sk_SigningPublicKey = hex_EncodeToString pub\<rparr>);
          priv_err = ''failed to serialize private key for signer type %s'';
          pub_err = ''failed to serialize public key for signer type %s''
      in case signer of
        KS_BLSSigner kp \<Rightarrow>
          bindE (wrapE priv_err (BLS_SerializePrivate (kl_bls L) kp)) (\<lambda>priv.
          bindE (wrapE pub_err (BLS_SerializePublic (kl_bls L) kp)) (\<lambda>pub. Inr (key priv pub, address)))
      | KS_Ed25519Signer kp \<Rightarrow>
          bindE (wrapE priv_err (Ed25519_SerializePrivate kp)) (\<lambda>priv.
          bindE (wrapE pub_err (Ed25519_SerializePublic kp)) (\<lambda>pub.
          bindE (wrapE ''failed to compute address from public key'' (computeAddressFromPublicKey pub)) (\<lambda>address.
          Inr (key priv pub, address))))
      | KS_ZKProofSigner kp \<Rightarrow>
          bindE (wrapE priv_err (ZK_SerializePrivate (kl_dleq L) kp)) (\<lambda>priv.
          bindE (wrapE pub_err (ZK_SerializePublic (kl_dleq L) kp)) (\<lambda>pub. Inr (key priv pub, address)))
      | KS_nil \<Rightarrow> Inl (ErrorS ''unsupported signer type: %s''))"

fun save_signers ::
  "('psk, 'ppk, 'bsk, 'bpk, 'bsg, 'g, 'sc, 'el, 'pf) key_libs \<Rightarrow>
    (signer_type \<times> ('bsk, 'bpk, 'g, 'sc, 'el) key_signer) list \<Rightarrow> (signer_type, signer_key) fmap \<Rightarrow> address \<Rightarrow>
    ((signer_type, signer_key) fmap \<times> address) result"
where
  "save_signers L [] signers address = Inr (signers, address)"
| "save_signers L ((signerType, signer) # rest) signers address =
     bindE (save_signer L signer address) (\<lambda>(signerKey, address).
     save_signers L rest (fmupd signerType signerKey signers) address)"

section \<open>Accounts\<close>

record ('psk, 'ppk, 'bsk, 'bpk, 'g, 'sc, 'el) key_account =
  ka_ID :: string
  ka_Address :: address
  ka_PeerID :: peer_id
  ka_Name :: string
  ka_PeerPrivateKey :: 'psk
  ka_PeerPublicKey :: 'ppk
  ka_Signers :: "(signer_type, ('bsk, 'bpk, 'g, 'sc, 'el) key_signer) fmap"
  ka_Comment :: string

definition New_Account ::
  "('psk, 'ppk, 'bsk, 'bpk, 'bsg, 'g, 'sc, 'el, 'pf) key_libs \<Rightarrow> peer_id \<Rightarrow> 'psk \<Rightarrow> 'ppk \<Rightarrow>
    (signer_type, ('bsk, 'bpk, 'g, 'sc, 'el) key_signer) fmap \<Rightarrow> string \<Rightarrow> string \<Rightarrow>
    ('psk, 'ppk, 'bsk, 'bpk, 'g, 'sc, 'el) key_account" where
  "New_Account L peerID peerSk peerPk signers name comment =
     \<lparr>ka_ID = peer_String L peerID, ka_Address = ZeroAddress, ka_PeerID = peerID, ka_Name = name,
      ka_PeerPrivateKey = peerSk, ka_PeerPublicKey = peerPk, ka_Signers = signers, ka_Comment = comment\<rparr>"

text \<open>The pairs a loop over a map meets, in the order \<open>ord\<close> gives.\<close>

definition range_pairs :: "('k list) \<Rightarrow> ('k, 'v) fmap \<Rightarrow> ('k \<times> 'v) list" where
  "range_pairs ks m = List.map_filter (\<lambda>k. map_option (Pair k) (fmlookup m k)) ks"

text \<open>The account a file describes: the body of the loop of \<open>Load\<close> up to the two assignments.\<close>

definition load_account ::
  "('psk, 'ppk, 'bsk, 'bpk, 'bsg, 'g, 'sc, 'el, 'pf) key_libs \<Rightarrow> (config_key \<Rightarrow> signer_type list) \<Rightarrow> bytes \<Rightarrow>
    ('psk, 'ppk, 'bsk, 'bpk, 'g, 'sc, 'el) key_account result" where
  "load_account L ord data =
     bindE (wrapE ''failed to unmarshal identity from file %s'' (yaml_Unmarshal L data)) (\<lambda>key.
     bindE (wrapE ''failed to decode peer ID from file %s'' (peer_Decode L (peer_String L (ck_PeerID key)))) (\<lambda>peerID.
     bindE (wrapE ''failed to decode private key from file %s'' (hex_DecodeString (ck_PeerPrivateKey key))) (\<lambda>privKeyBytes.
     bindE (wrapE ''failed to unmarshal private key from file %s'' (crypto_UnmarshalPrivateKey L privKeyBytes)) (\<lambda>privKey.
     bindE (wrapE ''failed to decode public key from file %s'' (hex_DecodeString (ck_PeerPublicKey key))) (\<lambda>pubKeyBytes.
     bindE (wrapE ''failed to unmarshal public key from file %s'' (crypto_UnmarshalPublicKey L pubKeyBytes)) (\<lambda>pubKey.
     bindE (load_signers L (range_pairs (ord key) (ck_Signers key)) fmempty ZeroAddress) (\<lambda>(signers, address).
     Inr ((New_Account L peerID privKey pubKey signers (ck_Name key) (ck_Comment key))\<lparr>ka_Address := address\<rparr>))))))))"

text \<open>\<open>Save\<close>; the account is a pointer, and its address is set before the file is written.\<close>

definition account_path :: "string \<Rightarrow> string \<Rightarrow> string" where
  "account_path basePath i = filepath_Join basePath (i @ ''.yaml'')"

definition account_key ::
  "('psk, 'ppk, 'bsk, 'bpk, 'bsg, 'g, 'sc, 'el, 'pf) key_libs \<Rightarrow> signer_type list \<Rightarrow>
    ('psk, 'ppk, 'bsk, 'bpk, 'g, 'sc, 'el) key_account \<Rightarrow> config_key result" where
  "account_key L order account =
     bindE (wrapE ''failed to marshal private key'' (crypto_MarshalPrivateKey L (ka_PeerPrivateKey account))) (\<lambda>privKeyBytes.
     bindE (wrapE ''failed to marshal public key'' (crypto_MarshalPublicKey L (ka_PeerPublicKey account))) (\<lambda>pubKeyBytes.
     bindE (save_signers L (range_pairs order (ka_Signers account)) fmempty ZeroAddress) (\<lambda>(signers, address).
     Inr \<lparr>ck_Name = ka_Name account, ck_Address = address, ck_PeerID = ka_PeerID account,
       ck_PeerPrivateKey = hex_EncodeToString privKeyBytes, ck_PeerPublicKey = hex_EncodeToString pubKeyBytes,
       ck_Signers = signers, ck_Comment = ka_Comment account\<rparr>)))"

definition Save_account ::
  "('psk, 'ppk, 'bsk, 'bpk, 'bsg, 'g, 'sc, 'el, 'pf) key_libs \<Rightarrow> 'f os_files \<Rightarrow> string \<Rightarrow> signer_type list \<Rightarrow>
    ('psk, 'ppk, 'bsk, 'bpk, 'g, 'sc, 'el) key_account \<Rightarrow> 'f \<Rightarrow>
    go_error option \<times> ('psk, 'ppk, 'bsk, 'bpk, 'g, 'sc, 'el) key_account \<times> 'f" where
  "Save_account L S basePath order account env =
     (case os_MkdirAll S basePath env of
        (Some err, env) \<Rightarrow> (Some (wrap_error ''failed to create directory'' err), account, env)
      | (None, env) \<Rightarrow>
     (case account_key L order account of
        Inl err \<Rightarrow> (Some err, account, env)
      | Inr toWrite \<Rightarrow>
          (let account = account\<lparr>ka_Address := ck_Address toWrite\<rparr> in
           case yaml_Marshal L toWrite of
             Inl err \<Rightarrow> (Some (wrap_error ''failed to marshal Account to YAML'' err), account, env)
           | Inr data \<Rightarrow>
               (let (err, env) = os_WriteFile S (account_path basePath (ka_ID account)) data env
                in (map_option (wrap_error ''failed to write Account file'') err, account, env)))))"

section \<open>The store\<close>

text \<open>
  Both maps hold pointers, so that an account changed through one is changed in the other: a pointer is an index of
  \<open>st_accounts\<close>, to which allocating an account appends.
\<close>

record ('psk, 'ppk, 'bsk, 'bpk, 'g, 'sc, 'el) account_store =
  st_keys :: "(peer_id, nat) fmap"
  st_addresses :: "(address, nat) fmap"
  st_accounts :: "('psk, 'ppk, 'bsk, 'bpk, 'g, 'sc, 'el) key_account list"

definition empty_store :: "('psk, 'ppk, 'bsk, 'bpk, 'g, 'sc, 'el) account_store" where
  "empty_store = \<lparr>st_keys = fmempty, st_addresses = fmempty, st_accounts = []\<rparr>"

text \<open>The two assignments at the end of \<open>Load\<close> and \<open>Create\<close>, for an account just allocated.\<close>

definition register_account ::
  "('psk, 'ppk, 'bsk, 'bpk, 'g, 'sc, 'el) key_account \<Rightarrow> ('psk, 'ppk, 'bsk, 'bpk, 'g, 'sc, 'el) account_store \<Rightarrow>
    ('psk, 'ppk, 'bsk, 'bpk, 'g, 'sc, 'el) account_store" where
  "register_account account st = (let r = length (st_accounts st) in
     st\<lparr>st_keys := fmupd (ka_PeerID account) r (st_keys st), st_addresses := fmupd (ka_Address account) r (st_addresses st),
        st_accounts := st_accounts st @ [account]\<rparr>)"

fun load_files ::
  "('psk, 'ppk, 'bsk, 'bpk, 'bsg, 'g, 'sc, 'el, 'pf) key_libs \<Rightarrow> 'f os_files \<Rightarrow> (config_key \<Rightarrow> signer_type list) \<Rightarrow>
    string list \<Rightarrow> 'f \<Rightarrow> ('psk, 'ppk, 'bsk, 'bpk, 'g, 'sc, 'el) account_store \<Rightarrow>
    go_error option \<times> ('psk, 'ppk, 'bsk, 'bpk, 'g, 'sc, 'el) account_store"
where
  "load_files L S ord [] env st = (None, st)"
| "load_files L S ord (file # files) env st =
     (case bindE (wrapE ''failed to read file %s'' (os_ReadFile S file env)) (load_account L ord) of
        Inl err \<Rightarrow> (Some err, st)
      | Inr account \<Rightarrow> load_files L S ord files env (register_account account st))"

definition Store_Load ::
  "('psk, 'ppk, 'bsk, 'bpk, 'bsg, 'g, 'sc, 'el, 'pf) key_libs \<Rightarrow> 'f os_files \<Rightarrow> string \<Rightarrow> (config_key \<Rightarrow> signer_type list) \<Rightarrow>
    'f \<Rightarrow> ('psk, 'ppk, 'bsk, 'bpk, 'g, 'sc, 'el) account_store \<Rightarrow>
    go_error option \<times> ('psk, 'ppk, 'bsk, 'bpk, 'g, 'sc, 'el) account_store" where
  "Store_Load L S basePath ord env st =
     (case filepath_Glob S (filepath_Join basePath ''*.yaml'') env of
        Inl err \<Rightarrow> (Some (wrap_error ''failed to list identity files'' err), st)
      | Inr files \<Rightarrow> load_files L S ord files env st)"

definition NewStore ::
  "('psk, 'ppk, 'bsk, 'bpk, 'bsg, 'g, 'sc, 'el, 'pf) key_libs \<Rightarrow> 'f os_files \<Rightarrow> string \<Rightarrow> (config_key \<Rightarrow> signer_type list) \<Rightarrow>
    'f \<Rightarrow> ('psk, 'ppk, 'bsk, 'bpk, 'g, 'sc, 'el) account_store result" where
  "NewStore L S basePath ord env =
     (case Store_Load L S basePath ord env empty_store of
        (Some err, st) \<Rightarrow> Inl (wrap_error ''failure to load preconfigured identity keys'' err)
      | (None, st) \<Rightarrow> Inr st)"

text \<open>\<open>NewManager\<close> and \<open>Manager.Load\<close> add a message to an error.\<close>

definition NewManager ::
  "('psk, 'ppk, 'bsk, 'bpk, 'bsg, 'g, 'sc, 'el, 'pf) key_libs \<Rightarrow> 'f os_files \<Rightarrow> string \<Rightarrow> (config_key \<Rightarrow> signer_type list) \<Rightarrow>
    'f \<Rightarrow> ('psk, 'ppk, 'bsk, 'bpk, 'g, 'sc, 'el) account_store result" where
  "NewManager L S basePath ord env = wrapE ''failed to initialize store for manager'' (NewStore L S basePath ord env)"

definition Manager_Load ::
  "('psk, 'ppk, 'bsk, 'bpk, 'bsg, 'g, 'sc, 'el, 'pf) key_libs \<Rightarrow> 'f os_files \<Rightarrow> string \<Rightarrow> (config_key \<Rightarrow> signer_type list) \<Rightarrow>
    'f \<Rightarrow> ('psk, 'ppk, 'bsk, 'bpk, 'g, 'sc, 'el) account_store \<Rightarrow>
    go_error option \<times> ('psk, 'ppk, 'bsk, 'bpk, 'g, 'sc, 'el) account_store" where
  "Manager_Load L S basePath ord env st =
     (let (err, st) = Store_Load L S basePath ord env st in (map_option (wrap_error ''failed to load DIDs in manager'') err, st))"

text \<open>
  The account \<open>Create\<close> makes: fresh keys, the three signers, and the address of the Ed25519 key.  The random source is
  inside the libraries, so each call has its own \<open>L\<close>.
\<close>

definition create_account ::
  "('psk, 'ppk, 'bsk, 'bpk, 'bsg, 'g, 'sc, 'el, 'pf) key_libs \<Rightarrow> string \<Rightarrow> string \<Rightarrow>
    ('psk, 'ppk, 'bsk, 'bpk, 'g, 'sc, 'el) key_account result" where
  "create_account L name comment =
     bindE (wrapE ''failed to generate RSA keys for peer ID'' (crypto_GenerateRSAKeyPair L)) (\<lambda>(peerPrivKey, peerPubKey).
     bindE (wrapE ''failed to derive peer ID'' (peer_IDFromPublicKey L peerPubKey)) (\<lambda>peerID.
     bindE (wrapE ''failed to create BLS signer'' (NewBLSSigner (kl_bls L))) (\<lambda>blsSigner.
     bindE (wrapE ''failed to create Ed25519 signer'' (NewEd25519Signer (kl_ed L))) (\<lambda>ed25519Signer.
     bindE (wrapE ''failed to create DLEQ signer'' (NewZKProofSigner (kl_dleq L))) (\<lambda>dleqSigner.
     let signers = fmupd DleqSignerType (KS_ZKProofSigner dleqSigner) (fmupd Ed25519SignerType (KS_Ed25519Signer ed25519Signer)
           (fmupd BlsSignerType (KS_BLSSigner blsSigner) fmempty));
         account = New_Account L peerID peerPrivKey peerPubKey signers name comment
     in bindE (wrapE ''failed to serialize Ed25519 public key'' (Ed25519_SerializePublic ed25519Signer)) (\<lambda>publicKeyBytes.
        bindE (wrapE ''failed to compute address from public key'' (computeAddressFromPublicKey publicKeyBytes)) (\<lambda>address.
        Inr (account\<lparr>ka_Address := address\<rparr>))))))))"

text \<open>
  \<open>order\<close> is how the loop over the accounts ranges, \<open>sorder\<close> the loop of \<open>Save\<close> over the signers.  The result is a pointer.
\<close>

definition Store_Create ::
  "('psk, 'ppk, 'bsk, 'bpk, 'bsg, 'g, 'sc, 'el, 'pf) key_libs \<Rightarrow> 'f os_files \<Rightarrow> string \<Rightarrow> peer_id list \<Rightarrow> signer_type list \<Rightarrow>
    string \<Rightarrow> string \<Rightarrow> bool \<Rightarrow> ('psk, 'ppk, 'bsk, 'bpk, 'g, 'sc, 'el) account_store \<times> 'f \<Rightarrow>
    nat result \<times> (('psk, 'ppk, 'bsk, 'bpk, 'g, 'sc, 'el) account_store \<times> 'f)" where
  "Store_Create L S basePath order sorder name comment persist = (\<lambda>(st, env).
     (case find (\<lambda>r. ka_Name (st_accounts st ! r) = name) (range_values order (st_keys st)) of
        Some r \<Rightarrow> (Inr r, (st, env))
      | None \<Rightarrow>
     (case create_account L name comment of
        Inl err \<Rightarrow> (Inl err, (st, env))
      | Inr account \<Rightarrow>
          if persist then
            (case Save_account L S basePath sorder account env of
               (Some err, account, env) \<Rightarrow> (Inl (wrap_error ''failed to store Account'' err), (st, env))
             | (None, account, env) \<Rightarrow> (Inr (length (st_accounts st)), (register_account account st, env)))
          else (Inr (length (st_accounts st)), (register_account account st, env)))))"

definition Manager_Create ::
  "('psk, 'ppk, 'bsk, 'bpk, 'bsg, 'g, 'sc, 'el, 'pf) key_libs \<Rightarrow> 'f os_files \<Rightarrow> string \<Rightarrow> peer_id list \<Rightarrow> signer_type list \<Rightarrow>
    string \<Rightarrow> string \<Rightarrow> bool \<Rightarrow> ('psk, 'ppk, 'bsk, 'bpk, 'g, 'sc, 'el) account_store \<times> 'f \<Rightarrow>
    nat result \<times> (('psk, 'ppk, 'bsk, 'bpk, 'g, 'sc, 'el) account_store \<times> 'f)" where
  "Manager_Create L S basePath order sorder name comment persist s =
     (let (r, s) = Store_Create L S basePath order sorder name comment persist s in (wrapE ''failed to create new DID'' r, s))"

definition Store_GetByPeerID ::
  "peer_id \<Rightarrow> ('psk, 'ppk, 'bsk, 'bpk, 'g, 'sc, 'el) account_store \<Rightarrow> nat result" where
  "Store_GetByPeerID peerID st =
     (case fmlookup (st_keys st) peerID of
        None \<Rightarrow> Inl (ErrorS ''account not found for peer ID: %s'')
      | Some r \<Rightarrow> Inr r)"

definition Store_GetByAddress ::
  "address \<Rightarrow> ('psk, 'ppk, 'bsk, 'bpk, 'g, 'sc, 'el) account_store \<Rightarrow> nat result" where
  "Store_GetByAddress addr st =
     (case fmlookup (st_addresses st) addr of
        None \<Rightarrow> Inl (ErrorS ''account not found for address: %s'')
      | Some r \<Rightarrow> Inr r)"

definition Store_List :: "peer_id list \<Rightarrow> ('psk, 'ppk, 'bsk, 'bpk, 'g, 'sc, 'el) account_store \<Rightarrow> nat list result" where
  "Store_List order st = Inr (range_values order (st_keys st))"

definition Store_Delete ::
  "('psk, 'ppk, 'bsk, 'bpk, 'bsg, 'g, 'sc, 'el, 'pf) key_libs \<Rightarrow> 'f os_files \<Rightarrow> string \<Rightarrow> peer_id \<Rightarrow>
    ('psk, 'ppk, 'bsk, 'bpk, 'g, 'sc, 'el) account_store \<times> 'f \<Rightarrow>
    go_error option \<times> (('psk, 'ppk, 'bsk, 'bpk, 'g, 'sc, 'el) account_store \<times> 'f)" where
  "Store_Delete L S basePath peerID = (\<lambda>(st, env).
     if fmlookup (st_keys st) peerID = None then (Some (ErrorS ''Account not found for peer ID: %s''), (st, env))
     else
       (let st = st\<lparr>st_keys := fmdrop peerID (st_keys st)\<rparr>;
            (err, env) = os_Remove S (account_path basePath (peer_String L peerID)) env
        in case err of
             None \<Rightarrow> (None, (st, env))
           | Some e \<Rightarrow> (if os_IsNotExist S e then None else Some (wrap_error ''failed to delete Account file'' e), (st, env))))"

definition Manager_GetByPeerID :: "peer_id \<Rightarrow> ('psk, 'ppk, 'bsk, 'bpk, 'g, 'sc, 'el) account_store \<Rightarrow> nat result" where
  "Manager_GetByPeerID peerID st = wrapE ''failed to get DID for peer ID %s'' (Store_GetByPeerID peerID st)"

definition Manager_GetByAddress :: "address \<Rightarrow> ('psk, 'ppk, 'bsk, 'bpk, 'g, 'sc, 'el) account_store \<Rightarrow> nat result" where
  "Manager_GetByAddress addr st = wrapE ''failed to get DID for peer ID %s'' (Store_GetByAddress addr st)"

definition Manager_Delete ::
  "('psk, 'ppk, 'bsk, 'bpk, 'bsg, 'g, 'sc, 'el, 'pf) key_libs \<Rightarrow> 'f os_files \<Rightarrow> string \<Rightarrow> peer_id \<Rightarrow>
    ('psk, 'ppk, 'bsk, 'bpk, 'g, 'sc, 'el) account_store \<times> 'f \<Rightarrow>
    go_error option \<times> (('psk, 'ppk, 'bsk, 'bpk, 'g, 'sc, 'el) account_store \<times> 'f)" where
  "Manager_Delete L S basePath peerID s =
     (let (err, s) = Store_Delete L S basePath peerID s in
      (map_option (wrap_error ''failed to delete DID for peer ID %s'') err, s))"

definition Manager_List :: "peer_id list \<Rightarrow> ('psk, 'ppk, 'bsk, 'bpk, 'g, 'sc, 'el) account_store \<Rightarrow> nat list result" where
  "Manager_List order st = wrapE ''failed to list DIDs in manager'' (Store_List order st)"

text \<open>\<open>Save\<close> on a pointer.\<close>

definition Store_Save ::
  "('psk, 'ppk, 'bsk, 'bpk, 'bsg, 'g, 'sc, 'el, 'pf) key_libs \<Rightarrow> 'f os_files \<Rightarrow> string \<Rightarrow> signer_type list \<Rightarrow> nat \<Rightarrow>
    ('psk, 'ppk, 'bsk, 'bpk, 'g, 'sc, 'el) account_store \<times> 'f \<Rightarrow>
    go_error option \<times> (('psk, 'ppk, 'bsk, 'bpk, 'g, 'sc, 'el) account_store \<times> 'f)" where
  "Store_Save L S basePath sorder r = (\<lambda>(st, env).
     (let (err, account, env) = Save_account L S basePath sorder (st_accounts st ! r) env
      in (err, (st\<lparr>st_accounts := (st_accounts st)[r := account]\<rparr>, env))))"

section \<open>Typing\<close>

text \<open>The signer behind the key pair, as the clients of an account see it.\<close>

fun signer_of ::
  "('psk, 'ppk, 'bsk, 'bpk, 'bsg, 'g, 'sc, 'el, 'pf) key_libs \<Rightarrow> ('bsk, 'bpk, 'g, 'sc, 'el) key_signer \<Rightarrow> signer option" where
  "signer_of L (KS_BLSSigner kp) = Some (BLS_signer (kl_bls L) kp)"
| "signer_of L (KS_Ed25519Signer kp) = Some (Ed25519_signer (kl_ed L) kp)"
| "signer_of L (KS_ZKProofSigner kp) = Some (ZKProof_signer (kl_dleq L) kp)"
| "signer_of L KS_nil = None"

text \<open>A signer filed under its own type, with every key it needs.\<close>

fun signer_typed ::
  "('psk, 'ppk, 'bsk, 'bpk, 'bsg, 'g, 'sc, 'el, 'pf) key_libs \<Rightarrow> signer_type \<Rightarrow> ('bsk, 'bpk, 'g, 'sc, 'el) key_signer \<Rightarrow> bool" where
  "signer_typed L t (KS_BLSSigner kp) \<longleftrightarrow> t = BlsSignerType \<and> bk_PrivateKey kp \<noteq> None \<and> bk_PublicKey kp \<noteq> None"
| "signer_typed L t (KS_Ed25519Signer kp) \<longleftrightarrow> t = Ed25519SignerType \<and>
     map_option length (ek_PrivateKey kp) = Some 64 \<and> map_option length (ek_PublicKey kp) = Some 32"
| "signer_typed L t (KS_ZKProofSigner kp) \<longleftrightarrow> t = DleqSignerType \<and> zk_PrivateKey kp \<noteq> None \<and>
     zk_PublicKeyA kp \<noteq> None \<and> zk_PublicKeyB kp \<noteq> None \<and> zk_Params kp = p256_params (kl_dleq L)"
| "signer_typed L t KS_nil \<longleftrightarrow> False"

definition address_of_key :: "bytes \<Rightarrow> address" where
  "address_of_key publicKeyBytes = copy_address (drop 12 (sha256_Sum256 publicKeyBytes))"

definition signers_address :: "(signer_type, ('bsk, 'bpk, 'g, 'sc, 'el) key_signer) fmap \<Rightarrow> address" where
  "signers_address signers =
     (case fmlookup signers Ed25519SignerType of
        Some (KS_Ed25519Signer kp) \<Rightarrow> (case ek_PublicKey kp of Some pk \<Rightarrow> address_of_key pk | None \<Rightarrow> ZeroAddress)
      | _ \<Rightarrow> ZeroAddress)"

definition account_typed ::
  "('psk, 'ppk, 'bsk, 'bpk, 'bsg, 'g, 'sc, 'el, 'pf) key_libs \<Rightarrow> ('psk, 'ppk, 'bsk, 'bpk, 'g, 'sc, 'el) key_account \<Rightarrow> bool" where
  "account_typed L a \<longleftrightarrow> ka_ID a = peer_String L (ka_PeerID a) \<and> ka_Address a = signers_address (ka_Signers a) \<and>
     (\<forall>t s. fmlookup (ka_Signers a) t = Some s \<longrightarrow> signer_typed L t s)"

lemma compute_address: "computeAddressFromPublicKey pk = Inr (address_of_key pk)"
  by (simp add: computeAddressFromPublicKey_def address_of_key_def FromBytes_def AddressSize_def)

lemma signer_types_distinct:
  "BlsSignerType \<noteq> Ed25519SignerType" "BlsSignerType \<noteq> DleqSignerType" "Ed25519SignerType \<noteq> DleqSignerType"
  "Ed25519SignerType \<noteq> BlsSignerType" "DleqSignerType \<noteq> BlsSignerType" "DleqSignerType \<noteq> Ed25519SignerType"
  by (simp_all add: signer_type_defs)

lemma set_range_pairs: "ranges ks m \<Longrightarrow> set (range_pairs ks m) = {(k, v). fmlookup m k = Some v}"
  by (auto simp: range_pairs_def List.map_filter_def ranges_set fmlookup_dom_iff intro!: rev_image_eqI)

lemma bls_typed: "NewBLSSignerWithKeys L a b = Inr kp \<Longrightarrow> bk_PrivateKey kp \<noteq> None \<and> bk_PublicKey kp \<noteq> None"
  by (auto simp: NewBLSSignerWithKeys_def BLS_DeserializePrivate_def BLS_DeserializePublic_def Let_def
      split: if_splits option.splits prod.splits)

lemma ed_typed:
  "NewEd25519SignerWithKeys a b = Inr kp \<Longrightarrow> ek_PrivateKey kp = Some a \<and> ek_PublicKey kp = Some b \<and> length a = 64 \<and> length b = 32"
  by (auto simp: NewEd25519SignerWithKeys_def Ed25519_DeserializePrivate_def Ed25519_DeserializePublic_def ed_sizes
      bindE_eq_Inr split: if_splits)

lemma zk_private_typed:
  "ZK_DeserializePrivate L d kp = (None, kp') \<Longrightarrow> zk_PrivateKey kp' \<noteq> None \<and> zk_Params kp' = zk_Params kp"
  by (cases "dp_G (zk_Params kp)") (auto simp: ZK_DeserializePrivate_def Let_def split: prod.splits)

lemma zk_public_typed:
  assumes "ZK_DeserializePublic L d kp = (None, kp')"
  shows "zk_PublicKeyA kp' \<noteq> None \<and> zk_PublicKeyB kp' \<noteq> None \<and> zk_PrivateKey kp' = zk_PrivateKey kp \<and> zk_Params kp' = zk_Params kp"
proof -
  obtain g dA dB where "dp_G (zk_Params kp) = Some g" "unpack_two d = Inr (dA, dB)"
    using assms by (cases "dp_G (zk_Params kp)"; cases "unpack_two d") (auto simp: ZK_DeserializePublic_def)
  with assms show ?thesis
    by (auto simp: ZK_DeserializePublic_def Let_def split: option.splits prod.splits)
qed

lemma zk_typed:
  assumes "NewZKProofSignerWithKeys L a b = Inr kp"
  shows "zk_PrivateKey kp \<noteq> None \<and> zk_PublicKeyA kp \<noteq> None \<and> zk_PublicKeyB kp \<noteq> None \<and> zk_Params kp = p256_params L"
proof -
  obtain kp1 where "ZK_DeserializePrivate L a (empty_zk_pair (p256_params L)) = (None, kp1)" "ZK_DeserializePublic L b kp1 = (None, kp)"
    using assms by (auto simp: NewZKProofSignerWithKeys_def split: prod.splits option.splits)
  with zk_private_typed zk_public_typed show ?thesis by (fastforce simp: empty_zk_pair_def)
qed

lemma load_signer_typed:
  "load_signer L t k a = Inr (s, a') \<Longrightarrow> signer_typed L t s \<and>
    a' = (if t = Ed25519SignerType then (case s of KS_Ed25519Signer kp \<Rightarrow> address_of_key (the (ek_PublicKey kp))) else a)"
  by (auto simp: load_signer_def bindE_eq_Inr wrapE_eq_Inr compute_address signer_types_distinct
      split: if_splits dest!: bls_typed ed_typed zk_typed)

lemma load_signers_typed:
  "load_signers L qs m a = Inr (m', a') \<Longrightarrow> \<forall>t s. fmlookup m t = Some s \<longrightarrow> signer_typed L t s \<Longrightarrow>
    a = signers_address m \<Longrightarrow> (\<forall>t s. fmlookup m' t = Some s \<longrightarrow> signer_typed L t s) \<and> a' = signers_address m'"
proof (induction qs arbitrary: m a)
  case (Cons q qs)
  obtain t k where q: "q = (t, k)" by (cases q)
  with Cons.prems(1) obtain s a1 where s: "load_signer L t k a = Inr (s, a1)" "load_signers L qs (fmupd t s m) a1 = Inr (m', a')"
    by (auto simp: bindE_eq_Inr)
  note st = load_signer_typed [OF s(1)]
  have "a1 = signers_address (fmupd t s m)"
    using st Cons.prems(3) by (cases s) (auto simp: signers_address_def signer_types_distinct split: option.splits)
  moreover have "\<forall>t' s'. fmlookup (fmupd t s m) t' = Some s' \<longrightarrow> signer_typed L t' s'" using st Cons.prems(2) by simp
  ultimately show ?case using Cons.IH [OF s(2)] by blast
qed simp

lemma load_account_typed: "load_account L ord data = Inr a \<Longrightarrow> account_typed L a"
  by (auto simp: load_account_def bindE_eq_Inr wrapE_eq_Inr account_typed_def New_Account_def signers_address_def
      dest!: load_signers_typed)

section \<open>What is saved can be loaded\<close>

text \<open>What the store relies on: the signature libraries' laws, and that keys, peer IDs and YAML read back.\<close>

definition key_laws :: "('psk, 'ppk, 'bsk, 'bpk, 'bsg, 'g, 'sc, 'el, 'pf) key_libs \<Rightarrow> bool" where
  "key_laws L \<longleftrightarrow> bls_laws (kl_bls L) \<and> dleq_laws (kl_dleq L) \<and>
     (\<forall>k bs. crypto_MarshalPrivateKey L k = Inr bs \<longrightarrow> crypto_UnmarshalPrivateKey L bs = Inr k) \<and>
     (\<forall>k bs. crypto_MarshalPublicKey L k = Inr bs \<longrightarrow> crypto_UnmarshalPublicKey L bs = Inr k) \<and>
     (\<forall>i. peer_Decode L (peer_String L i) = Inr i \<and> CHR ''/'' \<notin> set (peer_String L i)) \<and>
     (\<forall>k bs. yaml_Marshal L k = Inr bs \<longrightarrow> yaml_Unmarshal L bs = Inr k)"

lemma save_signer_loads:
  assumes "key_laws L" "signer_typed L t s" "save_signer L s a = Inr (k, a')"
  shows "a' = (if t = Ed25519SignerType then signers_address (fmupd t s fmempty) else a) \<and>
    (\<forall>b. load_signer L t k b = Inr (s, if t = Ed25519SignerType then signers_address (fmupd t s fmempty) else b))"
proof (cases s)
  case (KS_BLSSigner kp)
  with assms obtain skb pkb where k: "BLS_SerializePrivate (kl_bls L) kp = Inr skb" "BLS_SerializePublic (kl_bls L) kp = Inr pkb"
    "k = \<lparr>sk_SigningPrivateKey = hex_EncodeToString skb, sk_SigningPublicKey = hex_EncodeToString pkb\<rparr>" "a' = a" "t = BlsSignerType"
    by (auto simp: save_signer_def bindE_eq_Inr Let_def)
  have "NewBLSSignerWithKeys (kl_bls L) skb pkb = Inr kp"
    using assms(1,2) KS_BLSSigner k(1,2) by (auto simp: key_laws_def intro: BLS_pair_loads)
  with KS_BLSSigner k show ?thesis by (simp add: load_signer_def signer_types_distinct)
next
  case (KS_Ed25519Signer kp)
  then obtain sk pk where kp: "ek_PrivateKey kp = Some sk" "length sk = 64" "ek_PublicKey kp = Some pk" "length pk = 32"
    "t = Ed25519SignerType" using assms(2) by auto
  then have "NewEd25519SignerWithKeys sk pk = Inr kp" by (intro Ed25519_pair_loads)
  with KS_Ed25519Signer kp assms(3) show ?thesis
    by (auto simp: load_signer_def save_signer_def signers_address_def Ed25519_SerializePrivate_def Ed25519_SerializePublic_def
        compute_address signer_types_distinct Let_def)
next
  case (KS_ZKProofSigner kp)
  with assms obtain skb pkb where k: "ZK_SerializePrivate (kl_dleq L) kp = Inr skb" "ZK_SerializePublic (kl_dleq L) kp = Inr pkb"
    "k = \<lparr>sk_SigningPrivateKey = hex_EncodeToString skb, sk_SigningPublicKey = hex_EncodeToString pkb\<rparr>" "a' = a" "t = DleqSignerType"
    by (auto simp: save_signer_def bindE_eq_Inr Let_def)
  have "NewZKProofSignerWithKeys (kl_dleq L) skb pkb = Inr kp"
    using assms(1,2) KS_ZKProofSigner k(1,2) by (auto simp: key_laws_def intro: ZK_pair_loads)
  with KS_ZKProofSigner k show ?thesis by (simp add: load_signer_def signer_types_distinct)
qed (use assms(2) in simp)

text \<open>The loops over the signers, for the pairs of a map \<open>M\<close> in any order.\<close>

lemma signers_address_at: "fmlookup M Ed25519SignerType = Some s \<Longrightarrow>
    signers_address (fmupd Ed25519SignerType s fmempty) = signers_address M"
  by (simp add: signers_address_def)

lemma save_signers_effect:
  assumes "key_laws L" "\<And>t s. fmlookup M t = Some s \<Longrightarrow> signer_typed L t s"
  shows "\<forall>(t, s) \<in> set ps. fmlookup M t = Some s \<Longrightarrow> save_signers L ps m a = Inr (m', a') \<Longrightarrow>
    a' = (if Ed25519SignerType \<in> fst ` set ps then signers_address M else a) \<and>
    (\<forall>t. t \<notin> fst ` set ps \<longrightarrow> fmlookup m' t = fmlookup m t) \<and>
    (\<forall>t \<in> fst ` set ps. \<exists>k s b b'. fmlookup m' t = Some k \<and> fmlookup M t = Some s \<and> save_signer L s b = Inr (k, b'))"
proof (induction ps arbitrary: m a)
  case (Cons p ps)
  obtain t s where p: "p = (t, s)" by (cases p)
  with Cons.prems obtain k a1 where k: "save_signer L s a = Inr (k, a1)" "save_signers L ps (fmupd t k m) a1 = Inr (m', a')"
    "fmlookup M t = Some s" by (auto simp: bindE_eq_Inr)
  have a1: "a1 = (if t = Ed25519SignerType then signers_address M else a)"
    using save_signer_loads [OF assms(1) assms(2) [OF k(3)] k(1)] signers_address_at [of M s] k(3) by auto
  have ps: "\<forall>(t, s) \<in> set ps. fmlookup M t = Some s" using Cons.prems(1) by simp
  note ih = Cons.IH [OF ps k(2)]
  have "\<exists>k' s' b b'. fmlookup m' t = Some k' \<and> fmlookup M t = Some s' \<and> save_signer L s' b = Inr (k', b')"
  proof (cases "t \<in> fst ` set ps")
    case True
    with ih show ?thesis by blast
  next
    case False
    with ih k(1,3) show ?thesis by auto
  qed
  with ih a1 show ?case by (auto simp: p)
qed simp

lemma load_signers_effect:
  assumes "key_laws L" "\<And>t s. fmlookup M t = Some s \<Longrightarrow> signer_typed L t s"
  shows "\<forall>(t, k) \<in> set qs. \<exists>s b b'. fmlookup M t = Some s \<and> save_signer L s b = Inr (k, b') \<Longrightarrow>
    \<exists>m'. load_signers L qs m a = Inr (m', if Ed25519SignerType \<in> fst ` set qs then signers_address M else a) \<and>
      (\<forall>t. fmlookup m' t = (if t \<in> fst ` set qs then fmlookup M t else fmlookup m t))"
proof (induction qs arbitrary: m a)
  case (Cons q qs)
  obtain t k where q: "q = (t, k)" by (cases q)
  with Cons.prems obtain s b b' where s: "fmlookup M t = Some s" "save_signer L s b = Inr (k, b')" by auto
  define a1 where "a1 = (if t = Ed25519SignerType then signers_address M else a)"
  have load: "load_signer L t k a = Inr (s, a1)"
    using save_signer_loads [OF assms(1) assms(2) [OF s(1)] s(2)] signers_address_at [of M s] s(1) by (auto simp: a1_def)
  have "\<exists>m'. load_signers L qs (fmupd t s m) a1 = Inr (m', if Ed25519SignerType \<in> fst ` set qs then signers_address M else a1) \<and>
      (\<forall>u. fmlookup m' u = (if u \<in> fst ` set qs then fmlookup M u else fmlookup (fmupd t s m) u))"
    using Cons.prems by (intro Cons.IH) simp
  then show ?case using s(1) by (auto simp: q load a1_def)
qed simp

lemma saved_signers_load:
  assumes "key_laws L" "\<And>t s. fmlookup M t = Some s \<Longrightarrow> signer_typed L t s" "ranges order M"
    and "save_signers L (range_pairs order M) fmempty ZeroAddress = Inr (m, a)" "ranges ks m"
  shows "a = signers_address M \<and> load_signers L (range_pairs ks m) fmempty ZeroAddress = Inr (M, a)"
proof -
  have "fst ` {(k, v). fmlookup M k = Some v} = {k. fmlookup M k \<noteq> None}" by force
  then have dom: "fst ` set (range_pairs order M) = {k. fmlookup M k \<noteq> None}" by (simp add: set_range_pairs [OF assms(3)])
  have "\<forall>(t, s) \<in> set (range_pairs order M). fmlookup M t = Some s" by (auto simp: set_range_pairs [OF assms(3)])
  note save = save_signers_effect [OF assms(1,2) this assms(4)]
  have none: "signers_address M = ZeroAddress" if "fmlookup M Ed25519SignerType = None" using that by (simp add: signers_address_def)
  then have a: "a = signers_address M" using save by (auto simp: dom)
  have dom': "fst ` set (range_pairs ks m) = {k. fmlookup M k \<noteq> None}"
  proof -
    have "fmlookup m k \<noteq> None \<longleftrightarrow> fmlookup M k \<noteq> None" for k using save by (cases "fmlookup M k") (auto simp: dom)
    moreover have "fst ` {(k, v). fmlookup m k = Some v} = {k. fmlookup m k \<noteq> None}" by force
    ultimately show ?thesis by (simp add: set_range_pairs [OF assms(5)])
  qed
  have "\<forall>(t, k) \<in> set (range_pairs ks m). \<exists>s b b'. fmlookup M t = Some s \<and> save_signer L s b = Inr (k, b')"
  proof (clarify)
    fix t k assume "(t, k) \<in> set (range_pairs ks m)"
    then have k: "fmlookup m t = Some k" by (simp add: set_range_pairs [OF assms(5)])
    then have "t \<in> fst ` set (range_pairs order M)" using save by (metis fmempty_lookup option.distinct(1))
    with save k show "\<exists>s b b'. fmlookup M t = Some s \<and> save_signer L s b = Inr (k, b')" by fastforce
  qed
  from load_signers_effect [OF assms(1,2) this, of fmempty ZeroAddress]
  obtain m' where m': "load_signers L (range_pairs ks m) fmempty ZeroAddress =
      Inr (m', if Ed25519SignerType \<in> {k. fmlookup M k \<noteq> None} then signers_address M else ZeroAddress)"
    "\<forall>t. fmlookup m' t = (if t \<in> {k. fmlookup M k \<noteq> None} then fmlookup M t else None)" unfolding dom' by auto
  have "m' = M" by (rule fmap_ext) (use m'(2) in auto)
  with m'(1) a none show ?thesis by auto
qed

definition order_ok :: "(config_key \<Rightarrow> signer_type list) \<Rightarrow> bool" where
  "order_ok ord \<longleftrightarrow> (\<forall>key. ranges (ord key) (ck_Signers key))"

lemma saved_account_loads:
  assumes "key_laws L" "account_typed L a" "ranges sorder (ka_Signers a)"
    and "Save_account L S basePath sorder a env = (None, a', env')"
  shows "a' = a \<and> (\<exists>data env1. os_MkdirAll S basePath env = (None, env1) \<and>
    os_WriteFile S (account_path basePath (ka_ID a)) data env1 = (None, env') \<and>
    (\<forall>ord. order_ok ord \<longrightarrow> load_account L ord data = Inr a))"
proof -
  obtain env1 where mk: "os_MkdirAll S basePath env = (None, env1)"
    using assms(4) by (cases "os_MkdirAll S basePath env"; cases "fst (os_MkdirAll S basePath env)") (auto simp: Save_account_def)
  obtain key where key: "account_key L sorder a = Inr key"
    using assms(4) by (cases "account_key L sorder a") (auto simp: Save_account_def mk)
  obtain data where data: "yaml_Marshal L key = Inr data"
    using assms(4) by (cases "yaml_Marshal L key") (auto simp: Save_account_def mk key Let_def)
  have w: "a' = a\<lparr>ka_Address := ck_Address key\<rparr>" "os_WriteFile S (account_path basePath (ka_ID a)) data env1 = (None, env')"
    using assms(4) by (auto simp: Save_account_def mk key data Let_def split: prod.splits)
  obtain priv pub m addr where m:
    "crypto_MarshalPrivateKey L (ka_PeerPrivateKey a) = Inr priv" "crypto_MarshalPublicKey L (ka_PeerPublicKey a) = Inr pub"
    "save_signers L (range_pairs sorder (ka_Signers a)) fmempty ZeroAddress = Inr (m, addr)"
    "key = \<lparr>ck_Name = ka_Name a, ck_Address = addr, ck_PeerID = ka_PeerID a, ck_PeerPrivateKey = hex_EncodeToString priv,
       ck_PeerPublicKey = hex_EncodeToString pub, ck_Signers = m, ck_Comment = ka_Comment a\<rparr>"
    using key by (auto simp: account_key_def bindE_eq_Inr)
  have typed: "\<And>t s. fmlookup (ka_Signers a) t = Some s \<Longrightarrow> signer_typed L t s"
    and id: "ka_ID a = peer_String L (ka_PeerID a)" "ka_Address a = signers_address (ka_Signers a)"
    using assms(2) by (auto simp: account_typed_def)
  note loads = saved_signers_load [OF assms(1) typed assms(3) m(3)]
  obtain ks where "ranges ks m" using ranges_ex by blast
  then have addr: "addr = ka_Address a" using loads id(2) by simp
  have "load_account L ord data = Inr a" if "order_ok ord" for ord
  proof -
    have "ranges (ord key) (ck_Signers key)" using that by (simp add: order_ok_def)
    moreover have ck: "ck_Signers key = m" by (simp add: m(4))
    ultimately have "ranges (ord key) m" by simp
    from loads [OF _ this]
    have ld: "load_signers L (range_pairs (ord key) (ck_Signers key)) fmempty ZeroAddress = Inr (ka_Signers a, addr)"
      by (simp add: ck)
    have lib: "yaml_Unmarshal L data = Inr key" "crypto_UnmarshalPrivateKey L priv = Inr (ka_PeerPrivateKey a)"
      "crypto_UnmarshalPublicKey L pub = Inr (ka_PeerPublicKey a)" "peer_Decode L (peer_String L i) = Inr i" for i
      using assms(1) m(1,2) data unfolding key_laws_def by blast+
    show ?thesis
      by (simp add: load_account_def lib ld) (simp add: lib m(4) New_Account_def id(1) addr)
  qed
  moreover have "a' = a" using w(1) addr by (simp add: m(4))
  ultimately show ?thesis using mk w(2) by blast
qed

text \<open>A call with its own random source: the libraries with what they draw from it replaced.\<close>

record ('psk, 'ppk, 'bsk, 'g, 'sc) random_draws =
  rnd_rsa :: "('psk \<times> 'ppk) result"
  rnd_bls :: "'bsk \<Rightarrow> 'bsk"
  rnd_ed :: "(bytes \<times> bytes) result"
  rnd_scalar :: "'g \<Rightarrow> 'sc"

definition reseed ::
  "('psk, 'ppk, 'bsk, 'g, 'sc) random_draws \<Rightarrow> ('psk, 'ppk, 'bsk, 'bpk, 'bsg, 'g, 'sc, 'el, 'pf) key_libs \<Rightarrow>
    ('psk, 'ppk, 'bsk, 'bpk, 'bsg, 'g, 'sc, 'el, 'pf) key_libs" where
  "reseed r L = L\<lparr>crypto_GenerateRSAKeyPair := rnd_rsa r, kl_bls := (kl_bls L)\<lparr>sk_SetByCSPRNG := rnd_bls r\<rparr>,
     kl_ed := (kl_ed L)\<lparr>ed_GenerateKey := rnd_ed r\<rparr>, kl_dleq := (kl_dleq L)\<lparr>grp_RandomScalar := rnd_scalar r\<rparr>\<rparr>"

text \<open>Ed25519 keys have their sizes.\<close>

definition draws_ok :: "('psk, 'ppk, 'bsk, 'g, 'sc) random_draws \<Rightarrow> bool" where
  "draws_ok r \<longleftrightarrow> (\<forall>pk sk. rnd_ed r = Inr (pk, sk) \<longrightarrow> length pk = 32 \<and> length sk = 64)"

lemma reseed_fields [simp]:
  "peer_String (reseed r L) = peer_String L" "p256_params (kl_dleq (reseed r L)) = p256_params (kl_dleq L)"
  "yaml_Marshal (reseed r L) = yaml_Marshal L" "crypto_MarshalPrivateKey (reseed r L) = crypto_MarshalPrivateKey L"
  "crypto_MarshalPublicKey (reseed r L) = crypto_MarshalPublicKey L"
  by (simp_all add: reseed_def p256_params_def)

lemma signer_typed_reseed [simp]: "signer_typed (reseed r L) t s = signer_typed L t s"
  by (cases s) simp_all

lemma account_typed_reseed [simp]: "account_typed (reseed r L) a = account_typed L a"
  by (simp add: account_typed_def)

lemma save_signer_reseed: "save_signer (reseed r L) s a = save_signer L s a"
  by (simp add: save_signer_def reseed_def BLS_SerializePrivate_def BLS_SerializePublic_def ZK_SerializePrivate_def
      ZK_SerializePublic_def cong: key_signer.case_cong option.case_cong)

lemma save_signers_reseed [simp]: "save_signers (reseed r L) ps m a = save_signers L ps m a"
  by (induction L ps m a rule: save_signers.induct) (simp_all add: save_signer_reseed bindE_def split: sum.splits)

lemma account_key_reseed [simp]: "account_key (reseed r L) = account_key L"
  by (intro ext) (simp add: account_key_def)

lemma Save_account_reseed [simp]: "Save_account (reseed r L) = Save_account L"
  by (intro ext) (unfold Save_account_def account_key_reseed reseed_fields, rule refl)

lemma create_account_typed:
  assumes "create_account (reseed r L) name comment = Inr a" "draws_ok r"
  shows "account_typed L a \<and> ka_Name a = name \<and> ka_Comment a = comment \<and>
    fset (fmdom (ka_Signers a)) = {BlsSignerType, Ed25519SignerType, DleqSignerType}"
proof -
  obtain sk pk peerID bls ed zk pkb where c: "NewBLSSigner (kl_bls (reseed r L)) = Inr bls" "NewEd25519Signer (kl_ed (reseed r L)) = Inr ed"
    "NewZKProofSigner (kl_dleq (reseed r L)) = Inr zk" "Ed25519_SerializePublic ed = Inr pkb"
    "a = (New_Account L peerID sk pk (fmupd DleqSignerType (KS_ZKProofSigner zk) (fmupd Ed25519SignerType (KS_Ed25519Signer ed)
           (fmupd BlsSignerType (KS_BLSSigner bls) fmempty))) name comment)\<lparr>ka_Address := address_of_key pkb\<rparr>"
    using assms(1) by (auto simp: create_account_def bindE_eq_Inr compute_address Let_def New_Account_def)
  have bls: "bk_PrivateKey bls \<noteq> None \<and> bk_PublicKey bls \<noteq> None"
    using c(1) by (auto simp: NewBLSSigner_def BLS_GenerateKey_def Let_def split: option.splits)
  obtain esk where ed: "ek_PrivateKey ed = Some esk" "ek_PublicKey ed = Some pkb" "length esk = 64" "length pkb = 32"
    using c(2,4) assms(2)
    by (auto simp: NewEd25519Signer_def Ed25519_GenerateKey_def Ed25519_SerializePublic_def reseed_def draws_ok_def split: sum.splits)
  have zk: "signer_typed L DleqSignerType (KS_ZKProofSigner zk)"
    using c(3) by (auto simp: NewZKProofSigner_def ZK_GenerateKey_def Let_def)
  show ?thesis
    using bls ed zk by (auto simp: c(5) account_typed_def New_Account_def signers_address_def signer_types_distinct)
qed

section \<open>The indexes of the store\<close>

definition account_at ::
  "('psk, 'ppk, 'bsk, 'bpk, 'g, 'sc, 'el) account_store \<Rightarrow> peer_id \<Rightarrow> ('psk, 'ppk, 'bsk, 'bpk, 'g, 'sc, 'el) key_account option" where
  "account_at st i = map_option (\<lambda>r. st_accounts st ! r) (fmlookup (st_keys st) i)"

definition account_of_address ::
  "('psk, 'ppk, 'bsk, 'bpk, 'g, 'sc, 'el) account_store \<Rightarrow> address \<Rightarrow> ('psk, 'ppk, 'bsk, 'bpk, 'g, 'sc, 'el) key_account option" where
  "account_of_address st a = map_option (\<lambda>r. st_accounts st ! r) (fmlookup (st_addresses st) a)"

text \<open>Pointers are allocated, and what is found under a peer ID or an address has it; the accounts are well typed.\<close>

definition store_typed ::
  "('psk, 'ppk, 'bsk, 'bpk, 'bsg, 'g, 'sc, 'el, 'pf) key_libs \<Rightarrow> ('psk, 'ppk, 'bsk, 'bpk, 'g, 'sc, 'el) account_store \<Rightarrow> bool" where
  "store_typed L st \<longleftrightarrow> (\<forall>a \<in> set (st_accounts st). account_typed L a) \<and>
     (\<forall>i r. fmlookup (st_keys st) i = Some r \<longrightarrow> r < length (st_accounts st) \<and> ka_PeerID (st_accounts st ! r) = i) \<and>
     (\<forall>a r. fmlookup (st_addresses st) a = Some r \<longrightarrow> r < length (st_accounts st) \<and> ka_Address (st_accounts st ! r) = a)"

lemma store_typed_empty: "store_typed L empty_store"
  by (simp add: store_typed_def empty_store_def)

lemma store_typed_register: "store_typed L st \<Longrightarrow> account_typed L a \<Longrightarrow> store_typed L (register_account a st)"
  by (auto simp: store_typed_def register_account_def nth_append Let_def less_Suc_eq split: if_splits)

lemma account_at_register: "store_typed L st \<Longrightarrow> account_at (register_account a st) = (account_at st)(ka_PeerID a \<mapsto> a)"
  by (auto simp: account_at_def register_account_def store_typed_def nth_append Let_def fun_eq_iff
      intro!: option.map_cong)

lemma account_of_address_register:
  "store_typed L st \<Longrightarrow> account_of_address (register_account a st) = (account_of_address st)(ka_Address a \<mapsto> a)"
  by (auto simp: account_of_address_def register_account_def store_typed_def nth_append Let_def fun_eq_iff
      intro!: option.map_cong)

lemma load_files_typed: "store_typed L st \<Longrightarrow> store_typed L (snd (load_files L S ord fs env st))"
proof (induction L S ord fs env st rule: load_files.induct)
  case (2 L S ord path files env st)
  show ?case
  proof (cases "bindE (wrapE ''failed to read file %s'' (os_ReadFile S path env)) (load_account L ord)")
    case (Inr a)
    then have "account_typed L a" by (auto simp: bindE_eq_Inr dest: load_account_typed)
    with Inr 2 show ?thesis by (simp add: store_typed_register)
  qed (use 2 in simp)
qed simp

lemma Store_Load_typed: "store_typed L st \<Longrightarrow> store_typed L (snd (Store_Load L S basePath ord env st))"
  by (simp add: Store_Load_def load_files_typed split: sum.splits)

section \<open>Operations\<close>

lemma Save_account_result:
  assumes "account_typed L a" "ranges sorder (ka_Signers a)" "Save_account L S basePath sorder a env = (err, a', env')" "key_laws L"
  shows "a' = a"
proof -
  have "a' = a \<or> (\<exists>key. account_key L sorder a = Inr key \<and> a' = a\<lparr>ka_Address := ck_Address key\<rparr>)"
    using assms(3) by (auto simp: Save_account_def Let_def split: prod.splits option.splits sum.splits)
  moreover have "ck_Address key = ka_Address a" if key: "account_key L sorder a = Inr key" for key
  proof -
    obtain m where m: "save_signers L (range_pairs sorder (ka_Signers a)) fmempty ZeroAddress = Inr (m, ck_Address key)"
      using key by (auto simp: account_key_def bindE_eq_Inr)
    have typed: "\<And>t s. fmlookup (ka_Signers a) t = Some s \<Longrightarrow> signer_typed L t s" and "ka_Address a = signers_address (ka_Signers a)"
      using assms(1) by (auto simp: account_typed_def)
    with saved_signers_load [OF assms(4) typed assms(2) m] ranges_ex [of m] show ?thesis by metis
  qed
  ultimately show ?thesis by auto
qed

text \<open>A call that makes an account, with its result spelled out.\<close>

lemma Create_cases:
  assumes "Store_Create (reseed r L) S basePath order sorder name comment persist (st, env) = (res, (st', env'))" "draws_ok r" "key_laws L"
    and "distinct sorder" "set sorder = {BlsSignerType, Ed25519SignerType, DleqSignerType}"
  shows "(st' = st \<and> env' = env \<and> (\<forall>p. res = Inr p \<longrightarrow> (\<exists>i. fmlookup (st_keys st) i = Some p \<and> ka_Name (st_accounts st ! p) = name))) \<or>
    (st' = st \<and> (\<exists>e. res = Inl e)) \<or>
    (\<exists>a. account_typed L a \<and> ka_Name a = name \<and> ka_Comment a = comment \<and> st' = register_account a st \<and>
       res = Inr (length (st_accounts st)) \<and>
       (if persist then Save_account L S basePath sorder a env = (None, a, env') else env' = env) \<and> ranges sorder (ka_Signers a))"
proof (cases "find (\<lambda>r. ka_Name (st_accounts st ! r) = name) (range_values order (st_keys st))")
  case (Some p)
  then have "p \<in> set (range_values order (st_keys st)) \<and> ka_Name (st_accounts st ! p) = name"
    by (auto simp: find_Some_iff)
  then have "(\<exists>i. fmlookup (st_keys st) i = Some p) \<and> ka_Name (st_accounts st ! p) = name"
    by (auto simp: range_values_def List.map_filter_def)
  with Some assms(1) show ?thesis by (auto simp: Store_Create_def)
next
  case None
  show ?thesis
  proof (cases "create_account (reseed r L) name comment")
    case (Inl e)
    with None assms(1) show ?thesis by (auto simp: Store_Create_def)
  next
    case (Inr a)
    note typed = create_account_typed [OF Inr assms(2)]
    have "ranges sorder (ka_Signers a)" using typed assms(4,5) by (metis fset_inject fset_of_list.rep_eq ranges_def)
    moreover have "a' = a" if "Save_account L S basePath sorder a env = (err, a', env1)" for err a' env1
      using Save_account_result [OF _ calculation that assms(3)] typed by blast
    ultimately show ?thesis using None Inr assms(1) typed
      by (cases "Save_account L S basePath sorder a env"; cases "fst (Save_account L S basePath sorder a env)")
        (auto simp: Store_Create_def split: if_splits)
  qed
qed

section \<open>The directory\<close>

text \<open>
  What the store relies on: the file calls act on a map from paths to contents, and \<open>Glob\<close> lists the files of a
  directory whose name has no character special to it.
\<close>

definition glob_plain :: "string \<Rightarrow> bool" where
  "glob_plain basePath \<longleftrightarrow> set basePath \<inter> {CHR ''*'', CHR ''?'', CHR ''['', CHR 0x5C} = {}"

definition yaml_path :: "string \<Rightarrow> string \<Rightarrow> bool" where
  "yaml_path basePath path \<longleftrightarrow> (\<exists>n. CHR ''/'' \<notin> set n \<and> path = filepath_Join basePath (n @ ''.yaml''))"

definition os_laws :: "'f os_files \<Rightarrow> ('f \<Rightarrow> string \<Rightarrow> bytes option) \<Rightarrow> bool" where
  "os_laws S files \<longleftrightarrow>
     (\<forall>p env. case files env p of None \<Rightarrow> \<exists>e. os_ReadFile S p env = Inl e | Some d \<Rightarrow> os_ReadFile S p env = Inr d) \<and>
     (\<forall>p env. files (snd (os_MkdirAll S p env)) = files env) \<and>
     (\<forall>p d env env'. os_WriteFile S p d env = (None, env') \<longrightarrow> files env' = (files env)(p \<mapsto> d)) \<and>
     (\<forall>p env env'. os_Remove S p env = (None, env') \<longrightarrow> files env' = (files env)(p := None)) \<and>
     (\<forall>p env env' e. os_Remove S p env = (Some e, env') \<longrightarrow> files env' = files env \<and> (os_IsNotExist S e \<longrightarrow> files env p = None)) \<and>
     (\<forall>b env. glob_plain b \<longrightarrow> (\<exists>fs. filepath_Glob S (filepath_Join b ''*.yaml'') env = Inr fs \<and>
        set fs = {p. yaml_path b p \<and> files env p \<noteq> None}))"

lemma filepath_Join_inject: "filepath_Join b n = filepath_Join b m \<longleftrightarrow> n = m"
  by (simp add: filepath_Join_def)

lemma account_path_inject: "account_path b n = account_path b m \<longleftrightarrow> n = m"
  by (simp add: account_path_def filepath_Join_inject)

text \<open>
  Memory and directory agree: the accounts in memory are on disk in files that load, and every file is one of them.
\<close>

definition in_sync ::
  "('psk, 'ppk, 'bsk, 'bpk, 'bsg, 'g, 'sc, 'el, 'pf) key_libs \<Rightarrow> string \<Rightarrow>
    ('psk, 'ppk, 'bsk, 'bpk, 'g, 'sc, 'el) account_store \<Rightarrow> (string \<Rightarrow> bytes option) \<Rightarrow> bool" where
  "in_sync L basePath st m \<longleftrightarrow>
     (\<forall>i a. account_at st i = Some a \<longrightarrow> (\<exists>data. m (account_path basePath (peer_String L i)) = Some data \<and>
        (\<forall>ord. order_ok ord \<longrightarrow> load_account L ord data = Inr a))) \<and>
     (\<forall>p. yaml_path basePath p \<and> m p \<noteq> None \<longrightarrow> (\<exists>i. account_at st i \<noteq> None \<and> p = account_path basePath (peer_String L i)))"

lemma in_sync_add:
  assumes "key_laws L" "store_typed L st" "in_sync L b st m" "account_typed L a"
    and "\<forall>ord. order_ok ord \<longrightarrow> load_account L ord data = Inr a"
  shows "in_sync L b (register_account a st) (m(account_path b (ka_ID a) \<mapsto> data))"
proof -
  have inj: "peer_String L i = peer_String L j \<longleftrightarrow> i = j" for i j
    using assms(1) unfolding key_laws_def by (metis sum.inject(2))
  have "ka_ID a = peer_String L (ka_PeerID a)" using assms(4) by (simp add: account_typed_def)
  with assms(3,5) show ?thesis
    by (fastforce simp: in_sync_def account_at_register [OF assms(2)] account_path_inject inj)
qed

lemma in_sync_remove:
  assumes "key_laws L" "in_sync L b st m"
  shows "in_sync L b (st\<lparr>st_keys := fmdrop i (st_keys st)\<rparr>) (m(account_path b (peer_String L i) := None))"
proof -
  have inj: "peer_String L i = peer_String L j \<longleftrightarrow> i = j" for i j
    using assms(1) unfolding key_laws_def by (metis sum.inject(2))
  have "account_at (st\<lparr>st_keys := fmdrop i (st_keys st)\<rparr>) = (account_at st)(i := None)"
    by (auto simp: account_at_def fun_eq_iff)
  with assms(2) show ?thesis by (fastforce simp: in_sync_def account_path_inject inj)
qed

text \<open>The calls of a node that keeps its accounts on disk.\<close>

inductive account_step ::
  "('psk, 'ppk, 'bsk, 'bpk, 'bsg, 'g, 'sc, 'el, 'pf) key_libs \<Rightarrow> 'f os_files \<Rightarrow> string \<Rightarrow>
    ('psk, 'ppk, 'bsk, 'bpk, 'g, 'sc, 'el) account_store \<times> 'f \<Rightarrow> ('psk, 'ppk, 'bsk, 'bpk, 'g, 'sc, 'el) account_store \<times> 'f \<Rightarrow> bool"
  for L :: "('psk, 'ppk, 'bsk, 'bpk, 'bsg, 'g, 'sc, 'el, 'pf) key_libs" and S :: "'f os_files" and b :: string
where
  create: "draws_ok r \<Longrightarrow> distinct sorder \<Longrightarrow> set sorder = {BlsSignerType, Ed25519SignerType, DleqSignerType} \<Longrightarrow>
     Store_Create (reseed r L) S b order sorder name comment True s = (Inr p, s') \<Longrightarrow> account_step L S b s s'"
| delete: "Store_Delete L S b i s = (None, s') \<Longrightarrow> account_step L S b s s'"

lemma account_step_inv:
  assumes "key_laws L" "os_laws S files" "account_step L S b s s'"
    and "store_typed L (fst s) \<and> in_sync L b (fst s) (files (snd s))"
  shows "store_typed L (fst s') \<and> in_sync L b (fst s') (files (snd s'))"
  using assms(3)
proof (cases rule: account_step.cases)
  case (create r sorder order name comment p)
  obtain st env st' env' where s: "s = (st, env)" "s' = (st', env')" by (cases s; cases s')
  note call = create(4) [unfolded s]
  note cs = Create_cases [OF call create(1) assms(1) create(2,3)]
  then consider "s' = s" | a where "account_typed L a" "st' = register_account a st"
    "Save_account L S b sorder a env = (None, a, env')" "ranges sorder (ka_Signers a)"
    by (auto simp: s)
  then show ?thesis
  proof cases
    case 2
    obtain data env1 where save: "os_MkdirAll S b env = (None, env1)" "os_WriteFile S (account_path b (ka_ID a)) data env1 = (None, env')"
      "\<forall>ord. order_ok ord \<longrightarrow> load_account L ord data = Inr a"
      using saved_account_loads [OF assms(1) 2(1,4,3)] by blast
    have "files env1 = files env" using assms(2) save(1) unfolding os_laws_def by (metis snd_conv)
    moreover have "files env' = (files env1)(account_path b (ka_ID a) \<mapsto> data)"
      using assms(2) save(2) unfolding os_laws_def by blast
    ultimately show ?thesis
      using in_sync_add [OF assms(1) _ _ 2(1) save(3)] store_typed_register [OF _ 2(1)] assms(4) by (simp add: s 2(2))
  qed (use assms(4) in simp)
next
  case (delete i)
  obtain st env st' env' where s: "s = (st, env)" "s' = (st', env')" by (cases s; cases s')
  obtain err env1 where rm: "os_Remove S (account_path b (peer_String L i)) env = (err, env1)" by fastforce
  have d: "st' = st\<lparr>st_keys := fmdrop i (st_keys st)\<rparr>" "env' = env1" "\<forall>e. err = Some e \<longrightarrow> os_IsNotExist S e"
    using delete rm by (auto simp: Store_Delete_def s Let_def split: if_splits option.splits)
  have "files env1 = (files env)(account_path b (peer_String L i) := None)"
  proof (cases err)
    case None
    with rm show ?thesis using assms(2) unfolding os_laws_def by blast
  next
    case (Some e)
    then have "os_IsNotExist S e" using d(3) by blast
    with rm Some have "files env1 = files env \<and> files env (account_path b (peer_String L i)) = None"
      using assms(2) unfolding os_laws_def by blast
    then show ?thesis by (simp add: fun_upd_idem)
  qed
  moreover have "store_typed L st'" using assms(4) by (auto simp: d store_typed_def s split: if_splits)
  ultimately show ?thesis using in_sync_remove [OF assms(1)] assms(4) by (simp add: s d)
qed

lemma account_steps_inv:
  assumes "key_laws L" "os_laws S files" "(account_step L S b)\<^sup>*\<^sup>* (empty_store, env0) (st, env)"
    and "\<forall>p. yaml_path b p \<longrightarrow> files env0 p = None"
  shows "store_typed L st \<and> in_sync L b st (files env)"
proof -
  have "in_sync L b empty_store (files env0)" using assms(4) by (auto simp: in_sync_def account_at_def empty_store_def)
  then have start: "store_typed L (fst (empty_store, env0)) \<and> in_sync L b (fst (empty_store, env0)) (files (snd (empty_store, env0)))"
    by (simp add: store_typed_empty)
  have "store_typed L (fst s) \<and> in_sync L b (fst s) (files (snd s))" if "(account_step L S b)\<^sup>*\<^sup>* (empty_store, env0) s" for s
    using that by (induction rule: rtranclp_induct) (use start account_step_inv [OF assms(1,2)] in blast)+
  from this [OF assms(3)] show ?thesis by simp
qed

section \<open>Starting again\<close>

lemma empty_store_views [simp]: "account_at empty_store = Map.empty" "account_of_address empty_store = Map.empty"
  by (simp_all add: account_at_def account_of_address_def empty_store_def fun_eq_iff)

lemma load_files_all:
  assumes "\<forall>p \<in> set fs. \<exists>d a. os_ReadFile S p env = Inr d \<and> load_account L ord d = Inr a"
  shows "\<exists>as. load_files L S ord fs env st = (None, fold register_account as st) \<and>
    list_all2 (\<lambda>p a. \<exists>d. os_ReadFile S p env = Inr d \<and> load_account L ord d = Inr a) fs as"
  using assms
proof (induction fs arbitrary: st)
  case (Cons p fs)
  then obtain d a where d: "os_ReadFile S p env = Inr d" "load_account L ord d = Inr a" by auto
  obtain as where "load_files L S ord fs env (register_account a st) = (None, fold register_account as (register_account a st))"
    "list_all2 (\<lambda>p a. \<exists>d. os_ReadFile S p env = Inr d \<and> load_account L ord d = Inr a) fs as"
    using Cons by (meson list.set_intros(2))
  with d show ?case by (intro exI [of _ "a # as"]) auto
qed simp

lemma fold_register:
  assumes "store_typed L st" "\<forall>a \<in> set as. account_typed L a"
  shows "store_typed L (fold register_account as st) \<and>
    account_at (fold register_account as st) = account_at st ++ map_of (map (\<lambda>a. (ka_PeerID a, a)) (rev as)) \<and>
    account_of_address (fold register_account as st) = account_of_address st ++ map_of (map (\<lambda>a. (ka_Address a, a)) (rev as))"
  using assms
proof (induction as arbitrary: st)
  case (Cons a as)
  then have "store_typed L (register_account a st)" by (simp add: store_typed_register)
  with Cons show ?case
    by (simp add: account_at_register [OF Cons.prems(1)] account_of_address_register [OF Cons.prems(1)])
qed simp

lemma map_of_keyed:
  assumes "\<And>a b. a \<in> set as \<Longrightarrow> b \<in> set as \<Longrightarrow> f a = f b \<Longrightarrow> a = b"
  shows "map_of (map (\<lambda>a. (f a, a)) as) k = Some a \<longleftrightarrow> a \<in> set as \<and> f a = k"
  using assms
proof (induction as)
  case (Cons b as)
  then have ih: "map_of (map (\<lambda>a. (f a, a)) as) k = Some a \<longleftrightarrow> a \<in> set as \<and> f a = k" by simp
  show ?case using ih Cons.prems [of a b] by auto
qed simp

lemma account_at_typed: "store_typed L st \<Longrightarrow> account_at st i = Some a \<Longrightarrow> ka_PeerID a = i \<and> account_typed L a"
  by (auto simp: account_at_def store_typed_def)

lemma os_read:
  assumes "os_laws S files" "files env p = Some d"
  shows "os_ReadFile S p env = Inr d"
proof -
  have "case files env p of None \<Rightarrow> \<exists>e. os_ReadFile S p env = Inl e | Some d \<Rightarrow> os_ReadFile S p env = Inr d"
    using assms(1) unfolding os_laws_def by blast
  with assms(2) show ?thesis by simp
qed

lemma list_all2_set1: "list_all2 P xs ys \<Longrightarrow> x \<in> set xs \<Longrightarrow> \<exists>y \<in> set ys. P x y"
  by (induction rule: list_all2_induct) auto

lemma list_all2_set2: "list_all2 P xs ys \<Longrightarrow> y \<in> set ys \<Longrightarrow> \<exists>x \<in> set xs. P x y"
  by (induction rule: list_all2_induct) auto

lemma option_eqI: "(\<And>a. x = Some a \<longleftrightarrow> y = Some a) \<Longrightarrow> x = y"
  by (cases x; cases y) auto

lemma load_in_sync:
  assumes "key_laws L" "os_laws S files" "glob_plain b" "order_ok ord" "store_typed L st" "in_sync L b st (files env)"
  shows "\<exists>as. NewStore L S b ord env = Inr (fold register_account as empty_store) \<and> set as = {a. \<exists>i. account_at st i = Some a}"
proof -
  obtain fs where fs: "filepath_Glob S (filepath_Join b ''*.yaml'') env = Inr fs"
    "set fs = {p. yaml_path b p \<and> files env p \<noteq> None}" using assms(2,3) unfolding os_laws_def by blast
  note rd = os_read [OF assms(2)]
  have loaded: "os_ReadFile S (account_path b (peer_String L i)) env = Inr d \<Longrightarrow> load_account L ord d = Inr a' \<Longrightarrow> a' = a"
    "\<exists>d. os_ReadFile S (account_path b (peer_String L i)) env = Inr d \<and> load_account L ord d = Inr a"
    "account_path b (peer_String L i) \<in> set fs" if a: "account_at st i = Some a" for i a a' d
  proof -
    obtain data where data: "files env (account_path b (peer_String L i)) = Some data" "load_account L ord data = Inr a"
      using assms(4,6) a unfolding in_sync_def by blast
    note r = rd [OF data(1)]
    show "os_ReadFile S (account_path b (peer_String L i)) env = Inr d \<Longrightarrow> load_account L ord d = Inr a' \<Longrightarrow> a' = a"
      using r data(2) by simp
    show "\<exists>d. os_ReadFile S (account_path b (peer_String L i)) env = Inr d \<and> load_account L ord d = Inr a"
      using r data(2) by blast
    have "CHR ''/'' \<notin> set (peer_String L i)" using assms(1) unfolding key_laws_def by blast
    then show "account_path b (peer_String L i) \<in> set fs" using data(1) by (auto simp: fs(2) yaml_path_def account_path_def)
  qed
  have each: "\<exists>i a. p = account_path b (peer_String L i) \<and> account_at st i = Some a" if "p \<in> set fs" for p
    using assms(6) that unfolding in_sync_def fs(2) by blast
  then have "\<forall>p \<in> set fs. \<exists>d a. os_ReadFile S p env = Inr d \<and> load_account L ord d = Inr a" using loaded(2) by metis
  from load_files_all [OF this, of empty_store] obtain as
    where as: "load_files L S ord fs env empty_store = (None, fold register_account as empty_store)"
      "list_all2 (\<lambda>p a. \<exists>d. os_ReadFile S p env = Inr d \<and> load_account L ord d = Inr a) fs as" by blast
  have "set as = {a. \<exists>i. account_at st i = Some a}"
  proof (intro set_eqI iffI)
    fix a assume "a \<in> set as"
    then obtain p d where p: "p \<in> set fs" "os_ReadFile S p env = Inr d" "load_account L ord d = Inr a"
      using list_all2_set2 [OF as(2)] by blast
    obtain i a' where i: "p = account_path b (peer_String L i)" "account_at st i = Some a'" using each [OF p(1)] by blast
    have "a = a'" using loaded(1) [OF i(2)] p(2,3) i(1) by blast
    then show "a \<in> {a. \<exists>i. account_at st i = Some a}" using i(2) by blast
  next
    fix a assume "a \<in> {a. \<exists>i. account_at st i = Some a}"
    then obtain i where i: "account_at st i = Some a" by blast
    then obtain a' d where a': "a' \<in> set as" "os_ReadFile S (account_path b (peer_String L i)) env = Inr d" "load_account L ord d = Inr a'"
      using list_all2_set1 [OF as(2) loaded(3) [OF i]] by blast
    have "a' = a" using loaded(1) [OF i a'(2,3)] .
    then show "a \<in> set as" using a'(1) by simp
  qed
  then show ?thesis using as(1) fs(1) by (auto simp: NewStore_def Store_Load_def)
qed

section \<open>Properties\<close>


text \<open>Every call of the store, whether it succeeds or not.\<close>

inductive store_step ::
  "('psk, 'ppk, 'bsk, 'bpk, 'bsg, 'g, 'sc, 'el, 'pf) key_libs \<Rightarrow> 'f os_files \<Rightarrow> string \<Rightarrow>
    ('psk, 'ppk, 'bsk, 'bpk, 'g, 'sc, 'el) account_store \<times> 'f \<Rightarrow> ('psk, 'ppk, 'bsk, 'bpk, 'g, 'sc, 'el) account_store \<times> 'f \<Rightarrow> bool"
  for L :: "('psk, 'ppk, 'bsk, 'bpk, 'bsg, 'g, 'sc, 'el, 'pf) key_libs" and S :: "'f os_files" and b :: string
where
  load: "Store_Load L S b ord env st = (err, st') \<Longrightarrow> store_step L S b (st, env) (st', env)"
| create: "draws_ok r \<Longrightarrow> distinct sorder \<Longrightarrow> set sorder = {BlsSignerType, Ed25519SignerType, DleqSignerType} \<Longrightarrow>
     Store_Create (reseed r L) S b order sorder name comment persist s = (res, s') \<Longrightarrow> store_step L S b s s'"
| delete: "Store_Delete L S b i s = (err, s') \<Longrightarrow> store_step L S b s s'"
| save: "p < length (st_accounts (fst s)) \<Longrightarrow> ranges sorder (ka_Signers (st_accounts (fst s) ! p)) \<Longrightarrow>
     Store_Save L S b sorder p s = (err, s') \<Longrightarrow> store_step L S b s s'"

lemma store_step_typed:
  assumes "key_laws L" "store_step L S b s s'" "store_typed L (fst s)"
  shows "store_typed L (fst s')"
  using assms(2)
proof (cases rule: store_step.cases)
  case (load ord env st err st')
  then show ?thesis using Store_Load_typed [of L st S b ord env] assms(3) by simp
next
  case (create r sorder order name comment persist res)
  obtain st env st' env' where s: "s = (st, env)" "s' = (st', env')" by (cases s; cases s')
  from Create_cases [OF create(4) [unfolded s] create(1) assms(1) create(2,3)] show ?thesis
    using assms(3) by (auto simp: s store_typed_register)
next
  case (delete i err)
  obtain st env where s: "s = (st, env)" by (cases s)
  have "fst s' = st \<or> fst s' = st\<lparr>st_keys := fmdrop i (st_keys st)\<rparr>"
    using delete by (auto simp: s Store_Delete_def Let_def split: if_splits option.splits prod.splits)
  then show ?thesis using assms(3) by (auto simp: s store_typed_def split: if_splits)
next
  case (save p sorder err)
  obtain st env where s: "s = (st, env)" by (cases s)
  obtain e a env' where sv: "Save_account L S b sorder (st_accounts st ! p) env = (e, a, env')"
    by (cases "Save_account L S b sorder (st_accounts st ! p) env") auto
  have "account_typed L (st_accounts st ! p)" using assms(3) save(1) by (simp add: s store_typed_def)
  with Save_account_result [OF _ _ sv assms(1)] save(2) have "a = st_accounts st ! p" by (simp add: s)
  then have "fst s' = st" using save(3) sv by (auto simp: s Store_Save_def list_update_id)
  then show ?thesis using assms(3) by (simp add: s)
qed

lemma store_steps_typed:
  assumes "key_laws L" "(store_step L S b)\<^sup>*\<^sup>* (empty_store, env0) s"
  shows "store_typed L (fst s)"
  using assms(2) by (induction rule: rtranclp_induct) (auto simp: store_typed_empty dest: store_step_typed [OF assms(1)])

lemma signer_of_typed: "signer_typed L t s \<Longrightarrow> \<exists>sg. signer_of L s = Some sg \<and> sg_Type sg = t"
  by (cases s) (auto simp: BLS_signer_def Ed25519_signer_def ZKProof_signer_def)


text \<open>
  A deleted account stays in the store: after \<open>Delete\<close> succeeds the account is no longer found under its peer ID,
  but \<open>GetByAddress\<close> still returns it, with its signers, if it was found under its address before.
\<close>

theorem deleted_account_still_found:
  assumes "Store_GetByPeerID i st = Inr r" "Store_GetByAddress (ka_Address (st_accounts st ! r)) st = Inr r"
    and "Store_Delete L S b i (st, env) = (None, (st', env'))"
  shows "Store_GetByPeerID i st' = Inl (ErrorS ''account not found for peer ID: %s'') \<and>
    Store_GetByAddress (ka_Address (st_accounts st ! r)) st' = Inr r \<and> st_accounts st' ! r = st_accounts st ! r"
proof -
  have "st' = st\<lparr>st_keys := fmdrop i (st_keys st)\<rparr>"
    using assms(3) by (auto simp: Store_Delete_def Let_def split: if_splits option.splits prod.splits)
  with assms(2) show ?thesis by (simp add: Store_GetByPeerID_def Store_GetByAddress_def)
qed

section \<open>An instance\<close>

text \<open>
  Files kept in a list, keys that are their own bytes, and a YAML that knows the one document \<open>doc\<close>.
\<close>

definition yaml_in :: "string \<Rightarrow> string \<Rightarrow> bool" where
  "yaml_in dir p \<longleftrightarrow> (let n = drop (length dir) p in
     prefix dir p \<and> suffix ''.yaml'' n \<and> CHR ''/'' \<notin> set (take (length n - 5) n))"

definition mem_files :: "(string \<times> bytes) list os_files" where
  "mem_files = \<lparr>
     os_MkdirAll = (\<lambda>_ env. (None, env)),
     os_ReadFile = (\<lambda>p env. case map_of env p of None \<Rightarrow> Inl (ErrorS ''not exist'') | Some d \<Rightarrow> Inr d),
     os_WriteFile = (\<lambda>p d env. (None, (p, d) # env)),
     os_Remove = (\<lambda>p env. if map_of env p = None then (Some (ErrorS ''not exist''), env) else (None, filter (\<lambda>(q, _). q \<noteq> p) env)),
     os_IsNotExist = (\<lambda>e. e = ErrorS ''not exist''),
     filepath_Glob = (\<lambda>pattern env. Inr (filter (yaml_in (take (length pattern - 6) pattern)) (map fst env)))\<rparr>"

definition dir_of :: "string \<Rightarrow> string" where
  "dir_of b = (if b = '''' then '''' else if last b = CHR ''/'' then b else b @ ''/'')"

lemma Join_dir: "filepath_Join b n = dir_of b @ n"
  by (simp add: filepath_Join_def dir_of_def)

lemma yaml_path_iff: "yaml_path b p \<longleftrightarrow> yaml_in (dir_of b) p"
proof
  assume "yaml_path b p"
  then show "yaml_in (dir_of b) p" by (auto simp: yaml_path_def yaml_in_def Join_dir suffix_def)
next
  assume a: "yaml_in (dir_of b) p"
  then obtain n where "p = dir_of b @ n @ ''.yaml''" by (auto simp: yaml_in_def prefix_def suffix_def Let_def)
  with a show "yaml_path b p" by (auto simp: yaml_path_def yaml_in_def Join_dir Let_def)
qed

lemma mem_files_laws: "os_laws mem_files map_of"
proof -
  have rm: "map_of (filter (\<lambda>(q, _). q \<noteq> p) env) = (map_of env)(p := None)" for p :: string and env :: "(string \<times> bytes) list"
    by (induction env) (auto simp: fun_eq_iff)
  have glob: "set (filter (yaml_in (take (length (filepath_Join b ''*.yaml'') - 6) (filepath_Join b ''*.yaml''))) (map fst env)) =
      {p. yaml_path b p \<and> map_of env p \<noteq> None}" for b and env :: "(string \<times> bytes) list"
  proof -
    have "map_of env p \<noteq> None \<longleftrightarrow> p \<in> fst ` set env" for p by (simp only: map_of_eq_None_iff not_not)
    then show ?thesis by (auto simp: Join_dir yaml_path_iff simp del: not_None_eq)
  qed
  have read: "case map_of env p of None \<Rightarrow> \<exists>e. os_ReadFile mem_files p env = Inl e | Some d \<Rightarrow> os_ReadFile mem_files p env = Inr d" for p env
    by (simp add: mem_files_def split: option.splits)
  show ?thesis
    unfolding os_laws_def
  proof (intro conjI allI impI)
    fix b env
    show "\<exists>fs. filepath_Glob mem_files (filepath_Join b ''*.yaml'') env = Inr fs \<and> set fs = {p. yaml_path b p \<and> map_of env p \<noteq> None}"
      unfolding mem_files_def by (simp only: os_files.simps sum.inject simp_thms ex_simps glob)
  qed (use rm read in \<open>auto simp: mem_files_def fun_upd_idem split: if_splits option.splits\<close>)
qed
lemma hex_digit_no_slash: "n < 16 \<Longrightarrow> hex_digit n \<noteq> CHR ''/''"
  by (drule less_16_cases) (auto simp: hex_digit_def)

lemma hex_no_slash: "CHR ''/'' \<notin> set (hex_EncodeToString bs)"
proof -
  have "unat b div 16 < 16" "unat b mod 16 < 16" for b :: byte
    using unsigned_less [of b, where ?'a = nat] by auto
  then show ?thesis by (auto simp: hex_EncodeToString_def hex_digit_no_slash [symmetric])
qed

definition plain_libs ::
  "config_key \<Rightarrow> (bytes, bytes, bytes, bytes, bytes, unit, byte, byte, byte \<times> bytes) key_libs" where
  "plain_libs doc = \<lparr>kl_bls = plain_bls, kl_ed = plain_ed25519, kl_dleq = plain_dleq,
     crypto_GenerateRSAKeyPair = Inl EOF, crypto_MarshalPrivateKey = Inr, crypto_UnmarshalPrivateKey = Inr,
     crypto_MarshalPublicKey = Inr, crypto_UnmarshalPublicKey = Inr, peer_IDFromPublicKey = Inr,
     peer_Decode = hex_DecodeString, peer_String = hex_EncodeToString,
     yaml_Marshal = (\<lambda>k. if k = doc then Inr [1] else Inl EOF),
     yaml_Unmarshal = (\<lambda>bs. if bs = [1] then Inr doc else Inl EOF)\<rparr>"

lemma plain_libs_laws: "key_laws (plain_libs doc)"
  by (simp add: key_laws_def plain_libs_def plain_bls_laws plain_dleq_laws hex_no_slash)

definition sample_draws :: "(bytes, bytes, bytes, unit, byte) random_draws" where
  "sample_draws = \<lparr>rnd_rsa = Inr ([9], [8]), rnd_bls = \<lambda>_. [1], rnd_ed = Inr (replicate 32 0, replicate 64 0), rnd_scalar = \<lambda>_. 3\<rparr>"

lemma sample_draws_ok: "draws_ok sample_draws"
  by (simp add: draws_ok_def sample_draws_def)

definition sample_signers :: "(signer_type, (bytes, bytes, unit, byte, byte) key_signer) fmap" where
  "sample_signers = fmupd DleqSignerType (KS_ZKProofSigner plain_zk_pair)
     (fmupd Ed25519SignerType (KS_Ed25519Signer \<lparr>ek_PrivateKey = Some (replicate 64 0), ek_PublicKey = Some (replicate 32 0)\<rparr>)
     (fmupd BlsSignerType (KS_BLSSigner \<lparr>bk_PrivateKey = Some [1], bk_PublicKey = Some [1]\<rparr>) fmempty))"

definition sample_key_account :: "(bytes, bytes, bytes, bytes, unit, byte, byte) key_account" where
  "sample_key_account = \<lparr>ka_ID = hex_EncodeToString [8], ka_Address = address_of_key (replicate 32 0), ka_PeerID = [8],
     ka_Name = ''node'', ka_PeerPrivateKey = [9], ka_PeerPublicKey = [8], ka_Signers = sample_signers, ka_Comment = ''''\<rparr>"

definition sample_sorder :: "signer_type list" where
  "sample_sorder = [BlsSignerType, Ed25519SignerType, DleqSignerType]"

lemma sample_created: "create_account (reseed sample_draws (plain_libs doc)) ''node'' '''' = Inr sample_key_account"
proof -
  let ?L = "reseed sample_draws (plain_libs doc)"
  have "NewBLSSigner (kl_bls ?L) = Inr \<lparr>bk_PrivateKey = Some [1], bk_PublicKey = Some [1]\<rparr>"
    by (simp add: NewBLSSigner_def BLS_GenerateKey_def reseed_def sample_draws_def plain_libs_def plain_bls_def Let_def)
  moreover have "NewEd25519Signer (kl_ed ?L) = Inr \<lparr>ek_PrivateKey = Some (replicate 64 0), ek_PublicKey = Some (replicate 32 0)\<rparr>"
    by (simp add: NewEd25519Signer_def Ed25519_GenerateKey_def reseed_def sample_draws_def)
  moreover have "NewZKProofSigner (kl_dleq ?L) = Inr plain_zk_pair"
    by (simp add: NewZKProofSigner_def ZK_GenerateKey_def reseed_def sample_draws_def plain_libs_def plain_dleq_def plain_zk_pair_def
        p256_params_def empty_zk_pair_def Let_def)
  moreover have "crypto_GenerateRSAKeyPair ?L = Inr ([9], [8])" "peer_IDFromPublicKey ?L [8] = Inr [8]" "peer_String ?L = hex_EncodeToString"
    by (simp_all add: reseed_def sample_draws_def plain_libs_def)
  ultimately show ?thesis
    by (simp add: create_account_def sample_key_account_def sample_signers_def New_Account_def Ed25519_SerializePublic_def compute_address Let_def)
qed

definition sample_doc :: config_key where
  "sample_doc = \<lparr>ck_Name = ''node'', ck_Address = address_of_key (replicate 32 0), ck_PeerID = [8],
     ck_PeerPrivateKey = hex_EncodeToString [9], ck_PeerPublicKey = hex_EncodeToString [8],
     ck_Signers =
       fmupd DleqSignerType \<lparr>sk_SigningPrivateKey = hex_EncodeToString [3], sk_SigningPublicKey = hex_EncodeToString [0, 1, 15, 0, 1, 15]\<rparr>
       (fmupd Ed25519SignerType
          \<lparr>sk_SigningPrivateKey = hex_EncodeToString (replicate 64 0), sk_SigningPublicKey = hex_EncodeToString (replicate 32 0)\<rparr>
       (fmupd BlsSignerType \<lparr>sk_SigningPrivateKey = hex_EncodeToString [0, 1], sk_SigningPublicKey = hex_EncodeToString [0, 1]\<rparr> fmempty)),
     ck_Comment = ''''\<rparr>"

lemma sample_account_key: "account_key (plain_libs doc) sample_sorder sample_key_account = Inr sample_doc"
proof -
  have pub: "ZK_SerializePublic plain_dleq plain_zk_pair = Inr [0, 1, 15, 0, 1, 15]"
    using pack_two_small [of "[15]" "[15]"] by (simp add: ZK_SerializePublic_def plain_zk_pair_def plain_dleq_def)
  have priv: "ZK_SerializePrivate plain_dleq plain_zk_pair = Inr [3]"
    by (simp add: ZK_SerializePrivate_def plain_zk_pair_def plain_dleq_def)
  show ?thesis
    by (simp add: account_key_def plain_libs_def sample_key_account_def sample_sorder_def sample_signers_def sample_doc_def range_pairs_def
        List.map_filter_def signer_types_distinct save_signer_def BLS_SerializePrivate_def BLS_SerializePublic_def plain_bls_def
        Ed25519_SerializePrivate_def Ed25519_SerializePublic_def compute_address pub priv)
qed

lemma sample_Store_Create:
  "Store_Create (reseed sample_draws (plain_libs sample_doc)) mem_files ''keys'' [] sample_sorder ''node'' '''' True (empty_store, []) =
     (Inr 0, (register_account sample_key_account empty_store, [(account_path ''keys'' (hex_EncodeToString [8]), [1])]))"
proof -
  let ?L = "plain_libs sample_doc"
  have sv: "Save_account ?L mem_files ''keys'' sample_sorder sample_key_account [] =
      (None, sample_key_account, [(account_path ''keys'' (hex_EncodeToString [8]), [1])])"
  proof -
    have "os_MkdirAll mem_files p env = (None, env)" "os_WriteFile mem_files p d env = (None, (p, d) # env)"
      "yaml_Marshal ?L sample_doc = Inr [1]" "sample_key_account\<lparr>ka_Address := ck_Address sample_doc\<rparr> = sample_key_account"
      "ka_ID sample_key_account = hex_EncodeToString [8]" for p d env
      by (simp_all add: mem_files_def plain_libs_def) (simp_all add: sample_key_account_def sample_doc_def)
    then show ?thesis by (simp add: Save_account_def sample_account_key)
  qed
  show ?thesis by (simp add: Store_Create_def empty_store_def range_values_def List.map_filter_def sample_created sv)
qed

lemma sample_step:
  "account_step (plain_libs sample_doc) mem_files ''keys'' (empty_store, [])
     (register_account sample_key_account empty_store, [(account_path ''keys'' (hex_EncodeToString [8]), [1])])"
  by (rule account_step.create [OF _ _ _ sample_Store_Create]) (auto simp: sample_draws_ok sample_sorder_def signer_types_distinct)

definition sorted_order :: "config_key \<Rightarrow> signer_type list" where
  "sorted_order key = sorted_list_of_fset (fmdom (ck_Signers key))"

lemma sorted_order_ok: "order_ok sorted_order"
proof -
  have "distinct (sorted_order key) \<and> fset (fset_of_list (sorted_order key)) = fset (fmdom (ck_Signers key))" for key
    by (simp add: sorted_order_def sorted_list_of_fset.rep_eq fset_of_list.rep_eq)
  then show ?thesis by (simp add: order_ok_def ranges_def fset_inject)
qed



theorem deleted_account_still_found_witness:
  "\<exists>st' env'. Store_Delete (plain_libs sample_doc) mem_files ''keys'' [8] (register_account sample_key_account empty_store, []) = (None, (st', env')) \<and>
     Store_GetByAddress (address_of_key (replicate 32 0)) st' = Inr 0"
proof -
  let ?st = "register_account sample_key_account empty_store"
  have get: "Store_GetByPeerID [8] ?st = Inr 0" "Store_GetByAddress (ka_Address (st_accounts ?st ! 0)) ?st = Inr 0"
    by (simp_all add: Store_GetByPeerID_def Store_GetByAddress_def register_account_def sample_key_account_def empty_store_def)
  obtain st' env' where d: "Store_Delete (plain_libs sample_doc) mem_files ''keys'' [8] (?st, []) = (None, (st', env'))"
    by (simp add: Store_Delete_def register_account_def sample_key_account_def empty_store_def mem_files_def)
  have "ka_Address (st_accounts ?st ! 0) = address_of_key (replicate 32 0)"
    by (simp add: register_account_def sample_key_account_def empty_store_def)
  with deleted_account_still_found [OF get d] d show ?thesis by auto
qed

end
