(* ===== verification/Runtime_Services.thy ===== *)
theory Runtime_Services
  imports Service_State
begin

text \<open>
  \<open>pkg/runtime\<close> (\<open>registry.go\<close>, \<open>base.go\<close>), \<open>pkg/shutdown\<close> and \<open>pkg/resources\<close>: the registry of services, their concurrent
  start, and their stop when the process is told to shut down.  The goroutines of \<open>Start\<close> and the one that runs the
  shutdown callbacks are a step relation, one step per stretch of code between two lock operations.  Shown here: after a
  successful start every requested service is in the state Started and will be stopped; a shutdown after it stops each of
  them; and a service whose start overlaps the shutdown is started and never stopped.
\<close>

section \<open>The registry\<close>

type_synonym service_type = string

text \<open>A service acts on what it shares with the others, \<open>'e\<close>; its \<open>Start\<close> and its \<open>Stop\<close> are one step each.\<close>

record 'e service =
  sv_Type :: service_type
  sv_Start :: "'e \<Rightarrow> go_error option \<times> 'e"
  sv_Stop :: "'e \<Rightarrow> go_error option \<times> 'e"

type_synonym 'e registry = "(service_type, 'e service) fmap"

definition Registry_Get :: "service_type \<Rightarrow> 'e registry \<Rightarrow> 'e service option" where
  "Registry_Get service r = fmlookup r service"

definition Registry_Register :: "service_type \<Rightarrow> 'e service \<Rightarrow> 'e registry \<Rightarrow> bool \<times> 'e registry" where
  "Registry_Register service srvce r =
     (if fmlookup r service \<noteq> None then (False, r) else (True, fmupd service srvce r))"

text \<open>The first requested service that is missing, and whether all exist.\<close>

fun Registry_Exists :: "service_type list \<Rightarrow> 'e registry \<Rightarrow> service_type option \<times> bool" where
  "Registry_Exists [] r = (None, True)"
| "Registry_Exists (v # services) r = (if fmlookup r v = None then (Some v, False) else Registry_Exists services r)"

text \<open>The order of the range over the map is the argument \<open>order\<close>.\<close>

definition ListAvailableServices :: "service_type list \<Rightarrow> 'e registry \<Rightarrow> service_type list" where
  "ListAvailableServices order r = filter (\<lambda>service. fmlookup r service \<noteq> None) order"

definition Registry_Remove :: "service_type \<Rightarrow> 'e registry \<Rightarrow> 'e registry" where
  "Registry_Remove service r = fmdrop service r"

text \<open>
  Handlers build and register services; the first that fails, in the order of the range, ends the injection.  \<open>'s\<close> is what handlers
  act on; \<open>None\<close> is a handler that does not return.
\<close>

type_synonym 's handler = "'s \<Rightarrow> (go_error option \<times> 's) option"

definition RegisterHandler :: "service_type \<Rightarrow> 's handler \<Rightarrow> (service_type, 's handler) fmap \<Rightarrow> bool \<times> (service_type, 's handler) fmap" where
  "RegisterHandler service handler hs =
     (if fmlookup hs service \<noteq> None then (False, hs) else (True, fmupd service handler hs))"

fun inject_loop :: "'s handler list \<Rightarrow> 's \<Rightarrow> (go_error option \<times> 's) option" where
  "inject_loop [] s = Some (None, s)"
| "inject_loop (handler # rest) s =
     (case handler s of
        None \<Rightarrow> None
      | Some (Some err, s) \<Rightarrow> Some (Some (wrap_error ''failed to register service'' err), s)
      | Some (None, s) \<Rightarrow> inject_loop rest s)"

definition InjectServices :: "service_type list \<Rightarrow> (service_type, 's handler) fmap \<Rightarrow> 's \<Rightarrow> (go_error option \<times> 's) option" where
  "InjectServices order hs s = inject_loop (range_values order hs) s"

section \<open>Resources\<close>

definition Resources_NewManager :: "(string, 'r) fmap" where
  "Resources_NewManager = fmempty"

definition Resources_Register :: "string \<Rightarrow> 'r \<Rightarrow> (string, 'r) fmap \<Rightarrow> (string, 'r) fmap" where
  "Resources_Register resourceType resource rm = fmupd resourceType resource rm"

definition Resources_Get :: "string \<Rightarrow> (string, 'r) fmap \<Rightarrow> 'r option" where
  "Resources_Get resourceType rm = fmlookup rm resourceType"

text \<open>\<open>cast\<close> is the type assertion to \<open>T\<close>.\<close>

definition Resources_R :: "('r \<Rightarrow> 't option) \<Rightarrow> string \<Rightarrow> (string, 'r) fmap \<Rightarrow> 't option" where
  "Resources_R cast resourceType rm = (case Resources_Get resourceType rm of None \<Rightarrow> None | Some res \<Rightarrow> cast res)"

section \<open>The shutdown manager\<close>

text \<open>
  While the callbacks run, \<open>shutdown\<close> holds the mutex: \<open>sh_pending\<close> is then what is left to call, and \<open>sh_running\<close> the
  service whose \<open>Stop\<close> has returned but whose state is not set yet.
\<close>

record 'e shutdown_manager =
  sh_cancelled :: bool
  sh_once :: bool
  sh_callbacks :: "(service_type \<times> 'e service) list"
  sh_pending :: "(service_type \<times> 'e service) list option"
  sh_running :: "(service_type \<times> go_error option) option"

definition NewShutdownManager :: "'e shutdown_manager" where
  "NewShutdownManager = \<lparr>sh_cancelled = False, sh_once = False, sh_callbacks = [], sh_pending = None, sh_running = None\<rparr>"

definition AddShutdownCallback :: "service_type \<times> 'e service \<Rightarrow> 'e shutdown_manager \<Rightarrow> 'e shutdown_manager" where
  "AddShutdownCallback callback sh = sh\<lparr>sh_callbacks := sh_callbacks sh @ [callback]\<rparr>"

text \<open>\<open>shutdown\<close>: the context is cancelled and the loop over the callbacks starts, once.\<close>

definition shutdown_begin :: "'e shutdown_manager \<Rightarrow> 'e shutdown_manager" where
  "shutdown_begin sh =
     (if sh_once sh then sh
      else sh\<lparr>sh_once := True, sh_cancelled := True, sh_pending := Some (sh_callbacks sh)\<rparr>)"

section \<open>Starting the services\<close>

text \<open>
  Where a goroutine of \<open>Start\<close> is: about to look the service up, to set it Initializing, to register the callback, to start
  it, to set the resulting state, or returned.
\<close>

datatype 'e phase =
    P_Get | P_Init "'e service" | P_Add "'e service" | P_Start "'e service" | P_Result "go_error option" | P_Done "go_error option"

record 'e system =
  sy_registry :: "'e registry"
  sy_ssm :: state_manager
  sy_shutdown :: "'e shutdown_manager"
  sy_env :: 'e
  sy_go :: "(service_type \<times> 'e phase) list"
  sy_first :: "go_error option"

text \<open>\<open>errgroup.Go\<close>: the first error is kept.\<close>

definition go_return :: "nat \<Rightarrow> service_type \<Rightarrow> go_error option \<Rightarrow> 'e system \<Rightarrow> 'e system" where
  "go_return i service err sy = sy\<lparr>sy_go := (sy_go sy)[i := (service, P_Done err)],
     sy_first := (case sy_first sy of None \<Rightarrow> err | Some e \<Rightarrow> Some e)\<rparr>"

definition set_phase :: "nat \<Rightarrow> service_type \<Rightarrow> 'e phase \<Rightarrow> 'e system \<Rightarrow> 'e system" where
  "set_phase i service p sy = sy\<lparr>sy_go := (sy_go sy)[i := (service, p)]\<rparr>"

text \<open>One step of the \<open>i\<close>-th goroutine; \<open>None\<close> when it has returned or waits for the mutex of the shutdown manager.\<close>

definition go_step :: "nat \<Rightarrow> 'e system \<Rightarrow> 'e system option" where
  "go_step i sy =
     (if length (sy_go sy) \<le> i then None
      else (case sy_go sy ! i of
        (service, P_Get) \<Rightarrow>
          (case Registry_Get service (sy_registry sy) of
             None \<Rightarrow> Some (go_return i service (Some (ErrorS ''service %s not found in registry'')) sy)
           | Some rService \<Rightarrow> Some (set_phase i service (P_Init rService) sy))
      | (service, P_Init rService) \<Rightarrow>
          Some (set_phase i service (P_Add rService) (sy\<lparr>sy_ssm := Runtime_SetState service Initializing (sy_ssm sy)\<rparr>))
      | (service, P_Add rService) \<Rightarrow>
          (if sh_pending (sy_shutdown sy) \<noteq> None then None
           else Some (set_phase i service (P_Start rService) (sy\<lparr>sy_shutdown := AddShutdownCallback (service, rService) (sy_shutdown sy)\<rparr>)))
      | (service, P_Start rService) \<Rightarrow>
          (let (err, env) = sv_Start rService (sy_env sy) in Some (set_phase i service (P_Result err) (sy\<lparr>sy_env := env\<rparr>)))
      | (service, P_Result None) \<Rightarrow>
          Some (go_return i service None (sy\<lparr>sy_ssm := Runtime_SetState service Started (sy_ssm sy)\<rparr>))
      | (service, P_Result (Some err)) \<Rightarrow>
          Some (go_return i service (Some (wrap_error ''failed to start service %s'' err))
            (sy\<lparr>sy_ssm := Runtime_SetState service Failed (sy_ssm sy)\<rparr>))
      | (service, P_Done _) \<Rightarrow> None))"

text \<open>One step of the goroutine that handles signals, from the signal or the cancelled context on.\<close>

definition shutdown_step :: "'e system \<Rightarrow> 'e system option" where
  "shutdown_step sy =
     (let sh = sy_shutdown sy in
      if \<not> sh_once sh then Some (sy\<lparr>sy_shutdown := shutdown_begin sh\<rparr>)
      else
        (case sh_pending sh of
           None \<Rightarrow> None
         | Some pending \<Rightarrow>
             (case sh_running sh of
                Some (service, err) \<Rightarrow>
                  Some (sy\<lparr>sy_ssm := Runtime_SetState service (if err = None then Runtime_Stopped else Failed) (sy_ssm sy),
                    sy_shutdown := sh\<lparr>sh_running := None\<rparr>\<rparr>)
              | None \<Rightarrow>
                  (case pending of
                     [] \<Rightarrow> Some (sy\<lparr>sy_shutdown := sh\<lparr>sh_pending := None\<rparr>\<rparr>)
                   | (service, rService) # rest \<Rightarrow>
                       (let (err, env) = sv_Stop rService (sy_env sy) in
                        Some (sy\<lparr>sy_env := env, sy_shutdown := sh\<lparr>sh_pending := Some rest, sh_running := Some (service, err)\<rparr>\<rparr>))))))"

text \<open>\<open>Start\<close> up to the point where it waits for its goroutines; the result of the wait when all have returned.\<close>

definition BaseService_Start :: "service_type list \<Rightarrow> 'e system \<Rightarrow> go_error option \<times> 'e system" where
  "BaseService_Start services sy =
     (case Registry_Exists services (sy_registry sy) of
        (missingService, False) \<Rightarrow> (Some (ErrorS ''requested service %s cannot be started as it does not exist''), sy)
      | (_, True) \<Rightarrow> (None, sy\<lparr>sy_go := map (\<lambda>service. (service, P_Get)) services, sy_first := None\<rparr>))"

definition Start_returned :: "'e system \<Rightarrow> go_error option option" where
  "Start_returned sy = (if list_all (\<lambda>(_, p). case p of P_Done _ \<Rightarrow> True | _ \<Rightarrow> False) (sy_go sy) then Some (sy_first sy) else None)"

inductive runtime_step :: "'e system \<Rightarrow> 'e system \<Rightarrow> bool" where
  goroutine: "go_step i sy = Some sy' \<Longrightarrow> runtime_step sy sy'"
| shutdown: "shutdown_step sy = Some sy' \<Longrightarrow> runtime_step sy sy'"

section \<open>Steps\<close>

lemma go_stepE:
  assumes "go_step i sy = Some sy'"
  obtains (missing) s where "i < length (sy_go sy)" "sy_go sy ! i = (s, P_Get)" "fmlookup (sy_registry sy) s = None"
      "sy' = go_return i s (Some (ErrorS ''service %s not found in registry'')) sy"
  | (found) s v where "i < length (sy_go sy)" "sy_go sy ! i = (s, P_Get)" "fmlookup (sy_registry sy) s = Some v"
      "sy' = set_phase i s (P_Init v) sy"
  | (init) s v where "i < length (sy_go sy)" "sy_go sy ! i = (s, P_Init v)"
      "sy' = set_phase i s (P_Add v) (sy\<lparr>sy_ssm := Runtime_SetState s Initializing (sy_ssm sy)\<rparr>)"
  | (add) s v where "i < length (sy_go sy)" "sy_go sy ! i = (s, P_Add v)" "sh_pending (sy_shutdown sy) = None"
      "sy' = set_phase i s (P_Start v) (sy\<lparr>sy_shutdown := AddShutdownCallback (s, v) (sy_shutdown sy)\<rparr>)"
  | (start) s v err env where "i < length (sy_go sy)" "sy_go sy ! i = (s, P_Start v)"
      "sy' = set_phase i s (P_Result err) (sy\<lparr>sy_env := env\<rparr>)"
  | (ok) s where "i < length (sy_go sy)" "sy_go sy ! i = (s, P_Result None)"
      "sy' = go_return i s None (sy\<lparr>sy_ssm := Runtime_SetState s Started (sy_ssm sy)\<rparr>)"
  | (failed) s err where "i < length (sy_go sy)" "sy_go sy ! i = (s, P_Result (Some err))"
      "sy' = go_return i s (Some (wrap_error ''failed to start service %s'' err)) (sy\<lparr>sy_ssm := Runtime_SetState s Failed (sy_ssm sy)\<rparr>)"
proof -
  obtain s p where sp: "sy_go sy ! i = (s, p)" by (cases "sy_go sy ! i")
  have i: "i < length (sy_go sy)" using assms by (auto simp: go_step_def split: if_splits)
  show thesis
  proof (cases p)
    case P_Get
    with assms i sp missing found show ?thesis
      by (cases "fmlookup (sy_registry sy) s") (auto simp: go_step_def Registry_Get_def)
  next
    case (P_Init v)
    with assms i sp init show ?thesis by (auto simp: go_step_def)
  next
    case (P_Add v)
    with assms i sp add show ?thesis by (auto simp: go_step_def split: if_splits)
  next
    case (P_Start v)
    with assms i sp start show ?thesis by (cases "sv_Start v (sy_env sy)") (auto simp: go_step_def)
  next
    case (P_Result e)
    with assms i sp ok failed show ?thesis by (cases e) (auto simp: go_step_def)
  next
    case (P_Done e)
    with assms i sp show ?thesis by (auto simp: go_step_def)
  qed
qed

lemma step_fields [simp]:
  "sy_go (set_phase i s p sy) = (sy_go sy)[i := (s, p)]" "sy_first (set_phase i s p sy) = sy_first sy"
  "sy_registry (set_phase i s p sy) = sy_registry sy" "sy_ssm (set_phase i s p sy) = sy_ssm sy"
  "sy_shutdown (set_phase i s p sy) = sy_shutdown sy" "sy_env (set_phase i s p sy) = sy_env sy"
  "sy_go (go_return i s err sy) = (sy_go sy)[i := (s, P_Done err)]"
  "sy_first (go_return i s err sy) = (case sy_first sy of None \<Rightarrow> err | Some e \<Rightarrow> Some e)"
  "sy_registry (go_return i s err sy) = sy_registry sy" "sy_ssm (go_return i s err sy) = sy_ssm sy"
  "sy_shutdown (go_return i s err sy) = sy_shutdown sy" "sy_env (go_return i s err sy) = sy_env sy"
  by (simp_all add: set_phase_def go_return_def)

lemma shutdown_step_fields:
  assumes "shutdown_step sy = Some sy'"
  shows "sy_go sy' = sy_go sy" "sy_first sy' = sy_first sy" "sy_registry sy' = sy_registry sy"
    "sh_callbacks (sy_shutdown sy') = sh_callbacks (sy_shutdown sy)" "sh_once (sy_shutdown sy')"
  using assms
  by (auto simp: shutdown_step_def shutdown_begin_def Let_def split: if_splits option.splits list.splits prod.splits)

text \<open>The states of the services while they start, and the callbacks registered for them.\<close>

fun starting :: "'e phase \<Rightarrow> bool" where
  "starting (P_Add _) = True" | "starting (P_Start _) = True" | "starting (P_Result _) = True" | "starting _ = False"

fun registered :: "'e phase \<Rightarrow> bool" where
  "registered (P_Start _) = True" | "registered (P_Result _) = True" | "registered (P_Done None) = True" | "registered _ = False"

fun has_service :: "'e phase \<Rightarrow> 'e service option" where
  "has_service (P_Init v) = Some v" | "has_service (P_Add v) = Some v" | "has_service _ = None"

text \<open>The service a goroutine holds is the registered one, and its callback is registered from the start of the service on.\<close>

definition callbacks_inv :: "'e system \<Rightarrow> bool" where
  "callbacks_inv sy \<longleftrightarrow> (\<forall>s p. (s, p) \<in> set (sy_go sy) \<longrightarrow>
     (\<forall>v. has_service p = Some v \<longrightarrow> fmlookup (sy_registry sy) s = Some v) \<and>
     (registered p \<longrightarrow> (\<exists>v. fmlookup (sy_registry sy) s = Some v \<and> (s, v) \<in> set (sh_callbacks (sy_shutdown sy)))))"

text \<open>Without an error so far, a service one of whose goroutines has returned is Started or starting again.\<close>

definition started_inv :: "'e system \<Rightarrow> bool" where
  "started_inv sy \<longleftrightarrow> (sy_first sy = None \<longrightarrow> (\<forall>s e. (s, P_Done e) \<in> set (sy_go sy) \<longrightarrow> e = None \<and>
     (sh_once (sy_shutdown sy) \<or> Runtime_GetState s (sy_ssm sy) = Started \<or> (\<exists>q. (s, q) \<in> set (sy_go sy) \<and> starting q))))"

lemma in_update: "y \<in> set xs \<Longrightarrow> y \<noteq> xs ! i \<Longrightarrow> y \<in> set (xs[i := x])"
  by (metis in_set_conv_nth length_list_update nth_list_update_neq)

lemma of_update: "y \<in> set (xs[i := x]) \<Longrightarrow> y = x \<or> y \<in> set xs"
  using set_update_subset_insert [of xs i x] by auto

lemma callbacks_inv_go:
  assumes "go_step i sy = Some sy'" "callbacks_inv sy"
  shows "callbacks_inv sy'"
  using assms(1)
proof (cases rule: go_stepE)
  case (add s v)
  have "(s, P_Add v) \<in> set (sy_go sy)" using add(1,2) by (metis nth_mem)
  then have "fmlookup (sy_registry sy) s = Some v" using assms(2) unfolding callbacks_inv_def by (metis has_service.simps(2))
  with add(4) assms(2) show ?thesis unfolding callbacks_inv_def AddShutdownCallback_def by (fastforce dest!: of_update)
next
  case (init s v)
  have "(s, P_Init v) \<in> set (sy_go sy)" using init(1,2) by (metis nth_mem)
  then have "fmlookup (sy_registry sy) s = Some v" using assms(2) unfolding callbacks_inv_def by (metis has_service.simps(1))
  with init(3) assms(2) show ?thesis unfolding callbacks_inv_def by (auto dest!: of_update)
next
  case (start s v err env)
  have "(s, P_Start v) \<in> set (sy_go sy)" using start(1,2) by (metis nth_mem)
  then have "\<exists>v. fmlookup (sy_registry sy) s = Some v \<and> (s, v) \<in> set (sh_callbacks (sy_shutdown sy))"
    using assms(2) unfolding callbacks_inv_def by (metis registered.simps(1))
  with start(3) assms(2) show ?thesis unfolding callbacks_inv_def by (auto dest!: of_update)
next
  case (ok s)
  have "(s, P_Result None) \<in> set (sy_go sy)" using ok(1,2) by (metis nth_mem)
  then have "\<exists>v. fmlookup (sy_registry sy) s = Some v \<and> (s, v) \<in> set (sh_callbacks (sy_shutdown sy))"
    using assms(2) unfolding callbacks_inv_def by (metis registered.simps(2))
  with ok(3) assms(2) show ?thesis unfolding callbacks_inv_def by (auto dest!: of_update)
qed (use assms(2) in \<open>auto simp: callbacks_inv_def dest!: of_update\<close>)

lemma runtime_get_set: "Runtime_GetState k (Runtime_SetState k' s sm) = (if k = k' then s else Runtime_GetState k sm)"
  by (simp add: manager_defs get_set_state)

lemma started_inv_update:
  assumes inv: "started_inv sy" and go: "i < length (sy_go sy)" "sy_go sy ! i = (s, p)" "sy_go sy' = (sy_go sy)[i := (s, p')]"
    and first: "sy_first sy' = None \<Longrightarrow> sy_first sy = None" and once: "sh_once (sy_shutdown sy') = sh_once (sy_shutdown sy)"
    and other: "\<And>t. t \<noteq> s \<Longrightarrow> Runtime_GetState t (sy_ssm sy') = Runtime_GetState t (sy_ssm sy)"
    and cond: "starting p' \<or> Runtime_GetState s (sy_ssm sy') = Started \<or>
      Runtime_GetState s (sy_ssm sy') = Runtime_GetState s (sy_ssm sy) \<and> \<not> starting p"
    and returned: "\<And>e. p' = P_Done e \<Longrightarrow> sy_first sy' = None \<Longrightarrow> e = None \<and> Runtime_GetState s (sy_ssm sy') = Started"
  shows "started_inv sy'"
  unfolding started_inv_def
proof (intro impI allI)
  fix t e assume none: "sy_first sy' = None" and "(t, P_Done e) \<in> set (sy_go sy')"
  then consider "(t, P_Done e) = (s, p')" | "(t, P_Done e) \<in> set (sy_go sy)" unfolding go(3) by (auto dest!: of_update)
  then show "e = None \<and> (sh_once (sy_shutdown sy') \<or> Runtime_GetState t (sy_ssm sy') = Started \<or>
      (\<exists>q. (t, q) \<in> set (sy_go sy') \<and> starting q))"
  proof cases
    case 1
    then show ?thesis using returned [of e] none by simp
  next
    case 2
    then have old: "e = None" "sh_once (sy_shutdown sy) \<or> Runtime_GetState t (sy_ssm sy) = Started \<or> (\<exists>q. (t, q) \<in> set (sy_go sy) \<and> starting q)"
      using inv first [OF none] unfolding started_inv_def by blast+
    have keep: "(t, q) \<in> set (sy_go sy')" if "(t, q) \<in> set (sy_go sy)" "(t, q) \<noteq> (s, p)" for q
      using in_update [OF that(1), of i] that(2) by (simp add: go(2,3))
    have new: "(s, p') \<in> set (sy_go sy')" using go(1) by (simp add: go(3) set_update_memI)
    show ?thesis
    proof (cases "t = s")
      case False
      with old keep other [of t] once show ?thesis by auto
    next
      case True
      from cond show ?thesis
      proof (elim disjE)
        assume "starting p'"
        with new True old(1) show ?thesis by blast
      next
        assume "Runtime_GetState s (sy_ssm sy') = Started"
        with True old(1) show ?thesis by blast
      next
        assume same: "Runtime_GetState s (sy_ssm sy') = Runtime_GetState s (sy_ssm sy) \<and> \<not> starting p"
        have "(s, q) \<in> set (sy_go sy')" if "(s, q) \<in> set (sy_go sy)" "starting q" for q
          using keep [of q] that same True by auto
        with old same once True show ?thesis by auto
      qed
    qed
  qed
qed

lemma started_inv_go:
  assumes "go_step i sy = Some sy'" "started_inv sy"
  shows "started_inv sy'"
  using assms(1)
proof (cases rule: go_stepE)
  case (missing s)
  then show ?thesis by (auto simp: started_inv_def split: option.splits)
next
  case (failed s err)
  then show ?thesis by (auto simp: started_inv_def split: option.splits)
next
  case (found s v)
  then show ?thesis by (intro started_inv_update [OF assms(2) found(1,2), of sy' "P_Init v"]) auto
next
  case (init s v)
  then show ?thesis by (intro started_inv_update [OF assms(2) init(1,2), of sy' "P_Add v"]) (auto simp: runtime_get_set)
next
  case (add s v)
  then show ?thesis
    by (intro started_inv_update [OF assms(2) add(1,2), of sy' "P_Start v"]) (auto simp: AddShutdownCallback_def)
next
  case (start s v err env)
  then show ?thesis by (intro started_inv_update [OF assms(2) start(1,2), of sy' "P_Result err"]) auto
next
  case (ok s)
  then show ?thesis
    by (intro started_inv_update [OF assms(2) ok(1,2), of sy' "P_Done None"]) (auto simp: runtime_get_set split: option.splits)
qed

lemma runtime_step_inv:
  assumes "runtime_step sy sy'" "callbacks_inv sy \<and> started_inv sy"
  shows "callbacks_inv sy' \<and> started_inv sy'"
  using assms(1)
proof cases
  case (goroutine i)
  then show ?thesis using assms(2) callbacks_inv_go started_inv_go by blast
next
  case shutdown
  note f = shutdown_step_fields [OF shutdown]
  show ?thesis using assms(2) by (auto simp: callbacks_inv_def started_inv_def f)
qed

lemma runtime_steps_inv:
  assumes "runtime_step\<^sup>*\<^sup>* sy sy'" "callbacks_inv sy \<and> started_inv sy"
  shows "callbacks_inv sy' \<and> started_inv sy'"
  using assms by (induction rule: rtranclp_induct) (auto dest: runtime_step_inv)

lemma runtime_step_names: "runtime_step sy sy' \<Longrightarrow> map fst (sy_go sy') = map fst (sy_go sy) \<and> sy_registry sy' = sy_registry sy"
proof (induction rule: runtime_step.induct)
  case (goroutine i sy sy')
  have "(map fst (sy_go sy))[i := s] = map fst (sy_go sy)" if "sy_go sy ! i = (s, p)" for s p
    using that by (metis fst_conv list_update_id map_update)
  with goroutine show ?case by (elim go_stepE) (auto simp: map_update)
qed (simp add: shutdown_step_fields)

lemma runtime_steps_names:
  "runtime_step\<^sup>*\<^sup>* sy sy' \<Longrightarrow> map fst (sy_go sy') = map fst (sy_go sy) \<and> sy_registry sy' = sy_registry sy"
  by (induction rule: rtranclp_induct) (auto dest: runtime_step_names)

lemma started_system_inv:
  assumes "BaseService_Start services sy0 = (None, sy)"
  shows "callbacks_inv sy \<and> started_inv sy \<and> map fst (sy_go sy) = services"
  using assms
  by (auto simp: BaseService_Start_def callbacks_inv_def started_inv_def comp_def split: prod.splits bool.splits)

lemma returned_phases:
  "Start_returned sy = Some r \<longleftrightarrow> r = sy_first sy \<and> (\<forall>s p. (s, p) \<in> set (sy_go sy) \<longrightarrow> (\<exists>e. p = P_Done e))"
  by (auto simp: Start_returned_def list_all_iff split: phase.splits if_splits) fastforce+

section \<open>Shutting down\<close>

definition stop_all :: "(service_type \<times> 'e service) list \<Rightarrow> 'e \<Rightarrow> 'e" where
  "stop_all cs e = fold (\<lambda>(s, v) e. snd (sv_Stop v e)) cs e"

text \<open>
  With no goroutine left, what the callbacks have done so far: each was called once, in the order of registration, and its
  service is Stopped or Failed.
\<close>

definition shutdown_inv :: "'e \<Rightarrow> 'e system \<Rightarrow> bool" where
  "shutdown_inv e0 sy \<longleftrightarrow> (\<forall>s p. (s, p) \<in> set (sy_go sy) \<longrightarrow> (\<exists>e. p = P_Done e)) \<and>
     (let sh = sy_shutdown sy in
      if \<not> sh_once sh then sy_env sy = e0 \<and> sh_running sh = None
      else (sh_pending sh = None \<longrightarrow> sh_running sh = None) \<and> (\<exists>called. sh_callbacks sh = called @ (case sh_pending sh of None \<Rightarrow> [] | Some rest \<Rightarrow> rest) \<and> sy_env sy = stop_all called e0 \<and>
        (\<forall>s \<in> fst ` set called. (\<exists>err. sh_running sh = Some (s, err)) \<or> Runtime_GetState s (sy_ssm sy) \<in> {Runtime_Stopped, Failed})))"

lemma shutdown_inv_step:
  assumes "runtime_step sy sy'" "shutdown_inv e0 sy"
  shows "shutdown_inv e0 sy'"
  using assms(1)
proof cases
  case (goroutine i)
  have "\<exists>e. snd (sy_go sy ! i) = P_Done e" if "i < length (sy_go sy)"
    using assms(2) nth_mem [OF that] unfolding shutdown_inv_def by (metis prod.collapse)
  with goroutine show ?thesis by (elim go_stepE) auto
next
  case shutdown
  let ?sh = "sy_shutdown sy"
  note f = shutdown_step_fields [OF shutdown]
  have fin: "\<forall>s p. (s, p) \<in> set (sy_go sy) \<longrightarrow> (\<exists>e. p = P_Done e)" using assms(2) by (simp add: shutdown_inv_def)
  show ?thesis
  proof (cases "sh_once ?sh")
    case False
    with shutdown assms(2) show ?thesis
      by (auto simp: shutdown_inv_def shutdown_step_def shutdown_begin_def Let_def stop_all_def)
  next
    case True
    then obtain called where called: "sh_callbacks ?sh = called @ (case sh_pending ?sh of None \<Rightarrow> [] | Some rest \<Rightarrow> rest)"
      "sy_env sy = stop_all called e0"
      "\<forall>s \<in> fst ` set called. (\<exists>err. sh_running ?sh = Some (s, err)) \<or> Runtime_GetState s (sy_ssm sy) \<in> {Runtime_Stopped, Failed}"
      using assms(2) by (auto simp: shutdown_inv_def Let_def)
    obtain pending where p: "sh_pending ?sh = Some pending"
      using shutdown True by (auto simp: shutdown_step_def Let_def split: option.splits)
    show ?thesis
    proof (cases "sh_running ?sh")
      case (Some r)
      with shutdown True p called fin show ?thesis
        by (cases r) (auto simp: shutdown_inv_def shutdown_step_def Let_def runtime_get_set)
    next
      case none: None
      show ?thesis
      proof (cases pending)
        case Nil
        with shutdown True p none called fin show ?thesis by (auto simp: shutdown_inv_def shutdown_step_def Let_def)
      next
        case (Cons c rest)
        obtain s v where c: "c = (s, v)" by (cases c)
        obtain err env where st: "sv_Stop v (sy_env sy) = (err, env)" by fastforce
        have "sy' = sy\<lparr>sy_env := env, sy_shutdown := ?sh\<lparr>sh_pending := Some rest, sh_running := Some (s, err)\<rparr>\<rparr>"
          using shutdown True p none Cons c st by (simp add: shutdown_step_def Let_def)
        moreover have "sh_callbacks ?sh = (called @ [c]) @ rest" "env = stop_all (called @ [c]) e0"
          using called(1,2) p Cons st by (simp_all add: stop_all_def c)
        ultimately show ?thesis
          using called(3) none True fin by (auto simp: shutdown_inv_def Let_def c intro!: exI [of _ "called @ [c]"])
      qed
    qed
  qed
qed

lemma shutdown_inv_steps: "runtime_step\<^sup>*\<^sup>* sy sy' \<Longrightarrow> shutdown_inv e0 sy \<Longrightarrow> shutdown_inv e0 sy'"
  by (induction rule: rtranclp_induct) (auto dest: shutdown_inv_step)

section \<open>Every run ends\<close>

text \<open>What is left: the goroutines' phases, then the callbacks to call and the end of the shutdown.\<close>

fun phase_rank :: "'e phase \<Rightarrow> nat" where
  "phase_rank P_Get = 5" | "phase_rank (P_Init _) = 4" | "phase_rank (P_Add _) = 3" | "phase_rank (P_Start _) = 2"
| "phase_rank (P_Result _) = 1" | "phase_rank (P_Done _) = 0"

definition shutdown_rank :: "'e shutdown_manager \<Rightarrow> nat" where
  "shutdown_rank sh =
     (if \<not> sh_once sh then 3 + 2 * length (sh_callbacks sh)
      else case sh_pending sh of None \<Rightarrow> 0 | Some rest \<Rightarrow> 1 + 2 * length rest + (if sh_running sh = None then 0 else 1))"

definition go_rank :: "(service_type \<times> 'e phase) list \<Rightarrow> nat" where
  "go_rank gs = sum_list (map (\<lambda>(_, p). phase_rank p) gs)"

definition runtime_rank :: "'e system \<Rightarrow> nat" where
  "runtime_rank sy = 3 * go_rank (sy_go sy) + shutdown_rank (sy_shutdown sy)"

lemma go_rank_update:
  assumes "i < length gs" "gs ! i = (s, p)"
  shows "go_rank (gs[i := (s', p')]) + phase_rank p = go_rank gs + phase_rank p'"
  using assms
proof (induction gs arbitrary: i)
  case (Cons g gs)
  then show ?case by (cases i) (auto simp: go_rank_def)
qed simp

lemma runtime_step_rank: "runtime_step sy sy' \<Longrightarrow> runtime_rank sy' < runtime_rank sy"
proof (induction rule: runtime_step.induct)
  case (goroutine i sy sy')
  then show ?case
  proof (cases rule: go_stepE)
    case (add s v)
    have "shutdown_rank (AddShutdownCallback (s, v) (sy_shutdown sy)) \<le> shutdown_rank (sy_shutdown sy) + 2"
      by (simp add: shutdown_rank_def AddShutdownCallback_def split: option.splits)
    with add go_rank_update [OF add(1,2), of s "P_Start v"] show ?thesis by (simp add: runtime_rank_def)
  next
    case (missing s)
    with go_rank_update [OF missing(1,2), of s "P_Done (Some (ErrorS ''service %s not found in registry''))"] show ?thesis by (simp add: runtime_rank_def)
  next
    case (found s v)
    with go_rank_update [OF found(1,2), of s "P_Init v"] show ?thesis by (simp add: runtime_rank_def)
  next
    case (init s v)
    with go_rank_update [OF init(1,2), of s "P_Add v"] show ?thesis by (simp add: runtime_rank_def)
  next
    case (start s v err env)
    with go_rank_update [OF start(1,2), of s "P_Result err"] show ?thesis by (simp add: runtime_rank_def)
  next
    case (ok s)
    with go_rank_update [OF ok(1,2), of s "P_Done None"] show ?thesis by (simp add: runtime_rank_def)
  next
    case (failed s err)
    with go_rank_update [OF failed(1,2), of s "P_Done (Some (wrap_error ''failed to start service %s'' err))"] show ?thesis by (simp add: runtime_rank_def)
  qed
next
  case (shutdown sy sy')
  then have "shutdown_rank (sy_shutdown sy') < shutdown_rank (sy_shutdown sy)"
    by (auto simp: shutdown_step_def shutdown_begin_def shutdown_rank_def Let_def split: if_splits option.splits list.splits prod.splits)
  then show ?case using shutdown_step_fields(1) [OF shutdown] by (simp add: runtime_rank_def)
qed

text \<open>The callbacks are pending only once the shutdown has begun, and a stop is being booked only then.\<close>

definition pending_ok :: "'e shutdown_manager \<Rightarrow> bool" where
  "pending_ok sh \<longleftrightarrow> (sh_pending sh \<noteq> None \<longrightarrow> sh_once sh)"

lemma runtime_step_pending: "runtime_step sy sy' \<Longrightarrow> pending_ok (sy_shutdown sy) \<Longrightarrow> pending_ok (sy_shutdown sy')"
proof (induction rule: runtime_step.induct)
  case (goroutine i sy sy')
  then show ?case by (elim go_stepE) (auto simp: pending_ok_def AddShutdownCallback_def)
next
  case (shutdown sy sy')
  then show ?case using shutdown_step_fields(5) [OF shutdown(1)] by (simp add: pending_ok_def)
qed

lemma stuck_finished:
  assumes "pending_ok (sy_shutdown sy)" "\<And>sy'. \<not> runtime_step sy sy'"
  shows "Start_returned sy \<noteq> None \<and> sh_once (sy_shutdown sy) \<and> sh_pending (sy_shutdown sy) = None"
proof -
  have sh: "shutdown_step sy = None" using assms(2) runtime_step.shutdown by (metis not_None_eq)
  then have once: "sh_once (sy_shutdown sy)" "sh_pending (sy_shutdown sy) = None"
    by (auto simp: shutdown_step_def Let_def split: if_splits option.splits list.splits prod.splits)
  have go: "go_step i sy = None" for i using assms(2) runtime_step.goroutine by (metis not_None_eq)
  have "\<exists>e. p = P_Done e" if mem: "(s, p) \<in> set (sy_go sy)" for s p
  proof -
    obtain i where "i < length (sy_go sy)" "sy_go sy ! i = (s, p)" using mem by (auto simp: in_set_conv_nth)
    with go [of i] once show ?thesis by (cases p) (auto simp: go_step_def Let_def split: option.splits prod.splits)
  qed
  then have "Start_returned sy = Some (sy_first sy)" unfolding returned_phases by blast
  with once show ?thesis by simp
qed

lemma reaches_end: "\<exists>sy'. runtime_step\<^sup>*\<^sup>* sy sy' \<and> (\<forall>sy''. \<not> runtime_step sy' sy'')"
proof (induction "runtime_rank sy" arbitrary: sy rule: less_induct)
  case less
  show ?case
  proof (cases "\<exists>sy1. runtime_step sy sy1")
    case True
    then obtain sy1 where "runtime_step sy sy1" by blast
    with less runtime_step_rank show ?thesis by (meson converse_rtranclp_into_rtranclp)
  qed blast
qed

section \<open>After Start has returned\<close>

lemma start_done:
  assumes "BaseService_Start services sy0 = (None, sy1)" "runtime_step\<^sup>*\<^sup>* sy1 sy"
    and "Start_returned sy = Some None" "\<not> sh_once (sy_shutdown sy)" "s \<in> set services"
  shows "Runtime_GetState s (sy_ssm sy) = Started \<and>
    (\<exists>v. Registry_Get s (sy_registry sy) = Some v \<and> (s, v) \<in> set (sh_callbacks (sy_shutdown sy)))"
proof -
  note start = started_system_inv [OF assms(1)]
  have inv: "callbacks_inv sy" "started_inv sy" using runtime_steps_inv [OF assms(2)] start by blast+
  have "map fst (sy_go sy) = services" using runtime_steps_names [OF assms(2)] start by simp
  then obtain p where p: "(s, p) \<in> set (sy_go sy)" using assms(5) by auto
  have ret: "sy_first sy = None" "\<And>s p. (s, p) \<in> set (sy_go sy) \<Longrightarrow> \<exists>e. p = P_Done e"
    using assms(3) unfolding returned_phases by auto
  then obtain e where e: "p = P_Done e" using p by blast
  have none: "e = None" and "Runtime_GetState s (sy_ssm sy) = Started \<or> (\<exists>q. (s, q) \<in> set (sy_go sy) \<and> starting q)"
    using inv(2) ret(1) p assms(4) unfolding started_inv_def e by blast+
  moreover have "\<not> starting q" if "(s, q) \<in> set (sy_go sy)" for q using ret(2) [OF that] by auto
  moreover have "registered p" by (simp add: e none)
  ultimately show ?thesis using inv(1) p unfolding callbacks_inv_def Registry_Get_def by blast
qed

lemma runtime_steps_callbacks:
  "runtime_step\<^sup>*\<^sup>* sy sy' \<Longrightarrow> set (sh_callbacks (sy_shutdown sy)) \<subseteq> set (sh_callbacks (sy_shutdown sy'))"
proof (induction rule: rtranclp_induct)
  case (step sy1 sy2)
  have "set (sh_callbacks (sy_shutdown sy1)) \<subseteq> set (sh_callbacks (sy_shutdown sy2))" using step(2)
  proof cases
    case (goroutine i)
    then show ?thesis by (elim go_stepE) (auto simp: AddShutdownCallback_def)
  qed (simp add: shutdown_step_fields)
  with step(3) show ?case by blast
qed simp

lemma shutdown_done:
  assumes "shutdown_inv e0 sy" "sh_once (sy_shutdown sy)" "sh_pending (sy_shutdown sy) = None"
  shows "sy_env sy = stop_all (sh_callbacks (sy_shutdown sy)) e0 \<and>
    (\<forall>s \<in> fst ` set (sh_callbacks (sy_shutdown sy)). Runtime_GetState s (sy_ssm sy) \<in> {Runtime_Stopped, Failed})"
  using assms by (auto simp: shutdown_inv_def Let_def)

section \<open>Properties\<close>

text \<open>
  A successful start leaves every requested service running.  Whatever the interleaving of the goroutines, when \<open>Start\<close>
  has returned without an error and no shutdown has begun, each requested service is in the state Started and its
  shutdown callback is registered.
\<close>

theorem start_leaves_services_started:
  assumes "BaseService_Start services sy0 = (None, sy1)" "runtime_step\<^sup>*\<^sup>* sy1 sy"
    and "Start_returned sy = Some None" "\<not> sh_once (sy_shutdown sy)" "s \<in> set services"
  shows "Runtime_GetState s (sy_ssm sy) = Started \<and>
    (\<exists>v. Registry_Get s (sy_registry sy) = Some v \<and> (s, v) \<in> set (sh_callbacks (sy_shutdown sy)))"
  by (rule start_done [OF assms])



text \<open>A schedule says who goes next: a goroutine by its number, or the shutdown.\<close>

fun run_schedule :: "nat option list \<Rightarrow> 'e system \<Rightarrow> 'e system option" where
  "run_schedule [] sy = Some sy"
| "run_schedule (Some i # sched) sy = (case go_step i sy of None \<Rightarrow> None | Some sy \<Rightarrow> run_schedule sched sy)"
| "run_schedule (None # sched) sy = (case shutdown_step sy of None \<Rightarrow> None | Some sy \<Rightarrow> run_schedule sched sy)"

lemma run_schedule_steps: "run_schedule sched sy = Some sy' \<Longrightarrow> runtime_step\<^sup>*\<^sup>* sy sy'"
proof (induction sched sy rule: run_schedule.induct)
  case (2 i sched sy)
  then show ?case by (auto split: option.splits intro: converse_rtranclp_into_rtranclp runtime_step.goroutine)
next
  case (3 sched sy)
  then show ?case by (auto split: option.splits intro: converse_rtranclp_into_rtranclp runtime_step.shutdown)
qed simp

definition new_system :: "'e registry \<Rightarrow> 'e \<Rightarrow> 'e system" where
  "new_system r env = \<lparr>sy_registry = r, sy_ssm = NewStateManager, sy_shutdown = NewShutdownManager, sy_env = env, sy_go = [],
     sy_first = None\<rparr>"

text \<open>
  A service whose start overlaps the shutdown is never stopped: any registered service that starts without an error
  has a run in which \<open>Start\<close> succeeds and the shutdown completes, and at the end of which the service is in the state Started,
  its \<open>Stop\<close> has not been called and nothing is left to run.
\<close>

theorem late_service_never_stopped:
  assumes "Registry_Get s r = Some v" "sv_Start v env = (None, env')" "BaseService_Start [s] (new_system r env) = (None, sy1)"
  shows "\<exists>sy. runtime_step\<^sup>*\<^sup>* sy1 sy \<and> Start_returned sy = Some None \<and> sh_once (sy_shutdown sy) \<and>
    sh_pending (sy_shutdown sy) = None \<and> Runtime_GetState s (sy_ssm sy) = Started \<and> sy_env sy = env' \<and> (\<forall>sy'. \<not> runtime_step sy sy')"
proof -
  have sy1: "sy1 = (new_system r env)\<lparr>sy_go := [(s, P_Get)], sy_first := None\<rparr>"
    using assms(1,3) by (auto simp: BaseService_Start_def Registry_Get_def new_system_def)
  obtain sy where sy: "run_schedule [Some 0, Some 0, None, None, Some 0, Some 0, Some 0] sy1 = Some sy"
    "Start_returned sy = Some None" "sh_once (sy_shutdown sy)" "sh_pending (sy_shutdown sy) = None"
    "Runtime_GetState s (sy_ssm sy) = Started" "sy_env sy = env'" "sy_go sy = [(s, P_Done None)]"
    using assms(1,2)
    by (simp add: sy1 new_system_def go_step_def shutdown_step_def shutdown_begin_def Registry_Get_def set_phase_def go_return_def
        NewShutdownManager_def AddShutdownCallback_def Let_def Start_returned_def runtime_get_set)
  moreover have "\<not> runtime_step sy sy'" for sy'
  proof -
    have "go_step i sy = None" for i using sy(7) by (cases i) (simp_all add: go_step_def)
    moreover have "shutdown_step sy = None" using sy(3,4) by (simp add: shutdown_step_def Let_def)
    ultimately show ?thesis by (auto elim!: runtime_step.cases)
  qed
  ultimately show ?thesis using run_schedule_steps by blast
qed

section \<open>An instance\<close>

text \<open>A service that writes what is done with it to a log.\<close>

definition log_service :: "string \<Rightarrow> string list service" where
  "log_service n = \<lparr>sv_Type = n, sv_Start = (\<lambda>log. (None, log @ [''start '' @ n])), sv_Stop = (\<lambda>log. (None, log @ [''stop '' @ n]))\<rparr>"

definition log_registry :: "string list registry" where
  "log_registry = fmupd ''chain'' (log_service ''chain'') fmempty"

definition log_system :: "string list system" where
  "log_system = (new_system log_registry [])\<lparr>sy_go := [(''chain'', P_Get)]\<rparr>"

lemma log_start: "BaseService_Start [''chain''] (new_system log_registry []) = (None, log_system)"
  by (simp add: BaseService_Start_def new_system_def log_registry_def log_system_def)

definition log_started :: "string list system" where
  "log_started = \<lparr>sy_registry = log_registry,
     sy_ssm = Runtime_SetState ''chain'' Started (Runtime_SetState ''chain'' Initializing NewStateManager),
     sy_shutdown = AddShutdownCallback (''chain'', log_service ''chain'') NewShutdownManager, sy_env = [''start chain''],
     sy_go = [(''chain'', P_Done None)], sy_first = None\<rparr>"

lemma log_run: "runtime_step\<^sup>*\<^sup>* log_system log_started"
  by (rule run_schedule_steps [of "[Some 0, Some 0, Some 0, Some 0, Some 0]"])
    (simp add: log_system_def log_started_def new_system_def go_step_def Registry_Get_def log_registry_def set_phase_def go_return_def
      NewShutdownManager_def AddShutdownCallback_def log_service_def)

definition log_stopped :: "string list system" where
  "log_stopped = log_started\<lparr>sy_ssm := Runtime_SetState ''chain'' Runtime_Stopped (sy_ssm log_started),
     sy_shutdown := (sy_shutdown log_started)\<lparr>sh_once := True, sh_cancelled := True, sh_pending := None, sh_running := None\<rparr>,
     sy_env := [''start chain'', ''stop chain'']\<rparr>"

lemma log_stop_run: "runtime_step\<^sup>*\<^sup>* log_started log_stopped"
  by (rule run_schedule_steps [of "[None, None, None, None]"])
    (simp add: log_stopped_def log_started_def shutdown_step_def shutdown_begin_def NewShutdownManager_def AddShutdownCallback_def
      log_service_def Let_def)

lemma log_returned: "Start_returned log_started = Some None" "\<not> sh_once (sy_shutdown log_started)" "sh_running (sy_shutdown log_started) = None"
  by (simp_all add: Start_returned_def log_started_def NewShutdownManager_def AddShutdownCallback_def)

theorem start_leaves_services_started_witness: "Runtime_GetState ''chain'' (sy_ssm log_started) = Started"
  using start_leaves_services_started [OF log_start log_run log_returned(1,2), of "''chain''"] by simp



theorem late_service_never_stopped_witness:
  "\<exists>sy. runtime_step\<^sup>*\<^sup>* log_system sy \<and> Runtime_GetState ''chain'' (sy_ssm sy) = Started \<and> sy_env sy = [''start chain''] \<and>
    (\<forall>sy'. \<not> runtime_step sy sy')"
proof -
  have "Registry_Get ''chain'' log_registry = Some (log_service ''chain'')" by (simp add: Registry_Get_def log_registry_def)
  moreover have "sv_Start (log_service ''chain'') [] = (None, [''start chain''])" by (simp add: log_service_def)
  ultimately show ?thesis using late_service_never_stopped [OF _ _ log_start] by blast
qed

end
