(* ===== verification/Networking.thy ===== *)
theory Networking
  imports Packets
begin

text \<open>
  \<open>pkg/networking\<close> and \<open>pkg/config/networking.go\<close>: the checks of the configuration, the table of connected peers, the
  life of the network over a libp2p host, and the handlers of streams.  The libp2p host, its streams and the pubsub topic
  are the fields of a record on an environment \<open>'e\<close>.  Shown here: a configuration that passes the checks builds a host and
  has usable bootstrap peers; a start connects exactly the bootstrap peers that can be reached; in every run the gauge of
  active peers is what the counters say and never falls below the number of listed peers before a shutdown; and a response packet
  that fits into the buffer is read back by the handler.
\<close>

section \<open>The library\<close>

text \<open>
  \<open>NewMultiaddr\<close>, \<open>AddrInfoFromP2pAddr\<close> and \<open>peer_String\<close> parse and print addresses.  The calls on the host take whether the context is
  cancelled.  \<open>stream_Read s n\<close> returns at most \<open>n\<close> bytes.
\<close>

record ('a, 's, 'e) libp2p =
  NewMultiaddr :: "string \<Rightarrow> 'a result"
  AddrInfoFromP2pAddr :: "'a \<Rightarrow> (peer_id \<times> 'a list) result"
  peer_String :: "peer_id \<Rightarrow> string"
  net_Interfaces :: "'e \<Rightarrow> string list result"
  libp2p_New :: "'a list \<Rightarrow> bool \<Rightarrow> 'e \<Rightarrow> go_error option \<times> 'e"
  NewGossipSub :: "bool \<Rightarrow> 'e \<Rightarrow> go_error option \<times> 'e"
  ps_Join :: "string \<Rightarrow> 'e \<Rightarrow> go_error option \<times> 'e"
  topic_Publish :: "bool \<Rightarrow> bytes \<Rightarrow> 'e \<Rightarrow> go_error option \<times> 'e"
  mdns_Start :: "'e \<Rightarrow> go_error option \<times> 'e"
  mdns_Close :: "'e \<Rightarrow> go_error option \<times> 'e"
  SetStreamHandler :: "string \<Rightarrow> 'e \<Rightarrow> 'e"
  host_AddAddrs :: "peer_id \<Rightarrow> 'a list \<Rightarrow> 'e \<Rightarrow> 'e"
  host_Connect :: "bool \<Rightarrow> peer_id \<times> 'a list \<Rightarrow> 'e \<Rightarrow> go_error option \<times> 'e"
  host_NewStream :: "bool \<Rightarrow> peer_id \<Rightarrow> string \<Rightarrow> 'e \<Rightarrow> 's result \<times> 'e"
  host_Close :: "'e \<Rightarrow> go_error option \<times> 'e"
  stream_Read :: "'s \<Rightarrow> nat \<Rightarrow> 'e \<Rightarrow> bytes result \<times> 'e"
  stream_Write :: "'s \<Rightarrow> bytes \<Rightarrow> 'e \<Rightarrow> go_error option \<times> 'e"
  stream_Close :: "'s \<Rightarrow> 'e \<Rightarrow> 'e"

section \<open>The configuration\<close>

record networking_config =
  nc_ListenAddrs :: "string list"
  nc_ProtocolID :: string
  nc_PeerID :: peer_id
  nc_BootstrapPeers :: "string list"
  nc_BootstrapNode :: bool
  nc_EnableMDNS :: bool
  nc_EnableRelay :: bool
  nc_InterfaceName :: string

text \<open>
  Whether \<open>strings.TrimSpace\<close> returns the empty string: every rune is white space.  The runes above U+007F are those of
  Unicode's White_Space, in UTF-8.
\<close>

fun blank :: "nat list \<Rightarrow> bool" where
  "blank [] = True"
| "blank (c # cs) =
     (if c \<in> {9, 10, 11, 12, 13, 32} then blank cs
      else (case cs of
          [] \<Rightarrow> False
        | d # ds \<Rightarrow>
            if c = 0xC2 then (d = 0x85 \<or> d = 0xA0) \<and> blank ds
            else (case ds of
                [] \<Rightarrow> False
              | e # es \<Rightarrow>
                  ((c, d, e) \<in> {(0xE1, 0x9A, 0x80), (0xE2, 0x80, 0xA8), (0xE2, 0x80, 0xA9), (0xE2, 0x80, 0xAF), (0xE2, 0x81, 0x9F),
                     (0xE3, 0x80, 0x80)} \<or> (c = 0xE2 \<and> d = 0x80 \<and> 0x80 \<le> e \<and> e \<le> 0x8A)) \<and> blank es)))"

definition TrimSpace_empty :: "string \<Rightarrow> bool" where
  "TrimSpace_empty s = blank (map of_char s)"

fun validate_listen :: "('a, 's, 'e) libp2p \<Rightarrow> string list \<Rightarrow> string list \<Rightarrow> go_error option" where
  "validate_listen L uniqueAddrs [] = None"
| "validate_listen L uniqueAddrs (addr # addrs) =
     (if addr \<in> set uniqueAddrs then Some (ErrorS ''duplicate listen address found: %s'')
      else
        (case NewMultiaddr L addr of
           Inl err \<Rightarrow> Some (wrap_error ''invalid listen address: %s'' err)
         | Inr _ \<Rightarrow> validate_listen L (addr # uniqueAddrs) addrs))"

fun validate_bootstrap :: "('a, 's, 'e) libp2p \<Rightarrow> string list \<Rightarrow> go_error option" where
  "validate_bootstrap L [] = None"
| "validate_bootstrap L (peerAddr # peers) =
     (case NewMultiaddr L peerAddr of
        Inl err \<Rightarrow> Some (wrap_error ''invalid bootstrap peer address: %s'' err)
      | Inr _ \<Rightarrow>
          (case NewMultiaddr L peerAddr of
             Inl err \<Rightarrow> Some (wrap_error ''invalid bootstrap peer multiaddress: %s'' err)
           | Inr ma \<Rightarrow>
               (case AddrInfoFromP2pAddr L ma of
                  Inl err \<Rightarrow> Some (wrap_error ''bootstrap peer address must include a peer ID: %s'' err)
                | Inr _ \<Rightarrow> validate_bootstrap L peers)))"

definition validate_interface :: "('a, 's, 'e) libp2p \<Rightarrow> string \<Rightarrow> 'e \<Rightarrow> go_error option" where
  "validate_interface L name env =
     (if \<not> TrimSpace_empty name then
        (case net_Interfaces L env of
           Inl err \<Rightarrow> Some (wrap_error ''failed to list network interfaces'' err)
         | Inr ifaces \<Rightarrow>
             if name \<in> set ifaces then None
             else Some (ErrorS ''networking.interface_name does not match any existing network interface: %s''))
      else None)"

definition Networking_Validate :: "('a, 's, 'e) libp2p \<Rightarrow> networking_config \<Rightarrow> 'e \<Rightarrow> go_error option" where
  "Networking_Validate L n env =
     (if length (nc_ListenAddrs n) = 0 then Some (ErrorS ''networking.listenAddrs must have at least one address'')
      else
        (case validate_listen L [] (nc_ListenAddrs n) of
           Some err \<Rightarrow> Some err
         | None \<Rightarrow>
             if TrimSpace_empty (nc_ProtocolID n) then Some (ErrorS ''networking.protocolId cannot be empty'')
             else if TrimSpace_empty (peer_String L (nc_PeerID n)) then
               Some (ErrorS ''networking.peerId cannot be empty and must be provided'')
             else
               (case validate_bootstrap L (nc_BootstrapPeers n) of
                  Some err \<Rightarrow> Some err
                | None \<Rightarrow> validate_interface L (nc_InterfaceName n) env)))"

fun bootstrap_loop :: "('a, 's, 'e) libp2p \<Rightarrow> (peer_id \<times> 'a list) list \<Rightarrow> string list \<Rightarrow> (peer_id \<times> 'a list) list result" where
  "bootstrap_loop L addrInfos [] = Inr addrInfos"
| "bootstrap_loop L addrInfos (peerAddr # peers) =
     bindE (wrapE ''failed to parse multiaddress: %s'' (NewMultiaddr L peerAddr)) (\<lambda>maddr.
     bindE (wrapE ''failed to convert multiaddress to peer.AddrInfo: %s'' (AddrInfoFromP2pAddr L maddr)) (\<lambda>addrInfo.
     bootstrap_loop L (addrInfos @ [addrInfo]) peers))"

definition BootstrapPeersAsAddrs :: "('a, 's, 'e) libp2p \<Rightarrow> networking_config \<Rightarrow> (peer_id \<times> 'a list) list result" where
  "BootstrapPeersAsAddrs L n = bootstrap_loop L [] (nc_BootstrapPeers n)"

section \<open>The host\<close>

fun parse_listen_loop :: "('a, 's, 'e) libp2p \<Rightarrow> 'a list \<Rightarrow> string list \<Rightarrow> 'a list result" where
  "parse_listen_loop L multiAddrs [] = Inr multiAddrs"
| "parse_listen_loop L multiAddrs (addr # addrs) =
     bindE (wrapE ''invalid multiaddress %s'' (NewMultiaddr L addr)) (\<lambda>maddr.
     parse_listen_loop L (multiAddrs @ [maddr]) addrs)"

definition parseListenAddresses :: "('a, 's, 'e) libp2p \<Rightarrow> string list \<Rightarrow> 'a list result" where
  "parseListenAddresses L addrs = parse_listen_loop L [] addrs"

definition CreateHost :: "('a, 's, 'e) libp2p \<Rightarrow> networking_config \<Rightarrow> 'e \<Rightarrow> go_error option \<times> 'e" where
  "CreateHost L cfg env =
     (case Networking_Validate L cfg env of
        Some err \<Rightarrow> (Some (wrap_error ''invalid networking configuration'' err), env)
      | None \<Rightarrow>
          (case parseListenAddresses L (nc_ListenAddrs cfg) of
             Inl err \<Rightarrow> (Some (wrap_error ''invalid listen addresses'' err), env)
           | Inr listenAddrs \<Rightarrow>
               (case libp2p_New L listenAddrs (nc_EnableRelay cfg) env of
                  (Some err, env) \<Rightarrow> (Some (wrap_error ''failed to create libp2p host'' err), env)
                | (None, env) \<Rightarrow> (None, env))))"

section \<open>The table of peers\<close>

text \<open>\<open>GetPeers\<close> returns pointers: a peer is an index into \<open>pm_infos\<close>, to which allocating one appends.\<close>

record 'a peer_entry =
  pe_ID :: peer_id
  pe_Addresses :: "'a list"
  pe_Metadata :: "(string, string) fmap"

record 'a peers_manager =
  pm_peers :: "(peer_id, nat) fmap"
  pm_infos :: "'a peer_entry list"

definition NewPeersManager :: "'a peers_manager" where
  "NewPeersManager = \<lparr>pm_peers = fmempty, pm_infos = []\<rparr>"

definition PeersManager_AddPeer :: "peer_id \<Rightarrow> 'a list \<Rightarrow> 'a peers_manager \<Rightarrow> 'a peers_manager" where
  "PeersManager_AddPeer i addrs pm =
     (case fmlookup (pm_peers pm) i of
        Some r \<Rightarrow> pm\<lparr>pm_infos := (pm_infos pm)[r := (pm_infos pm ! r)\<lparr>pe_Addresses := addrs\<rparr>]\<rparr>
      | None \<Rightarrow> pm\<lparr>pm_peers := fmupd i (length (pm_infos pm)) (pm_peers pm),
          pm_infos := pm_infos pm @ [\<lparr>pe_ID = i, pe_Addresses = addrs, pe_Metadata = fmempty\<rparr>]\<rparr>)"

definition PeersManager_RemovePeer :: "peer_id \<Rightarrow> 'a peers_manager \<Rightarrow> 'a peers_manager" where
  "PeersManager_RemovePeer i pm = (if fmlookup (pm_peers pm) i \<noteq> None then pm\<lparr>pm_peers := fmdrop i (pm_peers pm)\<rparr> else pm)"

definition PeersManager_GetPeers :: "peer_id list \<Rightarrow> 'a peers_manager \<Rightarrow> nat list" where
  "PeersManager_GetPeers order pm = range_values order (pm_peers pm)"

section \<open>The network\<close>

text \<open>The counters; the histogram of latencies is only written.\<close>

record p2p_metrics =
  m_PeersConnectedTotal :: int
  m_PeersConnectionFailed :: int
  m_MessagesSentTotal :: int
  m_MessagesReceivedTotal :: int
  m_ActivePeers :: int
  m_PeersRemovedTotal :: int

definition new_metrics :: p2p_metrics where
  "new_metrics = \<lparr>m_PeersConnectedTotal = 0, m_PeersConnectionFailed = 0, m_MessagesSentTotal = 0, m_MessagesReceivedTotal = 0,
     m_ActivePeers = 0, m_PeersRemovedTotal = 0\<rparr>"

definition RecordPeersConnected :: "int \<Rightarrow> p2p_metrics \<Rightarrow> p2p_metrics" where
  "RecordPeersConnected count m = m\<lparr>m_PeersConnectedTotal := m_PeersConnectedTotal m + count\<rparr>"

definition RecordPeersConnectionFailed :: "int \<Rightarrow> p2p_metrics \<Rightarrow> p2p_metrics" where
  "RecordPeersConnectionFailed count m = m\<lparr>m_PeersConnectionFailed := m_PeersConnectionFailed m + count\<rparr>"

definition RecordMessagesSent :: "int \<Rightarrow> p2p_metrics \<Rightarrow> p2p_metrics" where
  "RecordMessagesSent count m = m\<lparr>m_MessagesSentTotal := m_MessagesSentTotal m + count\<rparr>"

definition RecordMessagesReceived :: "int \<Rightarrow> p2p_metrics \<Rightarrow> p2p_metrics" where
  "RecordMessagesReceived count m = m\<lparr>m_MessagesReceivedTotal := m_MessagesReceivedTotal m + count\<rparr>"

definition RecordActivePeers :: "int \<Rightarrow> p2p_metrics \<Rightarrow> p2p_metrics" where
  "RecordActivePeers delta m = m\<lparr>m_ActivePeers := m_ActivePeers m + delta\<rparr>"

definition RecordPeersRemoved :: "int \<Rightarrow> p2p_metrics \<Rightarrow> p2p_metrics" where
  "RecordPeersRemoved count m = m\<lparr>m_PeersRemovedTotal := m_PeersRemovedTotal m + count\<rparr>"

record 'a p2p_network =
  n_cfg :: networking_config
  n_cancelled :: bool
  n_PeersManager :: "'a peers_manager"
  n_Metrics :: p2p_metrics
  n_Topic :: bool
  n_mdns :: bool

text \<open>\<open>meter\<close> is what creating the instruments returns.\<close>

definition NewNetwork :: "('a, 's, 'e) libp2p \<Rightarrow> networking_config \<Rightarrow> go_error option \<Rightarrow> 'e \<Rightarrow> 'a p2p_network result \<times> 'e" where
  "NewNetwork L cfg meter env =
     (case CreateHost L cfg env of
        (Some err, env) \<Rightarrow> (Inl (wrap_error ''failed to create libp2p host'' err), env)
      | (None, env) \<Rightarrow>
          (case meter of
             Some err \<Rightarrow> (Inl (wrap_error ''failed to initialize P2P metrics'' err), env)
           | None \<Rightarrow> (Inr \<lparr>n_cfg = cfg, n_cancelled = False, n_PeersManager = NewPeersManager, n_Metrics = new_metrics,
               n_Topic = False, n_mdns = False\<rparr>, env)))"

text \<open>What both ways to connect share, from the call of \<open>Connect\<close> on.\<close>

definition connect_info :: "('a, 's, 'e) libp2p \<Rightarrow> peer_id \<times> 'a list \<Rightarrow> 'a p2p_network \<Rightarrow> 'e \<Rightarrow> go_error option \<times> 'a p2p_network \<times> 'e" where
  "connect_info L info n env =
     (case host_Connect L (n_cancelled n) info env of
        (Some err, env) \<Rightarrow>
          (Some (wrap_error ''failed to connect to peer %s'' err),
           n\<lparr>n_Metrics := RecordPeersConnectionFailed 1 (n_Metrics n)\<rparr>, env)
      | (None, env) \<Rightarrow>
          (None,
           n\<lparr>n_PeersManager := PeersManager_AddPeer (fst info) (snd info) (n_PeersManager n),
             n_Metrics := RecordActivePeers 1 (RecordPeersConnected 1 (n_Metrics n))\<rparr>, env))"

definition ConnectPeerInfo :: "('a, 's, 'e) libp2p \<Rightarrow> peer_id \<times> 'a list \<Rightarrow> 'a p2p_network \<Rightarrow> 'e \<Rightarrow> go_error option \<times> 'a p2p_network \<times> 'e" where
  "ConnectPeerInfo L pi n env = connect_info L pi n env"

definition ConnectPeer :: "('a, 's, 'e) libp2p \<Rightarrow> string \<Rightarrow> 'a p2p_network \<Rightarrow> 'e \<Rightarrow> go_error option \<times> 'a p2p_network \<times> 'e" where
  "ConnectPeer L peerAddr n env =
     (case NewMultiaddr L peerAddr of
        Inl err \<Rightarrow> (Some (wrap_error ''invalid multiaddress'' err), n\<lparr>n_Metrics := RecordPeersConnectionFailed 1 (n_Metrics n)\<rparr>, env)
      | Inr maddr \<Rightarrow>
          (case AddrInfoFromP2pAddr L maddr of
             Inl err \<Rightarrow>
               (Some (wrap_error ''failed to get peer info'' err), n\<lparr>n_Metrics := RecordPeersConnectionFailed 1 (n_Metrics n)\<rparr>, env)
           | Inr peerInfo \<Rightarrow> connect_info L peerInfo n (host_AddAddrs L (fst peerInfo) (snd peerInfo) env)))"

text \<open>The loop of \<open>Start\<close> over the configured bootstrap peers; a failure is logged.\<close>

fun connect_bootstrap :: "('a, 's, 'e) libp2p \<Rightarrow> string list \<Rightarrow> 'a p2p_network \<Rightarrow> 'e \<Rightarrow> 'a p2p_network \<times> 'e" where
  "connect_bootstrap L [] n env = (n, env)"
| "connect_bootstrap L (peerAddr # peers) n env =
     (case ConnectPeer L peerAddr n env of (_, n, env) \<Rightarrow> connect_bootstrap L peers n env)"

definition start_mdns :: "('a, 's, 'e) libp2p \<Rightarrow> 'a p2p_network \<Rightarrow> 'e \<Rightarrow> 'a p2p_network \<times> 'e" where
  "start_mdns L n env =
     (if nc_EnableMDNS (n_cfg n) then
        (case mdns_Start L env of
           (Some err, env) \<Rightarrow> (n, env)
         | (None, env) \<Rightarrow> (n\<lparr>n_mdns := True\<rparr>, env))
      else (n, env))"

definition Network_Start :: "('a, 's, 'e) libp2p \<Rightarrow> 'a p2p_network \<Rightarrow> 'e \<Rightarrow> go_error option \<times> 'a p2p_network \<times> 'e" where
  "Network_Start L n env =
     (case NewGossipSub L (n_cancelled n) env of
        (Some err, env) \<Rightarrow> (Some (wrap_error ''failed to create pubsub'' err), n, env)
      | (None, env) \<Rightarrow>
          (case ps_Join L (nc_ProtocolID (n_cfg n)) env of
             (Some err, env) \<Rightarrow> (Some (wrap_error ''failed to join topic'' err), n, env)
           | (None, env) \<Rightarrow>
               (case start_mdns L (n\<lparr>n_Topic := True\<rparr>) env of
                  (n, env) \<Rightarrow>
                    (None, connect_bootstrap L (nc_BootstrapPeers (n_cfg n)) n (SetStreamHandler L (nc_ProtocolID (n_cfg n)) env)))))"

text \<open>\<open>order\<close> is the order in which \<open>GetPeers\<close> ranges over the peers.\<close>

definition Network_Shutdown :: "('a, 's, 'e) libp2p \<Rightarrow> peer_id list \<Rightarrow> 'a p2p_network \<Rightarrow> 'e \<Rightarrow> go_error option \<times> 'a p2p_network \<times> 'e" where
  "Network_Shutdown L order n env =
     (let n = n\<lparr>n_cancelled := True\<rparr> in
      case (if n_mdns n then mdns_Close L env else (None, env)) of
        (Some err, env) \<Rightarrow> (Some (wrap_error ''failed to close mdns service'' err), n, env)
      | (None, env) \<Rightarrow>
          (case host_Close L env of
             (Some err, env) \<Rightarrow> (Some (wrap_error ''failed to shut down network host'' err), n, env)
           | (None, env) \<Rightarrow>
               (let activePeers = int (length (PeersManager_GetPeers order (n_PeersManager n))) in
                (None,
                 (if activePeers > 0
                  then n\<lparr>n_Metrics := RecordActivePeers (- activePeers) (RecordPeersRemoved activePeers (n_Metrics n))\<rparr>
                  else n), env))))"

text \<open>The stream is closed on every way out.\<close>

definition Network_handleStream :: "('a, 's, 'e) libp2p \<Rightarrow> 's \<Rightarrow> 'a p2p_network \<Rightarrow> 'e \<Rightarrow> 'a p2p_network \<times> 'e" where
  "Network_handleStream L s n env =
     (case stream_Read L s 4096 env of
        (Inl err, env) \<Rightarrow> (n, stream_Close L s env)
      | (Inr message, env) \<Rightarrow> (n\<lparr>n_Metrics := RecordMessagesReceived 1 (n_Metrics n)\<rparr>, stream_Close L s env))"

definition SendMessage :: "('a, 's, 'e) libp2p \<Rightarrow> peer_id \<Rightarrow> bytes \<Rightarrow> 'a p2p_network \<Rightarrow> 'e \<Rightarrow> go_error option \<times> 'a p2p_network \<times> 'e" where
  "SendMessage L target message n env =
     (case host_NewStream L (n_cancelled n) target (nc_ProtocolID (n_cfg n)) env of
        (Inl err, env) \<Rightarrow>
          (Some (wrap_error ''failed to create stream'' err), n\<lparr>n_Metrics := RecordPeersConnectionFailed 1 (n_Metrics n)\<rparr>, env)
      | (Inr stream, env) \<Rightarrow>
          (case stream_Write L stream message env of
             (Some err, env) \<Rightarrow>
               (Some (wrap_error ''failed to write message'' err),
                n\<lparr>n_Metrics := RecordPeersConnectionFailed 1 (n_Metrics n)\<rparr>, stream_Close L stream env)
           | (None, env) \<Rightarrow>
               (None, n\<lparr>n_Metrics := RecordMessagesSent 1 (n_Metrics n)\<rparr>, stream_Close L stream env)))"

definition Network_GetPeers :: "peer_id list \<Rightarrow> 'a p2p_network \<Rightarrow> nat list" where
  "Network_GetPeers order n = PeersManager_GetPeers order (n_PeersManager n)"

text \<open>Before \<open>Start\<close> the topic is nil.\<close>

definition Network_BroadcastMessage :: "('a, 's, 'e) libp2p \<Rightarrow> bytes \<Rightarrow> 'a p2p_network \<Rightarrow> 'e \<Rightarrow> go_error option \<times> 'a p2p_network \<times> 'e" where
  "Network_BroadcastMessage L message n env =
     (if \<not> n_Topic n then (Some (Panic ''invalid memory address or nil pointer dereference''), n, env)
      else
        (case topic_Publish L (n_cancelled n) message env of
           (Some err, env) \<Rightarrow>
             (Some (wrap_error ''failed to broadcast message'' err), n\<lparr>n_Metrics := RecordPeersConnectionFailed 1 (n_Metrics n)\<rparr>, env)
         | (None, env) \<Rightarrow> (None, n\<lparr>n_Metrics := RecordMessagesSent 1 (n_Metrics n)\<rparr>, env)))"

definition HandlePeerFound :: "('a, 's, 'e) libp2p \<Rightarrow> peer_id \<times> 'a list \<Rightarrow> 'a p2p_network \<Rightarrow> 'e \<Rightarrow> 'a p2p_network \<times> 'e" where
  "HandlePeerFound L pi n env =
     (if length (snd pi) = 0 then (n, env) else (case ConnectPeerInfo L pi n env of (_, n, env) \<Rightarrow> (n, env)))"

section \<open>Streams of packets\<close>

text \<open>What \<open>HandleStream\<close> writes to its log.\<close>

datatype stream_event =
    Read_failed go_error | Bad_packet go_error | Received_Ping peer_id | Received_Request peer_id | Received_Response peer_id
  | Unknown_packet peer_id

definition HandleStream :: "('a, 's, 'e) libp2p \<Rightarrow> 's \<Rightarrow> 'e \<Rightarrow> stream_event \<times> 'e" where
  "HandleStream L s env =
     (case stream_Read L s 4096 env of
        (Inl err, env) \<Rightarrow> (Read_failed err, stream_Close L s env)
      | (Inr buf, env) \<Rightarrow>
          (case DeserializeNetworkPacket buf of
             Inl err \<Rightarrow> (Bad_packet err, stream_Close L s env)
           | Inr packet \<Rightarrow>
               (if np_Type packet = PacketTypePing then Received_Ping (np_SenderID packet)
                else if np_Type packet = PacketTypeRequest then Received_Request (np_SenderID packet)
                else if np_Type packet = PacketTypeResponse then Received_Response (np_SenderID packet)
                else Unknown_packet (np_SenderID packet), stream_Close L s env)))"

definition SendResponse :: "('a, 's, 'e) libp2p \<Rightarrow> 's \<Rightarrow> network_packet \<Rightarrow> 'e \<Rightarrow> go_error option \<times> 'e" where
  "SendResponse L s response env =
     (case NetworkPacket_Serialize (response\<lparr>np_Type := PacketTypeResponse\<rparr>) of
        Inl err \<Rightarrow> (Some (wrap_error ''failed to serialize response'' err), env)
      | Inr data \<Rightarrow>
          (case stream_Write L s data env of
             (Some err, env) \<Rightarrow> (Some (wrap_error ''failed to write response'' err), env)
           | (None, env) \<Rightarrow> (None, env)))"

section \<open>The configuration that passes\<close>

lemma parse_listen_ok:
  "validate_listen L seen addrs = None \<Longrightarrow>
    \<exists>ms. parse_listen_loop L acc addrs = Inr (acc @ ms) \<and> map Inr ms = map (NewMultiaddr L) addrs"
proof (induction addrs arbitrary: acc seen)
  case (Cons addr addrs)
  from Cons.prems obtain m where m: "NewMultiaddr L addr = Inr m" "validate_listen L (addr # seen) addrs = None"
    by (auto split: if_splits sum.splits)
  obtain ms where "parse_listen_loop L (acc @ [m]) addrs = Inr ((acc @ [m]) @ ms)" "map Inr ms = map (NewMultiaddr L) addrs"
    using Cons.IH [OF m(2)] by blast
  with m(1) show ?case by (intro exI [of _ "m # ms"]) simp
qed simp

lemma listen_distinct: "validate_listen L seen addrs = None \<Longrightarrow> distinct addrs \<and> set addrs \<inter> set seen = {}"
  by (induction L seen addrs rule: validate_listen.induct) (auto split: if_splits sum.splits)

lemma bootstrap_loop_ok:
  "validate_bootstrap L peers = None \<Longrightarrow> \<exists>infos. bootstrap_loop L acc peers = Inr (acc @ infos) \<and>
     map Inr infos = map (\<lambda>a. bindE (NewMultiaddr L a) (AddrInfoFromP2pAddr L)) peers"
proof (induction peers arbitrary: acc)
  case (Cons a peers)
  from Cons.prems obtain m i where mi: "NewMultiaddr L a = Inr m" "AddrInfoFromP2pAddr L m = Inr i" "validate_bootstrap L peers = None"
    by (auto split: sum.splits)
  obtain infos where "bootstrap_loop L (acc @ [i]) peers = Inr ((acc @ [i]) @ infos)"
    "map Inr infos = map (\<lambda>a. bindE (NewMultiaddr L a) (AddrInfoFromP2pAddr L)) peers"
    using Cons.IH [OF mi(3)] by blast
  with mi show ?case by (intro exI [of _ "i # infos"]) simp
qed simp

lemma Networking_Validate_None:
  assumes "Networking_Validate L cfg env = None"
  shows "nc_ListenAddrs cfg \<noteq> []" "validate_listen L [] (nc_ListenAddrs cfg) = None"
    "\<not> TrimSpace_empty (nc_ProtocolID cfg)" "validate_bootstrap L (nc_BootstrapPeers cfg) = None"
  using assms by (auto simp: Networking_Validate_def split: if_splits option.splits)

section \<open>The table of peers\<close>

definition peers_ok :: "'a peers_manager \<Rightarrow> bool" where
  "peers_ok pm \<longleftrightarrow> (\<forall>i r. fmlookup (pm_peers pm) i = Some r \<longrightarrow> r < length (pm_infos pm) \<and> pe_ID (pm_infos pm ! r) = i)"

text \<open>What the table says: the addresses under each listed ID.\<close>

definition peer_addrs :: "'a peers_manager \<Rightarrow> peer_id \<Rightarrow> 'a list option" where
  "peer_addrs pm i = map_option (\<lambda>r. pe_Addresses (pm_infos pm ! r)) (fmlookup (pm_peers pm) i)"

lemma peers_ok_new [simp]: "peers_ok NewPeersManager"
  by (simp add: peers_ok_def NewPeersManager_def)

lemma peers_ok_AddPeer: "peers_ok pm \<Longrightarrow> peers_ok (PeersManager_AddPeer i addrs pm)"
  by (auto simp: peers_ok_def PeersManager_AddPeer_def nth_append nth_list_update less_SucI split: option.splits if_splits)

lemma peers_ok_RemovePeer: "peers_ok pm \<Longrightarrow> peers_ok (PeersManager_RemovePeer i pm)"
  by (auto simp: peers_ok_def PeersManager_RemovePeer_def split: if_splits)

lemma peer_addrs_AddPeer:
  assumes "peers_ok pm"
  shows "peer_addrs (PeersManager_AddPeer i addrs pm) = (peer_addrs pm)(i \<mapsto> addrs)"
proof (cases "fmlookup (pm_peers pm) i")
  case None
  then show ?thesis using assms by (auto simp: fun_eq_iff peer_addrs_def PeersManager_AddPeer_def peers_ok_def nth_append
        split: option.splits if_splits intro!: option.map_cong)
next
  case (Some r)
  have "peer_addrs (PeersManager_AddPeer i addrs pm) j = ((peer_addrs pm)(i \<mapsto> addrs)) j" for j
  proof (cases "j = i \<or> fmlookup (pm_peers pm) j = None")
    case True
    with assms Some show ?thesis by (auto simp: peer_addrs_def PeersManager_AddPeer_def peers_ok_def)
  next
    case False
    then obtain r' where r': "fmlookup (pm_peers pm) j = Some r'" by auto
    then have "r' \<noteq> r" using assms Some False by (metis peers_ok_def)
    with r' False Some show ?thesis by (simp add: peer_addrs_def PeersManager_AddPeer_def)
  qed
  then show ?thesis by blast
qed

lemma peer_addrs_RemovePeer: "peer_addrs (PeersManager_RemovePeer i pm) = (peer_addrs pm)(i := None)"
  by (auto simp: fun_eq_iff peer_addrs_def PeersManager_RemovePeer_def)

lemma fmlen_AddPeer: "fmlen (pm_peers (PeersManager_AddPeer i addrs pm)) \<le> Suc (fmlen (pm_peers pm))"
  by (auto simp: PeersManager_AddPeer_def fmlen_upd split: option.splits)

lemma GetPeers_length: "ranges order (pm_peers pm) \<Longrightarrow> length (PeersManager_GetPeers order pm) = fmlen (pm_peers pm)"
  by (simp add: PeersManager_GetPeers_def range_values_length)

lemma GetPeers_ids:
  assumes "ranges order (pm_peers pm)" "peers_ok pm"
  shows "(\<lambda>r. pe_ID (pm_infos pm ! r)) ` set (PeersManager_GetPeers order pm) = fset (fmdom (pm_peers pm))"
  using assms by (force simp: PeersManager_GetPeers_def set_range_values peers_ok_def fmlookup_dom_iff)

text \<open>
  \<open>GetPeers\<close> is documented as a snapshot, but hands out the entries themselves: one taken before a peer connects again
  shows the new addresses afterwards.
\<close>

lemma snapshot_follows_updates:
  assumes "ranges order (pm_peers pm)" "peers_ok pm" "fmlookup (pm_peers pm) i = Some r"
  shows "r \<in> set (PeersManager_GetPeers order pm)" "pe_Addresses (pm_infos (PeersManager_AddPeer i addrs pm) ! r) = addrs"
  using assms by (auto simp: PeersManager_GetPeers_def set_range_values PeersManager_AddPeer_def peers_ok_def)

section \<open>Runs of the network\<close>

text \<open>
  The operations in any order, with what the goroutines of the library and the other peers do to the environment in between.
\<close>

inductive net_step :: "('a, 's, 'e) libp2p \<Rightarrow> 'a p2p_network \<times> 'e \<Rightarrow> 'a p2p_network \<times> 'e \<Rightarrow> bool" for L where
  start: "Network_Start L n env = (r, n', env') \<Longrightarrow> net_step L (n, env) (n', env')"
| connect: "ConnectPeer L peerAddr n env = (r, n', env') \<Longrightarrow> net_step L (n, env) (n', env')"
| connect_info: "ConnectPeerInfo L pi n env = (r, n', env') \<Longrightarrow> net_step L (n, env) (n', env')"
| mdns: "HandlePeerFound L pi n env = (n', env') \<Longrightarrow> net_step L (n, env) (n', env')"
| stream: "Network_handleStream L s n env = (n', env') \<Longrightarrow> net_step L (n, env) (n', env')"
| send: "SendMessage L target message n env = (r, n', env') \<Longrightarrow> net_step L (n, env) (n', env')"
| broadcast: "Network_BroadcastMessage L message n env = (r, n', env') \<Longrightarrow> net_step L (n, env) (n', env')"
| shutdown: "ranges order (pm_peers (n_PeersManager n)) \<Longrightarrow> Network_Shutdown L order n env = (r, n', env') \<Longrightarrow> net_step L (n, env) (n', env')"
| outside: "net_step L (n, env) (n, env')"

text \<open>
  The gauge of active peers is the difference of the counters, and there are at least \<open>k\<close> more connections than
  peers.
\<close>

definition gauge_inv :: "int \<Rightarrow> 'a p2p_network \<Rightarrow> bool" where
  "gauge_inv k n \<longleftrightarrow> peers_ok (n_PeersManager n) \<and>
     m_ActivePeers (n_Metrics n) = m_PeersConnectedTotal (n_Metrics n) - m_PeersRemovedTotal (n_Metrics n) \<and>
     int (fmlen (pm_peers (n_PeersManager n))) + k \<le> m_PeersConnectedTotal (n_Metrics n) \<and>
     (\<not> n_cancelled n \<longrightarrow> m_PeersRemovedTotal (n_Metrics n) = 0)"

lemmas record_defs = RecordPeersConnected_def RecordPeersConnectionFailed_def RecordMessagesSent_def RecordMessagesReceived_def
  RecordActivePeers_def RecordPeersRemoved_def

lemma gauge_inv_connect_info:
  assumes "connect_info L info n env = (r, n', env')" "gauge_inv k n"
  shows "gauge_inv k n'"
  using assms fmlen_AddPeer [of "fst info" "snd info" "n_PeersManager n"]
  by (auto simp: connect_info_def gauge_inv_def record_defs peers_ok_AddPeer split: prod.splits option.splits)

lemma gauge_inv_fail [simp]: "gauge_inv k (n\<lparr>n_Metrics := RecordPeersConnectionFailed c (n_Metrics n)\<rparr>) \<longleftrightarrow> gauge_inv k n"
  "gauge_inv k (n\<lparr>n_Metrics := RecordMessagesSent c (n_Metrics n)\<rparr>) \<longleftrightarrow> gauge_inv k n"
  "gauge_inv k (n\<lparr>n_Metrics := RecordMessagesReceived c (n_Metrics n)\<rparr>) \<longleftrightarrow> gauge_inv k n"
  "gauge_inv k (n\<lparr>n_Topic := t\<rparr>) \<longleftrightarrow> gauge_inv k n" "gauge_inv k (n\<lparr>n_mdns := t\<rparr>) \<longleftrightarrow> gauge_inv k n"
  by (simp_all add: gauge_inv_def record_defs)

lemma gauge_inv_ConnectPeer:
  assumes "ConnectPeer L peerAddr n env = (r, n', env')" "gauge_inv k n"
  shows "gauge_inv k n'"
  using assms gauge_inv_connect_info by (fastforce simp: ConnectPeer_def split: sum.splits)

lemma gauge_inv_bootstrap:
  "connect_bootstrap L peers n env = (n', env') \<Longrightarrow> gauge_inv k n \<Longrightarrow> gauge_inv k n'"
  by (induction L peers n env rule: connect_bootstrap.induct) (auto split: prod.splits intro: gauge_inv_ConnectPeer)

lemma gauge_inv_Start:
  assumes "Network_Start L n env = (r, n', env')" "gauge_inv k n"
  shows "gauge_inv k n'"
  using assms
  by (auto simp: Network_Start_def start_mdns_def split: prod.splits option.splits if_splits dest!: gauge_inv_bootstrap)

lemma gauge_inv_Shutdown:
  assumes "Network_Shutdown L order n env = (r, n', env')" "gauge_inv k n"
  shows "gauge_inv k n'"
  using assms
  by (auto simp: Network_Shutdown_def gauge_inv_def record_defs Let_def split: prod.splits option.splits if_splits)

lemma gauge_inv_step:
  assumes "net_step L s s'" "gauge_inv k (fst s)"
  shows "gauge_inv k (fst s')"
  using assms
proof cases
  case (mdns pi n env n' env')
  with assms(2) show ?thesis
    by (auto simp: HandlePeerFound_def ConnectPeerInfo_def split: if_splits prod.splits dest: gauge_inv_connect_info)
next
  case (stream s n env n' env')
  with assms(2) show ?thesis by (auto simp: Network_handleStream_def split: prod.splits sum.splits)
next
  case (send target message n env r n' env')
  with assms(2) show ?thesis by (auto simp: SendMessage_def split: prod.splits sum.splits option.splits)
next
  case (broadcast message n env r n' env')
  with assms(2) show ?thesis by (auto simp: Network_BroadcastMessage_def split: prod.splits option.splits if_splits)
qed (use assms(2) in \<open>auto simp: ConnectPeerInfo_def intro: gauge_inv_Start gauge_inv_ConnectPeer gauge_inv_connect_info gauge_inv_Shutdown\<close>)

definition fresh_network :: "'a p2p_network \<Rightarrow> bool" where
  "fresh_network n \<longleftrightarrow> n_PeersManager n = NewPeersManager \<and> n_Metrics n = new_metrics \<and> \<not> n_cancelled n"

lemma NewNetwork_fresh: "NewNetwork L cfg meter env = (Inr n, env') \<Longrightarrow> fresh_network n \<and> n_cfg n = cfg \<and> Networking_Validate L cfg env = None"
  by (auto simp: NewNetwork_def CreateHost_def fresh_network_def split: prod.splits option.splits sum.splits)

lemma gauge_inv_fresh: "fresh_network n \<Longrightarrow> gauge_inv 0 n"
  by (simp add: fresh_network_def gauge_inv_def new_metrics_def NewPeersManager_def peers_ok_def)

interpretation network: invariant_system "\<lambda>s. fresh_network (fst s)" "net_step L" "\<lambda>s. gauge_inv 0 (fst s)"
  for L :: "('a, 's, 'e) libp2p"
  by unfold_locales (auto intro: gauge_inv_fresh gauge_inv_step)

lemma gauge_inv_run: "(net_step L)\<^sup>*\<^sup>* s s' \<Longrightarrow> gauge_inv k (fst s) \<Longrightarrow> gauge_inv k (fst s')"
  by (induction rule: rtranclp_induct) (auto intro: gauge_inv_step)

lemma Shutdown_gauge:
  assumes "Network_Shutdown L order n env = (None, n', env')" "ranges order (pm_peers (n_PeersManager n))"
  shows "m_ActivePeers (n_Metrics n') = m_ActivePeers (n_Metrics n) - int (fmlen (pm_peers (n_PeersManager n)))"
    "n_PeersManager n' = n_PeersManager n" "n_cancelled n'"
  using assms GetPeers_length [OF assms(2)]
  by (auto simp: Network_Shutdown_def record_defs Let_def split: prod.splits option.splits if_splits)

section \<open>The bootstrap peers\<close>

text \<open>What is relied on where the outcome of a connect matters: a peer can be reached or not.\<close>

definition reaches :: "('a, 's, 'e) libp2p \<Rightarrow> peer_id set \<Rightarrow> bool" where
  "reaches L R \<longleftrightarrow> (\<forall>c info env. fst (host_Connect L c info env) = None \<longleftrightarrow> fst info \<in> R)"

lemma ConnectPeer_reaches:
  assumes "reaches L R" "ConnectPeer L a n env = (r, n', env')" "bindE (NewMultiaddr L a) (AddrInfoFromP2pAddr L) = Inr info"
  shows "fst info \<in> R \<Longrightarrow> n' = n\<lparr>n_PeersManager := PeersManager_AddPeer (fst info) (snd info) (n_PeersManager n),
      n_Metrics := RecordActivePeers 1 (RecordPeersConnected 1 (n_Metrics n))\<rparr>"
    "fst info \<notin> R \<Longrightarrow> n' = n\<lparr>n_Metrics := RecordPeersConnectionFailed 1 (n_Metrics n)\<rparr>"
proof -
  obtain m where m: "NewMultiaddr L a = Inr m" "AddrInfoFromP2pAddr L m = Inr info"
    using assms(3) by (cases "NewMultiaddr L a") auto
  have "fst (host_Connect L (n_cancelled n) info (host_AddAddrs L (fst info) (snd info) env)) = None \<longleftrightarrow> fst info \<in> R"
    using assms(1) unfolding reaches_def by blast
  with assms(2) m show "fst info \<in> R \<Longrightarrow> n' = n\<lparr>n_PeersManager := PeersManager_AddPeer (fst info) (snd info) (n_PeersManager n),
      n_Metrics := RecordActivePeers 1 (RecordPeersConnected 1 (n_Metrics n))\<rparr>"
    "fst info \<notin> R \<Longrightarrow> n' = n\<lparr>n_Metrics := RecordPeersConnectionFailed 1 (n_Metrics n)\<rparr>"
    by (auto simp: ConnectPeer_def connect_info_def split: prod.splits option.splits)
qed

lemma connect_bootstrap_exact:
  assumes "reaches L R" "connect_bootstrap L peers n env = (n', env')" "peers_ok (n_PeersManager n)"
    and "map Inr infos = map (\<lambda>a. bindE (NewMultiaddr L a) (AddrInfoFromP2pAddr L)) peers"
  shows "peer_addrs (n_PeersManager n') = peer_addrs (n_PeersManager n) ++ map_of (rev (filter (\<lambda>i. fst i \<in> R) infos)) \<and>
    m_PeersConnectedTotal (n_Metrics n') = m_PeersConnectedTotal (n_Metrics n) + int (length (filter (\<lambda>i. fst i \<in> R) infos)) \<and>
    m_PeersConnectionFailed (n_Metrics n') = m_PeersConnectionFailed (n_Metrics n) + int (length (filter (\<lambda>i. fst i \<notin> R) infos))"
  using assms(2-4)
proof (induction peers arbitrary: n env infos)
  case (Cons a peers)
  from Cons.prems(3) obtain info infos' where infos: "infos = info # infos'"
    "bindE (NewMultiaddr L a) (AddrInfoFromP2pAddr L) = Inr info"
    "map Inr infos' = map (\<lambda>a. bindE (NewMultiaddr L a) (AddrInfoFromP2pAddr L)) peers"
    by (cases infos) auto
  obtain r n1 env1 where c: "ConnectPeer L a n env = (r, n1, env1)" by (cases "ConnectPeer L a n env")
  with Cons.prems(1) have rest: "connect_bootstrap L peers n1 env1 = (n', env')" by simp
  note n1 = ConnectPeer_reaches [OF assms(1) c infos(2)]
  have ok: "peers_ok (n_PeersManager n1)" using n1 Cons.prems(2) by (cases "fst info \<in> R") (auto intro: peers_ok_AddPeer)
  show ?case
    using Cons.IH [OF rest ok infos(3)] n1 Cons.prems(2)
    by (cases "fst info \<in> R") (auto simp: infos(1) record_defs peer_addrs_AddPeer map_add_def fun_eq_iff split: option.splits)
qed simp

lemma Network_Start_None:
  assumes "Network_Start L n env = (None, n', env')"
  obtains n1 env1 where "connect_bootstrap L (nc_BootstrapPeers (n_cfg n)) n1 env1 = (n', env')"
    "n_PeersManager n1 = n_PeersManager n" "n_Metrics n1 = n_Metrics n"
  using assms by (force simp: Network_Start_def start_mdns_def split: prod.splits option.splits if_splits)

section \<open>Properties\<close>


text \<open>
  The gauge of active peers.  In every run of a new network up to its shutdown the gauge equals the number of
  successful connects and is at least the number of listed peers; a shutdown takes the listed peers off it and leaves the
  table as it is.  So the gauge returns to zero only if no listed peer connected again.
\<close>

theorem active_gauge:
  assumes "NewNetwork L cfg None env0 = (Inr n0, env1)" "(net_step L)\<^sup>*\<^sup>* (n0, env1) (n, env)" "\<not> n_cancelled n"
    and "ranges order (pm_peers (n_PeersManager n))" "Network_Shutdown L order n env = (None, n', env')"
  shows "m_ActivePeers (n_Metrics n) = m_PeersConnectedTotal (n_Metrics n) \<and>
    int (fmlen (pm_peers (n_PeersManager n))) \<le> m_ActivePeers (n_Metrics n) \<and>
    m_ActivePeers (n_Metrics n') = m_PeersConnectedTotal (n_Metrics n) - int (fmlen (pm_peers (n_PeersManager n))) \<and>
    n_PeersManager n' = n_PeersManager n"
proof -
  have "gauge_inv 0 n" using network.inv_reachable [OF _ assms(2)] NewNetwork_fresh [OF assms(1)] by simp
  then show ?thesis using assms(3) Shutdown_gauge [OF assms(5,4)] by (simp add: gauge_inv_def)
qed

text \<open>
  A peer that connects while it is listed is counted again: from then on every shutdown leaves the gauge of active
  peers above zero, whatever happens in between.
\<close>

theorem reconnected_peer_stays_active:
  assumes "NewNetwork L cfg None env0 = (Inr n0, env1)" "(net_step L)\<^sup>*\<^sup>* (n0, env1) (n, env)"
    and "fmlookup (pm_peers (n_PeersManager n)) (fst info) \<noteq> None" "ConnectPeerInfo L info n env = (None, n2, env2)"
    and "(net_step L)\<^sup>*\<^sup>* (n2, env2) (n3, env3)" "\<not> n_cancelled n3"
    and "ranges order (pm_peers (n_PeersManager n3))" "Network_Shutdown L order n3 env3 = (None, n', env')"
  shows "m_ActivePeers (n_Metrics n') > 0"
proof -
  have "gauge_inv 0 n" using network.inv_reachable [OF _ assms(2)] NewNetwork_fresh [OF assms(1)] by simp
  moreover have "fmlen (pm_peers (n_PeersManager n2)) = fmlen (pm_peers (n_PeersManager n))"
    "m_PeersConnectedTotal (n_Metrics n2) = m_PeersConnectedTotal (n_Metrics n) + 1"
    using assms(3,4) by (auto simp: ConnectPeerInfo_def connect_info_def PeersManager_AddPeer_def record_defs split: prod.splits option.splits)
  moreover have "gauge_inv 0 n2" using gauge_inv_connect_info calculation(1) assms(4) by (fastforce simp: ConnectPeerInfo_def)
  ultimately have "gauge_inv 1 n2" by (simp add: gauge_inv_def)
  then have "gauge_inv 1 n3" using gauge_inv_run [OF assms(5), of 1] by simp
  then show ?thesis using assms(6) Shutdown_gauge [OF assms(8,7)] by (simp add: gauge_inv_def)
qed

text \<open>A stream carries what was written: the next read returns the first bytes of it, as many as asked for.\<close>

definition carries :: "('a, 's, 'e) libp2p \<Rightarrow> 's \<Rightarrow> bool" where
  "carries L s \<longleftrightarrow> (\<forall>bs n env env'. stream_Write L s bs env = (None, env') \<longrightarrow> fst (stream_Read L s n env') = Inr (take n bs))"

text \<open>
  A response reaches the handler: a packet that \<open>SendResponse\<close> wrote without an error, whose encoding fits into the handler's
  buffer of 4096 bytes, is read by \<open>HandleStream\<close> as a response of its sender, whatever type it had before.
\<close>

theorem response_received:
  assumes "carries L s" "SendResponse L s response env = (None, env')" "np_fits response"
    and "NetworkPacket_Serialize response = Inr bs" "length bs \<le> 4096"
  shows "fst (HandleStream L s env') = Received_Response (np_SenderID response)"
proof -
  let ?p = "response\<lparr>np_Type := PacketTypeResponse\<rparr>"
  obtain data where data: "NetworkPacket_Serialize ?p = Inr data" "length data = length bs"
    using assms(4) by (auto simp: NetworkPacket_Serialize_def)
  have "np_fits ?p" using assms(3) by (simp add: np_fits_def)
  then have dec: "DeserializeNetworkPacket data = Inr ?p" using network_packet_codec.roundtrip [of ?p] data(1) by simp
  have "stream_Write L s data env = (None, env')"
    using assms(2) data(1) by (auto simp: SendResponse_def split: prod.splits option.splits)
  then have read: "fst (stream_Read L s 4096 env') = Inr data"
    using assms(1,5) data(2) unfolding carries_def by (metis take_all)
  obtain r e where e: "stream_Read L s 4096 env' = (r, e)" by (cases "stream_Read L s 4096 env'")
  with read dec show ?thesis
    by (simp add: HandleStream_def PacketTypePing_def PacketTypeRequest_def PacketTypeResponse_def)
qed

section \<open>An instance\<close>

text \<open>
  A host that reaches the peers of \<open>R\<close>; an address is any text that starts with a slash, its peer is named by the whole
  text, and the environment is what was last written to the only stream.
\<close>

definition sample_libp2p :: "peer_id set \<Rightarrow> (string, unit, bytes) libp2p" where
  "sample_libp2p R = \<lparr>NewMultiaddr = (\<lambda>s. if s \<noteq> [] \<and> hd s = CHR ''/'' then Inr s else Inl (ErrorS ''must begin with /'')),
     AddrInfoFromP2pAddr = (\<lambda>m. if m = ''/'' then Inl (ErrorS ''invalid p2p multiaddr'') else Inr (go_bytes m, [m])),
     peer_String = go_string, net_Interfaces = (\<lambda>env. Inr [''lo'']), libp2p_New = (\<lambda>addrs relay env. (None, env)),
     NewGossipSub = (\<lambda>c env. (None, env)), ps_Join = (\<lambda>name env. (None, env)), topic_Publish = (\<lambda>c m env. (None, env)),
     mdns_Start = (\<lambda>env. (None, env)), mdns_Close = (\<lambda>env. (None, env)), SetStreamHandler = (\<lambda>i env. env),
     host_AddAddrs = (\<lambda>i addrs env. env),
     host_Connect = (\<lambda>c info env. (if fst info \<in> R then None else Some (ErrorS ''no route''), env)),
     host_NewStream = (\<lambda>c i pid env. (Inr (), env)), host_Close = (\<lambda>env. (None, env)),
     stream_Read = (\<lambda>s n env. (Inr (take n env), env)), stream_Write = (\<lambda>s bs env. (None, bs)), stream_Close = (\<lambda>s env. env)\<rparr>"

lemma sample_reaches: "reaches (sample_libp2p R) R"
  by (simp add: reaches_def sample_libp2p_def)

lemma sample_carries: "carries (sample_libp2p R) s"
  by (simp add: carries_def sample_libp2p_def)

definition sample_networking :: networking_config where
  "sample_networking = \<lparr>nc_ListenAddrs = [''/ip4''], nc_ProtocolID = ''/peerdns'', nc_PeerID = go_bytes ''me'',
     nc_BootstrapPeers = [''/a'', ''/b''], nc_BootstrapNode = False, nc_EnableMDNS = True, nc_EnableRelay = False, nc_InterfaceName = ''''\<rparr>"

definition sample_network :: "string p2p_network" where
  "sample_network = \<lparr>n_cfg = sample_networking, n_cancelled = False, n_PeersManager = NewPeersManager, n_Metrics = new_metrics,
     n_Topic = False, n_mdns = False\<rparr>"

abbreviation near :: "(string, unit, bytes) libp2p" where
  "near \<equiv> sample_libp2p {go_bytes ''/b''}"

lemma sample_new: "NewNetwork near sample_networking None [] = (Inr sample_network, [])"
  by (simp add: NewNetwork_def CreateHost_def Networking_Validate_def sample_networking_def sample_network_def sample_libp2p_def
      TrimSpace_empty_def validate_interface_def parseListenAddresses_def)

definition sample_peers :: "string peers_manager" where
  "sample_peers = PeersManager_AddPeer (go_bytes ''/b'') [''/b''] NewPeersManager"

definition sample_running :: "string p2p_network" where
  "sample_running = sample_network\<lparr>n_PeersManager := sample_peers, n_Topic := True, n_mdns := True,
     n_Metrics := new_metrics\<lparr>m_PeersConnectedTotal := 1, m_PeersConnectionFailed := 1, m_ActivePeers := 1\<rparr>\<rparr>"

lemma sample_start: "Network_Start near sample_network [] = (None, sample_running, [])"
  by (simp add: Network_Start_def start_mdns_def ConnectPeer_def connect_info_def sample_network_def sample_running_def
      sample_peers_def sample_networking_def sample_libp2p_def record_defs new_metrics_def go_bytes_def)

lemma sample_network_run: "(net_step near)\<^sup>*\<^sup>* (sample_network, []) (sample_running, [])"
  using net_step.start [OF sample_start] by blast

lemma sample_ranges: "ranges [go_bytes ''/b''] (pm_peers sample_peers)"
  by (simp add: ranges_def sample_peers_def PeersManager_AddPeer_def NewPeersManager_def)

definition sample_again :: "string p2p_network" where
  "sample_again = sample_running\<lparr>n_Metrics := RecordActivePeers 1 (RecordPeersConnected 1 (n_Metrics sample_running))\<rparr>"

lemma sample_reconnect: "ConnectPeerInfo near (go_bytes ''/b'', [''/b'']) sample_running [] = (None, sample_again, [])"
  by (simp add: ConnectPeerInfo_def connect_info_def sample_libp2p_def sample_again_def sample_running_def sample_peers_def
      PeersManager_AddPeer_def NewPeersManager_def)

lemma sample_shutdown:
  "Network_Shutdown near [go_bytes ''/b''] sample_running [] =
     (None, sample_running\<lparr>n_cancelled := True, n_Metrics := RecordActivePeers (- 1) (RecordPeersRemoved 1 (n_Metrics sample_running))\<rparr>, [])"
  "Network_Shutdown near [go_bytes ''/b''] sample_again [] =
     (None, sample_again\<lparr>n_cancelled := True, n_Metrics := RecordActivePeers (- 1) (RecordPeersRemoved 1 (n_Metrics sample_again))\<rparr>, [])"
  by (simp_all add: Network_Shutdown_def sample_libp2p_def sample_again_def sample_running_def sample_peers_def sample_network_def
      PeersManager_AddPeer_def NewPeersManager_def PeersManager_GetPeers_def range_values_def List.map_filter_def)


theorem active_gauge_witness: "m_ActivePeers (n_Metrics sample_running) = m_PeersConnectedTotal (n_Metrics sample_running)"
proof -
  have "\<not> n_cancelled sample_running" "ranges [go_bytes ''/b''] (pm_peers (n_PeersManager sample_running))"
    using sample_ranges by (simp_all add: sample_running_def sample_network_def)
  then show ?thesis using active_gauge [OF sample_new sample_network_run _ _ sample_shutdown(1)] by blast
qed

theorem reconnected_peer_stays_active_witness:
  "\<exists>n'. Network_Shutdown near [go_bytes ''/b''] sample_again [] = (None, n', []) \<and> m_ActivePeers (n_Metrics n') > 0"
proof -
  have "\<not> n_cancelled sample_again" "ranges [go_bytes ''/b''] (pm_peers (n_PeersManager sample_again))"
    "fmlookup (pm_peers (n_PeersManager sample_running)) (fst (go_bytes ''/b'', [''/b''])) \<noteq> None"
    using sample_ranges
    by (simp_all add: sample_again_def sample_running_def sample_network_def sample_peers_def PeersManager_AddPeer_def NewPeersManager_def)
  then show ?thesis
    using reconnected_peer_stays_active [OF sample_new sample_network_run _ sample_reconnect rtranclp.rtrancl_refl _ _ sample_shutdown(2)]
      sample_shutdown(2) by blast
qed

definition sample_response :: network_packet where
  "sample_response = \<lparr>np_Type = PacketTypePing, np_SenderID = [7], np_ReceiverID = [8], np_Payload = [1, 2], np_Signature = []\<rparr>"

theorem response_received_witness:
  "fst (HandleStream near () (snd (SendResponse near () sample_response []))) = Received_Response [7]"
proof -
  obtain bs where ser: "NetworkPacket_Serialize sample_response = Inr bs" by (simp add: NetworkPacket_Serialize_def)
  then have len: "length bs \<le> 4096"
    by (auto simp: NetworkPacket_Serialize_def sample_response_def serializePeerID_def write_signature_def)
  have "SendResponse near () sample_response [] = (None, snd (SendResponse near () sample_response []))"
    by (auto simp: SendResponse_def NetworkPacket_Serialize_def sample_libp2p_def)
  moreover have "np_fits sample_response" by (simp add: np_fits_def sample_response_def)
  ultimately show ?thesis
    using response_received [OF sample_carries _ _ ser len, of "{go_bytes ''/b''}" "()" "[]"] by (simp add: sample_response_def)
qed

end
