(* ===== verification/Performance_Monitor.thy ===== *)
theory Performance_Monitor
  imports Networking Validators
begin

text \<open>
  \<open>pkg/metrics/monitor.go\<close>, and the handler of \<open>pkg/node/node.go\<close> that answers its pings: a goroutine puts the connected peers
  into a bounded channel at each tick, and a pool of workers pings them and writes the outcome to the metrics.  The goroutines are
  a step relation; the two updates that report a ping are steps of their own.  Shown here: the channel stays within its
  capacity, the node never pings itself, and the reliability of a peer is always zero or one; \<open>Stop\<close> returns; and a peer
  that runs the handler is reported as reliable.
\<close>

section \<open>A ping\<close>

text \<open>The exchange on the stream: whether a pong came back.  The stream is closed on every way out.\<close>

definition ping_io :: "('a, 's, 'e) libp2p \<Rightarrow> bool \<Rightarrow> string \<Rightarrow> peer_id \<Rightarrow> 'e \<Rightarrow> bool \<times> 'e" where
  "ping_io L cancelled protocolID p env =
     (case host_NewStream L cancelled p protocolID env of
        (Inl err, env) \<Rightarrow> (False, env)
      | (Inr stream, env) \<Rightarrow>
          (case stream_Write L stream (go_bytes ''ping'') env of
             (Some err, env) \<Rightarrow> (False, stream_Close L stream env)
           | (None, env) \<Rightarrow>
               (case stream_Read L stream 1024 env of
                  (Inl err, env) \<Rightarrow> (False, stream_Close L stream env)
                | (Inr buf, env) \<Rightarrow> (buf = go_bytes ''pong'', stream_Close L stream env))))"

text \<open>What is reported as responsiveness and as reliability; \<open>latency\<close> is the time since the start in seconds.\<close>

definition responsiveness :: "bool \<Rightarrow> 'f \<Rightarrow> 'f::{zero, one, divide}" where
  "responsiveness ok latency = (if ok then 1 div latency else 0)"

definition reliability :: "bool \<Rightarrow> 'f::{zero, one}" where
  "reliability ok = (if ok then 1 else 0)"

definition pingPeer ::
  "('a, 's, 'e) libp2p \<Rightarrow> bool \<Rightarrow> string \<Rightarrow> int \<Rightarrow> 'f \<Rightarrow> peer_id \<Rightarrow> 'f::{zero, one, divide} collector \<Rightarrow> 'e \<Rightarrow> 'f collector \<times> 'e" where
  "pingPeer L cancelled protocolID now latency p mc env =
     (case ping_io L cancelled protocolID p env of
        (ok, env) \<Rightarrow> (UpdateReliability now p (reliability ok) (UpdateResponsiveness now p (responsiveness ok latency) mc), env))"

text \<open>The handler that \<open>Node.Start\<close> sets for the same protocol.\<close>

definition ping_handler :: "('a, 's, 'e) libp2p \<Rightarrow> 's \<Rightarrow> 'e \<Rightarrow> 'e" where
  "ping_handler L s env =
     (case stream_Read L s 1024 env of
        (Inl err, env) \<Rightarrow> stream_Close L s env
      | (Inr request, env) \<Rightarrow>
          (if request = go_bytes ''ping'' then (case stream_Write L s (go_bytes ''pong'') env of (_, env) \<Rightarrow> stream_Close L s env)
           else stream_Close L s env))"

section \<open>The goroutines\<close>

text \<open>A worker waits, pings a peer, or has written the responsiveness and is about to write the reliability.\<close>

datatype worker = W_Idle | W_Ping peer_id | W_Report peer_id bool | W_Done

text \<open>\<open>mo_pending\<close> is what is left of the list of peers after a tick, \<open>None\<close> while the goroutine waits for the next.\<close>

record 'f monitor =
  mo_collector :: "'f collector"
  mo_concurrency :: nat
  mo_cancelled :: bool
  mo_peerChan :: "peer_id list"
  mo_closed :: bool
  mo_pending :: "peer_id list option"
  mo_workers :: "worker list"

text \<open>\<open>NewPerformanceMonitor\<close> and the launch of the goroutines in \<open>Start\<close>.\<close>

definition NewPerformanceMonitor :: "'f collector \<Rightarrow> nat \<Rightarrow> 'f monitor" where
  "NewPerformanceMonitor mc concurrency = \<lparr>mo_collector = mc, mo_concurrency = concurrency, mo_cancelled = False, mo_peerChan = [],
     mo_closed = False, mo_pending = None, mo_workers = []\<rparr>"

definition Monitor_Start :: "'f monitor \<Rightarrow> 'f monitor" where
  "Monitor_Start m = m\<lparr>mo_peerChan := [], mo_closed := False, mo_pending := None, mo_workers := replicate (mo_concurrency m) W_Idle\<rparr>"

text \<open>The non-blocking send of one peer; \<open>self\<close> is the ID of the host.\<close>

definition offer_peer :: "peer_id \<Rightarrow> peer_id \<Rightarrow> 'f monitor \<Rightarrow> 'f monitor" where
  "offer_peer self p m =
     (if p = self then m
      else if length (mo_peerChan m) < mo_concurrency m then m\<lparr>mo_peerChan := mo_peerChan m @ [p]\<rparr>
      else m)"

text \<open>
  \<open>tick\<close> is the only step a stopped monitor could repeat: while both are ready, \<open>select\<close> may choose the ticker over the cancelled context.
\<close>

inductive monitor_tick :: "'f monitor \<Rightarrow> 'f monitor \<Rightarrow> bool" where
  tick: "mo_pending m = None \<Longrightarrow> \<not> mo_closed m \<Longrightarrow> monitor_tick m (m\<lparr>mo_pending := Some peers\<rparr>)"

inductive monitor_work ::
  "('a, 's, 'e) libp2p \<Rightarrow> string \<Rightarrow> peer_id \<Rightarrow> 'f::{zero, one, divide} monitor \<Rightarrow> 'f monitor \<Rightarrow> bool" for L protocolID self where
  offer: "mo_pending m = Some (p # ps) \<Longrightarrow> monitor_work L protocolID self m ((offer_peer self p m)\<lparr>mo_pending := Some ps\<rparr>)"
| wait: "mo_pending m = Some [] \<Longrightarrow> monitor_work L protocolID self m (m\<lparr>mo_pending := None\<rparr>)"
| close: "mo_pending m = None \<Longrightarrow> mo_cancelled m \<Longrightarrow> \<not> mo_closed m \<Longrightarrow> monitor_work L protocolID self m (m\<lparr>mo_closed := True\<rparr>)"
| take: "i < length (mo_workers m) \<Longrightarrow> mo_workers m ! i = W_Idle \<Longrightarrow> mo_peerChan m = p # q \<Longrightarrow>
    monitor_work L protocolID self m (m\<lparr>mo_peerChan := q, mo_workers := (mo_workers m)[i := W_Ping p]\<rparr>)"
| finish: "i < length (mo_workers m) \<Longrightarrow> mo_workers m ! i = W_Idle \<Longrightarrow> mo_cancelled m \<or> (mo_closed m \<and> mo_peerChan m = []) \<Longrightarrow>
    monitor_work L protocolID self m (m\<lparr>mo_workers := (mo_workers m)[i := W_Done]\<rparr>)"
| ping: "i < length (mo_workers m) \<Longrightarrow> mo_workers m ! i = W_Ping p \<Longrightarrow> ping_io L (mo_cancelled m) protocolID p env = (ok, env') \<Longrightarrow>
    monitor_work L protocolID self m (m\<lparr>mo_collector := UpdateResponsiveness now p (responsiveness ok latency) (mo_collector m),
      mo_workers := (mo_workers m)[i := W_Report p ok]\<rparr>)"
| report: "i < length (mo_workers m) \<Longrightarrow> mo_workers m ! i = W_Report p ok \<Longrightarrow>
    monitor_work L protocolID self m (m\<lparr>mo_collector := UpdateReliability now p (reliability ok) (mo_collector m),
      mo_workers := (mo_workers m)[i := W_Idle]\<rparr>)"

text \<open>\<open>Stop\<close> cancels the context and waits until all workers are done.\<close>

definition Monitor_Stop :: "'f monitor \<Rightarrow> 'f monitor" where
  "Monitor_Stop m = m\<lparr>mo_cancelled := True\<rparr>"

definition Stop_returned :: "'f monitor \<Rightarrow> bool" where
  "Stop_returned m = (mo_cancelled m \<and> list_all (\<lambda>w. w = W_Done) (mo_workers m))"

inductive monitor_step ::
  "('a, 's, 'e) libp2p \<Rightarrow> string \<Rightarrow> peer_id \<Rightarrow> 'f::{zero, one, divide} monitor \<Rightarrow> 'f monitor \<Rightarrow> bool" for L protocolID self where
  tick: "monitor_tick m m' \<Longrightarrow> monitor_step L protocolID self m m'"
| work: "monitor_work L protocolID self m m' \<Longrightarrow> monitor_step L protocolID self m m'"
| stop: "monitor_step L protocolID self m (Monitor_Stop m)"

section \<open>The invariant\<close>

fun pinged :: "worker \<Rightarrow> peer_id option" where
  "pinged (W_Ping p) = Some p" | "pinged (W_Report p _) = Some p" | "pinged _ = None"

definition workers_ok :: "peer_id \<Rightarrow> worker list \<Rightarrow> bool" where
  "workers_ok self ws \<longleftrightarrow> (\<forall>w \<in> set ws. pinged w \<noteq> Some self)"

definition monitor_inv :: "peer_id \<Rightarrow> 'f::{zero, one} monitor \<Rightarrow> bool" where
  "monitor_inv self m \<longleftrightarrow> length (mo_peerChan m) \<le> mo_concurrency m \<and> self \<notin> set (mo_peerChan m) \<and>
     workers_ok self (mo_workers m) \<and>
     (\<forall>p x. GetMetrics p (mo_collector m) = Some x \<longrightarrow> p \<noteq> self \<and> m_Reliability x \<in> {0, 1})"

lemma Get_update:
  "GetMetrics p (UpdateReliability now q v mc) = (if p = q then Some ((case GetMetrics q mc of Some x \<Rightarrow> x | None \<Rightarrow> zero_metrics)\<lparr>
      m_Reliability := v, m_LastUpdated := now\<rparr>) else GetMetrics p mc)"
  "GetMetrics p (UpdateResponsiveness now q v mc) = (if p = q then Some ((case GetMetrics q mc of Some x \<Rightarrow> x | None \<Rightarrow> zero_metrics)\<lparr>
      m_Responsiveness := v, m_LastUpdated := now\<rparr>) else GetMetrics p mc)"
  by (auto simp: GetMetrics_def UpdateReliability_def UpdateResponsiveness_def update_metrics_def ensurePeer_def Let_def split: option.splits)

lemma worker_update: "workers_ok self ws \<Longrightarrow> pinged w \<noteq> Some self \<Longrightarrow> workers_ok self (ws[i := w])"
  using set_update_subset_insert [of ws i w] by (auto simp: workers_ok_def)

lemma worker_nth: "workers_ok self ws \<Longrightarrow> i < length ws \<Longrightarrow> pinged (ws ! i) \<noteq> Some self"
  by (simp add: workers_ok_def)

lemma monitor_inv_work:
  assumes "monitor_work L protocolID self m m'" "monitor_inv self m"
  shows "monitor_inv self m'"
  using assms
proof cases
  case (take i p q)
  with assms(2) show ?thesis by (auto simp: monitor_inv_def intro: worker_update)
next
  case (finish i)
  with assms(2) show ?thesis by (auto simp: monitor_inv_def intro: worker_update)
next
  case (ping i p env ok env' now latency)
  have "p \<noteq> self" using assms(2) ping(2,3) worker_nth [of self "mo_workers m" i] by (auto simp: monitor_inv_def)
  with ping assms(2) show ?thesis
    by (auto simp: monitor_inv_def Get_update zero_metrics_def split: if_splits option.splits intro: worker_update)
next
  case (report i p ok now)
  have "p \<noteq> self" using assms(2) report(2,3) worker_nth [of self "mo_workers m" i] by (auto simp: monitor_inv_def)
  with report assms(2) show ?thesis
    by (auto simp: monitor_inv_def Get_update reliability_def split: if_splits intro: worker_update)
qed (use assms(2) in \<open>auto simp: monitor_inv_def offer_peer_def\<close>)

lemma monitor_inv_step:
  assumes "monitor_step L protocolID self m m'" "monitor_inv self m"
  shows "monitor_inv self m'"
  using assms
proof cases
  case tick
  then obtain peers where "m' = m\<lparr>mo_pending := Some peers\<rparr>" by (auto elim: monitor_tick.cases)
  with assms(2) show ?thesis by (simp add: monitor_inv_def)
next
  case work
  then show ?thesis using assms(2) by (rule monitor_inv_work)
next
  case stop
  then show ?thesis using assms(2) by (simp add: monitor_inv_def Monitor_Stop_def)
qed

definition fresh_monitor :: "'f monitor \<Rightarrow> bool" where
  "fresh_monitor m \<longleftrightarrow> (\<exists>weights n. m = Monitor_Start (NewPerformanceMonitor (NewCollector weights) n))"

lemma fresh_fields:
  assumes "fresh_monitor m"
  shows "mo_peerChan m = []" "\<And>p. GetMetrics p (mo_collector m) = None" "\<And>w. w \<in> set (mo_workers m) \<Longrightarrow> w = W_Idle"
    "length (mo_workers m) = mo_concurrency m"
  using assms by (auto simp: fresh_monitor_def Monitor_Start_def NewPerformanceMonitor_def NewCollector_def GetMetrics_def)

interpretation monitor: invariant_system fresh_monitor "monitor_step L protocolID self" "monitor_inv self"
  for L :: "('a, 's, 'e) libp2p" and protocolID self
proof unfold_locales
  fix m :: "'f::{zero, one, divide} monitor" assume "fresh_monitor m"
  from fresh_fields [OF this] show "monitor_inv self m" by (fastforce simp: monitor_inv_def workers_ok_def)
qed (rule monitor_inv_step)

section \<open>Stopping\<close>

text \<open>Every step but a tick brings the monitor closer to the end.\<close>

fun worker_rank :: "worker \<Rightarrow> nat" where
  "worker_rank W_Idle = 1" | "worker_rank (W_Ping _) = 3" | "worker_rank (W_Report _ _) = 2" | "worker_rank W_Done = 0"

definition monitor_rank :: "'f monitor \<Rightarrow> nat" where
  "monitor_rank m = 4 * length (mo_peerChan m) + (case mo_pending m of None \<Rightarrow> 0 | Some ps \<Rightarrow> Suc (5 * length ps)) +
     (if mo_closed m then 0 else 1) + sum_list (map worker_rank (mo_workers m))"

lemma sum_update:
  assumes "i < length ws"
  shows "sum_list (map worker_rank (ws[i := w])) + worker_rank (ws ! i) = sum_list (map worker_rank ws) + worker_rank w"
  using assms by (induction ws arbitrary: i) (auto split: nat.splits)

lemma worker_rank_le: "i < length ws \<Longrightarrow> worker_rank (ws ! i) \<le> sum_list (map worker_rank ws)"
  by (simp add: member_le_sum_list)

lemma monitor_work_rank:
  assumes "monitor_work L protocolID self m m'"
  shows "monitor_rank m' < monitor_rank m"
  using assms
proof cases
  case (take i p q)
  with sum_update [of i "mo_workers m" "W_Ping p"] show ?thesis by (simp add: monitor_rank_def)
next
  case (finish i)
  with sum_update [of i "mo_workers m" W_Done] show ?thesis by (simp add: monitor_rank_def)
next
  case (ping i p env ok env' now latency)
  with sum_update [of i "mo_workers m" "W_Report p ok"] show ?thesis by (simp add: monitor_rank_def)
next
  case (report i p ok now)
  with sum_update [of i "mo_workers m" W_Idle] show ?thesis by (simp add: monitor_rank_def)
qed (auto simp: monitor_rank_def offer_peer_def)

lemma monitor_work_cancelled: "monitor_work L protocolID self m m' \<Longrightarrow> mo_cancelled m' = mo_cancelled m"
  by (erule monitor_work.cases) (auto simp: offer_peer_def)

lemma cancelled_stuck:
  assumes "mo_cancelled m" "\<And>m'. \<not> monitor_work L protocolID self m m'"
  shows "Stop_returned m \<and> mo_closed m"
proof -
  have "w = W_Done" if w: "w \<in> set (mo_workers m)" for w
  proof -
    obtain i where i: "i < length (mo_workers m)" "mo_workers m ! i = w" using w by (metis in_set_conv_nth)
    show ?thesis
    proof (cases w)
      case W_Idle
      then show ?thesis using i assms monitor_work.finish by blast
    next
      case (W_Ping p)
      then show ?thesis using i assms(2) monitor_work.ping by (metis surj_pair)
    next
      case (W_Report p ok)
      then show ?thesis using i assms(2) monitor_work.report by blast
    qed simp
  qed
  moreover have "mo_closed m"
  proof (cases "mo_pending m")
    case None
    then show ?thesis using assms monitor_work.close by blast
  next
    case (Some ps)
    then show ?thesis using assms(2) monitor_work.offer monitor_work.wait by (cases ps) blast+
  qed
  ultimately show ?thesis using assms(1) by (simp add: Stop_returned_def list_all_iff)
qed

lemma monitor_can_stop:
  assumes "mo_cancelled m"
  shows "\<exists>m'. (monitor_work L protocolID self)\<^sup>*\<^sup>* m m' \<and> Stop_returned m' \<and> mo_closed m'"
  using assms
proof (induction "monitor_rank m" arbitrary: m rule: less_induct)
  case less
  show ?case
  proof (cases "\<exists>m'. monitor_work L protocolID self m m'")
    case True
    then obtain m1 where m1: "monitor_work L protocolID self m m1" ..
    then have "mo_cancelled m1" using less.prems monitor_work_cancelled by blast
    then obtain m2 where "(monitor_work L protocolID self)\<^sup>*\<^sup>* m1 m2" "Stop_returned m2" "mo_closed m2"
      using less.hyps [OF monitor_work_rank [OF m1]] by blast
    with m1 show ?thesis by (meson converse_rtranclp_into_rtranclp)
  next
    case False
    then show ?thesis using cancelled_stuck [OF less.prems] by blast
  qed
qed

section \<open>Properties\<close>

text \<open>
  In every run of the monitor, whatever the host reports as connected and however the pings end, at most \<open>concurrency\<close> peers wait
  in the channel, the node itself neither waits there nor is pinged nor gets metrics, and every reliability is
  exactly zero or one.
\<close>

theorem monitor_reports_sound:
  assumes "fresh_monitor m0" "(monitor_step L protocolID self)\<^sup>*\<^sup>* m0 m"
  shows "length (mo_peerChan m) \<le> mo_concurrency m \<and> self \<notin> set (mo_peerChan m) \<and> W_Ping self \<notin> set (mo_workers m) \<and>
    GetMetrics self (mo_collector m) = None \<and>
    (\<forall>p x. GetMetrics p (mo_collector m) = Some x \<longrightarrow> m_Reliability x = 0 \<or> m_Reliability x = 1)"
proof -
  have inv: "monitor_inv self m" by (rule monitor.inv_reachable [OF assms])
  have "W_Ping self \<notin> set (mo_workers m)"
  proof
    assume "W_Ping self \<in> set (mo_workers m)"
    with inv have "pinged (W_Ping self) \<noteq> Some self" unfolding monitor_inv_def workers_ok_def by blast
    then show False by simp
  qed
  moreover have "GetMetrics self (mo_collector m) = None"
    using inv by (cases "GetMetrics self (mo_collector m)") (auto simp: monitor_inv_def)
  moreover have "m_Reliability x = 0 \<or> m_Reliability x = 1" if "GetMetrics p (mo_collector m) = Some x" for p x
    using inv that by (simp add: monitor_inv_def)
  ultimately show ?thesis using inv by (simp add: monitor_inv_def)
qed


text \<open>
  The node on the other end of a stream runs \<open>ping_handler\<close>: what is read after a write is what the handler writes when
  it reads the same bytes.  \<open>handler_end\<close> is the handler's side of the stream: what comes in and what went out.
\<close>

definition handler_end :: "(string, unit, bytes \<times> bytes) libp2p" where
  "handler_end = \<lparr>NewMultiaddr = Inr, AddrInfoFromP2pAddr = (\<lambda>m. Inr ([], [m])), peer_String = go_string, net_Interfaces = (\<lambda>e. Inr []),
     libp2p_New = (\<lambda>addrs relay e. (None, e)), NewGossipSub = (\<lambda>c e. (None, e)), ps_Join = (\<lambda>name e. (None, e)),
     topic_Publish = (\<lambda>c m e. (None, e)), mdns_Start = (\<lambda>e. (None, e)), mdns_Close = (\<lambda>e. (None, e)),
     SetStreamHandler = (\<lambda>i e. e), host_AddAddrs = (\<lambda>i addrs e. e), host_Connect = (\<lambda>c info e. (None, e)),
     host_NewStream = (\<lambda>c i pid e. (Inr (), e)), host_Close = (\<lambda>e. (None, e)),
     stream_Read = (\<lambda>s n (incoming, out). (Inr (take n incoming), (drop n incoming, out))),
     stream_Write = (\<lambda>s bs (incoming, out). (None, (incoming, out @ bs))), stream_Close = (\<lambda>s e. e)\<rparr>"

definition answered_by_node :: "('a, 's, 'e) libp2p \<Rightarrow> peer_id \<Rightarrow> string \<Rightarrow> bool" where
  "answered_by_node L p protocolID \<longleftrightarrow>
     (\<forall>env. \<exists>s env1. host_NewStream L False p protocolID env = (Inr s, env1) \<and>
        (\<forall>bs env. \<exists>env'. stream_Write L s bs env = (None, env') \<and>
           (\<forall>n. fst (stream_Read L s n env') = Inr (take n (snd (ping_handler handler_end () (bs, [])))))))"

text \<open>
  A peer that runs the node's stream handler is reported as reliable: its ping gets a pong, so its reliability becomes one and
  its responsiveness the inverse of the latency; the metrics of the other peers stay as they are.
\<close>

theorem node_answers_pings:
  assumes "answered_by_node L p protocolID" "pingPeer L False protocolID now latency p mc env = (mc', env')"
  shows "(\<exists>x. GetMetrics p mc' = Some x \<and> m_Reliability x = 1 \<and> m_Responsiveness x = 1 div latency) \<and>
    (\<forall>q. q \<noteq> p \<longrightarrow> GetMetrics q mc' = GetMetrics q mc)"
proof -
  obtain s env1 where s: "host_NewStream L False p protocolID env = (Inr s, env1)"
    "\<And>bs env. \<exists>env'. stream_Write L s bs env = (None, env') \<and>
       (\<forall>n. fst (stream_Read L s n env') = Inr (take n (snd (ping_handler handler_end () (bs, [])))))"
    using assms(1) unfolding answered_by_node_def by meson
  obtain env2 where w: "stream_Write L s (go_bytes ''ping'') env1 = (None, env2)"
    "\<And>n. fst (stream_Read L s n env2) = Inr (take n (snd (ping_handler handler_end () (go_bytes ''ping'', []))))"
    using s(2) by blast
  have "snd (ping_handler handler_end () (go_bytes ''ping'', [])) = go_bytes ''pong''"
    by (simp add: ping_handler_def handler_end_def go_bytes_def)
  then have "fst (stream_Read L s 1024 env2) = Inr (go_bytes ''pong'')" using w(2) [of 1024] by (simp add: go_bytes_def)
  then obtain env3 where "stream_Read L s 1024 env2 = (Inr (go_bytes ''pong''), env3)" by (metis prod.collapse)
  then have "fst (ping_io L False protocolID p env)" by (simp add: ping_io_def s(1) w(1))
  with assms(2) have "mc' = UpdateReliability now p 1 (UpdateResponsiveness now p (1 div latency) mc)"
    by (auto simp: pingPeer_def responsiveness_def reliability_def split: prod.splits)
  then show ?thesis by (simp add: Get_update)
qed

section \<open>An instance\<close>

text \<open>A host whose peers run the handler: what is written is answered at once.\<close>

definition ponging :: "(string, unit, bytes) libp2p" where
  "ponging = (sample_libp2p {})\<lparr>stream_Write := \<lambda>s bs env. (None, snd (ping_handler handler_end () (bs, [])))\<rparr>"

lemma ponging_answers: "answered_by_node ponging p protocolID"
  by (simp add: answered_by_node_def ponging_def sample_libp2p_def)

definition sample_monitor :: "int monitor" where
  "sample_monitor = Monitor_Start (NewPerformanceMonitor (NewCollector zero_metrics) 1)"

lemma sample_monitor_fresh: "fresh_monitor sample_monitor"
  unfolding fresh_monitor_def sample_monitor_def by blast

definition ticked_monitor :: "int monitor" where
  "ticked_monitor = sample_monitor\<lparr>mo_pending := Some [], mo_peerChan := [[2]]\<rparr>"

lemma sample_monitor_run: "(monitor_step ponging ''/p'' [1])\<^sup>*\<^sup>* sample_monitor ticked_monitor"
proof -
  let ?m = "sample_monitor\<lparr>mo_pending := Some [[1], [2]]\<rparr>"
  let ?m' = "?m\<lparr>mo_pending := Some [[2]]\<rparr>"
  have "monitor_tick sample_monitor ?m"
    by (rule monitor_tick.tick) (simp_all add: sample_monitor_def Monitor_Start_def NewPerformanceMonitor_def)
  then have 1: "monitor_step ponging ''/p'' [1] sample_monitor ?m" by (rule monitor_step.tick)
  have "(offer_peer [1] [1] ?m)\<lparr>mo_pending := Some [[2]]\<rparr> = ?m'" by (simp add: offer_peer_def)
  then have "monitor_work ponging ''/p'' [1] ?m ?m'"
    using monitor_work.offer [of ?m "[1]" "[[2]]" ponging "''/p''" "[1]"] by simp
  then have 2: "monitor_step ponging ''/p'' [1] ?m ?m'" by (rule monitor_step.work)
  have "(offer_peer [1] [2] ?m')\<lparr>mo_pending := Some []\<rparr> = ticked_monitor"
    by (simp add: offer_peer_def ticked_monitor_def sample_monitor_def Monitor_Start_def NewPerformanceMonitor_def)
  then have "monitor_work ponging ''/p'' [1] ?m' ticked_monitor"
    using monitor_work.offer [of ?m' "[2]" "[]" ponging "''/p''" "[1]"] by simp
  then have 3: "monitor_step ponging ''/p'' [1] ?m' ticked_monitor" by (rule monitor_step.work)
  from 1 2 3 show ?thesis by (meson converse_rtranclp_into_rtranclp rtranclp.rtrancl_refl)
qed

theorem monitor_reports_sound_witness: "[1] \<notin> set (mo_peerChan ticked_monitor)"
  using monitor_reports_sound [OF sample_monitor_fresh sample_monitor_run] by simp

theorem node_answers_pings_witness:
  "\<exists>x. GetMetrics [2] (fst (pingPeer ponging False ''/p'' 5 (1 :: int) [2] (NewCollector zero_metrics) [])) = Some x \<and> m_Reliability x = 1"
proof -
  obtain mc env where "pingPeer ponging False ''/p'' 5 (1 :: int) [2] (NewCollector zero_metrics) [] = (mc, env)"
    by (metis surj_pair)
  with node_answers_pings [OF ponging_answers this] show ?thesis by auto
qed


end
