(* ===== verification/Discovery.thy ===== *)
theory Discovery
  imports Networking
begin

text \<open>
  \<open>pkg/networking/discovery.go\<close>: the discovery service over a Kademlia DHT.  The DHT and its routing discovery are the fields
  of a record on the same environment as the host.  Shown here: an advertisement returns exactly when some attempt ends otherwise
  than with an empty routing table, and what it counts; and the gauge of active peers is never above zero.
\<close>

section \<open>The service\<close>

record 'e dht =
  dht_New :: "'e \<Rightarrow> go_error option \<times> 'e"
  dht_Bootstrap :: "'e \<Rightarrow> go_error option \<times> 'e"
  dht_Close :: "'e \<Rightarrow> go_error option \<times> 'e"
  rd_Advertise :: "string \<Rightarrow> 'e \<Rightarrow> go_error option \<times> 'e"
  rd_FindPeers :: "string \<Rightarrow> 'e \<Rightarrow> go_error option \<times> 'e"
  rt_RemovePeer :: "peer_id \<Rightarrow> 'e \<Rightarrow> 'e"
  rt_ListPeers :: "'e \<Rightarrow> peer_id list"
  ps_ClearAddrs :: "peer_id \<Rightarrow> 'e \<Rightarrow> 'e"

record discovery_metrics =
  dm_PeersAdvertised :: int
  dm_AdvertisementFailures :: int
  dm_PeersDiscovered :: int
  dm_DiscoveryFailures :: int
  dm_BootstrapConnected :: int
  dm_BootstrapFailed :: int
  dm_ActivePeers :: int
  dm_PeersRemoved :: int

definition new_discovery_metrics :: discovery_metrics where
  "new_discovery_metrics = \<lparr>dm_PeersAdvertised = 0, dm_AdvertisementFailures = 0, dm_PeersDiscovered = 0, dm_DiscoveryFailures = 0,
     dm_BootstrapConnected = 0, dm_BootstrapFailed = 0, dm_ActivePeers = 0, dm_PeersRemoved = 0\<rparr>"

definition add_bootstrap_addrs :: "('a, 's, 'e) libp2p \<Rightarrow> (peer_id \<times> 'a list) list \<Rightarrow> 'e \<Rightarrow> 'e" where
  "add_bootstrap_addrs L infos env = fold (\<lambda>(i, addrs). host_AddAddrs L i addrs) infos env"

fun discovery_connect :: "('a, 's, 'e) libp2p \<Rightarrow> (peer_id \<times> 'a list) list \<Rightarrow> discovery_metrics \<Rightarrow> 'e \<Rightarrow> discovery_metrics \<times> 'e" where
  "discovery_connect L [] metrics env = (metrics, env)"
| "discovery_connect L (info # infos) metrics env =
     (case host_Connect L False info env of
        (Some err, env) \<Rightarrow> discovery_connect L infos (metrics\<lparr>dm_BootstrapFailed := dm_BootstrapFailed metrics + 1\<rparr>) env
      | (None, env) \<Rightarrow> discovery_connect L infos (metrics\<lparr>dm_BootstrapConnected := dm_BootstrapConnected metrics + 1\<rparr>) env)"

text \<open>\<open>meter\<close> is what creating the instruments returns.\<close>

definition NewDiscoveryService ::
  "('a, 's, 'e) libp2p \<Rightarrow> 'e dht \<Rightarrow> (peer_id \<times> 'a list) list \<Rightarrow> go_error option \<Rightarrow> 'e \<Rightarrow> discovery_metrics result \<times> 'e" where
  "NewDiscoveryService L D bootstrapPeers meter env =
     (case meter of
        Some err \<Rightarrow> (Inl (wrap_error ''failed to initialize discovery metrics'' err), env)
      | None \<Rightarrow>
          (case dht_New D env of
             (Some err, env) \<Rightarrow> (Inl (wrap_error ''failed to create DHT instance'' err), env)
           | (None, env) \<Rightarrow>
               (case (if length bootstrapPeers > 0
                      then discovery_connect L bootstrapPeers new_discovery_metrics (add_bootstrap_addrs L bootstrapPeers env)
                      else (new_discovery_metrics, env)) of
                  (metrics, env) \<Rightarrow>
                    (case dht_Bootstrap D env of
                       (Some err, env) \<Rightarrow> (Inl (wrap_error ''failed to bootstrap DHT'' err), env)
                     | (None, env) \<Rightarrow> (Inr metrics, env)))))"

text \<open>The error that makes \<open>Advertise\<close> try again after five seconds; \<open>None\<close> when it never returns.\<close>

definition no_peers :: go_error where "no_peers = ErrorS ''failed to find any peer in table''"

partial_function (option) Advertise ::
  "'e dht \<Rightarrow> string \<Rightarrow> discovery_metrics \<Rightarrow> 'e \<Rightarrow> (go_error option \<times> discovery_metrics \<times> 'e) option" where
  "Advertise D serviceTag metrics env =
     (case rd_Advertise D serviceTag env of
        (Some err, env) \<Rightarrow>
          (let metrics' = metrics\<lparr>dm_AdvertisementFailures := dm_AdvertisementFailures metrics + 1\<rparr> in
           if err = no_peers then Advertise D serviceTag metrics' env
           else Some (Some (wrap_error ''failed to advertise service'' err), metrics', env))
      | (None, env) \<Rightarrow> Some (None, metrics\<lparr>dm_PeersAdvertised := dm_PeersAdvertised metrics + 1\<rparr>, env))"

definition FindPeers :: "'e dht \<Rightarrow> string \<Rightarrow> discovery_metrics \<Rightarrow> 'e \<Rightarrow> go_error option \<times> discovery_metrics \<times> 'e" where
  "FindPeers D serviceTag metrics env =
     (case rd_FindPeers D serviceTag env of
        (Some err, env) \<Rightarrow>
          (Some (wrap_error ''failed to find peers'' err), metrics\<lparr>dm_DiscoveryFailures := dm_DiscoveryFailures metrics + 1\<rparr>, env)
      | (None, env) \<Rightarrow> (None, metrics\<lparr>dm_PeersDiscovered := dm_PeersDiscovered metrics + 1\<rparr>, env))"

definition AddBootstrapPeer ::
  "('a, 's, 'e) libp2p \<Rightarrow> peer_id \<times> 'a list \<Rightarrow> bool \<Rightarrow> discovery_metrics \<Rightarrow> 'e \<Rightarrow> go_error option \<times> discovery_metrics \<times> 'e" where
  "AddBootstrapPeer L peerInfo cancelled metrics env =
     (case host_Connect L cancelled peerInfo (host_AddAddrs L (fst peerInfo) (snd peerInfo) env) of
        (Some err, env) \<Rightarrow>
          (Some (wrap_error ''failed to connect to bootstrap peer %s'' err),
           metrics\<lparr>dm_BootstrapFailed := dm_BootstrapFailed metrics + 1\<rparr>, env)
      | (None, env) \<Rightarrow> (None, metrics\<lparr>dm_BootstrapConnected := dm_BootstrapConnected metrics + 1\<rparr>, env))"

definition Discovery_RemovePeer :: "'e dht \<Rightarrow> peer_id \<Rightarrow> discovery_metrics \<Rightarrow> 'e \<Rightarrow> discovery_metrics \<times> 'e" where
  "Discovery_RemovePeer D peerID metrics env =
     (metrics\<lparr>dm_PeersRemoved := dm_PeersRemoved metrics + 1, dm_ActivePeers := dm_ActivePeers metrics - 1\<rparr>,
      rt_RemovePeer D peerID (ps_ClearAddrs D peerID env))"

definition Discovery_Shutdown :: "'e dht \<Rightarrow> discovery_metrics \<Rightarrow> 'e \<Rightarrow> go_error option \<times> discovery_metrics \<times> 'e" where
  "Discovery_Shutdown D metrics env =
     (case dht_Close D env of
        (Some err, env) \<Rightarrow>
          (let activePeers = int (length (rt_ListPeers D env)) in
           (Some (wrap_error ''failed to shut down DHT'' err),
            metrics\<lparr>dm_PeersRemoved := dm_PeersRemoved metrics + activePeers, dm_ActivePeers := dm_ActivePeers metrics - activePeers\<rparr>, env))
      | (None, env) \<Rightarrow> (None, metrics, env))"

section \<open>Advertising\<close>

text \<open>The environment after \<open>n\<close> attempts.\<close>

definition after_attempts :: "'e dht \<Rightarrow> string \<Rightarrow> nat \<Rightarrow> 'e \<Rightarrow> 'e" where
  "after_attempts D tag n env = ((\<lambda>env. snd (rd_Advertise D tag env)) ^^ n) env"

definition attempt :: "'e dht \<Rightarrow> string \<Rightarrow> nat \<Rightarrow> 'e \<Rightarrow> go_error option" where
  "attempt D tag n env = fst (rd_Advertise D tag (after_attempts D tag n env))"

lemma attempt_Suc: "attempt D tag (Suc n) env = attempt D tag n (snd (rd_Advertise D tag env))"
  "after_attempts D tag (Suc n) env = after_attempts D tag n (snd (rd_Advertise D tag env))"
  by (simp_all add: attempt_def after_attempts_def funpow_Suc_right del: funpow.simps)

lemma Advertise_at:
  assumes "\<And>i. i < n \<Longrightarrow> attempt D tag i env = Some no_peers" "attempt D tag n env \<noteq> Some no_peers"
  shows "\<exists>m env'. Advertise D tag metrics env = Some (map_option (wrap_error ''failed to advertise service'') (attempt D tag n env), m, env') \<and>
    dm_AdvertisementFailures m = dm_AdvertisementFailures metrics + int n + (if attempt D tag n env = None then 0 else 1) \<and>
    dm_PeersAdvertised m = dm_PeersAdvertised metrics + (if attempt D tag n env = None then 1 else 0)"
  using assms
proof (induction n arbitrary: metrics env)
  case 0
  obtain r env1 where r: "rd_Advertise D tag env = (r, env1)" by (cases "rd_Advertise D tag env")
  then have "attempt D tag 0 env = r" by (simp add: attempt_def after_attempts_def)
  with r 0 show ?case by (subst Advertise.simps) (auto simp: Let_def split: option.splits)
next
  case (Suc n)
  obtain r env1 where r: "rd_Advertise D tag env = (r, env1)" by (cases "rd_Advertise D tag env")
  have "r = Some no_peers" using Suc.prems(1) [of 0] r by (simp add: attempt_def after_attempts_def)
  then have step: "Advertise D tag metrics env = Advertise D tag (metrics\<lparr>dm_AdvertisementFailures := dm_AdvertisementFailures metrics + 1\<rparr>) env1"
    using r by (subst Advertise.simps) (simp add: Let_def)
  have "attempt D tag i env1 = Some no_peers" if "i < n" for i using Suc.prems(1) [of "Suc i"] that r by (simp add: attempt_Suc)
  moreover have "attempt D tag n env1 \<noteq> Some no_peers" using Suc.prems(2) r by (simp add: attempt_Suc)
  ultimately obtain m env' where
    "Advertise D tag (metrics\<lparr>dm_AdvertisementFailures := dm_AdvertisementFailures metrics + 1\<rparr>) env1 =
       Some (map_option (wrap_error ''failed to advertise service'') (attempt D tag n env1), m, env')"
    "dm_AdvertisementFailures m = dm_AdvertisementFailures metrics + 1 + int n + (if attempt D tag n env1 = None then 0 else 1)"
    "dm_PeersAdvertised m = dm_PeersAdvertised metrics + (if attempt D tag n env1 = None then 1 else 0)"
    using Suc.IH [of env1 "metrics\<lparr>dm_AdvertisementFailures := dm_AdvertisementFailures metrics + 1\<rparr>"] by auto
  then show ?case using r step by (intro exI [of _ m] exI [of _ env']) (simp add: attempt_Suc)
qed

lemma Advertise_returns: "Advertise D tag metrics env = Some r \<Longrightarrow> \<exists>n. attempt D tag n env \<noteq> Some no_peers"
proof (rule Advertise.raw_induct [of "\<lambda>D tag metrics env r. \<exists>n. attempt D tag n env \<noteq> Some no_peers" D tag metrics env r])
  fix f :: "'e dht \<Rightarrow> string \<Rightarrow> discovery_metrics \<Rightarrow> 'e \<Rightarrow> (go_error option \<times> discovery_metrics \<times> 'e) option"
    and D :: "'e dht" and tag metrics env r
  assume ih: "\<And>D tag metrics env r. f D tag metrics env = Some r \<Longrightarrow> \<exists>n. attempt D tag n env \<noteq> Some no_peers"
    and body: "(case rd_Advertise D tag env of
        (Some err, env) \<Rightarrow>
          (let metrics' = metrics\<lparr>dm_AdvertisementFailures := dm_AdvertisementFailures metrics + 1\<rparr> in
           if err = no_peers then f D tag metrics' env
           else Some (Some (wrap_error ''failed to advertise service'' err), metrics', env))
      | (None, env) \<Rightarrow> Some (None, metrics\<lparr>dm_PeersAdvertised := dm_PeersAdvertised metrics + 1\<rparr>, env)) = Some r"
  obtain e env1 where e: "rd_Advertise D tag env = (e, env1)" by (cases "rd_Advertise D tag env")
  show "\<exists>n. attempt D tag n env \<noteq> Some no_peers"
  proof (cases "e = Some no_peers")
    case True
    with body e have "f D tag (metrics\<lparr>dm_AdvertisementFailures := dm_AdvertisementFailures metrics + 1\<rparr>) env1 = Some r"
      by (simp add: Let_def)
    then obtain n where "attempt D tag n env1 \<noteq> Some no_peers" using ih by metis
    then have "attempt D tag (Suc n) env \<noteq> Some no_peers" using e by (simp add: attempt_Suc)
    then show ?thesis ..
  next
    case False
    then have "attempt D tag 0 env \<noteq> Some no_peers" using e by (simp add: attempt_def after_attempts_def)
    then show ?thesis ..
  qed
qed

section \<open>Properties\<close>

text \<open>
  \<open>Advertise\<close> returns if and only if some attempt ends otherwise than with an empty routing table; the context is not
  looked at in between.  It then returns the outcome of the first such attempt and has counted each failed attempt once.
\<close>

theorem advertise_retries_until_peers:
  "((\<exists>r. Advertise D tag metrics env = Some r) \<longleftrightarrow> (\<exists>n. attempt D tag n env \<noteq> Some no_peers)) \<and>
   (\<forall>n. (\<forall>i < n. attempt D tag i env = Some no_peers) \<and> attempt D tag n env = None \<longrightarrow>
      (\<exists>m env'. Advertise D tag metrics env = Some (None, m, env') \<and>
         dm_AdvertisementFailures m = dm_AdvertisementFailures metrics + int n \<and> dm_PeersAdvertised m = dm_PeersAdvertised metrics + 1))"
proof (intro conjI iffI allI impI)
  assume "\<exists>r. Advertise D tag metrics env = Some r"
  then show "\<exists>n. attempt D tag n env \<noteq> Some no_peers" by (elim exE) (rule Advertise_returns)
next
  assume ex: "\<exists>n. attempt D tag n env \<noteq> Some no_peers"
  define n where "n = (LEAST n. attempt D tag n env \<noteq> Some no_peers)"
  have at: "attempt D tag n env \<noteq> Some no_peers" unfolding n_def using ex by (rule LeastI_ex)
  have before: "attempt D tag i env = Some no_peers" if "i < n" for i using not_less_Least that unfolding n_def by blast
  have "\<exists>m env'. Advertise D tag metrics env = Some (map_option (wrap_error ''failed to advertise service'') (attempt D tag n env), m, env')"
    using Advertise_at [of n D tag env metrics] before at by blast
  then show "\<exists>r. Advertise D tag metrics env = Some r" by (elim exE) (rule exI)
next
  fix n assume n: "(\<forall>i < n. attempt D tag i env = Some no_peers) \<and> attempt D tag n env = None"
  then show "\<exists>m env'. Advertise D tag metrics env = Some (None, m, env') \<and>
      dm_AdvertisementFailures m = dm_AdvertisementFailures metrics + int n \<and> dm_PeersAdvertised m = dm_PeersAdvertised metrics + 1"
    using Advertise_at [of n D tag env metrics] by auto
qed

text \<open>A run of the service, with what others do to the environment.\<close>

inductive discovery_step :: "('a, 's, 'e) libp2p \<Rightarrow> 'e dht \<Rightarrow> discovery_metrics \<times> 'e \<Rightarrow> discovery_metrics \<times> 'e \<Rightarrow> bool" for L D where
  advertise: "Advertise D tag m env = Some (r, m', env') \<Longrightarrow> discovery_step L D (m, env) (m', env')"
| find: "FindPeers D tag m env = (r, m', env') \<Longrightarrow> discovery_step L D (m, env) (m', env')"
| add: "AddBootstrapPeer L info c m env = (r, m', env') \<Longrightarrow> discovery_step L D (m, env) (m', env')"
| remove: "Discovery_RemovePeer D i m env = (m', env') \<Longrightarrow> discovery_step L D (m, env) (m', env')"
| shutdown: "Discovery_Shutdown D m env = (r, m', env') \<Longrightarrow> discovery_step L D (m, env) (m', env')"
| outside: "discovery_step L D (m, env) (m, env')"

definition discovery_inv :: "discovery_metrics \<times> 'e \<Rightarrow> bool" where
  "discovery_inv s \<longleftrightarrow> dm_ActivePeers (fst s) = - dm_PeersRemoved (fst s) \<and> dm_PeersRemoved (fst s) \<ge> 0"

lemma Advertise_gauges:
  "Advertise D tag m env = Some (r, m', env') \<Longrightarrow> dm_ActivePeers m' = dm_ActivePeers m \<and> dm_PeersRemoved m' = dm_PeersRemoved m"
proof -
  have "dm_ActivePeers (fst (snd x)) = dm_ActivePeers m \<and> dm_PeersRemoved (fst (snd x)) = dm_PeersRemoved m"
    if "Advertise D tag m env = Some x" for x
    using that
    by (rule Advertise.raw_induct [of "\<lambda>D tag m env x. dm_ActivePeers (fst (snd x)) = dm_ActivePeers m \<and>
          dm_PeersRemoved (fst (snd x)) = dm_PeersRemoved m", rotated])
      (fastforce simp: Let_def split: prod.splits option.splits if_splits)
  then show "Advertise D tag m env = Some (r, m', env') \<Longrightarrow> ?thesis" by fastforce
qed

lemma discovery_connect_gauges:
  "discovery_connect L infos m env = (m', env') \<Longrightarrow> dm_ActivePeers m' = dm_ActivePeers m \<and> dm_PeersRemoved m' = dm_PeersRemoved m"
  by (induction L infos m env rule: discovery_connect.induct) (auto split: prod.splits option.splits)

lemma NewDiscoveryService_gauges:
  "NewDiscoveryService L D infos meter env = (Inr m, env') \<Longrightarrow> dm_ActivePeers m = 0 \<and> dm_PeersRemoved m = 0"
  by (auto simp: NewDiscoveryService_def new_discovery_metrics_def split: option.splits prod.splits if_splits dest!: discovery_connect_gauges)

interpretation discovery: invariant_system "\<lambda>s. dm_ActivePeers (fst s) = 0 \<and> dm_PeersRemoved (fst s) = 0" "discovery_step L D" discovery_inv
  for L :: "('a, 's, 'e) libp2p" and D
proof (unfold_locales, goal_cases)
  case (1 s)
  then show ?case by (simp add: discovery_inv_def)
next
  case (2 s s')
  from 2(2) show ?case
  proof cases
    case (advertise tag m env r m' env')
    with 2(1) show ?thesis using Advertise_gauges [OF advertise(3)] by (simp add: discovery_inv_def)
  qed (use 2(1) in \<open>auto simp: discovery_inv_def FindPeers_def AddBootstrapPeer_def Discovery_RemovePeer_def Discovery_Shutdown_def Let_def
        split: prod.splits option.splits\<close>)
qed

text \<open>
  The gauge of active peers of the discovery service is never above zero: no operation adds to it, while removing a
  peer and a failed shutdown take from it, so it is minus the number of removed peers in every run.
\<close>

theorem discovery_gauge_not_positive:
  assumes "NewDiscoveryService L D infos meter env0 = (Inr m0, env1)" "(discovery_step L D)\<^sup>*\<^sup>* (m0, env1) (m, env)"
  shows "dm_ActivePeers m = - dm_PeersRemoved m \<and> dm_ActivePeers m \<le> 0"
  using discovery.inv_reachable [OF _ assms(2)] NewDiscoveryService_gauges [OF assms(1)] by (simp add: discovery_inv_def)

section \<open>An instance\<close>

text \<open>A DHT whose routing table fills while attempts are made: the environment counts those still to fail.\<close>

definition filling_dht :: "bytes dht" where
  "filling_dht = \<lparr>dht_New = (\<lambda>e. (None, e)), dht_Bootstrap = (\<lambda>e. (None, e)), dht_Close = (\<lambda>e. (None, e)),
     rd_Advertise = (\<lambda>tag e. if e = [] then (None, []) else (Some no_peers, tl e)), rd_FindPeers = (\<lambda>tag e. (None, e)),
     rt_RemovePeer = (\<lambda>i e. e), rt_ListPeers = (\<lambda>e. []), ps_ClearAddrs = (\<lambda>i e. e)\<rparr>"

theorem advertise_retries_until_peers_witness:
  "\<exists>m env'. Advertise filling_dht ''validator'' new_discovery_metrics [0, 0] = Some (None, m, env') \<and> dm_AdvertisementFailures m = 2"
proof -
  have "attempt filling_dht ''validator'' 0 [0, 0] = Some no_peers" "attempt filling_dht ''validator'' 1 [0, 0] = Some no_peers"
    "attempt filling_dht ''validator'' 2 [0, 0] = None"
    by (simp_all add: attempt_def after_attempts_def filling_dht_def numeral_2_eq_2)
  then have "(\<forall>i < 2. attempt filling_dht ''validator'' i [0, 0] = Some no_peers) \<and> attempt filling_dht ''validator'' 2 [0, 0] = None"
    by (auto simp: less_2_cases_iff)
  then show ?thesis
    using spec [OF conjunct2 [OF advertise_retries_until_peers [of filling_dht "''validator''" new_discovery_metrics "[0, 0]"]], of 2]
    by (auto simp: new_discovery_metrics_def)
qed

theorem discovery_gauge_not_positive_witness:
  "\<exists>m env. (discovery_step near filling_dht)\<^sup>*\<^sup>* (new_discovery_metrics, []) (m, env) \<and> dm_PeersRemoved m = 1 \<and> dm_ActivePeers m \<le> 0"
proof -
  let ?m = "new_discovery_metrics\<lparr>dm_PeersRemoved := 1, dm_ActivePeers := -1\<rparr>"
  have new: "NewDiscoveryService near filling_dht [] None [] = (Inr new_discovery_metrics, [])"
    by (simp add: NewDiscoveryService_def filling_dht_def)
  have "Discovery_RemovePeer filling_dht [9] new_discovery_metrics [] = (?m, [])"
    by (simp add: Discovery_RemovePeer_def filling_dht_def new_discovery_metrics_def)
  then have "discovery_step near filling_dht (new_discovery_metrics, []) (?m, [])" by (rule discovery_step.remove)
  then have run: "(discovery_step near filling_dht)\<^sup>*\<^sup>* (new_discovery_metrics, []) (?m, [])" by blast
  then show ?thesis using discovery_gauge_not_positive [OF new run] by (intro exI [of _ ?m] exI [of _ "[]"]) simp
qed

end
