(* ===== verification/Storage_Open.thy ===== *)
theory Storage_Open
  imports Storage
begin

text \<open>
  \<open>pkg/storage\<close> (\<open>mdbx.go\<close>, \<open>manager.go\<close>): opening, closing and destroying databases, and the construction and the closing of the
  manager.  The sizes of the configuration are 64-bit integers and wrap.  The handles of MDBX are kept in an environment \<open>'x\<close>.
  Shown here: which handles are open after every outcome of \<open>NewDb\<close>, with the failures that leak one; that a manager
  over differently named databases gives all its handles back; and what the configured sizes become in bytes.
\<close>

section \<open>Databases\<close>

record mdbx_node = node_config +
  node_MaxReaders :: int64
  node_MaxSize :: int64
  node_MinSize :: int64
  node_GrowthStep :: int64
  node_FilePermissions :: uint64

text \<open>\<open>env_OpenRoot\<close> is the update transaction in which \<open>NewDb\<close> opens the root database.\<close>

record ('v, 'x) mdbx_envs =
  NewEnv :: "'x \<Rightarrow> 'v result \<times> 'x"
  env_SetGeometry :: "'v \<Rightarrow> int64 \<Rightarrow> int64 \<Rightarrow> int64 \<Rightarrow> 'x \<Rightarrow> go_error option \<times> 'x"
  env_SetMaxReaders :: "'v \<Rightarrow> uint64 \<Rightarrow> 'x \<Rightarrow> go_error option \<times> 'x"
  env_Open :: "'v \<Rightarrow> string \<Rightarrow> uint64 \<Rightarrow> 'x \<Rightarrow> go_error option \<times> 'x"
  env_OpenRoot :: "'v \<Rightarrow> 'x \<Rightarrow> go_error option \<times> 'x"
  env_Close :: "'v \<Rightarrow> 'x \<Rightarrow> 'x"
  os_RemoveAll :: "string \<Rightarrow> 'x \<Rightarrow> go_error option \<times> 'x"

record 'v db =
  db_opts :: mdbx_node
  db_env :: 'v

definition max_bytes :: "mdbx_node \<Rightarrow> int64" where
  "max_bytes opts = node_MaxSize opts * 1024 * 1024 * 1024"

definition min_bytes :: "mdbx_node \<Rightarrow> int64" where
  "min_bytes opts = node_MinSize opts * 1024 * 1024"

definition NewDb :: "('v, 'x) mdbx_envs \<Rightarrow> mdbx_node \<Rightarrow> 'x \<Rightarrow> 'v db result \<times> 'x" where
  "NewDb M opts x =
     (case NewEnv M x of
        (Inl err, x) \<Rightarrow> (Inl err, x)
      | (Inr env, x) \<Rightarrow>
          if sint (min_bytes opts) > sint (max_bytes opts)
          then (Inl (ErrorS ''minSize (%d bytes) cannot be greater than maxSize (%d bytes)''), env_Close M env x)
          else
            (case env_SetGeometry M env (min_bytes opts) (max_bytes opts) (node_GrowthStep opts) x of
               (Some err, x) \<Rightarrow> (Inl err, x)
             | (None, x) \<Rightarrow>
                 (case env_SetMaxReaders M env (node_MaxReaders opts) x of
                    (Some err, x) \<Rightarrow> (Inl err, x)
                  | (None, x) \<Rightarrow>
                      (case env_Open M env (node_Path opts) (node_FilePermissions opts) x of
                         (Some err, x) \<Rightarrow> (Inl (wrap_error ''failed to open mdbx: %s'' err), x)
                       | (None, x) \<Rightarrow>
                           (case env_OpenRoot M env x of
                              (Some err, x) \<Rightarrow> (Inl err, env_Close M env x)
                            | (None, x) \<Rightarrow> (Inr \<lparr>db_opts = opts, db_env = env\<rparr>, x))))))"

definition Db_Close :: "('v, 'x) mdbx_envs \<Rightarrow> 'v db \<Rightarrow> 'x \<Rightarrow> go_error option \<times> 'x" where
  "Db_Close M db x = (None, env_Close M (db_env db) x)"

definition Db_Destroy :: "('v, 'x) mdbx_envs \<Rightarrow> 'v db \<Rightarrow> 'x \<Rightarrow> go_error option \<times> 'x" where
  "Db_Destroy M db x =
     (case Db_Close M db x of
        (Some err, x) \<Rightarrow> (Some err, x)
      | (None, x) \<Rightarrow>
          (case os_RemoveAll M (node_Path (db_opts db)) x of
             (Some err, x) \<Rightarrow> (Some (wrap_error ''failed to remove database files'' err), x)
           | (None, x) \<Rightarrow> (None, x)))"

section \<open>The manager\<close>

fun NewManager_loop :: "('v, 'x) mdbx_envs \<Rightarrow> mdbx_node list \<Rightarrow> 'v db manager \<Rightarrow> 'x \<Rightarrow> 'v db manager result \<times> 'x" where
  "NewManager_loop M [] dbs x = (Inr dbs, x)"
| "NewManager_loop M (node # nodes) dbs x =
     (case NewDb M node x of
        (Inl err, x) \<Rightarrow> (Inl err, x)
      | (Inr db, x) \<Rightarrow> NewManager_loop M nodes (fmupd (node_Name node) db dbs) x)"

definition Storage_NewManager :: "('v, 'x) mdbx_envs \<Rightarrow> bool \<Rightarrow> mdbx_node list \<Rightarrow> 'x \<Rightarrow> 'v db manager result \<times> 'x" where
  "Storage_NewManager M enabled nodes x = (if enabled then NewManager_loop M nodes fmempty x else (Inr fmempty, x))"

fun close_all :: "('v, 'x) mdbx_envs \<Rightarrow> 'v db list \<Rightarrow> 'x \<Rightarrow> go_error option \<times> 'x" where
  "close_all M [] x = (None, x)"
| "close_all M (db # dbs) x =
     (case Db_Close M db x of
        (Some err, x) \<Rightarrow> (Some err, x)
      | (None, x) \<Rightarrow> close_all M dbs x)"

definition Manager_Close :: "('v, 'x) mdbx_envs \<Rightarrow> string list \<Rightarrow> 'v db manager \<Rightarrow> 'x \<Rightarrow> go_error option \<times> 'x" where
  "Manager_Close M order m x = close_all M (range_values order m) x"

text \<open>\<open>Config.GetMdbxNodeByName\<close>: the first node of that name.\<close>

definition GetMdbxNodeByName :: "string \<Rightarrow> mdbx_node list \<Rightarrow> mdbx_node option" where
  "GetMdbxNodeByName name nodes = find (\<lambda>node. node_Name node = name) nodes"

section \<open>Open handles\<close>

text \<open>
  What is relied on: a new environment is a handle that is not open yet, closing it gives it back, and the other
  calls open and close nothing.
\<close>

definition handle_laws :: "('v, 'x) mdbx_envs \<Rightarrow> ('x \<Rightarrow> 'v set) \<Rightarrow> bool" where
  "handle_laws M H \<longleftrightarrow>
     (\<forall>x env x'. NewEnv M x = (Inr env, x') \<longrightarrow> env \<notin> H x \<and> H x' = insert env (H x)) \<and>
     (\<forall>x err x'. NewEnv M x = (Inl err, x') \<longrightarrow> H x' = H x) \<and>
     (\<forall>env a b c x r x'. env_SetGeometry M env a b c x = (r, x') \<longrightarrow> H x' = H x) \<and>
     (\<forall>env n x r x'. env_SetMaxReaders M env n x = (r, x') \<longrightarrow> H x' = H x) \<and>
     (\<forall>env p q x r x'. env_Open M env p q x = (r, x') \<longrightarrow> H x' = H x) \<and>
     (\<forall>env x r x'. env_OpenRoot M env x = (r, x') \<longrightarrow> H x' = H x) \<and>
     (\<forall>env x. H (env_Close M env x) = H x - {env}) \<and>
     (\<forall>p x r x'. os_RemoveAll M p x = (r, x') \<longrightarrow> H x' = H x)"

lemma handle_lawsD:
  assumes "handle_laws M H"
  shows "NewEnv M x = (Inr env, x') \<Longrightarrow> env \<notin> H x \<and> H x' = insert env (H x)"
    and "NewEnv M x = (Inl err, x') \<Longrightarrow> H x' = H x"
    and "env_SetGeometry M env a b c x = (r, x') \<Longrightarrow> H x' = H x"
    and "env_SetMaxReaders M env n x = (r, x') \<Longrightarrow> H x' = H x"
    and "env_Open M env p q x = (r, x') \<Longrightarrow> H x' = H x"
    and "env_OpenRoot M env x = (r, x') \<Longrightarrow> H x' = H x"
    and "H (env_Close M env x) = H x - {env}"
    and "os_RemoveAll M p x = (r, x') \<Longrightarrow> H x' = H x"
  using assms unfolding handle_laws_def by (elim conjE; simp)+

text \<open>How far \<open>NewDb\<close> came.\<close>

lemma NewDb_cases:
  assumes "NewDb M opts x = (r, x')"
  obtains (no_env) err where "NewEnv M x = (Inl err, x')" "r = Inl err"
  | (sizes) env x1 err where "NewEnv M x = (Inr env, x1)" "sint (min_bytes opts) > sint (max_bytes opts)" "r = Inl err" "x' = env_Close M env x1"
  | (refused) env x1 err where "NewEnv M x = (Inr env, x1)" "\<not> sint (min_bytes opts) > sint (max_bytes opts)" "r = Inl err"
      "\<nexists>x2 x3 x4. env_SetGeometry M env (min_bytes opts) (max_bytes opts) (node_GrowthStep opts) x1 = (None, x2) \<and>
         env_SetMaxReaders M env (node_MaxReaders opts) x2 = (None, x3) \<and>
         env_Open M env (node_Path opts) (node_FilePermissions opts) x3 = (None, x4)"
      "\<And>H. handle_laws M H \<Longrightarrow> H x' = H x1"
  | (opened) env x1 x2 x3 x4 x5 e where "NewEnv M x = (Inr env, x1)" "\<not> sint (min_bytes opts) > sint (max_bytes opts)"
      "env_SetGeometry M env (min_bytes opts) (max_bytes opts) (node_GrowthStep opts) x1 = (None, x2)"
      "env_SetMaxReaders M env (node_MaxReaders opts) x2 = (None, x3)"
      "env_Open M env (node_Path opts) (node_FilePermissions opts) x3 = (None, x4)" "env_OpenRoot M env x4 = (e, x5)"
      "(r, x') = (case e of Some err \<Rightarrow> (Inl err, env_Close M env x5) | None \<Rightarrow> (Inr \<lparr>db_opts = opts, db_env = env\<rparr>, x5))"
proof -
  obtain v x1 where v: "NewEnv M x = (v, x1)" by (cases "NewEnv M x")
  show thesis
  proof (cases v)
    case (Inl err)
    with assms v no_env show ?thesis by (simp add: NewDb_def)
  next
    case (Inr env)
    show ?thesis
    proof (cases "sint (min_bytes opts) > sint (max_bytes opts)")
      case True
      with assms v Inr show ?thesis by (intro sizes) (auto simp: NewDb_def)
    next
      case le: False
      obtain g x2 where g: "env_SetGeometry M env (min_bytes opts) (max_bytes opts) (node_GrowthStep opts) x1 = (g, x2)" by (metis surj_pair)
      obtain m x3 where m: "env_SetMaxReaders M env (node_MaxReaders opts) x2 = (m, x3)" by (metis surj_pair)
      obtain p x4 where o: "env_Open M env (node_Path opts) (node_FilePermissions opts) x3 = (p, x4)" by (metis surj_pair)
      obtain e x5 where e: "env_OpenRoot M env x4 = (e, x5)" by (metis surj_pair)
      note calls = v Inr le g m o e
      show ?thesis
      proof (cases "g = None \<and> m = None \<and> p = None")
        case True
        with assms calls opened show ?thesis by (simp add: NewDb_def)
      next
        case False
        then have "\<exists>err. r = Inl err" "x' = x2 \<or> x' = x3 \<or> x' = x4"
          using assms calls by (auto simp: NewDb_def split: option.splits)
        moreover have "H x' = H x1" if "handle_laws M H" for H :: "'b \<Rightarrow> 'a set"
          using calculation(2) handle_lawsD(3) [OF that g] handle_lawsD(4) [OF that m] handle_lawsD(5) [OF that o] by auto
        ultimately show ?thesis using False calls refused [of env x1] by auto
      qed
    qed
  qed
qed

lemma NewDb_opens:
  assumes "handle_laws M H" "NewDb M opts x = (Inr db, x')"
  shows "db_opts db = opts \<and> db_env db \<notin> H x \<and> H x' = insert (db_env db) (H x) \<and> sint (min_bytes opts) \<le> sint (max_bytes opts)"
  using assms(2)
proof (cases rule: NewDb_cases)
  case (opened env x1 x2 x3 x4 x5 e)
  note H = handle_lawsD(1) [OF assms(1) opened(1)] handle_lawsD(3) [OF assms(1) opened(3)] handle_lawsD(4) [OF assms(1) opened(4)]
    handle_lawsD(5) [OF assms(1) opened(5)] handle_lawsD(6) [OF assms(1) opened(6)]
  from opened(2,7) H show ?thesis by (auto split: option.splits)
qed auto

lemma Db_Close_gives_back: "handle_laws M H \<Longrightarrow> Db_Close M db x = (r, x') \<Longrightarrow> r = None \<and> H x' = H x - {db_env db}"
  by (auto simp: Db_Close_def handle_lawsD(7))

lemma close_all_gives_back:
  "handle_laws M H \<Longrightarrow> close_all M dbs x = (r, x') \<Longrightarrow> r = None \<and> H x' = H x - db_env ` set dbs"
proof (induction dbs arbitrary: x)
  case (Cons db dbs)
  obtain r1 x1 where c: "Db_Close M db x = (r1, x1)" by (cases "Db_Close M db x")
  then have r1: "r1 = None" "H x1 = H x - {db_env db}" using Db_Close_gives_back [OF Cons.prems(1)] by auto
  with Cons.prems(2) c have "close_all M dbs x1 = (r, x')" by simp
  from Cons.IH [OF Cons.prems(1) this] r1 show ?case by auto
qed simp

lemma NewManager_loop_opens:
  assumes "handle_laws M H" "NewManager_loop M nodes dbs x = (Inr m, x')" "distinct (map node_Name nodes)"
    and "\<forall>n \<in> set nodes. fmlookup dbs (node_Name n) = None" "H x = H0 \<union> db_env ` ran (fmlookup dbs)"
    and "H0 \<inter> db_env ` ran (fmlookup dbs) = {}"
  shows "H x' = H0 \<union> db_env ` ran (fmlookup m) \<and> H0 \<inter> db_env ` ran (fmlookup m) = {}"
  using assms(2-6)
proof (induction nodes arbitrary: dbs x)
  case (Cons node nodes)
  obtain r x1 where r: "NewDb M node x = (r, x1)" by (cases "NewDb M node x")
  with Cons.prems(1) obtain db where db: "NewDb M node x = (Inr db, x1)"
    and rest: "NewManager_loop M nodes (fmupd (node_Name node) db dbs) x1 = (Inr m, x')"
    by (cases r) auto
  have o: "db_env db \<notin> H x" "H x1 = insert (db_env db) (H x)" using NewDb_opens [OF assms(1) db] by auto
  have ran: "ran (fmlookup (fmupd (node_Name node) db dbs)) = insert db (ran (fmlookup dbs))"
    using Cons.prems(3) by (intro ran_fmupd) simp
  show ?case
  proof (rule Cons.IH [OF rest])
    show "distinct (map node_Name nodes)" using Cons.prems(2) by simp
    show "\<forall>n \<in> set nodes. fmlookup (fmupd (node_Name node) db dbs) (node_Name n) = None" using Cons.prems(2,3) by force
    show "H x1 = H0 \<union> db_env ` ran (fmlookup (fmupd (node_Name node) db dbs))" unfolding ran using Cons.prems(4) o by simp
    show "H0 \<inter> db_env ` ran (fmlookup (fmupd (node_Name node) db dbs)) = {}" unfolding ran using Cons.prems(4,5) o by auto
  qed
qed simp

section \<open>Properties\<close>


text \<open>
  A manager over databases with different names gives every handle back: after \<open>Close\<close>, in whatever order it ranges over
  the databases, exactly the handles are open that were open before \<open>NewManager\<close>, and it returns no error.
\<close>

theorem manager_close_releases:
  assumes "handle_laws M H" "Storage_NewManager M enabled nodes x = (Inr m, x1)" "distinct (map node_Name nodes)"
    and "ranges order m" "H x2 = H x1" "Manager_Close M order m x2 = (r, x')"
  shows "r = None \<and> H x' = H x"
proof -
  have "H x1 = H x \<union> db_env ` ran (fmlookup m) \<and> H x \<inter> db_env ` ran (fmlookup m) = {}"
  proof (cases enabled)
    case True
    then have "NewManager_loop M nodes fmempty x = (Inr m, x1)" using assms(2) by (simp add: Storage_NewManager_def)
    from NewManager_loop_opens [OF assms(1) this assms(3), of "H x"] show ?thesis by simp
  next
    case False
    then show ?thesis using assms(2) by (auto simp: Storage_NewManager_def)
  qed
  moreover have "ran (fmlookup m) = set (range_values order m)"
    by (rule ran_range_values [OF assms(4)])
  ultimately show ?thesis using close_all_gives_back [OF assms(1)] assms(5,6) unfolding Manager_Close_def by fastforce
qed

lemma sint_of_int: "- (2 ^ 63) \<le> k \<Longrightarrow> k < 2 ^ 63 \<Longrightarrow> sint (of_int k :: 64 word) = k"
  by (simp add: signed_of_int signed_take_bit_int_eq_self)

lemma sint_times:
  assumes "0 \<le> sint w" "sint w < 2 ^ 63 div c" "0 < c"
  shows "sint (w * of_int c :: 64 word) = sint w * c"
proof -
  have "sint w * c < 2 ^ 63 div c * c" using assms by (intro mult_strict_right_mono) auto
  also have "\<dots> \<le> 2 ^ 63" using div_mult_mod_eq [of "2 ^ 63 :: int" c] pos_mod_sign [OF assms(3), of "2 ^ 63"] by linarith
  finally have "sint (of_int (sint w * c) :: 64 word) = sint w * c"
    using assms by (intro sint_of_int) (auto intro: order_trans [of _ 0])
  moreover have "of_int (sint w * c) = w * (of_int c :: 64 word)" by simp
  ultimately show ?thesis by simp
qed

text \<open>
  The configured sizes.  Within the range of 64 bits the limits passed to MDBX are the configured gigabytes and
  megabytes; beyond it the product wraps, and a maximum of two to the thirty-fourth gigabytes becomes zero, which \<open>NewDb\<close> refuses for
  every positive minimum in range.
\<close>

theorem configured_sizes:
  "(0 \<le> sint (node_MaxSize opts) \<and> sint (node_MaxSize opts) < 2 ^ 33 \<longrightarrow> sint (max_bytes opts) = sint (node_MaxSize opts) * 2 ^ 30) \<and>
   (0 \<le> sint (node_MinSize opts) \<and> sint (node_MinSize opts) < 2 ^ 43 \<longrightarrow> sint (min_bytes opts) = sint (node_MinSize opts) * 2 ^ 20) \<and>
   (node_MaxSize opts = 2 ^ 34 \<and> 0 < sint (node_MinSize opts) \<and> sint (node_MinSize opts) < 2 ^ 43 \<longrightarrow>
      (\<exists>err x'. NewDb M opts x = (Inl err, x')))"
proof -
  have max: "max_bytes opts = node_MaxSize opts * of_int (2 ^ 30)" by (simp add: max_bytes_def)
  have min: "min_bytes opts = node_MinSize opts * of_int (2 ^ 20)" by (simp add: min_bytes_def)
  have 1: "sint (max_bytes opts) = sint (node_MaxSize opts) * 2 ^ 30"
    if "0 \<le> sint (node_MaxSize opts)" "sint (node_MaxSize opts) < 2 ^ 33"
    using sint_times [of "node_MaxSize opts" "2 ^ 30"] that unfolding max by simp
  have 2: "sint (min_bytes opts) = sint (node_MinSize opts) * 2 ^ 20"
    if "0 \<le> sint (node_MinSize opts)" "sint (node_MinSize opts) < 2 ^ 43"
    using sint_times [of "node_MinSize opts" "2 ^ 20"] that unfolding min by simp
  have 3: "\<exists>err x'. NewDb M opts x = (Inl err, x')"
    if h: "node_MaxSize opts = 2 ^ 34" "0 < sint (node_MinSize opts)" "sint (node_MinSize opts) < 2 ^ 43"
  proof -
    have "sint (max_bytes opts) = 0" unfolding max h(1) by simp
    then have "sint (min_bytes opts) > sint (max_bytes opts)" using 2 h by simp
    then show ?thesis by (simp add: NewDb_def split: prod.splits sum.splits)
  qed
  from 1 2 3 show ?thesis by blast
qed

section \<open>An instance\<close>

text \<open>Handles are numbers and the environment lists the open ones; \<open>refuse\<close> is what opening a file returns.\<close>

definition numbered_envs :: "go_error option \<Rightarrow> (nat, nat list) mdbx_envs" where
  "numbered_envs refuse = \<lparr>NewEnv = (\<lambda>hs. (Inr (Suc (sum_list hs)), Suc (sum_list hs) # hs)), env_SetGeometry = (\<lambda>env a b c hs. (None, hs)),
     env_SetMaxReaders = (\<lambda>env n hs. (None, hs)), env_Open = (\<lambda>env p q hs. (refuse, hs)), env_OpenRoot = (\<lambda>env hs. (None, hs)),
     env_Close = (\<lambda>env hs. filter (\<lambda>h. h \<noteq> env) hs), os_RemoveAll = (\<lambda>p hs. (None, hs))\<rparr>"

lemma numbered_laws: "handle_laws (numbered_envs refuse) set"
proof -
  have "Suc (sum_list hs) \<notin> set hs" for hs :: "nat list" using member_le_sum_list [of _ hs] by fastforce
  then show ?thesis by (auto simp: handle_laws_def numbered_envs_def)
qed

definition sample_node :: "string \<Rightarrow> mdbx_node" where
  "sample_node name = \<lparr>node_Name = name, node_Path = name, node_MaxReaders = 126, node_MaxSize = 1024, node_MinSize = 1,
     node_GrowthStep = 10485760, node_FilePermissions = 384\<rparr>"

lemma sample_sizes: "sint (max_bytes (sample_node name)) = 2 ^ 40" "sint (min_bytes (sample_node name)) = 2 ^ 20"
  by (simp_all add: max_bytes_def min_bytes_def sample_node_def)


theorem manager_close_releases_witness:
  "\<exists>m x. Storage_NewManager (numbered_envs None) True [sample_node ''chain'', sample_node ''consensus''] [] = (Inr m, x) \<and>
    set (snd (Manager_Close (numbered_envs None) [''chain'', ''consensus''] m x)) = {}"
proof -
  let ?M = "numbered_envs None"
  let ?m = "fmupd ''consensus'' \<lparr>db_opts = sample_node ''consensus'', db_env = 2\<rparr>
    (fmupd ''chain'' \<lparr>db_opts = sample_node ''chain'', db_env = 1\<rparr> fmempty)"
  have "NewDb ?M (sample_node n) hs = (Inr \<lparr>db_opts = sample_node n, db_env = Suc (sum_list hs)\<rparr>, Suc (sum_list hs) # hs)" for n hs
    by (simp add: NewDb_def numbered_envs_def sample_sizes)
  then have new: "Storage_NewManager ?M True [sample_node ''chain'', sample_node ''consensus''] [] = (Inr ?m, [2, 1])"
    by (simp add: Storage_NewManager_def) (simp add: sample_node_def numeral_2_eq_2)
  have order: "ranges [''chain'', ''consensus''] ?m" by (auto simp: ranges_def)
  have names: "distinct (map node_Name [sample_node ''chain'', sample_node ''consensus''])" by (simp add: sample_node_def)
  obtain r x' where close: "Manager_Close ?M [''chain'', ''consensus''] ?m [2, 1] = (r, x')" by (metis surj_pair)
  have "set x' = set []" using manager_close_releases [OF numbered_laws new names order refl close] by blast
  then have "set (snd (Manager_Close ?M [''chain'', ''consensus''] ?m [2, 1])) = {}" by (simp only: close snd_conv) simp
  with new show ?thesis by (intro exI [of _ ?m] exI [of _ "[2, 1]"]) simp
qed

theorem configured_sizes_witness:
  "sint (max_bytes (sample_node ''chain'')) = 1024 * 2 ^ 30 \<and>
   (\<exists>err x'. NewDb (numbered_envs None) ((sample_node ''chain'')\<lparr>node_MaxSize := 2 ^ 34\<rparr>) [] = (Inl err, x'))"
  using configured_sizes [of "sample_node ''chain''"]
    conjunct2 [OF conjunct2 [OF configured_sizes [of "(sample_node ''chain'')\<lparr>node_MaxSize := 2 ^ 34\<rparr>" "numbered_envs None" "[]"]]]
  by (auto simp: sample_node_def)

end
