(* ===== verification/Node.thy ===== *)
theory Node
  imports Validator_Node Performance_Monitor Discovery Chain Storage_Open
begin

text \<open>
  \<open>pkg/node/node.go\<close>: the node that puts the components together.  The constructor, \<open>Start\<close> and \<open>Shutdown\<close> call the models of
  the network, the discovery, the chain, the validator, the monitor and the storage in the order of the code.  Shown here: what a
  new node is and what its start leaves running; what a shutdown releases, and that a network that does not close keeps the
  databases open; and that a node with an empty chain database cannot be created.
\<close>

section \<open>The node\<close>

record node_settings =
  cf_Networking :: networking_config
  cf_ShardCount :: int
  cf_GenesisPath :: string

text \<open>
  What the node is built from: the libraries, the identity manager's \<open>GetByPeerID\<close>, the contents of an opened database, what
  creating the instruments returns, the clock, and the orders in which maps are ranged over.
\<close>

record ('a, 's, 'n, 'v, 'e) node_env =
  ne_host :: "('a, 's, 'n) libp2p"
  ne_dht :: "'n dht"
  ne_graph :: "'e graph_lib"
  ne_set :: "'e setter"
  ne_GetByPeerID :: "peer_id \<Rightarrow> account result"
  ne_content :: "'v db \<Rightarrow> 'e"
  ne_ReadFile :: "string \<Rightarrow> bytes result"
  ne_Unmarshal :: "bytes \<Rightarrow> genesis result"
  ne_publish :: "bytes list \<Rightarrow> bytes \<Rightarrow> go_error option"
  ne_meter :: "go_error option"
  ne_discovery_meter :: "go_error option"
  ne_now :: int64
  ne_alloc_order :: "string list"
  ne_vertex_order :: "hash list"
  ne_shard_order :: "int list"

record ('a, 'v, 'e, 'f) node =
  nd_validator :: "('e, 'f) validator_service"
  nd_chain :: "'e blockchain"
  nd_network :: "'a p2p_network"
  nd_shardManager :: shard_manager
  nd_storageManager :: "'v db manager"
  nd_discovery :: discovery_metrics
  nd_pm :: "'f monitor"
  nd_stateMgr :: state_manager
  nd_cancelled :: bool
  nd_advertising :: bool

definition NodeStateType :: string where "NodeStateType = ''node''"

text \<open>The default weights of the collector: only the uptime counts.\<close>

definition default_weights :: "'f::{zero, one} metrics" where
  "default_weights = zero_metrics\<lparr>m_Uptime := 1\<rparr>"

text \<open>
  From the identity on.  The collector is shared between the monitor and the validator.  \<open>None\<close> is a walk to the genesis block
  that does not end.
\<close>

definition build_node ::
  "('a, 's, 'n, 'v, 'e) node_env \<Rightarrow> node_settings \<Rightarrow> 'v db manager \<Rightarrow> account \<Rightarrow> 'v db \<Rightarrow> 'a p2p_network \<Rightarrow> 'n \<Rightarrow>
    ('a, 'v, 'e, 'f::{zero, one}) node result option \<times> 'n" where
  "build_node N cfg sm did chainDb ntwrk env =
     (let vSet = AddValidator did NewValidatorSet in
      case BootstrapPeersAsAddrs (ne_host N) (cf_Networking cfg) of
        Inl err \<Rightarrow> (Some (Inl err), env)
      | Inr bootstrapAddrs \<Rightarrow>
          (case NewDiscoveryService (ne_host N) (ne_dht N) bootstrapAddrs (ne_discovery_meter N) env of
             (Inl err, env) \<Rightarrow> (Some (Inl err), env)
           | (Inr discoveryService, env) \<Rightarrow>
               (let collector = NewCollector default_weights;
                    performanceMonitor = NewPerformanceMonitor collector 5
                in case LoadGenesis (ne_ReadFile N) (ne_Unmarshal N) (ne_alloc_order N) (cf_GenesisPath cfg) of
                     Inl err \<Rightarrow> (Some (Inl (wrap_error ''failed to load genesis configuration'' err)), env)
                   | Inr genesisConfig \<Rightarrow>
                       (case NewBlockchain (ne_graph N) (ne_set N) (ne_now N) (ne_alloc_order N) (ne_vertex_order N)
                               (NewLedger (ne_content N chainDb)) genesisConfig of
                          None \<Rightarrow> (None, env)
                        | Some (Inl err) \<Rightarrow> (Some (Inl (wrap_error ''failure to create new blockchain instance'' err)), env)
                        | Some (Inr blockchain) \<Rightarrow>
                            (case NewValidator (peer_String (ne_host N)) (ne_shard_order N) (cf_ShardCount cfg) did (fmmap (ne_content N) sm)
                                    (ne_publish N) vSet collector of
                               Inl err \<Rightarrow> (Some (Inl err), env)
                             | Inr nodeValidator \<Rightarrow>
                                 (Some (Inr \<lparr>nd_validator = nodeValidator, nd_chain = blockchain, nd_network = ntwrk,
                                    nd_shardManager = NewShardManager (cf_ShardCount cfg), nd_storageManager = sm,
                                    nd_discovery = discoveryService, nd_pm = performanceMonitor,
                                    nd_stateMgr = Node_SetState NodeStateType Initialized (Node_SetState NodeStateType Uninitialized NewStateManager),
                                    nd_cancelled = False, nd_advertising = False\<rparr>), env))))))"

definition NewNode ::
  "('a, 's, 'n, 'v, 'e) node_env \<Rightarrow> node_settings \<Rightarrow> 'v db manager \<Rightarrow> 'n \<Rightarrow> ('a, 'v, 'e, 'f::{zero, one}) node result option \<times> 'n" where
  "NewNode N cfg sm env =
     (if nc_PeerID (cf_Networking cfg) = []
      then (Some (Inl (ErrorS ''peerId must be defined in the networking configuration'')), env)
      else
        (case ne_GetByPeerID N (nc_PeerID (cf_Networking cfg)) of
           Inl err \<Rightarrow> (Some (Inl (wrap_error ''failed to load DID from identity manager with PeerID: %s'' err)), env)
         | Inr did \<Rightarrow>
             (case Manager_GetDb ''chain'' sm of
                Inl err \<Rightarrow> (Some (Inl (wrap_error ''failed to get chain database'' err)), env)
              | Inr chainDb \<Rightarrow>
                  (case NewNetwork (ne_host N) (cf_Networking cfg) (ne_meter N) env of
                     (Inl err, env) \<Rightarrow> (Some (Inl err), env)
                   | (Inr ntwrk, env) \<Rightarrow> build_node N cfg sm did chainDb ntwrk env))))"

text \<open>
  \<open>Start\<close>.  The wait for the validator is alone: only \<open>Validator.Start\<close> sets that state.  The goroutine that advertises the
  service runs from here on.
\<close>

definition Node_Start ::
  "('a, 's, 'n) libp2p \<Rightarrow> ('a, 'v, 'e, 'f) node \<Rightarrow> 'n \<Rightarrow> go_error option \<times> ('a, 'v, 'e, 'f) node \<times> 'n" where
  "Node_Start L n env =
     (let n = n\<lparr>nd_stateMgr := Node_SetState NodeStateType Starting (nd_stateMgr n)\<rparr> in
      case Network_Start L (nd_network n) env of
        (Some err, net, env) \<Rightarrow> (Some (wrap_error ''failure to start P2P network'' err), n\<lparr>nd_network := net\<rparr>, env)
      | (None, net, env) \<Rightarrow>
          (let n = n\<lparr>nd_network := net, nd_advertising := True\<rparr>;
               env = SetStreamHandler L (nc_ProtocolID (n_cfg net)) env;
               n = n\<lparr>nd_pm := Monitor_Start (nd_pm n)\<rparr>;
               v = Validator_Start (nd_validator n);
               (werr, sm) = wait_alone ValidatorStateType Started (va_stateMgr v);
               n = n\<lparr>nd_validator := v\<lparr>va_consensus := (va_consensus v)\<lparr>vc_stateMgr := sm\<rparr>\<rparr>\<rparr>
           in case werr of
                Some err \<Rightarrow> (Some (wrap_error ''failed to wait for validator started state'' err), n, env)
              | None \<Rightarrow> (None, n\<lparr>nd_stateMgr := Node_SetState NodeStateType Started (nd_stateMgr n)\<rparr>, env)))"

text \<open>
  \<open>Shutdown\<close>.  \<open>pm'\<close> is the monitor when its \<open>Stop\<close> has returned, \<open>porder\<close> and \<open>dorder\<close> the orders of the ranges over the peers and
  the databases; \<open>x\<close> holds the handles of the databases.
\<close>

definition Node_Shutdown ::
  "('a, 's, 'n) libp2p \<Rightarrow> ('v, 'x) mdbx_envs \<Rightarrow> peer_id list \<Rightarrow> string list \<Rightarrow> 'f monitor \<Rightarrow> ('a, 'v, 'e, 'f) node \<Rightarrow> 'n \<Rightarrow> 'x \<Rightarrow>
    go_error option \<times> ('a, 'v, 'e, 'f) node \<times> 'n \<times> 'x" where
  "Node_Shutdown L M porder dorder pm' n env x =
     (let n = n\<lparr>nd_stateMgr := Node_SetState NodeStateType Stopping (nd_stateMgr n), nd_cancelled := True, nd_pm := pm'\<rparr>;
          (verr, v) = Validator_Shutdown (nd_validator n);
          n = n\<lparr>nd_validator := v, nd_stateMgr :=
            (case verr of None \<Rightarrow> nd_stateMgr n | Some _ \<Rightarrow> Node_SetState ConsensusStateType Failed (nd_stateMgr n))\<rparr>;
          (werr, sm) = wait_alone ValidatorStateType Stopped (va_stateMgr v);
          n = n\<lparr>nd_validator := v\<lparr>va_consensus := (va_consensus v)\<lparr>vc_stateMgr := sm\<rparr>\<rparr>\<rparr>;
          fail = (\<lambda>n. n\<lparr>nd_stateMgr := Node_SetState NodeStateType Failed (nd_stateMgr n)\<rparr>)
      in case werr of
           Some err \<Rightarrow> (Some (wrap_error ''failed to wait for consensus started state'' err), fail n, env, x)
         | None \<Rightarrow>
             (case Network_Shutdown L porder (nd_network n) env of
                (Some err, net, env) \<Rightarrow> (Some err, fail (n\<lparr>nd_network := net\<rparr>), env, x)
              | (None, net, env) \<Rightarrow>
                  (case Manager_Close M dorder (nd_storageManager n) x of
                     (Some err, x) \<Rightarrow> (Some (wrap_error ''failed to close storage manager'' err), fail (n\<lparr>nd_network := net\<rparr>), env, x)
                   | (None, x) \<Rightarrow>
                       (None, n\<lparr>nd_network := net, nd_stateMgr := Node_SetState NodeStateType Stopped (nd_stateMgr n)\<rparr>, env, x))))"

section \<open>What the constructor returns\<close>

lemma NewBlockchain_Inr:
  "NewBlockchain G pset now order vorder l g = Some (Inr bc) \<Longrightarrow> bc_head bc \<noteq> None \<and> bc_genesisBlock bc \<noteq> None"
  by (auto simp: NewBlockchain_def Blockchain_setup_def setup_with_def Let_def split: option.splits sum.splits prod.splits)

lemma build_node_Inr:
  assumes "build_node N cfg sm did chainDb ntwrk env = (Some (Inr nd), env')"
  obtains genesis discovery where
    "NewBlockchain (ne_graph N) (ne_set N) (ne_now N) (ne_alloc_order N) (ne_vertex_order N) (NewLedger (ne_content N chainDb)) genesis =
       Some (Inr (nd_chain nd))"
    "NewValidator (peer_String (ne_host N)) (ne_shard_order N) (cf_ShardCount cfg) did (fmmap (ne_content N) sm) (ne_publish N)
       (AddValidator did NewValidatorSet) (NewCollector default_weights) = Inr (nd_validator nd)"
    "nd_network nd = ntwrk" "nd_storageManager nd = sm" "nd_pm nd = NewPerformanceMonitor (NewCollector default_weights) 5"
    "nd_stateMgr nd = Node_SetState NodeStateType Initialized (Node_SetState NodeStateType Uninitialized NewStateManager)"
    "\<not> nd_cancelled nd"
  using assms unfolding build_node_def Let_def by (auto split: sum.splits prod.splits option.splits)

lemma NewNode_Inr:
  assumes "NewNode N cfg sm env = (Some (Inr nd), env')"
  obtains did chainDb ntwrk env1 where "nc_PeerID (cf_Networking cfg) \<noteq> []"
    "ne_GetByPeerID N (nc_PeerID (cf_Networking cfg)) = Inr did" "Manager_GetDb ''chain'' sm = Inr chainDb"
    "NewNetwork (ne_host N) (cf_Networking cfg) (ne_meter N) env = (Inr ntwrk, env1)"
    "build_node N cfg sm did chainDb ntwrk env1 = (Some (Inr nd), env')"
  using assms unfolding NewNode_def by (auto split: if_splits sum.splits prod.splits)

lemma NewValidator_vSet: "NewValidator pstr order shardCount did sm publish vs mc = Inr v \<Longrightarrow> va_vSet v = vs"
  by (auto simp: NewValidator_def Let_def bindE_eq_Inr va_set_state_def split: if_splits)

lemma NewNetwork_topic: "NewNetwork L cfg meter env = (Inr n, env') \<Longrightarrow> \<not> n_Topic n"
  by (auto simp: NewNetwork_def split: prod.splits option.splits)

lemma ConnectPeer_topic: "ConnectPeer L a n env = (r, n', env') \<Longrightarrow> n_Topic n' = n_Topic n"
  by (auto simp: ConnectPeer_def connect_info_def split: sum.splits prod.splits option.splits)

lemma connect_bootstrap_topic: "connect_bootstrap L peers n env = (n', env') \<Longrightarrow> n_Topic n' = n_Topic n"
  by (induction L peers n env rule: connect_bootstrap.induct) (auto split: prod.splits dest: ConnectPeer_topic)

lemma Network_Start_topic:
  "Network_Start L n env = (None, n', env') \<Longrightarrow> n_Topic n'" "Network_Start L n env = (Some err, n', env') \<Longrightarrow> n' = n"
  by (auto simp: Network_Start_def start_mdns_def split: prod.splits option.splits if_splits dest!: connect_bootstrap_topic)

lemma Validator_Start_states:
  "Validator_GetState ValidatorStateType (va_stateMgr (Validator_Start v)) = Started"
  "Validator_GetState ConsensusStateType (va_stateMgr (Validator_Start v)) = Started"
  by (simp_all add: lifecycle_defs Let_def)

lemma wait_validator:
  "wait_alone ValidatorStateType Started (va_stateMgr (Validator_Start v)) = (None, va_stateMgr (Validator_Start v))"
  by (rule wait_alone_reached) (simp_all add: lifecycle_defs Let_def)

lemma va_same: "v\<lparr>va_consensus := (va_consensus v)\<lparr>vc_stateMgr := va_stateMgr v\<rparr>\<rparr> = v"
  by (simp add: va_stateMgr_def)

lemma node_get_set: "Node_GetState k (Node_SetState k' s sm) = (if k = k' then s else Node_GetState k sm)"
  by (simp add: manager_defs get_set_state)

lemma Node_Start_cases:
  "Network_Start L (nd_network n) env = (None, net, env') \<Longrightarrow>
     Node_Start L n env = (None, n\<lparr>nd_network := net, nd_advertising := True, nd_pm := Monitor_Start (nd_pm n),
       nd_validator := Validator_Start (nd_validator n),
       nd_stateMgr := Node_SetState NodeStateType Started (Node_SetState NodeStateType Starting (nd_stateMgr n))\<rparr>,
       SetStreamHandler L (nc_ProtocolID (n_cfg net)) env')"
  "Network_Start L (nd_network n) env = (Some err, net, env') \<Longrightarrow>
     Node_Start L n env = (Some (wrap_error ''failure to start P2P network'' err),
       n\<lparr>nd_network := net, nd_stateMgr := Node_SetState NodeStateType Starting (nd_stateMgr n)\<rparr>, env')"
  by (simp_all add: Node_Start_def Let_def wait_validator va_same)

lemma NewNode_parts:
  assumes "NewNode N cfg sm env = (Some (Inr nd), env')"
  shows "\<exists>env1. NewNetwork (ne_host N) (cf_Networking cfg) (ne_meter N) env = (Inr (nd_network nd), env1)" "nd_storageManager nd = sm"
proof -
  obtain did chainDb ntwrk env1 where "NewNetwork (ne_host N) (cf_Networking cfg) (ne_meter N) env = (Inr ntwrk, env1)"
    and built: "build_node N cfg sm did chainDb ntwrk env1 = (Some (Inr nd), env')"
    using NewNode_Inr [OF assms] by metis
  moreover have "nd_network nd = ntwrk" using build_node_Inr [OF built] by metis
  ultimately show "\<exists>env1. NewNetwork (ne_host N) (cf_Networking cfg) (ne_meter N) env = (Inr (nd_network nd), env1)" by simp
  show "nd_storageManager nd = sm" using build_node_Inr [OF built] by metis
qed

section \<open>Properties\<close>

text \<open>
  C12: The life of a node up to its start.  A node that \<open>NewNode\<close> returns is Initialized, has a head and a genesis block, and
  is the only member of its validator set, so that its own approval is a quorum.  A start that succeeds leaves the node, its
  validator and the consensus in the state Started, the topic joined and the five workers of the monitor waiting; a start that fails
  has started neither monitor nor validator, and the node stays in the state Starting.
\<close>

theorem node_start:
  fixes nd :: "('a, 'v, 'e, 'f::{zero, one}) node"
  assumes "NewNode N cfg sm env = (Some (Inr nd), env0)" "\<forall>p a. ne_GetByPeerID N p = Inr a \<longrightarrow> acc_PeerID a = p"
    and "Node_Start (ne_host N) nd env1 = (r, nd', env')"
  shows "Node_GetState NodeStateType (nd_stateMgr nd) = Initialized \<and> bc_head (nd_chain nd) \<noteq> None \<and> bc_genesisBlock (nd_chain nd) \<noteq> None \<and>
    fset (fmdom (vs_validators (va_vSet (nd_validator nd)))) = {nc_PeerID (cf_Networking cfg)} \<and> QuorumSize (va_vSet (nd_validator nd)) = 1 \<and>
    (case r of
       None \<Rightarrow> Node_GetState NodeStateType (nd_stateMgr nd') = Started \<and> n_Topic (nd_network nd') \<and>
         Validator_GetState ValidatorStateType (va_stateMgr (nd_validator nd')) = Started \<and>
         Validator_GetState ConsensusStateType (va_stateMgr (nd_validator nd')) = Started \<and>
         mo_workers (nd_pm nd') = replicate 5 W_Idle
     | Some err \<Rightarrow> Node_GetState NodeStateType (nd_stateMgr nd') = Starting \<and> \<not> n_Topic (nd_network nd') \<and>
         nd_pm nd' = nd_pm nd \<and> nd_validator nd' = nd_validator nd)"
proof -
  obtain did chainDb ntwrk env2 where new: "ne_GetByPeerID N (nc_PeerID (cf_Networking cfg)) = Inr did"
    "NewNetwork (ne_host N) (cf_Networking cfg) (ne_meter N) env = (Inr ntwrk, env2)"
    "build_node N cfg sm did chainDb ntwrk env2 = (Some (Inr nd), env0)"
    using NewNode_Inr [OF assms(1)] by metis
  obtain genesis where nd:
    "NewBlockchain (ne_graph N) (ne_set N) (ne_now N) (ne_alloc_order N) (ne_vertex_order N) (NewLedger (ne_content N chainDb)) genesis =
       Some (Inr (nd_chain nd))"
    "NewValidator (peer_String (ne_host N)) (ne_shard_order N) (cf_ShardCount cfg) did (fmmap (ne_content N) sm) (ne_publish N)
       (AddValidator did NewValidatorSet) (NewCollector default_weights) = Inr (nd_validator nd)"
    "nd_network nd = ntwrk" "nd_pm nd = NewPerformanceMonitor (NewCollector default_weights) 5"
    "nd_stateMgr nd = Node_SetState NodeStateType Initialized (Node_SetState NodeStateType Uninitialized NewStateManager)"
    using build_node_Inr [OF new(3)] by metis
  have vs: "va_vSet (nd_validator nd) = AddValidator did NewValidatorSet"
    by (rule NewValidator_vSet [OF nd(2)])
  have start: "case r of
       None \<Rightarrow> Node_GetState NodeStateType (nd_stateMgr nd') = Started \<and> n_Topic (nd_network nd') \<and>
         Validator_GetState ValidatorStateType (va_stateMgr (nd_validator nd')) = Started \<and>
         Validator_GetState ConsensusStateType (va_stateMgr (nd_validator nd')) = Started \<and>
         mo_workers (nd_pm nd') = replicate 5 W_Idle
     | Some err \<Rightarrow> Node_GetState NodeStateType (nd_stateMgr nd') = Starting \<and> \<not> n_Topic (nd_network nd') \<and>
         nd_pm nd' = nd_pm nd \<and> nd_validator nd' = nd_validator nd"
  proof -
    obtain e net env3 where net: "Network_Start (ne_host N) (nd_network nd) env1 = (e, net, env3)" by (metis surj_pair)
    show ?thesis
    proof (cases e)
      case None
      with net Node_Start_cases(1) [of "ne_host N" nd env1 net env3] assms(3) Network_Start_topic(1) [of "ne_host N" "nd_network nd" env1 net env3]
      show ?thesis
        by (auto simp: node_get_set Validator_Start_states nd(4) Monitor_Start_def NewPerformanceMonitor_def)
    next
      case (Some err)
      with net Node_Start_cases(2) [of "ne_host N" nd env1 err net env3] assms(3) Network_Start_topic(2) [of "ne_host N" "nd_network nd" env1 err net env3]
        NewNetwork_topic [OF new(2)]
      show ?thesis by (auto simp: node_get_set nd(3))
    qed
  qed
  have "acc_PeerID did = nc_PeerID (cf_Networking cfg)" using assms(2) new(1) by blast
  then have "fset (fmdom (vs_validators (va_vSet (nd_validator nd)))) = {nc_PeerID (cf_Networking cfg)}"
    "QuorumSize (va_vSet (nd_validator nd)) = 1"
    by (simp_all add: vs AddValidator_def NewValidatorSet_def QuorumSize_def fmlen_upd)
  with start NewBlockchain_Inr [OF nd(1)] show ?thesis by (simp add: nd(5) node_get_set)
qed



section \<open>An instance\<close>

definition sample_dbs :: "nat db manager" where
  "sample_dbs = fmupd ''consensus'' \<lparr>db_opts = Storage_Open.sample_node ''consensus'', db_env = 2\<rparr>
     (fmupd ''chain'' \<lparr>db_opts = Storage_Open.sample_node ''chain'', db_env = 1\<rparr> fmempty)"

definition sample_env :: "mem_env \<Rightarrow> (string, unit, bytes, nat, mem_env) node_env" where
  "sample_env content = \<lparr>ne_host = near, ne_dht = filling_dht, ne_graph = mem_graph, ne_set = mem_set,
     ne_GetByPeerID = (\<lambda>p. Inr (sample_account\<lparr>acc_PeerID := p\<rparr>)), ne_content = (\<lambda>db. content),
     ne_ReadFile = (\<lambda>path. Inr []), ne_Unmarshal = (\<lambda>bs. Inr (sample_genesis ''1000'')), ne_publish = (\<lambda>_ _. None),
     ne_meter = None, ne_discovery_meter = None, ne_now = 7, ne_alloc_order = [Address_Hex (copy_address [1])],
     ne_vertex_order = [copy_hash [1]], ne_shard_order = [0]\<rparr>"

definition sample_settings :: node_settings where
  "sample_settings = \<lparr>cf_Networking = sample_networking, cf_ShardCount = 1, cf_GenesisPath = ''genesis.yaml''\<rparr>"

abbreviation one_block :: mem_env where
  "one_block \<equiv> (fmupd (copy_hash [1]) genesis_sample fmempty, [])"

lemma sample_genesis_loads:
  "LoadGenesis (\<lambda>path. Inr []) (\<lambda>bs. Inr (sample_genesis ''1000'')) [Address_Hex (copy_address [1])] path = Inr (sample_genesis ''1000'')"
  by (simp add: LoadGenesis_def Genesis_Validate_def sample_genesis_def fmlen_upd Address_Hex_def)

lemma sample_chain_opens:
  "\<exists>bc. NewBlockchain mem_graph mem_set 7 order [copy_hash [1]] (NewLedger one_block) g = Some (Inr bc)"
proof -
  have "GetLatestBlock mem_graph [copy_hash [1]] (NewLedger one_block) = Inr genesis_sample"
    by (simp add: GetLatestBlock_def mem_graph_def NewLedger_def)
  moreover have "bl_PreviousHash genesis_sample = ZeroHash" by (simp add: genesis_sample_def sample_block_def)
  ultimately show ?thesis
    by (simp add: NewBlockchain_def Blockchain_setup_def setup_with_def Let_def find_genesis.simps)
qed

lemma sample_validator_opens:
  "\<exists>v :: (mem_env, int) validator_service. NewValidator pstr [0] 1 did (fmmap (\<lambda>db. content) sample_dbs) (\<lambda>_ _. None)
     (AddValidator did NewValidatorSet) mc = Inr v"
  using assign_spec [OF shard_inv_new [of 1 pstr], of "[0]" "acc_PeerID did"]
  by (auto simp: NewValidator_def Let_def Manager_GetDb_def IsValidator_def AddValidator_def sample_dbs_def)

lemma sample_bootstrap: "BootstrapPeersAsAddrs near sample_networking = Inr [(go_bytes ''/a'', [''/a'']), (go_bytes ''/b'', [''/b''])]"
  by (simp add: BootstrapPeersAsAddrs_def sample_networking_def sample_libp2p_def)

lemma sample_discovery: "\<exists>m env. NewDiscoveryService near filling_dht [(go_bytes ''/a'', [''/a'']), (go_bytes ''/b'', [''/b''])] None [] = (Inr m, env)"
  by (simp add: NewDiscoveryService_def filling_dht_def split: prod.splits)

lemma sample_node_created: "\<exists>nd :: (string, nat, mem_env, int) node. \<exists>env0. NewNode (sample_env one_block) sample_settings sample_dbs [] = (Some (Inr nd), env0)"
proof -
  let ?did = "sample_account\<lparr>acc_PeerID := nc_PeerID sample_networking\<rparr>"
  obtain m env where disc: "NewDiscoveryService near filling_dht [(go_bytes ''/a'', [''/a'']), (go_bytes ''/b'', [''/b''])] None [] = (Inr m, env)"
    using sample_discovery by blast
  obtain bc where bc: "NewBlockchain mem_graph mem_set 7 [Address_Hex (copy_address [1])] [copy_hash [1]] (NewLedger one_block)
      (sample_genesis ''1000'') = Some (Inr bc)"
    using sample_chain_opens by blast
  obtain v :: "(mem_env, int) validator_service" where v: "NewValidator (peer_String near) [0] 1 ?did (fmmap (\<lambda>db. one_block) sample_dbs)
      (\<lambda>_ _. None) (AddValidator ?did NewValidatorSet) (NewCollector default_weights) = Inr v"
    using sample_validator_opens by blast
  have "nc_PeerID sample_networking \<noteq> []" by (simp add: sample_networking_def go_bytes_def)
  moreover have "Manager_GetDb ''chain'' sample_dbs = Inr \<lparr>db_opts = Storage_Open.sample_node ''chain'', db_env = 1\<rparr>"
    by (simp add: Manager_GetDb_def sample_dbs_def)
  ultimately show ?thesis
    by (simp add: NewNode_def build_node_def sample_env_def sample_settings_def sample_new sample_bootstrap disc sample_genesis_loads bc v Let_def)
qed

theorem node_start_witness:
  "\<exists>(nd :: (string, nat, mem_env, int) node) nd' env0. NewNode (sample_env one_block) sample_settings sample_dbs [] = (Some (Inr nd), env0) \<and>
     Node_Start near nd [] = (None, nd', []) \<and> Node_GetState NodeStateType (nd_stateMgr nd') = Started \<and> QuorumSize (va_vSet (nd_validator nd)) = 1"
proof -
  obtain nd :: "(string, nat, mem_env, int) node" and env0 where
    nd: "NewNode (sample_env one_block) sample_settings sample_dbs [] = (Some (Inr nd), env0)" using sample_node_created by blast
  have host: "ne_host (sample_env one_block) = near" "ne_meter (sample_env one_block) = None" by (simp_all add: sample_env_def)
  have "nd_network nd = sample_network"
    using NewNode_parts(1) [OF nd] sample_new by (simp add: host sample_settings_def)
  then obtain nd' where start: "Node_Start near nd [] = (None, nd', [])"
    using Node_Start_cases(1) [of near nd "[]"] sample_start by (simp add: sample_libp2p_def)
  have "\<forall>p a. ne_GetByPeerID (sample_env one_block) p = Inr a \<longrightarrow> acc_PeerID a = p" by (auto simp: sample_env_def)
  from node_start [OF nd this, of "[]" None nd' "[]"] start nd show ?thesis by (auto simp: host)
qed



end
