(* ===== verification/Dns_Resolver.thy ===== *)
theory Dns_Resolver
  imports Go_Stdlib
begin

text \<open>
  \<open>pkg/dns/resolvers\<close>: the resolver, which answers each question of a query with the handler registered for its type.  The
  messages are those of the library miekg/dns, of which \<open>SetReply\<close>, \<open>HandleFailed\<close> and \<open>WriteMsg\<close> are parameters.  Shown here: a query
  is answered either completely, with one record of the right type and name per question in the order of the
  questions, or with a failure and nothing else.
\<close>

section \<open>Messages\<close>

record dns_question =
  q_Name :: string
  q_Qtype :: uint16
  q_Qclass :: uint16

text \<open>The data of a record, by its type.\<close>

datatype rdata = RD_A bytes | RD_AAAA bytes | RD_CNAME string | RD_TXT "string list" | RD_MX string uint16

record dns_rr =
  rr_Name :: string
  rr_Rrtype :: uint16
  rr_Class :: uint16
  rr_Ttl :: uint32
  rr_data :: rdata

record dns_msg =
  dm_Id :: uint16
  dm_Response :: bool
  dm_Rcode :: int
  dm_Compress :: bool
  dm_Question :: "dns_question list"
  dm_Answer :: "dns_rr list"

definition empty_msg :: dns_msg where
  "empty_msg = \<lparr>dm_Id = 0, dm_Response = False, dm_Rcode = 0, dm_Compress = False, dm_Question = [], dm_Answer = []\<rparr>"

definition TypeA :: uint16 where "TypeA = 1"
definition TypeCNAME :: uint16 where "TypeCNAME = 5"
definition TypeMX :: uint16 where "TypeMX = 15"
definition TypeTXT :: uint16 where "TypeTXT = 16"
definition TypeAAAA :: uint16 where "TypeAAAA = 28"
definition ClassINET :: uint16 where "ClassINET = 1"

lemmas dns_types = TypeA_def TypeCNAME_def TypeMX_def TypeTXT_def TypeAAAA_def

text \<open>\<open>w\<close> is the connection the reply is written to.\<close>

record 'w dns_lib =
  SetReply :: "dns_msg \<Rightarrow> dns_msg \<Rightarrow> dns_msg"
  HandleFailed :: "dns_msg \<Rightarrow> 'w \<Rightarrow> 'w"
  WriteMsg :: "dns_msg \<Rightarrow> 'w \<Rightarrow> go_error option \<times> 'w"

section \<open>The handlers\<close>

text \<open>\<open>net.ParseIP\<close> on the two literals of the code: an IPv4 address is kept in its 16-byte form.\<close>

definition loopback_v4 :: "bytes option" where
  "loopback_v4 = Some (replicate 10 0 @ [255, 255, 127, 0, 0, 1])"

definition loopback_v6 :: "bytes option" where
  "loopback_v6 = Some (replicate 15 0 @ [1])"

definition reply_with :: "'w dns_lib \<Rightarrow> dns_msg \<Rightarrow> dns_question \<Rightarrow> uint16 \<Rightarrow> rdata \<Rightarrow> dns_msg" where
  "reply_with D req question rrtype data =
     (let response = SetReply D req empty_msg in
      response\<lparr>dm_Answer := dm_Answer response @
        [\<lparr>rr_Name = q_Name question, rr_Rrtype = rrtype, rr_Class = ClassINET, rr_Ttl = 3600, rr_data = data\<rparr>]\<rparr>)"

definition AHandler_HandleQuery :: "'w dns_lib \<Rightarrow> dns_msg \<Rightarrow> dns_question \<Rightarrow> dns_msg result" where
  "AHandler_HandleQuery D req question =
     (case loopback_v4 of
        None \<Rightarrow> Inl (ErrorS ''invalid IP address for %s'')
      | Some ip \<Rightarrow> Inr (reply_with D req question TypeA (RD_A ip)))"

definition AAAAHandler_HandleQuery :: "'w dns_lib \<Rightarrow> dns_msg \<Rightarrow> dns_question \<Rightarrow> dns_msg result" where
  "AAAAHandler_HandleQuery D req question =
     (case loopback_v6 of
        None \<Rightarrow> Inl (ErrorS ''invalid IPv6 address for %s'')
      | Some ip \<Rightarrow> Inr (reply_with D req question TypeAAAA (RD_AAAA ip)))"

definition CNAMEHandler_HandleQuery :: "'w dns_lib \<Rightarrow> dns_msg \<Rightarrow> dns_question \<Rightarrow> dns_msg result" where
  "CNAMEHandler_HandleQuery D req question = Inr (reply_with D req question TypeCNAME (RD_CNAME ''example.com.''))"

definition TXTHandler_HandleQuery :: "'w dns_lib \<Rightarrow> dns_msg \<Rightarrow> dns_question \<Rightarrow> dns_msg result" where
  "TXTHandler_HandleQuery D req question =
     Inr (reply_with D req question TypeTXT (RD_TXT [''v=spf1 include:example.com ~all'']))"

definition MXHandler_HandleQuery :: "'w dns_lib \<Rightarrow> dns_msg \<Rightarrow> dns_question \<Rightarrow> dns_msg result" where
  "MXHandler_HandleQuery D req question = Inr (reply_with D req question TypeMX (RD_MX ''mail.example.com.'' 10))"

section \<open>The resolver\<close>

type_synonym 'w dns_handler = "'w dns_lib \<Rightarrow> dns_msg \<Rightarrow> dns_question \<Rightarrow> dns_msg result"

definition NewResolver :: "(uint16, 'w dns_handler) fmap" where
  "NewResolver = fmupd TypeMX MXHandler_HandleQuery (fmupd TypeTXT TXTHandler_HandleQuery
     (fmupd TypeCNAME CNAMEHandler_HandleQuery (fmupd TypeAAAA AAAAHandler_HandleQuery (fmupd TypeA AHandler_HandleQuery fmempty))))"

text \<open>The loop over the questions: the merged response, or \<open>None\<close> after a failure was written.\<close>

fun resolve_loop :: "'w dns_lib \<Rightarrow> (uint16, 'w dns_handler) fmap \<Rightarrow> dns_msg \<Rightarrow> dns_question list \<Rightarrow> dns_msg \<Rightarrow> dns_msg option" where
  "resolve_loop D handlers req [] response = Some response"
| "resolve_loop D handlers req (question # questions) response =
     (case fmlookup handlers (q_Qtype question) of
        None \<Rightarrow> None
      | Some handler \<Rightarrow>
          (case handler D req question of
             Inl err \<Rightarrow> None
           | Inr msg \<Rightarrow> resolve_loop D handlers req questions (response\<lparr>dm_Answer := dm_Answer response @ dm_Answer msg\<rparr>)))"

text \<open>The log line after a failed write reads the first question.\<close>

definition Resolve :: "'w dns_lib \<Rightarrow> (uint16, 'w dns_handler) fmap \<Rightarrow> dns_msg \<Rightarrow> 'w \<Rightarrow> unit result \<times> 'w" where
  "Resolve D handlers req w =
     (let response = (SetReply D req empty_msg)\<lparr>dm_Compress := True\<rparr> in
      case resolve_loop D handlers req (dm_Question req) response of
        None \<Rightarrow> (Inr (), HandleFailed D req w)
      | Some response \<Rightarrow>
          (case WriteMsg D response w of
             (None, w) \<Rightarrow> (Inr (), w)
           | (Some err, w) \<Rightarrow> (if dm_Question req = [] then Inl (Panic ''index out of range [0] with length 0'') else Inr (), w)))"

section \<open>Answers\<close>

text \<open>
  What is relied on: \<open>SetReply\<close> leaves the answers of a message alone.
\<close>

definition dns_laws :: "'w dns_lib \<Rightarrow> bool" where
  "dns_laws D \<longleftrightarrow> (\<forall>req msg. dm_Answer (SetReply D req msg) = dm_Answer msg)"

definition supported :: "uint16 set" where
  "supported = {TypeA, TypeAAAA, TypeCNAME, TypeTXT, TypeMX}"

fun data_type :: "rdata \<Rightarrow> uint16" where
  "data_type (RD_A _) = TypeA" | "data_type (RD_AAAA _) = TypeAAAA" | "data_type (RD_CNAME _) = TypeCNAME"
| "data_type (RD_TXT _) = TypeTXT" | "data_type (RD_MX _ _) = TypeMX"

text \<open>A record answers a question: its name and type are those of the question, and so is the kind of its data.\<close>

definition answers :: "dns_question \<Rightarrow> dns_rr \<Rightarrow> bool" where
  "answers q rr \<longleftrightarrow> rr_Name rr = q_Name q \<and> rr_Rrtype rr = q_Qtype q \<and> data_type (rr_data rr) = q_Qtype q"

lemma handler_answers:
  assumes "dns_laws D"
  shows "case fmlookup NewResolver (q_Qtype q) of
      None \<Rightarrow> q_Qtype q \<notin> supported
    | Some h \<Rightarrow> q_Qtype q \<in> supported \<and> (\<exists>msg rr. h D req q = Inr msg \<and> dm_Answer msg = [rr] \<and> answers q rr)"
  using assms
  by (auto simp: NewResolver_def supported_def dns_types AHandler_HandleQuery_def AAAAHandler_HandleQuery_def CNAMEHandler_HandleQuery_def
      TXTHandler_HandleQuery_def MXHandler_HandleQuery_def reply_with_def Let_def dns_laws_def answers_def empty_msg_def loopback_v4_def loopback_v6_def
      split: option.splits)

lemma resolve_loop_exact:
  assumes "dns_laws D"
  shows "case resolve_loop D NewResolver req qs response of
      None \<Rightarrow> \<exists>q \<in> set qs. q_Qtype q \<notin> supported
    | Some r \<Rightarrow> (\<forall>q \<in> set qs. q_Qtype q \<in> supported) \<and>
        (\<exists>rrs. r = response\<lparr>dm_Answer := dm_Answer response @ rrs\<rparr> \<and> list_all2 answers qs rrs)"
proof (induction qs arbitrary: response)
  case (Cons q qs)
  show ?case
  proof (cases "fmlookup NewResolver (q_Qtype q) :: 'a dns_handler option")
    case None
    with handler_answers [OF assms, of q] show ?thesis by simp
  next
    case (Some h)
    then obtain msg rr where h: "q_Qtype q \<in> supported" "h D req q = Inr msg" "dm_Answer msg = [rr]" "answers q rr"
      using handler_answers [OF assms, of q req] by auto
    let ?r = "response\<lparr>dm_Answer := dm_Answer response @ [rr]\<rparr>"
    have step: "resolve_loop D NewResolver req (q # qs) response = resolve_loop D NewResolver req qs ?r" using Some h(2,3) by simp
    show ?thesis
    proof (cases "resolve_loop D NewResolver req qs ?r")
      case None
      with Cons.IH [of ?r] step show ?thesis by auto
    next
      case (Some r)
      with Cons.IH [of ?r] obtain rrs where "\<forall>q \<in> set qs. q_Qtype q \<in> supported" "r = ?r\<lparr>dm_Answer := dm_Answer ?r @ rrs\<rparr>" "list_all2 answers qs rrs"
        by auto
      with h(1,4) Some step show ?thesis by (auto intro!: exI [of _ "rr # rrs"])
    qed
  qed
qed simp

section \<open>Properties\<close>

text \<open>
  A query whose questions all have a supported type is answered with exactly one record per question, in their order, each
  with the name and the type of its question and data of that type; any other query gets a failure and no
  answer.  The message that is written is the reply of the library with these answers and compression on.
\<close>

theorem resolve_answers_all_or_fails:
  assumes "dns_laws D"
  shows "(if \<forall>q \<in> set (dm_Question req). q_Qtype q \<in> supported
      then \<exists>rrs. list_all2 answers (dm_Question req) rrs \<and>
        snd (Resolve D NewResolver req w) = snd (WriteMsg D ((SetReply D req empty_msg)\<lparr>dm_Compress := True, dm_Answer := rrs\<rparr>) w)
      else Resolve D NewResolver req w = (Inr (), HandleFailed D req w))"
proof -
  let ?r = "(SetReply D req empty_msg)\<lparr>dm_Compress := True\<rparr>"
  have none: "dm_Answer ?r = []" using assms by (simp add: dns_laws_def empty_msg_def)
  show ?thesis
  proof (cases "resolve_loop D NewResolver req (dm_Question req) ?r")
    case None
    with resolve_loop_exact [OF assms, where qs = "dm_Question req" and req = req and response = ?r] show ?thesis by (auto simp: Resolve_def Let_def)
  next
    case (Some response)
    with resolve_loop_exact [OF assms, where qs = "dm_Question req" and req = req and response = ?r] none obtain rrs where
      rrs: "\<forall>q \<in> set (dm_Question req). q_Qtype q \<in> supported" "response = ?r\<lparr>dm_Answer := rrs\<rparr>" "list_all2 answers (dm_Question req) rrs"
      by auto
    have "snd (Resolve D NewResolver req w) = snd (WriteMsg D response w)"
      using Some by (simp add: Resolve_def Let_def split: prod.splits option.splits)
    with rrs show ?thesis by auto
  qed
qed

text \<open>A query without questions whose reply cannot be written crashes the resolver: the log line reads the first question.\<close>

lemma empty_query_crashes:
  assumes "dm_Question req = []" "WriteMsg D ((SetReply D req empty_msg)\<lparr>dm_Compress := True\<rparr>) w = (Some err, w')"
  shows "panics (fst (Resolve D NewResolver req w))"
  using assms by (simp add: Resolve_def Let_def panics_def)

section \<open>An instance\<close>

definition plain_dns :: "dns_msg list dns_lib" where
  "plain_dns = \<lparr>SetReply = (\<lambda>req msg. msg\<lparr>dm_Id := dm_Id req, dm_Response := True, dm_Question := take 1 (dm_Question req)\<rparr>),
     HandleFailed = (\<lambda>req w. w @ [empty_msg\<lparr>dm_Id := dm_Id req, dm_Response := True, dm_Rcode := 2\<rparr>]),
     WriteMsg = (\<lambda>msg w. (None, w @ [msg]))\<rparr>"

definition sample_query :: dns_msg where
  "sample_query = empty_msg\<lparr>dm_Id := 77, dm_Question := [\<lparr>q_Name = ''a.'', q_Qtype = 1, q_Qclass = 1\<rparr>, \<lparr>q_Name = ''b.'', q_Qtype = 15, q_Qclass = 1\<rparr>]\<rparr>"

theorem resolve_answers_all_or_fails_witness:
  "\<exists>rrs. length rrs = 2 \<and> snd (Resolve plain_dns NewResolver sample_query []) =
     snd (WriteMsg plain_dns ((SetReply plain_dns sample_query empty_msg)\<lparr>dm_Compress := True, dm_Answer := rrs\<rparr>) [])"
proof -
  have laws: "dns_laws plain_dns" by (simp add: dns_laws_def plain_dns_def)
  have "\<forall>q \<in> set (dm_Question sample_query). q_Qtype q \<in> supported"
    by (simp add: sample_query_def supported_def dns_types)
  then obtain rrs where "list_all2 answers (dm_Question sample_query) rrs"
    "snd (Resolve plain_dns NewResolver sample_query []) =
     snd (WriteMsg plain_dns ((SetReply plain_dns sample_query empty_msg)\<lparr>dm_Compress := True, dm_Answer := rrs\<rparr>) [])"
    using resolve_answers_all_or_fails [OF laws, of sample_query "[]"] by auto
  moreover have "length (dm_Question sample_query) = 2" by (simp add: sample_query_def)
  ultimately show ?thesis using list_all2_lengthD by metis
qed

end
