(* ===== verification/Ebpf_Routes.thy ===== *)
theory Ebpf_Routes
  imports Routing
begin

text \<open>
  \<open>pkg/ebpf\<close>: the manager that loads eBPF programs, attaches them to an interface and keeps the routes in a map of the
  kernel.  The kernel and the library cilium/ebpf are the fields of a record on an environment \<open>'k\<close>; the embedded object files
  are arguments.  Shown here: a manager over differently named programs detaches everything it attached; a manager that fails half-way
  leaves its programs attached; the routes of the map are those added and not deleted, by a key that tells IPv4 routes apart
  and confuses all others.
\<close>

section \<open>Keys and values\<close>

record route_key =
  rk_SrcIP :: uint32
  rk_DstIP :: uint32
  rk_SrcPort :: uint16
  rk_DstPort :: uint16
  rk_Pad :: uint32

record route_value =
  rv_NextHopMAC :: bytes
  rv_Pad :: uint16

text \<open>\<open>net.IP.To4\<close>: a 4-byte address, or the last four bytes of an IPv4-mapped one; nil otherwise.\<close>

definition To4 :: "bytes \<Rightarrow> bytes option" where
  "To4 ip =
     (if length ip = 4 then Some ip
      else if length ip = 16 \<and> take 12 ip = replicate 10 0 @ [255, 255] then Some (drop 12 ip)
      else None)"

definition BE_Uint32 :: "bytes \<Rightarrow> uint32" where
  "BE_Uint32 bs = word_of_int (run_le (rev bs))"

definition ipToUint32 :: "bytes \<Rightarrow> uint32" where
  "ipToUint32 ip = (case To4 ip of None \<Rightarrow> 0 | Some ip4 \<Rightarrow> BE_Uint32 ip4)"

definition constructKey :: "route_entry \<Rightarrow> route_key" where
  "constructKey entry = \<lparr>rk_SrcIP = ipToUint32 (re_SrcIP entry), rk_DstIP = ipToUint32 (re_DstIP entry),
     rk_SrcPort = re_SrcPort entry, rk_DstPort = re_DstPort entry, rk_Pad = 0\<rparr>"

definition constructValue :: "route_entry \<Rightarrow> route_value" where
  "constructValue entry = \<lparr>rv_NextHopMAC = copy_array 6 (re_NextHopMAC entry), rv_Pad = 0\<rparr>"

section \<open>The manager\<close>

record ebpf_program =
  ep_Name :: string
  ep_Section :: string
  ep_IsTest :: bool
  ep_ObjectPath :: string

text \<open>\<open>eb_NewCollection\<close> loads the object file into the kernel and gives its programs and maps.\<close>

record ('p, 'm, 'l, 'c, 'k) ebpf_lib =
  eb_LoadSpec :: "bytes \<Rightarrow> 'c result"
  eb_NewCollection :: "'c \<Rightarrow> 'k \<Rightarrow> ((string, 'p) fmap \<times> (string, 'm) fmap) result \<times> 'k"
  eb_InterfaceByName :: "string \<Rightarrow> 'k \<Rightarrow> int result"
  eb_AttachXDP :: "'p \<Rightarrow> int \<Rightarrow> 'k \<Rightarrow> 'l result \<times> 'k"
  program_Close :: "'p \<Rightarrow> 'k \<Rightarrow> 'k"
  map_Close :: "'m \<Rightarrow> 'k \<Rightarrow> 'k"
  link_Close :: "'l \<Rightarrow> 'k \<Rightarrow> 'k"
  map_Put :: "'m \<Rightarrow> route_key \<Rightarrow> route_value \<Rightarrow> 'k \<Rightarrow> go_error option \<times> 'k"
  map_Delete :: "'m \<Rightarrow> route_key \<Rightarrow> 'k \<Rightarrow> go_error option \<times> 'k"
  ebpfProgram :: bytes
  ebpfTestProgram :: bytes

record ('p, 'm, 'l) ebpf_manager =
  em_Programs :: "(string, 'p) fmap"
  em_Maps :: "(string, 'm) fmap"
  em_Links :: "(string, 'l) fmap"
  em_interfaceName :: string

definition routes_map :: string where "routes_map = ''routes_map''"

text \<open>The body of the loops of \<open>NewManager\<close> and of \<open>LoadDefaults\<close>, which is the same.\<close>

definition load_program ::
  "('p, 'm, 'l, 'c, 'k) ebpf_lib \<Rightarrow> ebpf_program \<Rightarrow> ('p, 'm, 'l) ebpf_manager \<Rightarrow> 'k \<Rightarrow> go_error option \<times> ('p, 'm, 'l) ebpf_manager \<times> 'k" where
  "load_program B progCfg m k =
     (case eb_LoadSpec B (if ep_IsTest progCfg then ebpfTestProgram B else ebpfProgram B) of
        Inl err \<Rightarrow> (Some (wrap_error ''failed to load eBPF collection spec for program %s'' err), m, k)
      | Inr spec \<Rightarrow>
          (case eb_NewCollection B spec k of
             (Inl err, k) \<Rightarrow> (Some (wrap_error ''failed to create eBPF collection for program %s'' err), m, k)
           | (Inr (programs, maps), k) \<Rightarrow>
               (case fmlookup programs (ep_Section progCfg) of
                  None \<Rightarrow> (Some (ErrorS ''failed to find program section %s for program %s''), m, k)
                | Some program \<Rightarrow>
                    (case eb_InterfaceByName B (em_interfaceName m) k of
                       Inl err \<Rightarrow> (Some (wrap_error ''failed to get interface index'' err), m, k)
                     | Inr ifaceIndex \<Rightarrow>
                         (case eb_AttachXDP B program ifaceIndex k of
                            (Inl err, k) \<Rightarrow>
                              (let k = program_Close B program k;
                                   k = (case fmlookup maps routes_map of None \<Rightarrow> k | Some r \<Rightarrow> map_Close B r k)
                               in (Some (wrap_error ''failed to attach XDP program %s'' err), m, k))
                          | (Inr xdpLink, k) \<Rightarrow>
                              (None,
                               m\<lparr>em_Programs := fmupd (ep_Name progCfg) program (em_Programs m),
                                 em_Maps := (case fmlookup maps routes_map of None \<Rightarrow> em_Maps m | Some r \<Rightarrow> fmupd routes_map r (em_Maps m)),
                                 em_Links := fmupd (ep_Name progCfg) xdpLink (em_Links m)\<rparr>, k))))))"

fun new_manager_loop ::
  "('p, 'm, 'l, 'c, 'k) ebpf_lib \<Rightarrow> ebpf_program list \<Rightarrow> ('p, 'm, 'l) ebpf_manager \<Rightarrow> 'k \<Rightarrow> ('p, 'm, 'l) ebpf_manager result \<times> 'k" where
  "new_manager_loop B [] m k = (Inr m, k)"
| "new_manager_loop B (progCfg # progs) m k =
     (case load_program B progCfg m k of
        (Some err, _, k) \<Rightarrow> (Inl err, k)
      | (None, m, k) \<Rightarrow> new_manager_loop B progs m k)"

definition Ebpf_NewManager ::
  "('p, 'm, 'l, 'c, 'k) ebpf_lib \<Rightarrow> string \<Rightarrow> ebpf_program list \<Rightarrow> 'k \<Rightarrow> ('p, 'm, 'l) ebpf_manager result \<times> 'k" where
  "Ebpf_NewManager B interfaceName programs k =
     new_manager_loop B programs \<lparr>em_Programs = fmempty, em_Maps = fmempty, em_Links = fmempty, em_interfaceName = interfaceName\<rparr> k"

text \<open>The three loops of \<open>Close\<close>, each in some order; the maps are empty afterwards.\<close>

definition Ebpf_Close ::
  "('p, 'm, 'l, 'c, 'k) ebpf_lib \<Rightarrow> string list \<Rightarrow> string list \<Rightarrow> string list \<Rightarrow> ('p, 'm, 'l) ebpf_manager \<Rightarrow> 'k \<Rightarrow> ('p, 'm, 'l) ebpf_manager \<times> 'k" where
  "Ebpf_Close B lorder porder morder m k =
     (let k = fold (link_Close B) (range_values lorder (em_Links m)) k;
          k = fold (program_Close B) (range_values porder (em_Programs m)) k;
          k = fold (map_Close B) (range_values morder (em_Maps m)) k
      in (m\<lparr>em_Links := fmempty, em_Programs := fmempty, em_Maps := fmempty\<rparr>, k))"

definition Ebpf_AddRoute ::
  "('p, 'm, 'l, 'c, 'k) ebpf_lib \<Rightarrow> route_entry \<Rightarrow> ('p, 'm, 'l) ebpf_manager \<Rightarrow> 'k \<Rightarrow> go_error option \<times> 'k" where
  "Ebpf_AddRoute B entry m k =
     (case fmlookup (em_Maps m) routes_map of
        None \<Rightarrow> (Some (ErrorS ''routes_map is not initialized''), k)
      | Some r \<Rightarrow>
          (case map_Put B r (constructKey entry) (constructValue entry) k of
             (Some err, k) \<Rightarrow> (Some (wrap_error ''failed to add route to eBPF map'' err), k)
           | (None, k) \<Rightarrow> (None, k)))"

definition Ebpf_DeleteRoute ::
  "('p, 'm, 'l, 'c, 'k) ebpf_lib \<Rightarrow> route_entry \<Rightarrow> ('p, 'm, 'l) ebpf_manager \<Rightarrow> 'k \<Rightarrow> go_error option \<times> 'k" where
  "Ebpf_DeleteRoute B entry m k =
     (case fmlookup (em_Maps m) routes_map of
        None \<Rightarrow> (Some (ErrorS ''routes_map is not initialized''), k)
      | Some r \<Rightarrow>
          (case map_Delete B r (constructKey entry) k of
             (Some err, k) \<Rightarrow> (Some (wrap_error ''failed to delete route from eBPF map'' err), k)
           | (None, k) \<Rightarrow> (None, k)))"

fun LoadDefaults ::
  "('p, 'm, 'l, 'c, 'k) ebpf_lib \<Rightarrow> ebpf_program list \<Rightarrow> ('p, 'm, 'l) ebpf_manager \<Rightarrow> 'k \<Rightarrow> go_error option \<times> ('p, 'm, 'l) ebpf_manager \<times> 'k" where
  "LoadDefaults B [] m k = (None, m, k)"
| "LoadDefaults B (progCfg # progs) m k =
     (if fmlookup (em_Programs m) (ep_Name progCfg) \<noteq> None then LoadDefaults B progs m k
      else
        (case load_program B progCfg m k of
           (Some err, m, k) \<Rightarrow> (Some err, m, k)
         | (None, m, k) \<Rightarrow> LoadDefaults B progs m k))"

section \<open>What is attached\<close>

text \<open>What is relied on: attaching makes a new link, closing it takes it off, and the other calls attach and detach nothing.\<close>

definition link_laws :: "('p, 'm, 'l, 'c, 'k) ebpf_lib \<Rightarrow> ('k \<Rightarrow> 'l set) \<Rightarrow> bool" where
  "link_laws B A \<longleftrightarrow>
     (\<forall>spec k r k'. eb_NewCollection B spec k = (r, k') \<longrightarrow> A k' = A k) \<and>
     (\<forall>p i k l k'. eb_AttachXDP B p i k = (Inr l, k') \<longrightarrow> l \<notin> A k \<and> A k' = insert l (A k)) \<and>
     (\<forall>p i k err k'. eb_AttachXDP B p i k = (Inl err, k') \<longrightarrow> A k' = A k) \<and>
     (\<forall>p k. A (program_Close B p k) = A k) \<and> (\<forall>r k. A (map_Close B r k) = A k) \<and>
     (\<forall>l k. A (link_Close B l k) = A k - {l})"

lemma link_lawsD:
  assumes "link_laws B A"
  shows "eb_NewCollection B spec k = (r, k') \<Longrightarrow> A k' = A k"
    and "eb_AttachXDP B p i k = (Inr l, k') \<Longrightarrow> l \<notin> A k \<and> A k' = insert l (A k)"
    and "eb_AttachXDP B p i k = (Inl err, k') \<Longrightarrow> A k' = A k"
    and "A (program_Close B p k) = A k" "A (map_Close B m k) = A k" "A (link_Close B l k) = A k - {l}"
  using assms unfolding link_laws_def by (elim conjE; simp)+

text \<open>A program that is loaded attaches one new link, filed under its name; one that is not attaches none.\<close>

lemma load_program_ok:
  assumes "link_laws B A" "load_program B progCfg m k = (None, m', k')"
  shows "\<exists>l p. l \<notin> A k \<and> A k' = insert l (A k) \<and> em_Links m' = fmupd (ep_Name progCfg) l (em_Links m) \<and>
    em_Programs m' = fmupd (ep_Name progCfg) p (em_Programs m)"
proof -
  obtain spec programs maps k1 program i l where calls: "eb_NewCollection B spec k = (Inr (programs, maps), k1)"
    "eb_AttachXDP B program i k1 = (Inr l, k')" "em_Links m' = fmupd (ep_Name progCfg) l (em_Links m)"
    "em_Programs m' = fmupd (ep_Name progCfg) program (em_Programs m)"
    using assms(2) unfolding load_program_def Let_def by (auto split: sum.splits prod.splits option.splits)
  then show ?thesis using link_lawsD(1) [OF assms(1) calls(1)] link_lawsD(2) [OF assms(1) calls(2)] by auto
qed

lemma load_program_fails:
  assumes "link_laws B A" "load_program B progCfg m k = (Some err, m', k')"
  shows "m' = m \<and> A k' = A k"
  using assms(2) unfolding load_program_def Let_def
  by (auto simp: link_lawsD(4,5) [OF assms(1)] split: sum.splits prod.splits option.splits
      dest!: link_lawsD(1) [OF assms(1)] link_lawsD(3) [OF assms(1)])

text \<open>A manager accounts for its links: what is attached is what was attached before and its own links, and every link has a program.\<close>

definition accounts_for :: "('k \<Rightarrow> 'l set) \<Rightarrow> 'l set \<Rightarrow> ('p, 'm, 'l) ebpf_manager \<Rightarrow> 'k \<Rightarrow> bool" where
  "accounts_for A A0 m k \<longleftrightarrow>
     A k = A0 \<union> ran (fmlookup (em_Links m)) \<and> A0 \<inter> ran (fmlookup (em_Links m)) = {} \<and> fmdom (em_Links m) = fmdom (em_Programs m)"

lemma load_program_accounts:
  assumes "link_laws B A" "load_program B p m k = (None, m', k')" "accounts_for A A0 m k" "fmlookup (em_Programs m) (ep_Name p) = None"
  shows "accounts_for A A0 m' k' \<and> fmdom (em_Programs m') = finsert (ep_Name p) (fmdom (em_Programs m)) \<and> ran (fmlookup (em_Links m')) \<noteq> {}"
proof -
  obtain l pr where l: "l \<notin> A k" "A k' = insert l (A k)" "em_Links m' = fmupd (ep_Name p) l (em_Links m)"
    "em_Programs m' = fmupd (ep_Name p) pr (em_Programs m)"
    using load_program_ok [OF assms(1,2)] by blast
  have dom: "fmdom (em_Links m) = fmdom (em_Programs m)" using assms(3) unfolding accounts_for_def by simp
  then have "fmlookup (em_Links m) (ep_Name p) = None" using assms(4) by (metis fmdom_notD fmdom_notI)
  then have ran: "ran (fmlookup (em_Links m')) = insert l (ran (fmlookup (em_Links m)))" unfolding l(3) by (intro ran_fmupd)
  show ?thesis using assms(3) l ran dom unfolding accounts_for_def by auto
qed

lemma new_manager_loop_accounts:
  assumes "link_laws B A" "new_manager_loop B progs m k = (Inr m', k')" "distinct (map ep_Name progs)"
    and "\<forall>p \<in> set progs. ep_Name p |\<notin>| fmdom (em_Programs m)" "accounts_for A A0 m k"
  shows "accounts_for A A0 m' k' \<and> (progs \<noteq> [] \<longrightarrow> ran (fmlookup (em_Links m')) \<noteq> {})"
  using assms(2-5)
proof (induction progs arbitrary: m k)
  case (Cons p progs)
  obtain r m1 k1 where load: "load_program B p m k = (r, m1, k1)" by (metis surj_pair)
  with Cons.prems(1) have r: "r = None" and rest: "new_manager_loop B progs m1 k1 = (Inr m', k')" by (auto split: option.splits)
  have "fmlookup (em_Programs m) (ep_Name p) = None" using Cons.prems(3) by (simp add: fmdom_notD)
  from load_program_accounts [OF assms(1) load [unfolded r] Cons.prems(4) this]
  have acc: "accounts_for A A0 m1 k1" and dom: "fmdom (em_Programs m1) = finsert (ep_Name p) (fmdom (em_Programs m))"
    and some: "ran (fmlookup (em_Links m1)) \<noteq> {}" by auto
  have "\<forall>q \<in> set progs. ep_Name q |\<notin>| fmdom (em_Programs m1)"
    unfolding dom using Cons.prems(2,3) by (auto simp: image_iff)
  from Cons.IH [OF rest _ this acc] Cons.prems(2) rest some show ?case by (cases "progs = []") auto
qed simp

text \<open>\<open>LoadDefaults\<close> loads no name twice, so it needs no hypothesis on its programs, and it keeps the account also when it fails.\<close>

lemma LoadDefaults_accounts:
  assumes "link_laws B A" "LoadDefaults B progs m k = (r, m', k')" "accounts_for A A0 m k"
  shows "accounts_for A A0 m' k' \<and> (r = None \<longrightarrow> (\<forall>p \<in> set progs. ep_Name p |\<in>| fmdom (em_Programs m'))) \<and>
    fmdom (em_Programs m) |\<subseteq>| fmdom (em_Programs m')"
  using assms(2,3)
proof (induction progs arbitrary: m k)
  case (Cons p progs)
  show ?case
  proof (cases "fmlookup (em_Programs m) (ep_Name p)")
    case None
    obtain r1 m1 k1 where load: "load_program B p m k = (r1, m1, k1)" by (metis surj_pair)
    show ?thesis
    proof (cases r1)
      case None': None
      have rest: "LoadDefaults B progs m1 k1 = (r, m', k')" using Cons.prems(1) load None None' by simp
      from load_program_accounts [OF assms(1) load [unfolded None'] Cons.prems(2) None]
      have acc: "accounts_for A A0 m1 k1" and dom: "fmdom (em_Programs m1) = finsert (ep_Name p) (fmdom (em_Programs m))" by auto
      from Cons.IH [OF rest acc] dom show ?thesis by auto
    next
      case (Some err)
      then have "r = Some err" "m' = m1" "k' = k1" using Cons.prems(1) load None by simp_all
      moreover have "m1 = m \<and> A k1 = A k" using load_program_fails [OF assms(1) load [unfolded Some]] .
      ultimately show ?thesis using Cons.prems(2) unfolding accounts_for_def by simp
    qed
  next
    case (Some pr)
    then have rest: "LoadDefaults B progs m k = (r, m', k')" using Cons.prems(1) by simp
    from Cons.IH [OF rest Cons.prems(2)] Some show ?thesis by (auto dest: fmdomI)
  qed
qed simp

lemma fold_link_Close:
  assumes "link_laws B A"
  shows "A (fold (link_Close B) ls k) = A k - set ls"
proof (induction ls arbitrary: k)
  case (Cons l ls)
  then show ?case using link_lawsD(6) [OF assms] by auto
qed simp

lemma fold_other_Close:
  assumes "link_laws B A"
  shows "A (fold (program_Close B) ps k) = A k" "A (fold (map_Close B) ms k) = A k"
proof -
  show "A (fold (program_Close B) ps k) = A k" by (induction ps arbitrary: k) (simp_all add: link_lawsD(4) [OF assms])
  show "A (fold (map_Close B) ms k) = A k" by (induction ms arbitrary: k) (simp_all add: link_lawsD(5) [OF assms])
qed

section \<open>The routes of the kernel\<close>

text \<open>
  What is relied on: a put sets the key or leaves the map as it is; a delete removes the key or, with an error, leaves the map as it
  is.  \<open>R r k\<close> is the content of the map \<open>r\<close>.
\<close>

definition map_laws :: "('p, 'm, 'l, 'c, 'k) ebpf_lib \<Rightarrow> ('m \<Rightarrow> 'k \<Rightarrow> route_key \<Rightarrow> route_value option) \<Rightarrow> bool" where
  "map_laws B R \<longleftrightarrow>
     (\<forall>r key v k k'. map_Put B r key v k = (None, k') \<longrightarrow> R r k' = (R r k)(key \<mapsto> v)) \<and>
     (\<forall>r key v k err k'. map_Put B r key v k = (Some err, k') \<longrightarrow> R r k' = R r k) \<and>
     (\<forall>r key k k'. map_Delete B r key k = (None, k') \<longrightarrow> R r k' = (R r k)(key := None)) \<and>
     (\<forall>r key k err k'. map_Delete B r key k = (Some err, k') \<longrightarrow> R r k' = R r k)"

datatype route_op = Add_route route_entry | Delete_route route_entry

fun run_op :: "('p, 'm, 'l, 'c, 'k) ebpf_lib \<Rightarrow> ('p, 'm, 'l) ebpf_manager \<Rightarrow> route_op \<Rightarrow> 'k \<Rightarrow> go_error option \<times> 'k" where
  "run_op B m (Add_route e) k = Ebpf_AddRoute B e m k"
| "run_op B m (Delete_route e) k = Ebpf_DeleteRoute B e m k"

text \<open>The abstract map: an operation that returned an error changed nothing.\<close>

fun abs_op :: "route_op \<Rightarrow> (route_key \<Rightarrow> route_value option) \<Rightarrow> route_key \<Rightarrow> route_value option" where
  "abs_op (Add_route e) M = M(constructKey e \<mapsto> constructValue e)"
| "abs_op (Delete_route e) M = M(constructKey e := None)"

fun run_ops :: "('p, 'm, 'l, 'c, 'k) ebpf_lib \<Rightarrow> ('p, 'm, 'l) ebpf_manager \<Rightarrow> route_op list \<Rightarrow> 'k \<Rightarrow> 'k \<times> route_op list" where
  "run_ops B m [] k = (k, [])"
| "run_ops B m (x # xs) k = (case run_op B m x k of (r, k) \<Rightarrow> case run_ops B m xs k of (k, done') \<Rightarrow> (k, if r = None then x # done' else done'))"

lemma run_op_refines:
  assumes "map_laws B R" "fmlookup (em_Maps m) routes_map = Some r" "run_op B m x k = (e, k')"
  shows "R r k' = (if e = None then abs_op x (R r k) else R r k)"
  using assms unfolding map_laws_def
  by (cases x) (auto simp: Ebpf_AddRoute_def Ebpf_DeleteRoute_def split: prod.splits option.splits)

lemma run_le_in_range: "length bs = n \<Longrightarrow> run_le bs mod 256 ^ n = run_le bs"
  by (metis le_run_run_le run_le_le_run)

lemma BE_Uint32_inject:
  assumes "length a = 4" "length b = 4"
  shows "BE_Uint32 a = BE_Uint32 b \<longleftrightarrow> a = b"
proof
  assume "BE_Uint32 a = BE_Uint32 b"
  then have "uint (BE_Uint32 a) = uint (BE_Uint32 b)" by simp
  then have "run_le (rev a) mod 2 ^ 32 = run_le (rev b) mod 2 ^ 32" unfolding BE_Uint32_def uint_word_of_int by simp
  moreover have "run_le (rev a) mod 2 ^ 32 = run_le (rev a)" "run_le (rev b) mod 2 ^ 32 = run_le (rev b)"
    using run_le_in_range [of "rev a" 4] run_le_in_range [of "rev b" 4] assms by simp_all
  ultimately have "run_le (rev a) = run_le (rev b)" by simp
  then have "rev a = rev b" by (metis assms le_run_run_le length_rev)
  then show "a = b" by simp
qed simp

section \<open>Properties\<close>

lemma Ebpf_NewManager_accounts:
  assumes "link_laws B A" "Ebpf_NewManager B interfaceName progs k = (Inr m, k1)" "distinct (map ep_Name progs)"
  shows "accounts_for A (A k) m k1 \<and> (progs \<noteq> [] \<longrightarrow> ran (fmlookup (em_Links m)) \<noteq> {})"
proof -
  let ?m0 = "\<lparr>em_Programs = fmempty, em_Maps = fmempty, em_Links = fmempty, em_interfaceName = interfaceName\<rparr>"
  have "accounts_for A (A k) ?m0 k" by (simp add: accounts_for_def ran_fmempty)
  then show ?thesis using new_manager_loop_accounts [OF assms(1) assms(2) [unfolded Ebpf_NewManager_def] assms(3)] by simp
qed

text \<open>
  A manager detaches everything it attached: over differently named programs, and whatever \<open>LoadDefaults\<close> then adds or fails
  to add, exactly the links are attached after \<open>Close\<close> that were attached before \<open>NewManager\<close>, in whatever order it ranges over
  its maps; and \<open>LoadDefaults\<close> without an error leaves every default program loaded.
\<close>

theorem ebpf_close_detaches:
  assumes "link_laws B A" "Ebpf_NewManager B interfaceName progs k = (Inr m, k1)" "distinct (map ep_Name progs)"
    and "LoadDefaults B defaults m k1 = (r, m2, k2)" "ranges lorder (em_Links m2)" "Ebpf_Close B lorder porder morder m2 k2 = (m', k')"
  shows "A k' = A k \<and> em_Links m' = fmempty \<and> em_Programs m' = fmempty \<and> em_Maps m' = fmempty \<and>
    (r = None \<longrightarrow> (\<forall>p \<in> set defaults. ep_Name p |\<in>| fmdom (em_Programs m2)))"
proof -
  have acc: "accounts_for A (A k) m k1" using Ebpf_NewManager_accounts [OF assms(1-3)] by simp
  note loaded = LoadDefaults_accounts [OF assms(1,4) acc]
  have "A k' = A k2 - set (range_values lorder (em_Links m2))"
    using assms(6) by (auto simp: Ebpf_Close_def Let_def fold_link_Close [OF assms(1)] fold_other_Close [OF assms(1)])
  moreover have "set (range_values lorder (em_Links m2)) = ran (fmlookup (em_Links m2))" by (rule ran_range_values [OF assms(5), symmetric])
  ultimately have "A k' = A k" using loaded unfolding accounts_for_def by auto
  then show ?thesis using assms(6) loaded by (auto simp: Ebpf_Close_def Let_def)
qed

text \<open>
  A manager that fails after its first program leaves what it has attached: no manager is returned, so nobody can close it, and
  the links of the programs before the failing one stay attached to the interface.
\<close>

theorem failed_manager_stays_attached:
  assumes "link_laws B A" "Ebpf_NewManager B interfaceName ps k = (Inr m, k1)" "distinct (map ep_Name ps)" "ps \<noteq> []"
    and "load_program B q m k1 = (Some err, m', k')"
  shows "Ebpf_NewManager B interfaceName (ps @ q # qs) k = (Inl err, k') \<and> A k \<subset> A k'"
proof -
  have "new_manager_loop B (ps @ q # qs) m0 k0 = (Inl err, k')" if "new_manager_loop B ps m0 k0 = (Inr m, k1)" for m0 k0
    using that assms(5) by (induction ps arbitrary: m0 k0) (auto split: prod.splits option.splits)
  then have "Ebpf_NewManager B interfaceName (ps @ q # qs) k = (Inl err, k')"
    using assms(2) unfolding Ebpf_NewManager_def by blast
  moreover note Ebpf_NewManager_accounts [OF assms(1-3)]
  moreover have "A k' = A k1" using load_program_fails [OF assms(1,5)] by simp
  ultimately show ?thesis using assms(4) unfolding accounts_for_def by auto
qed

text \<open>
  The map of the kernel holds the routes that were added and not deleted: after any sequence of operations its content is
  what the operations that returned no error make of the content before, each under the key of its entry.
\<close>

theorem ebpf_routes_refine:
  assumes "map_laws B R" "fmlookup (em_Maps m) routes_map = Some r" "run_ops B m xs k = (k', ok)"
  shows "R r k' = fold abs_op ok (R r k)"
  using assms(3)
proof (induction xs arbitrary: k k' ok)
  case (Cons x xs)
  obtain e k1 where op: "run_op B m x k = (e, k1)" by (metis surj_pair)
  obtain k2 ok' where rest: "run_ops B m xs k1 = (k2, ok')" by (metis surj_pair)
  from Cons.prems op rest have "k' = k2" "ok = (if e = None then x # ok' else ok')" by auto
  with Cons.IH [OF rest] run_op_refines [OF assms(1,2) op] show ?case by simp
qed simp

text \<open>
  Two IPv4 routes share a key only if they agree in both addresses and both ports; but every address that is not IPv4 becomes zero,
  so two IPv6 routes with the same ports overwrite each other in the map.
\<close>

theorem route_keys:
  "(To4 (re_SrcIP a) = Some sa \<and> To4 (re_DstIP a) = Some da \<and> To4 (re_SrcIP b) = Some sb \<and> To4 (re_DstIP b) = Some db \<longrightarrow>
     (constructKey a = constructKey b \<longleftrightarrow> sa = sb \<and> da = db \<and> re_SrcPort a = re_SrcPort b \<and> re_DstPort a = re_DstPort b)) \<and>
   (To4 (re_SrcIP a) = None \<and> To4 (re_DstIP a) = None \<and> To4 (re_SrcIP b) = None \<and> To4 (re_DstIP b) = None \<and>
     re_SrcPort a = re_SrcPort b \<and> re_DstPort a = re_DstPort b \<longrightarrow> constructKey a = constructKey b)"
proof -
  have "length x = 4" if "To4 ip = Some x" for ip x using that by (auto simp: To4_def split: if_splits)
  then show ?thesis by (auto simp: constructKey_def ipToUint32_def BE_Uint32_inject)
qed

section \<open>Witnesses\<close>

text \<open>An interface that takes \<open>cap\<close> programs at most, and a kernel with one map.\<close>

definition plain_kernel :: "nat \<Rightarrow> (unit, unit, nat, unit, nat list \<times> (route_key, route_value) fmap) ebpf_lib" where
  "plain_kernel cap = \<lparr>eb_LoadSpec = (\<lambda>bs. Inr ()),
     eb_NewCollection = (\<lambda>c k. (Inr (fmupd ''xdp'' () fmempty, fmupd ''routes_map'' () fmempty), k)),
     eb_InterfaceByName = (\<lambda>n k. Inr 2),
     eb_AttachXDP = (\<lambda>p i k. if length (fst k) < cap then (Inr (Suc (sum_list (fst k))), (Suc (sum_list (fst k)) # fst k, snd k))
        else (Inl (ErrorS ''device or resource busy''), k)),
     program_Close = (\<lambda>p k. k), map_Close = (\<lambda>m k. k), link_Close = (\<lambda>l k. (filter (\<lambda>h. h \<noteq> l) (fst k), snd k)),
     map_Put = (\<lambda>m key v k. (None, (fst k, fmupd key v (snd k)))),
     map_Delete = (\<lambda>m key k. if fmlookup (snd k) key = None then (Some (ErrorS ''key does not exist''), k)
        else (None, (fst k, fmdrop key (snd k)))),
     ebpfProgram = [], ebpfTestProgram = []\<rparr>"

lemma plain_link_laws: "link_laws (plain_kernel cap) (\<lambda>k. set (fst k))"
proof -
  have "Suc (sum_list hs) \<notin> set hs" for hs :: "nat list" using member_le_sum_list [of _ hs] by fastforce
  then show ?thesis by (auto simp: link_laws_def plain_kernel_def)
qed

lemma plain_map_laws: "map_laws (plain_kernel cap) (\<lambda>r k. fmlookup (snd k))"
  by (auto simp: map_laws_def plain_kernel_def fun_eq_iff)

definition sample_program :: "string \<Rightarrow> ebpf_program" where
  "sample_program name = \<lparr>ep_Name = name, ep_Section = ''xdp'', ep_IsTest = False, ep_ObjectPath = ''''\<rparr>"

definition sample_manager :: "(unit, unit, nat) ebpf_manager" where
  "sample_manager = \<lparr>em_Programs = fmupd ''router'' () fmempty, em_Maps = fmupd ''routes_map'' () fmempty,
     em_Links = fmupd ''router'' 1 fmempty, em_interfaceName = ''eth0''\<rparr>"

lemmas plain_simps = plain_kernel_def sample_program_def sample_manager_def load_program_def routes_map_def Let_def

lemma sample_NewManager: "0 < cap \<Longrightarrow> Ebpf_NewManager (plain_kernel cap) ''eth0'' [sample_program ''router''] ([], fmempty) = (Inr sample_manager, ([1], fmempty))"
  by (simp add: Ebpf_NewManager_def plain_simps)

theorem ebpf_close_detaches_witness:
  "\<exists>m2 k2. LoadDefaults (plain_kernel 5) [sample_program ''router'', sample_program ''filter''] sample_manager ([1], fmempty) = (None, m2, k2) \<and>
    set (fst (snd (Ebpf_Close (plain_kernel 5) [''router'', ''filter''] [] [] m2 k2))) = {} \<and> fst k2 = [2, 1]"
proof -
  let ?m2 = "sample_manager\<lparr>em_Programs := fmupd ''filter'' () (em_Programs sample_manager), em_Links := fmupd ''filter'' 2 (em_Links sample_manager)\<rparr>"
  have load: "LoadDefaults (plain_kernel 5) [sample_program ''router'', sample_program ''filter''] sample_manager ([1], fmempty) = (None, ?m2, ([2, 1], fmempty))"
    by (simp add: plain_simps numeral_2_eq_2)
  have order: "ranges [''router'', ''filter''] (em_Links ?m2)" by (auto simp: ranges_def sample_manager_def)
  have one: "distinct (map ep_Name [sample_program ''router''])" by simp
  obtain m' k' where close: "Ebpf_Close (plain_kernel 5) [''router'', ''filter''] [] [] ?m2 ([2, 1], fmempty) = (m', k')" by (metis surj_pair)
  have "set (fst k') = {}" using ebpf_close_detaches [OF plain_link_laws sample_NewManager one load order close] by simp
  then have "set (fst (snd (Ebpf_Close (plain_kernel 5) [''router'', ''filter''] [] [] ?m2 ([2, 1], fmempty)))) = {}" by (simp only: close snd_conv)
  with load show ?thesis by (intro exI [of _ ?m2] exI [of _ "([2, 1], fmempty)"]) simp
qed

theorem failed_manager_stays_attached_witness:
  "\<exists>err k'. Ebpf_NewManager (plain_kernel 1) ''eth0'' ([sample_program ''router''] @ sample_program ''filter'' # []) ([], fmempty) = (Inl err, k') \<and>
    {} \<subset> set (fst k')"
proof -
  have load: "load_program (plain_kernel 1) (sample_program ''filter'') sample_manager ([1], fmempty) =
    (Some (wrap_error ''failed to attach XDP program %s'' (ErrorS ''device or resource busy'')), sample_manager, ([1], fmempty))"
    by (simp add: plain_simps)
  have one: "distinct (map ep_Name [sample_program ''router''])" by simp
  show ?thesis using failed_manager_stays_attached [OF plain_link_laws sample_NewManager one _ load, of "[]"] by auto
qed

definition sample_route :: "bytes \<Rightarrow> uint16 \<Rightarrow> route_entry" where
  "sample_route ip port = \<lparr>re_SrcIP = ip, re_DstIP = ip, re_SrcPort = port, re_DstPort = 53, re_NextHopMAC = [1, 2, 3, 4, 5, 6], re_Signature = []\<rparr>"

theorem ebpf_routes_refine_witness:
  "\<exists>k' ok. run_ops (plain_kernel 1) sample_manager
      [Add_route (sample_route [10, 0, 0, 1] 7), Delete_route (sample_route [10, 0, 0, 2] 7)] ([1], fmempty) = (k', ok) \<and>
    ok = [Add_route (sample_route [10, 0, 0, 1] 7)] \<and>
    fmlookup (snd k') = [constructKey (sample_route [10, 0, 0, 1] 7) \<mapsto> constructValue (sample_route [10, 0, 0, 1] 7)]"
proof -
  let ?xs = "[Add_route (sample_route [10, 0, 0, 1] 7), Delete_route (sample_route [10, 0, 0, 2] 7)]"
  have m: "fmlookup (em_Maps sample_manager) routes_map = Some ()" by (simp add: sample_manager_def routes_map_def)
  have other: "constructKey (sample_route [10, 0, 0, 1] 7) \<noteq> constructKey (sample_route [10, 0, 0, 2] 7)"
    by (simp add: constructKey_def sample_route_def ipToUint32_def To4_def BE_Uint32_inject)
  obtain k' ok where run: "run_ops (plain_kernel 1) sample_manager ?xs ([1], fmempty) = (k', ok)" by (metis surj_pair)
  then have ok: "ok = [Add_route (sample_route [10, 0, 0, 1] 7)]"
    using other by (simp add: Ebpf_AddRoute_def Ebpf_DeleteRoute_def m) (simp add: plain_kernel_def)
  have "fmlookup (snd k') = fold abs_op ok (fmlookup (snd ([1 :: nat], fmempty)))" by (rule ebpf_routes_refine [OF plain_map_laws m run])
  with ok have "fmlookup (snd k') = [constructKey (sample_route [10, 0, 0, 1] 7) \<mapsto> constructValue (sample_route [10, 0, 0, 1] 7)]"
    by (simp add: fun_eq_iff)
  with run ok show ?thesis by blast
qed

theorem route_keys_witness:
  "To4 (replicate 16 1) = None \<and> To4 (replicate 16 2) = None \<and>
   constructKey (sample_route (replicate 16 1) 7) = constructKey (sample_route (replicate 16 2) 7) \<and>
   constructKey (sample_route [10, 0, 0, 1] 7) \<noteq> constructKey (sample_route [10, 0, 0, 2] 7)"
  using route_keys [of "sample_route (replicate 16 1) 7" "[]" "[]" "sample_route (replicate 16 2) 7" "[]" "[]"]
    route_keys [of "sample_route [10, 0, 0, 1] 7" "[10, 0, 0, 1]" "[10, 0, 0, 1]" "sample_route [10, 0, 0, 2] 7" "[10, 0, 0, 2]" "[10, 0, 0, 2]"]
  by (simp add: To4_def sample_route_def numeral_eq_Suc)

end
