(* ===== verification/Privacy.thy ===== *)
theory Privacy
  imports Account_Store
begin

text \<open>
  \<open>pkg/privacy/manager.go\<close>: messages under AES-256 in Galois counter mode with a key of the manager and a fresh nonce in front of
  each ciphertext.  The cipher and the random source are a record of functions on the state \<open>'r\<close> of the source.  Shown here:
  decryption inverts encryption and accepts nothing but encryptions; no input, of whatever length, makes it panic; the recipient of a
  message plays no part.
\<close>

section \<open>The cipher\<close>

text \<open>\<open>gcm_Seal g nonce p\<close> is what \<open>Seal\<close> appends to its first argument; \<open>Seal\<close> and \<open>Open\<close> panic on a nonce of the wrong length.\<close>

record ('b, 'g, 'r) gcm_lib =
  rand_Read :: "nat \<Rightarrow> 'r \<Rightarrow> bytes result \<times> 'r"
  aes_NewCipher :: "bytes \<Rightarrow> 'b result"
  cipher_NewGCM :: "'b \<Rightarrow> 'g result"
  gcm_NonceSize :: "'g \<Rightarrow> nat"
  gcm_Seal :: "'g \<Rightarrow> bytes \<Rightarrow> bytes \<Rightarrow> bytes"
  gcm_Open :: "'g \<Rightarrow> bytes \<Rightarrow> bytes \<Rightarrow> bytes result"

definition aesGCM_Seal :: "('b, 'g, 'r) gcm_lib \<Rightarrow> 'g \<Rightarrow> bytes \<Rightarrow> bytes \<Rightarrow> bytes \<Rightarrow> bytes result" where
  "aesGCM_Seal C g dst nonce p =
     (if length nonce \<noteq> gcm_NonceSize C g then Inl (Panic ''crypto/cipher: incorrect nonce length given to GCM'')
      else Inr (dst @ gcm_Seal C g nonce p))"

definition aesGCM_Open :: "('b, 'g, 'r) gcm_lib \<Rightarrow> 'g \<Rightarrow> bytes \<Rightarrow> bytes \<Rightarrow> bytes result" where
  "aesGCM_Open C g nonce data =
     (if length nonce \<noteq> gcm_NonceSize C g then Inl (Panic ''crypto/cipher: incorrect nonce length given to GCM'')
      else gcm_Open C g nonce data)"

section \<open>The manager\<close>

record privacy_manager =
  pm_key :: bytes

definition NewPrivacyManager :: "('b, 'g, 'r) gcm_lib \<Rightarrow> 'r \<Rightarrow> privacy_manager result \<times> 'r" where
  "NewPrivacyManager C rnd =
     (case rand_Read C 32 rnd of
        (Inl err, rnd) \<Rightarrow> (Inl (wrap_error ''failed to generate encryption key'' err), rnd)
      | (Inr key, rnd) \<Rightarrow> (Inr \<lparr>pm_key = key\<rparr>, rnd))"

definition Encrypt :: "('b, 'g, 'r) gcm_lib \<Rightarrow> privacy_manager \<Rightarrow> bytes \<Rightarrow> 'r \<Rightarrow> bytes result \<times> 'r" where
  "Encrypt C pm plaintext rnd =
     (case aes_NewCipher C (pm_key pm) of
        Inl err \<Rightarrow> (Inl (wrap_error ''failed to create cipher block'' err), rnd)
      | Inr block \<Rightarrow>
          (case cipher_NewGCM C block of
             Inl err \<Rightarrow> (Inl (wrap_error ''failed to create AES-GCM'' err), rnd)
           | Inr g \<Rightarrow>
               (case rand_Read C (gcm_NonceSize C g) rnd of
                  (Inl err, rnd) \<Rightarrow> (Inl (wrap_error ''failed to generate nonce'' err), rnd)
                | (Inr nonce, rnd) \<Rightarrow> (aesGCM_Seal C g nonce nonce plaintext, rnd))))"

definition Decrypt :: "('b, 'g, 'r) gcm_lib \<Rightarrow> privacy_manager \<Rightarrow> bytes \<Rightarrow> bytes result" where
  "Decrypt C pm ciphertext =
     (case aes_NewCipher C (pm_key pm) of
        Inl err \<Rightarrow> Inl (wrap_error ''failed to create cipher block'' err)
      | Inr block \<Rightarrow>
          (case cipher_NewGCM C block of
             Inl err \<Rightarrow> Inl (wrap_error ''failed to create AES-GCM'' err)
           | Inr g \<Rightarrow>
               (let nonceSize = gcm_NonceSize C g in
                if length ciphertext < nonceSize then Inl (ErrorS ''ciphertext too short'')
                else
                  bindE (slice ciphertext 0 nonceSize) (\<lambda>nonce.
                  bindE (slice ciphertext nonceSize (length ciphertext)) (\<lambda>ciphertextData.
                  wrapE ''failed to decrypt ciphertext'' (aesGCM_Open C g nonce ciphertextData))))))"

definition EncryptMessage ::
  "('b, 'g, 'r) gcm_lib \<Rightarrow> privacy_manager \<Rightarrow> ('psk, 'ppk, 'bsk, 'bpk, 'gr, 'sc, 'el) key_account \<Rightarrow> bytes \<Rightarrow> 'r \<Rightarrow> bytes result \<times> 'r" where
  "EncryptMessage C pm recipient message rnd = Encrypt C pm message rnd"

definition DecryptMessage ::
  "('b, 'g, 'r) gcm_lib \<Rightarrow> privacy_manager \<Rightarrow> ('psk, 'ppk, 'bsk, 'bpk, 'gr, 'sc, 'el) key_account \<Rightarrow> bytes \<Rightarrow> bytes result" where
  "DecryptMessage C pm sender ciphertext = Decrypt C pm ciphertext"

section \<open>Laws of the cipher\<close>

text \<open>
  What is relied on: the random source fills the slice it is given; AES takes a key of 32 bytes and the mode takes AES; sealing adds a tag
  of 16 bytes; what is opened under a nonce is exactly what is sealed under it.
\<close>

definition gcm_laws :: "('b, 'g, 'r) gcm_lib \<Rightarrow> bool" where
  "gcm_laws C \<longleftrightarrow>
     (\<forall>n rnd bs rnd'. rand_Read C n rnd = (Inr bs, rnd') \<longrightarrow> length bs = n) \<and>
     (\<forall>key. length key = 32 \<longrightarrow> (\<exists>block g. aes_NewCipher C key = Inr block \<and> cipher_NewGCM C block = Inr g)) \<and>
     (\<forall>g nonce p. length (gcm_Seal C g nonce p) = length p + 16) \<and>
     (\<forall>g nonce p. gcm_Open C g nonce (gcm_Seal C g nonce p) = Inr p) \<and>
     (\<forall>g nonce c p. gcm_Open C g nonce c = Inr p \<longrightarrow> c = gcm_Seal C g nonce p) \<and>
     (\<forall>g nonce c. \<not> panics (gcm_Open C g nonce c))"

lemma gcm_lawsD:
  assumes "gcm_laws C"
  shows "rand_Read C n rnd = (Inr bs, rnd') \<Longrightarrow> length bs = n"
    and "length key = 32 \<Longrightarrow> \<exists>block g. aes_NewCipher C key = Inr block \<and> cipher_NewGCM C block = Inr g"
    and "length (gcm_Seal C g nonce p) = length p + 16" "gcm_Open C g nonce c = Inr p \<longleftrightarrow> c = gcm_Seal C g nonce p"
    and "\<not> panics (gcm_Open C g nonce c)"
  using assms unfolding gcm_laws_def by (blast, blast, blast, metis, blast)

definition cipher_of :: "('b, 'g, 'r) gcm_lib \<Rightarrow> privacy_manager \<Rightarrow> 'g \<Rightarrow> bool" where
  "cipher_of C pm g \<longleftrightarrow> (\<exists>block. aes_NewCipher C (pm_key pm) = Inr block \<and> cipher_NewGCM C block = Inr g)"

lemma manager_cipher:
  assumes "gcm_laws C" "NewPrivacyManager C rnd = (Inr pm, rnd')"
  shows "\<exists>g. cipher_of C pm g"
  using assms gcm_lawsD(1,2) [OF assms(1)] unfolding NewPrivacyManager_def cipher_of_def
  by (auto split: prod.splits sum.splits) (metis privacy_manager.select_convs(1))

lemma Decrypt_cipher:
  assumes "cipher_of C pm g"
  shows "Decrypt C pm ct = (if length ct < gcm_NonceSize C g then Inl (ErrorS ''ciphertext too short'')
    else wrapE ''failed to decrypt ciphertext'' (gcm_Open C g (take (gcm_NonceSize C g) ct) (drop (gcm_NonceSize C g) ct)))"
  using assms by (auto simp: Decrypt_def cipher_of_def aesGCM_Open_def Let_def)

lemma Encrypt_cipher:
  assumes "gcm_laws C" "cipher_of C pm g"
  shows "Encrypt C pm p rnd = (case rand_Read C (gcm_NonceSize C g) rnd of
       (Inl err, rnd) \<Rightarrow> (Inl (wrap_error ''failed to generate nonce'' err), rnd)
     | (Inr nonce, rnd) \<Rightarrow> (Inr (nonce @ gcm_Seal C g nonce p), rnd))"
  using assms(2) gcm_lawsD(1) [OF assms(1)] by (auto simp: Encrypt_def cipher_of_def aesGCM_Seal_def split: prod.splits sum.splits)

section \<open>Properties\<close>

text \<open>
  Decryption inverts encryption: for a manager made by \<open>NewPrivacyManager\<close>, encryption fails only when the random source does, what it
  returns is longer than the message by nonce and tag, and decrypting it returns the message.
\<close>

theorem privacy_roundtrip:
  assumes "gcm_laws C" "NewPrivacyManager C rnd0 = (Inr pm, rnd1)" "Encrypt C pm msg rnd = (r, rnd')"
  shows "case r of
      Inl err \<Rightarrow> \<exists>n e. fst (rand_Read C n rnd) = Inl e \<and> err = wrap_error ''failed to generate nonce'' e
    | Inr ct \<Rightarrow> Decrypt C pm ct = Inr msg \<and> (\<exists>g. cipher_of C pm g \<and> length ct = gcm_NonceSize C g + length msg + 16)"
proof -
  obtain g where g: "cipher_of C pm g" using manager_cipher [OF assms(1,2)] by blast
  obtain q rnd2 where q: "rand_Read C (gcm_NonceSize C g) rnd = (q, rnd2)" by (metis surj_pair)
  show ?thesis
  proof (cases q)
    case (Inl e)
    then have "r = Inl (wrap_error ''failed to generate nonce'' e)" using assms(3) q by (simp add: Encrypt_cipher [OF assms(1) g])
    then show ?thesis using q Inl by (auto intro!: exI [of _ "gcm_NonceSize C g"])
  next
    case (Inr nonce)
    then have r: "r = Inr (nonce @ gcm_Seal C g nonce msg)" using assms(3) q by (simp add: Encrypt_cipher [OF assms(1) g])
    have n: "length nonce = gcm_NonceSize C g" using gcm_lawsD(1) [OF assms(1)] q Inr by simp
    have "gcm_Open C g nonce (gcm_Seal C g nonce msg) = Inr msg" using gcm_lawsD(4) [OF assms(1)] by blast
    then show ?thesis using r g n by (auto simp: Decrypt_cipher [OF g] gcm_lawsD(3) [OF assms(1)] intro!: exI [of _ g])
  qed
qed

text \<open>
  Decryption accepts exactly the encryptions under the manager's key, nonce first; every other input, a short one included, is an error
  and never a panic.
\<close>

theorem decrypt_accepts_only_sealed:
  assumes "gcm_laws C" "NewPrivacyManager C rnd0 = (Inr pm, rnd1)"
  shows "(\<exists>g. cipher_of C pm g \<and> (\<forall>msg. Decrypt C pm ct = Inr msg \<longleftrightarrow>
      (\<exists>nonce. length nonce = gcm_NonceSize C g \<and> ct = nonce @ gcm_Seal C g nonce msg))) \<and> \<not> panics (Decrypt C pm ct)"
proof -
  obtain g where g: "cipher_of C pm g" using manager_cipher [OF assms] by blast
  let ?n = "gcm_NonceSize C g"
  have "Decrypt C pm ct = Inr msg \<longleftrightarrow> (\<exists>nonce. length nonce = ?n \<and> ct = nonce @ gcm_Seal C g nonce msg)" for msg
  proof (cases "length ct < ?n")
    case False
    then have "Decrypt C pm ct = Inr msg \<longleftrightarrow> drop ?n ct = gcm_Seal C g (take ?n ct) msg"
      by (simp add: Decrypt_cipher [OF g] gcm_lawsD(4) [OF assms(1)])
    also have "\<dots> \<longleftrightarrow> (\<exists>nonce. length nonce = ?n \<and> ct = nonce @ gcm_Seal C g nonce msg)"
    proof
      assume sealed: "drop ?n ct = gcm_Seal C g (take ?n ct) msg"
      have "ct = take ?n ct @ drop ?n ct" by simp
      with sealed False show "\<exists>nonce. length nonce = ?n \<and> ct = nonce @ gcm_Seal C g nonce msg"
        by (intro exI [of _ "take ?n ct"]) simp
    qed auto
    finally show ?thesis .
  qed (auto simp: Decrypt_cipher [OF g])
  moreover have "\<not> panics (Decrypt C pm ct)"
    using gcm_lawsD(5) [OF assms(1)] by (simp add: Decrypt_cipher [OF g] panics_wrapE)
  ultimately show ?thesis using g by blast
qed

text \<open>
  The recipient of a message plays no part: a message encrypted for one account is decrypted as coming from any other, and the
  ciphertext is the same whomever it is for.
\<close>

theorem recipient_plays_no_part:
  assumes "gcm_laws C" "NewPrivacyManager C rnd0 = (Inr pm, rnd1)" "EncryptMessage C pm alice msg rnd = (Inr ct, rnd')"
  shows "EncryptMessage C pm bob msg rnd = (Inr ct, rnd') \<and> DecryptMessage C pm mallory ct = Inr msg"
proof -
  have enc: "Encrypt C pm msg rnd = (Inr ct, rnd')" using assms(3) by (simp add: EncryptMessage_def)
  obtain g where g: "cipher_of C pm g" using manager_cipher [OF assms(1,2)] by blast
  obtain nonce where "ct = nonce @ gcm_Seal C g nonce msg" "length nonce = gcm_NonceSize C g"
    using enc gcm_lawsD(1) [OF assms(1)] by (auto simp: Encrypt_cipher [OF assms(1) g] split: prod.splits sum.splits)
  then have "Decrypt C pm ct = Inr msg" using gcm_lawsD(4) [OF assms(1), of g nonce] by (simp add: Decrypt_cipher [OF g])
  with enc show ?thesis by (simp add: EncryptMessage_def DecryptMessage_def)
qed

section \<open>Witnesses\<close>

text \<open>A cipher that appends the first half of its key as the tag, and a source that counts.\<close>

definition tag_of :: "bytes \<Rightarrow> bytes" where "tag_of key = copy_array 16 key"

definition plain_gcm :: "(bytes, bytes, nat) gcm_lib" where
  "plain_gcm = \<lparr>rand_Read = (\<lambda>n rnd. (Inr (replicate n (word_of_nat rnd)), Suc rnd)),
     aes_NewCipher = (\<lambda>key. if length key = 32 then Inr key else Inl (ErrorS ''invalid key size'')), cipher_NewGCM = Inr,
     gcm_NonceSize = (\<lambda>_. 12), gcm_Seal = (\<lambda>key nonce p. p @ tag_of key),
     gcm_Open = (\<lambda>key nonce c. if drop (length c - 16) c = tag_of key then Inr (take (length c - 16) c)
        else Inl (ErrorS ''message authentication failed''))\<rparr>"

lemma plain_gcm_laws: "gcm_laws plain_gcm"
proof -
  have tag: "length (tag_of key) = 16" for key by (simp add: tag_of_def)
  have "c = take (length c - 16) c @ tag_of key" if "drop (length c - 16) c = tag_of key" for c key
    using that by (metis append_take_drop_id)
  with tag show ?thesis by (auto simp: gcm_laws_def plain_gcm_def)
qed

lemma sample_privacy: "NewPrivacyManager plain_gcm 7 = (Inr \<lparr>pm_key = replicate 32 7\<rparr>, 8)"
  by (simp add: NewPrivacyManager_def plain_gcm_def)

lemma sample_cipher: "cipher_of plain_gcm \<lparr>pm_key = replicate 32 7\<rparr> g \<longleftrightarrow> g = replicate 32 7"
  by (auto simp: cipher_of_def plain_gcm_def)

lemma sample_Encrypt: "Encrypt plain_gcm \<lparr>pm_key = replicate 32 7\<rparr> [1, 2, 3] 8 = (Inr (replicate 12 8 @ [1, 2, 3] @ replicate 16 7), 9)"
proof -
  have "cipher_of plain_gcm \<lparr>pm_key = replicate 32 7\<rparr> (replicate 32 7)" by (simp add: sample_cipher)
  from Encrypt_cipher [OF plain_gcm_laws this] show ?thesis by (simp add: plain_gcm_def tag_of_def copy_array_def)
qed

theorem privacy_roundtrip_witness:
  "Decrypt plain_gcm \<lparr>pm_key = replicate 32 7\<rparr> (replicate 12 8 @ [1, 2, 3] @ replicate 16 7) = Inr [1, 2, 3]"
  using privacy_roundtrip [OF plain_gcm_laws sample_privacy sample_Encrypt] by simp

theorem decrypt_accepts_only_sealed_witness:
  "\<nexists>msg. Decrypt plain_gcm \<lparr>pm_key = replicate 32 7\<rparr> (replicate 12 8 @ [1, 2, 3] @ replicate 16 6) = Inr msg"
proof -
  let ?ct = "replicate 12 8 @ [1, 2, 3] @ replicate 16 6 :: bytes"
  have "last ?ct \<noteq> last (nonce @ gcm_Seal plain_gcm (replicate 32 7) nonce msg)" for nonce msg
    by (simp add: plain_gcm_def tag_of_def copy_array_def last_append)
  then have "\<nexists>nonce. ?ct = nonce @ gcm_Seal plain_gcm (replicate 32 7) nonce msg" for msg by metis
  with decrypt_accepts_only_sealed [OF plain_gcm_laws sample_privacy, of ?ct] show ?thesis by (auto simp: sample_cipher)
qed

theorem recipient_plays_no_part_witness:
  "DecryptMessage plain_gcm \<lparr>pm_key = replicate 32 7\<rparr> (sample_key_account\<lparr>ka_Name := ''mallory''\<rparr>) (replicate 12 8 @ [1, 2, 3] @ replicate 16 7) = Inr [1, 2, 3]"
proof -
  have "EncryptMessage plain_gcm \<lparr>pm_key = replicate 32 7\<rparr> sample_key_account [1, 2, 3] 8 = (Inr (replicate 12 8 @ [1, 2, 3] @ replicate 16 7), 9)"
    by (simp add: EncryptMessage_def sample_Encrypt)
  from recipient_plays_no_part [OF plain_gcm_laws sample_privacy this] show ?thesis by blast
qed

end
