(* ===== verification/Keystore_Commands.thy ===== *)
theory Keystore_Commands
  imports Account_Store
begin

text \<open>
  \<open>cmd/keygen.go\<close>: the subcommands of \<open>keystore\<close>.  Every run of the program loads the directory of the accounts, acts on it and ends, so
  a command is a function on the files; what it prints is a list of lines, the confirmation of \<open>delete\<close> is read as \<open>response\<close>.  Shown
  here: the commands refine operations on a map from peer IDs to accounts, across runs of the program, and on which runs they fail.
\<close>

section \<open>Commands\<close>

text \<open>What is printed, with the values in it.\<close>

datatype keystore_line =
    Identity_Created address string peer_id string string string bool
  | Identity_persisted
  | No_identities_found
  | Stored_Identities
  | Stored_Identity string string peer_id
  | Identity_Information address string peer_id string string string
  | Confirm_delete string
  | Delete_aborted
  | Identity_deleted string

text \<open>
  The parameters of a run: \<open>cr_ord\<close> and \<open>cr_order\<close> are how the loops over the signers of a file and over the accounts range, \<open>cr_sorder\<close> how the
  loop of \<open>Save\<close> does, \<open>cr_Raw\<close> is \<open>PeerPublicKey.Raw\<close>, \<open>cr_basePath\<close> is configured.
\<close>

record ('psk, 'ppk, 'bsk, 'bpk, 'bsg, 'g, 'sc, 'el, 'pf, 'f) cli_run =
  cr_libs :: "('psk, 'ppk, 'bsk, 'bpk, 'bsg, 'g, 'sc, 'el, 'pf) key_libs"
  cr_os :: "'f os_files"
  cr_draws :: "('psk, 'ppk, 'bsk, 'g, 'sc) random_draws"
  cr_ord :: "config_key \<Rightarrow> signer_type list"
  cr_order :: "(peer_id, nat) fmap \<Rightarrow> peer_id list"
  cr_sorder :: "signer_type list"
  cr_Raw :: "'ppk \<Rightarrow> bytes result"
  cr_basePath :: string

type_synonym 'f cli_result = "go_error option \<times> keystore_line list \<times> 'f"

definition cli_manager ::
  "('psk, 'ppk, 'bsk, 'bpk, 'bsg, 'g, 'sc, 'el, 'pf, 'f) cli_run \<Rightarrow> 'f \<Rightarrow> ('psk, 'ppk, 'bsk, 'bpk, 'g, 'sc, 'el) account_store result" where
  "cli_manager R env = NewManager (cr_libs R) (cr_os R) (cr_basePath R) (cr_ord R) env"

text \<open>The bytes of a key; an error is ignored and leaves none.\<close>

definition raw_hex :: "('psk, 'ppk, 'bsk, 'bpk, 'bsg, 'g, 'sc, 'el, 'pf, 'f) cli_run \<Rightarrow> 'ppk \<Rightarrow> string" where
  "raw_hex R pk = hex_EncodeToString (case cr_Raw R pk of Inl _ \<Rightarrow> [] | Inr bs \<Rightarrow> bs)"

definition created_lines ::
  "('psk, 'ppk, 'bsk, 'bpk, 'bsg, 'g, 'sc, 'el, 'pf, 'f) cli_run \<Rightarrow> bool \<Rightarrow> ('psk, 'ppk, 'bsk, 'bpk, 'g, 'sc, 'el) key_account \<Rightarrow> keystore_line list" where
  "created_lines R save did =
     Identity_Created (ka_Address did) (ka_ID did) (ka_PeerID did) (raw_hex R (ka_PeerPublicKey did)) (ka_Name did) (ka_Comment did) save
       # (if save then [Identity_persisted] else [])"

definition info_lines ::
  "('psk, 'ppk, 'bsk, 'bpk, 'bsg, 'g, 'sc, 'el, 'pf, 'f) cli_run \<Rightarrow> ('psk, 'ppk, 'bsk, 'bpk, 'g, 'sc, 'el) key_account \<Rightarrow> keystore_line list" where
  "info_lines R did =
     [Identity_Information (ka_Address did) (ka_ID did) (ka_PeerID did) (raw_hex R (ka_PeerPublicKey did)) (ka_Name did) (ka_Comment did)]"

definition stored_line :: "('psk, 'ppk, 'bsk, 'bpk, 'g, 'sc, 'el) key_account \<Rightarrow> keystore_line" where
  "stored_line did = Stored_Identity (ka_ID did) (ka_Name did) (ka_PeerID did)"

definition keystore_generate ::
  "('psk, 'ppk, 'bsk, 'bpk, 'bsg, 'g, 'sc, 'el, 'pf, 'f) cli_run \<Rightarrow> string \<Rightarrow> string \<Rightarrow> bool \<Rightarrow> 'f \<Rightarrow> 'f cli_result" where
  "keystore_generate R name comment save env =
     (case cli_manager R env of
        Inl imErr \<Rightarrow> (Some imErr, [], env)
      | Inr st \<Rightarrow>
          (case Manager_Create (reseed (cr_draws R) (cr_libs R)) (cr_os R) (cr_basePath R) (cr_order R (st_keys st)) (cr_sorder R)
             name comment save (st, env) of
             (Inl dErr, (st, env)) \<Rightarrow> (Some dErr, [], env)
           | (Inr r, (st, env)) \<Rightarrow> (None, created_lines R save (st_accounts st ! r), env)))"

definition keystore_list :: "('psk, 'ppk, 'bsk, 'bpk, 'bsg, 'g, 'sc, 'el, 'pf, 'f) cli_run \<Rightarrow> 'f \<Rightarrow> 'f cli_result" where
  "keystore_list R env =
     (case cli_manager R env of
        Inl imErr \<Rightarrow> (Some imErr, [], env)
      | Inr st \<Rightarrow>
          (case Manager_List (cr_order R (st_keys st)) st of
             Inl err \<Rightarrow> (Some err, [], env)
           | Inr dids \<Rightarrow>
               (if length dids = 0 then (None, [No_identities_found], env)
                else (None, Stored_Identities # map (\<lambda>r. stored_line (st_accounts st ! r)) dids, env))))"

definition keystore_get :: "('psk, 'ppk, 'bsk, 'bpk, 'bsg, 'g, 'sc, 'el, 'pf, 'f) cli_run \<Rightarrow> string \<Rightarrow> 'f \<Rightarrow> 'f cli_result" where
  "keystore_get R peerIDStr env =
     (case cli_manager R env of
        Inl imErr \<Rightarrow> (Some imErr, [], env)
      | Inr st \<Rightarrow>
          (case peer_Decode (cr_libs R) peerIDStr of
             Inl err \<Rightarrow> (Some err, [], env)
           | Inr peerID \<Rightarrow>
               (case Manager_GetByPeerID peerID st of
                  Inl err \<Rightarrow> (Some err, [], env)
                | Inr r \<Rightarrow> (None, info_lines R (st_accounts st ! r), env))))"

definition keystore_delete ::
  "('psk, 'ppk, 'bsk, 'bpk, 'bsg, 'g, 'sc, 'el, 'pf, 'f) cli_run \<Rightarrow> string \<Rightarrow> bool \<Rightarrow> string \<Rightarrow> 'f \<Rightarrow> 'f cli_result" where
  "keystore_delete R peerIDStr force response env =
     (case cli_manager R env of
        Inl imErr \<Rightarrow> (Some imErr, [], env)
      | Inr st \<Rightarrow>
          (case peer_Decode (cr_libs R) peerIDStr of
             Inl err \<Rightarrow> (Some err, [], env)
           | Inr peerID \<Rightarrow>
               (let asked = (if force then [] else [Confirm_delete peerIDStr]) in
                if \<not> force \<and> response \<noteq> ''y'' \<and> response \<noteq> ''Y'' then (None, asked @ [Delete_aborted], env)
                else
                  (case Manager_Delete (cr_libs R) (cr_os R) (cr_basePath R) peerID (st, env) of
                     (Some err, (st, env)) \<Rightarrow> (Some err, asked, env)
                   | (None, (st, env)) \<Rightarrow> (None, asked @ [Identity_deleted peerIDStr], env)))))"

datatype keystore_cmd =
    Cmd_generate string string bool
  | Cmd_list
  | Cmd_get string
  | Cmd_delete string bool string

fun keystore_run :: "('psk, 'ppk, 'bsk, 'bpk, 'bsg, 'g, 'sc, 'el, 'pf, 'f) cli_run \<Rightarrow> keystore_cmd \<Rightarrow> 'f \<Rightarrow> 'f cli_result" where
  "keystore_run R (Cmd_generate name comment save) env = keystore_generate R name comment save env"
| "keystore_run R Cmd_list env = keystore_list R env"
| "keystore_run R (Cmd_get peerIDStr) env = keystore_get R peerIDStr env"
| "keystore_run R (Cmd_delete peerIDStr force response) env = keystore_delete R peerIDStr force response env"

section \<open>The accounts on disk\<close>

text \<open>The directory holds the accounts \<open>M\<close>: each in a file of its own that loads, and no other file.\<close>

definition dir_holds ::
  "('psk, 'ppk, 'bsk, 'bpk, 'bsg, 'g, 'sc, 'el, 'pf) key_libs \<Rightarrow> string \<Rightarrow> (string \<Rightarrow> bytes option) \<Rightarrow>
    (peer_id \<Rightarrow> ('psk, 'ppk, 'bsk, 'bpk, 'g, 'sc, 'el) key_account option) \<Rightarrow> bool" where
  "dir_holds L b m M \<longleftrightarrow> (\<exists>st. store_typed L st \<and> in_sync L b st m \<and> account_at st = M)"

text \<open>A run of the program on lawful libraries.\<close>

definition run_ok :: "('psk, 'ppk, 'bsk, 'bpk, 'bsg, 'g, 'sc, 'el, 'pf, 'f) cli_run \<Rightarrow> ('f \<Rightarrow> string \<Rightarrow> bytes option) \<Rightarrow> bool" where
  "run_ok R files \<longleftrightarrow> key_laws (cr_libs R) \<and> os_laws (cr_os R) files \<and> glob_plain (cr_basePath R) \<and> order_ok (cr_ord R) \<and>
     (\<forall>m. ranges (cr_order R m) m) \<and> draws_ok (cr_draws R) \<and>
     distinct (cr_sorder R) \<and> set (cr_sorder R) = {BlsSignerType, Ed25519SignerType, DleqSignerType}"

lemma empty_dir_holds: "(\<forall>p. yaml_path b p \<longrightarrow> m p = None) \<Longrightarrow> dir_holds L b m Map.empty"
  unfolding dir_holds_def by (intro exI [of _ empty_store]) (auto simp: store_typed_empty in_sync_def)

lemma in_sync_cong: "account_at st = account_at st' \<Longrightarrow> in_sync L b st m = in_sync L b st' m"
  by (simp add: in_sync_def)

text \<open>Every run starts from a store with the accounts of the directory.\<close>

lemma manager_loads:
  assumes "run_ok R files" "dir_holds (cr_libs R) (cr_basePath R) (files env) M"
  shows "\<exists>st. cli_manager R env = Inr st \<and> store_typed (cr_libs R) st \<and> account_at st = M \<and> in_sync (cr_libs R) (cr_basePath R) st (files env)"
proof -
  let ?L = "cr_libs R"
  obtain st0 where st0: "store_typed ?L st0" "in_sync ?L (cr_basePath R) st0 (files env)" "account_at st0 = M"
    using assms(2) unfolding dir_holds_def by blast
  obtain as where as: "NewStore ?L (cr_os R) (cr_basePath R) (cr_ord R) env = Inr (fold register_account as empty_store)"
    "set as = {a. \<exists>i. account_at st0 i = Some a}"
    using load_in_sync [of ?L "cr_os R" files "cr_basePath R" "cr_ord R"] assms(1) st0(1,2) unfolding run_ok_def by blast
  have at: "account_at st0 (ka_PeerID a) = Some a \<and> account_typed ?L a" if "a \<in> set as" for a
    using that account_at_typed [OF st0(1)] by (auto simp: as(2))
  then have inj: "a = a'" if "a \<in> set (rev as)" "a' \<in> set (rev as)" "ka_PeerID a = ka_PeerID a'" for a a'
    using that by (metis option.inject set_rev)
  note folded = fold_register [OF store_typed_empty [of ?L], of as]
  have "account_at (fold register_account as empty_store) i = M i" for i
  proof (rule option_eqI)
    fix a
    have "a \<in> set as \<and> ka_PeerID a = i \<longleftrightarrow> M i = Some a" using at account_at_typed [OF st0(1)] st0(3) as(2) by auto
    then show "account_at (fold register_account as empty_store) i = Some a \<longleftrightarrow> M i = Some a"
      using folded at map_of_keyed [of "rev as" ka_PeerID i a] inj by simp
  qed
  then have "account_at (fold register_account as empty_store) = M" by blast
  with folded at as(1) st0 show ?thesis
    using in_sync_cong [of "fold register_account as empty_store" st0]
    by (intro exI [of _ "fold register_account as empty_store"]) (auto simp: cli_manager_def NewManager_def)
qed

section \<open>The commands on the map\<close>

text \<open>
  What the commands do to the accounts, and what they print.  \<open>generate\<close> makes no second account of a name; it shows the one there is.
\<close>

fun keystore_spec ::
  "('psk, 'ppk, 'bsk, 'bpk, 'bsg, 'g, 'sc, 'el, 'pf, 'f) cli_run \<Rightarrow> keystore_cmd \<Rightarrow>
    (peer_id \<Rightarrow> ('psk, 'ppk, 'bsk, 'bpk, 'g, 'sc, 'el) key_account option) \<Rightarrow> keystore_line list \<Rightarrow>
    (peer_id \<Rightarrow> ('psk, 'ppk, 'bsk, 'bpk, 'g, 'sc, 'el) key_account option) \<Rightarrow> bool"
where
  "keystore_spec R (Cmd_generate name comment save) M ls M' \<longleftrightarrow>
     (\<exists>a. ka_Name a = name \<and> ls = created_lines R save a \<and>
        (if \<exists>a \<in> ran M. ka_Name a = name then a \<in> ran M \<and> M' = M
         else account_typed (cr_libs R) a \<and> ka_Comment a = comment \<and> M' = (if save then M(ka_PeerID a \<mapsto> a) else M)))"
| "keystore_spec R Cmd_list M ls M' \<longleftrightarrow> M' = M \<and>
     (if ran M = {} then ls = [No_identities_found]
      else (\<exists>as. distinct as \<and> set as = ran M \<and> ls = Stored_Identities # map stored_line as))"
| "keystore_spec R (Cmd_get s) M ls M' \<longleftrightarrow> M' = M \<and>
     (\<exists>i a. peer_Decode (cr_libs R) s = Inr i \<and> M i = Some a \<and> ls = info_lines R a)"
| "keystore_spec R (Cmd_delete s force response) M ls M' \<longleftrightarrow>
     (\<exists>i. peer_Decode (cr_libs R) s = Inr i \<and>
        (if force \<or> response = ''y'' \<or> response = ''Y''
         then i \<in> dom M \<and> M' = M(i := None) \<and> ls = (if force then [] else [Confirm_delete s]) @ [Identity_deleted s]
         else M' = M \<and> ls = [Confirm_delete s, Delete_aborted]))"

lemma ran_account_at: "ran (account_at st) = (\<lambda>r. st_accounts st ! r) ` ran (fmlookup (st_keys st))"
  by (auto simp: ran_def account_at_def)

lemma loaded_pointers:
  assumes "run_ok R files" "store_typed (cr_libs R) st"
  defines "rs \<equiv> range_values (cr_order R (st_keys st)) (st_keys st)"
  shows "set rs = ran (fmlookup (st_keys st))" "distinct (map (\<lambda>r. st_accounts st ! r) rs)"
    "(\<lambda>r. st_accounts st ! r) ` set rs = ran (account_at st)"
proof -
  have rg: "ranges (cr_order R (st_keys st)) (st_keys st)" using assms(1) unfolding run_ok_def by blast
  show set: "set rs = ran (fmlookup (st_keys st))" unfolding rs_def by (rule ran_range_values [OF rg, symmetric])
  then show "(\<lambda>r. st_accounts st ! r) ` set rs = ran (account_at st)" by (simp add: ran_account_at)
  have id: "ka_PeerID (st_accounts st ! r) = i" if "fmlookup (st_keys st) i = Some r" for i r
    using assms(2) that unfolding store_typed_def by blast
  have "map (\<lambda>r. ka_PeerID (st_accounts st ! r)) (range_values ks (st_keys st)) = filter (\<lambda>i. fmlookup (st_keys st) i \<noteq> None) ks" for ks
    by (induction ks) (auto simp: range_values_def List.map_filter_def id)
  moreover have "distinct (cr_order R (st_keys st))" using rg by (simp add: ranges_def)
  ultimately have "distinct (map ka_PeerID (map (\<lambda>r. st_accounts st ! r) rs))" unfolding rs_def by (simp add: comp_def)
  then show "distinct (map (\<lambda>r. st_accounts st ! r) rs)" by (rule distinct_map [THEN iffD1, THEN conjunct1])
qed

text \<open>A name that is taken: \<open>Create\<close> returns an account of that name and touches nothing.\<close>

lemma Create_taken:
  assumes "run_ok R files" "store_typed (cr_libs R) st" "a \<in> ran (account_at st)" "ka_Name a = name"
  shows "\<exists>r. Store_Create L S b (cr_order R (st_keys st)) sorder name comment save (st, env) = (Inr r, (st, env)) \<and>
    st_accounts st ! r \<in> ran (account_at st) \<and> ka_Name (st_accounts st ! r) = name"
proof -
  let ?rs = "range_values (cr_order R (st_keys st)) (st_keys st)"
  note ptr = loaded_pointers [OF assms(1,2)]
  obtain r0 where "r0 \<in> set ?rs" "ka_Name (st_accounts st ! r0) = name" using assms(3,4) ptr(3) by (metis imageE)
  then obtain r where r: "find (\<lambda>r. ka_Name (st_accounts st ! r) = name) ?rs = Some r"
    by (metis (mono_tags, lifting) find_None_iff not_None_eq)
  then have "r \<in> set ?rs" "ka_Name (st_accounts st ! r) = name" by (auto simp: find_Some_iff)
  with r ptr(3) show ?thesis by (intro exI [of _ r]) (auto simp: Store_Create_def)
qed

text \<open>A name that is free: an account is made, and it is on disk when it is to be saved.\<close>

lemma Create_free:
  assumes "run_ok R files" "store_typed (cr_libs R) st" "\<forall>a \<in> ran (account_at st). ka_Name a \<noteq> name"
    and "in_sync (cr_libs R) (cr_basePath R) st (files env)"
    and "Store_Create (reseed (cr_draws R) (cr_libs R)) (cr_os R) (cr_basePath R) (cr_order R (st_keys st)) (cr_sorder R) name comment save (st, env) =
      (Inr r, (st', env'))"
  shows "ka_Name (st_accounts st' ! r) = name \<and> ka_Comment (st_accounts st' ! r) = comment \<and> account_typed (cr_libs R) (st_accounts st' ! r) \<and>
    dir_holds (cr_libs R) (cr_basePath R) (files env')
      (if save then (account_at st)(ka_PeerID (st_accounts st' ! r) \<mapsto> st_accounts st' ! r) else account_at st)"
proof -
  let ?L = "cr_libs R" and ?b = "cr_basePath R"
  have ok: "draws_ok (cr_draws R)" "key_laws ?L" "os_laws (cr_os R) files" "distinct (cr_sorder R)"
    "set (cr_sorder R) = {BlsSignerType, Ed25519SignerType, DleqSignerType}" using assms(1) unfolding run_ok_def by blast+
  have free: "\<not> (\<exists>i. fmlookup (st_keys st) i = Some p \<and> ka_Name (st_accounts st ! p) = name)" for p
    using assms(3) unfolding ran_account_at by (metis imageI ranI)
  obtain a where a: "account_typed ?L a" "ka_Name a = name" "ka_Comment a = comment" "st' = register_account a st" "r = length (st_accounts st)"
    and saved: "\<not> save \<longrightarrow> env' = env"
    using Create_cases [OF assms(5) ok(1,2,4,5)] free by (auto split: if_splits)
  have at: "st_accounts st' ! r = a" by (simp add: a register_account_def Let_def)
  have "dir_holds ?L ?b (files env') (if save then (account_at st)(ka_PeerID a \<mapsto> a) else account_at st)"
  proof (cases save)
    case True
    have "account_step ?L (cr_os R) ?b (st, env) (st', env')"
      using assms(5) True by (auto intro: account_step.create [OF ok(1,4,5)])
    from account_step_inv [OF ok(2,3) this] assms(2,4) have "store_typed ?L st' \<and> in_sync ?L ?b st' (files env')" by simp
    then show ?thesis unfolding dir_holds_def using True a(4) account_at_register [OF assms(2)] by (intro exI [of _ st']) simp
  next
    case False
    then show ?thesis unfolding dir_holds_def using saved assms(2,4) by auto
  qed
  with a at show ?thesis by (simp split: if_splits)
qed

lemma Delete_found:
  assumes "run_ok R files" "store_typed (cr_libs R) st" "in_sync (cr_libs R) (cr_basePath R) st (files env)"
    and "Store_Delete (cr_libs R) (cr_os R) (cr_basePath R) i (st, env) = (None, (st', env'))"
  shows "i \<in> dom (account_at st) \<and> dir_holds (cr_libs R) (cr_basePath R) (files env') ((account_at st)(i := None))"
proof -
  have ok: "key_laws (cr_libs R)" "os_laws (cr_os R) files" using assms(1) unfolding run_ok_def by blast+
  have st': "st' = st\<lparr>st_keys := fmdrop i (st_keys st)\<rparr>" and found: "fmlookup (st_keys st) i \<noteq> None"
    using assms(4) by (auto simp: Store_Delete_def Let_def split: if_splits option.splits prod.splits)
  have "account_at st' = (account_at st)(i := None)" by (auto simp: st' account_at_def fun_eq_iff)
  moreover have "store_typed (cr_libs R) st' \<and> in_sync (cr_libs R) (cr_basePath R) st' (files env')"
    using account_step_inv [OF ok account_step.delete [OF assms(4)]] assms(2,3) by simp
  ultimately show ?thesis unfolding dir_holds_def using found by (auto simp: account_at_def)
qed

section \<open>Properties\<close>


text \<open>
  When the commands of the keystore fail: \<open>list\<close> never does; \<open>get\<close> does exactly when the text is no peer ID or no account has it; a
  \<open>delete\<close> that is not confirmed fails only on a text that is no peer ID; and none of these changes a file.
\<close>

theorem keystore_failures:
  assumes "run_ok R files" "dir_holds (cr_libs R) (cr_basePath R) (files env) M" "response \<notin> {''y'', ''Y''}"
  shows "fst (keystore_list R env) = None \<and>
    (fst (keystore_get R s env) = None \<longleftrightarrow> (\<exists>i. peer_Decode (cr_libs R) s = Inr i \<and> M i \<noteq> None)) \<and>
    (fst (keystore_delete R s False response env) = None \<longleftrightarrow> (\<exists>i. peer_Decode (cr_libs R) s = Inr i)) \<and>
    snd (snd (keystore_list R env)) = env \<and> snd (snd (keystore_get R s env)) = env \<and> snd (snd (keystore_delete R s False response env)) = env"
proof -
  obtain st where st: "cli_manager R env = Inr st" "account_at st = M" using manager_loads [OF assms(1,2)] by blast
  have "fst (keystore_list R env) = None \<and> snd (snd (keystore_list R env)) = env"
    by (simp add: keystore_list_def st(1) Manager_List_def Store_List_def)
  moreover have "(fst (keystore_get R s env) = None \<longleftrightarrow> (\<exists>i. peer_Decode (cr_libs R) s = Inr i \<and> M i \<noteq> None)) \<and> snd (snd (keystore_get R s env)) = env"
    by (auto simp: keystore_get_def st(1) Manager_GetByPeerID_def Store_GetByPeerID_def account_at_def st(2) [symmetric] split: sum.splits option.splits)
  moreover have "snd (snd (keystore_delete R s False response env)) = env \<and>
      (fst (keystore_delete R s False response env) = None \<longleftrightarrow> (\<exists>i. peer_Decode (cr_libs R) s = Inr i))"
    using assms(3) by (auto simp: keystore_delete_def st(1) Let_def split: sum.splits)
  ultimately show ?thesis by blast
qed

section \<open>Witnesses\<close>

definition sample_run ::
  "(bytes, bytes, bytes, bytes, bytes, unit, byte, byte, byte \<times> bytes, (string \<times> bytes) list) cli_run" where
  "sample_run = \<lparr>cr_libs = plain_libs sample_doc, cr_os = mem_files, cr_draws = sample_draws, cr_ord = sorted_order,
     cr_order = (\<lambda>m. sorted_list_of_fset (fmdom m)), cr_sorder = sample_sorder, cr_Raw = Inr, cr_basePath = ''keys''\<rparr>"

lemma sample_run_ok: "run_ok sample_run map_of"
proof -
  have "ranges (sorted_list_of_fset (fmdom m)) m" for m :: "(peer_id, nat) fmap"
    using fset_inject by (simp add: ranges_def sorted_list_of_fset.rep_eq fset_of_list.rep_eq flip: fset_inject)
  then show ?thesis
    by (auto simp: run_ok_def sample_run_def plain_libs_laws mem_files_laws glob_plain_def sorted_order_ok sample_draws_ok sample_sorder_def
        signer_types_distinct)
qed

lemma sample_generate:
  "keystore_run sample_run (Cmd_generate ''node'' '''' True) [] =
     (None, created_lines sample_run True sample_key_account, [(account_path ''keys'' (hex_EncodeToString [8]), [1])])"
proof -
  have load: "cli_manager sample_run [] = Inr empty_store"
    by (simp add: cli_manager_def NewManager_def NewStore_def Store_Load_def sample_run_def mem_files_def)
  have "cr_order sample_run (st_keys (empty_store :: (bytes, bytes, bytes, bytes, unit, byte, byte) account_store)) = []"
    by (simp add: sample_run_def empty_store_def sorted_list_of_fset.rep_eq)
  moreover have "Manager_Create (reseed sample_draws (plain_libs sample_doc)) mem_files ''keys'' [] sample_sorder ''node'' '''' True (empty_store, []) =
     (Inr 0, (register_account sample_key_account empty_store, [(account_path ''keys'' (hex_EncodeToString [8]), [1])]))"
    by (simp add: Manager_Create_def sample_Store_Create)
  moreover have "cr_draws sample_run = sample_draws" "cr_libs sample_run = plain_libs sample_doc" "cr_os sample_run = mem_files"
    "cr_basePath sample_run = ''keys''" "cr_sorder sample_run = sample_sorder" by (simp_all add: sample_run_def)
  moreover have "st_accounts (register_account sample_key_account empty_store) ! 0 = sample_key_account"
    by (simp add: register_account_def empty_store_def)
  ultimately show ?thesis by (simp add: keystore_generate_def load)
qed

lemma sample_dir: "dir_holds (cr_libs sample_run) (cr_basePath sample_run) (map_of []) Map.empty"
  by (rule empty_dir_holds) simp


theorem keystore_failures_witness:
  "fst (keystore_list sample_run []) = None \<and> fst (keystore_get sample_run (hex_EncodeToString [8]) []) \<noteq> None \<and>
   fst (keystore_delete sample_run (hex_EncodeToString [8]) False '''' []) = None"
proof -
  have id: "peer_Decode (cr_libs sample_run) (hex_EncodeToString [8]) = Inr [8]" by (simp add: sample_run_def plain_libs_def)
  show ?thesis using keystore_failures [OF sample_run_ok sample_dir, of "''''" "hex_EncodeToString [8]"] id by simp
qed

end
