(* ===== verification/Configuration.thy ===== *)
theory Configuration
  imports State_Store Storage_Open Networking Ebpf_Routes Account_Store
begin

text \<open>
  \<open>pkg/config\<close>: the configuration of the program, with the transports whose section is decoded by the type it names, the TLS settings a
  transport is given, and the global configuration.  The YAML library, the files and the TLS library are records of functions.  Shown here:
  a transport that decodes carries a section of the type it names; an address determines host and port; which TLS settings are made of
  which files; a configuration that fails to load leaves the global one alone.
\<close>

section \<open>Sections of the transports\<close>

record tls_section =
  tls_Insecure :: bool
  tls_Cert :: string
  tls_Key :: string
  tls_RootCA :: string

record dtls_section =
  dtls_Cert :: string
  dtls_Key :: string
  dtls_RootCA :: string
  dtls_Insecure :: bool

record dummy_transport =
  dt_Type :: transport_type
  dt_Enabled :: bool
  dt_IPv4 :: string
  dt_Port :: int64
  dt_TLS :: tls_section

record uds_transport =
  ut_Type :: transport_type
  ut_Enabled :: bool
  ut_Socket :: string

record quic_transport =
  qt_Type :: transport_type
  qt_Enabled :: bool
  qt_IPv4 :: string
  qt_Port :: int64
  qt_TLS :: tls_section

record tcp_transport =
  tt_Type :: transport_type
  tt_Enabled :: bool
  tt_IPv4 :: string
  tt_Port :: int64
  tt_TLS :: "tls_section option"

record udp_transport =
  pt_Type :: transport_type
  pt_Enabled :: bool
  pt_IPv4 :: string
  pt_Port :: int64
  pt_DTLS :: "dtls_section option"

text \<open>The interface \<open>TransportConfig\<close>, by dynamic type.\<close>

datatype transport_config =
    Dummy_Transport dummy_transport
  | Uds_Transport uds_transport
  | Quic_Transport quic_transport
  | Tcp_Transport tcp_transport
  | Udp_Transport udp_transport

fun GetTransportType :: "transport_config \<Rightarrow> transport_type" where
  "GetTransportType (Dummy_Transport d) = dt_Type d"
| "GetTransportType (Uds_Transport u) = ut_Type u"
| "GetTransportType (Quic_Transport q) = qt_Type q"
| "GetTransportType (Tcp_Transport t) = tt_Type t"
| "GetTransportType (Udp_Transport t) = pt_Type t"

text \<open>\<open>fmt.Sprintf("%s:%d", ipv4, port)\<close>.\<close>

definition host_port :: "string \<Rightarrow> int64 \<Rightarrow> string" where
  "host_port ipv4 port = ipv4 @ '':'' @ fmt_d port"

fun Addr :: "transport_config \<Rightarrow> string" where
  "Addr (Dummy_Transport d) = host_port (dt_IPv4 d) (dt_Port d)"
| "Addr (Uds_Transport u) = ut_Socket u"
| "Addr (Quic_Transport q) = host_port (qt_IPv4 q) (qt_Port q)"
| "Addr (Tcp_Transport t) = host_port (tt_IPv4 t) (tt_Port t)"
| "Addr (Udp_Transport t) = host_port (pt_IPv4 t) (pt_Port t)"

section \<open>Decoding\<close>

text \<open>
  The YAML library on nodes \<open>'n\<close>: the fields of the anonymous structs the methods decode into, and decoding into a value that has
  an \<open>UnmarshalYAML\<close> method, which is given to it.
\<close>

record 'n yaml_lib =
  y_common :: "'n \<Rightarrow> (transport_type \<times> bool \<times> 'n) result"
  y_tls_fields :: "'n \<Rightarrow> (transport_type \<times> bool \<times> string \<times> int64 \<times> tls_section) result"
  y_tcp_fields :: "'n \<Rightarrow> (transport_type \<times> bool \<times> string \<times> int64 \<times> tls_section option) result"
  y_udp_fields :: "'n \<Rightarrow> (transport_type \<times> bool \<times> string \<times> int64 \<times> dtls_section option) result"
  y_uds_fields :: "'n \<Rightarrow> (transport_type \<times> bool \<times> string) result"
  y_Decode :: "('n \<Rightarrow> transport_config \<Rightarrow> go_error option \<times> transport_config) \<Rightarrow> 'n \<Rightarrow> transport_config \<Rightarrow> go_error option \<times> transport_config"

definition Dummy_UnmarshalYAML :: "'n yaml_lib \<Rightarrow> 'n \<Rightarrow> dummy_transport \<Rightarrow> go_error option \<times> dummy_transport" where
  "Dummy_UnmarshalYAML Y node d =
     (case y_tls_fields Y node of
        Inl err \<Rightarrow> (Some (wrap_error ''failed to unmarshal dummy transport fields'' err), d)
      | Inr (ty, enabled, ipv4, port, tls) \<Rightarrow>
          (None, d\<lparr>dt_Type := ty, dt_Enabled := enabled, dt_IPv4 := ipv4, dt_Port := port, dt_TLS := tls\<rparr>))"

definition Uds_UnmarshalYAML :: "'n yaml_lib \<Rightarrow> 'n \<Rightarrow> uds_transport \<Rightarrow> go_error option \<times> uds_transport" where
  "Uds_UnmarshalYAML Y node u =
     (case y_uds_fields Y node of
        Inl err \<Rightarrow> (Some (wrap_error ''failed to unmarshal UDS transport fields'' err), u)
      | Inr (ty, enabled, socket) \<Rightarrow> (None, u\<lparr>ut_Type := ty, ut_Enabled := enabled, ut_Socket := socket\<rparr>))"

definition Quic_UnmarshalYAML :: "'n yaml_lib \<Rightarrow> 'n \<Rightarrow> quic_transport \<Rightarrow> go_error option \<times> quic_transport" where
  "Quic_UnmarshalYAML Y node q =
     (case y_tls_fields Y node of
        Inl err \<Rightarrow> (Some (wrap_error ''failed to unmarshal QUIC transport fields'' err), q)
      | Inr (ty, enabled, ipv4, port, tls) \<Rightarrow>
          (None, q\<lparr>qt_Type := ty, qt_Enabled := enabled, qt_IPv4 := ipv4, qt_Port := port, qt_TLS := tls\<rparr>))"

definition Tcp_UnmarshalYAML :: "'n yaml_lib \<Rightarrow> 'n \<Rightarrow> tcp_transport \<Rightarrow> go_error option \<times> tcp_transport" where
  "Tcp_UnmarshalYAML Y node t =
     (case y_tcp_fields Y node of
        Inl err \<Rightarrow> (Some (wrap_error ''failed to unmarshal TCP transport fields'' err), t)
      | Inr (ty, enabled, ipv4, port, tls) \<Rightarrow>
          (None, t\<lparr>tt_Type := ty, tt_Enabled := enabled, tt_IPv4 := ipv4, tt_Port := port, tt_TLS := tls\<rparr>))"

definition Udp_UnmarshalYAML :: "'n yaml_lib \<Rightarrow> 'n \<Rightarrow> udp_transport \<Rightarrow> go_error option \<times> udp_transport" where
  "Udp_UnmarshalYAML Y node t =
     (case y_udp_fields Y node of
        Inl err \<Rightarrow> (Some (wrap_error ''failed to unmarshal UDP transport fields'' err), t)
      | Inr (ty, enabled, ipv4, port, dtls) \<Rightarrow>
          (None, t\<lparr>pt_Type := ty, pt_Enabled := enabled, pt_IPv4 := ipv4, pt_Port := port, pt_DTLS := dtls\<rparr>))"

text \<open>The method of the dynamic type.\<close>

fun config_UnmarshalYAML :: "'n yaml_lib \<Rightarrow> 'n \<Rightarrow> transport_config \<Rightarrow> go_error option \<times> transport_config" where
  "config_UnmarshalYAML Y node (Dummy_Transport d) = (case Dummy_UnmarshalYAML Y node d of (err, d) \<Rightarrow> (err, Dummy_Transport d))"
| "config_UnmarshalYAML Y node (Uds_Transport u) = (case Uds_UnmarshalYAML Y node u of (err, u) \<Rightarrow> (err, Uds_Transport u))"
| "config_UnmarshalYAML Y node (Quic_Transport q) = (case Quic_UnmarshalYAML Y node q of (err, q) \<Rightarrow> (err, Quic_Transport q))"
| "config_UnmarshalYAML Y node (Tcp_Transport t) = (case Tcp_UnmarshalYAML Y node t of (err, t) \<Rightarrow> (err, Tcp_Transport t))"
| "config_UnmarshalYAML Y node (Udp_Transport t) = (case Udp_UnmarshalYAML Y node t of (err, t) \<Rightarrow> (err, Udp_Transport t))"

text \<open>The zero values of Go.\<close>

definition zero_tls :: tls_section where
  "zero_tls = \<lparr>tls_Insecure = False, tls_Cert = '''', tls_Key = '''', tls_RootCA = ''''\<rparr>"

definition zero_dummy :: dummy_transport where
  "zero_dummy = \<lparr>dt_Type = 0, dt_Enabled = False, dt_IPv4 = '''', dt_Port = 0, dt_TLS = zero_tls\<rparr>"

definition zero_uds :: uds_transport where
  "zero_uds = \<lparr>ut_Type = 0, ut_Enabled = False, ut_Socket = ''''\<rparr>"

definition zero_quic :: quic_transport where
  "zero_quic = \<lparr>qt_Type = 0, qt_Enabled = False, qt_IPv4 = '''', qt_Port = 0, qt_TLS = zero_tls\<rparr>"

definition zero_tcp :: tcp_transport where
  "zero_tcp = \<lparr>tt_Type = 0, tt_Enabled = False, tt_IPv4 = '''', tt_Port = 0, tt_TLS = None\<rparr>"

definition zero_udp :: udp_transport where
  "zero_udp = \<lparr>pt_Type = 0, pt_Enabled = False, pt_IPv4 = '''', pt_Port = 0, pt_DTLS = None\<rparr>"

fun set_type :: "transport_type \<Rightarrow> transport_config \<Rightarrow> transport_config" where
  "set_type ty (Dummy_Transport d) = Dummy_Transport (d\<lparr>dt_Type := ty\<rparr>)"
| "set_type ty (Uds_Transport u) = Uds_Transport (u\<lparr>ut_Type := ty\<rparr>)"
| "set_type ty (Quic_Transport q) = Quic_Transport (q\<lparr>qt_Type := ty\<rparr>)"
| "set_type ty (Tcp_Transport t) = Tcp_Transport (t\<lparr>tt_Type := ty\<rparr>)"
| "set_type ty (Udp_Transport t) = Udp_Transport (t\<lparr>pt_Type := ty\<rparr>)"

record transport =
  tr_Type :: transport_type
  tr_Enabled :: bool
  tr_Config :: "transport_config option"

text \<open>One case of the switch: decode into the zero value \<open>zero\<close>, set its type, keep it.\<close>

definition decode_section ::
  "'n yaml_lib \<Rightarrow> string \<Rightarrow> transport_type \<Rightarrow> transport_config \<Rightarrow> 'n \<Rightarrow> transport \<Rightarrow> go_error option \<times> transport" where
  "decode_section Y msg ty zero cfg t =
     (case y_Decode Y (config_UnmarshalYAML Y) cfg zero of
        (Some err, _) \<Rightarrow> (Some (wrap_error msg err), t)
      | (None, config) \<Rightarrow> (None, t\<lparr>tr_Config := Some (set_type ty config)\<rparr>))"

definition Transport_UnmarshalYAML :: "'n yaml_lib \<Rightarrow> 'n \<Rightarrow> transport \<Rightarrow> go_error option \<times> transport" where
  "Transport_UnmarshalYAML Y node t =
     (case y_common Y node of
        Inl err \<Rightarrow> (Some (wrap_error ''failed to unmarshal common transport fields'' err), t)
      | Inr (ty, enabled, cfg) \<Rightarrow>
          (let t = t\<lparr>tr_Type := ty, tr_Enabled := enabled\<rparr> in
           if ty = DummyTransportType then
             decode_section Y ''failed to unmarshal dummy transport config'' DummyTransportType (Dummy_Transport zero_dummy) cfg t
           else if ty = UDSTransportType then
             decode_section Y ''failed to unmarshal UDS transport config'' UDSTransportType (Uds_Transport zero_uds) cfg t
           else if ty = QUICTransportType then
             decode_section Y ''failed to unmarshal QUIC transport config'' QUICTransportType (Quic_Transport zero_quic) cfg t
           else if ty = TCPTransportType then
             decode_section Y ''failed to unmarshal TCP transport config'' TCPTransportType (Tcp_Transport zero_tcp) cfg t
           else if ty = UDPTransportType then
             decode_section Y ''failed to unmarshal UDP transport config'' UDPTransportType (Udp_Transport zero_udp) cfg t
           else (Some (ErrorS ''unsupported transport type: %s''), t)))"

section \<open>TLS settings\<close>

text \<open>
  \<open>tl_missing p\<close> is \<open>os.IsNotExist\<close> of the error of \<open>os.Stat\<close>; \<open>tl_AppendCerts\<close> makes a pool of the certificates in a PEM file, if it has any.
\<close>

record ('c, 'pool) tls_lib =
  tl_missing :: "string \<Rightarrow> bool"
  tl_LoadX509KeyPair :: "string \<Rightarrow> string \<Rightarrow> 'c result"
  tl_ReadFile :: "string \<Rightarrow> bytes result"
  tl_AppendCerts :: "bytes \<Rightarrow> 'pool option"

record ('c, 'pool) tls_config =
  tc_InsecureSkipVerify :: bool
  tc_Certificates :: "'c list"
  tc_NextProtos :: "string list"
  tc_RootCAs :: "'pool option"

text \<open>The body the three methods share, for the certificate, key and root given, on the settings \<open>base\<close> made of the certificate.\<close>

definition load_tls ::
  "('c, 'pool) tls_lib \<Rightarrow> ('c \<Rightarrow> ('c, 'pool) tls_config) \<Rightarrow> string \<Rightarrow> string \<Rightarrow> string \<Rightarrow> ('c, 'pool) tls_config result" where
  "load_tls T base certPath keyPath rootCA =
     (if tl_missing T certPath then Inl (ErrorS ''certificate file does not exist: %s'')
      else if tl_missing T keyPath then Inl (ErrorS ''key file does not exist: %s'')
      else
        bindE (wrapE ''failed to load certificate and key'' (tl_LoadX509KeyPair T certPath keyPath)) (\<lambda>cert.
        let tlsConfig = base cert in
        if rootCA = '''' then Inr tlsConfig
        else
          bindE (wrapE ''failed to read root CA file'' (tl_ReadFile T rootCA)) (\<lambda>caCert.
          case tl_AppendCerts T caCert of
            None \<Rightarrow> Inl (ErrorS ''failed to append root CA certificates'')
          | Some caCertPool \<Rightarrow> Inr (tlsConfig\<lparr>tc_RootCAs := Some caCertPool\<rparr>))))"

definition Tcp_GetTLSConfig :: "('c, 'pool) tls_lib \<Rightarrow> tcp_transport \<Rightarrow> ('c, 'pool) tls_config option result" where
  "Tcp_GetTLSConfig T t =
     (case tt_TLS t of
        None \<Rightarrow> Inr None
      | Some tls \<Rightarrow>
          bindE (load_tls T (\<lambda>cert. \<lparr>tc_InsecureSkipVerify = tls_Insecure tls, tc_Certificates = [cert], tc_NextProtos = [], tc_RootCAs = None\<rparr>)
             (tls_Cert tls) (tls_Key tls) (tls_RootCA tls)) (\<lambda>c. Inr (Some c)))"

definition Udp_GetDTLSConfig :: "('c, 'pool) tls_lib \<Rightarrow> udp_transport \<Rightarrow> ('c, 'pool) tls_config option result" where
  "Udp_GetDTLSConfig T t =
     (case pt_DTLS t of
        None \<Rightarrow> Inr None
      | Some dtls \<Rightarrow>
          bindE (load_tls T (\<lambda>cert. \<lparr>tc_InsecureSkipVerify = dtls_Insecure dtls, tc_Certificates = [cert], tc_NextProtos = [], tc_RootCAs = None\<rparr>)
             (dtls_Cert dtls) (dtls_Key dtls) (dtls_RootCA dtls)) (\<lambda>c. Inr (Some c)))"

definition Quic_GetTLSConfig :: "('c, 'pool) tls_lib \<Rightarrow> quic_transport \<Rightarrow> ('c, 'pool) tls_config option result" where
  "Quic_GetTLSConfig T q =
     bindE (load_tls T (\<lambda>cert. \<lparr>tc_InsecureSkipVerify = False, tc_Certificates = [cert], tc_NextProtos = [''quic-example''], tc_RootCAs = None\<rparr>)
        (tls_Cert (qt_TLS q)) (tls_Key (qt_TLS q)) (tls_RootCA (qt_TLS q))) (\<lambda>c. Inr (Some c))"

definition Dummy_GetTLSConfig :: "dummy_transport \<Rightarrow> ('c, 'pool) tls_config option result" where
  "Dummy_GetTLSConfig d = Inr (Some \<lparr>tc_InsecureSkipVerify = True, tc_Certificates = [], tc_NextProtos = [], tc_RootCAs = None\<rparr>)"

section \<open>The configuration\<close>

record logger_config =
  lc_Enabled :: bool
  lc_Environment :: string
  lc_Level :: string

record mdbx_config =
  mc_Enabled :: bool
  mc_Nodes :: "mdbx_node list"

record identity_config =
  ic_Enabled :: bool
  ic_BasePath :: string
  ic_Keys :: "config_key list"

record sharding_config =
  sc_ShardCount :: int64

record pprof_config =
  pp_Enabled :: bool
  pp_Name :: string
  pp_Addr :: string

record ebpf_config =
  ec_InterfaceName :: string
  ec_Programs :: "ebpf_program list"

record genesis_config =
  gc_Path :: string

text \<open>The settings of the metrics and traces, \<open>'o\<close>, are handed on unread.\<close>

record 'o app_config =
  cfg_Logger :: logger_config
  cfg_Transports :: "transport list"
  cfg_Mdbx :: mdbx_config
  cfg_Networking :: networking_config
  cfg_Identity :: identity_config
  cfg_Sharding :: sharding_config
  cfg_Pprof :: "pprof_config list"
  cfg_EBPF :: ebpf_config
  cfg_Observability :: 'o
  cfg_Genesis :: genesis_config

definition Config_Validate :: "'o app_config \<Rightarrow> go_error option" where
  "Config_Validate c = None"

definition GetTransportByType :: "'o app_config \<Rightarrow> transport_type \<Rightarrow> transport option" where
  "GetTransportByType c transportType = find (\<lambda>t. tr_Type t = transportType) (cfg_Transports c)"

definition GetPprofByServiceTag :: "'o app_config \<Rightarrow> string \<Rightarrow> pprof_config result" where
  "GetPprofByServiceTag c service =
     (case find (\<lambda>opts. pp_Name opts = service) (cfg_Pprof c) of
        Some opts \<Rightarrow> Inr opts
      | None \<Rightarrow> Inl (ErrorS ''could not discover pprof service by tag: %s''))"

text \<open>
  \<open>yaml.Unmarshal\<close> of a file calls \<open>UnmarshalYAML\<close> for each entry of the list of transports, which is given to it; the result carries
  the transports it decoded.
\<close>

record ('n, 'o) config_files =
  cf_ReadFile :: "string \<Rightarrow> bytes result"
  cf_Unmarshal :: "('n \<Rightarrow> transport \<Rightarrow> go_error option \<times> transport) \<Rightarrow> bytes \<Rightarrow> 'o app_config result"

definition LoadConfig :: "'n yaml_lib \<Rightarrow> ('n, 'o) config_files \<Rightarrow> string \<Rightarrow> 'o app_config result" where
  "LoadConfig Y F filename =
     bindE (wrapE ''failed to read config file'' (cf_ReadFile F filename)) (\<lambda>data.
     bindE (wrapE ''failed to unmarshal yaml'' (cf_Unmarshal F (Transport_UnmarshalYAML Y) data)) (\<lambda>rawConfig.
     case Config_Validate rawConfig of
       Some err \<Rightarrow> Inl (wrap_error ''invalid configuration'' err)
     | None \<Rightarrow> Inr rawConfig))"

text \<open>The global configuration is a pointer, nil at first.\<close>

definition Config_G :: "'o app_config option \<Rightarrow> 'o app_config option" where
  "Config_G global = global"

definition InitializeGlobalConfig ::
  "'n yaml_lib \<Rightarrow> ('n, 'o) config_files \<Rightarrow> string \<Rightarrow> 'o app_config option \<Rightarrow> 'o app_config result \<times> 'o app_config option" where
  "InitializeGlobalConfig Y F filename global =
     (case LoadConfig Y F filename of
        Inl err \<Rightarrow> (Inl err, global)
      | Inr rawConfig \<Rightarrow> (Inr rawConfig, Some rawConfig))"

section \<open>Numbers as text\<close>

fun digits_value :: "string \<Rightarrow> nat \<Rightarrow> nat" where
  "digits_value [] acc = acc"
| "digits_value (c # cs) acc = digits_value cs (10 * acc + (of_char c - 48))"

lemma digits_value_append: "digits_value (xs @ ys) acc = digits_value ys (digits_value xs acc)"
  by (induction xs arbitrary: acc) auto

lemma decimal_digit: "n < 10 \<Longrightarrow> of_char (hex_digit n) = 48 + n"
  using less_16_cases [of n] by (auto simp: hex_digit_def)

lemma digits_value_decimal: "digits_value (decimal n) 0 = n"
proof (induction n rule: decimal.induct)
  case (1 n)
  show ?case
  proof (cases "n < 10")
    case True
    then show ?thesis by (simp add: decimal.simps [of n] decimal_digit)
  next
    case False
    then have "digits_value (decimal (n div 10)) 0 = n div 10" using 1 by simp
    with False show ?thesis by (simp add: decimal.simps [of n] digits_value_append decimal_digit)
  qed
qed

lemma decimal_chars: "c \<in> set (decimal n) \<Longrightarrow> 48 \<le> (of_char c :: nat) \<and> (of_char c :: nat) < 58"
proof (induction n rule: decimal.induct)
  case (1 n)
  then show ?case using decimal.simps [of n] decimal_digit [of n] decimal_digit [of "n mod 10"]
    by (cases "n < 10") auto
qed

lemma decimal_inject: "decimal m = decimal n \<longleftrightarrow> m = n"
  by (metis digits_value_decimal)

lemma decimal_no_sign: "decimal n \<noteq> ''-'' @ xs" "CHR '':'' \<notin> set (decimal n)"
proof -
  show "decimal n \<noteq> ''-'' @ xs" using decimal_chars [of "CHR ''-''" n] by auto
  show "CHR '':'' \<notin> set (decimal n)" using decimal_chars [of "CHR '':''" n] by auto
qed

lemma fmt_d_inject: "fmt_d a = fmt_d b \<longleftrightarrow> a = b"
proof
  assume eq: "fmt_d a = fmt_d b"
  then have "sint a = sint b"
    using decimal_no_sign(1) decimal_no_sign(1) [symmetric] unfolding fmt_d_def by (auto simp: decimal_inject split: if_splits)
  then show "a = b" by (rule signed_word_eqI)
qed simp

lemma fmt_d_no_colon: "CHR '':'' \<notin> set (fmt_d a)"
  using decimal_no_sign(2) by (simp add: fmt_d_def)

lemma host_port_inject: "host_port h p = host_port h' p' \<longleftrightarrow> h = h' \<and> p = p'"
proof
  assume eq: "host_port h p = host_port h' p'"
  have split: "takeWhile (\<lambda>c. c \<noteq> CHR '':'') (rev (host_port x q)) = rev (fmt_d q)" for x q
    using fmt_d_no_colon [of q] by (simp add: host_port_def takeWhile_append)
  then have "p = p'" using eq by (metis fmt_d_inject rev_rev_ident)
  with eq show "h = h' \<and> p = p'" by (simp add: host_port_def)
qed simp

section \<open>Sections and their types\<close>

text \<open>The transport type of the dynamic type.\<close>

fun kind_of :: "transport_config \<Rightarrow> transport_type" where
  "kind_of (Dummy_Transport _) = DummyTransportType"
| "kind_of (Uds_Transport _) = UDSTransportType"
| "kind_of (Quic_Transport _) = QUICTransportType"
| "kind_of (Tcp_Transport _) = TCPTransportType"
| "kind_of (Udp_Transport _) = UDPTransportType"

text \<open>
  What is relied on of the YAML library: decoding into a value that has the method calls it or, on a null node, leaves the value alone; and
  the entries of a list are decoded that way from the zero value.
\<close>

definition zero_transport :: transport where
  "zero_transport = \<lparr>tr_Type = 0, tr_Enabled = False, tr_Config = None\<rparr>"

definition decode_laws :: "'n yaml_lib \<Rightarrow> bool" where
  "decode_laws Y \<longleftrightarrow> (\<forall>u n c c'. y_Decode Y u n c = (None, c') \<longrightarrow> c' = c \<or> u n c = (None, c'))"

definition file_laws :: "('n, 'o) config_files \<Rightarrow> bool" where
  "file_laws F \<longleftrightarrow> (\<forall>u data c. cf_Unmarshal F u data = Inr c \<longrightarrow>
     (\<forall>t \<in> set (cfg_Transports c). t = zero_transport \<or> (\<exists>n. u n zero_transport = (None, t))))"

lemma config_UnmarshalYAML_kind: "config_UnmarshalYAML Y node c = (r, c') \<Longrightarrow> kind_of c' = kind_of c"
  by (cases c) (auto split: prod.splits)

lemma set_type_kind [simp]: "kind_of (set_type ty c) = kind_of c" "GetTransportType (set_type ty c) = ty"
  by (cases c; simp)+

lemma decode_section_result:
  assumes "decode_laws Y" "decode_section Y msg ty zero cfg t = (r, t')"
  shows "tr_Type t' = tr_Type t \<and> tr_Enabled t' = tr_Enabled t \<and>
    (if r = None then \<exists>c. tr_Config t' = Some c \<and> GetTransportType c = ty \<and> kind_of c = kind_of zero else t' = t)"
proof -
  obtain e c where dec: "y_Decode Y (config_UnmarshalYAML Y) cfg zero = (e, c)" by (metis surj_pair)
  show ?thesis
  proof (cases e)
    case None
    then have "c = zero \<or> config_UnmarshalYAML Y cfg zero = (None, c)" using assms(1) dec unfolding decode_laws_def by metis
    then have "kind_of c = kind_of zero" using config_UnmarshalYAML_kind by metis
    with dec None assms(2) show ?thesis by (auto simp: decode_section_def)
  qed (use dec assms(2) in \<open>auto simp: decode_section_def\<close>)
qed

lemma transport_decoded:
  assumes "decode_laws Y" "Transport_UnmarshalYAML Y node t = (r, t')"
  shows "if r = None then \<exists>c. tr_Config t' = Some c \<and> GetTransportType c = tr_Type t' \<and> kind_of c = tr_Type t' else tr_Config t' = tr_Config t"
proof (cases "y_common Y node")
  case (Inr fields)
  obtain ty enabled cfg where f: "fields = (ty, enabled, cfg)" by (cases fields)
  let ?t = "t\<lparr>tr_Type := ty, tr_Enabled := enabled\<rparr>"
  from assms(2) Inr f consider msg zero where "decode_section Y msg ty zero cfg ?t = (r, t')" "kind_of zero = ty" | "r \<noteq> None" "t' = ?t"
    by (auto simp: Transport_UnmarshalYAML_def Let_def split: if_splits)
  then show ?thesis
  proof cases
    case 1
    from decode_section_result [OF assms(1) 1(1)] 1(2) show ?thesis by (auto split: if_splits)
  next
    case 2
    then show ?thesis by (cases r) auto
  qed
qed (use assms(2) in \<open>auto simp: Transport_UnmarshalYAML_def\<close>)

lemma load_tls_Inr:
  "load_tls T base c k r = Inr cfg \<longleftrightarrow> \<not> tl_missing T c \<and> \<not> tl_missing T k \<and>
     (\<exists>cert. tl_LoadX509KeyPair T c k = Inr cert \<and>
        (if r = '''' then cfg = base cert
         else \<exists>data pool. tl_ReadFile T r = Inr data \<and> tl_AppendCerts T data = Some pool \<and> cfg = (base cert)\<lparr>tc_RootCAs := Some pool\<rparr>))"
  by (auto simp: load_tls_def bindE_def wrapE_def Let_def split: sum.splits option.splits if_splits)

section \<open>Properties\<close>

text \<open>
  A transport carries the section its type names: in a configuration that loads, what \<open>GetTransportByType\<close> finds for a type has that
  type, and its section is of the dynamic type that belongs to it and answers \<open>GetTransportType\<close> with it, whatever type the section
  itself names in the file; only a null entry of the list has no section.  The configuration that was loaded is the global one, and one that
  fails to load leaves the global one alone.
\<close>

theorem transports_match_their_sections:
  assumes "decode_laws Y" "file_laws F" "InitializeGlobalConfig Y F filename global = (r, global')"
  shows "case r of
      Inl err \<Rightarrow> global' = global
    | Inr c \<Rightarrow> Config_G global' = Some c \<and> (\<forall>ty t. GetTransportByType c ty = Some t \<longrightarrow> tr_Type t = ty \<and>
        (t = zero_transport \<or> (\<exists>s. tr_Config t = Some s \<and> kind_of s = ty \<and> GetTransportType s = ty)))"
proof (cases "LoadConfig Y F filename")
  case (Inr c)
  obtain data where "cf_Unmarshal F (Transport_UnmarshalYAML Y) data = Inr c"
    using Inr by (auto simp: LoadConfig_def bindE_eq_Inr split: option.splits)
  then have list: "\<forall>t \<in> set (cfg_Transports c). t = zero_transport \<or> (\<exists>n. Transport_UnmarshalYAML Y n zero_transport = (None, t))"
    using assms(2) unfolding file_laws_def by blast
  have "tr_Type t = ty \<and> (t = zero_transport \<or> (\<exists>s. tr_Config t = Some s \<and> kind_of s = ty \<and> GetTransportType s = ty))"
    if "GetTransportByType c ty = Some t" for ty t
  proof -
    have t: "t \<in> set (cfg_Transports c)" "tr_Type t = ty" using that by (auto simp: GetTransportByType_def find_Some_iff)
    then consider "t = zero_transport" | n where "Transport_UnmarshalYAML Y n zero_transport = (None, t)" using list by blast
    then show ?thesis
    proof cases
      case 2
      from transport_decoded [OF assms(1) 2] t(2) show ?thesis by auto
    qed (use t in simp)
  qed
  moreover have "r = Inr c" "global' = Some c" using assms(3) Inr by (auto simp: InitializeGlobalConfig_def)
  ultimately show ?thesis by (simp add: Config_G_def)
next
  case (Inl err)
  then have "r = Inl err" "global' = global" using assms(3) by (auto simp: InitializeGlobalConfig_def)
  then show ?thesis by simp
qed

text \<open>
  An address tells host and port apart: two transports over IP have the same address only if they have the same host and the same port,
  also when the host contains colons.
\<close>

theorem address_determines_host_and_port:
  "(Addr (Tcp_Transport a) = Addr (Udp_Transport b) \<longleftrightarrow> tt_IPv4 a = pt_IPv4 b \<and> tt_Port a = pt_Port b) \<and>
   (Addr (Quic_Transport c) = Addr (Dummy_Transport d) \<longleftrightarrow> qt_IPv4 c = dt_IPv4 d \<and> qt_Port c = dt_Port d) \<and>
   (Addr (Tcp_Transport a) = Addr (Quic_Transport c) \<longleftrightarrow> tt_IPv4 a = qt_IPv4 c \<and> tt_Port a = qt_Port c)"
  by (simp add: host_port_inject)

text \<open>
  TLS settings are made of files that were there: the settings of a TCP, UDP or QUIC transport hold exactly one certificate, loaded from
  the files that are configured, and a pool of roots exactly when a root file is configured; verification is skipped for TCP and UDP
  exactly when that is configured, and never for QUIC, even when its section asks for it.
\<close>

theorem tls_settings_sound:
  assumes "Tcp_GetTLSConfig T t = Inr (Some c)" "Udp_GetDTLSConfig T u = Inr (Some d)" "Quic_GetTLSConfig T q = Inr (Some e)"
  shows "(\<exists>s cert. tt_TLS t = Some s \<and> tl_LoadX509KeyPair T (tls_Cert s) (tls_Key s) = Inr cert \<and> tc_Certificates c = [cert] \<and>
      \<not> tl_missing T (tls_Cert s) \<and> \<not> tl_missing T (tls_Key s) \<and>
      tc_InsecureSkipVerify c = tls_Insecure s \<and> (tc_RootCAs c = None \<longleftrightarrow> tls_RootCA s = '''')) \<and>
    (\<exists>s cert. pt_DTLS u = Some s \<and> tl_LoadX509KeyPair T (dtls_Cert s) (dtls_Key s) = Inr cert \<and> tc_Certificates d = [cert] \<and>
      \<not> tl_missing T (dtls_Cert s) \<and> \<not> tl_missing T (dtls_Key s) \<and>
      tc_InsecureSkipVerify d = dtls_Insecure s \<and> (tc_RootCAs d = None \<longleftrightarrow> dtls_RootCA s = '''')) \<and>
    (\<exists>cert. tl_LoadX509KeyPair T (tls_Cert (qt_TLS q)) (tls_Key (qt_TLS q)) = Inr cert \<and> tc_Certificates e = [cert] \<and>
      \<not> tl_missing T (tls_Cert (qt_TLS q)) \<and> \<not> tl_missing T (tls_Key (qt_TLS q)) \<and>
      \<not> tc_InsecureSkipVerify e \<and> (tc_RootCAs e = None \<longleftrightarrow> tls_RootCA (qt_TLS q) = ''''))"
proof (intro conjI)
  show "\<exists>s cert. tt_TLS t = Some s \<and> tl_LoadX509KeyPair T (tls_Cert s) (tls_Key s) = Inr cert \<and> tc_Certificates c = [cert] \<and>
      \<not> tl_missing T (tls_Cert s) \<and> \<not> tl_missing T (tls_Key s) \<and>
      tc_InsecureSkipVerify c = tls_Insecure s \<and> (tc_RootCAs c = None \<longleftrightarrow> tls_RootCA s = '''')"
    using assms(1) by (auto simp: Tcp_GetTLSConfig_def bindE_eq_Inr load_tls_Inr split: option.splits if_splits)
  show "\<exists>s cert. pt_DTLS u = Some s \<and> tl_LoadX509KeyPair T (dtls_Cert s) (dtls_Key s) = Inr cert \<and> tc_Certificates d = [cert] \<and>
      \<not> tl_missing T (dtls_Cert s) \<and> \<not> tl_missing T (dtls_Key s) \<and>
      tc_InsecureSkipVerify d = dtls_Insecure s \<and> (tc_RootCAs d = None \<longleftrightarrow> dtls_RootCA s = '''')"
    using assms(2) by (auto simp: Udp_GetDTLSConfig_def bindE_eq_Inr load_tls_Inr split: option.splits if_splits)
  show "\<exists>cert. tl_LoadX509KeyPair T (tls_Cert (qt_TLS q)) (tls_Key (qt_TLS q)) = Inr cert \<and> tc_Certificates e = [cert] \<and>
      \<not> tl_missing T (tls_Cert (qt_TLS q)) \<and> \<not> tl_missing T (tls_Key (qt_TLS q)) \<and>
      \<not> tc_InsecureSkipVerify e \<and> (tc_RootCAs e = None \<longleftrightarrow> tls_RootCA (qt_TLS q) = '''')"
    using assms(3) by (auto simp: Quic_GetTLSConfig_def bindE_eq_Inr load_tls_Inr split: if_splits)
qed

section \<open>Witnesses\<close>

text \<open>A document of one transport, whose node is its own section.\<close>

definition sample_yaml :: "unit yaml_lib" where
  "sample_yaml = \<lparr>y_common = (\<lambda>n. Inr (TCPTransportType, True, n)), y_tls_fields = (\<lambda>n. Inl EOF),
     y_tcp_fields = (\<lambda>n. Inr (UDPTransportType, False, ''127.0.0.1'', 4242, None)), y_udp_fields = (\<lambda>n. Inl EOF), y_uds_fields = (\<lambda>n. Inl EOF),
     y_Decode = (\<lambda>u. u)\<rparr>"

definition sample_config :: "transport list \<Rightarrow> unit app_config" where
  "sample_config ts = \<lparr>cfg_Logger = \<lparr>lc_Enabled = True, lc_Environment = ''Production'', lc_Level = ''info''\<rparr>, cfg_Transports = ts,
     cfg_Mdbx = \<lparr>mc_Enabled = True, mc_Nodes = [sample_node ''chain'']\<rparr>,
     cfg_Networking = \<lparr>nc_ListenAddrs = [], nc_ProtocolID = '''', nc_PeerID = [], nc_BootstrapPeers = [], nc_BootstrapNode = False,
       nc_EnableMDNS = False, nc_EnableRelay = False, nc_InterfaceName = ''''\<rparr>,
     cfg_Identity = \<lparr>ic_Enabled = True, ic_BasePath = ''keys'', ic_Keys = []\<rparr>, cfg_Sharding = \<lparr>sc_ShardCount = 4\<rparr>, cfg_Pprof = [],
     cfg_EBPF = \<lparr>ec_InterfaceName = ''eth0'', ec_Programs = []\<rparr>, cfg_Observability = (), cfg_Genesis = \<lparr>gc_Path = ''genesis.yaml''\<rparr>\<rparr>"

definition sample_config_files :: "(unit, unit) config_files" where
  "sample_config_files = \<lparr>cf_ReadFile = (\<lambda>p. Inr []), cf_Unmarshal = (\<lambda>u data. case u () zero_transport of
     (Some err, _) \<Rightarrow> Inl err | (None, t) \<Rightarrow> Inr (sample_config [t]))\<rparr>"

lemma sample_yaml_laws: "decode_laws sample_yaml" "file_laws sample_config_files"
  by (auto simp: decode_laws_def sample_yaml_def file_laws_def sample_config_files_def sample_config_def split: prod.splits option.splits)

definition sample_tcp :: tcp_transport where
  "sample_tcp = \<lparr>tt_Type = TCPTransportType, tt_Enabled = False, tt_IPv4 = ''127.0.0.1'', tt_Port = 4242, tt_TLS = None\<rparr>"

theorem transports_match_their_sections_witness:
  "\<exists>c. InitializeGlobalConfig sample_yaml sample_config_files ''config.yaml'' None = (Inr c, Some c) \<and>
     (\<exists>t s. GetTransportByType c TCPTransportType = Some t \<and> tr_Config t = Some s \<and> GetTransportType s = TCPTransportType)"
proof -
  let ?t = "\<lparr>tr_Type = TCPTransportType, tr_Enabled = True, tr_Config = Some (Tcp_Transport sample_tcp)\<rparr>"
  have "Transport_UnmarshalYAML sample_yaml () zero_transport = (None, ?t)"
    by (simp add: Transport_UnmarshalYAML_def decode_section_def Tcp_UnmarshalYAML_def sample_yaml_def zero_transport_def zero_tcp_def sample_tcp_def
        transport_type_defs)
  then have load: "InitializeGlobalConfig sample_yaml sample_config_files ''config.yaml'' None = (Inr (sample_config [?t]), Some (sample_config [?t]))"
    by (simp add: InitializeGlobalConfig_def LoadConfig_def sample_config_files_def Config_Validate_def)
  have found: "GetTransportByType (sample_config [?t]) TCPTransportType = Some ?t" by (simp add: GetTransportByType_def sample_config_def)
  have "?t \<noteq> zero_transport" by (simp add: zero_transport_def)
  with found have "\<exists>s. tr_Config ?t = Some s \<and> kind_of s = TCPTransportType \<and> GetTransportType s = TCPTransportType"
    using transports_match_their_sections [OF sample_yaml_laws load] unfolding sum.case by blast
  with load found show ?thesis by blast
qed

definition sample_tls :: "(nat, nat) tls_lib" where
  "sample_tls = \<lparr>tl_missing = (\<lambda>p. p = ''''), tl_LoadX509KeyPair = (\<lambda>c k. Inr 7), tl_ReadFile = (\<lambda>p. Inr []), tl_AppendCerts = (\<lambda>bs. Some 9)\<rparr>"

theorem tls_settings_sound_witness:
  "\<exists>e. Quic_GetTLSConfig sample_tls (zero_quic\<lparr>qt_TLS := \<lparr>tls_Insecure = True, tls_Cert = ''c'', tls_Key = ''k'', tls_RootCA = ''''\<rparr>\<rparr>) = Inr (Some e) \<and>
     \<not> tc_InsecureSkipVerify e \<and> tc_RootCAs e = None"
proof -
  let ?q = "zero_quic\<lparr>qt_TLS := \<lparr>tls_Insecure = True, tls_Cert = ''c'', tls_Key = ''k'', tls_RootCA = ''''\<rparr>\<rparr>"
  let ?t = "zero_tcp\<lparr>tt_TLS := Some \<lparr>tls_Insecure = True, tls_Cert = ''c'', tls_Key = ''k'', tls_RootCA = ''r''\<rparr>\<rparr>"
  let ?u = "zero_udp\<lparr>pt_DTLS := Some \<lparr>dtls_Cert = ''c'', dtls_Key = ''k'', dtls_RootCA = '''', dtls_Insecure = False\<rparr>\<rparr>"
  obtain c d e where made: "Tcp_GetTLSConfig sample_tls ?t = Inr (Some c)" "Udp_GetDTLSConfig sample_tls ?u = Inr (Some d)"
    "Quic_GetTLSConfig sample_tls ?q = Inr (Some e)"
    by (simp add: Tcp_GetTLSConfig_def Udp_GetDTLSConfig_def Quic_GetTLSConfig_def load_tls_def sample_tls_def)
  from tls_settings_sound [OF made] made(3) show ?thesis by auto
qed

end
