(* ===== verification/Logging.thy ===== *)
theory Logging
  imports Configuration
begin

text \<open>
  \<open>pkg/logger\<close> and the hooks of \<open>main.go\<close> around every command: the logger made from the configuration, the global logger, and
  what its calls do.  Zap is a record of functions on the environment \<open>'e\<close> it writes to.  Shown here: which configurations make a logger;
  a message is written exactly from the configured level on; \<open>Fatal\<close> of the disabled logger returns.
\<close>

section \<open>Lower case\<close>

text \<open>
  \<open>strings.ToLower\<close>, on the bytes of a string, as far as it decides which strings become a given ASCII string: the letters A to Z, and the
  two other runes whose lower case is ASCII (U+0130 and the Kelvin sign); all other bytes are kept.
\<close>

definition lower_char :: "char \<Rightarrow> char" where
  "lower_char c = (if 65 \<le> (of_char c :: nat) \<and> (of_char c :: nat) \<le> 90 then char_of ((of_char c :: nat) + 32) else c)"

fun ToLower :: "string \<Rightarrow> string" where
  "ToLower [] = []"
| "ToLower (c # cs) =
     (if c = CHR 0xC4 \<and> take 1 cs = [CHR 0xB0] then CHR ''i'' # ToLower (drop 1 cs)
      else if c = CHR 0xE2 \<and> take 2 cs = [CHR 0x84, CHR 0xAA] then CHR ''k'' # ToLower (drop 2 cs)
      else lower_char c # ToLower cs)"

declare ToLower.simps [simp del]

section \<open>Loggers\<close>

datatype log_level = DebugLevel | InfoLevel | WarnLevel | ErrorLevel

fun severity :: "log_level \<Rightarrow> nat" where
  "severity DebugLevel = 0"
| "severity InfoLevel = 1"
| "severity WarnLevel = 2"
| "severity ErrorLevel = 3"

record zap_config =
  zc_production :: bool
  zc_Level :: log_level

text \<open>\<open>zap_log\<close> is \<open>Debugw\<close>, \<open>Infow\<close>, \<open>Warnw\<close> or \<open>Errorw\<close>, by the level; \<open>zap_Fatalw\<close> writes and ends the process.\<close>

record ('z, 'kv, 'e) zap_lib =
  zap_Build :: "zap_config \<Rightarrow> 'z result"
  zap_log :: "'z \<Rightarrow> log_level \<Rightarrow> string \<Rightarrow> 'kv list \<Rightarrow> 'e \<Rightarrow> 'e"
  zap_Fatalw :: "'z \<Rightarrow> string \<Rightarrow> 'kv list \<Rightarrow> 'e \<Rightarrow> 'e"
  zap_Sync :: "'z \<Rightarrow> 'e \<Rightarrow> go_error option"

datatype 'z logger = NoOpLogger | ZapLogger 'z

definition parse_level :: "string \<Rightarrow> log_level result" where
  "parse_level level =
     (if level = ''debug'' then Inr DebugLevel
      else if level = ''info'' then Inr InfoLevel
      else if level = ''warn'' then Inr WarnLevel
      else if level = ''error'' then Inr ErrorLevel
      else Inl (ErrorS ''invalid log level; must be debug, info, warn, or error''))"

definition NewZapLogger :: "('z, 'kv, 'e) zap_lib \<Rightarrow> logger_config \<Rightarrow> 'z logger result" where
  "NewZapLogger Z cfg =
     (let env = ToLower (lc_Environment cfg) in
      if env \<noteq> ''production'' \<and> env \<noteq> ''development'' then
        Inl (ErrorS ''invalid environment; must be production or development'')
      else
        bindE (parse_level (ToLower (lc_Level cfg))) (\<lambda>level.
        bindE (zap_Build Z \<lparr>zc_production = (env = ''production''), zc_Level = level\<rparr>) (\<lambda>sugar.
        Inr (ZapLogger sugar))))"

definition Factory :: "('z, 'kv, 'e) zap_lib \<Rightarrow> logger_config \<Rightarrow> 'z logger result" where
  "Factory Z cfg =
     (if \<not> lc_Enabled cfg then Inr NoOpLogger
      else
        (let env = ToLower (lc_Environment cfg) in
         if env = ''production'' \<or> env = ''development'' then NewZapLogger Z cfg
         else Inl (ErrorS ''unsupported environment for logger'')))"

fun Logger_write :: "('z, 'kv, 'e) zap_lib \<Rightarrow> 'z logger \<Rightarrow> log_level \<Rightarrow> string \<Rightarrow> 'kv list \<Rightarrow> 'e \<Rightarrow> 'e" where
  "Logger_write Z NoOpLogger level msg keysAndValues e = e"
| "Logger_write Z (ZapLogger sugar) level msg keysAndValues e = zap_log Z sugar level msg keysAndValues e"

text \<open>\<open>Fatal\<close>: what was written, and whether the call returns.\<close>

fun Logger_Fatal :: "('z, 'kv, 'e) zap_lib \<Rightarrow> 'z logger \<Rightarrow> string \<Rightarrow> 'kv list \<Rightarrow> 'e \<Rightarrow> 'e \<times> bool" where
  "Logger_Fatal Z NoOpLogger msg keysAndValues e = (e, True)"
| "Logger_Fatal Z (ZapLogger sugar) msg keysAndValues e = (zap_Fatalw Z sugar msg keysAndValues e, False)"

section \<open>The global logger\<close>

definition SetGlobalLogger :: "'z logger \<Rightarrow> 'z logger option \<Rightarrow> go_error option \<times> 'z logger option" where
  "SetGlobalLogger l globalLogger = (None, Some l)"

definition Logger_G :: "'z logger option \<Rightarrow> 'z logger" where
  "Logger_G globalLogger = (case globalLogger of Some l \<Rightarrow> l | None \<Rightarrow> NoOpLogger)"

definition InitializeGlobalLogger ::
  "('z, 'kv, 'e) zap_lib \<Rightarrow> logger_config \<Rightarrow> 'z logger option \<Rightarrow> 'z logger result \<times> 'z logger option" where
  "InitializeGlobalLogger Z cfg globalLogger =
     (case Factory Z cfg of
        Inl err \<Rightarrow> (Inl err, globalLogger)
      | Inr l \<Rightarrow>
          (case SetGlobalLogger l globalLogger of
             (Some err, globalLogger) \<Rightarrow> (Inl err, globalLogger)
           | (None, globalLogger) \<Rightarrow> (Inr l, globalLogger)))"

definition EINVAL :: go_error where "EINVAL = ErrorS ''invalid argument''"

definition Logger_Sync :: "('z, 'kv, 'e) zap_lib \<Rightarrow> 'z logger option \<Rightarrow> 'e \<Rightarrow> go_error option" where
  "Logger_Sync Z globalLogger e =
     (case globalLogger of
        Some (ZapLogger sugar) \<Rightarrow>
          (case zap_Sync Z sugar e of
             None \<Rightarrow> None
           | Some err \<Rightarrow> (if errors_Is err EINVAL then None else Some err))
      | _ \<Rightarrow> None)"

section \<open>The hooks of the program\<close>

text \<open>\<open>Before\<close> and \<open>After\<close> of the application; the globals are the configuration and the logger.\<close>

definition main_Before ::
  "'n yaml_lib \<Rightarrow> ('n, 'o) config_files \<Rightarrow> ('z, 'kv, 'e) zap_lib \<Rightarrow> string \<Rightarrow> 'o app_config option \<times> 'z logger option \<Rightarrow> 'e \<Rightarrow>
    go_error option \<times> ('o app_config option \<times> 'z logger option) \<times> 'e" where
  "main_Before Y F Z filename = (\<lambda>(global, globalLogger) e.
     (case InitializeGlobalConfig Y F filename global of
        (Inl err, global) \<Rightarrow> (Some (wrap_error ''failure to load main peerdns configuration file'' err), (global, globalLogger), e)
      | (Inr cfg, global) \<Rightarrow>
          (case InitializeGlobalLogger Z (cfg_Logger cfg) globalLogger of
             (Inl err, globalLogger) \<Rightarrow> (Some (wrap_error ''failure to initialize logger'' err), (global, globalLogger), e)
           | (Inr gLog, globalLogger) \<Rightarrow>
               (None, (global, globalLogger),
                Logger_write Z gLog DebugLevel ''Successfully loaded global configuration and logger setup'' [] e))))"

definition main_After :: "('z, 'kv, 'e) zap_lib \<Rightarrow> 'o app_config option \<times> 'z logger option \<Rightarrow> 'e \<Rightarrow> go_error option" where
  "main_After Z globals e = Logger_Sync Z (snd globals) e"

section \<open>Properties\<close>

text \<open>
  What is relied on: a logger built for a level writes a message of that level or a more severe one, and no other.  \<open>entries e\<close> is
  what has been written.
\<close>

definition zap_laws :: "('z, 'kv, 'e) zap_lib \<Rightarrow> ('e \<Rightarrow> (log_level \<times> string \<times> 'kv list) list) \<Rightarrow> bool" where
  "zap_laws Z entries \<longleftrightarrow>
     (\<forall>c z level msg kvs e. zap_Build Z c = Inr z \<longrightarrow>
        entries (zap_log Z z level msg kvs e) =
          entries e @ (if severity (zc_Level c) \<le> severity level then [(level, msg, kvs)] else []))"

text \<open>The level a configuration names, for an enabled logger of a known environment.\<close>

definition configured_level :: "logger_config \<Rightarrow> log_level option" where
  "configured_level cfg =
     (if lc_Enabled cfg \<and> ToLower (lc_Environment cfg) \<in> {''production'', ''development''}
      then (case parse_level (ToLower (lc_Level cfg)) of Inl _ \<Rightarrow> None | Inr l \<Rightarrow> Some l) else None)"

lemma Factory_cases:
  "Factory Z cfg = Inr l \<longleftrightarrow> (if lc_Enabled cfg
     then \<exists>level z. configured_level cfg = Some level \<and>
       zap_Build Z \<lparr>zc_production = (ToLower (lc_Environment cfg) = ''production''), zc_Level = level\<rparr> = Inr z \<and> l = ZapLogger z
     else l = NoOpLogger)"
  by (auto simp: Factory_def NewZapLogger_def configured_level_def bindE_eq_Inr Let_def split: sum.splits)

text \<open>
  The program logs from the configured level on: after \<open>Before\<close> has returned without an error, a message is written by the
  global logger exactly when logging is enabled and the message is at least as severe as the configured level, which is then one of the four
  the code knows; when logging is disabled nothing is written.  When \<open>Before\<close> fails the global logger is what it was.
\<close>

theorem logs_from_configured_level:
  assumes "zap_laws Z entries" "main_Before Y F Z filename (global, gl) e0 = (r, (global', gl'), e1)"
  shows "if r = None
    then \<exists>cfg. global' = Some cfg \<and>
      (if lc_Enabled (cfg_Logger cfg)
       then \<exists>l. configured_level (cfg_Logger cfg) = Some l \<and>
         entries (Logger_write Z (Logger_G gl') level msg kvs e) = entries e @ (if severity l \<le> severity level then [(level, msg, kvs)] else [])
       else Logger_write Z (Logger_G gl') level msg kvs e = e)
    else gl' = gl"
proof (cases r)
  case None
  then obtain cfg l where cfg: "global' = Some cfg" "Factory Z (cfg_Logger cfg) = Inr l" "gl' = Some l"
    using assms(2) by (auto simp: main_Before_def InitializeGlobalConfig_def InitializeGlobalLogger_def SetGlobalLogger_def split: sum.splits)
  have "if lc_Enabled (cfg_Logger cfg)
       then \<exists>l. configured_level (cfg_Logger cfg) = Some l \<and>
         entries (Logger_write Z (Logger_G gl') level msg kvs e) = entries e @ (if severity l \<le> severity level then [(level, msg, kvs)] else [])
       else Logger_write Z (Logger_G gl') level msg kvs e = e"
  proof (cases "lc_Enabled (cfg_Logger cfg)")
    case True
    with cfg(2) obtain lv z where z: "configured_level (cfg_Logger cfg) = Some lv" "l = ZapLogger z"
      "zap_Build Z \<lparr>zc_production = (ToLower (lc_Environment (cfg_Logger cfg)) = ''production''), zc_Level = lv\<rparr> = Inr z"
      by (auto simp: Factory_cases)
    with assms(1) show ?thesis unfolding zap_laws_def using True cfg(3) by (force simp: Logger_G_def)
  qed (use cfg in \<open>simp add: Factory_cases Logger_G_def\<close>)
  with None cfg(1) show ?thesis by auto
next
  case (Some err)
  then have "gl' = gl"
    using assms(2) by (auto simp: main_Before_def InitializeGlobalConfig_def InitializeGlobalLogger_def SetGlobalLogger_def split: sum.splits)
  with Some show ?thesis by simp
qed

text \<open>
  \<open>Fatal\<close> ends the process only when logging is enabled: with logging disabled \<open>Before\<close> succeeds whatever environment and level are
  configured, and \<open>Fatal\<close> of the global logger writes nothing and returns.
\<close>

theorem fatal_returns_when_disabled:
  assumes "LoadConfig Y F filename = Inr cfg" "\<not> lc_Enabled (cfg_Logger cfg)"
  shows "\<exists>gl'. main_Before Y F Z filename (global, gl) e0 = (None, (Some cfg, gl'), e0) \<and> Logger_Fatal Z (Logger_G gl') msg kvs e = (e, True)"
  using assms by (simp add: main_Before_def InitializeGlobalConfig_def InitializeGlobalLogger_def Factory_def SetGlobalLogger_def Logger_G_def)

section \<open>Witnesses\<close>

definition sample_zap :: "(log_level, unit, (log_level \<times> string \<times> unit list) list) zap_lib" where
  "sample_zap = \<lparr>zap_Build = (\<lambda>c. Inr (zc_Level c)),
     zap_log = (\<lambda>z level msg kvs e. e @ (if severity z \<le> severity level then [(level, msg, kvs)] else [])),
     zap_Fatalw = (\<lambda>z msg kvs e. e), zap_Sync = (\<lambda>z e. Some EINVAL)\<rparr>"

lemma sample_zap_laws: "zap_laws sample_zap (\<lambda>e. e)"
  by (auto simp: zap_laws_def sample_zap_def)

definition plain_files :: "unit app_config \<Rightarrow> (unit, unit) config_files" where
  "plain_files c = \<lparr>cf_ReadFile = (\<lambda>p. Inr []), cf_Unmarshal = (\<lambda>u data. Inr c)\<rparr>"

lemma plain_LoadConfig: "LoadConfig Y (plain_files c) filename = Inr c"
  by (simp add: LoadConfig_def plain_files_def Config_Validate_def)

theorem logs_from_configured_level_witness:
  "\<exists>gl. main_Before sample_yaml (plain_files (sample_config [])) sample_zap ''config.yaml'' (None, None) [] = (None, (Some (sample_config []), gl), []) \<and>
     Logger_write sample_zap (Logger_G gl) WarnLevel ''slow'' [] [] = [(WarnLevel, ''slow'', [])]"
proof -
  have lower: "ToLower ''Production'' = ''production''" "ToLower ''info'' = ''info''"
    by (simp_all add: ToLower.simps lower_char_def char_of_def bit_simps)
  have cfg: "cfg_Logger (sample_config []) = \<lparr>lc_Enabled = True, lc_Environment = ''Production'', lc_Level = ''info''\<rparr>"
    by (simp add: sample_config_def)
  have fac: "Factory sample_zap \<lparr>lc_Enabled = True, lc_Environment = ''Production'', lc_Level = ''info''\<rparr> = Inr (ZapLogger InfoLevel)"
    by (simp add: Factory_def NewZapLogger_def parse_level_def lower sample_zap_def)
  have before: "main_Before sample_yaml (plain_files (sample_config [])) sample_zap ''config.yaml'' (None, None) [] =
      (None, (Some (sample_config []), Some (ZapLogger InfoLevel)), [])"
    by (simp add: main_Before_def InitializeGlobalConfig_def plain_LoadConfig InitializeGlobalLogger_def cfg fac SetGlobalLogger_def)
      (simp add: sample_zap_def)
  have level: "configured_level (cfg_Logger (sample_config [])) = Some InfoLevel" "lc_Enabled (cfg_Logger (sample_config []))"
    by (simp_all add: configured_level_def parse_level_def cfg lower)
  have "Logger_write sample_zap (Logger_G (Some (ZapLogger InfoLevel))) WarnLevel ''slow'' [] [] = [(WarnLevel, ''slow'', [])]"
    using logs_from_configured_level [OF sample_zap_laws before, of WarnLevel "''slow''" "[]" "[]"] level by simp
  with before show ?thesis by blast
qed

theorem fatal_returns_when_disabled_witness:
  "\<exists>gl. main_Before sample_yaml (plain_files ((sample_config [])\<lparr>cfg_Logger := \<lparr>lc_Enabled = False, lc_Environment = ''?'', lc_Level = ''?''\<rparr>\<rparr>)) sample_zap
      ''config.yaml'' (None, None) [] =
      (None, (Some ((sample_config [])\<lparr>cfg_Logger := \<lparr>lc_Enabled = False, lc_Environment = ''?'', lc_Level = ''?''\<rparr>\<rparr>), gl), []) \<and>
     Logger_Fatal sample_zap (Logger_G gl) ''broken'' [] [] = ([], True)"
  using fatal_returns_when_disabled [OF plain_LoadConfig, of "(sample_config [])\<lparr>cfg_Logger := \<lparr>lc_Enabled = False, lc_Environment = ''?'', lc_Level = ''?''\<rparr>\<rparr>"]
  by simp

end
