(* ===== verification/Services.thy ===== *)
theory Services
  imports Runtime_Services Node Logging
begin

text \<open>
  \<open>services/*\<close>, \<open>pkg/runtime/base.go\<close>, \<open>pkg/runtime/global.go\<close> and \<open>cmd/runtime.go\<close>: the seven services, their entry points, the base service they
  share, and the command that builds and starts them.  A service acts on the world: the node, the network, the databases and the
  resources.  Shown here: every service package is registered and the services the command starts by default are there whatever order
  the handlers run in; a node that cannot be created ends the command with that error; what the chain and the consensus service start; a
  base service that cannot load its accounts keeps its databases open.
\<close>

section \<open>The world of the services\<close>

datatype ('v, 'im, 'ob) shared_resource =
    Res_Node | Res_Storage "'v db manager" | Res_Identity 'im | Res_Observability "'ob option"

definition res_Storage :: string where "res_Storage = ''storage''"
definition res_Identity :: string where "res_Identity = ''identity''"
definition res_Observability :: string where "res_Observability = ''observability''"
definition res_Node :: string where "res_Node = ''node''"

lemmas res_names = res_Storage_def res_Identity_def res_Observability_def res_Node_def

text \<open>The type assertion to a node.\<close>

fun as_node :: "('v, 'im, 'ob) shared_resource \<Rightarrow> unit option" where
  "as_node Res_Node = Some ()"
| "as_node _ = None"

text \<open>There is one node; a pointer to it is \<open>w_node\<close>.\<close>

record ('a, 'v, 'e, 'f, 'n, 'x, 'im, 'ob) world =
  w_node :: "('a, 'v, 'e, 'f) node option"
  w_net :: 'n
  w_dbs :: 'x
  w_resources :: "(string, ('v, 'im, 'ob) shared_resource) fmap"

record ('a, 'v, 'e, 'f, 'n, 'x, 'im, 'ob) process =
  ps_registry :: "('a, 'v, 'e, 'f, 'n, 'x, 'im, 'ob) world registry"
  ps_callbacks :: "(('a, 'v, 'e, 'f, 'n, 'x, 'im, 'ob) world \<Rightarrow> go_error option \<times> ('a, 'v, 'e, 'f, 'n, 'x, 'im, 'ob) world) list"
  ps_world :: "('a, 'v, 'e, 'f, 'n, 'x, 'im, 'ob) world"

text \<open>
  What the services are built from.  \<open>se_woken\<close> tells whether the wait of the chain service saw the node started, \<open>se_chain_wait\<close> what the wait
  of the consensus service for the chain service returned: both depend on the schedule.  \<open>se_stopped\<close> is the monitor after its \<open>Stop\<close>.
\<close>

record ('a, 's, 'n, 'v, 'e, 'f, 'x) service_env =
  se_node :: "('a, 's, 'n, 'v, 'e) node_env"
  se_settings :: node_settings
  se_storage :: "'v db manager"
  se_mdbx :: "('v, 'x) mdbx_envs"
  se_porder :: "peer_id list"
  se_dorder :: "string list"
  se_stopped :: "'f monitor \<Rightarrow> 'f monitor"
  se_woken :: bool
  se_chain_wait :: "go_error option"

section \<open>The chain service\<close>

definition ChainServiceType :: service_type where "ChainServiceType = ''chain''"
definition ConsensusServiceType :: service_type where "ConsensusServiceType = ''consensus''"
definition SequencerServiceType :: service_type where "SequencerServiceType = ''sequencer''"
definition DNSServiceType :: service_type where "DNSServiceType = ''dns''"
definition RouterServiceType :: service_type where "RouterServiceType = ''router''"
definition HealthServiceType :: service_type where "HealthServiceType = ''health''"
definition GatewayServiceType :: service_type where "GatewayServiceType = ''gateway''"

lemmas service_types = ChainServiceType_def ConsensusServiceType_def SequencerServiceType_def DNSServiceType_def RouterServiceType_def
  HealthServiceType_def GatewayServiceType_def

definition nil_node :: go_error where "nil_node = Panic ''nil pointer dereference''"

text \<open>The callback that shuts the node down.\<close>

definition node_callback ::
  "('a, 's, 'n, 'v, 'e, 'f, 'x) service_env \<Rightarrow> ('a, 'v, 'e, 'f, 'n, 'x, 'im, 'ob) world \<Rightarrow> go_error option \<times> ('a, 'v, 'e, 'f, 'n, 'x, 'im, 'ob) world" where
  "node_callback E w =
     (case w_node w of
        None \<Rightarrow> (Some nil_node, w)
      | Some dNode \<Rightarrow>
          (case Node_Shutdown (ne_host (se_node E)) (se_mdbx E) (se_porder E) (se_dorder E) (se_stopped E (nd_pm dNode)) dNode (w_net w) (w_dbs w) of
             (err, dNode, net, x) \<Rightarrow> (err, w\<lparr>w_node := Some dNode, w_net := net, w_dbs := x\<rparr>)))"

text \<open>
  \<open>Start\<close>: the node starts in a goroutine of its own while the service waits for its state to be Started, and gives up after 15 seconds;
  then it waits for the goroutine.
\<close>

definition chain_Start ::
  "('a, 's, 'n, 'v, 'e, 'f, 'x) service_env \<Rightarrow> ('a, 'v, 'e, 'f, 'n, 'x, 'im, 'ob) world \<Rightarrow> go_error option \<times> ('a, 'v, 'e, 'f, 'n, 'x, 'im, 'ob) world" where
  "chain_Start E w =
     (case w_node w of
        None \<Rightarrow> (Some nil_node, w)
      | Some dNode \<Rightarrow>
          (case Node_Start (ne_host (se_node E)) dNode (w_net w) of
             (err, dNode, net) \<Rightarrow>
               (let w = w\<lparr>w_node := Some dNode, w_net := net\<rparr> in
                if Node_GetState NodeStateType (nd_stateMgr dNode) = Started \<and> se_woken E then (err, w)
                else (Some (wrap_error ''failed to wait for node state to started state''
                  (ErrorS ''service %s did not reach state %s within %v'')), w))))"

definition chain_service :: "('a, 's, 'n, 'v, 'e, 'f, 'x) service_env \<Rightarrow> ('a, 'v, 'e, 'f, 'n, 'x, 'im, 'ob) world service" where
  "chain_service E = \<lparr>sv_Type = ChainServiceType, sv_Start = chain_Start E, sv_Stop = (\<lambda>w. (None, w))\<rparr>"

definition chain_NewService ::
  "('a, 's, 'n, 'v, 'e, 'f::{zero, one}, 'x) service_env \<Rightarrow> ('a, 'v, 'e, 'f, 'n, 'x, 'im, 'ob) process \<Rightarrow>
    (('a, 'v, 'e, 'f, 'n, 'x, 'im, 'ob) world service result \<times> ('a, 'v, 'e, 'f, 'n, 'x, 'im, 'ob) process) option" where
  "chain_NewService E s =
     (let w = ps_world s in
      case NewNode (se_node E) (se_settings E) (se_storage E) (w_net w) of
        (None, net) \<Rightarrow> None
      | (Some (Inl dnErr), net) \<Rightarrow> Some (Inl (wrap_error ''failed to initialize node'' dnErr), s\<lparr>ps_world := w\<lparr>w_net := net\<rparr>\<rparr>)
      | (Some (Inr dNode), net) \<Rightarrow>
          Some (Inr (chain_service E), s\<lparr>ps_callbacks := ps_callbacks s @ [node_callback E],
            ps_world := w\<lparr>w_node := Some dNode, w_net := net, w_resources := Resources_Register res_Node Res_Node (w_resources w)\<rparr>\<rparr>))"

section \<open>The other services\<close>

definition consensus_Start ::
  "('a, 's, 'n, 'v, 'e, 'f, 'x) service_env \<Rightarrow> ('a, 'v, 'e, 'f, 'n, 'x, 'im, 'ob) world \<Rightarrow> go_error option \<times> ('a, 'v, 'e, 'f, 'n, 'x, 'im, 'ob) world" where
  "consensus_Start E w =
     (case se_chain_wait E of
        Some err \<Rightarrow> (Some (wrap_error ''Consensus service cannot be started because the chain service is not started'' err), w)
      | None \<Rightarrow>
          (case Resources_R as_node res_Node (w_resources w) of
             None \<Rightarrow> (Some (ErrorS ''failure to discover global node resource''), w)
           | Some () \<Rightarrow>
               (case w_node w of
                  None \<Rightarrow> (Some nil_node, w)
                | Some dNode \<Rightarrow> (None, w\<lparr>w_node := Some (dNode\<lparr>nd_validator := Validator_Start (nd_validator dNode)\<rparr>)\<rparr>))))"

definition consensus_service :: "('a, 's, 'n, 'v, 'e, 'f, 'x) service_env \<Rightarrow> ('a, 'v, 'e, 'f, 'n, 'x, 'im, 'ob) world service" where
  "consensus_service E = \<lparr>sv_Type = ConsensusServiceType, sv_Start = consensus_Start E, sv_Stop = (\<lambda>w. (None, w))\<rparr>"

text \<open>The remaining services wait for an empty group of goroutines and return.\<close>

definition dns_service :: "'w service" where
  "dns_service = \<lparr>sv_Type = DNSServiceType, sv_Start = (\<lambda>w. (None, w)), sv_Stop = (\<lambda>w. (None, w))\<rparr>"

definition gateway_service :: "'w service" where
  "gateway_service = \<lparr>sv_Type = GatewayServiceType, sv_Start = (\<lambda>w. (None, w)), sv_Stop = (\<lambda>w. (None, w))\<rparr>"

definition health_service :: "'w service" where
  "health_service = \<lparr>sv_Type = HealthServiceType, sv_Start = (\<lambda>w. (None, w)), sv_Stop = (\<lambda>w. (None, w))\<rparr>"

definition router_service :: "'w service" where
  "router_service = \<lparr>sv_Type = RouterServiceType, sv_Start = (\<lambda>w. (None, w)), sv_Stop = (\<lambda>w. (None, w))\<rparr>"

definition sequencer_service :: "'w service" where
  "sequencer_service = \<lparr>sv_Type = SequencerServiceType, sv_Start = (\<lambda>w. (None, w)), sv_Stop = (\<lambda>w. (None, w))\<rparr>"

section \<open>Entry points\<close>

text \<open>\<open>ServiceHandler\<close>, the same text in each package but for the messages.\<close>

definition service_handler ::
  "service_type \<Rightarrow> string \<Rightarrow> string \<Rightarrow>
    (('a, 'v, 'e, 'f, 'n, 'x, 'im, 'ob) process \<Rightarrow> (('a, 'v, 'e, 'f, 'n, 'x, 'im, 'ob) world service result \<times> ('a, 'v, 'e, 'f, 'n, 'x, 'im, 'ob) process) option) \<Rightarrow>
    ('a, 'v, 'e, 'f, 'n, 'x, 'im, 'ob) process handler" where
  "service_handler ty create_failed register_failed newService = (\<lambda>s.
     (case newService s of
        None \<Rightarrow> None
      | Some (Inl sErr, s) \<Rightarrow> Some (Some (wrap_error create_failed sErr), s)
      | Some (Inr service, s) \<Rightarrow>
          (case Registry_Register ty service (ps_registry s) of
             (False, r) \<Rightarrow> Some (Some (ErrorS register_failed), s)
           | (True, r) \<Rightarrow> Some (None, s\<lparr>ps_registry := r\<rparr>))))"

definition chain_ServiceHandler where
  "chain_ServiceHandler E = service_handler ChainServiceType ''Failed to create new chain service'' ''Failed to register chain service'' (chain_NewService E)"

definition consensus_ServiceHandler where
  "consensus_ServiceHandler E = service_handler ConsensusServiceType ''Failed to create new consensus service''
     ''Failed to register consensus service'' (\<lambda>s. Some (Inr (consensus_service E), s))"

definition dns_ServiceHandler where
  "dns_ServiceHandler = service_handler DNSServiceType ''Failed to create new DNS service'' ''Failed to register DNS service'' (\<lambda>s. Some (Inr dns_service, s))"

definition gateway_ServiceHandler where
  "gateway_ServiceHandler = service_handler GatewayServiceType ''Failed to create new gateway service''
     ''Failed to register gateway service - already loaded'' (\<lambda>s. Some (Inr gateway_service, s))"

definition health_ServiceHandler where
  "health_ServiceHandler = service_handler HealthServiceType ''Failed to create new health service''
     ''Failed to register health service - already loaded'' (\<lambda>s. Some (Inr health_service, s))"

definition router_ServiceHandler where
  "router_ServiceHandler = service_handler RouterServiceType ''Failed to create new Router service''
     ''Failed to register Router service - already loaded'' (\<lambda>s. Some (Inr router_service, s))"

definition sequencer_ServiceHandler where
  "sequencer_ServiceHandler = service_handler SequencerServiceType ''Failed to create new sequencer service''
     ''Failed to register sequencer service - already loaded'' (\<lambda>s. Some (Inr sequencer_service, s))"

text \<open>\<open>init\<close> of a package: a type that has a handler already is a panic.\<close>

definition service_init :: "service_type \<Rightarrow> 's handler \<Rightarrow> (service_type, 's handler) fmap \<Rightarrow> (service_type, 's handler) fmap result" where
  "service_init ty handler hs =
     (case RegisterHandler ty handler hs of
        (False, hs) \<Rightarrow> Inl (Panic ''service could not be registered'')
      | (True, hs) \<Rightarrow> Inr hs)"

text \<open>The packages the command imports, initialized in the order of their paths.\<close>

definition load_packages where
  "load_packages E =
     bindE (service_init ChainServiceType (chain_ServiceHandler E) fmempty) (\<lambda>hs.
     bindE (service_init ConsensusServiceType (consensus_ServiceHandler E) hs) (\<lambda>hs.
     bindE (service_init DNSServiceType dns_ServiceHandler hs) (\<lambda>hs.
     bindE (service_init GatewayServiceType gateway_ServiceHandler hs) (\<lambda>hs.
     bindE (service_init HealthServiceType health_ServiceHandler hs) (\<lambda>hs.
     bindE (service_init RouterServiceType router_ServiceHandler hs) (\<lambda>hs.
     service_init SequencerServiceType sequencer_ServiceHandler hs))))))"

text \<open>The services the command starts when none are named.\<close>

definition default_services :: "service_type list" where
  "default_services = [ChainServiceType, ConsensusServiceType, RouterServiceType, DNSServiceType, HealthServiceType, GatewayServiceType,
     SequencerServiceType]"

section \<open>The base service\<close>

record ('v, 'im) base_service =
  bs_sm :: "'v db manager"
  bs_im :: 'im

text \<open>
  \<open>identities\<close> is \<open>accounts.NewManager\<close> on the configured directory.  A base service that is not built leaves what it opened and
  registered so far.
\<close>

definition NewBaseService ::
  "('v, 'x) mdbx_envs \<Rightarrow> (identity_config \<Rightarrow> 'im result) \<Rightarrow> 'o app_config \<Rightarrow> 'ob option \<Rightarrow> ('a, 'v, 'e, 'f, 'n, 'x, 'im, 'ob) world \<Rightarrow>
    ('v, 'im) base_service result \<times> ('a, 'v, 'e, 'f, 'n, 'x, 'im, 'ob) world" where
  "NewBaseService M identities config obs w =
     (case Storage_NewManager M (mc_Enabled (cfg_Mdbx config)) (mc_Nodes (cfg_Mdbx config)) (w_dbs w) of
        (Inl err, x) \<Rightarrow> (Inl err, w\<lparr>w_dbs := x\<rparr>)
      | (Inr storageManager, x) \<Rightarrow>
          (let w = w\<lparr>w_dbs := x, w_resources := Resources_Register res_Storage (Res_Storage storageManager) (w_resources w)\<rparr> in
           case identities (cfg_Identity config) of
             Inl imErr \<Rightarrow> (Inl imErr, w)
           | Inr identityManager \<Rightarrow>
               (Inr \<lparr>bs_sm = storageManager, bs_im = identityManager\<rparr>,
                w\<lparr>w_resources := Resources_Register res_Observability (Res_Observability obs)
                    (Resources_Register res_Identity (Res_Identity identityManager) (w_resources w))\<rparr>)))"

text \<open>
  The globals of the package: the state manager of the services and the base service.
\<close>

definition InitializeBaseService ::
  "('v, 'x) mdbx_envs \<Rightarrow> (identity_config \<Rightarrow> 'im result) \<Rightarrow> 'o app_config \<Rightarrow> 'ob option \<Rightarrow>
    state_manager option \<times> ('v, 'im) base_service option \<Rightarrow> ('a, 'v, 'e, 'f, 'n, 'x, 'im, 'ob) world \<Rightarrow>
    ('v, 'im) base_service result \<times> (state_manager option \<times> ('v, 'im) base_service option) \<times> ('a, 'v, 'e, 'f, 'n, 'x, 'im, 'ob) world" where
  "InitializeBaseService M identities config obs = (\<lambda>(ssm, global) w.
     (let ssm = Some NewStateManager in
      case NewBaseService M identities config obs w of
        (Inl bErr, w) \<Rightarrow> (Inl bErr, (ssm, global), w)
      | (Inr base, w) \<Rightarrow> (Inr base, (ssm, Some base), w)))"

section \<open>The command\<close>

text \<open>
  How far \<open>runtime run\<close> gets: the logger ended the process, it returned, it does not return from building a service, or it waits for
  a signal while the services start.
\<close>

datatype 'p run_outcome = Run_exited | Run_returned "go_error option" | Run_diverges | Run_waiting 'p

text \<open>From the resource manager on, with the observability that is there.\<close>

definition run_with ::
  "('a, 's, 'n, 'v, 'e, 'f::{zero, one}, 'x) service_env \<Rightarrow> (identity_config \<Rightarrow> 'im result) \<Rightarrow> 'o app_config \<Rightarrow> service_type list \<Rightarrow> 'ob option \<Rightarrow>
    ('a, 'v, 'e, 'f, 'n, 'x, 'im, 'ob) world \<Rightarrow> ('a, 'v, 'e, 'f, 'n, 'x, 'im, 'ob) process run_outcome" where
  "run_with E identities config order obs w =
     (case InitializeBaseService (se_mdbx E) identities config obs (None, None) (w\<lparr>w_resources := Resources_NewManager\<rparr>) of
        (Inl bsErr, _, _) \<Rightarrow> Run_returned (Some (wrap_error ''failure to initialize runtime base service'' bsErr))
      | (Inr baseService, _, w) \<Rightarrow>
          (case load_packages (E\<lparr>se_storage := bs_sm baseService\<rparr>) of
             Inl p \<Rightarrow> Run_exited
           | Inr handlers \<Rightarrow>
               (case InjectServices order handlers \<lparr>ps_registry = fmempty, ps_callbacks = [], ps_world = w\<rparr> of
                  None \<Rightarrow> Run_diverges
                | Some (Some err, s) \<Rightarrow> Run_returned (Some (wrap_error ''failure to inject runtime service dependencies'' err))
                | Some (None, s) \<Rightarrow> Run_waiting s)))"

definition runtime_run ::
  "('z, 'kv, 'le) zap_lib \<Rightarrow> 'z logger \<Rightarrow> 'le \<Rightarrow> ('a, 's, 'n, 'v, 'e, 'f::{zero, one}, 'x) service_env \<Rightarrow> (identity_config \<Rightarrow> 'im result) \<Rightarrow>
    'o app_config \<Rightarrow> service_type list \<Rightarrow> 'ob result \<Rightarrow> ('a, 'v, 'e, 'f, 'n, 'x, 'im, 'ob) world \<Rightarrow>
    ('a, 'v, 'e, 'f, 'n, 'x, 'im, 'ob) process run_outcome" where
  "runtime_run Z gLog le E identities config order obs w =
     (case obs of
        Inr ob \<Rightarrow> run_with E identities config order (Some ob) w
      | Inl err \<Rightarrow>
          (case Logger_Fatal Z gLog ''Failed to initialize observability'' [] le of
             (le, False) \<Rightarrow> Run_exited
           | (le, True) \<Rightarrow> run_with E identities config order None w))"

text \<open>
  While it waits: a signal, or a failed start of the services, which is only logged, ends the wait; then the command returns nil.
\<close>

definition runtime_end :: "go_error option \<Rightarrow> 'p run_outcome" where
  "runtime_end startErr = Run_returned None"

section \<open>Registered services\<close>

definition handler_of where
  "handler_of E ty =
     (if ty = ChainServiceType then chain_ServiceHandler E else if ty = ConsensusServiceType then consensus_ServiceHandler E
      else if ty = DNSServiceType then dns_ServiceHandler else if ty = GatewayServiceType then gateway_ServiceHandler
      else if ty = HealthServiceType then health_ServiceHandler else if ty = RouterServiceType then router_ServiceHandler
      else sequencer_ServiceHandler)"

lemma service_types_neq [simp]:
  "distinct [ChainServiceType, ConsensusServiceType, DNSServiceType, GatewayServiceType, HealthServiceType, RouterServiceType, SequencerServiceType]"
  by (simp add: service_types)

lemmas types_neq = service_types_neq [unfolded distinct.simps list.set insert_iff empty_iff de_Morgan_disj]

lemma handler_of_simps:
  "handler_of E ChainServiceType = chain_ServiceHandler E" "handler_of E ConsensusServiceType = consensus_ServiceHandler E"
  "handler_of E DNSServiceType = dns_ServiceHandler" "handler_of E GatewayServiceType = gateway_ServiceHandler"
  "handler_of E HealthServiceType = health_ServiceHandler" "handler_of E RouterServiceType = router_ServiceHandler"
  "handler_of E SequencerServiceType = sequencer_ServiceHandler"
  using types_neq by (auto simp: handler_of_def)

lemma load_packages_handlers:
  "\<exists>hs. load_packages E = Inr hs \<and> (\<forall>ty. fmlookup hs ty = (if ty \<in> set default_services then Some (handler_of E ty) else None))"
proof -
  let ?hs = "fmupd SequencerServiceType sequencer_ServiceHandler (fmupd RouterServiceType router_ServiceHandler
    (fmupd HealthServiceType health_ServiceHandler (fmupd GatewayServiceType gateway_ServiceHandler (fmupd DNSServiceType dns_ServiceHandler
    (fmupd ConsensusServiceType (consensus_ServiceHandler E) (fmupd ChainServiceType (chain_ServiceHandler E) fmempty))))))"
  have "load_packages E = Inr ?hs"
    unfolding load_packages_def service_init_def RegisterHandler_def by (simp add: service_types)
  moreover have "fmlookup ?hs ty = (if ty \<in> set default_services then Some (handler_of E ty) else None)" for ty
  proof (cases "ty \<in> set default_services")
    case True
    then consider "ty = ChainServiceType" | "ty = ConsensusServiceType" | "ty = DNSServiceType" | "ty = GatewayServiceType"
      | "ty = HealthServiceType" | "ty = RouterServiceType" | "ty = SequencerServiceType" unfolding default_services_def by auto
    then have "fmlookup ?hs ty = Some (handler_of E ty)"
      by cases (simp_all add: handler_of_simps, simp_all add: service_types)
    with True show ?thesis by simp
  next
    case False
    then have "ty \<noteq> ChainServiceType" "ty \<noteq> ConsensusServiceType" "ty \<noteq> DNSServiceType" "ty \<noteq> GatewayServiceType"
      "ty \<noteq> HealthServiceType" "ty \<noteq> RouterServiceType" "ty \<noteq> SequencerServiceType" unfolding default_services_def by auto
    then have "fmlookup ?hs ty = None" by simp
    with False show ?thesis by simp
  qed
  ultimately show ?thesis by blast
qed

lemma range_handlers:
  assumes "\<forall>ty. fmlookup hs ty = (if ty \<in> set default_services then Some (handler_of E ty) else None)" "set order \<subseteq> set default_services"
  shows "range_values order hs = map (handler_of E) order"
  using assms(2) by (induction order) (auto simp: range_values_def List.map_filter_def assms(1))

text \<open>A handler other than the chain's adds its service and touches nothing else.\<close>

lemma other_handler:
  assumes "ty \<in> set default_services" "ty \<noteq> ChainServiceType" "fmlookup (ps_registry s) ty = None"
  shows "\<exists>service. handler_of E ty s = Some (None, s\<lparr>ps_registry := fmupd ty service (ps_registry s)\<rparr>)"
proof -
  from assms(1,2) consider "ty = ConsensusServiceType" | "ty = DNSServiceType" | "ty = GatewayServiceType" | "ty = HealthServiceType"
    | "ty = RouterServiceType" | "ty = SequencerServiceType" unfolding default_services_def by auto
  then show ?thesis using assms(3)
    by cases (auto simp: handler_of_simps service_handler_def Registry_Register_def consensus_ServiceHandler_def dns_ServiceHandler_def
      gateway_ServiceHandler_def health_ServiceHandler_def router_ServiceHandler_def sequencer_ServiceHandler_def)
qed

lemma chain_handler:
  "fmlookup (ps_registry s) ChainServiceType = None \<Longrightarrow>
   handler_of E ChainServiceType s =
     (case NewNode (se_node E) (se_settings E) (se_storage E) (w_net (ps_world s)) of
        (None, net) \<Rightarrow> None
      | (Some (Inl err), net) \<Rightarrow> Some (Some (wrap_error ''Failed to create new chain service'' (wrap_error ''failed to initialize node'' err)),
          s\<lparr>ps_world := (ps_world s)\<lparr>w_net := net\<rparr>\<rparr>)
      | (Some (Inr nd), net) \<Rightarrow> Some (None, s\<lparr>ps_registry := fmupd ChainServiceType (chain_service E) (ps_registry s),
          ps_callbacks := ps_callbacks s @ [node_callback E],
          ps_world := (ps_world s)\<lparr>w_node := Some nd, w_net := net, w_resources := Resources_Register res_Node Res_Node (w_resources (ps_world s))\<rparr>\<rparr>))"
  by (auto simp: handler_of_simps chain_ServiceHandler_def service_handler_def chain_NewService_def Registry_Register_def Let_def
      split: prod.splits option.splits sum.splits)

text \<open>Handlers of different types that are not registered yet, in any order: all are registered, and the chain's makes the node.\<close>

definition with_node where
  "with_node nd net w = w\<lparr>w_node := Some nd, w_net := net, w_resources := Resources_Register res_Node Res_Node (w_resources w)\<rparr>"

definition injected where
  "injected E nd net s tys s' \<longleftrightarrow>
     (\<forall>ty. ty |\<in>| fmdom (ps_registry s') \<longleftrightarrow> ty |\<in>| fmdom (ps_registry s) \<or> ty \<in> set tys) \<and>
     ps_callbacks s' = ps_callbacks s @ (if ChainServiceType \<in> set tys then [node_callback E] else []) \<and>
     ps_world s' = (if ChainServiceType \<in> set tys then with_node nd net (ps_world s) else ps_world s)"

lemma injected_chain:
  assumes "injected E nd net (s\<lparr>ps_registry := fmupd ChainServiceType c (ps_registry s), ps_callbacks := ps_callbacks s @ [node_callback E],
      ps_world := with_node nd net (ps_world s)\<rparr>) tys s'" "ChainServiceType \<notin> set tys"
  shows "injected E nd net s (ChainServiceType # tys) s'"
  using assms by (auto simp: injected_def)

lemma injected_other:
  assumes "injected E nd net (s\<lparr>ps_registry := fmupd ty c (ps_registry s)\<rparr>) tys s'" "ty \<noteq> ChainServiceType"
  shows "injected E nd net s (ty # tys) s'"
  using assms by (auto simp: injected_def)

lemma inject_all:
  assumes "distinct tys" "set tys \<subseteq> set default_services" "\<forall>ty \<in> set tys. fmlookup (ps_registry s) ty = None"
    and "ChainServiceType \<in> set tys \<longrightarrow> NewNode (se_node E) (se_settings E) (se_storage E) (w_net (ps_world s)) = (Some (Inr nd), net)"
  shows "\<exists>s'. inject_loop (map (handler_of E) tys) s = Some (None, s') \<and> injected E nd net s tys s'"
  using assms
proof (induction tys arbitrary: s)
  case (Cons ty tys)
  show ?case
  proof (cases "ty = ChainServiceType")
    case True
    let ?s = "s\<lparr>ps_registry := fmupd ChainServiceType (chain_service E) (ps_registry s), ps_callbacks := ps_callbacks s @ [node_callback E],
      ps_world := with_node nd net (ps_world s)\<rparr>"
    have step: "handler_of E ty s = Some (None, ?s)" using Cons.prems(3,4) True by (simp add: chain_handler with_node_def)
    have rest: "ChainServiceType \<notin> set tys" "\<forall>ty \<in> set tys. fmlookup (ps_registry ?s) ty = None" using Cons.prems(1,3) True by auto
    obtain s' where s': "inject_loop (map (handler_of E) tys) ?s = Some (None, s')" "injected E nd net ?s tys s'"
      using Cons.IH [of ?s] Cons.prems(1,2) rest by auto
    then show ?thesis using injected_chain [OF s'(2) rest(1)] step True by (intro exI [of _ s']) simp
  next
    case False
    obtain service where step: "handler_of E ty s = Some (None, s\<lparr>ps_registry := fmupd ty service (ps_registry s)\<rparr>)"
      using other_handler [of ty s E] Cons.prems(2,3) False by auto
    let ?s = "s\<lparr>ps_registry := fmupd ty service (ps_registry s)\<rparr>"
    have "\<forall>ty \<in> set tys. fmlookup (ps_registry ?s) ty = None" using Cons.prems(1,3) by auto
    then obtain s' where s': "inject_loop (map (handler_of E) tys) ?s = Some (None, s')" "injected E nd net ?s tys s'"
      using Cons.IH [of ?s] Cons.prems(1,2,4) by auto
    then show ?thesis using injected_other [OF s'(2) False] step by (intro exI [of _ s']) simp
  qed
qed (simp add: injected_def)

lemma inject_fails:
  fixes E :: "('a, 's, 'n, 'v, 'e, 'f::{zero, one}, 'x) service_env"
  assumes "distinct tys" "set tys \<subseteq> set default_services" "\<forall>ty \<in> set tys. fmlookup (ps_registry s) ty = None"
    and "ChainServiceType \<in> set tys"
    and "(NewNode (se_node E) (se_settings E) (se_storage E) (w_net (ps_world s)) :: ('a, 'v, 'e, 'f) node result option \<times> 'n) = (Some (Inl err), net)"
  shows "\<exists>s'. inject_loop (map (handler_of E) tys) s =
    Some (Some (wrap_error ''failed to register service'' (wrap_error ''Failed to create new chain service'' (wrap_error ''failed to initialize node'' err))), s')"
  using assms
proof (induction tys arbitrary: s)
  case (Cons ty tys)
  show ?case
  proof (cases "ty = ChainServiceType")
    case True
    with Cons.prems(3,5) show ?thesis by (simp add: chain_handler)
  next
    case False
    obtain service where step: "handler_of E ty s = Some (None, s\<lparr>ps_registry := fmupd ty service (ps_registry s)\<rparr>)"
      using other_handler [of ty s E] Cons.prems(2,3) False by auto
    let ?s = "s\<lparr>ps_registry := fmupd ty service (ps_registry s)\<rparr>"
    have "\<forall>ty \<in> set tys. fmlookup (ps_registry ?s) ty = None" using Cons.prems(1,3) by auto
    with Cons.IH [of ?s] Cons.prems(1,2,4,5) step False show ?thesis by auto
  qed
qed simp

lemma Registry_Exists_all: "\<forall>ty \<in> set tys. fmlookup r ty \<noteq> None \<Longrightarrow> Registry_Exists tys r = (None, True)"
  by (induction tys) auto

lemma run_with_base:
  fixes E :: "('a, 's, 'n, 'v, 'e, 'f::{zero, one}, 'x) service_env" and w :: "('a, 'v, 'e, 'f, 'n, 'x, 'im, 'ob) world"
  assumes "Storage_NewManager (se_mdbx E) (mc_Enabled (cfg_Mdbx config)) (mc_Nodes (cfg_Mdbx config)) (w_dbs w) = (Inr sm, x)"
    and "identities (cfg_Identity config) = Inr im" "set order \<subseteq> set default_services"
  shows "\<exists>w'. w_net w' = w_net w \<and> run_with E identities config order obs w =
    (case inject_loop (map (handler_of (E\<lparr>se_storage := sm\<rparr>)) order) \<lparr>ps_registry = fmempty, ps_callbacks = [], ps_world = w'\<rparr> of
       None \<Rightarrow> Run_diverges
     | Some (Some err, s) \<Rightarrow> Run_returned (Some (wrap_error ''failure to inject runtime service dependencies'' err))
     | Some (None, s) \<Rightarrow> Run_waiting s)"
proof -
  let ?E = "E\<lparr>se_storage := sm\<rparr>"
  obtain hs :: "(string, ('a, 'v, 'e, 'f, 'n, 'x, 'im, 'ob) process handler) fmap" where hs: "load_packages ?E = Inr hs"
    "\<forall>ty. fmlookup hs ty = (if ty \<in> set default_services then Some (handler_of ?E ty) else None)"
    using load_packages_handlers [of ?E] by blast
  obtain base w' where "InitializeBaseService (se_mdbx E) identities config obs (None, None) (w\<lparr>w_resources := Resources_NewManager\<rparr>) =
      (Inr base, (Some NewStateManager, Some base), w')" "bs_sm base = sm" "w_net w' = w_net w"
    using assms(1,2) by (auto simp: InitializeBaseService_def NewBaseService_def Let_def)
  then show ?thesis
    by (intro exI [of _ w']) (simp add: run_with_def hs(1) InjectServices_def range_handlers [OF hs(2) assms(3)])
qed

section \<open>Properties\<close>

text \<open>
  C33: The command brings up what it is asked to: when the databases open, the accounts load and a node can be created, \<open>runtime run\<close> gets to
  wait for a signal with all services it starts by default registered, whatever order the handlers run in; the node is there and
  found as a resource, and its shutdown is the one callback.
\<close>

theorem runtime_registers_services:
  fixes E :: "('a, 's, 'n, 'v, 'e, 'f::{zero, one}, 'x) service_env" and w :: "('a, 'v, 'e, 'f, 'n, 'x, 'im, 'ob) world"
  assumes "Storage_NewManager (se_mdbx E) (mc_Enabled (cfg_Mdbx config)) (mc_Nodes (cfg_Mdbx config)) (w_dbs w) = (Inr sm, x)"
    and "identities (cfg_Identity config) = Inr im" "distinct order" "set order = set default_services"
    and "NewNode (se_node E) (se_settings E) sm (w_net w) = (Some (Inr nd), net)"
  shows "\<exists>s. runtime_run Z gLog le E identities config order (Inr ob) w = Run_waiting s \<and>
    Registry_Exists default_services (ps_registry s) = (None, True) \<and> fset (fmdom (ps_registry s)) = set default_services \<and>
    w_node (ps_world s) = Some nd \<and> Resources_R as_node res_Node (w_resources (ps_world s)) = Some () \<and>
    ps_callbacks s = [node_callback (E\<lparr>se_storage := sm\<rparr>)]"
proof -
  let ?E = "E\<lparr>se_storage := sm\<rparr>"
  obtain w' where w': "w_net w' = w_net w" and run: "run_with E identities config order (Some ob) w =
    (case inject_loop (map (handler_of ?E) order) \<lparr>ps_registry = fmempty, ps_callbacks = [], ps_world = w'\<rparr> of
       None \<Rightarrow> Run_diverges
     | Some (Some err, s) \<Rightarrow> Run_returned (Some (wrap_error ''failure to inject runtime service dependencies'' err))
     | Some (None, s) \<Rightarrow> Run_waiting s)"
    using run_with_base [where identities = identities and order = order and obs = "Some ob", OF assms(1,2)] assms(4) by blast
  let ?s = "\<lparr>ps_registry = fmempty, ps_callbacks = [], ps_world = w'\<rparr>"
  have new: "ChainServiceType \<in> set order \<longrightarrow> NewNode (se_node ?E) (se_settings ?E) (se_storage ?E) (w_net (ps_world ?s)) = (Some (Inr nd), net)"
    using assms(5) w' by simp
  obtain s where s: "inject_loop (map (handler_of ?E) order) ?s = Some (None, s)" "injected ?E nd net ?s order s"
    using inject_all [OF assms(3) _ _ new] assms(4) by auto
  have dom: "ty |\<in>| fmdom (ps_registry s) \<longleftrightarrow> ty \<in> set default_services" for ty using s(2) assms(4) by (simp add: injected_def)
  then have all: "Registry_Exists default_services (ps_registry s) = (None, True)" by (intro Registry_Exists_all) (auto simp: fmlookup_dom_iff)
  have "ChainServiceType \<in> set order" by (simp add: assms(4) default_services_def)
  then have "ps_callbacks s = [node_callback ?E]" "ps_world s = with_node nd net w'" using s(2) by (simp_all add: injected_def)
  moreover have "fset (fmdom (ps_registry s)) = set default_services" using dom by blast
  ultimately show ?thesis using run s(1) all
    by (intro exI [of _ s]) (simp add: runtime_run_def with_node_def Resources_R_def Resources_Get_def Resources_Register_def)
qed

text \<open>
  When the command fails: an observability that cannot be set up ends the process if logging is enabled, and otherwise the command goes on
  without one; a node that cannot be created makes the command return that error, whatever order the handlers run in; but once it
  waits it returns no error, also when the services do not start.
\<close>

theorem runtime_failures:
  fixes E :: "('a, 's, 'n, 'v, 'e, 'f::{zero, one}, 'x) service_env" and w :: "('a, 'v, 'e, 'f, 'n, 'x, 'im, 'ob) world"
  assumes "Storage_NewManager (se_mdbx E) (mc_Enabled (cfg_Mdbx config)) (mc_Nodes (cfg_Mdbx config)) (w_dbs w) = (Inr sm, x)"
    and "identities (cfg_Identity config) = Inr im" "distinct order" "set order = set default_services"
    and "(NewNode (se_node E) (se_settings E) sm (w_net w) :: ('a, 'v, 'e, 'f) node result option \<times> 'n) = (Some (Inl err), net)"
  shows "runtime_run Z (ZapLogger z) le E identities config order (Inl oerr) w = Run_exited \<and>
    runtime_run Z NoOpLogger le E identities config order (Inl oerr) w =
      Run_returned (Some (wrap_error ''failure to inject runtime service dependencies'' (wrap_error ''failed to register service''
        (wrap_error ''Failed to create new chain service'' (wrap_error ''failed to initialize node'' err))))) \<and>
    runtime_run Z gLog le E identities config order (Inr ob) w =
      Run_returned (Some (wrap_error ''failure to inject runtime service dependencies'' (wrap_error ''failed to register service''
        (wrap_error ''Failed to create new chain service'' (wrap_error ''failed to initialize node'' err))))) \<and>
    runtime_end (Some serr) = Run_returned None"
proof -
  let ?E = "E\<lparr>se_storage := sm\<rparr>"
  have "run_with E identities config order obs w = Run_returned (Some (wrap_error ''failure to inject runtime service dependencies''
      (wrap_error ''failed to register service'' (wrap_error ''Failed to create new chain service'' (wrap_error ''failed to initialize node'' err)))))" for obs
  proof -
    obtain w' where w': "w_net w' = w_net w" and run: "run_with E identities config order obs w =
      (case inject_loop (map (handler_of ?E) order) \<lparr>ps_registry = fmempty, ps_callbacks = [], ps_world = w'\<rparr> of
         None \<Rightarrow> Run_diverges
       | Some (Some err, s) \<Rightarrow> Run_returned (Some (wrap_error ''failure to inject runtime service dependencies'' err))
       | Some (None, s) \<Rightarrow> Run_waiting s)"
      using run_with_base [where identities = identities and order = order and obs = obs, OF assms(1,2)] assms(4) by blast
    let ?s = "\<lparr>ps_registry = fmempty, ps_callbacks = [], ps_world = w'\<rparr>"
    have new: "(NewNode (se_node ?E) (se_settings ?E) (se_storage ?E) (w_net (ps_world ?s)) :: ('a, 'v, 'e, 'f) node result option \<times> 'n) = (Some (Inl err), net)"
      using assms(5) w' by simp
    have chain: "ChainServiceType \<in> set order" by (simp add: assms(4) default_services_def)
    from inject_fails [OF assms(3) _ _ chain new] assms(4) run show ?thesis by auto
  qed
  then show ?thesis by (simp add: runtime_run_def runtime_end_def)
qed

text \<open>
  What the chain and the consensus service start.  The chain service returns no error only when the node is started and its wait
  saw it; a network that does not start is reported as a timeout of that wait and not as the error it is.  The consensus service, when the
  chain service is there, starts the validator of that node, which the node has started already.
\<close>

theorem chain_and_consensus_start:
  fixes E :: "('a, 's, 'n, 'v, 'e, 'f, 'x) service_env" and w :: "('a, 'v, 'e, 'f, 'n, 'x, 'im, 'ob) world"
  assumes "w_node w = Some nd" "Resources_R as_node res_Node (w_resources w) = Some ()"
    and "Network_Start (ne_host (se_node E)) (nd_network nd) (w_net w) = (nerr, nw, net')"
  shows "case nerr of
      Some err \<Rightarrow> \<exists>w'. chain_Start E w = (Some (wrap_error ''failed to wait for node state to started state''
        (ErrorS ''service %s did not reach state %s within %v'')), w')
    | None \<Rightarrow> \<exists>w' nd'. snd (chain_Start E w) = w' \<and> w_node w' = Some nd' \<and> Node_GetState NodeStateType (nd_stateMgr nd') = Started \<and>
        (fst (chain_Start E w) = None \<longleftrightarrow> se_woken E) \<and>
        Validator_GetState ValidatorStateType (va_stateMgr (nd_validator nd')) = Started \<and>
        (se_chain_wait E = None \<longrightarrow> consensus_Start E w' =
          (None, w'\<lparr>w_node := Some (nd'\<lparr>nd_validator := Validator_Start (nd_validator nd')\<rparr>)\<rparr>))"
proof (cases nerr)
  case None
  let ?nd = "nd\<lparr>nd_network := nw, nd_advertising := True, nd_pm := Monitor_Start (nd_pm nd), nd_validator := Validator_Start (nd_validator nd),
    nd_stateMgr := Node_SetState NodeStateType Started (Node_SetState NodeStateType Starting (nd_stateMgr nd))\<rparr>"
  have start: "Node_Start (ne_host (se_node E)) nd (w_net w) = (None, ?nd, SetStreamHandler (ne_host (se_node E)) (nc_ProtocolID (n_cfg nw)) net')"
    by (rule Node_Start_cases(1)) (use assms(3) None in simp)
  have st: "Node_GetState NodeStateType (nd_stateMgr ?nd) = Started" by (simp add: node_get_set)
  let ?w' = "w\<lparr>w_node := Some ?nd, w_net := SetStreamHandler (ne_host (se_node E)) (nc_ProtocolID (n_cfg nw)) net'\<rparr>"
  have chain: "chain_Start E w = (if se_woken E then None else Some (wrap_error ''failed to wait for node state to started state''
      (ErrorS ''service %s did not reach state %s within %v'')), ?w')"
    unfolding chain_Start_def assms(1) option.case start prod.case Let_def using st by (cases "se_woken E") simp_all
  have node: "w_node ?w' = Some ?nd" "nd_validator ?nd = Validator_Start (nd_validator nd)" by simp_all
  have "Resources_R as_node res_Node (w_resources ?w') = Some ()" using assms(2) by simp
  then have cons: "consensus_Start E ?w' = (None, ?w'\<lparr>w_node := Some (?nd\<lparr>nd_validator := Validator_Start (nd_validator ?nd)\<rparr>)\<rparr>)"
    if "se_chain_wait E = None" unfolding consensus_Start_def that node(1) by (simp only: option.case unit.case)
  show ?thesis
    unfolding None option.case chain fst_conv snd_conv
    using node st cons Validator_Start_states(1) [of "nd_validator nd"] by (intro exI [of _ ?w'] exI [of _ ?nd]) simp
next
  case (Some err)
  then obtain e n' where "Node_Start (ne_host (se_node E)) nd (w_net w) = (Some e, n', net')" "nd_stateMgr n' = Node_SetState NodeStateType Starting (nd_stateMgr nd)"
    using assms(3) by (simp add: Node_Start_def Let_def)
  with assms(1) Some show ?thesis by (auto simp: chain_Start_def Let_def node_get_set state_defs)
qed

text \<open>
  A base service that cannot load its accounts has opened its databases and keeps them open: the error is returned without the storage
  manager, and every database that was configured still has its handle.
\<close>

theorem base_service_keeps_databases_open:
  assumes "handle_laws M H" "mc_Enabled (cfg_Mdbx config)" "distinct (map node_Name (mc_Nodes (cfg_Mdbx config)))"
    and "Storage_NewManager M True (mc_Nodes (cfg_Mdbx config)) (w_dbs w) = (Inr sm, x)" "identities (cfg_Identity config) = Inl err"
  shows "\<exists>w'. NewBaseService M identities config obs w = (Inl err, w') \<and> H (w_dbs w') = H (w_dbs w) \<union> db_env ` ran (fmlookup sm) \<and>
    H (w_dbs w) \<inter> db_env ` ran (fmlookup sm) = {}"
proof -
  have "NewManager_loop M (mc_Nodes (cfg_Mdbx config)) fmempty (w_dbs w) = (Inr sm, x)" using assms(4) by (simp add: Storage_NewManager_def)
  from NewManager_loop_opens [OF assms(1) this assms(3), of "H (w_dbs w)"]
  have "H x = H (w_dbs w) \<union> db_env ` ran (fmlookup sm) \<and> H (w_dbs w) \<inter> db_env ` ran (fmlookup sm) = {}" by simp
  then show ?thesis using assms(2,4,5) by (simp add: NewBaseService_def Let_def)
qed

section \<open>Witnesses\<close>

definition sample_services :: "mem_env \<Rightarrow> (string, unit, bytes, nat, mem_env, int, nat list) service_env" where
  "sample_services content = \<lparr>se_node = Node.sample_env content, se_settings = sample_settings, se_storage = fmempty, se_mdbx = numbered_envs None,
     se_porder = [], se_dorder = [''chain'', ''consensus''], se_stopped = (\<lambda>m. m), se_woken = True, se_chain_wait = None\<rparr>"

definition sample_world :: "(string, nat, mem_env, int, bytes, nat list, unit, unit) world" where
  "sample_world = \<lparr>w_node = None, w_net = [], w_dbs = [], w_resources = fmempty\<rparr>"

definition sample_app :: "unit app_config" where
  "sample_app = (Configuration.sample_config [])\<lparr>cfg_Mdbx := \<lparr>mc_Enabled = True, mc_Nodes = [Storage_Open.sample_node ''chain'', Storage_Open.sample_node ''consensus'']\<rparr>\<rparr>"

lemma sample_storage:
  "Storage_NewManager (numbered_envs None) True [Storage_Open.sample_node ''chain'', Storage_Open.sample_node ''consensus''] [] = (Inr sample_dbs, [2, 1])"
proof -
  have "NewDb (numbered_envs None) (Storage_Open.sample_node n) hs =
      (Inr \<lparr>db_opts = Storage_Open.sample_node n, db_env = Suc (sum_list hs)\<rparr>, Suc (sum_list hs) # hs)" for n hs
    by (simp add: NewDb_def numbered_envs_def sample_sizes)
  then show ?thesis by (simp add: Storage_NewManager_def sample_dbs_def) (simp add: Storage_Open.sample_node_def numeral_2_eq_2)
qed

lemma sample_opens:
  "Storage_NewManager (se_mdbx (sample_services c)) (mc_Enabled (cfg_Mdbx sample_app)) (mc_Nodes (cfg_Mdbx sample_app)) (w_dbs sample_world) = (Inr sample_dbs, [2, 1])"
  using sample_storage by (simp add: sample_services_def sample_app_def sample_world_def)

lemma default_distinct: "distinct default_services"
  by (simp add: default_services_def service_types)

theorem runtime_registers_services_witness:
  "\<exists>s. runtime_run sample_zap (ZapLogger InfoLevel) [] (sample_services one_block) (\<lambda>c. Inr ()) sample_app default_services (Inr ()) sample_world = Run_waiting s \<and>
     Registry_Exists default_services (ps_registry s) = (None, True)"
proof -
  obtain nd :: "(string, nat, mem_env, int) node" and env0 where
    nd: "NewNode (Node.sample_env one_block) sample_settings sample_dbs [] = (Some (Inr nd), env0)" using sample_node_created by blast
  have node: "NewNode (se_node (sample_services one_block)) (se_settings (sample_services one_block)) sample_dbs (w_net sample_world) = (Some (Inr nd), env0)"
    using nd by (simp add: sample_services_def sample_world_def)
  show ?thesis
    using runtime_registers_services [where identities = "\<lambda>c. Inr ()" and Z = sample_zap and gLog = "ZapLogger InfoLevel" and le = "[]" and ob = "()",
        OF sample_opens _ default_distinct refl node] by blast
qed

theorem runtime_failures_witness:
  "\<exists>err. runtime_run sample_zap (ZapLogger InfoLevel) [] ((sample_services one_block)\<lparr>se_settings := sample_settings\<lparr>cf_Networking := sample_networking\<lparr>nc_PeerID := []\<rparr>\<rparr>\<rparr>)
     (\<lambda>c. Inr ()) sample_app default_services (Inr ()) sample_world = Run_returned (Some err)"
proof -
  let ?E = "(sample_services one_block)\<lparr>se_settings := sample_settings\<lparr>cf_Networking := sample_networking\<lparr>nc_PeerID := []\<rparr>\<rparr>\<rparr>"
  have opens: "Storage_NewManager (se_mdbx ?E) (mc_Enabled (cfg_Mdbx sample_app)) (mc_Nodes (cfg_Mdbx sample_app)) (w_dbs sample_world) = (Inr sample_dbs, [2, 1])"
    using sample_opens by simp
  have node: "(NewNode (se_node ?E) (se_settings ?E) sample_dbs (w_net sample_world) :: (string, nat, mem_env, int) node result option \<times> bytes) =
      (Some (Inl (ErrorS ''peerId must be defined in the networking configuration'')), [])"
    by (simp add: NewNode_def sample_world_def)
  show ?thesis
    using runtime_failures [where identities = "\<lambda>c. Inr ()" and Z = sample_zap and gLog = "ZapLogger InfoLevel" and le = "[]" and ob = "()",
        OF opens _ default_distinct refl node] by blast
qed

theorem chain_and_consensus_start_witness:
  "\<exists>(nd :: (string, nat, mem_env, int) node) env0 w'. NewNode (Node.sample_env one_block) sample_settings sample_dbs [] = (Some (Inr nd), env0) \<and>
     chain_Start (sample_services one_block) (with_node nd [] sample_world) = (None, w')"
proof -
  obtain nd :: "(string, nat, mem_env, int) node" and env0 where
    nd: "NewNode (Node.sample_env one_block) sample_settings sample_dbs [] = (Some (Inr nd), env0)" using sample_node_created by blast
  let ?w = "with_node nd [] sample_world"
  have w: "w_node ?w = Some nd" "Resources_R as_node res_Node (w_resources ?w) = Some ()"
    by (simp_all add: with_node_def Resources_R_def Resources_Get_def Resources_Register_def)
  have host: "ne_host (Node.sample_env one_block) = near" "ne_meter (Node.sample_env one_block) = None" by (simp_all add: Node.sample_env_def)
  have "nd_network nd = sample_network" using NewNode_parts(1) [OF nd] sample_new by (simp add: host sample_settings_def)
  then obtain nw net' where start: "Network_Start (ne_host (se_node (sample_services one_block))) (nd_network nd) (w_net ?w) = (None, nw, net')"
    using sample_start by (simp add: sample_services_def host with_node_def)
  have "se_woken (sample_services one_block)" by (simp add: sample_services_def)
  with chain_and_consensus_start [OF w start] have "fst (chain_Start (sample_services one_block) ?w) = None" by auto
  then have "chain_Start (sample_services one_block) ?w = (None, snd (chain_Start (sample_services one_block) ?w))" by (metis prod.collapse)
  with nd show ?thesis by blast
qed

theorem base_service_keeps_databases_open_witness:
  "\<exists>w'. NewBaseService (numbered_envs None) (\<lambda>c. (Inl EOF :: unit result)) sample_app (Some ()) sample_world = (Inl EOF, w') \<and> set (w_dbs w') = {1, 2}"
proof -
  have d: "distinct (map node_Name (mc_Nodes (cfg_Mdbx sample_app)))" "mc_Enabled (cfg_Mdbx sample_app)"
    by (simp_all add: sample_app_def Storage_Open.sample_node_def)
  have opens: "Storage_NewManager (numbered_envs None) True (mc_Nodes (cfg_Mdbx sample_app)) (w_dbs sample_world) = (Inr sample_dbs, [2, 1])"
    using sample_storage by (simp add: sample_app_def sample_world_def)
  have "fmlookup sample_dbs = [''chain'' \<mapsto> \<lparr>db_opts = Storage_Open.sample_node ''chain'', db_env = 1\<rparr>, ''consensus'' \<mapsto> \<lparr>db_opts = Storage_Open.sample_node ''consensus'', db_env = 2\<rparr>]"
    by (simp add: sample_dbs_def fun_eq_iff)
  then have "db_env ` ran (fmlookup sample_dbs) = {1, 2}" by auto
  with base_service_keeps_databases_open [where identities = "\<lambda>c. (Inl EOF :: unit result)" and obs = "Some ()", OF numbered_laws d(2,1) opens]
  show ?thesis by (auto simp: sample_world_def)
qed

end
