(* ===== verification/Routing_Manager.thy ===== *)
theory Routing_Manager
  imports Ebpf_Routes Configuration
begin

text \<open>
  \<open>pkg/routing/manager.go\<close> and the signing calls of \<open>pkg/routing/signature.go\<close>: the table of routes the manager keeps beside the map of the kernel.
  The methods it calls on the identity manager and on the network are not in the repository; they are a record of functions.
  \<open>net.IP.String\<close> is modelled, since the table is keyed by it.  Shown here: over IPv4 routes the
  table and the map of the kernel hold the same routes after every sequence of calls, and every route in them was signed; over IPv6 routes
  they need not.
\<close>

section \<open>Addresses as text\<close>

definition dotted :: "bytes \<Rightarrow> string" where
  "dotted ip4 = decimal (unat (ip4 ! 0)) @ ''.'' @ decimal (unat (ip4 ! 1)) @ ''.'' @ decimal (unat (ip4 ! 2)) @ ''.'' @ decimal (unat (ip4 ! 3))"

text \<open>The eight groups of an IPv6 address, and the longest run of at least two zero groups, the first of several.\<close>

definition ip6_groups :: "bytes \<Rightarrow> nat list" where
  "ip6_groups ip = map (\<lambda>i. unat (ip ! (2 * i)) * 256 + unat (ip ! (2 * i + 1))) [0..<8]"

definition zero_run :: "nat list \<Rightarrow> nat \<Rightarrow> nat" where
  "zero_run gs i = length (takeWhile (\<lambda>g. g = 0) (drop i gs))"

definition longest_zeros :: "nat list \<Rightarrow> nat \<times> nat" where
  "longest_zeros gs = fold (\<lambda>i (s, e). let l = zero_run gs i in if 2 \<le> l \<and> e - s < l then (i, i + l) else (s, e)) [0..<8] (255, 255)"

function hexadecimal :: "nat \<Rightarrow> string" where
  "hexadecimal n = (if n < 16 then [hex_digit n] else hexadecimal (n div 16) @ [hex_digit (n mod 16)])"
  by pat_completeness auto
termination by (relation "measure (\<lambda>n. n)") auto

declare hexadecimal.simps [simp del]

function ip6_text :: "nat list \<Rightarrow> nat \<times> nat \<Rightarrow> nat \<Rightarrow> string" where
  "ip6_text gs z i =
     (if 8 \<le> i then ''''
      else if i = fst z then
        (if 8 \<le> snd z \<or> snd z \<le> i then ''::'' else ''::'' @ hexadecimal (gs ! snd z) @ ip6_text gs z (snd z + 1))
      else (if 0 < i then '':'' else '''') @ hexadecimal (gs ! i) @ ip6_text gs z (i + 1))"
  by pat_completeness auto
termination by (relation "measure (\<lambda>(gs, z, i). 8 - i)") auto

declare ip6_text.simps [simp del]

definition IP_String :: "bytes \<Rightarrow> string" where
  "IP_String ip =
     (if ip = [] then ''<nil>''
      else if length ip \<noteq> 4 \<and> length ip \<noteq> 16 then ''?'' @ hex_EncodeToString ip
      else
        (case To4 ip of
           Some p4 \<Rightarrow> dotted p4
         | None \<Rightarrow> ip6_text (ip6_groups ip) (longest_zeros (ip6_groups ip)) 0))"

section \<open>Signatures of entries\<close>

text \<open>The identity manager \<open>'i\<close> and the network.\<close>

record ('i, 'e) route_deps =
  SignData :: "'i \<Rightarrow> bytes \<Rightarrow> bytes result"
  VerifySignature :: "'i \<Rightarrow> string \<Rightarrow> bytes \<Rightarrow> bytes \<Rightarrow> bool result"
  BroadcastData :: "bytes \<Rightarrow> 'e \<Rightarrow> go_error option \<times> 'e"

definition SignRouteEntry :: "('i, 'e) route_deps \<Rightarrow> 'i \<Rightarrow> route_entry \<Rightarrow> go_error option \<times> route_entry" where
  "SignRouteEntry D identityManager re =
     (case SignData D identityManager (getSignableData re) of
        Inl err \<Rightarrow> (Some (wrap_error ''failed to sign route entry'' err), re)
      | Inr signature \<Rightarrow> (None, re\<lparr>re_Signature := signature\<rparr>))"

definition VerifyRouteEntrySignature :: "('i, 'e) route_deps \<Rightarrow> string \<Rightarrow> 'i \<Rightarrow> route_entry \<Rightarrow> bool result" where
  "VerifyRouteEntrySignature D peerID identityManager re =
     (case VerifySignature D identityManager peerID (getSignableData re) (re_Signature re) of
        Inl err \<Rightarrow> Inl (wrap_error ''failed to verify route entry signature'' err)
      | Inr valid \<Rightarrow> Inr valid)"

section \<open>The manager\<close>

record ('p, 'm, 'l, 'i) routing_manager =
  rm_EBPFManager :: "('p, 'm, 'l) ebpf_manager"
  rm_IdentityManager :: 'i
  rm_Routes :: "(string, route_entry) fmap"

definition NewRoutingManager :: "('p, 'm, 'l) ebpf_manager \<Rightarrow> 'i \<Rightarrow> ('p, 'm, 'l, 'i) routing_manager" where
  "NewRoutingManager ebpfManager identityManager =
     \<lparr>rm_EBPFManager = ebpfManager, rm_IdentityManager = identityManager, rm_Routes = fmempty\<rparr>"

definition getRouteKey :: "route_entry \<Rightarrow> string" where
  "getRouteKey entry =
     IP_String (re_SrcIP entry) @ '':'' @ decimal (unat (re_SrcPort entry)) @ ''-'' @
     IP_String (re_DstIP entry) @ '':'' @ decimal (unat (re_DstPort entry))"

definition Routing_AddRoute ::
  "('p, 'm, 'l, 'c, 'k) ebpf_lib \<Rightarrow> ('i, 'e) route_deps \<Rightarrow> route_entry \<Rightarrow> ('p, 'm, 'l, 'i) routing_manager \<Rightarrow> 'k \<Rightarrow>
    go_error option \<times> ('p, 'm, 'l, 'i) routing_manager \<times> 'k" where
  "Routing_AddRoute B D entry rm k =
     (case VerifyRouteEntrySignature D (IP_String (re_SrcIP entry)) (rm_IdentityManager rm) entry of
        Inr True \<Rightarrow>
          (case Ebpf_AddRoute B entry (rm_EBPFManager rm) k of
             (Some err, k) \<Rightarrow> (Some (wrap_error ''failed to add route to eBPF'' err), rm, k)
           | (None, k) \<Rightarrow> (None, rm\<lparr>rm_Routes := fmupd (getRouteKey entry) entry (rm_Routes rm)\<rparr>, k))
      | _ \<Rightarrow> (Some (ErrorS ''invalid signature for route entry''), rm, k))"

definition Routing_DeleteRoute ::
  "('p, 'm, 'l, 'c, 'k) ebpf_lib \<Rightarrow> route_entry \<Rightarrow> ('p, 'm, 'l, 'i) routing_manager \<Rightarrow> 'k \<Rightarrow>
    go_error option \<times> ('p, 'm, 'l, 'i) routing_manager \<times> 'k" where
  "Routing_DeleteRoute B entry rm k =
     (case Ebpf_DeleteRoute B entry (rm_EBPFManager rm) k of
        (Some err, k) \<Rightarrow> (Some (wrap_error ''failed to delete route from eBPF'' err), rm, k)
      | (None, k) \<Rightarrow> (None, rm\<lparr>rm_Routes := fmdrop (getRouteKey entry) (rm_Routes rm)\<rparr>, k))"

definition ShareRoute :: "('i, 'e) route_deps \<Rightarrow> route_entry \<Rightarrow> 'e \<Rightarrow> go_error option \<times> 'e" where
  "ShareRoute D entry e =
     (case RouteEntry_Serialize entry of
        Inl err \<Rightarrow> (Some (wrap_error ''failed to serialize route entry'' err), e)
      | Inr data \<Rightarrow>
          (case BroadcastData D data e of
             (Some err, e) \<Rightarrow> (Some (wrap_error ''failed to share route entry'' err), e)
           | (None, e) \<Rightarrow> (None, e)))"

definition HandleIncomingRoute ::
  "('p, 'm, 'l, 'c, 'k) ebpf_lib \<Rightarrow> ('i, 'e) route_deps \<Rightarrow> bytes \<Rightarrow> ('p, 'm, 'l, 'i) routing_manager \<Rightarrow> 'k \<Rightarrow>
    go_error option \<times> ('p, 'm, 'l, 'i) routing_manager \<times> 'k" where
  "HandleIncomingRoute B D data rm k =
     (case DeserializeRouteEntry data of
        Inl err \<Rightarrow> (Some (wrap_error ''failed to deserialize route entry'' err), rm, k)
      | Inr entry \<Rightarrow>
          (case VerifyRouteEntrySignature D (IP_String (re_SrcIP entry)) (rm_IdentityManager rm) entry of
             Inr True \<Rightarrow>
               (case Routing_AddRoute B D entry rm k of
                  (Some err, rm, k) \<Rightarrow> (Some (wrap_error ''failed to add incoming route'' err), rm, k)
                | (None, rm, k) \<Rightarrow> (None, rm, k))
           | _ \<Rightarrow> (Some (ErrorS ''invalid signature for incoming route''), rm, k)))"

section \<open>Keys\<close>

lemma split_at_eq:
  assumes "c \<notin> set xs" "c \<notin> set xs'"
  shows "xs @ c # ys = xs' @ c # ys' \<longleftrightarrow> xs = xs' \<and> ys = ys'"
  using assms
proof (induction xs arbitrary: xs')
  case Nil
  then show ?case by (cases xs') auto
next
  case (Cons x xs)
  then show ?case by (cases xs') auto
qed

lemma decimal_plain: "CHR ''.'' \<notin> set (decimal n)" "CHR '':'' \<notin> set (decimal n)" "CHR ''-'' \<notin> set (decimal n)"
  using decimal_chars [of "CHR ''.''" n] decimal_chars [of "CHR '':''" n] decimal_chars [of "CHR ''-''" n] by auto

lemma dotted_plain: "CHR '':'' \<notin> set (dotted ip)" "CHR ''-'' \<notin> set (dotted ip)"
  by (simp_all add: dotted_def decimal_plain)

lemma dotted_inject:
  assumes "length a = 4" "length b = 4"
  shows "dotted a = dotted b \<longleftrightarrow> a = b"
proof
  assume "dotted a = dotted b"
  then have "\<forall>i < 4. a ! i = b ! i"
    by (simp add: dotted_def split_at_eq decimal_plain decimal_inject less_Suc_eq eval_nat_numeral word_unat_eq_iff)
  then show "a = b" using assms by (simp add: nth_equalityI)
qed simp

text \<open>The two addresses of a route are IPv4 addresses, of 4 bytes or mapped into 16.\<close>

definition ipv4_route :: "route_entry \<Rightarrow> bool" where
  "ipv4_route re \<longleftrightarrow> To4 (re_SrcIP re) \<noteq> None \<and> To4 (re_DstIP re) \<noteq> None"

lemma To4_SomeD: "To4 ip = Some p4 \<Longrightarrow> length p4 = 4 \<and> ip \<noteq> [] \<and> (length ip = 4 \<or> length ip = 16)"
  by (auto simp: To4_def split: if_splits)

lemma IP_String_v4: "To4 ip = Some p4 \<Longrightarrow> IP_String ip = dotted p4"
  using To4_SomeD by (auto simp: IP_String_def)

lemma route_key_v4:
  assumes "ipv4_route a" "ipv4_route b"
  shows "getRouteKey a = getRouteKey b \<longleftrightarrow> constructKey a = constructKey b"
proof -
  obtain sa da sb db where v4: "To4 (re_SrcIP a) = Some sa" "To4 (re_DstIP a) = Some da" "To4 (re_SrcIP b) = Some sb" "To4 (re_DstIP b) = Some db"
    using assms by (auto simp: ipv4_route_def)
  note len = v4 [THEN To4_SomeD, THEN conjunct1]
  have "getRouteKey a = getRouteKey b \<longleftrightarrow> sa = sb \<and> re_SrcPort a = re_SrcPort b \<and> da = db \<and> re_DstPort a = re_DstPort b"
    using v4 [THEN IP_String_v4] len
    by (simp add: getRouteKey_def split_at_eq dotted_plain decimal_plain dotted_inject decimal_inject word_unat_eq_iff)
  then show ?thesis using v4 len by (auto simp: constructKey_def ipToUint32_def BE_Uint32_inject)
qed

section \<open>The table and the map of the kernel\<close>

datatype routing_call = Add_call route_entry | Delete_call route_entry | Incoming_call bytes

fun routing_call_run ::
  "('p, 'm, 'l, 'c, 'k) ebpf_lib \<Rightarrow> ('i, 'e) route_deps \<Rightarrow> routing_call \<Rightarrow> ('p, 'm, 'l, 'i) routing_manager \<times> 'k \<Rightarrow> ('p, 'm, 'l, 'i) routing_manager \<times> 'k" where
  "routing_call_run B D (Add_call entry) (rm, k) = snd (Routing_AddRoute B D entry rm k)"
| "routing_call_run B D (Delete_call entry) (rm, k) = snd (Routing_DeleteRoute B entry rm k)"
| "routing_call_run B D (Incoming_call data) (rm, k) = snd (HandleIncomingRoute B D data rm k)"

fun ipv4_call :: "routing_call \<Rightarrow> bool" where
  "ipv4_call (Add_call entry) = ipv4_route entry"
| "ipv4_call (Delete_call entry) = ipv4_route entry"
| "ipv4_call (Incoming_call data) = (case DeserializeRouteEntry data of Inl err \<Rightarrow> True | Inr entry \<Rightarrow> ipv4_route entry)"

definition signed_route :: "('i, 'e) route_deps \<Rightarrow> 'i \<Rightarrow> route_entry \<Rightarrow> bool" where
  "signed_route D i entry \<longleftrightarrow> VerifySignature D i (IP_String (re_SrcIP entry)) (getSignableData entry) (re_Signature entry) = Inr True"

text \<open>\<open>agree D i R Rt\<close>: the table \<open>Rt\<close> files each route under its key, and the map \<open>R\<close> is what the routes of the table give.\<close>

definition agree :: "('i, 'e) route_deps \<Rightarrow> 'i \<Rightarrow> (route_key \<Rightarrow> route_value option) \<Rightarrow> (string \<Rightarrow> route_entry option) \<Rightarrow> bool" where
  "agree D i R Rt \<longleftrightarrow>
     (\<forall>s e. Rt s = Some e \<longrightarrow> s = getRouteKey e \<and> ipv4_route e \<and> signed_route D i e \<and> R (constructKey e) = Some (constructValue e)) \<and>
     (\<forall>key v. R key = Some v \<longrightarrow> (\<exists>e. Rt (getRouteKey e) = Some e \<and> constructKey e = key))"

lemma agree_add:
  assumes "agree D i R Rt" "ipv4_route e" "signed_route D i e"
  shows "agree D i (R(constructKey e \<mapsto> constructValue e)) (Rt(getRouteKey e \<mapsto> e))"
proof -
  have old: "Rt s = Some e' \<Longrightarrow> s \<noteq> getRouteKey e \<Longrightarrow> constructKey e' \<noteq> constructKey e" for s e'
    using assms(1,2) route_key_v4 unfolding agree_def by metis
  have "\<exists>e'. (Rt(getRouteKey e \<mapsto> e)) (getRouteKey e') = Some e' \<and> constructKey e' = key"
    if v: "(R(constructKey e \<mapsto> constructValue e)) key = Some v" for key v
  proof (cases "key = constructKey e")
    case True
    then show ?thesis by auto
  next
    case False
    then obtain e' where "Rt (getRouteKey e') = Some e'" "constructKey e' = key" using v assms(1) unfolding agree_def by auto
    moreover from this have "ipv4_route e'" using assms(1) unfolding agree_def by blast
    ultimately have "getRouteKey e' \<noteq> getRouteKey e" using route_key_v4 assms(2) False by blast
    then show ?thesis using \<open>Rt (getRouteKey e') = Some e'\<close> \<open>constructKey e' = key\<close> by (intro exI [of _ e']) simp
  qed
  moreover have "s = getRouteKey e' \<and> ipv4_route e' \<and> signed_route D i e' \<and> (R(constructKey e \<mapsto> constructValue e)) (constructKey e') = Some (constructValue e')"
    if e': "(Rt(getRouteKey e \<mapsto> e)) s = Some e'" for s e'
  proof (cases "s = getRouteKey e")
    case True
    then show ?thesis using e' assms(2,3) by simp
  next
    case False
    then have "Rt s = Some e'" using e' by simp
    then show ?thesis using old [OF _ False] assms(1) unfolding agree_def by simp
  qed
  ultimately show ?thesis unfolding agree_def by blast
qed

lemma agree_delete:
  assumes "agree D i R Rt" "ipv4_route e"
  shows "agree D i (R(constructKey e := None)) (Rt(getRouteKey e := None))"
proof -
  have same: "Rt s = Some e' \<Longrightarrow> s = getRouteKey e \<longleftrightarrow> constructKey e' = constructKey e" for s e'
    using assms route_key_v4 unfolding agree_def by metis
  then show ?thesis using assms(1) unfolding agree_def by (auto split: if_splits) metis
qed

lemma map_lawsD:
  assumes "map_laws B R"
  shows "map_Put B r key v k = (None, k') \<Longrightarrow> R r k' = (R r k)(key \<mapsto> v)"
    and "map_Put B r key v k = (Some err, k') \<Longrightarrow> R r k' = R r k"
    and "map_Delete B r key k = (None, k') \<Longrightarrow> R r k' = (R r k)(key := None)"
    and "map_Delete B r key k = (Some err, k') \<Longrightarrow> R r k' = R r k"
  using assms unfolding map_laws_def by blast+

lemma fmlookup_upd_upd: "fmlookup (fmupd x y M) = (fmlookup M)(x \<mapsto> y)"
  by (auto simp: fun_eq_iff)

lemma fmlookup_drop_upd: "fmlookup (fmdrop x M) = (fmlookup M)(x := None)"
  by (auto simp: fun_eq_iff)

text \<open>The managers a manager works with do not change.\<close>

definition same_managers :: "('p, 'm, 'l, 'i) routing_manager \<Rightarrow> ('p, 'm, 'l, 'i) routing_manager \<Rightarrow> bool" where
  "same_managers a b \<longleftrightarrow> rm_EBPFManager a = rm_EBPFManager b \<and> rm_IdentityManager a = rm_IdentityManager b"

lemma Routing_AddRoute_agree:
  assumes "map_laws B R" "fmlookup (em_Maps (rm_EBPFManager rm)) routes_map = Some r"
    and "agree D (rm_IdentityManager rm) (R r k) (fmlookup (rm_Routes rm))" "ipv4_route entry"
    and "Routing_AddRoute B D entry rm k = (res, rm', k')"
  shows "agree D (rm_IdentityManager rm) (R r k') (fmlookup (rm_Routes rm')) \<and> same_managers rm' rm"
proof (cases "VerifyRouteEntrySignature D (IP_String (re_SrcIP entry)) (rm_IdentityManager rm) entry = Inr True")
  case True
  then have signed: "signed_route D (rm_IdentityManager rm) entry"
    by (auto simp: VerifyRouteEntrySignature_def signed_route_def split: sum.splits)
  obtain e k1 where put: "map_Put B r (constructKey entry) (constructValue entry) k = (e, k1)" by fastforce
  show ?thesis
  proof (cases e)
    case None
    then have "rm' = rm\<lparr>rm_Routes := fmupd (getRouteKey entry) entry (rm_Routes rm)\<rparr>" "k' = k1"
      using assms(2,5) True put by (simp_all add: Routing_AddRoute_def Ebpf_AddRoute_def)
    then show ?thesis using agree_add [OF assms(3,4) signed] map_lawsD(1) [OF assms(1)] put None
      by (simp add: same_managers_def fmlookup_upd_upd)
  next
    case (Some err)
    then have "rm' = rm" "k' = k1" using assms(2,5) True put by (simp_all add: Routing_AddRoute_def Ebpf_AddRoute_def)
    then show ?thesis using assms(3) map_lawsD(2) [OF assms(1)] put Some by (simp add: same_managers_def)
  qed
next
  case False
  then have "rm' = rm" "k' = k" using assms(5) by (auto simp: Routing_AddRoute_def split: sum.splits bool.splits)
  then show ?thesis using assms(3) by (simp add: same_managers_def)
qed

lemma Routing_DeleteRoute_agree:
  assumes "map_laws B R" "fmlookup (em_Maps (rm_EBPFManager rm)) routes_map = Some r"
    and "agree D (rm_IdentityManager rm) (R r k) (fmlookup (rm_Routes rm))" "ipv4_route entry"
    and "Routing_DeleteRoute B entry rm k = (res, rm', k')"
  shows "agree D (rm_IdentityManager rm) (R r k') (fmlookup (rm_Routes rm')) \<and> same_managers rm' rm"
proof -
  obtain e k1 where del: "map_Delete B r (constructKey entry) k = (e, k1)" by fastforce
  show ?thesis
  proof (cases e)
    case None
    then have "rm' = rm\<lparr>rm_Routes := fmdrop (getRouteKey entry) (rm_Routes rm)\<rparr>" "k' = k1"
      using assms(2,5) del by (simp_all add: Routing_DeleteRoute_def Ebpf_DeleteRoute_def)
    then show ?thesis using agree_delete [OF assms(3,4)] map_lawsD(3) [OF assms(1)] del None
      by (simp add: same_managers_def fmlookup_drop_upd)
  next
    case (Some err)
    then have "rm' = rm" "k' = k1" using assms(2,5) del by (simp_all add: Routing_DeleteRoute_def Ebpf_DeleteRoute_def)
    then show ?thesis using assms(3) map_lawsD(4) [OF assms(1)] del Some by (simp add: same_managers_def)
  qed
qed

lemma HandleIncomingRoute_adds:
  assumes "HandleIncomingRoute B D data rm k = (res, rm', k')"
  shows "rm' = rm \<and> k' = k \<or>
    (\<exists>entry res'. DeserializeRouteEntry data = Inr entry \<and> Routing_AddRoute B D entry rm k = (res', rm', k'))"
  using assms by (auto simp: HandleIncomingRoute_def split: sum.splits bool.splits prod.splits option.splits)

lemma routing_call_agree:
  assumes "map_laws B R" "fmlookup (em_Maps (rm_EBPFManager rm)) routes_map = Some r"
    and "agree D (rm_IdentityManager rm) (R r k) (fmlookup (rm_Routes rm))" "ipv4_call c"
    and "routing_call_run B D c (rm, k) = (rm', k')"
  shows "agree D (rm_IdentityManager rm) (R r k') (fmlookup (rm_Routes rm')) \<and> same_managers rm' rm"
proof (cases c)
  case (Add_call entry)
  then have "Routing_AddRoute B D entry rm k = (fst (Routing_AddRoute B D entry rm k), rm', k')" using assms(5) by (simp add: prod_eq_iff)
  then show ?thesis using Routing_AddRoute_agree [OF assms(1-3)] assms(4) Add_call by (metis ipv4_call.simps(1))
next
  case (Delete_call entry)
  then have "Routing_DeleteRoute B entry rm k = (fst (Routing_DeleteRoute B entry rm k), rm', k')" using assms(5) by (simp add: prod_eq_iff)
  then show ?thesis using Routing_DeleteRoute_agree [OF assms(1-3)] assms(4) Delete_call by (metis ipv4_call.simps(2))
next
  case (Incoming_call data)
  then obtain res where "HandleIncomingRoute B D data rm k = (res, rm', k')"
    using assms(5) by (metis prod.collapse routing_call_run.simps(3))
  then consider "rm' = rm" "k' = k" | entry res' where "DeserializeRouteEntry data = Inr entry" "Routing_AddRoute B D entry rm k = (res', rm', k')"
    using HandleIncomingRoute_adds by metis
  then show ?thesis
  proof cases
    case 1
    then show ?thesis using assms(3) by (simp add: same_managers_def)
  next
    case 2
    then show ?thesis using Routing_AddRoute_agree [OF assms(1-3) _ 2(2)] assms(4) Incoming_call by simp
  qed
qed

lemma routing_calls_agree:
  assumes "map_laws B R" "fmlookup (em_Maps (rm_EBPFManager rm)) routes_map = Some r"
    and "agree D (rm_IdentityManager rm) (R r k) (fmlookup (rm_Routes rm))" "\<forall>c \<in> set cs. ipv4_call c"
    and "fold (routing_call_run B D) cs (rm, k) = (rm', k')"
  shows "agree D (rm_IdentityManager rm) (R r k') (fmlookup (rm_Routes rm'))"
  using assms(2-5)
proof (induction cs arbitrary: rm k)
  case (Cons c cs)
  obtain rm1 k1 where step: "routing_call_run B D c (rm, k) = (rm1, k1)" by fastforce
  have "agree D (rm_IdentityManager rm) (R r k1) (fmlookup (rm_Routes rm1)) \<and> same_managers rm1 rm"
    using routing_call_agree [OF assms(1) Cons.prems(1,2) _ step] Cons.prems(3) by simp
  then show ?case using Cons.IH [of rm1 k1] Cons.prems step by (simp add: same_managers_def)
qed simp

text \<open>
  C29: From a new manager over an empty map of the kernel, whatever is called: while all routes are IPv4, the table and the map hold the same routes
  under corresponding keys, the map has the next hop of the route in the table, and the signature of every route in them has been
  verified under its source address.
\<close>

theorem routing_tables_agree:
  assumes "map_laws B R" "fmlookup (em_Maps ebpfManager) routes_map = Some r" "R r k = (\<lambda>key. None)" "\<forall>c \<in> set cs. ipv4_call c"
    and "fold (routing_call_run B D) cs (NewRoutingManager ebpfManager identityManager, k) = (rm, k')"
  shows "(\<forall>s e. fmlookup (rm_Routes rm) s = Some e \<longrightarrow> R r k' (constructKey e) = Some (constructValue e) \<and> signed_route D identityManager e) \<and>
    (\<forall>key v. R r k' key = Some v \<longrightarrow>
       (\<exists>e. fmlookup (rm_Routes rm) (getRouteKey e) = Some e \<and> constructKey e = key \<and> constructValue e = v))"
proof -
  have "agree D identityManager (R r k) (fmlookup fmempty)" using assms(3) by (simp add: agree_def)
  then have "agree D identityManager (R r k') (fmlookup (rm_Routes rm))"
    using routing_calls_agree [OF assms(1) _ _ assms(4,5)] assms(2) by (simp add: NewRoutingManager_def)
  then show ?thesis unfolding agree_def by (metis option.inject)
qed

section \<open>IPv6 routes\<close>

text \<open>
  Two signed IPv6 routes with the same ports and different keys, on one map: both are in the table, but the map of the kernel has
  only the second, under the key the first one has as well; a delete of the second leaves the first in the table and not in the map.
\<close>

theorem ipv6_routes_diverge:
  assumes "map_laws B R" "fmlookup (em_Maps (rm_EBPFManager rm)) routes_map = Some r"
    and "To4 (re_SrcIP a) = None" "To4 (re_DstIP a) = None" "To4 (re_SrcIP b) = None" "To4 (re_DstIP b) = None"
    and "re_SrcPort a = re_SrcPort b" "re_DstPort a = re_DstPort b" "getRouteKey a \<noteq> getRouteKey b"
    and "Routing_AddRoute B D a rm k = (None, rm1, k1)" "Routing_AddRoute B D b rm1 k1 = (None, rm2, k2)"
    and "Routing_DeleteRoute B b rm2 k2 = (None, rm3, k3)"
  shows "fmlookup (rm_Routes rm2) (getRouteKey a) = Some a \<and> fmlookup (rm_Routes rm2) (getRouteKey b) = Some b \<and>
    R r k2 (constructKey a) = Some (constructValue b) \<and>
    fmlookup (rm_Routes rm3) (getRouteKey a) = Some a \<and> R r k3 (constructKey a) = None"
proof -
  have key: "constructKey a = constructKey b" using assms(3-8) by (simp add: constructKey_def ipToUint32_def)
  have add: "rm' = rm0\<lparr>rm_Routes := fmupd (getRouteKey e) e (rm_Routes rm0)\<rparr> \<and> R r k'' = (R r k')(constructKey e \<mapsto> constructValue e)"
    if "Routing_AddRoute B D e rm0 k' = (None, rm', k'')" "rm_EBPFManager rm0 = rm_EBPFManager rm" for e rm0 rm' k' k''
    using that assms(2) map_lawsD(1) [OF assms(1)]
    by (auto simp: Routing_AddRoute_def Ebpf_AddRoute_def split: sum.splits bool.splits prod.splits option.splits)
  have first: "rm1 = rm\<lparr>rm_Routes := fmupd (getRouteKey a) a (rm_Routes rm)\<rparr>" using add [OF assms(10)] by simp
  have second: "rm2 = rm1\<lparr>rm_Routes := fmupd (getRouteKey b) b (rm_Routes rm1)\<rparr> \<and> R r k2 = (R r k1)(constructKey b \<mapsto> constructValue b)"
    using add [OF assms(11)] first by simp
  have third: "rm3 = rm2\<lparr>rm_Routes := fmdrop (getRouteKey b) (rm_Routes rm2)\<rparr> \<and> R r k3 = (R r k2)(constructKey b := None)"
    using assms(2,12) first second map_lawsD(3) [OF assms(1)]
    by (auto simp: Routing_DeleteRoute_def Ebpf_DeleteRoute_def split: prod.splits option.splits)
  show ?thesis using first second third key assms(9) by simp
qed

section \<open>Witnesses\<close>

text \<open>An identity manager that accepts the one-byte signature that is the secret.\<close>

definition plain_deps :: "(byte, bytes list) route_deps" where
  "plain_deps = \<lparr>SignData = (\<lambda>i data. Inr [i]), VerifySignature = (\<lambda>i peer data sig. Inr (sig = [i])),
     BroadcastData = (\<lambda>data e. (None, e @ [data]))\<rparr>"

lemma sample_route_v4: "ipv4_route Routing.sample_route"
  by (simp add: ipv4_route_def Routing.sample_route_def To4_def)

lemma sample_AddRoute:
  assumes "re_Signature e = [9]" "rm_EBPFManager rm = sample_manager" "rm_IdentityManager rm = 9"
  shows "Routing_AddRoute (plain_kernel 5) plain_deps e rm (ls, M) =
    (None, rm\<lparr>rm_Routes := fmupd (getRouteKey e) e (rm_Routes rm)\<rparr>, (ls, fmupd (constructKey e) (constructValue e) M))"
  using assms
  by (simp add: Routing_AddRoute_def VerifyRouteEntrySignature_def plain_deps_def Ebpf_AddRoute_def sample_manager_def routes_map_def plain_kernel_def)

theorem routing_tables_agree_witness:
  "\<exists>rm k'. fold (routing_call_run (plain_kernel 5) plain_deps) [Add_call Routing.sample_route] (NewRoutingManager sample_manager 9, ([], fmempty)) = (rm, k') \<and>
     fmlookup (snd k') (constructKey Routing.sample_route) = Some (constructValue Routing.sample_route)"
proof -
  have run: "fold (routing_call_run (plain_kernel 5) plain_deps) [Add_call Routing.sample_route] (NewRoutingManager sample_manager 9, ([], fmempty)) =
    ((NewRoutingManager sample_manager 9)\<lparr>rm_Routes := fmupd (getRouteKey Routing.sample_route) Routing.sample_route fmempty\<rparr>,
     ([], fmupd (constructKey Routing.sample_route) (constructValue Routing.sample_route) fmempty))"
    by (simp add: sample_AddRoute NewRoutingManager_def Routing.sample_route_def)
  have maps: "fmlookup (em_Maps sample_manager) routes_map = Some ()" by (simp add: sample_manager_def routes_map_def)
  show ?thesis
    using routing_tables_agree [OF plain_map_laws maps _ _ run] run sample_route_v4 by auto
qed

definition ipv6_bytes :: "byte \<Rightarrow> bytes" where
  "ipv6_bytes x = [32, 0, 0, 0, 0, 0, 0, 0, 0, 0, 0, 0, 0, 0, 0, x]"

definition sample_ipv6 :: "byte \<Rightarrow> route_entry" where
  "sample_ipv6 x = Routing.sample_route\<lparr>re_SrcIP := ipv6_bytes x, re_DstIP := ipv6_bytes x\<rparr>"

lemma sample_ipv6_groups: "ip6_groups (re_SrcIP (sample_ipv6 x)) = [8192, 0, 0, 0, 0, 0, 0, unat x]"
  by (simp add: ip6_groups_def sample_ipv6_def ipv6_bytes_def upt_conv_Cons)

lemma sample_ipv6_text:
  assumes "unat x < 16" "x \<noteq> 0"
  shows "IP_String (re_SrcIP (sample_ipv6 x)) = hexadecimal 8192 @ ''::'' @ [hex_digit (unat x)]"
proof -
  have z: "longest_zeros [8192, 0, 0, 0, 0, 0, 0, unat x] = (1, 7)"
    using assms(2) by (simp add: longest_zeros_def zero_run_def upt_conv_Cons unat_eq_0)
  have "To4 (re_SrcIP (sample_ipv6 x)) = None" "length (re_SrcIP (sample_ipv6 x)) = 16"
    by (simp_all add: sample_ipv6_def ipv6_bytes_def To4_def)
  then show ?thesis using z assms(1)
    by (auto simp: IP_String_def sample_ipv6_groups ip6_text.simps hexadecimal.simps [of "unat x"])
qed

lemma sample_ipv6_simps [simp]:
  "re_Signature (sample_ipv6 x) = [9]" "To4 (re_SrcIP (sample_ipv6 x)) = None" "To4 (re_DstIP (sample_ipv6 x)) = None"
  "re_SrcPort (sample_ipv6 x) = 53" "re_DstPort (sample_ipv6 x) = 80"
  by (simp_all add: sample_ipv6_def ipv6_bytes_def Routing.sample_route_def To4_def)

lemma sample_ipv6_keys: "getRouteKey (sample_ipv6 1) \<noteq> getRouteKey (sample_ipv6 2)"
  by (simp add: getRouteKey_def sample_ipv6_text hex_digit_def)

lemma sample_DeleteRoute:
  assumes "rm_EBPFManager rm = sample_manager" "fmlookup M (constructKey e) = Some v"
  shows "Routing_DeleteRoute (plain_kernel 5) e rm (ls, M) =
    (None, rm\<lparr>rm_Routes := fmdrop (getRouteKey e) (rm_Routes rm)\<rparr>, (ls, fmdrop (constructKey e) M))"
  using assms by (simp add: Routing_DeleteRoute_def Ebpf_DeleteRoute_def sample_manager_def routes_map_def plain_kernel_def)

theorem ipv6_routes_diverge_witness:
  "\<exists>rm1 k1 rm2 k2 rm3 k3. Routing_AddRoute (plain_kernel 5) plain_deps (sample_ipv6 1) (NewRoutingManager sample_manager 9) ([], fmempty) = (None, rm1, k1) \<and>
    Routing_AddRoute (plain_kernel 5) plain_deps (sample_ipv6 2) rm1 k1 = (None, rm2, k2) \<and>
    Routing_DeleteRoute (plain_kernel 5) (sample_ipv6 2) rm2 k2 = (None, rm3, k3) \<and>
    fmlookup (rm_Routes rm3) (getRouteKey (sample_ipv6 1)) = Some (sample_ipv6 1) \<and> fmlookup (snd k3) (constructKey (sample_ipv6 1)) = None"
proof -
  obtain rm1 k1 where one: "Routing_AddRoute (plain_kernel 5) plain_deps (sample_ipv6 1) (NewRoutingManager sample_manager 9) ([], fmempty) = (None, rm1, k1)"
    "rm_EBPFManager rm1 = sample_manager" "rm_IdentityManager rm1 = 9" by (simp add: sample_AddRoute NewRoutingManager_def)
  obtain rm2 k2 where two: "Routing_AddRoute (plain_kernel 5) plain_deps (sample_ipv6 2) rm1 k1 = (None, rm2, k2)"
    "rm_EBPFManager rm2 = sample_manager" "fmlookup (snd k2) (constructKey (sample_ipv6 2)) \<noteq> None"
    using one(2,3) by (cases k1) (simp add: sample_AddRoute)
  obtain rm3 k3 where three: "Routing_DeleteRoute (plain_kernel 5) (sample_ipv6 2) rm2 k2 = (None, rm3, k3)"
    using two(2,3) by (cases k2) (auto simp: sample_DeleteRoute)
  have maps: "fmlookup (em_Maps (rm_EBPFManager (NewRoutingManager sample_manager (9 :: byte)))) routes_map = Some ()"
    by (simp add: NewRoutingManager_def sample_manager_def routes_map_def)
  have "fmlookup (rm_Routes rm3) (getRouteKey (sample_ipv6 1)) = Some (sample_ipv6 1) \<and> fmlookup (snd k3) (constructKey (sample_ipv6 1)) = None"
    using ipv6_routes_diverge [OF plain_map_laws maps _ _ _ _ _ _ sample_ipv6_keys one(1) two(1) three] by simp
  then show ?thesis using one(1) two(1) three by blast
qed

end
