(* ===== verification/Pubsub.thy ===== *)
theory Pubsub
  imports Networking
begin

text \<open>
  \<open>pkg/networking/p2p_mock.go\<close> and \<open>pkg/networking/pubsub.go\<close>: the in-memory network the consensus code is run against, and the wrapper of a
  libp2p topic.  Shown here: in every sequence of calls the in-memory network behaves as one log of broadcasts with a
  reading position per topic (a refinement, calls with their results included); the wrapper's reading loop never returns, and after its
  context has ended it only logs failures.
\<close>

section \<open>The in-memory subscription\<close>

record mock_subscription =
  ms_messages :: "bytes list"
  ms_closed :: bool

definition NewMockSubscription :: mock_subscription where
  "NewMockSubscription = \<lparr>ms_messages = [], ms_closed = False\<rparr>"

definition EnqueueMessage :: "bytes \<Rightarrow> mock_subscription \<Rightarrow> mock_subscription" where
  "EnqueueMessage message ms = ms\<lparr>ms_messages := ms_messages ms @ [message]\<rparr>"

definition context_Canceled :: go_error where "context_Canceled = ErrorS ''context canceled''"

text \<open>\<open>Next\<close>: \<open>Inr None\<close> is the nil message with a nil error.\<close>

definition MockSubscription_Next :: "mock_subscription \<Rightarrow> bytes option result \<times> mock_subscription" where
  "MockSubscription_Next ms =
     (if ms_closed ms then (Inl context_Canceled, ms)
      else if length (ms_messages ms) = 0 then (Inr None, ms)
      else
        (let msg = ms_messages ms ! 0;
             ms = ms\<lparr>ms_messages := drop 1 (ms_messages ms)\<rparr>
         in (Inr (Some msg), ms)))"

definition MockSubscription_Cancel :: "mock_subscription \<Rightarrow> mock_subscription" where
  "MockSubscription_Cancel ms = ms\<lparr>ms_closed := True\<rparr>"

section \<open>The in-memory network\<close>

text \<open>\<open>mn_broadcastCh\<close> is the number of signals waiting in the channel, which has room for \<open>broadcast_cap\<close>.\<close>

record mock_network =
  mn_broadcasted :: "bytes list"
  mn_subscriptions :: "(string, mock_subscription) fmap"
  mn_hostID :: peer_id
  mn_broadcastCh :: nat

definition broadcast_cap :: nat where "broadcast_cap = 100"

definition NewMockP2PNetwork :: "peer_id \<Rightarrow> mock_network" where
  "NewMockP2PNetwork hostID =
     \<lparr>mn_broadcasted = [], mn_subscriptions = fmempty, mn_hostID = hostID, mn_broadcastCh = 0\<rparr>"

definition Mock_BroadcastMessage :: "bytes \<Rightarrow> mock_network \<Rightarrow> go_error option \<times> mock_network" where
  "Mock_BroadcastMessage message m =
     (let m = m\<lparr>mn_broadcasted := mn_broadcasted m @ [message]\<rparr>;
          m = m\<lparr>mn_subscriptions := fmmap (EnqueueMessage message) (mn_subscriptions m)\<rparr>;
          m = (if mn_broadcastCh m < broadcast_cap then m\<lparr>mn_broadcastCh := mn_broadcastCh m + 1\<rparr> else m)
      in (None, m))"

text \<open>The subscription that is returned is the one the network keeps under the topic; it is named by the topic below.\<close>

definition Mock_PubSubSubscribe :: "string \<Rightarrow> mock_network \<Rightarrow> mock_subscription result \<times> mock_network" where
  "Mock_PubSubSubscribe topic m =
     (case fmlookup (mn_subscriptions m) topic of
        Some mockSub \<Rightarrow> (Inr mockSub, m)
      | None \<Rightarrow>
          (let mockSub = NewMockSubscription
           in (Inr mockSub, m\<lparr>mn_subscriptions := fmupd topic mockSub (mn_subscriptions m)\<rparr>)))"

definition GetBroadcastedMessages :: "mock_network \<Rightarrow> bytes list" where
  "GetBroadcastedMessages m = mn_broadcasted m"

text \<open>A receive from \<open>BroadcastCh()\<close>: whether it returns without waiting.\<close>

definition BroadcastCh_recv :: "mock_network \<Rightarrow> bool \<times> mock_network" where
  "BroadcastCh_recv m =
     (if mn_broadcastCh m = 0 then (False, m) else (True, m\<lparr>mn_broadcastCh := mn_broadcastCh m - 1\<rparr>))"

definition GetBroadcastedCount :: "mock_network \<Rightarrow> nat" where
  "GetBroadcastedCount m = length (mn_broadcasted m)"

definition Mock_HostID :: "mock_network \<Rightarrow> peer_id" where
  "Mock_HostID m = mn_hostID m"

section \<open>Calls of the network and of its subscriptions\<close>

datatype mock_call = Broadcast_call bytes | Subscribe_call string | Next_call string | Cancel_call string | Recv_call | Count_call

datatype mock_reply = Done_reply | Message_reply "bytes option result" | Signal_reply bool | Count_reply nat | No_subscription

fun mock_call_run :: "mock_call \<Rightarrow> mock_network \<Rightarrow> mock_reply \<times> mock_network" where
  "mock_call_run (Broadcast_call message) m = (Done_reply, snd (Mock_BroadcastMessage message m))"
| "mock_call_run (Subscribe_call topic) m = (Done_reply, snd (Mock_PubSubSubscribe topic m))"
| "mock_call_run (Next_call topic) m =
     (case fmlookup (mn_subscriptions m) topic of
        None \<Rightarrow> (No_subscription, m)
      | Some sub \<Rightarrow>
          (let (r, sub) = MockSubscription_Next sub
           in (Message_reply r, m\<lparr>mn_subscriptions := fmupd topic sub (mn_subscriptions m)\<rparr>)))"
| "mock_call_run (Cancel_call topic) m =
     (case fmlookup (mn_subscriptions m) topic of
        None \<Rightarrow> (No_subscription, m)
      | Some sub \<Rightarrow> (Done_reply, m\<lparr>mn_subscriptions := fmupd topic (MockSubscription_Cancel sub) (mn_subscriptions m)\<rparr>))"
| "mock_call_run Recv_call m = (let (b, m) = BroadcastCh_recv m in (Signal_reply b, m))"
| "mock_call_run Count_call m = (Count_reply (GetBroadcastedCount m), m)"

fun mock_run :: "mock_call list \<Rightarrow> mock_network \<Rightarrow> mock_reply list \<times> mock_network" where
  "mock_run [] m = ([], m)"
| "mock_run (c # cs) m = (let (r, m) = mock_call_run c m; (rs, m) = mock_run cs m in (r # rs, m))"

section \<open>The abstract network: one log and a reading position per topic\<close>

record log_network =
  ln_log :: "bytes list"
  ln_position :: "string \<Rightarrow> nat option"
  ln_cancelled :: "string \<Rightarrow> bool"
  ln_signals :: nat

definition new_log :: log_network where
  "new_log = \<lparr>ln_log = [], ln_position = (\<lambda>topic. None), ln_cancelled = (\<lambda>topic. False), ln_signals = 0\<rparr>"

fun log_call_run :: "mock_call \<Rightarrow> log_network \<Rightarrow> mock_reply \<times> log_network" where
  "log_call_run (Broadcast_call message) n =
     (Done_reply, n\<lparr>ln_log := ln_log n @ [message], ln_signals := min broadcast_cap (ln_signals n + 1)\<rparr>)"
| "log_call_run (Subscribe_call topic) n =
     (Done_reply,
      if ln_position n topic = None then n\<lparr>ln_position := (ln_position n)(topic \<mapsto> length (ln_log n))\<rparr> else n)"
| "log_call_run (Next_call topic) n =
     (case ln_position n topic of
        None \<Rightarrow> (No_subscription, n)
      | Some i \<Rightarrow>
          if ln_cancelled n topic then (Message_reply (Inl context_Canceled), n)
          else if i < length (ln_log n) then
            (Message_reply (Inr (Some (ln_log n ! i))), n\<lparr>ln_position := (ln_position n)(topic \<mapsto> i + 1)\<rparr>)
          else (Message_reply (Inr None), n))"
| "log_call_run (Cancel_call topic) n =
     (if ln_position n topic = None then (No_subscription, n)
      else (Done_reply, n\<lparr>ln_cancelled := (ln_cancelled n)(topic := True)\<rparr>))"
| "log_call_run Recv_call n = (Signal_reply (ln_signals n \<noteq> 0), n\<lparr>ln_signals := ln_signals n - 1\<rparr>)"
| "log_call_run Count_call n = (Count_reply (length (ln_log n)), n)"

fun log_run :: "mock_call list \<Rightarrow> log_network \<Rightarrow> mock_reply list \<times> log_network" where
  "log_run [] n = ([], n)"
| "log_run (c # cs) n = (let (r, n) = log_call_run c n; (rs, n) = log_run cs n in (r # rs, n))"

text \<open>A subscription at a position of the log holds what follows the position.\<close>

definition sub_at :: "bytes list \<Rightarrow> nat option \<Rightarrow> bool \<Rightarrow> mock_subscription option \<Rightarrow> bool" where
  "sub_at l p c s \<longleftrightarrow>
     (case (p, s) of
        (None, None) \<Rightarrow> \<not> c
      | (Some i, Some sub) \<Rightarrow> i \<le> length l \<and> ms_messages sub = drop i l \<and> ms_closed sub = c
      | _ \<Rightarrow> False)"

definition mock_abs :: "mock_network \<Rightarrow> log_network \<Rightarrow> bool" where
  "mock_abs m n \<longleftrightarrow> mn_broadcasted m = ln_log n \<and> mn_broadcastCh m = ln_signals n \<and> ln_signals n \<le> broadcast_cap \<and>
     (\<forall>topic. sub_at (ln_log n) (ln_position n topic) (ln_cancelled n topic) (fmlookup (mn_subscriptions m) topic))"

lemma sub_at_Some: "sub_at l p c (Some sub) \<longleftrightarrow> (\<exists>i. p = Some i \<and> i \<le> length l \<and> ms_messages sub = drop i l \<and> ms_closed sub = c)"
  by (auto simp: sub_at_def split: option.splits)

lemma sub_at_None: "sub_at l p c None \<longleftrightarrow> p = None \<and> \<not> c"
  by (auto simp: sub_at_def split: option.splits)

lemma sub_at_Enqueue: "sub_at l p c s \<Longrightarrow> sub_at (l @ [message]) p c (map_option (EnqueueMessage message) s)"
  by (cases s) (auto simp: sub_at_Some sub_at_None EnqueueMessage_def)

lemma mock_call_simulated:
  assumes "mock_abs m n"
  shows "fst (mock_call_run c m) = fst (log_call_run c n) \<and> mock_abs (snd (mock_call_run c m)) (snd (log_call_run c n))"
proof (cases c)
  case (Broadcast_call message)
  then show ?thesis using assms
    by (auto simp: Mock_BroadcastMessage_def mock_abs_def Let_def sub_at_Enqueue)
next
  case (Subscribe_call topic)
  have "sub_at (ln_log n) (ln_position n topic) (ln_cancelled n topic) (fmlookup (mn_subscriptions m) topic)"
    using assms by (simp add: mock_abs_def)
  then show ?thesis using Subscribe_call assms
    by (cases "fmlookup (mn_subscriptions m) topic")
       (auto simp: Mock_PubSubSubscribe_def mock_abs_def Let_def sub_at_Some sub_at_None NewMockSubscription_def)
next
  case (Next_call topic)
  have "sub_at (ln_log n) (ln_position n topic) (ln_cancelled n topic) (fmlookup (mn_subscriptions m) topic)"
    using assms by (simp add: mock_abs_def)
  then show ?thesis using Next_call assms
    by (cases "fmlookup (mn_subscriptions m) topic")
       (auto simp: MockSubscription_Next_def mock_abs_def Let_def sub_at_Some sub_at_None)
next
  case (Cancel_call topic)
  have "sub_at (ln_log n) (ln_position n topic) (ln_cancelled n topic) (fmlookup (mn_subscriptions m) topic)"
    using assms by (simp add: mock_abs_def)
  then show ?thesis using Cancel_call assms
    by (cases "fmlookup (mn_subscriptions m) topic")
       (auto simp: MockSubscription_Cancel_def mock_abs_def Let_def sub_at_Some sub_at_None)
next
  case Recv_call
  then show ?thesis using assms by (auto simp: BroadcastCh_recv_def mock_abs_def)
next
  case Count_call
  then show ?thesis using assms by (simp add: GetBroadcastedCount_def mock_abs_def)
qed

lemma mock_run_simulated:
  assumes "mock_abs m n"
  shows "fst (mock_run cs m) = fst (log_run cs n) \<and> mock_abs (snd (mock_run cs m)) (snd (log_run cs n))"
  using assms
proof (induction cs arbitrary: m n)
  case (Cons c cs)
  show ?case using mock_call_simulated [OF Cons.prems, of c] Cons.IH [of "snd (mock_call_run c m)" "snd (log_call_run c n)"]
    by (simp add: case_prod_beta Let_def)
qed simp

lemma mock_abs_new: "mock_abs (NewMockP2PNetwork hostID) new_log"
  by (simp add: mock_abs_def NewMockP2PNetwork_def new_log_def sub_at_None)

text \<open>
  The in-memory network gives, to every sequence of calls, the replies of a single log with a reading position per topic: a subscription
  returns every message broadcast after the first subscription to its topic, in order and once, until it is cancelled, whatever is
  called in between; afterwards the recorded broadcasts are the log, and no more than \<open>broadcast_cap\<close> signals wait.
\<close>

theorem mock_network_refines_log:
  "fst (mock_run cs (NewMockP2PNetwork hostID)) = fst (log_run cs new_log) \<and>
   GetBroadcastedMessages (snd (mock_run cs (NewMockP2PNetwork hostID))) = ln_log (snd (log_run cs new_log)) \<and>
   mn_broadcastCh (snd (mock_run cs (NewMockP2PNetwork hostID))) \<le> broadcast_cap"
  using mock_run_simulated [OF mock_abs_new, of cs hostID] by (auto simp: mock_abs_def GetBroadcastedMessages_def)

section \<open>The wrapper of a topic\<close>

text \<open>
  The functions of libp2p's pubsub the wrapper calls, on an environment \<open>'e\<close>: \<open>Subscription.Next\<close> returns the sender and the data of the
  next message, and \<open>Logger_Printf\<close> is the standard logger with the line it prints.
\<close>

record ('p, 't, 's, 'e) pubsub_lib =
  pl_Join :: "'p \<Rightarrow> string \<Rightarrow> 'e \<Rightarrow> 't result \<times> 'e"
  pl_Subscribe :: "'t \<Rightarrow> 'e \<Rightarrow> 's result \<times> 'e"
  pl_Publish :: "'t \<Rightarrow> bytes \<Rightarrow> 'e \<Rightarrow> go_error option \<times> 'e"
  pl_Next :: "'s \<Rightarrow> 'e \<Rightarrow> (peer_id \<times> bytes) result \<times> 'e"

datatype log_line = Line_failed go_error | Line_message peer_id bytes

record ('p, 't, 's) pubsub_service =
  pss_PubSub :: 'p
  pss_Topic :: 't
  pss_Sub :: 's

definition NewPubSubService :: "('p, 't, 's, 'e) pubsub_lib \<Rightarrow> 'p \<Rightarrow> string \<Rightarrow> 'e \<Rightarrow> ('p, 't, 's) pubsub_service result \<times> 'e" where
  "NewPubSubService L ps topicName e =
     (case pl_Join L ps topicName e of
        (Inl err, e) \<Rightarrow> (Inl (wrap_error ''failed to join topic'' err), e)
      | (Inr topic, e) \<Rightarrow>
          (case pl_Subscribe L topic e of
             (Inl err, e) \<Rightarrow> (Inl (wrap_error ''failed to subscribe to topic'' err), e)
           | (Inr sub, e) \<Rightarrow> (Inr \<lparr>pss_PubSub = ps, pss_Topic = topic, pss_Sub = sub\<rparr>, e)))"

definition PublishMessage :: "('p, 't, 's, 'e) pubsub_lib \<Rightarrow> ('p, 't, 's) pubsub_service \<Rightarrow> bytes \<Rightarrow> 'e \<Rightarrow> go_error option \<times> 'e" where
  "PublishMessage L ps message e = pl_Publish L (pss_Topic ps) message e"

text \<open>One round of the loop of \<open>ReadMessages\<close>, and the loop; the lines logged so far are the second part of the state.\<close>

definition read_message :: "('p, 't, 's, 'e) pubsub_lib \<Rightarrow> ('p, 't, 's) pubsub_service \<Rightarrow> 'e \<times> log_line list \<Rightarrow> 'e \<times> log_line list" where
  "read_message L ps = (\<lambda>(e, lines).
     (case pl_Next L (pss_Sub ps) e of
        (Inl err, e) \<Rightarrow> (e, lines @ [Line_failed err])
      | (Inr (from, data), e) \<Rightarrow> (e, lines @ [Line_message from data])))"

partial_function (option) ReadMessages ::
  "('p, 't, 's, 'e) pubsub_lib \<Rightarrow> ('p, 't, 's) pubsub_service \<Rightarrow> 'e \<times> log_line list \<Rightarrow> unit option" where
  "ReadMessages L ps st = ReadMessages L ps (read_message L ps st)"

lemma ReadMessages_None: "ReadMessages L ps st = None"
proof (rule ccontr)
  assume "ReadMessages L ps st \<noteq> None"
  then obtain y where "ReadMessages L ps st = Some y" by blast
  then show False by (rule ReadMessages.raw_induct [rotated, where P = "\<lambda>_ _ _ _. False"]) blast
qed

text \<open>
  What is relied on of \<open>Next\<close>: once the context has ended it keeps ended, and the call fails.
\<close>

definition ended_laws :: "('p, 't, 's, 'e) pubsub_lib \<Rightarrow> ('e \<Rightarrow> bool) \<Rightarrow> bool" where
  "ended_laws L ended \<longleftrightarrow>
     (\<forall>s e r e'. pl_Next L s e = (r, e') \<and> ended e \<longrightarrow> ended e' \<and> (\<exists>err. r = Inl err))"

lemma read_after_end:
  assumes "ended_laws L ended" "ended (fst st)"
  shows "\<exists>errs. length errs = n \<and> snd ((read_message L ps ^^ n) st) = snd st @ map Line_failed errs \<and>
    ended (fst ((read_message L ps ^^ n) st))"
proof (induction n)
  case 0
  then show ?case using assms(2) by simp
next
  case (Suc n)
  obtain e0 lines0 where st: "(read_message L ps ^^ n) st = (e0, lines0)" by fastforce
  obtain errs where IH: "length errs = n" "lines0 = snd st @ map Line_failed errs" "ended e0" using Suc st by auto
  obtain r e' where next': "pl_Next L (pss_Sub ps) e0 = (r, e')" by fastforce
  obtain err where err: "ended e'" "r = Inl err" using assms(1) next' IH(3) unfolding ended_laws_def by blast
  have "(read_message L ps ^^ Suc n) st = (e', lines0 @ [Line_failed err])"
    using st next' err(2) by (simp add: read_message_def)
  then show ?case using IH err by (intro exI [of _ "errs @ [err]"]) simp
qed

text \<open>
  \<open>ReadMessages\<close> never returns, and once the context has ended each further round logs one failure: a cancelled service does not
  stop reading but keeps a processor busy for good.
\<close>

theorem read_messages_never_returns:
  assumes "ended_laws L ended" "ended (fst st)"
  shows "ReadMessages L ps st = None \<and>
    (\<exists>errs. length errs = n \<and> snd ((read_message L ps ^^ n) st) = snd st @ map Line_failed errs)"
  using read_after_end [OF assms, of n] ReadMessages_None by blast

definition ended_pubsub :: "(unit, string, string, bool) pubsub_lib" where
  "ended_pubsub = \<lparr>pl_Join = (\<lambda>p t e. (Inr t, e)), pl_Subscribe = (\<lambda>t e. (Inr t, e)),
     pl_Publish = (\<lambda>t m e. (if e then Some context_Canceled else None, e)),
     pl_Next = (\<lambda>s e. (if e then Inl context_Canceled else Inr ('''', []), e))\<rparr>"

theorem read_messages_never_returns_witness:
  "\<exists>errs. length errs = 2 \<and>
     snd ((read_message ended_pubsub \<lparr>pss_PubSub = (), pss_Topic = ''t'', pss_Sub = ''t''\<rparr> ^^ 2) (True, [])) = map Line_failed errs"
proof -
  have "ended_laws ended_pubsub (\<lambda>e. e)" by (auto simp: ended_laws_def ended_pubsub_def)
  then show ?thesis using read_messages_never_returns [of ended_pubsub "\<lambda>e. e" "(True, [])" _ 2] by auto
qed

end
