(* ===== verification/Observability.thy ===== *)
theory Observability
  imports Logging
begin

text \<open>
  \<open>pkg/observability\<close> and \<open>pkg/config/observability.go\<close>: setting up metrics and tracing, the global instance, recording a change of
  state, and the shutdown.  OpenTelemetry is a record of functions on an environment \<open>'e\<close>.  Shown here: what runs after a
  successful and after a failed initialization and after the shutdown, which sampler a configuration gives, and which state changes are
  counted.
\<close>

section \<open>Configuration\<close>

record 'f metrics_config =
  mc_Enable :: bool
  mc_Exporter :: string
  mc_Endpoint :: string
  mc_Headers :: "(string, string) fmap"
  mc_ExportInterval :: int64
  mc_SampleRate :: 'f

record 'f tracing_config =
  tc_Enable :: bool
  tc_Exporter :: string
  tc_Endpoint :: string
  tc_Headers :: "(string, string) fmap"
  tc_Sampler :: string
  tc_SamplingRate :: 'f
  tc_ExportInterval :: int64

record 'f observability_config =
  oc_Metrics :: "'f metrics_config"
  oc_Tracing :: "'f tracing_config"

section \<open>The library\<close>

datatype 'f sampler = AlwaysSample | TraceIDRatioBased 'f

text \<open>
  Exporters \<open>'x\<close>, resources \<open>'r\<close>, meter providers \<open>'mp\<close>, tracer providers \<open>'tp\<close>, meters \<open>'m\<close>, tracers \<open>'t\<close> and counters \<open>'c\<close>.
  \<open>Int64Counter\<close> returns an instrument also beside an error.  \<open>span_emit\<close> is a span that is started, given its attributes and ended.
\<close>

record ('x, 'r, 'mp, 'tp, 'm, 't, 'c, 'f, 'e) otel_lib =
  metric_exporter_New :: "string \<Rightarrow> (string, string) fmap \<Rightarrow> 'e \<Rightarrow> 'x result \<times> 'e"
  trace_exporter_New :: "string \<Rightarrow> (string, string) fmap \<Rightarrow> 'e \<Rightarrow> 'x result \<times> 'e"
  resource_New :: "string \<Rightarrow> 'e \<Rightarrow> 'r result \<times> 'e"
  NewMeterProvider :: "'r \<Rightarrow> 'x \<Rightarrow> int64 \<Rightarrow> 'e \<Rightarrow> 'mp \<times> 'e"
  NewTracerProvider :: "'x \<Rightarrow> 'f sampler \<Rightarrow> 'r \<Rightarrow> 'e \<Rightarrow> 'tp \<times> 'e"
  SetMeterProvider :: "'mp \<Rightarrow> 'e \<Rightarrow> 'e"
  SetTracerProvider :: "'tp \<Rightarrow> 'e \<Rightarrow> 'e"
  otel_Meter :: "string \<Rightarrow> 'e \<Rightarrow> 'm"
  otel_Tracer :: "string \<Rightarrow> 'e \<Rightarrow> 't"
  Int64Counter :: "'m \<Rightarrow> string \<Rightarrow> string \<Rightarrow> 'e \<Rightarrow> ('c option \<times> go_error option) \<times> 'e"
  counter_Add :: "'c \<Rightarrow> int64 \<Rightarrow> (string \<times> string) list \<Rightarrow> 'e \<Rightarrow> 'e"
  span_emit :: "'t \<Rightarrow> string \<Rightarrow> (string \<times> string) list \<Rightarrow> 'e \<Rightarrow> 'e"
  tp_Shutdown :: "'tp \<Rightarrow> 'e \<Rightarrow> go_error option \<times> 'e"

section \<open>Setting up\<close>

definition ServiceName :: string where "ServiceName = ''peerdns''"

text \<open>\<open>InitMetrics\<close> also sets the package variable \<open>ServiceStateCounter\<close>, the last component.\<close>

definition InitMetrics ::
  "('x, 'r, 'mp, 'tp, 'm, 't, 'c, 'f, 'e) otel_lib \<Rightarrow> 'f metrics_config \<Rightarrow> 'c option \<Rightarrow> 'e \<Rightarrow> 'm result \<times> 'c option \<times> 'e" where
  "InitMetrics T cfg counter e =
     (if \<not> mc_Enable cfg then (Inr (otel_Meter T ''disabled'' e), counter, e)
      else
        (case metric_exporter_New T (mc_Endpoint cfg) (mc_Headers cfg) e of
           (Inl err, e) \<Rightarrow> (Inl err, counter, e)
         | (Inr exporter, e) \<Rightarrow>
             (case resource_New T ServiceName e of
                (Inl err, e) \<Rightarrow> (Inl err, counter, e)
              | (Inr res, e) \<Rightarrow>
                  (let (meterProvider, e) = NewMeterProvider T res exporter (mc_ExportInterval cfg) e;
                       e = SetMeterProvider T meterProvider e;
                       meter = otel_Meter T ServiceName e;
                       ((counter, err), e) = Int64Counter T meter ''service_state_changes'' ''Counts the number of service state changes'' e
                   in case err of
                        Some err \<Rightarrow> (Inl err, counter, e)
                      | None \<Rightarrow> (Inr meter, counter, e)))))"

definition InitializeMetricsInObservability :: "'m \<Rightarrow> go_error option" where
  "InitializeMetricsInObservability meter = None"

definition choose_sampler :: "'f tracing_config \<Rightarrow> 'f sampler" where
  "choose_sampler cfg =
     (if tc_Sampler cfg = ''always_on'' then AlwaysSample
      else if tc_Sampler cfg = ''probability'' then TraceIDRatioBased (tc_SamplingRate cfg)
      else AlwaysSample)"

definition InitTracer ::
  "('x, 'r, 'mp, 'tp, 'm, 't, 'c, 'f, 'e) otel_lib \<Rightarrow> 'f tracing_config \<Rightarrow> 'e \<Rightarrow> ('t \<times> 'tp option) result \<times> 'e" where
  "InitTracer T cfg e =
     (if \<not> tc_Enable cfg then (Inr (otel_Tracer T ''disabled'' e, None), e)
      else
        (case trace_exporter_New T (tc_Endpoint cfg) (tc_Headers cfg) e of
           (Inl err, e) \<Rightarrow> (Inl err, e)
         | (Inr exporter, e) \<Rightarrow>
             (case resource_New T ServiceName e of
                (Inl err, e) \<Rightarrow> (Inl err, e)
              | (Inr res, e) \<Rightarrow>
                  (let (tp, e) = NewTracerProvider T exporter (choose_sampler cfg) res e;
                       e = SetTracerProvider T tp e
                   in (Inr (otel_Tracer T ServiceName e, Some tp), e)))))"

record ('l, 'm, 't, 'tp) observability =
  ob_Logger :: 'l
  ob_Meter :: 'm
  ob_Tracer :: 't
  ob_TracerProvider :: "'tp option"
  ob_ServiceName :: string

definition New_Observability ::
  "('x, 'r, 'mp, 'tp, 'm, 't, 'c, 'f, 'e) otel_lib \<Rightarrow> 'f observability_config \<Rightarrow> 'l \<Rightarrow> 'c option \<Rightarrow> 'e \<Rightarrow>
    ('l, 'm, 't, 'tp) observability result \<times> 'c option \<times> 'e" where
  "New_Observability T cfg l counter e =
     (let (meter, counter, e) =
        (if mc_Enable (oc_Metrics cfg) then
           (case InitMetrics T (oc_Metrics cfg) counter e of
              (Inl err, counter, e) \<Rightarrow> (Inl err, counter, e)
            | (Inr meter, counter, e) \<Rightarrow>
                (case InitializeMetricsInObservability meter of
                   Some err \<Rightarrow> (Inl err, counter, e)
                 | None \<Rightarrow> (Inr meter, counter, e)))
         else (Inr (otel_Meter T ''disabled'' e), counter, e))
      in case meter of
           Inl err \<Rightarrow> (Inl err, counter, e)
         | Inr meter \<Rightarrow>
             (let (tracer, e) =
                (if tc_Enable (oc_Tracing cfg) then InitTracer T (oc_Tracing cfg) e
                 else (Inr (otel_Tracer T ''disabled'' e, None), e))
              in case tracer of
                   Inl err \<Rightarrow> (Inl err, counter, e)
                 | Inr (tracer, tp) \<Rightarrow>
                     (Inr \<lparr>ob_Logger = l, ob_Meter = meter, ob_Tracer = tracer, ob_TracerProvider = tp,
                           ob_ServiceName = ServiceName\<rparr>, counter, e)))"

text \<open>The package variables: the global instance and the counter.\<close>

definition Observability_Initialize ::
  "('x, 'r, 'mp, 'tp, 'm, 't, 'c, 'f, 'e) otel_lib \<Rightarrow> 'f observability_config \<Rightarrow> 'l \<Rightarrow>
    ('l, 'm, 't, 'tp) observability option \<times> 'c option \<Rightarrow> 'e \<Rightarrow>
    ('l, 'm, 't, 'tp) observability result \<times> (('l, 'm, 't, 'tp) observability option \<times> 'c option) \<times> 'e" where
  "Observability_Initialize T cfg l = (\<lambda>(global, counter) e.
     (case New_Observability T cfg l counter e of
        (Inl obsErr, counter, e) \<Rightarrow> (Inl obsErr, (global, counter), e)
      | (Inr obs, counter, e) \<Rightarrow> (Inr obs, (Some obs, counter), e)))"

definition Observability_G :: "('l, 'm, 't, 'tp) observability option \<times> 'c option \<Rightarrow> ('l, 'm, 't, 'tp) observability option" where
  "Observability_G vars = fst vars"

section \<open>In use\<close>

definition Observability_Shutdown ::
  "('x, 'r, 'mp, 'tp, 'm, 't, 'c, 'f, 'e) otel_lib \<Rightarrow> ('l, 'm, 't, 'tp) observability \<Rightarrow> 'e \<Rightarrow> go_error option \<times> 'e" where
  "Observability_Shutdown T ob e =
     (case ob_TracerProvider ob of None \<Rightarrow> (None, e) | Some tp \<Rightarrow> tp_Shutdown T tp e)"

definition RecordServiceStateChange ::
  "('x, 'r, 'mp, 'tp, 'm, 't, 'c, 'f, 'e) otel_lib \<Rightarrow> 'c option \<Rightarrow> string \<Rightarrow> string \<Rightarrow> 'e \<Rightarrow> 'e" where
  "RecordServiceStateChange T counter serviceType state e =
     (case counter of
        None \<Rightarrow> e
      | Some c \<Rightarrow> counter_Add T c 1 [(''service_type'', serviceType), (''state'', state)] e)"

definition EmitServiceStateChangeTrace ::
  "('x, 'r, 'mp, 'tp, 'm, 't, 'c, 'f, 'e) otel_lib \<Rightarrow> ('l, 'm, 't, 'tp) observability \<Rightarrow> string \<Rightarrow> string \<Rightarrow> string \<Rightarrow> 'e \<Rightarrow> 'e" where
  "EmitServiceStateChangeTrace T ob serviceType previousState newState e =
     span_emit T (ob_Tracer ob) ''ServiceStateChange''
       [(''service_type'', serviceType), (''previous_state'', previousState), (''new_state'', newState)] e"

section \<open>Properties\<close>

text \<open>
  What is relied on of OpenTelemetry.  \<open>MP e\<close> and \<open>TP e\<close> are the providers that run in the background: a provider is new and runs once
  it is made; the shutdown of a tracer provider without an error ends that provider; the other calls start and end none.
\<close>

definition otel_laws ::
  "('x, 'r, 'mp, 'tp, 'm, 't, 'c, 'f, 'e) otel_lib \<Rightarrow> ('e \<Rightarrow> 'mp set) \<Rightarrow> ('e \<Rightarrow> 'tp set) \<Rightarrow> bool" where
  "otel_laws T MP TP \<longleftrightarrow>
     (\<forall>r x i e mp e'. NewMeterProvider T r x i e = (mp, e') \<longrightarrow> mp \<notin> MP e \<and> MP e' = insert mp (MP e) \<and> TP e' = TP e) \<and>
     (\<forall>x s r e tp e'. NewTracerProvider T x s r e = (tp, e') \<longrightarrow> tp \<notin> TP e \<and> TP e' = insert tp (TP e) \<and> MP e' = MP e) \<and>
     (\<forall>tp e e'. tp_Shutdown T tp e = (None, e') \<longrightarrow> TP e' = TP e - {tp} \<and> MP e' = MP e) \<and>
     (\<forall>p hs e r e'. metric_exporter_New T p hs e = (r, e') \<longrightarrow> MP e' = MP e \<and> TP e' = TP e) \<and>
     (\<forall>p hs e r e'. trace_exporter_New T p hs e = (r, e') \<longrightarrow> MP e' = MP e \<and> TP e' = TP e) \<and>
     (\<forall>n e r e'. resource_New T n e = (r, e') \<longrightarrow> MP e' = MP e \<and> TP e' = TP e) \<and>
     (\<forall>m n d e r e'. Int64Counter T m n d e = (r, e') \<longrightarrow> MP e' = MP e \<and> TP e' = TP e) \<and>
     (\<forall>mp e. MP (SetMeterProvider T mp e) = MP e \<and> TP (SetMeterProvider T mp e) = TP e) \<and>
     (\<forall>tp e. MP (SetTracerProvider T tp e) = MP e \<and> TP (SetTracerProvider T tp e) = TP e)"

lemma otel_lawsD:
  assumes "otel_laws T MP TP"
  shows "NewMeterProvider T r x i e = (mp, e') \<Longrightarrow> mp \<notin> MP e \<and> MP e' = insert mp (MP e) \<and> TP e' = TP e"
    and "NewTracerProvider T x s r e = (tp, e') \<Longrightarrow> tp \<notin> TP e \<and> TP e' = insert tp (TP e) \<and> MP e' = MP e"
    and "tp_Shutdown T tp e = (None, e') \<Longrightarrow> TP e' = TP e - {tp} \<and> MP e' = MP e"
    and "metric_exporter_New T p hs e = (rx, e') \<Longrightarrow> MP e' = MP e \<and> TP e' = TP e"
    and "trace_exporter_New T p hs e = (rx, e') \<Longrightarrow> MP e' = MP e \<and> TP e' = TP e"
    and "resource_New T n e = (rr, e') \<Longrightarrow> MP e' = MP e \<and> TP e' = TP e"
    and "Int64Counter T m n d e = ((c, ce), e') \<Longrightarrow> MP e' = MP e \<and> TP e' = TP e"
    and "MP (SetMeterProvider T mp e) = MP e" "TP (SetMeterProvider T mp e) = TP e"
    and "MP (SetTracerProvider T tp e) = MP e" "TP (SetTracerProvider T tp e) = TP e"
  using assms unfolding otel_laws_def by simp_all

definition one_more :: "'a set \<Rightarrow> 'a set \<Rightarrow> bool" where
  "one_more A B \<longleftrightarrow> (\<exists>x. x \<notin> A \<and> B = insert x A)"

lemma InitMetrics_providers:
  assumes "otel_laws T MP TP" "InitMetrics T cfg counter e = (r, counter', e')"
  shows "TP e' = TP e \<and> (MP e' = MP e \<or> one_more (MP e) (MP e')) \<and>
    (mc_Enable cfg \<and> r = Inr m \<longrightarrow> one_more (MP e) (MP e'))"
  using assms(2) unfolding InitMetrics_def one_more_def
  by (auto split: prod.splits sum.splits if_splits option.splits simp: Let_def otel_lawsD(8,9) [OF assms(1)]
      dest!: otel_lawsD(1,4,6,7) [OF assms(1)])

lemma InitTracer_providers:
  assumes "otel_laws T MP TP" "InitTracer T cfg e = (r, e')"
  shows "MP e' = MP e"
    and "r = Inl err \<Longrightarrow> TP e' = TP e"
    and "r = Inr (t, None) \<Longrightarrow> TP e' = TP e"
    and "r = Inr (t, Some tp) \<Longrightarrow> tp \<notin> TP e \<and> TP e' = insert tp (TP e)"
    and "r = Inr (t, x) \<Longrightarrow> tc_Enable cfg \<longleftrightarrow> x \<noteq> None"
  using assms(2) unfolding InitTracer_def
  by (auto split: prod.splits sum.splits if_splits simp: Let_def otel_lawsD(10,11) [OF assms(1)]
      dest!: otel_lawsD(2,5,6) [OF assms(1)])

text \<open>\<open>New\<close> asks whether a part is enabled before it calls a function that asks again: it is the two calls in sequence.\<close>

lemma New_Observability_calls:
  assumes "New_Observability T cfg l counter e = (r, counter', e')"
  shows "\<exists>rm e1. InitMetrics T (oc_Metrics cfg) counter e = (rm, counter', e1) \<and>
    ((\<exists>err. rm = Inl err \<and> r = Inl err \<and> e' = e1) \<or>
     (\<exists>m err. rm = Inr m \<and> InitTracer T (oc_Tracing cfg) e1 = (Inl err, e') \<and> r = Inl err) \<or>
     (\<exists>m t tp. rm = Inr m \<and> InitTracer T (oc_Tracing cfg) e1 = (Inr (t, tp), e') \<and>
        r = Inr \<lparr>ob_Logger = l, ob_Meter = m, ob_Tracer = t, ob_TracerProvider = tp, ob_ServiceName = ServiceName\<rparr>))"
proof -
  obtain rm counter1 e1 where M: "InitMetrics T (oc_Metrics cfg) counter e = (rm, counter1, e1)" by (metis surj_pair)
  obtain rt e2 where R: "InitTracer T (oc_Tracing cfg) e1 = (rt, e2)" by fastforce
  have off: "\<not> mc_Enable (oc_Metrics cfg) \<Longrightarrow> rm = Inr (otel_Meter T ''disabled'' e) \<and> counter1 = counter \<and> e1 = e"
    "\<not> tc_Enable (oc_Tracing cfg) \<Longrightarrow> rt = Inr (otel_Tracer T ''disabled'' e1, None) \<and> e2 = e1"
    using M R by (auto simp: InitMetrics_def InitTracer_def)
  have "(r, counter', e') =
    (case rm of
       Inl err \<Rightarrow> (Inl err, counter1, e1)
     | Inr m \<Rightarrow>
         (case rt of
            Inl err \<Rightarrow> (Inl err, counter1, e2)
          | Inr (t, tp) \<Rightarrow>
              (Inr \<lparr>ob_Logger = l, ob_Meter = m, ob_Tracer = t, ob_TracerProvider = tp, ob_ServiceName = ServiceName\<rparr>, counter1, e2)))"
    using assms [symmetric] M R off unfolding New_Observability_def InitializeMetricsInObservability_def
    by (cases "mc_Enable (oc_Metrics cfg)"; cases "tc_Enable (oc_Tracing cfg)"; cases rm) auto
  then show ?thesis using M R by (cases rm; cases rt) (auto split: prod.splits)
qed

text \<open>The providers after \<open>Initialize\<close>, on its two ways out.\<close>

lemma Initialize_ok:
  assumes "otel_laws T MP TP" "Observability_Initialize T cfg l vars e = (Inr obs, vars', e')"
  shows "fst vars' = Some obs \<and> (if mc_Enable (oc_Metrics cfg) then one_more (MP e) (MP e') else MP e' = MP e) \<and>
    (case ob_TracerProvider obs of
       None \<Rightarrow> \<not> tc_Enable (oc_Tracing cfg) \<and> TP e' = TP e
     | Some tp \<Rightarrow> tc_Enable (oc_Tracing cfg) \<and> tp \<notin> TP e \<and> TP e' = insert tp (TP e))"
proof -
  obtain counter' where N: "New_Observability T cfg l (snd vars) e = (Inr obs, counter', e')" "vars' = (Some obs, counter')"
    using assms(2) by (auto simp: Observability_Initialize_def split: prod.splits sum.splits)
  obtain m e1 t tp where calls: "InitMetrics T (oc_Metrics cfg) (snd vars) e = (Inr m, counter', e1)"
    "InitTracer T (oc_Tracing cfg) e1 = (Inr (t, tp), e')" "ob_TracerProvider obs = tp"
    using New_Observability_calls [OF N(1)] by auto
  have "if mc_Enable (oc_Metrics cfg) then one_more (MP e) (MP e1) else MP e1 = MP e"
    using InitMetrics_providers [OF assms(1) calls(1)] calls(1) by (auto simp: InitMetrics_def)
  then show ?thesis
    using N(2) calls(3) InitMetrics_providers [OF assms(1) calls(1)] InitTracer_providers [OF assms(1) calls(2)]
    by (cases tp) auto
qed

lemma Initialize_fails:
  assumes "otel_laws T MP TP" "Observability_Initialize T cfg l vars e = (Inl err, vars', e')"
  shows "fst vars' = fst vars \<and> TP e' = TP e \<and> (MP e' = MP e \<or> one_more (MP e) (MP e')) \<and>
    (\<forall>m counter1 e1. InitMetrics T (oc_Metrics cfg) (snd vars) e = (Inr m, counter1, e1) \<and> mc_Enable (oc_Metrics cfg) \<longrightarrow> one_more (MP e) (MP e'))"
proof -
  obtain counter' where N: "New_Observability T cfg l (snd vars) e = (Inl err, counter', e')" "fst vars' = fst vars"
    using assms(2) by (auto simp: Observability_Initialize_def split: prod.splits sum.splits)
  obtain rm e1 where M: "InitMetrics T (oc_Metrics cfg) (snd vars) e = (rm, counter', e1)"
    and calls: "e' = e1 \<and> rm = Inl err \<or> InitTracer T (oc_Tracing cfg) e1 = (Inl err, e')"
    using New_Observability_calls [OF N(1)] by auto
  have "MP e' = MP e1 \<and> TP e' = TP e1" using calls InitTracer_providers(1,2) [OF assms(1)] by blast
  then show ?thesis using N(2) M InitMetrics_providers [OF assms(1) M] by auto
qed

text \<open>
  After an initialization the instance is the global one, and a tracer provider and a meter provider run when they are enabled.  A shutdown that
  reports no error ends the tracer provider; the meter provider, of which no reference is kept, still runs.
\<close>

theorem observability_shutdown_keeps_meter:
  assumes "otel_laws T MP TP" "Observability_Initialize T cfg l vars e = (Inr obs, vars', e1)"
    and "Observability_Shutdown T obs e1 = (None, e2)"
  shows "Observability_G vars' = Some obs \<and> TP e2 = TP e \<and>
    (tc_Enable (oc_Tracing cfg) \<longrightarrow> one_more (TP e) (TP e1)) \<and>
    (if mc_Enable (oc_Metrics cfg) then one_more (MP e) (MP e2) else MP e2 = MP e)"
proof -
  have "TP e2 = TP e \<and> MP e2 = MP e1 \<and> (tc_Enable (oc_Tracing cfg) \<longrightarrow> one_more (TP e) (TP e1))"
    using Initialize_ok [OF assms(1,2)] assms(3) otel_lawsD(3) [OF assms(1)]
    by (cases "ob_TracerProvider obs") (auto simp: Observability_Shutdown_def one_more_def)
  then show ?thesis using Initialize_ok [OF assms(1,2)] by (auto simp: Observability_G_def)
qed

text \<open>
  An initialization that fails leaves the global instance and starts no tracer provider; when the metrics were set up before the failure,
  their provider goes on running and nothing refers to it.
\<close>

theorem failed_observability_leaks_meter:
  assumes "otel_laws T MP TP" "Observability_Initialize T cfg l vars e = (Inl err, vars', e1)"
  shows "Observability_G vars' = Observability_G vars \<and> TP e1 = TP e \<and>
    (\<forall>m counter1 e'. InitMetrics T (oc_Metrics cfg) (snd vars) e = (Inr m, counter1, e') \<and> mc_Enable (oc_Metrics cfg) \<longrightarrow>
       one_more (MP e) (MP e1))"
  using Initialize_fails [OF assms] by (simp add: Observability_G_def)

section \<open>An instance of the library\<close>

text \<open>The environment counts the meter providers, and lists the tracer providers that run; a trace exporter needs an endpoint.\<close>

definition plain_otel :: "(string, string, nat, nat, string, string, string, nat, nat \<times> nat \<times> nat list) otel_lib" where
  "plain_otel = \<lparr>metric_exporter_New = (\<lambda>p hs e. (Inr p, e)),
     trace_exporter_New = (\<lambda>p hs e. (if p = [] then Inl (ErrorS ''no endpoint'') else Inr p, e)),
     resource_New = (\<lambda>n e. (Inr n, e)),
     NewMeterProvider = (\<lambda>r x i (a, b, ts). (a, (a + 1, b, ts))),
     NewTracerProvider = (\<lambda>x s r (a, b, ts). (b, (a, b + 1, b # ts))),
     SetMeterProvider = (\<lambda>mp e. e), SetTracerProvider = (\<lambda>tp e. e), otel_Meter = (\<lambda>n e. n), otel_Tracer = (\<lambda>n e. n),
     Int64Counter = (\<lambda>m n d e. ((Some n, None), e)), counter_Add = (\<lambda>c i attrs e. e), span_emit = (\<lambda>t n attrs e. e),
     tp_Shutdown = (\<lambda>tp (a, b, ts). (None, (a, b, removeAll tp ts)))\<rparr>"

definition plain_MP :: "nat \<times> nat \<times> nat list \<Rightarrow> nat set" where
  "plain_MP = (\<lambda>(a, b, ts). {..<a})"

definition plain_TP :: "nat \<times> nat \<times> nat list \<Rightarrow> nat set" where
  "plain_TP = (\<lambda>(a, b, ts). {t \<in> set ts. t < b})"

definition sample_obs_config :: "string \<Rightarrow> nat observability_config" where
  "sample_obs_config endpoint = \<lparr>
     oc_Metrics = \<lparr>mc_Enable = True, mc_Exporter = ''otlp'', mc_Endpoint = ''m'', mc_Headers = fmempty, mc_ExportInterval = 1, mc_SampleRate = 1\<rparr>,
     oc_Tracing = \<lparr>tc_Enable = True, tc_Exporter = ''otlp'', tc_Endpoint = endpoint, tc_Headers = fmempty, tc_Sampler = ''probability'',
       tc_SamplingRate = 1, tc_ExportInterval = 1\<rparr>\<rparr>"

lemma plain_otel_laws: "otel_laws plain_otel plain_MP plain_TP"
  unfolding otel_laws_def by (auto simp: plain_otel_def plain_MP_def plain_TP_def lessThan_Suc)

lemmas obs_eval = Observability_Initialize_def New_Observability_def InitMetrics_def InitTracer_def
  InitializeMetricsInObservability_def sample_obs_config_def plain_otel_def Observability_Shutdown_def

theorem observability_shutdown_keeps_meter_witness:
  "\<exists>obs vars' e1 e2. Observability_Initialize plain_otel (sample_obs_config ''t'') () (None, None) (0, 0, []) = (Inr obs, vars', e1) \<and>
     Observability_Shutdown plain_otel obs e1 = (None, e2) \<and> plain_TP e2 = {} \<and> one_more {} (plain_MP e2)"
proof -
  obtain obs vars' e1 where I: "Observability_Initialize plain_otel (sample_obs_config ''t'') () (None, None) (0, 0, []) = (Inr obs, vars', e1)"
    "ob_TracerProvider obs = Some 0" by (simp add: obs_eval)
  obtain e2 where S: "Observability_Shutdown plain_otel obs e1 = (None, e2)"
    using I(2) by (cases e1) (simp add: Observability_Shutdown_def plain_otel_def)
  have start: "plain_TP (0, 0, []) = {}" "plain_MP (0, 0, []) = {}" "mc_Enable (oc_Metrics (sample_obs_config ''t''))"
    by (simp_all add: plain_MP_def plain_TP_def sample_obs_config_def)
  have "plain_TP e2 = {} \<and> one_more {} (plain_MP e2)"
    using observability_shutdown_keeps_meter [OF plain_otel_laws I(1) S] start by simp
  then show ?thesis using I(1) S by blast
qed

theorem failed_observability_leaks_meter_witness:
  "\<exists>vars' e1. Observability_Initialize plain_otel (sample_obs_config []) () (None, None) (0, 0, []) = (Inl (ErrorS ''no endpoint''), vars', e1) \<and>
     Observability_G vars' = None \<and> one_more {} (plain_MP e1)"
proof -
  obtain vars' e1 where I: "Observability_Initialize plain_otel (sample_obs_config []) () (None, None) (0, 0, []) = (Inl (ErrorS ''no endpoint''), vars', e1)"
    by (simp add: obs_eval)
  have "\<exists>m c e'. InitMetrics plain_otel (oc_Metrics (sample_obs_config [])) (snd (None, None)) (0, 0, []) = (Inr m, c, e')"
    by (simp add: InitMetrics_def plain_otel_def sample_obs_config_def)
  then show ?thesis using failed_observability_leaks_meter [OF plain_otel_laws I] I
    by (auto simp: plain_MP_def Observability_G_def sample_obs_config_def)
qed

end
