(* ===== verification/Instruments.thy ===== *)
theory Instruments
  imports Observability Discovery
begin

text \<open>
  \<open>pkg/networking/network_metrics.go\<close> and \<open>pkg/networking/discovery_metrics.go\<close>: the creation of the instruments the network and the discovery
  count with, one after the other.  The instruments of a meter are a record of functions.  Shown here: the creation fails exactly when one
  instrument cannot be created, no two instruments of the program have the same name, and a discovery service whose
  instruments cannot be created is not started.
\<close>

section \<open>Creation\<close>

record ('c, 'h, 'u) meter_api =
  me_Int64Counter :: "string \<Rightarrow> string \<Rightarrow> 'c result"
  me_Float64Histogram :: "string \<Rightarrow> string \<Rightarrow> 'h result"
  me_Int64UpDownCounter :: "string \<Rightarrow> string \<Rightarrow> 'u result"

record ('c, 'h, 'u) p2p_instruments =
  pi_PeersConnectedTotal :: 'c
  pi_PeersConnectionFailed :: 'c
  pi_MessagesSentTotal :: 'c
  pi_MessagesReceivedTotal :: 'c
  pi_MessageLatencySeconds :: 'h
  pi_ActivePeers :: 'u
  pi_PeersRemovedTotal :: 'c

definition InitializeP2PMetrics :: "('c, 'h, 'u) meter_api \<Rightarrow> ('c, 'h, 'u) p2p_instruments result" where
  "InitializeP2PMetrics M =
     bindE (me_Int64Counter M ''networking.p2p.peers_connected_total'' ''Total number of successfully connected peers'') (\<lambda>peersConnectedTotal.
     bindE (me_Int64Counter M ''networking.p2p.peers_connection_failed_total'' ''Total number of failed peer connection attempts'') (\<lambda>peersConnectionFailed.
     bindE (me_Int64Counter M ''networking.p2p.messages_sent_total'' ''Total number of messages sent'') (\<lambda>messagesSentTotal.
     bindE (me_Int64Counter M ''networking.p2p.messages_received_total'' ''Total number of messages received'') (\<lambda>messagesReceivedTotal.
     bindE (me_Float64Histogram M ''networking.p2p.message_latency_seconds'' ''Latency of message processing in seconds'') (\<lambda>messageLatencySeconds.
     bindE (me_Int64UpDownCounter M ''networking.p2p.active_peers'' ''Current number of active peers in the network'') (\<lambda>activePeers.
     bindE (me_Int64Counter M ''networking.p2p.peers_removed_total'' ''Total number of peers removed from the network'') (\<lambda>peersRemovedTotal.
     Inr \<lparr>pi_PeersConnectedTotal = peersConnectedTotal, pi_PeersConnectionFailed = peersConnectionFailed, pi_MessagesSentTotal = messagesSentTotal, pi_MessagesReceivedTotal = messagesReceivedTotal, pi_MessageLatencySeconds = messageLatencySeconds, pi_ActivePeers = activePeers, pi_PeersRemovedTotal = peersRemovedTotal\<rparr>)))))))"

record ('c, 'h, 'u) discovery_instruments =
  di_PeersAdvertisedTotal :: 'c
  di_PeersAdvertisementFailures :: 'c
  di_PeersDiscoveredTotal :: 'c
  di_PeersDiscoveryFailures :: 'c
  di_DiscoveryLatencySeconds :: 'h
  di_BootstrapPeersConnected :: 'c
  di_BootstrapPeersFailed :: 'c
  di_ActivePeers :: 'u
  di_PeersRemovedTotal :: 'c

definition InitializeDiscoveryMetrics :: "('c, 'h, 'u) meter_api \<Rightarrow> ('c, 'h, 'u) discovery_instruments result" where
  "InitializeDiscoveryMetrics M =
     bindE (me_Int64Counter M ''networking.discovery.peers_advertised_total'' ''Total number of services advertised'') (\<lambda>peersAdvertisedTotal.
     bindE (me_Int64Counter M ''networking.discovery.peers_advertisement_failures'' ''Total number of failed service advertisements'') (\<lambda>peersAdvertisementFailures.
     bindE (me_Int64Counter M ''networking.discovery.peers_discovered_total'' ''Total number of peers discovered'') (\<lambda>peersDiscoveredTotal.
     bindE (me_Int64Counter M ''networking.discovery.peers_discovery_failures'' ''Total number of failed peer discovery attempts'') (\<lambda>peersDiscoveryFailures.
     bindE (me_Float64Histogram M ''networking.discovery.latency_seconds'' ''Latency for peer discovery operations in seconds'') (\<lambda>discoveryLatencySeconds.
     bindE (me_Int64Counter M ''networking.bootstrap.peers_connected_total'' ''Total number of successfully connected bootstrap peers'') (\<lambda>bootstrapPeersConnected.
     bindE (me_Int64Counter M ''networking.bootstrap.peers_failed_total'' ''Total number of failed bootstrap peer connections'') (\<lambda>bootstrapPeersFailed.
     bindE (me_Int64UpDownCounter M ''networking.discovery.active_peers'' ''Current number of active peers in the routing table'') (\<lambda>activePeers.
     bindE (me_Int64Counter M ''networking.discovery.peers_removed_total'' ''Total number of peers removed from the routing table'') (\<lambda>peersRemovedTotal.
     Inr \<lparr>di_PeersAdvertisedTotal = peersAdvertisedTotal, di_PeersAdvertisementFailures = peersAdvertisementFailures, di_PeersDiscoveredTotal = peersDiscoveredTotal, di_PeersDiscoveryFailures = peersDiscoveryFailures, di_DiscoveryLatencySeconds = discoveryLatencySeconds, di_BootstrapPeersConnected = bootstrapPeersConnected, di_BootstrapPeersFailed = bootstrapPeersFailed, di_ActivePeers = activePeers, di_PeersRemovedTotal = peersRemovedTotal\<rparr>)))))))))"

section \<open>Properties\<close>

definition p2p_names :: "string list" where
  "p2p_names = [''networking.p2p.peers_connected_total'', ''networking.p2p.peers_connection_failed_total'', ''networking.p2p.messages_sent_total'', ''networking.p2p.messages_received_total'', ''networking.p2p.message_latency_seconds'', ''networking.p2p.active_peers'', ''networking.p2p.peers_removed_total'']"

definition discovery_names :: "string list" where
  "discovery_names = [''networking.discovery.peers_advertised_total'', ''networking.discovery.peers_advertisement_failures'', ''networking.discovery.peers_discovered_total'', ''networking.discovery.peers_discovery_failures'', ''networking.discovery.latency_seconds'', ''networking.bootstrap.peers_connected_total'', ''networking.bootstrap.peers_failed_total'', ''networking.discovery.active_peers'', ''networking.discovery.peers_removed_total'']"

definition p2p_created :: "('c, 'h, 'u) meter_api \<Rightarrow> ('c, 'h, 'u) p2p_instruments \<Rightarrow> bool" where
  "p2p_created M m \<longleftrightarrow>
       me_Int64Counter M ''networking.p2p.peers_connected_total'' ''Total number of successfully connected peers'' = Inr (pi_PeersConnectedTotal m) \<and>
       me_Int64Counter M ''networking.p2p.peers_connection_failed_total'' ''Total number of failed peer connection attempts'' = Inr (pi_PeersConnectionFailed m) \<and>
       me_Int64Counter M ''networking.p2p.messages_sent_total'' ''Total number of messages sent'' = Inr (pi_MessagesSentTotal m) \<and>
       me_Int64Counter M ''networking.p2p.messages_received_total'' ''Total number of messages received'' = Inr (pi_MessagesReceivedTotal m) \<and>
       me_Float64Histogram M ''networking.p2p.message_latency_seconds'' ''Latency of message processing in seconds'' = Inr (pi_MessageLatencySeconds m) \<and>
       me_Int64UpDownCounter M ''networking.p2p.active_peers'' ''Current number of active peers in the network'' = Inr (pi_ActivePeers m) \<and>
       me_Int64Counter M ''networking.p2p.peers_removed_total'' ''Total number of peers removed from the network'' = Inr (pi_PeersRemovedTotal m)"

definition discovery_created :: "('c, 'h, 'u) meter_api \<Rightarrow> ('c, 'h, 'u) discovery_instruments \<Rightarrow> bool" where
  "discovery_created M m \<longleftrightarrow>
       me_Int64Counter M ''networking.discovery.peers_advertised_total'' ''Total number of services advertised'' = Inr (di_PeersAdvertisedTotal m) \<and>
       me_Int64Counter M ''networking.discovery.peers_advertisement_failures'' ''Total number of failed service advertisements'' = Inr (di_PeersAdvertisementFailures m) \<and>
       me_Int64Counter M ''networking.discovery.peers_discovered_total'' ''Total number of peers discovered'' = Inr (di_PeersDiscoveredTotal m) \<and>
       me_Int64Counter M ''networking.discovery.peers_discovery_failures'' ''Total number of failed peer discovery attempts'' = Inr (di_PeersDiscoveryFailures m) \<and>
       me_Float64Histogram M ''networking.discovery.latency_seconds'' ''Latency for peer discovery operations in seconds'' = Inr (di_DiscoveryLatencySeconds m) \<and>
       me_Int64Counter M ''networking.bootstrap.peers_connected_total'' ''Total number of successfully connected bootstrap peers'' = Inr (di_BootstrapPeersConnected m) \<and>
       me_Int64Counter M ''networking.bootstrap.peers_failed_total'' ''Total number of failed bootstrap peer connections'' = Inr (di_BootstrapPeersFailed m) \<and>
       me_Int64UpDownCounter M ''networking.discovery.active_peers'' ''Current number of active peers in the routing table'' = Inr (di_ActivePeers m) \<and>
       me_Int64Counter M ''networking.discovery.peers_removed_total'' ''Total number of peers removed from the routing table'' = Inr (di_PeersRemovedTotal m)"

text \<open>The instruments are the ones the meter makes for their names; the record is made exactly when all of them are.\<close>

lemma InitializeP2PMetrics_iff: "InitializeP2PMetrics M = Inr m \<longleftrightarrow> p2p_created M m"
  unfolding InitializeP2PMetrics_def p2p_created_def bindE_eq_Inr by (cases m) auto

lemma InitializeDiscoveryMetrics_iff: "InitializeDiscoveryMetrics M = Inr m \<longleftrightarrow> discovery_created M m"
  unfolding InitializeDiscoveryMetrics_def discovery_created_def bindE_eq_Inr by (cases m) auto

text \<open>The names under which the program reports, the counter of the service states included, are different.\<close>

lemma instrument_names_distinct: "distinct (''service_state_changes'' # p2p_names @ discovery_names)"
  by (simp add: p2p_names_def discovery_names_def)

text \<open>A discovery service that was created has all nine instruments, each made by the meter under its own name.\<close>

theorem discovery_has_instruments:
  assumes "NewDiscoveryService L D bootstrapPeers (case InitializeDiscoveryMetrics M of Inl err \<Rightarrow> Some err | Inr _ \<Rightarrow> None) env = (Inr metrics, env')"
  shows "\<exists>m. discovery_created M m"
proof (cases "InitializeDiscoveryMetrics M")
  case (Inl err)
  then show ?thesis using assms by (simp add: NewDiscoveryService_def)
next
  case (Inr m)
  then show ?thesis by (auto simp: InitializeDiscoveryMetrics_iff)
qed

end
