(* ===== verification/Certificates.thy ===== *)
theory Certificates
  imports Go_Stdlib
begin

text \<open>
  \<open>pkg/certs\<close> and \<open>cmd/certs.go\<close>: self-signed certificates, their export in PEM, the \<open>certs\<close> commands and the calls of certbot.  The
  elliptic-curve keys, the signing of certificates, the clock, the files and the execution of programs are a record of
  functions on an environment \<open>'e\<close>; the PEM encoding is modelled.  Shown here: what \<open>certs local\<close> leaves in the files on each way
  out, the validity of the certificate, and the shape of the PEM text.
\<close>

section \<open>Base64 and PEM\<close>

definition base64_alphabet :: string where
  "base64_alphabet = ''ABCDEFGHIJKLMNOPQRSTUVWXYZabcdefghijklmnopqrstuvwxyz0123456789+/''"

definition base64_char :: "nat \<Rightarrow> byte" where
  "base64_char n = of_char (base64_alphabet ! (n mod 64))"

fun base64_encode :: "bytes \<Rightarrow> bytes" where
  "base64_encode [] = []"
| "base64_encode [a] =
     (let v = unat a * 65536 in [base64_char (v div 262144), base64_char (v div 4096), 61, 61])"
| "base64_encode [a, b] =
     (let v = unat a * 65536 + unat b * 256 in [base64_char (v div 262144), base64_char (v div 4096), base64_char (v div 64), 61])"
| "base64_encode (a # b # c # rest) =
     (let v = unat a * 65536 + unat b * 256 + unat c
      in [base64_char (v div 262144), base64_char (v div 4096), base64_char (v div 64), base64_char v] @ base64_encode rest)"

definition text_bytes :: "string \<Rightarrow> bytes" where
  "text_bytes = map of_char"

text \<open>The lines of \<open>encoding/pem\<close>: 64 characters, the last one what is left.\<close>

function break_lines :: "bytes \<Rightarrow> bytes list" where
  "break_lines s = (if s = [] then [] else take 64 s # break_lines (drop 64 s))"
  by pat_completeness auto
termination by (relation "measure length") auto

declare break_lines.simps [simp del]

definition pem_EncodeToMemory :: "string \<Rightarrow> bytes \<Rightarrow> bytes" where
  "pem_EncodeToMemory typ b =
     text_bytes (''-----BEGIN '' @ typ @ ''-----'') @ [10] @
     concat (map (\<lambda>line. line @ [10]) (break_lines (base64_encode b))) @
     text_bytes (''-----END '' @ typ @ ''-----'') @ [10]"

section \<open>The library\<close>

text \<open>Times and durations are in nanoseconds.\<close>

record cert_template =
  ct_SerialNumber :: int
  ct_Organization :: "string list"
  ct_NotBefore :: int
  ct_NotAfter :: int
  ct_KeyEncipherment :: bool
  ct_DigitalSignature :: bool
  ct_ServerAuth :: bool
  ct_BasicConstraintsValid :: bool

record ('k, 'e) cert_lib =
  ecdsa_GenerateKey :: "'e \<Rightarrow> 'k result \<times> 'e"
  time_Now :: "'e \<Rightarrow> int \<times> 'e"
  x509_CreateCertificate :: "cert_template \<Rightarrow> 'k \<Rightarrow> 'e \<Rightarrow> bytes result \<times> 'e"
  x509_MarshalECPrivateKey :: "'k \<Rightarrow> bytes result"
  WriteFile_mode :: "string \<Rightarrow> bytes \<Rightarrow> nat \<Rightarrow> 'e \<Rightarrow> go_error option \<times> 'e"
  exec_CombinedOutput :: "string \<Rightarrow> string list \<Rightarrow> 'e \<Rightarrow> (bytes \<times> go_error option) \<times> 'e"

section \<open>Self-signed certificates\<close>

definition year :: int where "year = 365 * 24 * 3600000000000"

definition cert_template_at :: "int \<Rightarrow> int \<Rightarrow> cert_template" where
  "cert_template_at t1 t2 = \<lparr>ct_SerialNumber = 1, ct_Organization = [''Example Organization''], ct_NotBefore = t1, ct_NotAfter = t2 + year,
     ct_KeyEncipherment = True, ct_DigitalSignature = True, ct_ServerAuth = True, ct_BasicConstraintsValid = True\<rparr>"

definition GenerateSelfSignedCert :: "('k, 'e) cert_lib \<Rightarrow> 'e \<Rightarrow> (bytes \<times> 'k) result \<times> 'e" where
  "GenerateSelfSignedCert C e =
     (case ecdsa_GenerateKey C e of
        (Inl err, e) \<Rightarrow> (Inl err, e)
      | (Inr privKey, e) \<Rightarrow>
          (let (t1, e) = time_Now C e;
               (t2, e) = time_Now C e
           in case x509_CreateCertificate C (cert_template_at t1 t2) privKey e of
                (Inl err, e) \<Rightarrow> (Inl err, e)
              | (Inr certBytes, e) \<Rightarrow> (Inr (certBytes, privKey), e)))"

text \<open>The unexported copy of the function, with the same body.\<close>

definition generateSelfSignedCert :: "('k, 'e) cert_lib \<Rightarrow> 'e \<Rightarrow> (bytes \<times> 'k) result \<times> 'e" where
  "generateSelfSignedCert C e =
     (case ecdsa_GenerateKey C e of
        (Inl err, e) \<Rightarrow> (Inl err, e)
      | (Inr privKey, e) \<Rightarrow>
          (let (t1, e) = time_Now C e;
               (t2, e) = time_Now C e
           in case x509_CreateCertificate C (cert_template_at t1 t2) privKey e of
                (Inl err, e) \<Rightarrow> (Inl err, e)
              | (Inr certBytes, e) \<Rightarrow> (Inr (certBytes, privKey), e)))"

record 'k quic_tls_config =
  qt_Certificates :: "(bytes list \<times> 'k) list"
  qt_NextProtos :: "string list"

definition GenerateTLSConfig :: "('k, 'e) cert_lib \<Rightarrow> 'e \<Rightarrow> 'k quic_tls_config result \<times> 'e" where
  "GenerateTLSConfig C e =
     (case generateSelfSignedCert C e of
        (Inl err, e) \<Rightarrow> (Inl (Panic ''generateSelfSignedCert''), e)
      | (Inr (cert, privKey), e) \<Rightarrow>
          (Inr \<lparr>qt_Certificates = [([cert], privKey)], qt_NextProtos = [''quic-example'']\<rparr>, e))"

definition ExportPEM :: "('k, 'e) cert_lib \<Rightarrow> bytes \<Rightarrow> 'k \<Rightarrow> (bytes \<times> bytes) result" where
  "ExportPEM C cert privKey =
     (let certPEM = pem_EncodeToMemory ''CERTIFICATE'' cert
      in case x509_MarshalECPrivateKey C privKey of
           Inl err \<Rightarrow> Inl err
         | Inr privBytes \<Rightarrow> Inr (certPEM, pem_EncodeToMemory ''EC PRIVATE KEY'' privBytes))"

section \<open>Commands\<close>

definition CertbotCreateCertificate :: "('k, 'e) cert_lib \<Rightarrow> string \<Rightarrow> string \<Rightarrow> 'e \<Rightarrow> go_error option \<times> 'e" where
  "CertbotCreateCertificate C domain email e =
     (case exec_CombinedOutput C ''certbot'' [''certonly'', ''--non-interactive'', ''--agree-tos'', ''--email'', email, ''-d'', domain] e of
        ((output, Some err), e) \<Rightarrow> (Some (ErrorS (''failed to create certificate: '' @ map (\<lambda>b. char_of (unat b)) output)), e)
      | ((output, None), e) \<Rightarrow> (None, e))"

definition CertbotRenewCertificate :: "('k, 'e) cert_lib \<Rightarrow> 'e \<Rightarrow> go_error option \<times> 'e" where
  "CertbotRenewCertificate C e =
     (case exec_CombinedOutput C ''certbot'' [''renew''] e of
        ((output, Some err), e) \<Rightarrow> (Some (ErrorS (''failed to renew certificate: '' @ map (\<lambda>b. char_of (unat b)) output)), e)
      | ((output, None), e) \<Rightarrow> (None, e))"

text \<open>The actions of the subcommands; \<open>create\<close> and \<open>renew\<close> return at once.\<close>

definition certs_create :: "string \<Rightarrow> string \<Rightarrow> 'e \<Rightarrow> go_error option \<times> 'e" where
  "certs_create domain email e = (None, e)"

definition certs_renew :: "'e \<Rightarrow> go_error option \<times> 'e" where
  "certs_renew e = (None, e)"

definition certs_local :: "('k, 'e) cert_lib \<Rightarrow> string \<Rightarrow> string \<Rightarrow> 'e \<Rightarrow> go_error option \<times> 'e" where
  "certs_local C certOutput keyOutput e =
     (case GenerateSelfSignedCert C e of
        (Inl err, e) \<Rightarrow> (Some (wrap_error ''failed to generate certificate'' err), e)
      | (Inr (cert, privKey), e) \<Rightarrow>
          (case ExportPEM C cert privKey of
             Inl err \<Rightarrow> (Some (wrap_error ''failed to export certificate and key'' err), e)
           | Inr (certPEM, keyPEM) \<Rightarrow>
               (case WriteFile_mode C certOutput certPEM 420 e of
                  (Some err, e) \<Rightarrow> (Some (wrap_error ''failed to write certificate file'' err), e)
                | (None, e) \<Rightarrow>
                    (case WriteFile_mode C keyOutput keyPEM 384 e of
                       (Some err, e) \<Rightarrow> (Some (wrap_error ''failed to write private key file'' err), e)
                     | (None, e) \<Rightarrow> (None, e)))))"

section \<open>Properties\<close>

lemma length_base64_encode: "length (base64_encode b) = 4 * ((length b + 2) div 3)"
proof (induction b rule: base64_encode.induct)
  case (4 a b c rest)
  then show ?case by (simp add: Let_def del: One_nat_def) presburger
qed (simp_all add: Let_def)

lemma concat_break_lines: "concat (break_lines s) = s"
  by (induction s rule: break_lines.induct) (subst break_lines.simps, simp)

lemma break_lines_short: "line \<in> set (break_lines s) \<Longrightarrow> line \<noteq> [] \<and> length line \<le> 64"
proof (induction s rule: break_lines.induct)
  case (1 s)
  then show ?case by (subst (asm) (2) break_lines.simps) (auto split: if_splits)
qed

lemma length_break_lines: "length (break_lines s) = (length s + 63) div 64"
proof (induction s rule: break_lines.induct)
  case (1 s)
  show ?case
  proof (cases "s = []")
    case False
    have "(length s - 64 + 63) div 64 = (length s - 1) div 64" by (cases "length s < 64") simp_all
    moreover have "length s + 63 = (length s - 1) + 64" using False by (cases s) simp_all
    ultimately have "Suc ((length s - 64 + 63) div 64) = (length s + 63) div 64" by simp
    then show ?thesis using 1 [OF False] False by (subst break_lines.simps) simp
  qed (simp add: break_lines.simps)
qed

text \<open>
  The PEM text of a block: between its two boundary lines stand lines of at most 64 characters, none of them empty, that
  together are the base64 encoding of the bytes; its length is determined by the number of bytes.
\<close>

theorem pem_shape:
  "concat (break_lines (base64_encode b)) = base64_encode b \<and>
   list_all (\<lambda>line. line \<noteq> [] \<and> length line \<le> 64) (break_lines (base64_encode b)) \<and>
   length (pem_EncodeToMemory typ b) =
     4 * ((length b + 2) div 3) + (4 * ((length b + 2) div 3) + 63) div 64 + 2 * length typ + 32"
proof -
  have lines: "length (concat (map (\<lambda>line. line @ [10]) ls)) = length (concat ls) + length ls" for ls :: "bytes list"
    by (induction ls) simp_all
  show ?thesis
    using lines [of "break_lines (base64_encode b)"] break_lines_short
    by (simp add: concat_break_lines pem_EncodeToMemory_def text_bytes_def length_base64_encode length_break_lines list_all_iff)
qed

text \<open>
  What is relied on of the files: \<open>F e\<close> gives the bytes and the mode of each.  A write without an error replaces the bytes; the mode
  is set when the file is new and otherwise kept, as \<open>os.WriteFile\<close> documents (with nothing masked).  A failed write may
  leave anything in its own file.  Making keys and certificates does not touch the files.
\<close>

definition cert_laws :: "('k, 'e) cert_lib \<Rightarrow> ('e \<Rightarrow> string \<Rightarrow> (bytes \<times> nat) option) \<Rightarrow> bool" where
  "cert_laws C F \<longleftrightarrow>
     (\<forall>p d m e e'. WriteFile_mode C p d m e = (None, e') \<longrightarrow>
        F e' = (F e)(p \<mapsto> (d, case F e p of None \<Rightarrow> m | Some (_, m0) \<Rightarrow> m0))) \<and>
     (\<forall>p d m e err e' q. WriteFile_mode C p d m e = (Some err, e') \<and> q \<noteq> p \<longrightarrow> F e' q = F e q) \<and>
     (\<forall>e. F (snd (ecdsa_GenerateKey C e)) = F e \<and> F (snd (time_Now C e)) = F e) \<and>
     (\<forall>t k e. F (snd (x509_CreateCertificate C t k e)) = F e)"

lemma GenerateSelfSignedCert_files:
  assumes "cert_laws C F" "GenerateSelfSignedCert C e = (r, e')"
  shows "F e' = F e"
  using assms unfolding cert_laws_def GenerateSelfSignedCert_def
  by (auto simp: Let_def split: prod.splits sum.splits) (metis snd_conv)+

lemma GenerateSelfSignedCert_validity:
  assumes "GenerateSelfSignedCert C e = (Inr (cert, key), e')"
  shows "\<exists>t1 t2 e1 e2 e3. time_Now C e1 = (t1, e2) \<and> time_Now C e2 = (t2, e3) \<and>
    x509_CreateCertificate C (cert_template_at t1 t2) key e3 = (Inr cert, e')"
  using assms by (auto simp: GenerateSelfSignedCert_def Let_def split: prod.splits sum.splits) blast

lemma cert_lawsD:
  assumes "cert_laws C F"
  shows "WriteFile_mode C p d m e = (None, e') \<Longrightarrow> F e' = (F e)(p \<mapsto> (d, case F e p of None \<Rightarrow> m | Some (_, m0) \<Rightarrow> m0))"
    and "WriteFile_mode C p d m e = (Some err, e') \<Longrightarrow> q \<noteq> p \<Longrightarrow> F e' q = F e q"
  using assms unfolding cert_laws_def by blast+

text \<open>
  \<open>certs local\<close> that reports no error has made a certificate and a key and saved both in PEM, the key readable by its owner only, and no other
  file has changed.  That holds when the two paths differ and the key file is new: with one path for both only the key is
  kept, in a file that everybody may read, and a key file that was there keeps its mode.
\<close>

theorem certs_local_saves:
  assumes "cert_laws C F" "certs_local C certOutput keyOutput e = (None, e')"
  shows "\<exists>cert key privBytes e1. GenerateSelfSignedCert C e = (Inr (cert, key), e1) \<and> x509_MarshalECPrivateKey C key = Inr privBytes \<and>
    (certOutput \<noteq> keyOutput \<longrightarrow>
       map_option fst (F e' certOutput) = Some (pem_EncodeToMemory ''CERTIFICATE'' cert) \<and>
       F e' keyOutput = Some (pem_EncodeToMemory ''EC PRIVATE KEY'' privBytes, case F e keyOutput of None \<Rightarrow> 384 | Some (_, m) \<Rightarrow> m)) \<and>
    (certOutput = keyOutput \<longrightarrow>
       F e' keyOutput = Some (pem_EncodeToMemory ''EC PRIVATE KEY'' privBytes, case F e keyOutput of None \<Rightarrow> 420 | Some (_, m) \<Rightarrow> m)) \<and>
    (\<forall>q. q \<noteq> certOutput \<and> q \<noteq> keyOutput \<longrightarrow> F e' q = F e q)"
proof -
  obtain cert key e1 privBytes e2 where run: "GenerateSelfSignedCert C e = (Inr (cert, key), e1)" "x509_MarshalECPrivateKey C key = Inr privBytes"
    "WriteFile_mode C certOutput (pem_EncodeToMemory ''CERTIFICATE'' cert) 420 e1 = (None, e2)"
    "WriteFile_mode C keyOutput (pem_EncodeToMemory ''EC PRIVATE KEY'' privBytes) 384 e2 = (None, e')"
    using assms(2) by (auto simp: certs_local_def ExportPEM_def Let_def split: prod.splits sum.splits option.splits)
  have "F e2 = (F e)(certOutput \<mapsto> (pem_EncodeToMemory ''CERTIFICATE'' cert, case F e certOutput of None \<Rightarrow> 420 | Some (_, m) \<Rightarrow> m))"
    using cert_lawsD(1) [OF assms(1) run(3)] GenerateSelfSignedCert_files [OF assms(1) run(1)] by simp
  then show ?thesis using run(1,2) cert_lawsD(1) [OF assms(1) run(4)] by auto
qed

text \<open>
  \<open>certs local\<close> that reports an error changes no file but the two it names; when the key could not be written the certificate
  stays behind without its key.
\<close>

theorem certs_local_fails:
  assumes "cert_laws C F" "certs_local C certOutput keyOutput e = (Some err, e')"
  shows "(\<forall>q. q \<noteq> certOutput \<and> q \<noteq> keyOutput \<longrightarrow> F e' q = F e q) \<and>
    (\<forall>kerr. err = wrap_error ''failed to write private key file'' kerr \<and> certOutput \<noteq> keyOutput \<and> \<not> is_panic err \<longrightarrow>
       (\<exists>cert key e1. GenerateSelfSignedCert C e = (Inr (cert, key), e1) \<and>
          map_option fst (F e' certOutput) = Some (pem_EncodeToMemory ''CERTIFICATE'' cert)))"
proof -
  have stage: "\<not> is_panic e1 \<Longrightarrow> wrap_error s e1 = wrap_error s' e2 \<Longrightarrow> s = s'" for s s' e1 e2
    by (cases e1; cases e2) auto
  have written: ?thesis
    if "GenerateSelfSignedCert C e = (Inr (cert, key), e1)" "WriteFile_mode C certOutput (pem_EncodeToMemory ''CERTIFICATE'' cert) 420 e1 = (None, e2)"
      "WriteFile_mode C keyOutput keyPEM 384 e2 = (Some kerr, e')" for cert key e1 e2 keyPEM kerr
    using that GenerateSelfSignedCert_files [OF assms(1) that(1)] cert_lawsD(1) [OF assms(1) that(2)] cert_lawsD(2) [OF assms(1) that(3)]
    by auto
  have "err = wrap_error s e0 \<Longrightarrow> s \<noteq> ''failed to write private key file'' \<Longrightarrow> (\<forall>q. q \<noteq> certOutput \<longrightarrow> F e' q = F e q) \<Longrightarrow> ?thesis" for s e0
    using stage [of e0 s] by auto
  note early = this
  obtain r e1 where G: "GenerateSelfSignedCert C e = (r, e1)" by fastforce
  note files = GenerateSelfSignedCert_files [OF assms(1) G]
  consider (gen) e0 where "err = wrap_error ''failed to generate certificate'' e0" "e' = e1"
    | (pem) e0 where "err = wrap_error ''failed to export certificate and key'' e0" "e' = e1"
    | (cert) e0 d where "err = wrap_error ''failed to write certificate file'' e0" "WriteFile_mode C certOutput d 420 e1 = (Some e0, e')"
    | (key) cert key keyPEM e2 e0 where "r = Inr (cert, key)" "WriteFile_mode C certOutput (pem_EncodeToMemory ''CERTIFICATE'' cert) 420 e1 = (None, e2)"
        "WriteFile_mode C keyOutput keyPEM 384 e2 = (Some e0, e')"
    using assms(2) G by (auto simp: certs_local_def ExportPEM_def Let_def split: prod.splits sum.splits option.splits)
  then show ?thesis
  proof cases
    case gen
    then show ?thesis using files by (intro early) auto
  next
    case pem
    then show ?thesis using files by (intro early) auto
  next
    case cert
    then show ?thesis using files cert_lawsD(2) [OF assms(1) cert(2)] by (intro early) auto
  next
    case key
    then show ?thesis using G by (intro written) auto
  qed
qed

text \<open>
  The certificate is requested for one year from the clock: with a clock that does not run backwards it is valid for at least a year,
  and its serial number is always 1.
\<close>

theorem certificate_validity:
  assumes "GenerateSelfSignedCert C e = (Inr (cert, key), e')"
    and "\<forall>e1 t1 e2. time_Now C e1 = (t1, e2) \<longrightarrow> t1 \<le> fst (time_Now C e2)"
  shows "\<exists>t e3. x509_CreateCertificate C t key e3 = (Inr cert, e') \<and> ct_NotBefore t + year \<le> ct_NotAfter t \<and> ct_SerialNumber t = 1"
proof -
  obtain t1 t2 e1 e2 e3 where run: "time_Now C e1 = (t1, e2)" "time_Now C e2 = (t2, e3)"
    "x509_CreateCertificate C (cert_template_at t1 t2) key e3 = (Inr cert, e')"
    using GenerateSelfSignedCert_validity [OF assms(1)] by blast
  have "t1 \<le> t2" using assms(2) run(1,2) by (metis fst_conv)
  then show ?thesis using run(3)
    by (intro exI [of _ "cert_template_at t1 t2"] exI [of _ e3]) (simp add: cert_template_at_def)
qed

section \<open>An instance of the library\<close>

text \<open>A clock and files; the files under \<open>full\<close> cannot be written.\<close>

definition plain_certs :: "(nat, int \<times> (string, bytes \<times> nat) fmap) cert_lib" where
  "plain_certs = \<lparr>ecdsa_GenerateKey = (\<lambda>e. (Inr 7, e)),
     time_Now = (\<lambda>(t, fs). (t, (t + 1, fs))),
     x509_CreateCertificate = (\<lambda>tm k e. (Inr [1, 2], e)),
     x509_MarshalECPrivateKey = (\<lambda>k. Inr [3]),
     WriteFile_mode = (\<lambda>p d m (t, fs).
       if p = ''full'' then (Some (ErrorS ''no space''), (t, fs))
       else (None, (t, fmupd p (d, case fmlookup fs p of None \<Rightarrow> m | Some (_, m0) \<Rightarrow> m0) fs))),
     exec_CombinedOutput = (\<lambda>n args e. (([], Some (ErrorS ''not found'')), e))\<rparr>"

lemma plain_cert_laws: "cert_laws plain_certs (\<lambda>e. fmlookup (snd e))"
  unfolding cert_laws_def by (auto simp: plain_certs_def fun_eq_iff split: if_splits)

theorem certs_local_saves_witness:
  "\<exists>e'. certs_local plain_certs ''c'' ''k'' (0, fmempty) = (None, e') \<and>
     fmlookup (snd e') ''k'' = Some (pem_EncodeToMemory ''EC PRIVATE KEY'' [3], 384)"
proof -
  obtain e' where run: "certs_local plain_certs ''c'' ''k'' (0, fmempty) = (None, e')"
    by (simp add: certs_local_def GenerateSelfSignedCert_def ExportPEM_def plain_certs_def)
  then show ?thesis using certs_local_saves [OF plain_cert_laws run] by (auto simp: plain_certs_def)
qed

theorem certs_local_fails_witness:
  "\<exists>e'. certs_local plain_certs ''c'' ''full'' (0, fmempty) = (Some (Wrapped ''failed to write private key file'' (ErrorS ''no space'')), e') \<and>
     (\<exists>cert. map_option fst (fmlookup (snd e') ''c'') = Some (pem_EncodeToMemory ''CERTIFICATE'' cert))"
proof -
  obtain e' where run: "certs_local plain_certs ''c'' ''full'' (0, fmempty) =
      (Some (Wrapped ''failed to write private key file'' (ErrorS ''no space'')), e')"
    by (simp add: certs_local_def GenerateSelfSignedCert_def ExportPEM_def plain_certs_def)
  have "\<exists>cert. map_option fst (fmlookup (snd e') ''c'') = Some (pem_EncodeToMemory ''CERTIFICATE'' cert)"
    using conjunct2 [OF certs_local_fails [OF plain_cert_laws run], rule_format, of "ErrorS ''no space''"] by simp blast
  then show ?thesis using run by blast
qed

theorem certificate_validity_witness:
  "\<exists>e' t e3. GenerateSelfSignedCert plain_certs (5, fmempty) = (Inr ([1, 2], 7), e') \<and>
     x509_CreateCertificate plain_certs t 7 e3 = (Inr [1, 2], e') \<and> ct_NotBefore t + year \<le> ct_NotAfter t"
proof -
  obtain e' where run: "GenerateSelfSignedCert plain_certs (5, fmempty) = (Inr ([1, 2], 7), e')"
    by (simp add: GenerateSelfSignedCert_def plain_certs_def)
  have "\<forall>e1 t1 e2. time_Now plain_certs e1 = (t1, e2) \<longrightarrow> t1 \<le> fst (time_Now plain_certs e2)"
    by (auto simp: plain_certs_def)
  then show ?thesis using certificate_validity [OF run] run by blast
qed

end
