(* ===== verification/Type_Helpers.thy ===== *)
theory Type_Helpers
  imports Genesis Configuration
begin

text \<open>
  \<open>pkg/types/strings.go\<close> and \<open>pkg/types/db.go\<close>: parsing a decimal number, and the names of the databases.  Shown here: the parser accepts exactly an
  optional sign and digits, it inverts the printing of \<open>math/big\<close>, and the names of the databases are distinct.
\<close>

definition StringToBigInt :: "string \<Rightarrow> int result" where
  "StringToBigInt numberStr =
     (case big_SetString numberStr of
        None \<Rightarrow> Inl (ErrorS (''failed to parse big integer from string: '' @ numberStr))
      | Some balance \<Rightarrow> Inr balance)"

text \<open>\<open>String\<close> of a \<open>big.Int\<close>.\<close>

definition big_String :: "int \<Rightarrow> string" where
  "big_String n = (if n < 0 then ''-'' @ decimal (nat (- n)) else decimal (nat n))"

datatype db_type = BlocksDB | IndexDB | MetadataDB | TransactionsDB | DAGPredecessorsDB | DAGSuccessorsDB

fun DbType_String :: "db_type \<Rightarrow> string" where
  "DbType_String BlocksDB = ''blocks''"
| "DbType_String IndexDB = ''index''"
| "DbType_String MetadataDB = ''metadata''"
| "DbType_String TransactionsDB = ''transactions''"
| "DbType_String DAGPredecessorsDB = ''dag_predecessors''"
| "DbType_String DAGSuccessorsDB = ''dag_successors''"

lemma dec_digits_digits:
  assumes "\<forall>c \<in> set s. 48 \<le> (of_char c :: nat) \<and> (of_char c :: nat) < 58"
  shows "dec_digits acc s = Some (digits_value s acc)"
  using assms by (induction s arbitrary: acc) (auto simp: dec_value_def Let_def)

lemma dec_digits_other: "dec_digits acc s \<noteq> None \<Longrightarrow> \<forall>c \<in> set s. 48 \<le> (of_char c :: nat) \<and> (of_char c :: nat) < 58"
  by (induction s arbitrary: acc) (auto simp: dec_value_def Let_def split: if_splits)

lemma dec_digits_decimal: "dec_digits 0 (decimal n) = Some n"
  using dec_digits_digits [of "decimal n" 0] decimal_chars digits_value_decimal by metis

lemma decimal_nonempty: "decimal n \<noteq> ''''"
  by (subst decimal.simps) simp

text \<open>
  Parsing what \<open>math/big\<close> prints gives the number back, of either sign and any size; what is accepted is an optional sign and at
  least one digit, nothing else.
\<close>

theorem StringToBigInt_String:
  "StringToBigInt (big_String n) = Inr n \<and>
   (StringToBigInt s = Inr m \<longrightarrow>
     (\<exists>sign ds. s = sign @ ds \<and> sign \<in> {'''', ''-'', ''+''} \<and> ds \<noteq> '''' \<and> list_all (\<lambda>c. 48 \<le> (of_char c :: nat) \<and> (of_char c :: nat) < 58) ds))"
proof
  obtain c cs where dec: "decimal (nat \<bar>n\<bar>) = c # cs" using decimal_nonempty by (meson neq_Nil_conv)
  then have "c \<noteq> CHR ''-''" "c \<noteq> CHR ''+''" using decimal_chars [of c "nat \<bar>n\<bar>"] by auto
  then show "StringToBigInt (big_String n) = Inr n"
    using dec dec_digits_decimal [of "nat \<bar>n\<bar>"] by (cases "n < 0") (auto simp: StringToBigInt_def big_String_def big_SetString_def)
  show "StringToBigInt s = Inr m \<longrightarrow>
     (\<exists>sign ds. s = sign @ ds \<and> sign \<in> {'''', ''-'', ''+''} \<and> ds \<noteq> '''' \<and> list_all (\<lambda>c. 48 \<le> (of_char c :: nat) \<and> (of_char c :: nat) < 58) ds)"
  proof
    assume ok: "StringToBigInt s = Inr m"
    show "\<exists>sign ds. s = sign @ ds \<and> sign \<in> {'''', ''-'', ''+''} \<and> ds \<noteq> '''' \<and> list_all (\<lambda>c. 48 \<le> (of_char c :: nat) \<and> (of_char c :: nat) < 58) ds"
    proof (cases s)
      case Nil
      then show ?thesis using ok by (simp add: StringToBigInt_def big_SetString_def)
    next
      case (Cons c cs)
      define sign where "sign = (if c = CHR ''-'' \<or> c = CHR ''+'' then [c] else [])"
      define ds where "ds = (if c = CHR ''-'' \<or> c = CHR ''+'' then cs else c # cs)"
      have "dec_digits 0 ds \<noteq> None" "ds \<noteq> ''''"
        using ok Cons by (auto simp: StringToBigInt_def big_SetString_def ds_def split: if_splits option.splits)
      then show ?thesis using dec_digits_other [of 0 ds] Cons
        by (intro exI [of _ sign] exI [of _ ds]) (auto simp: sign_def ds_def list_all_iff)
    qed
  qed
qed

text \<open>The databases do not share a name.\<close>

lemma DbType_String_inject: "DbType_String a = DbType_String b \<longleftrightarrow> a = b"
  by (cases a; cases b) simp_all

text \<open>A balance above 64 bits is read exactly, and a number with a blank in front is refused.\<close>

theorem StringToBigInt_String_witness:
  "StringToBigInt (big_String (- (2 ^ 70))) = Inr (- (2 ^ 70)) \<and> (\<exists>err. StringToBigInt '' 1'' = Inl err)"
proof -
  have "\<exists>err. StringToBigInt '' 1'' = Inl err" by (simp add: StringToBigInt_def big_SetString_def dec_value_def)
  then show ?thesis using StringToBigInt_String [of "- (2 ^ 70)"] by blast
qed

end
