(* ===== verification/Spec2Isabelle.thy ===== *)
theory Spec2Isabelle
  imports Sequencer Validator_Node State_Store Topology Routing Graph_Store Account_Store Runtime_Services Node
    Dns_Resolver Ebpf_Routes Privacy Keystore_Commands Services
    Routing_Manager Pubsub Instruments Certificates Type_Helpers
begin

text \<open>
  PeerDNS is a peer-to-peer name service whose nodes agree on blocks of transactions.  This development models
  \<open>src/pkg\<close>, the services and the commands, one theory per part, and proves what each promises to the
  others.  Go values keep their shape: a struct is a record with the field names behind a prefix, a machine
  integer is a word, a byte slice a list of 8-bit words, a map a finite map, an error or a panic a value of
  \<open>go_error\<close>.  A method that takes its mutex for its whole body is one function on the state it guards; a goroutine is
  a rule of a step relation, so every interleaving of whole methods is a run.  A range over a map takes the
  order as an argument and what is proved holds for every order; the clock is an argument as well.

  \<^bold>\<open>The program and the theories.\<close>
  \<^item> \<open>Prelude\<close>, \<open>Go_Stdlib\<close>, \<open>Go_Hash\<close>: results and panics, maps, byte order; slices, readers, hexadecimal, and SHA-256
    of Go's standard library.  \<open>Codec\<close>: the contract of a wire format (\<open>wire_codec\<close>, \<open>safe_codec\<close>).
  \<^item> \<open>Core_Types\<close>, \<open>Transactions\<close>, \<open>Blocks\<close> (\<open>pkg/types\<close>): hashes, addresses, transactions, blocks, Merkle roots and their
    binary forms.  \<open>Packets\<close> (\<open>pkg/packets\<close>): consensus, network and route packets.
  \<^item> \<open>Storage\<close> (\<open>pkg/storage\<close>): the key-value store over MDBX, its manager and the batch writer.  \<open>State_Store\<close>
    (\<open>pkg/state\<close>): proposals, peers, latencies and finalizations kept in it.  \<open>Storage_Open\<close> (\<open>pkg/storage\<close>, \<open>pkg/config/mdbx.go\<close>):
    opening and closing the databases, and who holds their handles.
  \<^item> \<open>Signatures\<close>, \<open>Dleq_Signer\<close> (\<open>pkg/signatures\<close>): the signers.  \<open>Account_Store\<close> (\<open>pkg/accounts\<close>): accounts with
    their signers, in memory and in files.  \<open>Privacy\<close> (\<open>pkg/privacy\<close>): encrypted messages.  \<open>Validators\<close> (\<open>pkg/accounts/account.go\<close>, \<open>pkg/metrics\<close>,
    \<open>pkg/consensus/validator_set.go\<close>): accounts, utility scores, membership, election and quorum.
  \<^item> \<open>Consensus_State\<close>, \<open>Consensus\<close> (\<open>pkg/consensus\<close>): the book-keeping and the protocol of a node.  \<open>Validator_Node\<close>
    (\<open>pkg/validator\<close>): the second consensus module, which verifies and deduplicates packets before it handles
    them, and the life cycle of a validator.  \<open>Sharding\<close> (\<open>pkg/sharding\<close>): the assignment of validators to shards.
  \<^item> \<open>Ledger_State\<close>, \<open>Ledger\<close> (\<open>pkg/ledger\<close>): balances and nonces on 64-bit words, the checks of a block, and the graph of
    blocks.  \<open>Graph_Store\<close> (\<open>pkg/graphmdbx\<close>): that graph kept in the storage.  \<open>Genesis\<close> (\<open>pkg/genesis\<close>): the first block.  \<open>Chain\<close> (\<open>pkg/chain\<close>): the chain over the ledger, its start and
    the validation of blocks from the network.
  \<^item> \<open>Tx_Pool\<close> (\<open>pkg/txpool\<close>): pending transactions.  \<open>Sequencer\<close> (\<open>pkg/sequencer\<close>): blocks made from the pool
    and added to the chain.  \<open>Service_State\<close> (\<open>pkg/node\<close>, \<open>pkg/validator\<close>, \<open>pkg/runtime\<close>, \<open>pkg/sequencer\<close>, \<open>state.go\<close>): the
    service state managers.
  \<^item> \<open>Topology\<close> (\<open>pkg/topology\<close>): connected peers and network nodes.  \<open>Networking\<close>, \<open>Discovery\<close>, \<open>Instruments\<close>, \<open>Pubsub\<close>
    (\<open>pkg/networking\<close>): the host and its peers, the DHT, the instruments, and the in-memory network the consensus code is run
    against.  \<open>Performance_Monitor\<close> (\<open>pkg/metrics/monitor.go\<close>): the pings and their reports.
  \<^item> \<open>Routing\<close>, \<open>Routing_Manager\<close> (\<open>pkg/routing\<close>), \<open>Ebpf_Routes\<close> (\<open>pkg/ebpf\<close>): routing entries, the table of the manager, and
    the programs and the map of the kernel.  \<open>Dns_Resolver\<close> (\<open>pkg/dns/resolvers\<close>): the resolver and its handlers.
  \<^item> \<open>Configuration\<close>, \<open>Logging\<close>, \<open>Observability\<close>, \<open>Type_Helpers\<close> (\<open>pkg/config\<close>, \<open>pkg/logger\<close>, \<open>pkg/observability\<close>,
    \<open>pkg/types\<close>): the settings and how they are decoded, the loggers and the hooks of \<open>main.go\<close>, metrics and traces, and a parser.
  \<^item> \<open>Runtime_Services\<close> (\<open>pkg/runtime\<close>, \<open>pkg/shutdown\<close>, \<open>pkg/resources\<close>): the registry, the start and the shutdown of services.
    \<open>Node\<close> (\<open>pkg/node\<close>): the node over the other parts.  \<open>Services\<close> (\<open>services\<close>, \<open>cmd/runtime.go\<close>): the seven services and the
    command that runs them.  \<open>Keystore_Commands\<close>, \<open>Certificates\<close> (\<open>cmd/keygen.go\<close>, \<open>cmd/certs.go\<close>, \<open>pkg/certs\<close>): the other commands.

  Packets reach \<open>Consensus\<close> and \<open>Validator_Node\<close> as bytes, are decoded by \<open>Packets\<close>, checked against the signers of
  \<open>Validators\<close> and booked in \<open>Consensus_State\<close>, which writes through \<open>Storage\<close>.  \<open>Sequencer\<close> takes transactions from
  \<open>Tx_Pool\<close>, makes a block with \<open>Blocks\<close> and gives it to \<open>Chain\<close>, which validates it against \<open>Ledger_State\<close> and links it in
  \<open>Ledger\<close>.  \<open>Node\<close> builds all of these over \<open>Storage_Open\<close>, \<open>Networking\<close> and \<open>Account_Store\<close>; \<open>Services\<close> registers the node with
  \<open>Runtime_Services\<close> from the configuration, and its shutdown runs as a callback of the shutdown manager.

  \<^bold>\<open>Interfaces.\<close>  The contracts between the parts are locales, interpreted on the definitions of the provider:
  \<open>invariant_system\<close> (a step relation and its invariant: consensus, validator module, ledger, chain, pool, shards,
  topology, network, discovery, performance monitor), \<open>wire_codec\<close> and \<open>safe_codec\<close> (every binary format), \<open>kv_provider\<close> (the interface \<open>storage.Provider\<close>, which \<open>Db\<close>
  keeps over every lawful MDBX, \<open>mdbx_store\<close>), \<open>signing\<close> (a signer; \<open>bls_keys\<close> and \<open>ed25519_keys\<close> give it; \<open>dleq_keys\<close> has what the third signer
  promises instead), \<open>graph_backend\<close> (the store behind the graph of blocks),
  \<open>quorum_system\<close> and \<open>byzantine_quorum\<close> (\<open>default_quorum\<close> gives them for a validator set), \<open>keyed_store\<close> (the message pool),
  \<open>record_table\<close> and \<open>s2_codec\<close> (the tables of \<open>State_Store\<close>), and \<open>state_registry\<close> (the four state managers).

  \<^bold>\<open>What is outside.\<close>  Code that is not in the repository is an argument of the definitions that call it, and what is
  relied on is a named hypothesis: MDBX (\<open>mdbx_laws\<close>, \<open>cursor_laws\<close>, \<open>handle_laws\<close>, and \<open>reliable\<close> and \<open>deletes_succeed\<close> where writes must
  succeed), the graph library (\<open>graph_laws\<close>, \<open>adjacency_laws\<close>), the cryptography (\<open>ed25519_laws\<close>, \<open>bls_laws\<close>, \<open>dleq_laws\<close>, \<open>key_laws\<close>,
  \<open>gcm_laws\<close>), encodings (\<open>s2_laws\<close>, \<open>json_reads_back\<close>, \<open>decode_laws\<close>, \<open>file_laws\<close>), files (\<open>os_laws\<close>, \<open>cert_laws\<close>), libp2p (\<open>reaches\<close>, \<open>carries\<close>,
  \<open>ended_laws\<close>, and the text form \<open>pstr\<close> of a peer ID), DNS (\<open>dns_laws\<close>), eBPF (\<open>link_laws\<close>, \<open>map_laws\<close>), zap (\<open>zap_laws\<close>) and OpenTelemetry
  (\<open>otel_laws\<close>).  Each is shown to be satisfiable by a concrete instance in the theory that states it or a later one: \<open>mem_mdbx\<close>, \<open>numbered_envs\<close>, the
  sample graph of \<open>Ledger\<close>, \<open>plain_bls\<close>, \<open>plain_ed25519\<close>, \<open>plain_dleq\<close>, \<open>plain_libs\<close>, \<open>plain_gcm\<close>, \<open>no_compression\<close>, \<open>sample_yaml\<close>, \<open>mem_files\<close>,
  \<open>plain_certs\<close>, \<open>sample_libp2p\<close>, \<open>filling_dht\<close>, \<open>ended_pubsub\<close>, \<open>plain_dns\<close>, \<open>plain_kernel\<close>, \<open>sample_zap\<close>, \<open>plain_otel\<close>.
  The network is its answers to what was sent before.
  Floating-point numbers are any type with the operations used.

  \<^bold>\<open>What is shown.\<close>
  \<^item> Consensus: a finalized block has a quorum of authentic approvals unless a finalization packet was handled; two
    finalized blocks share an honest approver; a quorum of approvals finalizes; no packet crashes a node whose
    validators have their signers.  The module of \<open>pkg/validator\<close> finalizes only on a verified finalization packet or a
    quorum of verified approvals; its leader finalizes at the quorum; a second message of a validator for a block
    is ignored, whatever its type.
  \<^item> Ledger and chain: a valid block conserves the balances and cannot be replayed, the graph of blocks stays
    acyclic, stored blocks follow their predecessor, and the walk to the genesis block ends.
  \<^item> Formats: every binary format reads back what it wrote, and no input makes a reader of network data panic; the block
    hash binds the transactions.  The routing entry is the exception, and what it loses is proved.
  \<^item> Storage: \<open>Db\<close> and the batch writer refine a map; a prefix scan is exact; stored proposals and finalizations
    never change; the listings are exact.
  \<^item> Accounts and keys: the accounts in memory are well typed and are what a restart reads back; the keystore commands refine a
    map of accounts across runs; decryption inverts encryption and accepts nothing else.
  \<^item> Network: a start connects the reachable bootstrap peers; the gauges and reports are sound; the in-memory network is a log
    with a reading position per topic; a resolver answers all questions or fails; the table of routes and the map of the kernel
    agree over IPv4, and do not over IPv6.
  \<^item> Node and runtime: what a node has after its constructor, its start and its shutdown; starts and shutdowns end, with every
    interleaving of their goroutines; which services a run registers and how it fails; who closes the databases and the links.
  \<^item> Settings: a transport section has the type it names, TLS settings are sound, a message is logged from the configured level on; which
    providers run after observability was set up and shut down.
  \<^item> Pool, sequencer, shards, topology, state managers: bounds, exact effects, invariants, and which waiter is woken.
  \<^item> Where the code does not do what its comments or its callers expect, the behaviour it has is proved instead and
    listed among the findings of the manifest.

  \<^bold>\<open>Loops.\<close>  Loops over lists and bounded counters are structural recursion.  A loop that may not end is a
  \<open>partial_function\<close> in the option type: the prefix scan over a database cursor, the walk to the genesis block and the retries of \<open>Advertise\<close>, of
  which it is a theorem when they return, and \<open>ReadMessages\<close>, of which it is a theorem that it never does.  No fuel is used.

  \<^bold>\<open>Not modelled.\<close>  The package documentation, the helpers of the tests, and what the libraries named above do beyond their
  hypotheses.  The methods of the identity manager and of the network that the routing manager calls are not in the repository
  and are parameters.  Log lines are modelled only where the logger is the subject, and the text inside most error messages is left out.
  Interleavings inside a method that releases its mutex are modelled only for \<open>WaitForState\<close>, the start and the shutdown of services and the
  performance monitor.
\<close>

end
